(* ===== verification/Prelude.thy ===== *)
theory Prelude
  imports Main "HOL-Library.Char_ord" "HOL-Library.List_Lexorder" "HOL-Library.Product_Lexorder"
    "HOL-Library.Sublist"
begin

text \<open>
  The vocabulary the component theories share.

  \<^item> Go errors as values: sentinels (\<^verbatim>\<open>errors.New\<close> values compared with \<^verbatim>\<open>errors.Is\<close>),
    plain messages, \<^verbatim>\<open>fmt.Errorf\<close> with one \<^verbatim>\<open>%w\<close>, the constraint failures of SQLite and the
    two error types of the private Provisioner API.
  \<^item> Actions: functions from a state to a result and a new state. A Go function that returns
    \<^verbatim>\<open>(value, error)\<close> is an action; its result is \<open>Inl\<close> of the error or \<open>Inr\<close> of the value.
    A failed action keeps the state changes made before the failure, as Go does; only \<open>inTx\<close>
    (\<^verbatim>\<open>Store.InTx\<close>) undoes them.
  \<^item> Tables: a table of the database is the list of its rows in insertion order. \<^verbatim>\<open>SELECT\<close>,
    \<^verbatim>\<open>UPDATE\<close> and \<^verbatim>\<open>DELETE\<close> with a \<^verbatim>\<open>WHERE\<close> clause are \<open>filter\<close>, \<open>updateWhere\<close> and
    \<open>deleteWhere\<close>.
  \<^item> \<open>obeys R m\<close>: every run of the action \<open>m\<close> relates its first and last state by \<open>R\<close>. The
    locale \<open>monitor\<close> lifts it through the action combinators once and for all for any reflexive and
    transitive \<open>R\<close>; the components interpret it with their invariants and history relations.
\<close>

named_theorems obeys_intros
named_theorems table_simps

section \<open>Go errors\<close>

datatype sentinel =
    ErrNotFound | ErrConflict | ErrNoRows
  | ErrStaleConfiguration | ErrConfigurationConflict | ErrConfigurationBusy
  | ErrSecretSnapshotUnavailable | ErrInvalidTransition
  | ErrAlreadyBootstrapped | ErrInvalidCredentials | ErrUnauthenticated
  | ErrExhausted | ErrProjectConflict | ErrInvalidFunctionName
  | ErrStaleConfigRevision | ErrInvalidReconcileRevision

fun sentinelText :: "sentinel \<Rightarrow> string" where
  "sentinelText ErrNotFound = ''not found''"
| "sentinelText ErrConflict = ''conflict''"
| "sentinelText ErrNoRows = ''sql: no rows in result set''"
| "sentinelText ErrStaleConfiguration = ''stale server configuration revision''"
| "sentinelText ErrConfigurationConflict = ''server configuration conflicts with another server''"
| "sentinelText ErrConfigurationBusy = ''server configuration operation is busy''"
| "sentinelText ErrSecretSnapshotUnavailable = ''encrypted secret snapshot is unavailable''"
| "sentinelText ErrInvalidTransition = ''invalid operation transition''"
| "sentinelText ErrAlreadyBootstrapped = ''manager is already bootstrapped''"
| "sentinelText ErrInvalidCredentials = ''invalid credentials''"
| "sentinelText ErrUnauthenticated = ''unauthenticated''"
| "sentinelText ErrExhausted = ''no available port in allocation range''"
| "sentinelText ErrProjectConflict = ''project conflicts with an existing project''"
| "sentinelText ErrInvalidFunctionName = ''invalid function name''"
| "sentinelText ErrStaleConfigRevision = ''stale config revision''"
| "sentinelText ErrInvalidReconcileRevision = ''invalid reconcile revision''"

text \<open>
  \<open>Errorf a e b\<close> is \<^verbatim>\<open>fmt.Errorf("a%wb", e)\<close>. \<open>UniqueViolation\<close> and \<open>ForeignKeyViolation\<close> are
  the driver's constraint failures, \<open>ScanNull\<close> its refusal to scan SQL \<^verbatim>\<open>NULL\<close> into a Go string.
  \<open>ClientError code message rolledBack known changed\<close> is \<^verbatim>\<open>provisioner.ClientError\<close> and
  \<open>ReconcileFailure cause rolledBack changed unknown\<close> is \<^verbatim>\<open>contracts.ReconcileFailure\<close>. \<open>FieldError\<close> and
  \<open>ValidationError\<close> are the error types of \<^verbatim>\<open>project/validate.go\<close> and \<^verbatim>\<open>project/configuration.go\<close>.
\<close>

datatype goerr =
    Sentinel sentinel
  | ErrorsNew string
  | Errorf string goerr string
  | UniqueViolation string
  | ForeignKeyViolation
  | ScanNull string
  | ClientError string string bool bool bool
  | ReconcileFailure goerr bool bool bool
  | Joined "goerr list"
  | FieldError string string
  | ValidationError "(string \<times> string) list"

fun joinLines :: "string list \<Rightarrow> string" where
  "joinLines [] = []"
| "joinLines [x] = x"
| "joinLines (x # xs) = x @ CHR 0x0A # joinLines xs"

fun joinWith :: "string \<Rightarrow> string list \<Rightarrow> string" where
  "joinWith sep [] = []"
| "joinWith sep [x] = x"
| "joinWith sep (x # xs) = x @ sep @ joinWith sep xs"

text \<open>\<^verbatim>\<open>(*ValidationError).Error\<close>: the fields in the order of their paths.\<close>

definition validationText :: "(string \<times> string) list \<Rightarrow> string" where
  "validationText fields = (if fields = [] then ''configuration is invalid''
     else joinWith ''; '' (map (\<lambda>(field, message). field @ '': '' @ message) (sort_key fst fields)))"

fun errText :: "goerr \<Rightarrow> string" where
  "errText (Sentinel s) = sentinelText s"
| "errText (ErrorsNew m) = m"
| "errText (Errorf a e b) = a @ errText e @ b"
| "errText (UniqueViolation c) = ''constraint failed: UNIQUE constraint failed: '' @ c"
| "errText ForeignKeyViolation = ''constraint failed: FOREIGN KEY constraint failed (787)''"
| "errText (ScanNull c) =
     ''sql: Scan error on column '' @ c @ '': converting NULL to string is unsupported''"
| "errText (ClientError code m rb known changed) = ''provisioner '' @ code @ '': '' @ m"
| "errText (ReconcileFailure c rb changed unknown) = ''runtime reconciliation failed''"
| "errText (Joined es) = joinLines (map errText es)"
| "errText (FieldError field message) = field @ '': '' @ message"
| "errText (ValidationError fields) = validationText fields"

text \<open>\<^verbatim>\<open>errors.Is\<close> against a sentinel: the chain of wrapped errors is searched.\<close>

fun errorsIs :: "goerr \<Rightarrow> sentinel \<Rightarrow> bool" where
  "errorsIs (Sentinel s) t = (s = t)"
| "errorsIs (Errorf a e b) t = errorsIs e t"
| "errorsIs (ReconcileFailure c rb changed unknown) t = errorsIs c t"
| "errorsIs (ClientError code m rb known changed) t =
     (if code = ''STALE_CONFIG_REVISION'' then t = ErrStaleConfigRevision
      else if code = ''INVALID_CONFIG_REVISION'' then t = ErrInvalidReconcileRevision
      else False)"
| "errorsIs (Joined es) t = list_ex (\<lambda>e. errorsIs e t) es"
| "errorsIs (ErrorsNew m) t = False"
| "errorsIs (UniqueViolation c) t = False"
| "errorsIs ForeignKeyViolation t = False"
| "errorsIs (ScanNull c) t = False"
| "errorsIs (FieldError field message) t = False"
| "errorsIs (ValidationError fields) t = False"

section \<open>Actions\<close>

type_synonym ('s, 'a) act = "'s \<Rightarrow> (goerr + 'a) \<times> 's"

definition ret :: "'a \<Rightarrow> ('s, 'a) act" where
  "ret x s = (Inr x, s)"

definition throw :: "goerr \<Rightarrow> ('s, 'a) act" where
  "throw e s = (Inl e, s)"

text \<open>\<open>x, err := m; if err != nil { return err }; k(x)\<close>\<close>

definition andThen :: "('s, 'a) act \<Rightarrow> ('a \<Rightarrow> ('s, 'b) act) \<Rightarrow> ('s, 'b) act" where
  "andThen m k s = (case m s of (Inl e, t) \<Rightarrow> (Inl e, t) | (Inr x, t) \<Rightarrow> k x t)"

text \<open>\<open>x, err := m\<close> with the error handled by what follows.\<close>

definition attempt :: "('s, 'a) act \<Rightarrow> ('s, goerr + 'a) act" where
  "attempt m s = (case m s of (r, t) \<Rightarrow> (Inr r, t))"

text \<open>\<open>_ = m\<close>\<close>

definition ignoreErr :: "('s, 'a) act \<Rightarrow> ('s, unit) act" where
  "ignoreErr m s = (case m s of (r, t) \<Rightarrow> (Inr (), t))"

text \<open>\<open>if b { return e }\<close>\<close>

definition failIf :: "bool \<Rightarrow> goerr \<Rightarrow> ('s, unit) act" where
  "failIf b e s = (if b then (Inl e, s) else (Inr (), s))"

definition gets :: "('s \<Rightarrow> 'a) \<Rightarrow> ('s, 'a) act" where
  "gets f s = (Inr (f s), s)"

definition modify :: "('s \<Rightarrow> 's) \<Rightarrow> ('s, unit) act" where
  "modify f s = (Inr (), f s)"

text \<open>\<open>return m\<close> with every error of \<open>m\<close> rewritten by \<open>h\<close>.\<close>

definition mapErr :: "(goerr \<Rightarrow> goerr) \<Rightarrow> ('s, 'a) act \<Rightarrow> ('s, 'a) act" where
  "mapErr h m s = (case m s of (Inl e, t) \<Rightarrow> (Inl (h e), t) | (Inr x, t) \<Rightarrow> (Inr x, t))"

text \<open>The body \<open>m\<close> followed by the deferred calls \<open>d\<close>, whatever \<open>m\<close> returned.\<close>

definition deferring :: "('s, 'b) act \<Rightarrow> ('s, 'a) act \<Rightarrow> ('s, 'a) act" where
  "deferring d m s = (case m s of (r, t) \<Rightarrow> (r, snd (d t)))"

text \<open>\<^verbatim>\<open>Store.InTx\<close>: an error rolls every statement of the transaction back.\<close>

definition inTx :: "('s, 'a) act \<Rightarrow> ('s, 'a) act" where
  "inTx m s = (case m s of (Inl e, t) \<Rightarrow> (Inl e, s) | (Inr x, t) \<Rightarrow> (Inr x, t))"

fun forEach :: "'b list \<Rightarrow> ('b \<Rightarrow> ('s, unit) act) \<Rightarrow> ('s, unit) act" where
  "forEach [] f = ret ()"
| "forEach (x # xs) f = andThen (f x) (\<lambda>_. forEach xs f)"

lemmas act_defs = ret_def throw_def andThen_def attempt_def ignoreErr_def failIf_def gets_def
  modify_def mapErr_def deferring_def inTx_def

lemma ret_run [simp]: "ret x s = (Inr x, s)"
  by (simp add: ret_def)

lemma throw_run [simp]: "throw e s = (Inl e, s)"
  by (simp add: throw_def)

lemma failIf_run [simp]: "failIf b e s = (if b then (Inl e, s) else (Inr (), s))"
  by (simp add: failIf_def)

lemma gets_run [simp]: "gets f s = (Inr (f s), s)"
  by (simp add: gets_def)

lemma modify_run [simp]: "modify f s = (Inr (), f s)"
  by (simp add: modify_def)

lemma andThen_Inr [simp]: "m s = (Inr x, t) \<Longrightarrow> andThen m k s = k x t"
  by (simp add: andThen_def)

lemma andThen_Inl [simp]: "m s = (Inl e, t) \<Longrightarrow> andThen m k s = (Inl e, t)"
  by (simp add: andThen_def)

lemma andThen_ret [simp]: "andThen (ret x) k = k x"
  by (rule ext) simp

lemma andThen_eq_Inr:
  "andThen m k s = (Inr y, u) \<longleftrightarrow> (\<exists>x t. m s = (Inr x, t) \<and> k x t = (Inr y, u))"
  by (auto simp: andThen_def split: prod.splits sum.splits)

lemma andThen_eq_Inl:
  "andThen m k s = (Inl e, u) \<longleftrightarrow>
     m s = (Inl e, u) \<or> (\<exists>x t. m s = (Inr x, t) \<and> k x t = (Inl e, u))"
  by (auto simp: andThen_def split: prod.splits sum.splits)

lemma inTx_Inl: "inTx m s = (Inl e, t) \<Longrightarrow> t = s"
  by (auto simp: inTx_def split: prod.splits sum.splits)

lemma inTx_eq_Inr [simp]: "inTx m s = (Inr x, t) \<longleftrightarrow> m s = (Inr x, t)"
  by (auto simp: inTx_def split: prod.splits sum.splits)

lemma inTx_eq_Inl [simp]: "inTx m s = (Inl e, t) \<longleftrightarrow> t = s \<and> (\<exists>u. m s = (Inl e, u))"
  by (auto simp: inTx_def split: prod.splits sum.splits)

lemma attempt_eq [simp]: "attempt m s = (Inr r, t) \<longleftrightarrow> m s = (r, t)" "attempt m s \<noteq> (Inl e, t)"
  by (auto simp: attempt_def split: prod.splits)

lemma mapErr_eq_Inr [simp]: "mapErr h m s = (Inr x, t) \<longleftrightarrow> m s = (Inr x, t)"
  by (auto simp: mapErr_def split: prod.splits sum.splits)

lemma deferring_run: "deferring d m s = (fst (m s), snd (d (snd (m s))))"
  by (simp add: deferring_def split: prod.splits)

lemma ignoreErr_run: "ignoreErr m s = (Inr (), snd (m s))"
  by (simp add: ignoreErr_def split: prod.splits)

text \<open>The run returned a value; for evaluation on concrete inputs.\<close>

definition succeeds :: "('s, 'a) act \<Rightarrow> 's \<Rightarrow> bool" where
  "succeeds m s = (case fst (m s) of Inl e \<Rightarrow> False | Inr x \<Rightarrow> True)"

lemma succeedsE:
  assumes "succeeds m s"
  obtains x where "m s = (Inr x, snd (m s))"
  using assms by (cases "m s") (auto simp: succeeds_def split: sum.splits)

section \<open>Go maps\<close>

text \<open>
  A Go map is an association list with distinct keys; a read of an absent key gives the zero value,
  and an assignment replaces the value or adds the key.
\<close>

fun mapPut :: "'k \<Rightarrow> 'v \<Rightarrow> ('k \<times> 'v) list \<Rightarrow> ('k \<times> 'v) list" where
  "mapPut k v [] = [(k, v)]"
| "mapPut k v ((a, b) # m) = (if a = k then (k, v) # m else (a, b) # mapPut k v m)"

definition mapGet :: "'v \<Rightarrow> ('k \<times> 'v) list \<Rightarrow> 'k \<Rightarrow> 'v" where
  "mapGet zero m k = (case map_of m k of None \<Rightarrow> zero | Some v \<Rightarrow> v)"

definition mapHas :: "('k \<times> 'v) list \<Rightarrow> 'k \<Rightarrow> bool" where
  "mapHas m k = (map_of m k \<noteq> None)"

definition mapDelete :: "'k \<Rightarrow> ('k \<times> 'v) list \<Rightarrow> ('k \<times> 'v) list" where
  "mapDelete k m = filter (\<lambda>(a, b). a \<noteq> k) m"

lemma map_of_mapPut [simp]: "map_of (mapPut k v m) = (map_of m)(k \<mapsto> v)"
  by (induction k v m rule: mapPut.induct) auto

lemma map_of_mapDelete [simp]: "map_of (mapDelete k m) = (map_of m)(k := None)"
  by (induction m) (auto simp: mapDelete_def)

lemma dom_mapPut [simp]: "fst ` set (mapPut k v m) = insert k (fst ` set m)"
  by (induction k v m rule: mapPut.induct) auto

lemma distinct_mapPut: "distinct (map fst m) \<Longrightarrow> distinct (map fst (mapPut k v m))"
  by (induction k v m rule: mapPut.induct) auto

lemma ran_mapPut: "snd ` set (mapPut k v m) \<subseteq> insert v (snd ` set m)"
  by (induction k v m rule: mapPut.induct) auto

lemma length_mapPut: "k \<notin> fst ` set m \<Longrightarrow> length (mapPut k v m) = Suc (length m)"
  by (induction k v m rule: mapPut.induct) auto

lemma length_mapPut_le: "length (mapPut k v m) \<le> Suc (length m)"
  by (induction k v m rule: mapPut.induct) auto

section \<open>Monitored actions\<close>

definition obeys :: "('s \<Rightarrow> 's \<Rightarrow> bool) \<Rightarrow> ('s \<Rightarrow> 'r \<times> 's) \<Rightarrow> bool" where
  "obeys R m \<longleftrightarrow> (\<forall>s. R s (snd (m s)))"

lemma obeysD: "obeys R m \<Longrightarrow> m s = (r, t) \<Longrightarrow> R s t"
  unfolding obeys_def by (metis snd_conv)

lemma obeysI: "(\<And>s r t. m s = (r, t) \<Longrightarrow> R s t) \<Longrightarrow> obeys R m"
  unfolding obeys_def by (metis surjective_pairing)

locale monitor =
  fixes R :: "'s \<Rightarrow> 's \<Rightarrow> bool"
  assumes R_refl: "R s s"
    and R_trans: "R s t \<Longrightarrow> R t u \<Longrightarrow> R s u"
begin

lemma obeys_ret [obeys_intros]: "obeys R (ret x)"
  by (simp add: obeys_def R_refl)

lemma obeys_Pair [obeys_intros]: "obeys R (Pair r)"
  by (simp add: obeys_def R_refl)

lemma obeys_throw [obeys_intros]: "obeys R (throw e)"
  by (simp add: obeys_def R_refl)

lemma obeys_failIf [obeys_intros]: "obeys R (failIf b e)"
  by (simp add: obeys_def R_refl)

lemma obeys_gets [obeys_intros]: "obeys R (gets f)"
  by (simp add: obeys_def R_refl)

lemma obeys_andThen [obeys_intros]:
  assumes "obeys R m" and "\<And>x. obeys R (k x)"
  shows "obeys R (andThen m k)"
proof (rule obeysI)
  fix s r t
  assume "andThen m k s = (r, t)"
  then show "R s t"
    using assms by (auto simp: andThen_def split: prod.splits sum.splits
        intro: R_trans dest: obeysD)
qed

lemma obeys_attempt [obeys_intros]: "obeys R m \<Longrightarrow> obeys R (attempt m)"
  by (auto simp: obeys_def attempt_def split: prod.splits) (metis snd_conv)

lemma obeys_ignoreErr [obeys_intros]: "obeys R m \<Longrightarrow> obeys R (ignoreErr m)"
  by (auto simp: obeys_def ignoreErr_def split: prod.splits) (metis snd_conv)

lemma obeys_mapErr [obeys_intros]: "obeys R m \<Longrightarrow> obeys R (mapErr h m)"
  by (auto simp: obeys_def mapErr_def split: prod.splits sum.splits) (metis snd_conv)+

lemma obeys_inTx [obeys_intros]: "obeys R m \<Longrightarrow> obeys R (inTx m)"
  by (auto simp: obeys_def inTx_def R_refl split: prod.splits sum.splits) (metis snd_conv)

lemma obeys_deferring [obeys_intros]:
  assumes "obeys R d" and "obeys R m"
  shows "obeys R (deferring d m)"
proof (rule obeysI)
  fix s r t
  assume "deferring d m s = (r, t)"
  then show "R s t"
    using assms by (auto simp: deferring_def obeys_def split: prod.splits)
      (metis R_trans snd_conv)
qed

lemma obeys_forEach [obeys_intros]:
  "(\<And>x. obeys R (f x)) \<Longrightarrow> obeys R (forEach xs f)"
  by (induction xs) (auto intro: obeys_ret obeys_andThen)

text \<open>Actions one after the other, whatever each returns.\<close>

lemma R_fold:
  assumes "\<And>x. obeys R (f x)"
  shows "R s (fold (\<lambda>x t. snd (f x t)) xs s)"
proof (induction xs arbitrary: s)
  case (Cons x xs)
  have "R s (snd (f x s))" using assms by (simp add: obeys_def)
  from R_trans [OF this Cons.IH] show ?case by simp
qed (simp add: R_refl)

end

lemma obeys_if [obeys_intros]:
  "(b \<Longrightarrow> obeys R m) \<Longrightarrow> (\<not> b \<Longrightarrow> obeys R n) \<Longrightarrow> obeys R (if b then m else n)"
  by simp

lemma obeys_case_option [obeys_intros]:
  "(v = None \<Longrightarrow> obeys R m) \<Longrightarrow> (\<And>x. v = Some x \<Longrightarrow> obeys R (n x)) \<Longrightarrow>
     obeys R (case v of None \<Rightarrow> m | Some x \<Rightarrow> n x)"
  by (cases v) auto

lemma obeys_case_sum [obeys_intros]:
  "(\<And>e. v = Inl e \<Longrightarrow> obeys R (m e)) \<Longrightarrow> (\<And>x. v = Inr x \<Longrightarrow> obeys R (n x)) \<Longrightarrow>
     obeys R (case v of Inl e \<Rightarrow> m e | Inr x \<Rightarrow> n x)"
  by (cases v) auto

lemma obeys_case_prod [obeys_intros]:
  "(\<And>x y. v = (x, y) \<Longrightarrow> obeys R (m x y)) \<Longrightarrow> obeys R (case v of (x, y) \<Rightarrow> m x y)"
  by (cases v) auto

lemma obeys_Let [obeys_intros]:
  "(\<And>x. x = v \<Longrightarrow> obeys R (m x)) \<Longrightarrow> obeys R (let x = v in m x)"
  by simp

lemma obeys_mono: "obeys R m \<Longrightarrow> (\<And>s t. R s t \<Longrightarrow> Q s t) \<Longrightarrow> obeys Q m"
  by (auto simp: obeys_def)

section \<open>Tables\<close>

definition updateWhere :: "('r \<Rightarrow> bool) \<Rightarrow> ('r \<Rightarrow> 'r) \<Rightarrow> 'r list \<Rightarrow> 'r list" where
  "updateWhere P f t = map (\<lambda>r. if P r then f r else r) t"

definition deleteWhere :: "('r \<Rightarrow> bool) \<Rightarrow> 'r list \<Rightarrow> 'r list" where
  "deleteWhere P t = filter (\<lambda>r. \<not> P r) t"

definition existsWhere :: "('r \<Rightarrow> bool) \<Rightarrow> 'r list \<Rightarrow> bool" where
  "existsWhere P t = list_ex P t"

definition countWhere :: "('r \<Rightarrow> bool) \<Rightarrow> 'r list \<Rightarrow> nat" where
  "countWhere P t = length (filter P t)"

text \<open>The table has no two rows with the same key: its primary key or a \<^verbatim>\<open>UNIQUE\<close> constraint.\<close>

definition keyed :: "('r \<Rightarrow> 'k) \<Rightarrow> 'r list \<Rightarrow> bool" where
  "keyed k t \<longleftrightarrow> distinct (map k t)"

lemma existsWhere_iff [table_simps]: "existsWhere P t \<longleftrightarrow> (\<exists>r\<in>set t. P r)"
  by (simp add: existsWhere_def list_ex_iff)

lemma set_updateWhere [table_simps]: "set (updateWhere P f t) = (\<lambda>r. if P r then f r else r) ` set t"
  by (simp add: updateWhere_def)

lemma set_deleteWhere [table_simps]: "set (deleteWhere P t) = {r \<in> set t. \<not> P r}"
  by (simp add: deleteWhere_def)

lemma keyed_Nil [simp]: "keyed k []"
  by (simp add: keyed_def)

lemma keyed_append [table_simps]:
  "keyed k (t @ [r]) \<longleftrightarrow> keyed k t \<and> (\<forall>x\<in>set t. k x \<noteq> k r)"
  by (auto simp: keyed_def image_iff)

lemma keyed_deleteWhere [intro, simp]: "keyed k t \<Longrightarrow> keyed k (deleteWhere P t)"
  unfolding keyed_def deleteWhere_def by (rule distinct_map_filter)

lemma map_updateWhere:
  "(\<And>r. P r \<Longrightarrow> k (f r) = k r) \<Longrightarrow> map k (updateWhere P f t) = map k t"
  by (simp add: updateWhere_def)

lemma keyed_updateWhere [intro]:
  "keyed k t \<Longrightarrow> (\<And>r. P r \<Longrightarrow> k (f r) = k r) \<Longrightarrow> keyed k (updateWhere P f t)"
  by (simp add: keyed_def map_updateWhere)

lemma keyed_unique:
  "keyed k t \<Longrightarrow> x \<in> set t \<Longrightarrow> y \<in> set t \<Longrightarrow> k x = k y \<Longrightarrow> x = y"
  unfolding keyed_def by (meson distinct_map inj_onD)

lemma find_keyed:
  "keyed k t \<Longrightarrow> x \<in> set t \<Longrightarrow> find (\<lambda>r. k r = k x) t = Some x"
  by (induction t) (auto simp: keyed_def)

lemma find_SomeD: "find P t = Some x \<Longrightarrow> x \<in> set t \<and> P x"
  by (induction t) (auto split: if_splits)

lemma find_keyed_iff:
  "keyed k t \<Longrightarrow> find (\<lambda>r. k r = x) t = Some r \<longleftrightarrow> r \<in> set t \<and> k r = x"
  using find_keyed by (auto dest: find_SomeD)

lemma find_keyed2_iff:
  "keyed (\<lambda>r. (k r, l r)) t \<Longrightarrow>
     find (\<lambda>r. k r = x \<and> l r = y) t = Some r \<longleftrightarrow> r \<in> set t \<and> k r = x \<and> l r = y"
  using find_keyed_iff [of "\<lambda>r. (k r, l r)" t "(x, y)" r] by simp

lemma find_updateWhere:
  assumes "\<And>r. P r \<Longrightarrow> Q (f r) = Q r"
  shows "find Q (updateWhere P f t) = map_option (\<lambda>r. if P r then f r else r) (find Q t)"
  using assms by (induction t) (auto simp: updateWhere_def)

lemma find_append: "find P (xs @ ys) = (case find P xs of None \<Rightarrow> find P ys | Some x \<Rightarrow> Some x)"
  by (induction xs) auto

lemma find_snoc: "\<not> existsWhere Q t \<Longrightarrow> Q r \<Longrightarrow> find Q (t @ [r]) = Some r"
  by (auto simp: find_append existsWhere_iff split: option.splits dest: find_SomeD)

lemma find_deleteWhere_disjoint:
  "(\<And>r. Q r \<Longrightarrow> \<not> P r) \<Longrightarrow> find Q (deleteWhere P t) = find Q t"
  by (induction t) (auto simp: deleteWhere_def)

lemma find_deleteWhere_same: "(\<And>r. Q r \<Longrightarrow> P r) \<Longrightarrow> find Q (deleteWhere P t) = None"
  by (auto simp: find_None_iff table_simps)

lemma keyed_filter: "keyed k t \<Longrightarrow> keyed k (filter P t)"
  unfolding keyed_def by (rule distinct_map_filter)

lemma keyed_append_disjoint:
  "keyed k t \<Longrightarrow> keyed k u \<Longrightarrow> (\<And>x y. x \<in> set t \<Longrightarrow> y \<in> set u \<Longrightarrow> k x \<noteq> k y) \<Longrightarrow> keyed k (t @ u)"
  by (fastforce simp: keyed_def)

lemma image_updateWhere [simp]:
  "(\<And>r. P r \<Longrightarrow> k (f r) = k r) \<Longrightarrow> k ` set (updateWhere P f t) = k ` set t"
  by (metis image_set map_updateWhere)

text \<open>A foreign key: the values of column \<open>f\<close> are among \<open>A\<close>.\<close>

definition refs :: "('r \<Rightarrow> 'k) \<Rightarrow> 'r list \<Rightarrow> 'k set \<Rightarrow> bool" where
  "refs f t A \<longleftrightarrow> f ` set t \<subseteq> A"

lemma refs_Nil [simp]: "refs f [] A"
  by (simp add: refs_def)

lemma refs_snoc: "refs f t A \<Longrightarrow> f r \<in> A \<Longrightarrow> refs f (t @ [r]) A"
  by (auto simp: refs_def)

lemma refs_append: "refs f t A \<Longrightarrow> refs f u A \<Longrightarrow> refs f (t @ u) A"
  by (auto simp: refs_def)

lemma refs_updateWhere: "(\<And>r. P r \<Longrightarrow> f (g r) = f r) \<Longrightarrow> refs f t A \<Longrightarrow> refs f (updateWhere P g t) A"
  by (simp add: refs_def)

lemma refs_deleteWhere: "refs f t A \<Longrightarrow> refs f (deleteWhere P t) A"
  by (auto simp: refs_def table_simps)

lemma refs_mono: "refs f t A \<Longrightarrow> A \<subseteq> B \<Longrightarrow> refs f t B"
  by (auto simp: refs_def)

lemma refs_removed: "refs k t A \<Longrightarrow> refs k (deleteWhere (\<lambda>r. k r = x) t) (A - {x})"
  by (auto simp: refs_def table_simps)

lemma keyed_snoc: "keyed k t \<Longrightarrow> (\<And>x. x \<in> set t \<Longrightarrow> k x \<noteq> k r) \<Longrightarrow> keyed k (t @ [r])"
  by (auto simp: keyed_append)

lemmas table_intros = keyed_snoc keyed_updateWhere keyed_deleteWhere refs_snoc refs_updateWhere
  refs_deleteWhere

end
