(* ===== verification/GoText.thy ===== *)
theory GoText
  imports Prelude
begin

text \<open>
  The parts of Go's string library the sources use, on byte strings: ASCII case and white space,
  \<^verbatim>\<open>strings.TrimSpace\<close>, \<^verbatim>\<open>HasPrefix\<close>, \<^verbatim>\<open>Contains\<close>, \<^verbatim>\<open>Split\<close> on one separator byte, decimal
  integers (\<^verbatim>\<open>strconv.Itoa\<close>) and a small regular-expression matcher in which the patterns of the
  sources are written literally. Bytes above 127 are neither white space nor upper case here, so
  the model covers strings whose non-ASCII runes are not Unicode spaces or cased letters.
\<close>

section \<open>Characters\<close>

definition inRange :: "nat \<Rightarrow> nat \<Rightarrow> char \<Rightarrow> bool" where
  "inRange lo hi c = (lo \<le> of_char c \<and> of_char c \<le> hi)"

abbreviation isDigit :: "char \<Rightarrow> bool" where "isDigit \<equiv> inRange 48 57"
abbreviation isUpper :: "char \<Rightarrow> bool" where "isUpper \<equiv> inRange 65 90"
abbreviation isLower :: "char \<Rightarrow> bool" where "isLower \<equiv> inRange 97 122"

definition isSpace :: "char \<Rightarrow> bool" where
  "isSpace c = (inRange 9 13 c \<or> c = CHR '' '')"

definition toLowerC :: "char \<Rightarrow> char" where
  "toLowerC c = (if isUpper c then char_of (of_char c + (32 :: nat)) else c)"

definition toLower :: "string \<Rightarrow> string" where
  "toLower s = map toLowerC s"

definition trimSpace :: "string \<Rightarrow> string" where
  "trimSpace s = rev (dropWhile isSpace (rev (dropWhile isSpace s)))"

definition equalFold :: "string \<Rightarrow> string \<Rightarrow> bool" where
  "equalFold a b = (toLower a = toLower b)"

definition hasPrefix :: "string \<Rightarrow> string \<Rightarrow> bool" where
  "hasPrefix s p = prefix p s"

definition hasSuffix :: "string \<Rightarrow> string \<Rightarrow> bool" where
  "hasSuffix s p = suffix p s"

definition contains :: "string \<Rightarrow> string \<Rightarrow> bool" where
  "contains s p = sublist p s"

text \<open>\<^verbatim>\<open>strings.Split(s, sep)\<close> for a one-byte separator; the result is never empty.\<close>

fun splitOn :: "char \<Rightarrow> string \<Rightarrow> string list" where
  "splitOn sep [] = [[]]"
| "splitOn sep (c # cs) =
     (if c = sep then [] # splitOn sep cs
      else (case splitOn sep cs of [] \<Rightarrow> [[c]] | w # ws \<Rightarrow> (c # w) # ws))"

section \<open>Decimal integers\<close>

definition digitChar :: "nat \<Rightarrow> char" where
  "digitChar n = char_of (48 + n)"

text \<open>The decimal digits of a non-negative integer.\<close>

function showInt :: "int \<Rightarrow> string" where
  "showInt i = (if i < 10 then [digitChar (nat i)]
     else showInt (i div 10) @ [digitChar (nat (i mod 10))])"
  by auto
termination by (relation "measure nat") auto

declare showInt.simps [simp del]

definition itoa :: "int \<Rightarrow> string" where
  "itoa i = (if i < 0 then CHR ''-'' # showInt (- i) else showInt i)"

definition readInt :: "string \<Rightarrow> int" where
  "readInt s = foldl (\<lambda>n c. 10 * n + (of_char c - 48)) 0 s"

lemma of_char_digitChar [simp]: "n < 10 \<Longrightarrow> (of_char (digitChar n) :: nat) = 48 + n"
  by (simp add: digitChar_def)

lemma of_char_digitChar_int: "n < 10 \<Longrightarrow> (of_char (digitChar n) :: int) = 48 + int n"
  using of_char_digitChar [of n] by (metis of_nat_add of_nat_numeral of_nat_of_char)

lemma readInt_snoc: "readInt (s @ [c]) = 10 * readInt s + (of_char c - 48)"
  by (simp add: readInt_def)

lemma readInt_showInt: "0 \<le> i \<Longrightarrow> readInt (showInt i) = i"
proof (induction i rule: showInt.induct)
  case (1 i)
  show ?case
  proof (cases "i < 10")
    case True
    with 1 show ?thesis by (subst showInt.simps) (simp add: readInt_def of_char_digitChar_int)
  next
    case False
    then have "readInt (showInt i) = 10 * (i div 10) + i mod 10"
      using 1 by (subst showInt.simps) (simp add: readInt_snoc of_char_digitChar_int nat_less_iff)
    then show ?thesis by simp
  qed
qed

lemma showInt_inj: "0 \<le> i \<Longrightarrow> 0 \<le> j \<Longrightarrow> showInt i = showInt j \<longleftrightarrow> i = j"
  by (metis readInt_showInt)

lemma showInt_digits: "0 \<le> i \<Longrightarrow> c \<in> set (showInt i) \<Longrightarrow> isDigit c"
proof (induction i rule: showInt.induct)
  case (1 i)
  show ?case
  proof (cases "i < 10")
    case True
    with 1 show ?thesis by (simp add: showInt.simps [of i] inRange_def nat_less_iff)
  next
    case False
    with 1 have "c \<in> set (showInt (i div 10)) \<or> c = digitChar (nat (i mod 10))"
      by (auto simp: showInt.simps [of i])
    with 1 False show ?thesis by (auto simp: inRange_def nat_less_iff)
  qed
qed

lemma showInt_nonempty [simp]: "showInt i \<noteq> []"
  by (subst showInt.simps) simp

lemma itoa_inj [simp]: "itoa i = itoa j \<longleftrightarrow> i = j"
proof -
  have "CHR ''-'' # s \<noteq> showInt n" if "0 \<le> n" for s n
  proof
    assume "CHR ''-'' # s = showInt n"
    then have "CHR ''-'' \<in> set (showInt n)" by (metis list.set_intros(1))
    with that have "isDigit (CHR ''-'')" by (rule showInt_digits)
    then show False by (simp add: inRange_def)
  qed
  then show ?thesis
    by (auto simp: itoa_def showInt_inj dest: sym)
qed

end
