(* ===== verification/GoTime.thy ===== *)
theory GoTime
  imports GoText
begin

text \<open>
  Times. A Go \<^verbatim>\<open>time.Time\<close> is the number of nanoseconds since the Unix epoch (UTC). The database
  keeps times as text in the layout \<^verbatim>\<open>time.RFC3339Nano\<close> (\<^verbatim>\<open>formatTime\<close> of
  \<^verbatim>\<open>store/projects.go\<close>) and compares leases by that text, so the layout is modelled here,
  calendar included. Rows of the model keep the time itself; a comparison that SQLite makes on text
  is made on \<open>formatTime\<close>.
\<close>

type_synonym gotime = int

definition second :: int where "second = 1000000000"
definition minute :: int where "minute = 60 * second"
definition hour :: int where "hour = 60 * minute"

section \<open>The calendar\<close>

text \<open>Year and day of the year of the day number \<open>d\<close>, day 0 being 1 January of year 1.\<close>

definition yearDay :: "int \<Rightarrow> int \<times> int" where
  "yearDay d =
     (let n400 = d div 146097; d1 = d mod 146097;
          c = d1 div 36524; n100 = c - c div 4; d2 = d1 - 36524 * n100;
          n4 = d2 div 1461; d3 = d2 mod 1461;
          q = d3 div 365; n1 = q - q div 4; d4 = d3 - 365 * n1
      in (1 + 400 * n400 + 100 * n100 + 4 * n4 + n1, d4))"

definition isLeap :: "int \<Rightarrow> bool" where
  "isLeap y = (y mod 4 = 0 \<and> (y mod 100 \<noteq> 0 \<or> y mod 400 = 0))"

definition monthLengths :: "bool \<Rightarrow> int list" where
  "monthLengths leap = [31, if leap then 29 else 28, 31, 30, 31, 30, 31, 31, 30, 31, 30, 31]"

fun monthDay :: "int list \<Rightarrow> int \<Rightarrow> int \<Rightarrow> int \<times> int" where
  "monthDay [] m d = (m, d)"
| "monthDay (l # ls) m d = (if d < l then (m, d) else monthDay ls (m + 1) (d - l))"

fun pad :: "nat \<Rightarrow> int \<Rightarrow> string" where
  "pad 0 n = []"
| "pad (Suc k) n = pad k (n div 10) @ [digitChar (nat (n mod 10))]"

text \<open>\<open>1970-01-01\<close> is day 719162 of that count.\<close>

definition dateText :: "int \<Rightarrow> string" where
  "dateText day =
     (let (y, yd) = yearDay (day + 719162); (m, d) = monthDay (monthLengths (isLeap y)) 1 yd
      in pad 4 y @ ''-'' @ pad 2 m @ ''-'' @ pad 2 (d + 1))"

definition clockText :: "int \<Rightarrow> string" where
  "clockText s = pad 2 (s div 3600) @ '':'' @ pad 2 (s div 60 mod 60) @ '':'' @ pad 2 (s mod 60)"

definition secondsText :: "int \<Rightarrow> string" where
  "secondsText s = dateText (s div 86400) @ ''T'' @ clockText (s mod 86400)"

section \<open>RFC3339Nano\<close>

text \<open>The fraction is printed without its trailing zeros, and not at all when it is zero.\<close>

definition trimZeros :: "string \<Rightarrow> string" where
  "trimZeros s = rev (dropWhile (\<lambda>c. c = CHR ''0'') (rev s))"

definition fractionText :: "int \<Rightarrow> string" where
  "fractionText n = (if n = 0 then [] else CHR ''.'' # trimZeros (pad 9 n))"

definition formatTime :: "gotime \<Rightarrow> string" where
  "formatTime t = secondsText (t div second) @ fractionText (t mod second) @ ''Z''"

text \<open>\<^verbatim>\<open>formatTime(a) <= formatTime(b)\<close> as SQLite compares text (byte order).\<close>

definition textLe :: "gotime \<Rightarrow> gotime \<Rightarrow> bool" where
  "textLe a b = (formatTime a \<le> formatTime b)"

lemma textLe_refl [simp]: "textLe a a"
  by (simp add: textLe_def)

lemma textLe_trans: "textLe a b \<Longrightarrow> textLe b c \<Longrightarrow> textLe a c"
  by (simp add: textLe_def)

lemma textLe_total: "textLe a b \<or> textLe b a"
  unfolding textLe_def by (rule linear)

end
