(* ===== verification/Contracts.thy ===== *)
theory Contracts
  imports GoTime
begin

text \<open>
  The shared data model of \<^verbatim>\<open>internal/contracts\<close>: projects, the project configuration aggregate,
  operations and their events, and the requests of the private Provisioner API. Field names carry a
  prefix per record because record fields share one name space. A Go map is an association list with
  distinct keys; the list order stands for the (unspecified) iteration order of the map. A field
  that the API receives as text and the code validates (a storage backend, a log level) is a
  \<open>string\<close>; a value the code itself writes (an operation status) is a datatype.
\<close>

section \<open>Projects\<close>

datatype ProjectStatus =
    ProjectStatusDraft | ProjectStatusInstalling | ProjectStatusRunning | ProjectStatusStopped
  | ProjectStatusDegraded | ProjectStatusFailed | ProjectStatusDeleting

datatype HealthStatus =
    HealthHealthy | HealthDegraded | HealthStarting | HealthStopped | HealthUnhealthy | HealthUnknown

text \<open>The text of the Go constant.\<close>

fun healthText :: "HealthStatus \<Rightarrow> string" where
  "healthText HealthHealthy = ''HEALTHY''"
| "healthText HealthDegraded = ''DEGRADED''"
| "healthText HealthStarting = ''STARTING''"
| "healthText HealthStopped = ''STOPPED''"
| "healthText HealthUnhealthy = ''UNHEALTHY''"
| "healthText HealthUnknown = ''UNKNOWN''"

datatype Preset = PresetLightweight | PresetStandard | PresetFull | PresetCustom | PresetOther string

record Services =
  svc_Database :: bool
  svc_Gateway :: bool
  svc_Auth :: bool
  svc_REST :: bool
  svc_Studio :: bool
  svc_PostgresMeta :: bool
  svc_Realtime :: bool
  svc_Storage :: bool
  svc_Imgproxy :: bool
  svc_Functions :: bool
  svc_Supavisor :: bool
  svc_Logs :: bool
  svc_Vector :: bool
  svc_DirectDB :: bool

section \<open>Configuration\<close>

record SecretInput =
  si_Action :: string
  si_Value :: string

definition noSecret :: SecretInput where
  "noSecret = \<lparr>si_Action = [], si_Value = []\<rparr>"

record GeneralConfig =
  gen_Domain :: string
  gen_SiteURL :: string
  gen_SupabaseVersion :: string
  gen_StudioUsername :: string
  gen_StudioPasswordSet :: bool
  gen_StudioPassword :: SecretInput

record EmailAuthConfig =
  em_Enabled :: bool
  em_AllowSignup :: bool
  em_ConfirmEmail :: bool
  em_SecureEmailChange :: bool
  em_DoubleConfirmChanges :: bool
  em_SecurePasswordChange :: bool
  em_RequireCurrentPassword :: bool
  em_PreventLeakedPasswords :: bool
  em_MinimumPasswordLength :: int
  em_PasswordRequirements :: string
  em_EmailOTPExpiration :: int
  em_EmailOTPLength :: int

record PhoneAuthConfig =
  ph_Enabled :: bool
  ph_Provider :: string
  ph_SecretSet :: bool
  ph_Secret :: SecretInput
  ph_Fields :: "(string \<times> string) list"

record SMTPConfig =
  smtp_Enabled :: bool
  smtp_Host :: string
  smtp_Port :: int
  smtp_Username :: string
  smtp_PasswordSet :: bool
  smtp_Password :: SecretInput
  smtp_SenderEmail :: string
  smtp_SenderName :: string

record EmailTemplateConfig =
  tpl_Subject :: string
  tpl_Body :: string

record EmailTemplatesConfig =
  tpls_Confirmation :: EmailTemplateConfig
  tpls_Invite :: EmailTemplateConfig
  tpls_MagicLink :: EmailTemplateConfig
  tpls_EmailChange :: EmailTemplateConfig
  tpls_Recovery :: EmailTemplateConfig
  tpls_Reauthentication :: EmailTemplateConfig

record EmailNotificationConfig =
  ntf_Enabled :: bool
  ntf_Template :: EmailTemplateConfig

record EmailNotificationsConfig =
  ntfs_PasswordChanged :: EmailNotificationConfig
  ntfs_EmailChanged :: EmailNotificationConfig
  ntfs_PhoneChanged :: EmailNotificationConfig
  ntfs_IdentityLinked :: EmailNotificationConfig
  ntfs_IdentityUnlinked :: EmailNotificationConfig
  ntfs_MFAFactorEnrolled :: EmailNotificationConfig
  ntfs_MFAFactorUnenrolled :: EmailNotificationConfig

record MailerConfig =
  ml_Templates :: EmailTemplatesConfig
  ml_Notifications :: EmailNotificationsConfig

record RateLimitConfig =
  rl_EmailSent :: int
  rl_SMSSent :: int
  rl_TokenRefresh :: int
  rl_TokenVerification :: int
  rl_AnonymousUsers :: int
  rl_SignupsAndSignins :: int

record MFAConfig =
  mfa_TOTPEnrollEnabled :: bool
  mfa_TOTPVerifyEnabled :: bool
  mfa_PhoneEnrollEnabled :: bool
  mfa_PhoneVerifyEnabled :: bool
  mfa_MaxEnrolledFactors :: int
  mfa_PhoneOTPLength :: int

record OAuthProviderConfig =
  oa_Enabled :: bool
  oa_ClientID :: string
  oa_SecretSet :: bool
  oa_Secret :: SecretInput
  oa_Fields :: "(string \<times> string) list"

record AuthConfig =
  auth_Enabled :: bool
  auth_JWTExpiry :: int
  auth_DisableSignup :: bool
  auth_Email :: EmailAuthConfig
  auth_Phone :: PhoneAuthConfig
  auth_AnonymousSignIn :: bool
  auth_ManualLinking :: bool
  auth_RedirectURLs :: "string list"
  auth_OAuth :: "(string \<times> OAuthProviderConfig) list"
  auth_SMTP :: SMTPConfig
  auth_Mailer :: MailerConfig
  auth_RateLimits :: RateLimitConfig
  auth_MFA :: MFAConfig

record StorageConfig =
  st_Backend :: string
  st_S3CompatibleAPI :: bool
  st_Bucket :: string
  st_Region :: string
  st_Endpoint :: string
  st_AccountID :: string
  st_AccessKeyID :: string
  st_SecretAccessKeySet :: bool
  st_SecretAccessKey :: SecretInput
  st_ForcePathStyle :: bool
  st_LocalPath :: string

record RealtimeConfig =
  rt_MaxConnections :: int
  rt_DatabasePoolSize :: int
  rt_LogLevel :: string

record FunctionVariable =
  fv_Name :: string
  fv_ValueSet :: bool
  fv_Value :: SecretInput

record FunctionsConfig =
  fn_DefaultJWTVerification :: bool
  fn_Directory :: string
  fn_Variables :: "FunctionVariable list"

record DatabaseConfig =
  db_Version :: string
  db_DirectPort :: bool
  db_DirectPortNumber :: int
  db_MaxConnections :: int
  db_SharedBuffers :: string
  db_Extensions :: "string list"

record PoolerConfig =
  pool_TransactionPort :: int
  pool_SessionPort :: int
  pool_PoolSize :: int
  pool_MaxClientConnections :: int

record ManagedTLSConfig =
  tls_CertificateName :: string
  tls_CertificateFile :: string
  tls_PrivateKeyFile :: string

record NetworkConfig =
  net_Gateway :: string
  net_HTTPSMode :: string
  net_ManagedTLS :: "ManagedTLSConfig option"
  net_InternalGatewayPort :: int
  net_APIPort :: int
  net_StudioPort :: int
  net_DirectDatabasePort :: int
  net_PoolerPort :: int

record ProjectConfiguration =
  cfg_Revision :: int
  cfg_General :: GeneralConfig
  cfg_Services :: Services
  cfg_Auth :: AuthConfig
  cfg_Storage :: StorageConfig
  cfg_Realtime :: RealtimeConfig
  cfg_Functions :: FunctionsConfig
  cfg_Database :: DatabaseConfig
  cfg_Pooler :: PoolerConfig
  cfg_Network :: NetworkConfig

record ConfigurationPatch =
  patch_ExpectedRevision :: int
  patch_Configuration :: "ProjectConfiguration option"
  patch_General :: "GeneralConfig option"
  patch_Services :: "Services option"
  patch_Auth :: "AuthConfig option"
  patch_Storage :: "StorageConfig option"
  patch_Realtime :: "RealtimeConfig option"
  patch_Functions :: "FunctionsConfig option"
  patch_Database :: "DatabaseConfig option"
  patch_Pooler :: "PoolerConfig option"
  patch_Network :: "NetworkConfig option"

definition OAuthProviderNames :: "string list" where
  "OAuthProviderNames =
     [''apple'', ''azure'', ''bitbucket'', ''discord'', ''facebook'', ''figma'',
      ''github'', ''gitlab'', ''google'', ''kakao'', ''keycloak'', ''linkedin_oidc'',
      ''notion'', ''slack_oidc'', ''snapchat'', ''spotify'', ''twitch'', ''twitter'',
      ''workos'', ''zoom'']"

record ProjectDraft =
  draft_Name :: string
  draft_Slug :: string
  draft_Preset :: Preset
  draft_Configuration :: ProjectConfiguration

record Project =
  p_ID :: string
  p_Name :: string
  p_Slug :: string
  p_Domain :: string
  p_SiteURL :: string
  p_Status :: ProjectStatus
  p_Health :: HealthStatus
  p_SupabaseVersion :: string
  p_Preset :: Preset
  p_ConfigurationRevision :: int
  p_Services :: Services
  p_CreatedAt :: gotime
  p_UpdatedAt :: gotime

section \<open>Operations\<close>

datatype OperationType =
    OperationCreate | OperationStart | OperationStop | OperationRestart | OperationUpdateConfig
  | OperationUpdateVersion | OperationDelete | OperationBackup | OperationRestore
  | OperationDeployFunction | OperationRollbackFunction | OperationDeleteFunction

datatype OperationStatus =
    OperationQueued | OperationRunning | OperationSucceeded | OperationFailed
  | OperationRollingBack | OperationRolledBack | OperationCancelled

record Operation =
  op_ID :: string
  op_ProjectID :: string
  op_Type :: OperationType
  op_Status :: OperationStatus
  op_CurrentStep :: string
  op_Progress :: int
  op_ErrorCode :: string
  op_ErrorMessage :: string
  op_StartedAt :: "gotime option"
  op_FinishedAt :: "gotime option"
  op_CreatedAt :: gotime

record OperationEvent =
  ev_OperationID :: string
  ev_Sequence :: int
  ev_Type :: string
  ev_Payload :: string
  ev_CreatedAt :: gotime

section \<open>Provisioner requests\<close>

record ProjectSecrets =
  ps_DatabasePassword :: string
  ps_JWTSecret :: string
  ps_AnonKey :: string
  ps_ServiceRoleKey :: string
  ps_DashboardPassword :: string
  ps_SecretKeyBase :: string
  ps_VaultEncryptionKey :: string
  ps_RealtimeDBEncryptionKey :: string
  ps_LogflarePublicAccessToken :: string
  ps_LogflarePrivateAccessToken :: string
  ps_S3ProtocolAccessKeyID :: string
  ps_S3ProtocolAccessKeySecret :: string
  ps_PoolerTenantID :: string

definition noProjectSecrets :: ProjectSecrets where
  "noProjectSecrets = \<lparr>ps_DatabasePassword = [], ps_JWTSecret = [], ps_AnonKey = [],
     ps_ServiceRoleKey = [], ps_DashboardPassword = [], ps_SecretKeyBase = [],
     ps_VaultEncryptionKey = [], ps_RealtimeDBEncryptionKey = [],
     ps_LogflarePublicAccessToken = [], ps_LogflarePrivateAccessToken = [],
     ps_S3ProtocolAccessKeyID = [], ps_S3ProtocolAccessKeySecret = [], ps_PoolerTenantID = []\<rparr>"

text \<open>\<open>LifecycleUnset\<close> is the empty string, the zero value of the Go type.\<close>

datatype LifecycleAction =
    LifecycleStart | LifecycleStop | LifecycleRestart | LifecycleDeleteRuntime | LifecycleDeleteData
  | LifecycleUnset

record LifecycleRequest =
  lr_OperationID :: string
  lr_IdempotencyKey :: string
  lr_ProjectID :: string
  lr_ProjectName :: string
  lr_Slug :: string
  lr_Action :: LifecycleAction
  lr_ConfirmProjectName :: string

record InspectProjectRequest =
  ir_ProjectID :: string
  ir_Slug :: string
  ir_EnabledServices :: "string list"

record ReconcileProjectRequest =
  rr_OperationID :: string
  rr_IdempotencyKey :: string
  rr_ProjectID :: string
  rr_ProjectName :: string
  rr_Slug :: string
  rr_ExpectedRevision :: int
  rr_NextRevision :: int
  rr_APIPort :: int
  rr_Configuration :: ProjectConfiguration
  rr_Secrets :: ProjectSecrets
  rr_RuntimeSecrets :: "(string \<times> string) list"
  rr_Fence :: int

record ReconcileProjectResponse =
  rs_OperationID :: string
  rs_ProjectID :: string
  rs_Revision :: int
  rs_EnabledServices :: "string list"
  rs_RecreatedServices :: "string list"

record RotateDatabasePasswordRequest =
  rot_OperationKind :: string
  rot_OperationID :: string
  rot_IdempotencyKey :: string
  rot_ProjectID :: string
  rot_ProjectName :: string
  rot_Slug :: string
  rot_ExpectedRevision :: int
  rot_NextRevision :: int
  rot_OldPassword :: string
  rot_NewPassword :: string
  rot_Configuration :: ProjectConfiguration
  rot_Secrets :: ProjectSecrets
  rot_RuntimeSecrets :: "(string \<times> string) list"
  rot_Fence :: int

record RotateDatabasePasswordResponse =
  rotr_OperationID :: string
  rotr_ProjectID :: string
  rotr_Revision :: int

record ConfirmDatabasePasswordRotationRequest =
  crot_OperationID :: string
  crot_IdempotencyKey :: string
  crot_ProjectID :: string
  crot_Slug :: string
  crot_ExpectedRevision :: int
  crot_NextRevision :: int
  crot_Fence :: int

end
