(* ===== verification/Store.thy ===== *)
theory Store
  imports Contracts
begin

text \<open>
  The SQLite database of the Manager (\<^verbatim>\<open>apps/manager/internal/store\<close>): its tables after all
  migrations, the redaction of a configuration before it is stored, and the project and secret
  operations of \<^verbatim>\<open>store/projects.go\<close>. A statement runs as SQLite runs it: primary keys,
  \<^verbatim>\<open>UNIQUE\<close> constraints and foreign keys are checked at every insert and update, and deleting a
  project cascades. A JSON column holds the decoded value. Failures of the disk or of the
  connection are not modelled: a statement fails only by a constraint.

  The second half proves the schema invariant \<open>dbWf\<close> (keys and references) for the operations
  here; the other store theories prove it for theirs.
\<close>

section \<open>Tables\<close>

record Envelope =
  env_Version :: int
  env_Nonce :: string
  env_Ciphertext :: string

record ProjectRow = Project +
  pr_LastGoodRevision :: int

record ConfigRow =
  pc_Project :: string
  pc_Revision :: int
  pc_Config :: ProjectConfiguration

record CanonicalRow =
  cc_Project :: string
  cc_Config :: ProjectConfiguration

record ServiceRow =
  sv_Project :: string
  sv_Service :: string
  sv_Enabled :: bool

record SecretRow =
  sec_Project :: string
  sec_Kind :: string
  sec_Envelope :: Envelope

record SecretVersionRow =
  ver_Project :: string
  ver_Revision :: int
  ver_Kind :: string
  ver_Envelope :: Envelope

record MarkerRow =
  mk_Project :: string
  mk_Revision :: int
  mk_Present :: bool

record OperationRow =
  o_ID :: string
  o_ProjectID :: "string option"
  o_Type :: OperationType
  o_Status :: OperationStatus
  o_CurrentStep :: string
  o_Progress :: int
  o_ErrorCode :: string
  o_ErrorMessage :: string
  o_StartedAt :: "gotime option"
  o_FinishedAt :: "gotime option"
  o_CreatedAt :: gotime
  o_CompensationPhase :: string
  o_CompensationKey :: string

record PortRow =
  pt_Port :: int
  pt_Project :: string
  pt_Kind :: string

record OperationConfigRow =
  oc_Operation :: string
  oc_Project :: string
  oc_Revision :: int
  oc_Config :: ProjectConfiguration
  oc_Kind :: string
  oc_Fence :: int

record OperationSecretRow =
  os_Operation :: string
  os_Kind :: string
  os_Envelope :: Envelope

record LeaseRow =
  ls_Project :: string
  ls_Owner :: string
  ls_Fence :: int
  ls_AcquiredAt :: gotime
  ls_ExpiresAt :: gotime

record ReservationRow =
  rv_Kind :: string
  rv_Key :: string
  rv_Project :: string
  rv_Operation :: string
  rv_Revision :: int

record FunctionCommand =
  fc_OperationID :: string
  fc_ProjectID :: string
  fc_Name :: string
  fc_ArchiveSHA256 :: string
  fc_CreatedAt :: gotime

record AdminRecord =
  ad_ID :: string
  ad_Username :: string
  ad_PasswordHash :: string
  ad_MustChangePassword :: bool
  ad_CreatedAt :: gotime
  ad_UpdatedAt :: gotime

record RecoveryCodeRecord =
  rc_ID :: string
  rc_CodeHash :: string

record RecoveryRow = RecoveryCodeRecord +
  rc_Admin :: string

record SessionRecord =
  se_TokenHash :: string
  se_AdminID :: string
  se_CSRFHash :: string
  se_LastSeenAt :: gotime
  se_ExpiresAt :: gotime
  se_CreatedAt :: gotime

record database =
  projects :: "ProjectRow list"
  projectConfigs :: "ConfigRow list"
  canonicalConfigs :: "CanonicalRow list"
  projectServices :: "ServiceRow list"
  projectSecrets :: "SecretRow list"
  secretVersions :: "SecretVersionRow list"
  secretMarkers :: "MarkerRow list"
  operations :: "OperationRow list"
  operationEvents :: "OperationEvent list"
  portAllocations :: "PortRow list"
  operationConfigs :: "OperationConfigRow list"
  operationSecrets :: "OperationSecretRow list"
  leases :: "LeaseRow list"
  reservations :: "ReservationRow list"
  functionOperations :: "FunctionCommand list"
  admins :: "AdminRecord list"
  recoveryCodes :: "RecoveryRow list"
  sessions :: "SessionRecord list"

definition emptyDatabase :: database where
  "emptyDatabase = \<lparr>projects = [], projectConfigs = [], canonicalConfigs = [],
     projectServices = [], projectSecrets = [], secretVersions = [], secretMarkers = [],
     operations = [], operationEvents = [], portAllocations = [], operationConfigs = [],
     operationSecrets = [], leases = [], reservations = [], functionOperations = [],
     admins = [], recoveryCodes = [], sessions = []\<rparr>"

record ConfigurationLease =
  lease_Owner :: string
  lease_Fence :: int

record ConfigurationSnapshot =
  snap_ProjectID :: string
  snap_Revision :: int
  snap_LastGoodRevision :: int
  snap_Configuration :: ProjectConfiguration
  snap_Fence :: int

record SecretMutation =
  sm_Kind :: string
  sm_Envelope :: Envelope
  sm_Delete :: bool

section \<open>Redaction and projections\<close>

definition redactOAuth :: "OAuthProviderConfig \<Rightarrow> OAuthProviderConfig" where
  "redactOAuth oauth = oauth\<lparr>oa_Secret := noSecret\<rparr>"

definition redactConfiguration :: "ProjectConfiguration \<Rightarrow> ProjectConfiguration" where
  "redactConfiguration cfg =
     (let auth = cfg_Auth cfg; storage = cfg_Storage cfg; functions = cfg_Functions cfg;
          auth1 = auth\<lparr>auth_SMTP := (auth_SMTP auth)\<lparr>smtp_Password := noSecret\<rparr>\<rparr>;
          auth2 = auth1\<lparr>auth_Phone := (auth_Phone auth)\<lparr>ph_Secret := noSecret\<rparr>\<rparr>;
          auth3 = auth2\<lparr>auth_OAuth := map (\<lambda>(provider, oauth). (provider, redactOAuth oauth))
                                        (auth_OAuth auth)\<rparr>;
          storage1 = storage\<lparr>st_SecretAccessKey := noSecret\<rparr>;
          functions1 = functions\<lparr>fn_Variables :=
             map (\<lambda>variable. variable\<lparr>fv_Value := noSecret\<rparr>) (fn_Variables functions)\<rparr>
      in cfg\<lparr>cfg_Auth := auth3, cfg_Storage := storage1, cfg_Functions := functions1\<rparr>)"

definition projectServiceProjection :: "Services \<Rightarrow> (string \<times> bool) list" where
  "projectServiceProjection s =
     [(''database'', svc_Database s), (''gateway'', svc_Gateway s), (''auth'', svc_Auth s),
      (''rest'', svc_REST s), (''studio'', svc_Studio s), (''postgresMeta'', svc_PostgresMeta s),
      (''realtime'', svc_Realtime s), (''storage'', svc_Storage s), (''imgproxy'', svc_Imgproxy s),
      (''functions'', svc_Functions s), (''supavisor'', svc_Supavisor s), (''logs'', svc_Logs s),
      (''vector'', svc_Vector s), (''directDb'', svc_DirectDB s)]"

definition configurationHasReplacement :: "ProjectConfiguration \<Rightarrow> bool" where
  "configurationHasReplacement cfg =
     (si_Action (gen_StudioPassword (cfg_General cfg)) = ''replace'' \<or>
      si_Action (smtp_Password (auth_SMTP (cfg_Auth cfg))) = ''replace'' \<or>
      si_Action (ph_Secret (auth_Phone (cfg_Auth cfg))) = ''replace'' \<or>
      si_Action (st_SecretAccessKey (cfg_Storage cfg)) = ''replace'' \<or>
      list_ex (\<lambda>(provider, oauth). si_Action (oa_Secret oauth) = ''replace'')
        (auth_OAuth (cfg_Auth cfg)) \<or>
      list_ex (\<lambda>variable. si_Action (fv_Value variable) = ''replace'')
        (fn_Variables (cfg_Functions cfg)))"

section \<open>Statements shared by several operations\<close>

abbreviation hasProject :: "database \<Rightarrow> string \<Rightarrow> bool" where
  "hasProject d pid \<equiv> existsWhere (\<lambda>p. p_ID p = pid) (projects d)"

abbreviation hasOperation :: "database \<Rightarrow> string \<Rightarrow> bool" where
  "hasOperation d oid \<equiv> existsWhere (\<lambda>r. o_ID r = oid) (operations d)"

text \<open>A foreign key to \<^verbatim>\<open>projects\<close>: the statement fails when the row is missing.\<close>

definition requireProject :: "string \<Rightarrow> (database, unit) act" where
  "requireProject pid d = failIf (\<not> hasProject d pid) ForeignKeyViolation d"

definition requireOperation :: "string \<Rightarrow> (database, unit) act" where
  "requireOperation oid d = failIf (\<not> hasOperation d oid) ForeignKeyViolation d"

text \<open>\<^verbatim>\<open>INSERT INTO project_secrets ... ON CONFLICT(project_id, kind) DO UPDATE\<close>\<close>

definition upsertSecret :: "string \<Rightarrow> string \<Rightarrow> Envelope \<Rightarrow> (database, unit) act" where
  "upsertSecret pid kind envelope = andThen (requireProject pid) (\<lambda>_. modify (\<lambda>d.
     if existsWhere (\<lambda>r. sec_Project r = pid \<and> sec_Kind r = kind) (projectSecrets d)
     then d\<lparr>projectSecrets := updateWhere (\<lambda>r. sec_Project r = pid \<and> sec_Kind r = kind)
              (\<lambda>r. r\<lparr>sec_Envelope := envelope\<rparr>) (projectSecrets d)\<rparr>
     else d\<lparr>projectSecrets := projectSecrets d @
              [\<lparr>sec_Project = pid, sec_Kind = kind, sec_Envelope = envelope\<rparr>]\<rparr>))"

text \<open>\<^verbatim>\<open>INSERT INTO project_configuration ... ON CONFLICT(project_id) DO UPDATE\<close>\<close>

definition upsertCanonical :: "string \<Rightarrow> ProjectConfiguration \<Rightarrow> (database, unit) act" where
  "upsertCanonical pid cfg = andThen (requireProject pid) (\<lambda>_. modify (\<lambda>d.
     if existsWhere (\<lambda>r. cc_Project r = pid) (canonicalConfigs d)
     then d\<lparr>canonicalConfigs := updateWhere (\<lambda>r. cc_Project r = pid)
              (\<lambda>r. r\<lparr>cc_Config := cfg\<rparr>) (canonicalConfigs d)\<rparr>
     else d\<lparr>canonicalConfigs := canonicalConfigs d @ [\<lparr>cc_Project = pid, cc_Config = cfg\<rparr>]\<rparr>))"

definition insertService :: "string \<Rightarrow> string \<times> bool \<Rightarrow> (database, unit) act" where
  "insertService pid service = (case service of (name, enabled) \<Rightarrow>
     andThen (requireProject pid) (\<lambda>_. andThen (gets id) (\<lambda>d. andThen
       (failIf (existsWhere (\<lambda>r. sv_Project r = pid \<and> sv_Service r = name) (projectServices d))
          (UniqueViolation ''project_services.project_id, project_services.service''))
       (\<lambda>_. modify (\<lambda>d. d\<lparr>projectServices := projectServices d @
          [\<lparr>sv_Project = pid, sv_Service = name, sv_Enabled = enabled\<rparr>]\<rparr>)))))"

text \<open>
  The secret snapshot of a revision: a copy of the secrets the project has now, and a marker that
  says whether there were any.
\<close>

definition secretsOf :: "database \<Rightarrow> string \<Rightarrow> SecretRow list" where
  "secretsOf d pid = filter (\<lambda>r. sec_Project r = pid) (projectSecrets d)"

definition versionsOf :: "database \<Rightarrow> string \<Rightarrow> int \<Rightarrow> SecretVersionRow list" where
  "versionsOf d pid revision =
     filter (\<lambda>r. ver_Project r = pid \<and> ver_Revision r = revision) (secretVersions d)"

definition versionRow :: "int \<Rightarrow> SecretRow \<Rightarrow> SecretVersionRow" where
  "versionRow revision r = \<lparr>ver_Project = sec_Project r, ver_Revision = revision,
     ver_Kind = sec_Kind r, ver_Envelope = sec_Envelope r\<rparr>"

definition versionKey :: "SecretVersionRow \<Rightarrow> string \<times> int \<times> string" where
  "versionKey r = (ver_Project r, ver_Revision r, ver_Kind r)"

definition insertMarker :: "string \<Rightarrow> int \<Rightarrow> (database, unit) act" where
  "insertMarker pid revision = andThen (requireProject pid) (\<lambda>_. andThen (gets id) (\<lambda>d. andThen
     (failIf (existsWhere (\<lambda>r. mk_Project r = pid \<and> mk_Revision r = revision) (secretMarkers d))
        (UniqueViolation ''project_secret_snapshot_markers.project_id, project_secret_snapshot_markers.revision''))
     (\<lambda>_. modify (\<lambda>d. d\<lparr>secretMarkers := secretMarkers d @
        [\<lparr>mk_Project = pid, mk_Revision = revision, mk_Present = (secretsOf d pid \<noteq> [])\<rparr>]\<rparr>))))"

section \<open>Projects\<close>

definition insertProject :: "Project \<Rightarrow> (database, unit) act" where
  "insertProject project = andThen (gets id) (\<lambda>d.
     andThen (failIf (hasProject d (p_ID project)) (UniqueViolation ''projects.id'')) (\<lambda>_.
     andThen (failIf (existsWhere (\<lambda>p. p_Slug p = p_Slug project) (projects d))
                (UniqueViolation ''projects.slug'')) (\<lambda>_.
     andThen (failIf (existsWhere (\<lambda>p. p_Domain p = p_Domain project) (projects d))
                (UniqueViolation ''projects.domain'')) (\<lambda>_.
     modify (\<lambda>d. d\<lparr>projects := projects d @
       [Project.extend (project\<lparr>p_ConfigurationRevision := 1\<rparr>)
          \<lparr>pr_LastGoodRevision = 1\<rparr>]\<rparr>)))))"

definition insertSecret :: "string \<Rightarrow> SecretMutation \<Rightarrow> (database, unit) act" where
  "insertSecret pid mutation =
     (if sm_Delete mutation then ret ()
      else if sm_Kind mutation = [] then throw (ErrorsNew ''encrypted secret kind is required'')
      else mapErr (\<lambda>e. Errorf (''create encrypted secret '' @ sm_Kind mutation @ '': '') e [])
        (andThen (requireProject pid) (\<lambda>_. andThen (gets id) (\<lambda>d. andThen
          (failIf (existsWhere (\<lambda>r. sec_Project r = pid \<and> sec_Kind r = sm_Kind mutation)
                     (projectSecrets d))
             (UniqueViolation ''project_secrets.project_id, project_secrets.kind''))
          (\<lambda>_. modify (\<lambda>d. d\<lparr>projectSecrets := projectSecrets d @
             [\<lparr>sec_Project = pid, sec_Kind = sm_Kind mutation,
               sec_Envelope = sm_Envelope mutation\<rparr>]\<rparr>))))))"

text \<open>\<^verbatim>\<open>INSERT OR IGNORE INTO project_configs\<close>\<close>

definition insertConfigIgnoring ::
  "string \<Rightarrow> int \<Rightarrow> ProjectConfiguration \<Rightarrow> (database, unit) act" where
  "insertConfigIgnoring pid revision cfg = andThen (requireProject pid) (\<lambda>_. modify (\<lambda>d.
     if existsWhere (\<lambda>r. pc_Project r = pid \<and> pc_Revision r = revision) (projectConfigs d) then d
     else d\<lparr>projectConfigs := projectConfigs d @
       [\<lparr>pc_Project = pid, pc_Revision = revision, pc_Config = cfg\<rparr>]\<rparr>))"

text \<open>\<^verbatim>\<open>INSERT OR IGNORE INTO project_secret_versions ... SELECT ... FROM project_secrets\<close>\<close>

definition snapshotSecretsIgnoring :: "string \<Rightarrow> int \<Rightarrow> (database, unit) act" where
  "snapshotSecretsIgnoring pid revision = modify (\<lambda>d. d\<lparr>secretVersions := secretVersions d @
     filter (\<lambda>r. \<not> existsWhere (\<lambda>v. versionKey v = versionKey r) (secretVersions d))
       (map (versionRow revision) (secretsOf d pid))\<rparr>)"

definition CreateProjectWithSecrets ::
  "Project \<Rightarrow> ProjectConfiguration \<Rightarrow> SecretMutation list \<Rightarrow> (database, unit) act" where
  "CreateProjectWithSecrets project0 configuration0 mutations =
     (let project = project0\<lparr>p_Domain := gen_Domain (cfg_General configuration0),
            p_SiteURL := gen_SiteURL (cfg_General configuration0),
            p_SupabaseVersion := gen_SupabaseVersion (cfg_General configuration0),
            p_Services := cfg_Services configuration0\<rparr>;
          configuration = redactConfiguration (configuration0\<lparr>cfg_Revision := 1\<rparr>);
          pid = p_ID project
      in inTx (
        andThen (mapErr (\<lambda>e. Errorf ''create server: '' e []) (insertProject project)) (\<lambda>_.
        andThen (insertConfigIgnoring pid 1 configuration) (\<lambda>_.
        andThen (mapErr (\<lambda>e. Errorf ''create canonical configuration: '' e [])
                   (upsertCanonical pid configuration)) (\<lambda>_.
        andThen (forEach (projectServiceProjection (cfg_Services configuration))
                   (\<lambda>service. mapErr (\<lambda>e. Errorf (''create service projection '' @ fst service @ '': '') e [])
                      (insertService pid service))) (\<lambda>_.
        andThen (forEach mutations (insertSecret pid)) (\<lambda>_.
        andThen (snapshotSecretsIgnoring pid 1) (\<lambda>_.
        mapErr (\<lambda>e. Errorf ''create initial secret snapshot marker: '' e [])
          (insertMarker pid 1)))))))))"

definition CreateProject :: "Project \<Rightarrow> ProjectConfiguration \<Rightarrow> (database, unit) act" where
  "CreateProject project configuration0 =
     (let configuration = configuration0\<lparr>cfg_Revision := 1\<rparr>
      in if configurationHasReplacement configuration
         then throw (ErrorsNew ''secret cipher is required for replacement values'')
         else CreateProjectWithSecrets project configuration [])"

definition GetProject :: "string \<Rightarrow> (database, Project) act" where
  "GetProject pid d = (case find (\<lambda>p. p_ID p = pid) (projects d) of
      None \<Rightarrow> (Inl (Sentinel ErrNotFound), d)
    | Some p \<Rightarrow> (Inr (Project.truncate p), d))"

definition ListProjects :: "(database, Project list) act" where
  "ListProjects d = (Inr (map Project.truncate
     (sort_key (\<lambda>p. (formatTime (p_CreatedAt p), p_ID p)) (projects d))), d)"

definition UpdateProjectStatus ::
  "string \<Rightarrow> ProjectStatus \<Rightarrow> HealthStatus \<Rightarrow> gotime \<Rightarrow> (database, unit) act" where
  "UpdateProjectStatus pid status health now d =
     (if hasProject d pid
      then (Inr (), d\<lparr>projects := updateWhere (\<lambda>p. p_ID p = pid)
              (\<lambda>p. p\<lparr>p_Status := status, p_Health := health, p_UpdatedAt := now\<rparr>) (projects d)\<rparr>)
      else (Inl (Sentinel ErrNotFound), d))"

text \<open>
  \<^verbatim>\<open>DELETE FROM projects\<close> with the foreign-key actions of the schema: every table that references
  the project loses its rows, and the \<^verbatim>\<open>project_id\<close> of its operations becomes \<^verbatim>\<open>NULL\<close>.
\<close>

definition cascadeProject :: "string \<Rightarrow> database \<Rightarrow> database" where
  "cascadeProject pid d = d\<lparr>
     projects := deleteWhere (\<lambda>p. p_ID p = pid) (projects d),
     projectConfigs := deleteWhere (\<lambda>r. pc_Project r = pid) (projectConfigs d),
     canonicalConfigs := deleteWhere (\<lambda>r. cc_Project r = pid) (canonicalConfigs d),
     projectServices := deleteWhere (\<lambda>r. sv_Project r = pid) (projectServices d),
     projectSecrets := deleteWhere (\<lambda>r. sec_Project r = pid) (projectSecrets d),
     secretVersions := deleteWhere (\<lambda>r. ver_Project r = pid) (secretVersions d),
     secretMarkers := deleteWhere (\<lambda>r. mk_Project r = pid) (secretMarkers d),
     operations := updateWhere (\<lambda>r. o_ProjectID r = Some pid) (\<lambda>r. r\<lparr>o_ProjectID := None\<rparr>)
       (operations d),
     portAllocations := deleteWhere (\<lambda>r. pt_Project r = pid) (portAllocations d),
     operationConfigs := deleteWhere (\<lambda>r. oc_Project r = pid) (operationConfigs d),
     leases := deleteWhere (\<lambda>r. ls_Project r = pid) (leases d),
     reservations := deleteWhere (\<lambda>r. rv_Project r = pid) (reservations d),
     functionOperations := deleteWhere (\<lambda>r. fc_ProjectID r = pid) (functionOperations d)\<rparr>"

definition DeleteProject :: "string \<Rightarrow> (database, unit) act" where
  "DeleteProject pid d =
     (if hasProject d pid then (Inr (), cascadeProject pid d) else (Inl (Sentinel ErrNotFound), d))"

section \<open>Secrets\<close>

definition PutSecret :: "string \<Rightarrow> string \<Rightarrow> Envelope \<Rightarrow> (database, unit) act" where
  "PutSecret pid kind envelope =
     mapErr (\<lambda>e. Errorf ''store encrypted secret: '' e []) (upsertSecret pid kind envelope)"

definition GetSecret :: "string \<Rightarrow> string \<Rightarrow> (database, Envelope) act" where
  "GetSecret pid kind d =
     (case find (\<lambda>r. sec_Project r = pid \<and> sec_Kind r = kind) (projectSecrets d) of
        None \<Rightarrow> (Inl (Sentinel ErrNotFound), d)
      | Some r \<Rightarrow> (Inr (sec_Envelope r), d))"

definition ListSecretKinds :: "string \<Rightarrow> (database, string list) act" where
  "ListSecretKinds pid d = (Inr (sort (map sec_Kind (secretsOf d pid))), d)"

definition DeleteSecret :: "string \<Rightarrow> string \<Rightarrow> (database, unit) act" where
  "DeleteSecret pid kind d =
     (if existsWhere (\<lambda>r. sec_Project r = pid \<and> sec_Kind r = kind) (projectSecrets d)
      then (Inr (), d\<lparr>projectSecrets :=
              deleteWhere (\<lambda>r. sec_Project r = pid \<and> sec_Kind r = kind) (projectSecrets d)\<rparr>)
      else (Inl (Sentinel ErrNotFound), d))"

section \<open>The schema invariant\<close>

definition projectIds :: "database \<Rightarrow> string set" where
  "projectIds d = p_ID ` set (projects d)"

definition operationIds :: "database \<Rightarrow> string set" where
  "operationIds d = o_ID ` set (operations d)"

text \<open>Primary keys and \<^verbatim>\<open>UNIQUE\<close> constraints, one conjunct per table.\<close>

definition dbKeys :: "database \<Rightarrow> bool" where
  "dbKeys d \<longleftrightarrow>
     keyed p_ID (projects d) \<and> keyed p_Slug (projects d) \<and> keyed p_Domain (projects d) \<and>
     keyed (\<lambda>r. (pc_Project r, pc_Revision r)) (projectConfigs d) \<and>
     keyed cc_Project (canonicalConfigs d) \<and>
     keyed (\<lambda>r. (sv_Project r, sv_Service r)) (projectServices d) \<and>
     keyed (\<lambda>r. (sec_Project r, sec_Kind r)) (projectSecrets d) \<and>
     keyed versionKey (secretVersions d) \<and>
     keyed (\<lambda>r. (mk_Project r, mk_Revision r)) (secretMarkers d) \<and>
     keyed o_ID (operations d) \<and>
     keyed (\<lambda>e. (ev_OperationID e, ev_Sequence e)) (operationEvents d) \<and>
     keyed pt_Port (portAllocations d) \<and>
     keyed (\<lambda>r. (pt_Project r, pt_Kind r)) (portAllocations d) \<and>
     keyed oc_Operation (operationConfigs d) \<and>
     keyed ls_Project (leases d) \<and>
     keyed (\<lambda>r. (rv_Kind r, rv_Key r)) (reservations d) \<and>
     keyed fc_OperationID (functionOperations d) \<and>
     keyed ad_ID (admins d) \<and> keyed ad_Username (admins d) \<and>
     keyed se_TokenHash (sessions d)"

text \<open>Foreign keys to \<^verbatim>\<open>projects\<close>, \<^verbatim>\<open>operations\<close> and \<^verbatim>\<open>admins\<close>.\<close>

definition dbRefs :: "database \<Rightarrow> bool" where
  "dbRefs d \<longleftrightarrow>
     refs pc_Project (projectConfigs d) (projectIds d) \<and>
     refs cc_Project (canonicalConfigs d) (projectIds d) \<and>
     refs sv_Project (projectServices d) (projectIds d) \<and>
     refs sec_Project (projectSecrets d) (projectIds d) \<and>
     refs ver_Project (secretVersions d) (projectIds d) \<and>
     refs mk_Project (secretMarkers d) (projectIds d) \<and>
     refs o_ProjectID (operations d) (insert None (Some ` projectIds d)) \<and>
     refs pt_Project (portAllocations d) (projectIds d) \<and>
     refs oc_Project (operationConfigs d) (projectIds d) \<and>
     refs ls_Project (leases d) (projectIds d) \<and>
     refs rv_Project (reservations d) (projectIds d) \<and>
     refs fc_ProjectID (functionOperations d) (projectIds d) \<and>
     refs ev_OperationID (operationEvents d) (operationIds d) \<and>
     refs oc_Operation (operationConfigs d) (operationIds d) \<and>
     refs rv_Operation (reservations d) (operationIds d) \<and>
     refs fc_OperationID (functionOperations d) (operationIds d) \<and>
     refs se_AdminID (sessions d) (ad_ID ` set (admins d))"

definition dbWf :: "database \<Rightarrow> bool" where
  "dbWf d \<longleftrightarrow> dbKeys d \<and> dbRefs d"

abbreviation keepsWf :: "database \<Rightarrow> database \<Rightarrow> bool" where
  "keepsWf d d' \<equiv> dbWf d \<longrightarrow> dbWf d'"

interpretation wf: monitor keepsWf
  by unfold_locales auto

lemma dbWf_empty: "dbWf emptyDatabase"
  by (simp add: dbWf_def dbKeys_def dbRefs_def emptyDatabase_def)

lemma projectIds_frame [simp]:
  "projectIds (d\<lparr>projectConfigs := x1\<rparr>) = projectIds d"
  "projectIds (d\<lparr>canonicalConfigs := x2\<rparr>) = projectIds d"
  "projectIds (d\<lparr>projectServices := x3\<rparr>) = projectIds d"
  "projectIds (d\<lparr>projectSecrets := x4\<rparr>) = projectIds d"
  "projectIds (d\<lparr>secretVersions := x5\<rparr>) = projectIds d"
  "projectIds (d\<lparr>secretMarkers := x6\<rparr>) = projectIds d"
  "projectIds (d\<lparr>operations := x7\<rparr>) = projectIds d"
  "projectIds (d\<lparr>operationEvents := x8\<rparr>) = projectIds d"
  "projectIds (d\<lparr>portAllocations := x9\<rparr>) = projectIds d"
  "projectIds (d\<lparr>operationConfigs := x10\<rparr>) = projectIds d"
  "projectIds (d\<lparr>operationSecrets := x11\<rparr>) = projectIds d"
  "projectIds (d\<lparr>leases := x12\<rparr>) = projectIds d"
  "projectIds (d\<lparr>reservations := x13\<rparr>) = projectIds d"
  "projectIds (d\<lparr>functionOperations := x14\<rparr>) = projectIds d"
  "projectIds (d\<lparr>admins := x15\<rparr>) = projectIds d"
  "projectIds (d\<lparr>recoveryCodes := x16\<rparr>) = projectIds d"
  "projectIds (d\<lparr>sessions := x17\<rparr>) = projectIds d"
  by (simp_all add: projectIds_def)

lemma operationIds_frame [simp]:
  "operationIds (d\<lparr>projects := x0\<rparr>) = operationIds d"
  "operationIds (d\<lparr>projectConfigs := x1\<rparr>) = operationIds d"
  "operationIds (d\<lparr>canonicalConfigs := x2\<rparr>) = operationIds d"
  "operationIds (d\<lparr>projectServices := x3\<rparr>) = operationIds d"
  "operationIds (d\<lparr>projectSecrets := x4\<rparr>) = operationIds d"
  "operationIds (d\<lparr>secretVersions := x5\<rparr>) = operationIds d"
  "operationIds (d\<lparr>secretMarkers := x6\<rparr>) = operationIds d"
  "operationIds (d\<lparr>operationEvents := x8\<rparr>) = operationIds d"
  "operationIds (d\<lparr>portAllocations := x9\<rparr>) = operationIds d"
  "operationIds (d\<lparr>operationConfigs := x10\<rparr>) = operationIds d"
  "operationIds (d\<lparr>operationSecrets := x11\<rparr>) = operationIds d"
  "operationIds (d\<lparr>leases := x12\<rparr>) = operationIds d"
  "operationIds (d\<lparr>reservations := x13\<rparr>) = operationIds d"
  "operationIds (d\<lparr>functionOperations := x14\<rparr>) = operationIds d"
  "operationIds (d\<lparr>admins := x15\<rparr>) = operationIds d"
  "operationIds (d\<lparr>recoveryCodes := x16\<rparr>) = operationIds d"
  "operationIds (d\<lparr>sessions := x17\<rparr>) = operationIds d"
  by (simp_all add: operationIds_def)

lemma projectIds_upd [simp]: "projectIds (d\<lparr>projects := t\<rparr>) = p_ID ` set t"
  by (simp add: projectIds_def)

lemma operationIds_upd [simp]: "operationIds (d\<lparr>operations := t\<rparr>) = o_ID ` set t"
  by (simp add: operationIds_def)

lemma projects_ids: "p_ID ` set (projects d) = projectIds d"
  by (simp add: projectIds_def)

lemma operations_ids: "o_ID ` set (operations d) = operationIds d"
  by (simp add: operationIds_def)

lemma hasProject_iff [simp]: "hasProject d pid \<longleftrightarrow> pid \<in> projectIds d"
  by (auto simp: projectIds_def table_simps)

lemma hasOperation_iff [simp]: "hasOperation d oid \<longleftrightarrow> oid \<in> operationIds d"
  by (auto simp: operationIds_def table_simps)

lemma requireProject_run [simp]:
  "requireProject pid d = (if pid \<in> projectIds d then (Inr (), d) else (Inl ForeignKeyViolation, d))"
  by (simp add: requireProject_def)

lemma requireOperation_run [simp]:
  "requireOperation oid d =
     (if oid \<in> operationIds d then (Inr (), d) else (Inl ForeignKeyViolation, d))"
  by (simp add: requireOperation_def)

text \<open>What the invariant gives for one table, and what an update of one table has to show.\<close>

lemma dbWf_keys:
  assumes "dbWf d"
  shows "keyed p_ID (projects d)"
    and "keyed p_Slug (projects d)"
    and "keyed p_Domain (projects d)"
    and "keyed o_ID (operations d)"
    and "keyed ad_ID (admins d)"
    and "keyed ad_Username (admins d)"
    and "keyed (\<lambda>r. (pc_Project r, pc_Revision r)) (projectConfigs d)"
    and "keyed cc_Project (canonicalConfigs d)"
    and "keyed (\<lambda>r. (sv_Project r, sv_Service r)) (projectServices d)"
    and "keyed (\<lambda>r. (sec_Project r, sec_Kind r)) (projectSecrets d)"
    and "keyed versionKey (secretVersions d)"
    and "keyed (\<lambda>r. (mk_Project r, mk_Revision r)) (secretMarkers d)"
    and "keyed (\<lambda>e. (ev_OperationID e, ev_Sequence e)) (operationEvents d)"
    and "keyed pt_Port (portAllocations d)"
    and "keyed (\<lambda>r. (pt_Project r, pt_Kind r)) (portAllocations d)"
    and "keyed oc_Operation (operationConfigs d)"
    and "keyed ls_Project (leases d)"
    and "keyed (\<lambda>r. (rv_Kind r, rv_Key r)) (reservations d)"
    and "keyed fc_OperationID (functionOperations d)"
    and "keyed se_TokenHash (sessions d)"
  using assms by (simp_all add: dbWf_def dbKeys_def)

lemma dbWf_refs:
  assumes "dbWf d"
  shows "refs pc_Project (projectConfigs d) (projectIds d)"
    and "refs cc_Project (canonicalConfigs d) (projectIds d)"
    and "refs sv_Project (projectServices d) (projectIds d)"
    and "refs sec_Project (projectSecrets d) (projectIds d)"
    and "refs ver_Project (secretVersions d) (projectIds d)"
    and "refs mk_Project (secretMarkers d) (projectIds d)"
    and "refs ev_OperationID (operationEvents d) (operationIds d)"
    and "refs pt_Project (portAllocations d) (projectIds d)"
    and "refs oc_Project (operationConfigs d) (projectIds d)"
    and "refs oc_Operation (operationConfigs d) (operationIds d)"
    and "refs ls_Project (leases d) (projectIds d)"
    and "refs rv_Project (reservations d) (projectIds d)"
    and "refs rv_Operation (reservations d) (operationIds d)"
    and "refs fc_ProjectID (functionOperations d) (projectIds d)"
    and "refs fc_OperationID (functionOperations d) (operationIds d)"
    and "refs se_AdminID (sessions d) (ad_ID ` set (admins d))"
    and "refs o_ProjectID (operations d) (insert None (Some ` projectIds d))"
  using assms by (simp_all add: dbWf_def dbRefs_def)

lemma dbWf_projectConfigsI:
  "dbWf d \<Longrightarrow> keyed (\<lambda>r. (pc_Project r, pc_Revision r)) t \<Longrightarrow>
   refs pc_Project t (projectIds d) \<Longrightarrow> dbWf (d\<lparr>projectConfigs := t\<rparr>)"
  by (simp add: dbWf_def dbKeys_def dbRefs_def)

lemma dbWf_canonicalConfigsI:
  "dbWf d \<Longrightarrow> keyed cc_Project t \<Longrightarrow>
   refs cc_Project t (projectIds d) \<Longrightarrow> dbWf (d\<lparr>canonicalConfigs := t\<rparr>)"
  by (simp add: dbWf_def dbKeys_def dbRefs_def)

lemma dbWf_projectServicesI:
  "dbWf d \<Longrightarrow> keyed (\<lambda>r. (sv_Project r, sv_Service r)) t \<Longrightarrow>
   refs sv_Project t (projectIds d) \<Longrightarrow> dbWf (d\<lparr>projectServices := t\<rparr>)"
  by (simp add: dbWf_def dbKeys_def dbRefs_def)

lemma dbWf_projectSecretsI:
  "dbWf d \<Longrightarrow> keyed (\<lambda>r. (sec_Project r, sec_Kind r)) t \<Longrightarrow>
   refs sec_Project t (projectIds d) \<Longrightarrow> dbWf (d\<lparr>projectSecrets := t\<rparr>)"
  by (simp add: dbWf_def dbKeys_def dbRefs_def)

lemma dbWf_secretVersionsI:
  "dbWf d \<Longrightarrow> keyed versionKey t \<Longrightarrow>
   refs ver_Project t (projectIds d) \<Longrightarrow> dbWf (d\<lparr>secretVersions := t\<rparr>)"
  by (simp add: dbWf_def dbKeys_def dbRefs_def)

lemma dbWf_secretMarkersI:
  "dbWf d \<Longrightarrow> keyed (\<lambda>r. (mk_Project r, mk_Revision r)) t \<Longrightarrow>
   refs mk_Project t (projectIds d) \<Longrightarrow> dbWf (d\<lparr>secretMarkers := t\<rparr>)"
  by (simp add: dbWf_def dbKeys_def dbRefs_def)

lemma dbWf_operationEventsI:
  "dbWf d \<Longrightarrow> keyed (\<lambda>e. (ev_OperationID e, ev_Sequence e)) t \<Longrightarrow>
   refs ev_OperationID t (operationIds d) \<Longrightarrow> dbWf (d\<lparr>operationEvents := t\<rparr>)"
  by (simp add: dbWf_def dbKeys_def dbRefs_def)

lemma dbWf_portAllocationsI:
  "dbWf d \<Longrightarrow> keyed pt_Port t \<Longrightarrow> keyed (\<lambda>r. (pt_Project r, pt_Kind r)) t \<Longrightarrow>
   refs pt_Project t (projectIds d) \<Longrightarrow> dbWf (d\<lparr>portAllocations := t\<rparr>)"
  by (simp add: dbWf_def dbKeys_def dbRefs_def)

lemma dbWf_operationConfigsI:
  "dbWf d \<Longrightarrow> keyed oc_Operation t \<Longrightarrow>
   refs oc_Project t (projectIds d) \<Longrightarrow> refs oc_Operation t (operationIds d) \<Longrightarrow> dbWf (d\<lparr>operationConfigs := t\<rparr>)"
  by (simp add: dbWf_def dbKeys_def dbRefs_def)

lemma dbWf_leasesI:
  "dbWf d \<Longrightarrow> keyed ls_Project t \<Longrightarrow>
   refs ls_Project t (projectIds d) \<Longrightarrow> dbWf (d\<lparr>leases := t\<rparr>)"
  by (simp add: dbWf_def dbKeys_def dbRefs_def)

lemma dbWf_reservationsI:
  "dbWf d \<Longrightarrow> keyed (\<lambda>r. (rv_Kind r, rv_Key r)) t \<Longrightarrow>
   refs rv_Project t (projectIds d) \<Longrightarrow> refs rv_Operation t (operationIds d) \<Longrightarrow> dbWf (d\<lparr>reservations := t\<rparr>)"
  by (simp add: dbWf_def dbKeys_def dbRefs_def)

lemma dbWf_functionOperationsI:
  "dbWf d \<Longrightarrow> keyed fc_OperationID t \<Longrightarrow>
   refs fc_ProjectID t (projectIds d) \<Longrightarrow> refs fc_OperationID t (operationIds d) \<Longrightarrow> dbWf (d\<lparr>functionOperations := t\<rparr>)"
  by (simp add: dbWf_def dbKeys_def dbRefs_def)

lemma dbWf_sessionsI:
  "dbWf d \<Longrightarrow> keyed se_TokenHash t \<Longrightarrow>
   refs se_AdminID t (ad_ID ` set (admins d)) \<Longrightarrow> dbWf (d\<lparr>sessions := t\<rparr>)"
  by (simp add: dbWf_def dbKeys_def dbRefs_def)

lemma dbWf_operationsI:
  assumes "dbWf d" and "keyed o_ID t" and "operationIds d \<subseteq> o_ID ` set t"
    and "refs o_ProjectID t (insert None (Some ` projectIds d))"
  shows "dbWf (d\<lparr>operations := t\<rparr>)"
  using assms(1,2,4) unfolding dbWf_def dbKeys_def dbRefs_def
  by (simp add: refs_mono [OF _ assms(3)])

lemma dbWf_projectsI:
  assumes "dbWf d" and "keyed p_ID t" and "keyed p_Slug t" and "keyed p_Domain t"
    and "projectIds d \<subseteq> p_ID ` set t"
  shows "dbWf (d\<lparr>projects := t\<rparr>)"
proof -
  have ops: "insert None (Some ` projectIds d) \<subseteq> insert None (Some ` p_ID ` set t)"
    using assms(5) by blast
  show ?thesis
    using assms(1-4) unfolding dbWf_def dbKeys_def dbRefs_def
    by (simp add: refs_mono [OF _ assms(5)] refs_mono [OF _ ops])
qed

lemma dbWf_adminsI:
  assumes "dbWf d" and "keyed ad_ID t" and "keyed ad_Username t"
    and "ad_ID ` set (admins d) \<subseteq> ad_ID ` set t"
  shows "dbWf (d\<lparr>admins := t\<rparr>)"
  using assms(1-3) unfolding dbWf_def dbKeys_def dbRefs_def
  by (simp add: refs_mono [OF _ assms(4)])

lemma dbWf_unconstrained [simp]:
  "dbWf (d\<lparr>operationSecrets := t\<rparr>) = dbWf d"
  "dbWf (d\<lparr>recoveryCodes := u\<rparr>) = dbWf d"
  by (simp_all add: dbWf_def dbKeys_def dbRefs_def)

lemmas dbWf_intros = dbWf_operationsI dbWf_projectsI dbWf_adminsI dbWf_projectConfigsI dbWf_canonicalConfigsI dbWf_projectServicesI dbWf_projectSecretsI dbWf_secretVersionsI dbWf_secretMarkersI dbWf_operationEventsI dbWf_portAllocationsI dbWf_operationConfigsI dbWf_leasesI dbWf_reservationsI dbWf_functionOperationsI dbWf_sessionsI

lemma wfI: "(\<And>d r d'. dbWf d \<Longrightarrow> m d = (r, d') \<Longrightarrow> dbWf d') \<Longrightarrow> obeys keepsWf m"
  by (rule obeysI) blast

lemma wf_insertService [obeys_intros]: "obeys keepsWf (insertService pid s)"
  by (rule wfI) (auto simp: insertService_def andThen_def existsWhere_iff dbWf_keys dbWf_refs
      split: prod.splits if_splits intro!: dbWf_intros table_intros)

lemma wf_upsertSecret [obeys_intros]: "obeys keepsWf (upsertSecret pid kind envelope)"
  by (rule wfI) (auto simp: upsertSecret_def andThen_def existsWhere_iff dbWf_keys dbWf_refs
      split: if_splits intro!: dbWf_intros table_intros)

lemma wf_upsertCanonical [obeys_intros]: "obeys keepsWf (upsertCanonical pid cfg)"
  by (rule wfI) (auto simp: upsertCanonical_def andThen_def existsWhere_iff dbWf_keys dbWf_refs
      split: if_splits intro!: dbWf_intros table_intros)

lemma wf_insertMarker [obeys_intros]: "obeys keepsWf (insertMarker pid revision)"
  by (rule wfI) (auto simp: insertMarker_def andThen_def existsWhere_iff dbWf_keys dbWf_refs
      split: if_splits intro!: dbWf_intros table_intros)

lemma wf_insertConfigIgnoring [obeys_intros]: "obeys keepsWf (insertConfigIgnoring pid revision cfg)"
  by (rule wfI) (auto simp: insertConfigIgnoring_def andThen_def existsWhere_iff dbWf_keys dbWf_refs
      split: if_splits intro!: dbWf_intros table_intros)

lemma wf_insertProject [obeys_intros]: "obeys keepsWf (insertProject project)"
  by (rule wfI) (auto simp: insertProject_def andThen_def existsWhere_iff dbWf_keys dbWf_refs
      Project.defs projectIds_def split: if_splits intro!: dbWf_projectsI keyed_snoc)

lemma wf_insertSecret [obeys_intros]: "obeys keepsWf (insertSecret pid mutation)"
  by (rule wfI) (auto simp: insertSecret_def andThen_def mapErr_def existsWhere_iff dbWf_keys
      dbWf_refs split: if_splits intro!: dbWf_intros table_intros)

lemma keyed_versionRows:
  assumes "keyed (\<lambda>r. (sec_Project r, sec_Kind r)) t"
  shows "keyed versionKey (map (versionRow revision) t)"
  using assms by (induction t) (auto simp: keyed_def versionRow_def versionKey_def)

lemma wf_snapshotSecretsIgnoring [obeys_intros]:
  "obeys keepsWf (snapshotSecretsIgnoring pid revision)"
proof (rule wfI)
  fix d r d'
  assume wf: "dbWf d" and run: "snapshotSecretsIgnoring pid revision d = (r, d')"
  let ?new = "filter (\<lambda>r. \<not> existsWhere (\<lambda>v. versionKey v = versionKey r) (secretVersions d))
       (map (versionRow revision) (secretsOf d pid))"
  have d': "d' = d\<lparr>secretVersions := secretVersions d @ ?new\<rparr>"
    using run by (simp add: snapshotSecretsIgnoring_def)
  have "keyed versionKey (map (versionRow revision) (secretsOf d pid))"
    using wf by (simp add: secretsOf_def dbWf_keys keyed_versionRows keyed_filter)
  then have keys: "keyed versionKey (secretVersions d @ ?new)"
    using wf by (intro keyed_append_disjoint keyed_filter)
      (auto simp: dbWf_keys existsWhere_iff)
  have "refs ver_Project ?new (projectIds d)"
    using dbWf_refs(4) [OF wf] by (auto simp: refs_def secretsOf_def versionRow_def)
  then have "refs ver_Project (secretVersions d @ ?new) (projectIds d)"
    using wf by (simp add: refs_append dbWf_refs)
  then show "dbWf d'"
    unfolding d' using wf keys by (intro dbWf_secretVersionsI)
qed

lemma wf_CreateProjectWithSecrets [obeys_intros]:
  "obeys keepsWf (CreateProjectWithSecrets project cfg mutations)"
  unfolding CreateProjectWithSecrets_def by (intro obeys_intros)

lemma wf_UpdateProjectStatus [obeys_intros]:
  "obeys keepsWf (UpdateProjectStatus pid status health now)"
  by (rule wfI) (auto simp: UpdateProjectStatus_def dbWf_keys projectIds_def
      split: if_splits intro!: dbWf_projectsI keyed_updateWhere)

lemma orphaned_refs:
  "refs o_ProjectID t (insert None (Some ` A)) \<Longrightarrow>
   refs o_ProjectID (updateWhere (\<lambda>r. o_ProjectID r = Some x) (\<lambda>r. r\<lparr>o_ProjectID := None\<rparr>) t)
     (insert None (Some ` (A - {x})))"
  by (fastforce simp: refs_def table_simps)

lemma projectIds_cascade [simp]: "projectIds (cascadeProject pid d) = projectIds d - {pid}"
  by (auto simp: projectIds_def cascadeProject_def table_simps)

lemma operationIds_cascade [simp]: "operationIds (cascadeProject pid d) = operationIds d"
  by (simp add: operationIds_def cascadeProject_def)

lemma wf_cascadeProject: "dbWf d \<Longrightarrow> dbWf (cascadeProject pid d)"
  unfolding dbWf_def [of "cascadeProject pid d"] dbKeys_def dbRefs_def projectIds_cascade
    operationIds_cascade
  by (simp add: cascadeProject_def dbWf_keys dbWf_refs refs_removed orphaned_refs
      keyed_updateWhere refs_deleteWhere)

lemma wf_DeleteProject [obeys_intros]: "obeys keepsWf (DeleteProject pid)"
  by (rule wfI) (auto simp: DeleteProject_def wf_cascadeProject split: if_splits)

lemma wf_PutSecret [obeys_intros]: "obeys keepsWf (PutSecret pid kind envelope)"
  unfolding PutSecret_def by (intro obeys_intros)

lemma wf_DeleteSecret [obeys_intros]: "obeys keepsWf (DeleteSecret pid kind)"
  by (rule wfI) (auto simp: DeleteSecret_def dbWf_keys dbWf_refs split: if_splits
      intro!: dbWf_intros table_intros)

end
