(* ===== verification/StoreOperations.thy ===== *)
theory StoreOperations
  imports Store
begin

text \<open>
  \<^verbatim>\<open>store/operations.go\<close>: the operation table and its event log. Every write of an operation
  appends one event in the same transaction, numbered from 1 without gaps; \<open>historyGrows\<close> says that
  a log only ever grows at its end and \<open>eventsContiguous\<close> that its numbers are \<open>1..n\<close>. Clients
  stream the log with \<^verbatim>\<open>OperationEventsAfter\<close>, whose answer is characterised at the end.
\<close>

section \<open>JSON text\<close>

definition hexDigit :: "nat \<Rightarrow> char" where
  "hexDigit n = (if n < 10 then char_of (48 + n) else char_of (87 + n))"

text \<open>Go's \<^verbatim>\<open>encoding/json\<close> escapes, with HTML escaping as \<^verbatim>\<open>json.Marshal\<close> has it.\<close>

definition jsonChar :: "char \<Rightarrow> string" where
  "jsonChar c =
     (let n = of_char c :: nat in
      if n = 34 then [CHR 0x5C, CHR 0x22]
      else if n = 92 then [CHR 0x5C, CHR 0x5C]
      else if n = 8 then [CHR 0x5C, CHR ''b'']
      else if n = 9 then [CHR 0x5C, CHR ''t'']
      else if n = 10 then [CHR 0x5C, CHR ''n'']
      else if n = 12 then [CHR 0x5C, CHR ''f'']
      else if n = 13 then [CHR 0x5C, CHR ''r'']
      else if n < 32 \<or> n = 38 \<or> n = 60 \<or> n = 62
        then CHR 0x5C # ''u00'' @ [hexDigit (n div 16), hexDigit (n mod 16)]
      else [c])"

definition jsonString :: "string \<Rightarrow> string" where
  "jsonString s = CHR 0x22 # concat (map jsonChar s) @ [CHR 0x22]"

fun jsonFields :: "(string \<times> string) list \<Rightarrow> string" where
  "jsonFields [] = []"
| "jsonFields [(k, v)] = jsonString k @ '':'' @ v"
| "jsonFields ((k, v) # kvs) = jsonString k @ '':'' @ v @ '','' @ jsonFields kvs"

definition jsonObject :: "(string \<times> string) list \<Rightarrow> string" where
  "jsonObject kvs = ''{'' @ jsonFields kvs @ ''}''"

section \<open>Operations and events\<close>

definition operationOf :: "string \<Rightarrow> OperationRow \<Rightarrow> Operation" where
  "operationOf pid r = \<lparr>op_ID = o_ID r, op_ProjectID = pid, op_Type = o_Type r,
     op_Status = o_Status r, op_CurrentStep = o_CurrentStep r, op_Progress = o_Progress r,
     op_ErrorCode = o_ErrorCode r, op_ErrorMessage = o_ErrorMessage r,
     op_StartedAt = o_StartedAt r, op_FinishedAt = o_FinishedAt r, op_CreatedAt = o_CreatedAt r\<rparr>"

definition eventsOf :: "database \<Rightarrow> string \<Rightarrow> OperationEvent list" where
  "eventsOf d oid = filter (\<lambda>e. ev_OperationID e = oid) (operationEvents d)"

text \<open>\<^verbatim>\<open>COALESCE(MAX(sequence), 0)\<close>\<close>

definition maxSequence :: "database \<Rightarrow> string \<Rightarrow> int" where
  "maxSequence d oid =
     (case eventsOf d oid of [] \<Rightarrow> 0 | e # es \<Rightarrow> fold max (map ev_Sequence es) (ev_Sequence e))"

definition appendOperationEvent :: "string \<Rightarrow> string \<Rightarrow> string \<Rightarrow> gotime \<Rightarrow> (database, unit) act" where
  "appendOperationEvent oid eventType payload at =
     mapErr (\<lambda>e. Errorf ''append operation event: '' e [])
       (andThen (requireOperation oid) (\<lambda>_. modify (\<lambda>d. d\<lparr>operationEvents := operationEvents d @
          [\<lparr>ev_OperationID = oid, ev_Sequence = maxSequence d oid + 1, ev_Type = eventType,
            ev_Payload = (if payload = [] then ''{}'' else payload), ev_CreatedAt = at\<rparr>]\<rparr>)))"

text \<open>\<^verbatim>\<open>INSERT INTO operations(id, project_id, type, status, progress, created_at)\<close>\<close>

definition insertOperation :: "Operation \<Rightarrow> (database, unit) act" where
  "insertOperation op =
     andThen (gets id) (\<lambda>d.
     andThen (failIf (hasOperation d (op_ID op)) (UniqueViolation ''operations.id'')) (\<lambda>_.
     andThen (requireProject (op_ProjectID op)) (\<lambda>_.
     modify (\<lambda>d. d\<lparr>operations := operations d @
       [\<lparr>o_ID = op_ID op, o_ProjectID = Some (op_ProjectID op), o_Type = op_Type op,
         o_Status = op_Status op, o_CurrentStep = [], o_Progress = op_Progress op,
         o_ErrorCode = [], o_ErrorMessage = [], o_StartedAt = None, o_FinishedAt = None,
         o_CreatedAt = op_CreatedAt op, o_CompensationPhase = [], o_CompensationKey = []\<rparr>]\<rparr>))))"

definition CreateOperation :: "Operation \<Rightarrow> string \<Rightarrow> string \<Rightarrow> (database, unit) act" where
  "CreateOperation op eventType payload = inTx (
     andThen (mapErr (\<lambda>e. Errorf ''create operation: '' e []) (insertOperation op)) (\<lambda>_.
     appendOperationEvent (op_ID op) eventType payload (op_CreatedAt op)))"

definition GetOperation :: "string \<Rightarrow> (database, Operation) act" where
  "GetOperation oid d = (case find (\<lambda>r. o_ID r = oid) (operations d) of
      None \<Rightarrow> (Inl (Sentinel ErrNotFound), d)
    | Some r \<Rightarrow> (case o_ProjectID r of
          None \<Rightarrow> (Inl (Errorf ''get operation: '' (ScanNull ''project_id'') []), d)
        | Some pid \<Rightarrow> (Inr (operationOf pid r), d)))"

definition activeStatus :: "OperationStatus \<Rightarrow> bool" where
  "activeStatus s = (s = OperationQueued \<or> s = OperationRunning)"

definition byCreation :: "OperationRow \<Rightarrow> string \<times> string" where
  "byCreation r = (formatTime (o_CreatedAt r), o_ID r)"

fun collect :: "('s, 'a) act list \<Rightarrow> ('s, 'a list) act" where
  "collect [] = ret []"
| "collect (m # ms) = andThen m (\<lambda>x. andThen (collect ms) (\<lambda>xs. ret (x # xs)))"

definition ListActiveOperations :: "OperationType \<Rightarrow> (database, Operation list) act" where
  "ListActiveOperations typ d =
     collect (map (\<lambda>r. GetOperation (o_ID r))
       (sort_key byCreation
         (filter (\<lambda>r. o_Type r = typ \<and> activeStatus (o_Status r)) (operations d)))) d"

definition FindActiveOperation ::
  "string \<Rightarrow> OperationType \<Rightarrow> (database, Operation option) act" where
  "FindActiveOperation pid typ d =
     (case rev (sort_key byCreation (filter (\<lambda>r. o_ProjectID r = Some pid \<and> o_Type r = typ \<and>
                  activeStatus (o_Status r)) (operations d))) of
        [] \<Rightarrow> (Inr None, d)
      | r # _ \<Rightarrow> andThen (GetOperation (o_ID r)) (\<lambda>op. ret (Some op)) d)"

record OperationUpdate =
  up_Status :: OperationStatus
  up_CurrentStep :: string
  up_Progress :: int
  up_ErrorCode :: string
  up_ErrorMessage :: string
  up_StartedAt :: "gotime option"
  up_FinishedAt :: "gotime option"
  up_EventType :: string
  up_EventPayload :: string
  up_EventTime :: gotime

definition applyUpdate :: "OperationUpdate \<Rightarrow> OperationRow \<Rightarrow> OperationRow" where
  "applyUpdate u r = r\<lparr>o_Status := up_Status u, o_CurrentStep := up_CurrentStep u,
     o_Progress := up_Progress u, o_ErrorCode := up_ErrorCode u,
     o_ErrorMessage := up_ErrorMessage u, o_StartedAt := up_StartedAt u,
     o_FinishedAt := up_FinishedAt u\<rparr>"

definition UpdateOperation :: "string \<Rightarrow> OperationUpdate \<Rightarrow> (database, unit) act" where
  "UpdateOperation oid u = inTx (
     andThen (gets id) (\<lambda>d.
     andThen (modify (\<lambda>d. d\<lparr>operations :=
        updateWhere (\<lambda>r. o_ID r = oid) (applyUpdate u) (operations d)\<rparr>)) (\<lambda>_.
     andThen (failIf (\<not> hasOperation d oid) (Sentinel ErrNotFound)) (\<lambda>_.
     appendOperationEvent oid (up_EventType u) (up_EventPayload u) (up_EventTime u)))))"

definition OperationEventsAfter :: "string \<Rightarrow> int \<Rightarrow> (database, OperationEvent list) act" where
  "OperationEventsAfter oid sequence d =
     (Inr (sort_key ev_Sequence (filter (\<lambda>e. ev_Sequence e > sequence) (eventsOf d oid))), d)"

section \<open>The event log\<close>

definition eventsContiguous :: "database \<Rightarrow> bool" where
  "eventsContiguous d \<longleftrightarrow>
     (\<forall>oid. map ev_Sequence (eventsOf d oid) = map int [1..<Suc (length (eventsOf d oid))])"

definition historyGrows :: "database \<Rightarrow> database \<Rightarrow> bool" where
  "historyGrows d d' \<longleftrightarrow>
     (\<forall>oid. prefix (eventsOf d oid) (eventsOf d' oid)) \<and>
     (eventsContiguous d \<longrightarrow> eventsContiguous d')"

interpretation history: monitor historyGrows
  by unfold_locales (auto simp: historyGrows_def dest: prefix_order.trans)

lemma eventsContiguous_empty: "eventsContiguous emptyDatabase"
  by (simp add: eventsContiguous_def eventsOf_def emptyDatabase_def)

text \<open>An action that leaves the event table alone keeps every log.\<close>

lemma historyGrows_frame: "operationEvents d' = operationEvents d \<Longrightarrow> historyGrows d d'"
  by (simp add: historyGrows_def eventsContiguous_def eventsOf_def)

lemma fold_max_upt: "fold max (map int [Suc m..<Suc n]) (int m) = int (max m n)" if "m \<le> n"
  using that
proof (induction n)
  case 0
  then show ?case by simp
next
  case (Suc n)
  then show ?case by (cases "m = Suc n") auto
qed

lemma maxSequence_contiguous:
  assumes "eventsContiguous d"
  shows "maxSequence d oid = int (length (eventsOf d oid))"
proof (cases "eventsOf d oid")
  case Nil
  then show ?thesis by (simp add: maxSequence_def)
next
  case (Cons e es)
  then have "ev_Sequence e # map ev_Sequence es = map int [1..<Suc (Suc (length es))]"
    using assms unfolding eventsContiguous_def by (metis length_Cons list.simps(9))
  also have "[1..<Suc (Suc (length es))] = 1 # [Suc 1..<Suc (Suc (length es))]"
    by (simp add: upt_rec)
  finally have "ev_Sequence e = int 1" and
    "map ev_Sequence es = map int [Suc 1..<Suc (Suc (length es))]" by simp_all
  then have "fold max (map ev_Sequence es) (ev_Sequence e) = int (max 1 (Suc (length es)))"
    using fold_max_upt [of 1 "Suc (length es)"] by simp
  with Cons show ?thesis by (simp add: maxSequence_def)
qed

lemma history_appendOperationEvent [obeys_intros]:
  "obeys historyGrows (appendOperationEvent oid typ payload at)"
proof (rule obeysI)
  fix d r d'
  assume run: "appendOperationEvent oid typ payload at d = (r, d')"
  show "historyGrows d d'"
  proof (cases "oid \<in> operationIds d")
    case False
    with run show ?thesis
      by (auto simp: appendOperationEvent_def mapErr_def andThen_def intro: history.R_refl)
  next
    case True
    let ?e = "\<lparr>ev_OperationID = oid, ev_Sequence = maxSequence d oid + 1, ev_Type = typ,
            ev_Payload = (if payload = [] then ''{}'' else payload), ev_CreatedAt = at\<rparr>"
    have d': "d' = d\<lparr>operationEvents := operationEvents d @ [?e]\<rparr>"
      using run True by (auto simp: appendOperationEvent_def mapErr_def andThen_def)
    have ev: "eventsOf d' x = eventsOf d x @ (if x = oid then [?e] else [])" for x
      by (simp add: d' eventsOf_def)
    have "eventsContiguous d'" if "eventsContiguous d"
      using that maxSequence_contiguous [OF that, of oid]
      by (simp add: eventsContiguous_def ev)
    then show ?thesis by (simp add: historyGrows_def ev)
  qed
qed

lemma history_insertOperation [obeys_intros]: "obeys historyGrows (insertOperation op)"
  by (rule obeysI) (auto simp: insertOperation_def andThen_def intro!: historyGrows_frame
      split: if_splits)

lemma history_CreateOperation [obeys_intros]: "obeys historyGrows (CreateOperation op typ payload)"
  unfolding CreateOperation_def by (intro obeys_intros)

lemma history_modify_operations:
  "obeys historyGrows (modify (\<lambda>d. d\<lparr>operations := f d\<rparr>))"
  by (rule obeysI) (auto intro: historyGrows_frame)

lemma history_UpdateOperation [obeys_intros]: "obeys historyGrows (UpdateOperation oid u)"
  unfolding UpdateOperation_def by (intro obeys_intros history_modify_operations)

text \<open>
  Streaming: in a contiguous log, the events after sequence number \<open>n\<close> are exactly the log without
  its first \<open>n\<close> entries, in order and without a gap.
\<close>

lemma filter_after_contiguous:
  assumes "map f xs = map int [k..<k + length xs]" and "k \<le> Suc n"
  shows "filter (\<lambda>x. f x > int n) xs = drop (Suc n - k) xs"
  using assms
proof (induction xs arbitrary: k)
  case (Cons x xs)
  have "[k..<k + length (x # xs)] = k # [Suc k..<Suc k + length xs]"
    by (simp add: upt_rec)
  then have fx: "f x = int k" and tail: "map f xs = map int [Suc k..<Suc k + length xs]"
    using Cons.prems(1) by simp_all
  show ?case
  proof (cases "k = Suc n")
    case True
    have img: "f ` set xs = int ` {Suc k..<Suc k + length xs}"
      using arg_cong [OF tail, of set] unfolding set_map set_upt .
    have "f y > int n" if "y \<in> set xs" for y
    proof -
      have "f y \<in> int ` {Suc k..<Suc k + length xs}"
        unfolding img [symmetric] using that by (rule imageI)
      then show ?thesis using True by auto
    qed
    with True fx show ?thesis by (simp add: filter_id_conv)
  next
    case False
    with Cons.prems(2) fx Cons.IH [OF tail] show ?thesis
      by (simp add: Suc_diff_le)
  qed
qed simp

lemma eventsAfter_run:
  assumes "eventsContiguous d"
  shows "OperationEventsAfter oid (int n) d = (Inr (drop n (eventsOf d oid)), d)"
proof -
  let ?es = "eventsOf d oid"
  have seqs: "map ev_Sequence ?es = map int [1..<1 + length ?es]"
    using assms by (simp add: eventsContiguous_def)
  have "filter (\<lambda>e. ev_Sequence e > int n) ?es = drop n ?es"
    using filter_after_contiguous [OF seqs, of n] by simp
  moreover have "sorted (map ev_Sequence (drop n ?es))"
  proof -
    have "sorted (map int [1..<1 + length ?es])"
      by (rule sorted_map_mono [OF sorted_upt]) (auto simp: mono_on_def)
    then show ?thesis unfolding drop_map [symmetric] seqs by (rule sorted_wrt_drop)
  qed
  ultimately show ?thesis
    by (simp add: OperationEventsAfter_def sort_key_id_if_sorted)
qed

section \<open>The schema invariant\<close>

lemma maxSequence_bound: "e \<in> set (eventsOf d oid) \<Longrightarrow> ev_Sequence e \<le> maxSequence d oid"
proof -
  have ge: "x \<le> fold max xs x" for xs and x :: int
  proof (induction xs arbitrary: x)
    case (Cons a xs)
    have "x \<le> max a x" by simp
    also have "\<dots> \<le> fold max xs (max a x)" by (rule Cons.IH)
    finally show ?case by simp
  qed simp
  have mem: "y \<in> set xs \<Longrightarrow> y \<le> fold max xs x" for xs and x y :: int
    by (induction xs arbitrary: x) (auto intro: order_trans [OF _ ge])
  assume "e \<in> set (eventsOf d oid)"
  then show ?thesis
    by (cases "eventsOf d oid") (auto simp: maxSequence_def intro: ge mem)
qed

lemma wf_appendOperationEvent [obeys_intros]:
  "obeys keepsWf (appendOperationEvent oid typ payload at)"
proof (rule wfI)
  fix d r d'
  assume wf: "dbWf d" and run: "appendOperationEvent oid typ payload at d = (r, d')"
  have "ev_Sequence e \<noteq> maxSequence d oid + 1" if "e \<in> set (operationEvents d)"
    and "ev_OperationID e = oid" for e
    using maxSequence_bound [of e d oid] that by (auto simp: eventsOf_def)
  then show "dbWf d'"
    using wf run by (auto simp: appendOperationEvent_def mapErr_def andThen_def dbWf_keys dbWf_refs
        split: if_splits intro!: dbWf_operationEventsI keyed_snoc refs_snoc)
qed

lemma operationIds_member: "r \<in> set (operations d) \<Longrightarrow> o_ID r \<in> operationIds d"
  by (simp add: operationIds_def)

lemma wf_insertOperation [obeys_intros]: "obeys keepsWf (insertOperation op)"
  by (rule wfI) (auto simp: insertOperation_def andThen_def dbWf_keys dbWf_refs operations_ids
      dest: operationIds_member split: if_splits intro!: dbWf_operationsI keyed_snoc refs_snoc)

lemma wf_CreateOperation [obeys_intros]: "obeys keepsWf (CreateOperation op typ payload)"
  unfolding CreateOperation_def by (intro obeys_intros)

lemma wf_modify_operations:
  assumes "\<And>r. P r \<Longrightarrow> o_ID (f r) = o_ID r" and "\<And>r. P r \<Longrightarrow> o_ProjectID (f r) = o_ProjectID r"
  shows "obeys keepsWf (modify (\<lambda>d. d\<lparr>operations := updateWhere P f (operations d)\<rparr>))"
  by (rule wfI) (auto simp: dbWf_keys dbWf_refs operationIds_def assms
      intro!: dbWf_operationsI keyed_updateWhere refs_updateWhere)

lemma wf_UpdateOperation [obeys_intros]: "obeys keepsWf (UpdateOperation oid u)"
  unfolding UpdateOperation_def
  by (intro obeys_intros wf_modify_operations) (simp_all add: applyUpdate_def)

end
