(* ===== verification/Samples.thy ===== *)
theory Samples
  imports Store
begin

text \<open>
  Concrete inputs: a project with the configuration the Manager stores for the lightweight preset,
  and the database right after it was created. The witnesses of the component theories evaluate the
  operations on them.
\<close>

definition sampleTemplate :: EmailTemplateConfig where
  "sampleTemplate = \<lparr>tpl_Subject = [], tpl_Body = []\<rparr>"

definition sampleNotification :: EmailNotificationConfig where
  "sampleNotification = \<lparr>ntf_Enabled = False, ntf_Template = sampleTemplate\<rparr>"

definition sampleServices :: Services where
  "sampleServices = \<lparr>svc_Database = True, svc_Gateway = True, svc_Auth = True, svc_REST = True,
     svc_Studio = True, svc_PostgresMeta = True, svc_Realtime = False, svc_Storage = False,
     svc_Imgproxy = False, svc_Functions = False, svc_Supavisor = False, svc_Logs = False,
     svc_Vector = False, svc_DirectDB = False\<rparr>"

definition sampleGeneral :: "string \<Rightarrow> GeneralConfig" where
  "sampleGeneral domain = \<lparr>gen_Domain = domain, gen_SiteURL = ''https://'' @ domain,
     gen_SupabaseVersion = ''self-hosted/v0.8.0'', gen_StudioUsername = ''supabase'',
     gen_StudioPasswordSet = False, gen_StudioPassword = noSecret\<rparr>"

definition sampleAuth :: AuthConfig where
  "sampleAuth = \<lparr>auth_Enabled = True, auth_JWTExpiry = 3600, auth_DisableSignup = False,
     auth_Email = \<lparr>em_Enabled = True, em_AllowSignup = True, em_ConfirmEmail = False,
       em_SecureEmailChange = False, em_DoubleConfirmChanges = False,
       em_SecurePasswordChange = False, em_RequireCurrentPassword = False,
       em_PreventLeakedPasswords = False, em_MinimumPasswordLength = 8,
       em_PasswordRequirements = [], em_EmailOTPExpiration = 3600, em_EmailOTPLength = 6\<rparr>,
     auth_Phone = \<lparr>ph_Enabled = False, ph_Provider = [], ph_SecretSet = False,
       ph_Secret = noSecret, ph_Fields = []\<rparr>,
     auth_AnonymousSignIn = False, auth_ManualLinking = False, auth_RedirectURLs = [],
     auth_OAuth = [],
     auth_SMTP = \<lparr>smtp_Enabled = False, smtp_Host = [], smtp_Port = 0, smtp_Username = [],
       smtp_PasswordSet = False, smtp_Password = noSecret, smtp_SenderEmail = [],
       smtp_SenderName = []\<rparr>,
     auth_Mailer = \<lparr>ml_Templates = \<lparr>tpls_Confirmation = sampleTemplate,
         tpls_Invite = sampleTemplate, tpls_MagicLink = sampleTemplate,
         tpls_EmailChange = sampleTemplate, tpls_Recovery = sampleTemplate,
         tpls_Reauthentication = sampleTemplate\<rparr>,
       ml_Notifications = \<lparr>ntfs_PasswordChanged = sampleNotification,
         ntfs_EmailChanged = sampleNotification, ntfs_PhoneChanged = sampleNotification,
         ntfs_IdentityLinked = sampleNotification, ntfs_IdentityUnlinked = sampleNotification,
         ntfs_MFAFactorEnrolled = sampleNotification,
         ntfs_MFAFactorUnenrolled = sampleNotification\<rparr>\<rparr>,
     auth_RateLimits = \<lparr>rl_EmailSent = 30, rl_SMSSent = 30, rl_TokenRefresh = 150,
       rl_TokenVerification = 30, rl_AnonymousUsers = 30, rl_SignupsAndSignins = 30\<rparr>,
     auth_MFA = \<lparr>mfa_TOTPEnrollEnabled = True, mfa_TOTPVerifyEnabled = True,
       mfa_PhoneEnrollEnabled = False, mfa_PhoneVerifyEnabled = False,
       mfa_MaxEnrolledFactors = 10, mfa_PhoneOTPLength = 6\<rparr>\<rparr>"

definition sampleConfiguration :: "string \<Rightarrow> int \<Rightarrow> ProjectConfiguration" where
  "sampleConfiguration domain apiPort = \<lparr>cfg_Revision = 1, cfg_General = sampleGeneral domain,
     cfg_Services = sampleServices, cfg_Auth = sampleAuth,
     cfg_Storage = \<lparr>st_Backend = ''local'', st_S3CompatibleAPI = False, st_Bucket = [],
       st_Region = [], st_Endpoint = [], st_AccountID = [], st_AccessKeyID = [],
       st_SecretAccessKeySet = False, st_SecretAccessKey = noSecret, st_ForcePathStyle = False,
       st_LocalPath = ''volumes/storage''\<rparr>,
     cfg_Realtime = \<lparr>rt_MaxConnections = 200, rt_DatabasePoolSize = 10, rt_LogLevel = ''info''\<rparr>,
     cfg_Functions = \<lparr>fn_DefaultJWTVerification = True, fn_Directory = ''volumes/functions'',
       fn_Variables = []\<rparr>,
     cfg_Database = \<lparr>db_Version = ''17'', db_DirectPort = False, db_DirectPortNumber = 0,
       db_MaxConnections = 100, db_SharedBuffers = ''256MB'', db_Extensions = []\<rparr>,
     cfg_Pooler = \<lparr>pool_TransactionPort = 6543, pool_SessionPort = 5432, pool_PoolSize = 20,
       pool_MaxClientConnections = 100\<rparr>,
     cfg_Network = \<lparr>net_Gateway = ''kong'', net_HTTPSMode = ''proxy'', net_ManagedTLS = None,
       net_InternalGatewayPort = 8000, net_APIPort = apiPort, net_StudioPort = 0,
       net_DirectDatabasePort = 0, net_PoolerPort = 0\<rparr>\<rparr>"

definition sampleProject :: "string \<Rightarrow> string \<Rightarrow> Project" where
  "sampleProject pid slug = \<lparr>p_ID = pid, p_Name = slug, p_Slug = slug, p_Domain = [], p_SiteURL = [],
     p_Status = ProjectStatusDraft, p_Health = HealthUnknown, p_SupabaseVersion = [],
     p_Preset = PresetLightweight, p_ConfigurationRevision = 1, p_Services = sampleServices,
     p_CreatedAt = 0, p_UpdatedAt = 0\<rparr>"

definition sampleDatabase :: database where
  "sampleDatabase =
     snd (CreateProject (sampleProject ''bee'' ''bee'')
       (sampleConfiguration ''bee.example.com'' 8001) emptyDatabase)"

lemma sampleDatabase_wf: "dbWf sampleDatabase"
proof -
  have "obeys keepsWf (CreateProject (sampleProject ''bee'' ''bee'')
       (sampleConfiguration ''bee.example.com'' 8001))"
    unfolding CreateProject_def by (intro obeys_intros)
  then show ?thesis by (simp add: obeys_def sampleDatabase_def dbWf_empty)
qed

end
