(* ===== verification/OperationService.thy ===== *)
theory OperationService
  imports StoreOperations Samples
begin

text \<open>
  \<^verbatim>\<open>operation/service.go\<close>: the operation state machine. Each call reads the operation, checks its
  status and writes the new status with one event. The id an operation gets and the time a call
  reads are arguments. \<open>statusStep\<close> is the abstract machine; \<open>lawful\<close> says that a change of the
  database moves every operation along it, and every call obeys it, so that a terminal status is
  never left.
\<close>

section \<open>Calls\<close>

fun operationStatusText :: "OperationStatus \<Rightarrow> string" where
  "operationStatusText OperationQueued = ''QUEUED''"
| "operationStatusText OperationRunning = ''RUNNING''"
| "operationStatusText OperationSucceeded = ''SUCCEEDED''"
| "operationStatusText OperationFailed = ''FAILED''"
| "operationStatusText OperationRollingBack = ''ROLLING_BACK''"
| "operationStatusText OperationRolledBack = ''ROLLED_BACK''"
| "operationStatusText OperationCancelled = ''CANCELLED''"

definition NewQueuedOperation ::
  "string \<Rightarrow> gotime \<Rightarrow> string \<Rightarrow> OperationType \<Rightarrow> goerr + Operation" where
  "NewQueuedOperation oid now projectID operationType =
     (if oid = [] then Inl (ErrorsNew ''operation ID generator returned an empty ID'')
      else Inr \<lparr>op_ID = oid, op_ProjectID = projectID, op_Type = operationType,
        op_Status = OperationQueued, op_CurrentStep = [], op_Progress = 0, op_ErrorCode = [],
        op_ErrorMessage = [], op_StartedAt = None, op_FinishedAt = None, op_CreatedAt = now\<rparr>)"

definition statusPayload :: "OperationStatus \<Rightarrow> string" where
  "statusPayload s = jsonObject [(''status'', jsonString (operationStatusText s))]"

definition Create :: "string \<Rightarrow> gotime \<Rightarrow> string \<Rightarrow> OperationType \<Rightarrow> (database, Operation) act" where
  "Create oid now projectID operationType =
     (case NewQueuedOperation oid now projectID operationType of
        Inl err \<Rightarrow> throw err
      | Inr op \<Rightarrow> andThen (CreateOperation op ''OPERATION_QUEUED'' (statusPayload OperationQueued))
          (\<lambda>_. ret op))"

definition requireStatus :: "string \<Rightarrow> OperationStatus \<Rightarrow> (database, Operation) act" where
  "requireStatus oid status =
     andThen (GetOperation oid) (\<lambda>op.
     if op_Status op \<noteq> status
     then throw (Errorf [] (Sentinel ErrInvalidTransition)
            ('': '' @ operationStatusText (op_Status op) @ '' to requested state''))
     else ret op)"

definition update :: "Operation \<Rightarrow> OperationUpdate \<Rightarrow> (database, unit) act" where
  "update previous u = UpdateOperation (op_ID previous)
     (if up_StartedAt u = None then u\<lparr>up_StartedAt := op_StartedAt previous\<rparr> else u)"

definition Start :: "gotime \<Rightarrow> string \<Rightarrow> (database, unit) act" where
  "Start now oid =
     andThen (requireStatus oid OperationQueued) (\<lambda>op.
     update op \<lparr>up_Status = OperationRunning, up_CurrentStep = [], up_Progress = 0,
       up_ErrorCode = [], up_ErrorMessage = [], up_StartedAt = Some now, up_FinishedAt = None,
       up_EventType = ''OPERATION_STARTED'', up_EventPayload = statusPayload OperationRunning,
       up_EventTime = now\<rparr>)"

text \<open>\<^verbatim>\<open>json.Marshal\<close> of a map writes the keys in ascending order.\<close>

definition stepPayload :: "string \<Rightarrow> int \<Rightarrow> string \<Rightarrow> string" where
  "stepPayload step progress status = jsonObject
     [(''progress'', itoa progress), (''status'', jsonString status), (''step'', jsonString step)]"

definition StartStep :: "gotime \<Rightarrow> string \<Rightarrow> string \<Rightarrow> int \<Rightarrow> (database, unit) act" where
  "StartStep now oid step progress =
     andThen (requireStatus oid OperationRunning) (\<lambda>op.
     update op \<lparr>up_Status = OperationRunning, up_CurrentStep = step, up_Progress = progress,
       up_ErrorCode = [], up_ErrorMessage = [], up_StartedAt = None, up_FinishedAt = None,
       up_EventType = ''STEP_STARTED'', up_EventPayload = stepPayload step progress ''RUNNING'',
       up_EventTime = now\<rparr>)"

definition CompleteStep :: "gotime \<Rightarrow> string \<Rightarrow> string \<Rightarrow> int \<Rightarrow> (database, unit) act" where
  "CompleteStep now oid step progress =
     andThen (requireStatus oid OperationRunning) (\<lambda>op.
     update op \<lparr>up_Status = OperationRunning, up_CurrentStep = step, up_Progress = progress,
       up_ErrorCode = [], up_ErrorMessage = [], up_StartedAt = None, up_FinishedAt = None,
       up_EventType = ''STEP_COMPLETED'', up_EventPayload = stepPayload step progress ''SUCCEEDED'',
       up_EventTime = now\<rparr>)"

definition Fail :: "gotime \<Rightarrow> string \<Rightarrow> string \<Rightarrow> goerr \<Rightarrow> (database, unit) act" where
  "Fail now oid step cause =
     andThen (requireStatus oid OperationRunning) (\<lambda>op.
     update op \<lparr>up_Status = OperationFailed, up_CurrentStep = step, up_Progress = op_Progress op,
       up_ErrorCode = ''OPERATION_FAILED'', up_ErrorMessage = errText cause, up_StartedAt = None,
       up_FinishedAt = Some now, up_EventType = ''OPERATION_FAILED'',
       up_EventPayload = jsonObject [(''code'', jsonString ''OPERATION_FAILED''),
         (''message'', jsonString (errText cause)), (''step'', jsonString step)],
       up_EventTime = now\<rparr>)"

definition BeginRollback :: "gotime \<Rightarrow> string \<Rightarrow> (database, unit) act" where
  "BeginRollback now oid =
     andThen (requireStatus oid OperationFailed) (\<lambda>op.
     update op \<lparr>up_Status = OperationRollingBack, up_CurrentStep = op_CurrentStep op,
       up_Progress = op_Progress op, up_ErrorCode = op_ErrorCode op,
       up_ErrorMessage = op_ErrorMessage op, up_StartedAt = op_StartedAt op, up_FinishedAt = None,
       up_EventType = ''ROLLBACK_STARTED'', up_EventPayload = statusPayload OperationRollingBack,
       up_EventTime = now\<rparr>)"

definition CompleteRollback :: "gotime \<Rightarrow> string \<Rightarrow> (database, unit) act" where
  "CompleteRollback now oid =
     andThen (requireStatus oid OperationRollingBack) (\<lambda>op.
     update op \<lparr>up_Status = OperationRolledBack, up_CurrentStep = op_CurrentStep op,
       up_Progress = op_Progress op, up_ErrorCode = op_ErrorCode op,
       up_ErrorMessage = op_ErrorMessage op, up_StartedAt = op_StartedAt op,
       up_FinishedAt = Some now, up_EventType = ''ROLLBACK_COMPLETED'',
       up_EventPayload = statusPayload OperationRolledBack, up_EventTime = now\<rparr>)"

definition Succeed :: "gotime \<Rightarrow> string \<Rightarrow> (database, unit) act" where
  "Succeed now oid =
     andThen (requireStatus oid OperationRunning) (\<lambda>op.
     update op \<lparr>up_Status = OperationSucceeded, up_CurrentStep = op_CurrentStep op,
       up_Progress = 100, up_ErrorCode = [], up_ErrorMessage = [],
       up_StartedAt = op_StartedAt op, up_FinishedAt = Some now,
       up_EventType = ''OPERATION_SUCCEEDED'',
       up_EventPayload = jsonObject [(''status'', jsonString ''SUCCEEDED''), (''progress'', ''100'')],
       up_EventTime = now\<rparr>)"

section \<open>The abstract machine\<close>

inductive statusStep :: "OperationStatus \<Rightarrow> OperationStatus \<Rightarrow> bool" where
  starts: "statusStep OperationQueued OperationRunning"
| advances: "statusStep OperationRunning OperationRunning"
| succeeds: "statusStep OperationRunning OperationSucceeded"
| fails: "statusStep OperationRunning OperationFailed"
| rollsBack: "statusStep OperationFailed OperationRollingBack"
| rolledBack: "statusStep OperationRollingBack OperationRolledBack"

inductive_cases statusStep_from: "statusStep s t"

definition statusOf :: "database \<Rightarrow> string \<Rightarrow> OperationStatus option" where
  "statusOf d oid = map_option o_Status (find (\<lambda>r. o_ID r = oid) (operations d))"

definition lawful :: "database \<Rightarrow> database \<Rightarrow> bool" where
  "lawful d d' \<longleftrightarrow> (\<forall>oid s. statusOf d oid = Some s \<longrightarrow>
     (\<exists>s'. statusOf d' oid = Some s' \<and> statusStep\<^sup>*\<^sup>* s s'))"

interpretation lawful: monitor lawful
proof
  show "lawful s s" for s by (auto simp: lawful_def)
  show "lawful s t \<Longrightarrow> lawful t u \<Longrightarrow> lawful s u" for s t u
    unfolding lawful_def by (meson rtranclp_trans)
qed

text \<open>Two terminal states, and no way back from a failure to success.\<close>

lemma statusStep_terminal:
  assumes "statusStep\<^sup>*\<^sup>* s t" and "s = OperationSucceeded \<or> s = OperationRolledBack"
  shows "t = s"
  using assms by (induction rule: rtranclp_induct) (auto elim: statusStep_from)

lemma statusStep_failed:
  assumes "statusStep\<^sup>*\<^sup>* s t" and "s \<in> {OperationFailed, OperationRollingBack, OperationRolledBack}"
  shows "t \<in> {OperationFailed, OperationRollingBack, OperationRolledBack}"
  using assms by (induction rule: rtranclp_induct) (auto elim: statusStep_from)

section \<open>The calls refine the machine\<close>

lemma GetOperation_SomeD:
  assumes "GetOperation oid d = (Inr op, d')"
  shows "d' = d" and "statusOf d oid = Some (op_Status op)" and "op_ID op = oid"
    and "oid \<in> operationIds d"
  using assms by (auto simp: GetOperation_def statusOf_def operationOf_def operationIds_def
      split: option.splits dest!: find_SomeD)

lemma requireStatus_eq_Inr:
  "requireStatus oid status d = (Inr op, d') \<longleftrightarrow>
     GetOperation oid d = (Inr op, d') \<and> op_Status op = status"
  by (auto simp: requireStatus_def andThen_eq_Inr split: if_splits)

lemma GetOperation_state [simp]: "snd (GetOperation oid d) = d"
  by (simp add: GetOperation_def split: option.splits)

lemma requireStatus_state: "requireStatus oid status d = (r, d') \<Longrightarrow> d' = d"
  by (auto simp: requireStatus_def andThen_def GetOperation_def split: option.splits if_splits)

lemma operationEvents_statusOf [simp]: "statusOf (d\<lparr>operationEvents := t\<rparr>) oid = statusOf d oid"
  by (simp add: statusOf_def)

lemma UpdateOperation_run:
  assumes "oid \<in> operationIds d"
  shows "UpdateOperation oid u d = (Inr (),
    d\<lparr>operations := updateWhere (\<lambda>r. o_ID r = oid) (applyUpdate u) (operations d),
      operationEvents := operationEvents d @
        [\<lparr>ev_OperationID = oid, ev_Sequence = maxSequence d oid + 1, ev_Type = up_EventType u,
          ev_Payload = (if up_EventPayload u = [] then ''{}'' else up_EventPayload u),
          ev_CreatedAt = up_EventTime u\<rparr>]\<rparr>)"
proof -
  have "oid \<in> o_ID ` set (updateWhere (\<lambda>r. o_ID r = oid) (applyUpdate u) (operations d))"
    using assms by (simp add: applyUpdate_def operations_ids)
  then show ?thesis
    using assms by (simp add: UpdateOperation_def appendOperationEvent_def andThen_def mapErr_def
        inTx_def maxSequence_def eventsOf_def)
qed

lemma statusOf_updated:
  "statusOf (d\<lparr>operations := updateWhere (\<lambda>r. o_ID r = oid) (applyUpdate u) (operations d)\<rparr>) x =
     (if x = oid then map_option (\<lambda>_. up_Status u) (statusOf d x) else statusOf d x)"
proof -
  have "find (\<lambda>r. o_ID r = x)
          (updateWhere (\<lambda>r. o_ID r = oid) (applyUpdate u) (operations d)) =
        map_option (\<lambda>r. if o_ID r = oid then applyUpdate u r else r)
          (find (\<lambda>r. o_ID r = x) (operations d))"
    by (rule find_updateWhere) (simp add: applyUpdate_def)
  then show ?thesis
    by (auto simp: statusOf_def applyUpdate_def map_option_case dest!: find_SomeD split: option.splits)
qed

text \<open>
  The shape all calls share: a required status and an update to a status the machine allows next.
\<close>

lemma lawful_transition:
  assumes "\<And>op. statusStep s (up_Status (u op))"
  shows "obeys lawful (andThen (requireStatus oid s) (\<lambda>op. update op (u op)))"
proof (rule obeysI)
  fix d r d'
  assume run: "andThen (requireStatus oid s) (\<lambda>op. update op (u op)) d = (r, d')"
  show "lawful d d'"
  proof (cases "requireStatus oid s d")
    case (Pair q t)
    show ?thesis
    proof (cases q)
      case (Inl e)
      with Pair run requireStatus_state show ?thesis by (fastforce intro: lawful.R_refl)
    next
      case (Inr op)
      with Pair have got: "GetOperation oid d = (Inr op, t)" "op_Status op = s"
        by (simp_all add: requireStatus_eq_Inr)
      note g = GetOperation_SomeD [OF got(1)]
      define v where
        "v = (if up_StartedAt (u op) = None then (u op)\<lparr>up_StartedAt := op_StartedAt op\<rparr> else u op)"
      have v: "up_Status v = up_Status (u op)" by (simp add: v_def)
      have "UpdateOperation oid v d = (r, d')"
        using run Pair Inr g by (simp add: update_def v_def [symmetric])
      then have after: "statusOf d' x =
          (if x = oid then map_option (\<lambda>_. up_Status (u op)) (statusOf d x) else statusOf d x)" for x
        using g by (auto simp: UpdateOperation_run statusOf_updated v)
      show ?thesis
        unfolding lawful_def
      proof (intro allI impI)
        fix x s'
        assume "statusOf d x = Some s'"
        with after [of x] g got assms [of op]
        show "\<exists>s''. statusOf d' x = Some s'' \<and> statusStep\<^sup>*\<^sup>* s' s''"
          by (cases "x = oid") auto
      qed
    qed
  qed
qed

lemma lawful_Start [obeys_intros]: "obeys lawful (Start now oid)"
  unfolding Start_def by (rule lawful_transition) (simp add: statusStep.intros)

lemma lawful_StartStep [obeys_intros]: "obeys lawful (StartStep now oid step progress)"
  unfolding StartStep_def by (rule lawful_transition) (simp add: statusStep.intros)

lemma lawful_CompleteStep [obeys_intros]: "obeys lawful (CompleteStep now oid step progress)"
  unfolding CompleteStep_def by (rule lawful_transition) (simp add: statusStep.intros)

lemma lawful_Fail [obeys_intros]: "obeys lawful (Fail now oid step cause)"
  unfolding Fail_def by (rule lawful_transition) (simp add: statusStep.intros)

lemma lawful_BeginRollback [obeys_intros]: "obeys lawful (BeginRollback now oid)"
  unfolding BeginRollback_def by (rule lawful_transition) (simp add: statusStep.intros)

lemma lawful_CompleteRollback [obeys_intros]: "obeys lawful (CompleteRollback now oid)"
  unfolding CompleteRollback_def by (rule lawful_transition) (simp add: statusStep.intros)

lemma lawful_Succeed [obeys_intros]: "obeys lawful (Succeed now oid)"
  unfolding Succeed_def by (rule lawful_transition) (simp add: statusStep.intros)

lemma lawful_append:
  "operations d' = operations d @ t \<Longrightarrow> lawful d d'"
  by (auto simp: lawful_def statusOf_def find_append)

lemma lawful_frame: "operations d' = operations d \<Longrightarrow> lawful d d'"
  by (rule lawful_append [where t = "[]"]) simp

lemma lawful_insertOperation [obeys_intros]: "obeys lawful (insertOperation op)"
  by (rule obeysI) (auto simp: insertOperation_def andThen_def split: if_splits
      intro!: lawful_frame lawful_append)

lemma lawful_appendOperationEvent [obeys_intros]:
  "obeys lawful (appendOperationEvent oid typ payload at)"
  by (rule obeysI) (auto simp: appendOperationEvent_def andThen_def mapErr_def split: if_splits
      intro!: lawful_frame)

lemma lawful_CreateOperation [obeys_intros]: "obeys lawful (CreateOperation op typ payload)"
  unfolding CreateOperation_def by (intro obeys_intros)

lemma lawful_Create [obeys_intros]: "obeys lawful (Create oid now pid typ)"
  unfolding Create_def by (intro obeys_intros)

section \<open>Sequences of calls\<close>

datatype call =
    CallCreate string gotime string OperationType
  | CallStart gotime string
  | CallStartStep gotime string string int
  | CallCompleteStep gotime string string int
  | CallFail gotime string string goerr
  | CallBeginRollback gotime string
  | CallCompleteRollback gotime string
  | CallSucceed gotime string

fun perform :: "call \<Rightarrow> (database, unit) act" where
  "perform (CallCreate oid now pid typ) = andThen (Create oid now pid typ) (\<lambda>_. ret ())"
| "perform (CallStart now oid) = Start now oid"
| "perform (CallStartStep now oid step progress) = StartStep now oid step progress"
| "perform (CallCompleteStep now oid step progress) = CompleteStep now oid step progress"
| "perform (CallFail now oid step cause) = Fail now oid step cause"
| "perform (CallBeginRollback now oid) = BeginRollback now oid"
| "perform (CallCompleteRollback now oid) = CompleteRollback now oid"
| "perform (CallSucceed now oid) = Succeed now oid"

text \<open>Calls one after the other, whatever each returns.\<close>

definition performAll :: "call list \<Rightarrow> database \<Rightarrow> database" where
  "performAll calls d = fold (\<lambda>c t. snd (perform c t)) calls d"

lemma lawful_perform: "obeys lawful (perform c)"
  by (cases c) (auto intro!: obeys_intros)

lemma lawful_performAll: "lawful d (performAll calls d)"
  unfolding performAll_def by (rule lawful.R_fold [OF lawful_perform])

lemma history_update [obeys_intros]: "obeys historyGrows (update op u)"
  unfolding update_def by (intro obeys_intros)

lemma history_requireStatus [obeys_intros]: "obeys historyGrows (requireStatus oid s)"
  by (rule obeysI) (auto dest: requireStatus_state intro: history.R_refl)

lemma wf_update [obeys_intros]: "obeys keepsWf (update op u)"
  unfolding update_def by (intro obeys_intros)

lemma wf_requireStatus [obeys_intros]: "obeys keepsWf (requireStatus oid s)"
  by (rule obeysI) (auto dest: requireStatus_state)

lemmas call_defs = Create_def Start_def StartStep_def CompleteStep_def Fail_def BeginRollback_def
  CompleteRollback_def Succeed_def

lemma history_perform: "obeys historyGrows (perform c)"
  by (cases c) (auto simp: call_defs intro!: obeys_intros)

lemma wf_perform: "obeys keepsWf (perform c)"
  by (cases c) (simp_all add: call_defs, (intro obeys_intros)+)

lemma history_performAll: "historyGrows d (performAll calls d)"
  unfolding performAll_def by (rule history.R_fold [OF history_perform])

section \<open>What a call does\<close>

text \<open>The operation a call is about, the status it requires and the status it leaves.\<close>

fun transition :: "call \<Rightarrow> (string \<times> OperationStatus \<times> OperationStatus) option" where
  "transition (CallCreate oid now pid typ) = None"
| "transition (CallStart now oid) = Some (oid, OperationQueued, OperationRunning)"
| "transition (CallStartStep now oid step progress) = Some (oid, OperationRunning, OperationRunning)"
| "transition (CallCompleteStep now oid step progress) =
     Some (oid, OperationRunning, OperationRunning)"
| "transition (CallFail now oid step cause) = Some (oid, OperationRunning, OperationFailed)"
| "transition (CallBeginRollback now oid) = Some (oid, OperationFailed, OperationRollingBack)"
| "transition (CallCompleteRollback now oid) =
     Some (oid, OperationRollingBack, OperationRolledBack)"
| "transition (CallSucceed now oid) = Some (oid, OperationRunning, OperationSucceeded)"

lemma eventsOf_snoc:
  "eventsOf (d\<lparr>operations := t, operationEvents := operationEvents d @ [e]\<rparr>) oid =
     eventsOf d oid @ (if ev_OperationID e = oid then [e] else [])"
  by (simp add: eventsOf_def)

lemma transition_accepted:
  assumes "GetOperation oid d = (Inr op, d)" and "op_Status op = s"
    and "\<And>op. up_Status (u op) = s'"
  obtains d' e where
    "andThen (requireStatus oid s) (\<lambda>op. update op (u op)) d = (Inr (), d')"
    and "statusOf d' oid = Some s'" and "eventsOf d' oid = eventsOf d oid @ [e]"
proof -
  note g = GetOperation_SomeD [OF assms(1)]
  have req: "requireStatus oid s d = (Inr op, d)"
    using assms(1,2) by (simp add: requireStatus_eq_Inr)
  define v where
    "v = (if up_StartedAt (u op) = None then (u op)\<lparr>up_StartedAt := op_StartedAt op\<rparr> else u op)"
  have v: "up_Status v = s'" by (simp add: v_def assms(3))
  note upd = UpdateOperation_run [OF g(4), of v]
  show ?thesis
  proof (rule that)
    show "andThen (requireStatus oid s) (\<lambda>op. update op (u op)) d =
        (Inr (), snd (UpdateOperation oid v d))"
      using upd g(3) by (simp add: andThen_def req update_def v_def [symmetric])
    show "statusOf (snd (UpdateOperation oid v d)) oid = Some s'"
      using g by (simp add: upd statusOf_updated v)
  qed (simp add: upd eventsOf_snoc)
qed

lemma transition_refused:
  assumes "GetOperation oid d = (Inr op, d)" and "op_Status op \<noteq> s"
  shows "andThen (requireStatus oid s) k d =
    (Inl (Errorf [] (Sentinel ErrInvalidTransition)
       ('': '' @ operationStatusText (op_Status op) @ '' to requested state'')), d)"
proof -
  have "requireStatus oid s d = (Inl (Errorf [] (Sentinel ErrInvalidTransition)
       ('': '' @ operationStatusText (op_Status op) @ '' to requested state'')), d)"
    by (simp add: requireStatus_def andThen_def assms)
  then show ?thesis by simp
qed

section \<open>Properties\<close>

text \<open>
  (C1) The operation service refines the abstract status machine: whatever calls are made on the
  database, in whatever order and with whatever arguments, an operation that exists keeps existing
  and its status has moved along zero or more legal steps of the machine.
\<close>

theorem calls_refine_status_machine:
  assumes "statusOf d oid = Some s"
  shows "\<exists>s'. statusOf (performAll calls d) oid = Some s' \<and> statusStep\<^sup>*\<^sup>* s s'"
  using lawful_performAll [of d calls] assms by (auto simp: lawful_def)

definition sampleOperations :: database where
  "sampleOperations = performAll
     [CallCreate ''op-1'' 0 ''bee'' OperationCreate, CallStart second ''op-1''] sampleDatabase"

theorem calls_refine_status_machine_witness:
  "statusOf sampleOperations ''op-1'' = Some OperationRunning \<and>
   (\<exists>s'. statusOf (performAll [CallSucceed second ''op-1''] sampleOperations) ''op-1'' = Some s' \<and>
      statusStep\<^sup>*\<^sup>* OperationRunning s')"
proof -
  have "statusOf sampleOperations ''op-1'' = Some OperationRunning" by code_simp
  with calls_refine_status_machine [OF this] show ?thesis by blast
qed





text \<open>
  (C13) The event log supports a resuming client: whatever calls are made, the log of an operation
  stays numbered \<open>1..n\<close> without gaps, keeps its old entries unchanged, and asking for the events
  after the last number already received returns exactly the entries added since, in order.
\<close>

theorem event_stream_resumes:
  assumes "eventsContiguous d" and "d' = performAll calls d"
    and "OperationEventsAfter oid (int (length (eventsOf d oid))) d' = (r, d'')"
  shows "\<exists>new. r = Inr new \<and> d'' = d' \<and> eventsOf d' oid = eventsOf d oid @ new \<and>
    map ev_Sequence (eventsOf d' oid) = map int [1..<Suc (length (eventsOf d' oid))]"
proof -
  have grows: "historyGrows d d'"
    using history_performAll assms(2) by simp
  then have contiguous: "eventsContiguous d'" and "prefix (eventsOf d oid) (eventsOf d' oid)"
    using assms(1) by (simp_all add: historyGrows_def)
  then obtain new where new: "eventsOf d' oid = eventsOf d oid @ new"
    by (auto simp: prefix_def)
  with eventsAfter_run [OF contiguous] assms(3) have "r = Inr new" and "d'' = d'" by auto
  with new contiguous show ?thesis unfolding eventsContiguous_def by blast
qed

lemma sampleOperations_contiguous: "eventsContiguous sampleOperations"
proof -
  have "operationEvents sampleDatabase = []" by code_simp
  then have "eventsContiguous sampleDatabase"
    by (simp add: eventsContiguous_def eventsOf_def)
  then show ?thesis
    using history_performAll by (auto simp: sampleOperations_def historyGrows_def)
qed

theorem event_stream_resumes_witness:
  "\<exists>new. OperationEventsAfter ''op-1'' 2 (performAll [CallSucceed second ''op-1''] sampleOperations) =
       (Inr new, performAll [CallSucceed second ''op-1''] sampleOperations) \<and>
     eventsOf (performAll [CallSucceed second ''op-1''] sampleOperations) ''op-1'' =
       eventsOf sampleOperations ''op-1'' @ new"
proof -
  let ?d' = "performAll [CallSucceed second ''op-1''] sampleOperations"
  have two: "length (eventsOf sampleOperations ''op-1'') = 2" by code_simp
  obtain r d'' where run: "OperationEventsAfter ''op-1'' 2 ?d' = (r, d'')"
    by (cases "OperationEventsAfter ''op-1'' 2 ?d'")
  then have "OperationEventsAfter ''op-1'' (int (length (eventsOf sampleOperations ''op-1''))) ?d' = (r, d'')"
    by (simp add: two)
  from event_stream_resumes [OF sampleOperations_contiguous refl this] run show ?thesis by auto
qed

end
