(* ===== verification/World.thy ===== *)
theory World
  imports Samples
begin

text \<open>
  What the services of the Manager act on. \<open>world\<close> is the state of the process: the database, the
  in-memory locks and leases of the configuration orchestrator, the spool of uploaded function
  archives, and the log of the requests sent to the Provisioner. \<open>environment\<close> is everything outside
  the Manager's own code: the clock, the identifier and secret generators, the cipher, the port
  probes, the Provisioner, the disk of the upload spool (\<open>e_Disk\<close>) and whether the background renewal
  of a lease has failed (\<open>e_Lost\<close>). Its functions take the number of interactions made so far, so an
  environment may answer the same question differently at different times; nothing is assumed about
  it beyond the hypotheses a theorem states.
\<close>

datatype ProvisionerCall =
    SentLifecycle LifecycleRequest
  | SentInspect InspectProjectRequest
  | SentReconcile ReconcileProjectRequest
  | SentRotate RotateDatabasePasswordRequest
  | SentRollbackRotation RotateDatabasePasswordRequest
  | SentConfirmRotation ConfirmDatabasePasswordRotationRequest
  | SentDeployFunction string string string string
  | SentRollbackFunction string string string
  | SentDeleteFunction string string string

record world =
  w_DB :: database
  w_Steps :: nat
  w_Sent :: "ProvisionerCall list"
  w_Locks :: "string list"
  w_Leases :: "(string \<times> ConfigurationLease) list"
  w_Spool :: "(string \<times> string) list"

record environment =
  e_Now :: "nat \<Rightarrow> gotime"
  e_ID :: "nat \<Rightarrow> string"
  e_Probe :: "nat \<Rightarrow> int \<Rightarrow> bool"
  e_Remote :: "(nat \<Rightarrow> int \<Rightarrow> goerr + bool) option"
  e_Lifecycle :: "nat \<Rightarrow> LifecycleRequest \<Rightarrow> goerr option"
  e_Inspect :: "nat \<Rightarrow> InspectProjectRequest \<Rightarrow> goerr + HealthStatus"
  e_Reconcile :: "nat \<Rightarrow> ReconcileProjectRequest \<Rightarrow> goerr + ReconcileProjectResponse"
  e_Rotate :: "nat \<Rightarrow> RotateDatabasePasswordRequest \<Rightarrow> goerr + RotateDatabasePasswordResponse"
  e_RollbackRotation :: "nat \<Rightarrow> RotateDatabasePasswordRequest \<Rightarrow> goerr option"
  e_ConfirmRotation :: "nat \<Rightarrow> ConfirmDatabasePasswordRotationRequest \<Rightarrow> goerr option"
  e_DeployFunction :: "nat \<Rightarrow> string \<Rightarrow> string \<Rightarrow> string \<Rightarrow> string \<Rightarrow> goerr option"
  e_RollbackFunction :: "nat \<Rightarrow> string \<Rightarrow> string \<Rightarrow> string \<Rightarrow> goerr option"
  e_DeleteFunction :: "nat \<Rightarrow> string \<Rightarrow> string \<Rightarrow> string \<Rightarrow> goerr option"
  e_Encrypt :: "nat \<Rightarrow> string \<Rightarrow> string \<Rightarrow> string \<Rightarrow> goerr + Envelope"
  e_Decrypt :: "string \<Rightarrow> string \<Rightarrow> Envelope \<Rightarrow> goerr + string"
  e_Generate :: "nat \<Rightarrow> goerr + ProjectSecrets"
  e_RandomSecret :: "nat \<Rightarrow> goerr + string"
  e_SHA256 :: "string \<Rightarrow> string"
  e_Disk :: "nat \<Rightarrow> goerr option"
  e_Lost :: "nat \<Rightarrow> bool"

definition newWorld :: "database \<Rightarrow> world" where
  "newWorld d = \<lparr>w_DB = d, w_Steps = 0, w_Sent = [], w_Locks = [], w_Leases = [], w_Spool = []\<rparr>"

text \<open>
  A cooperative environment for the witnesses: a clock that advances one second per question, every
  port free, a Provisioner that agrees to everything, and a cipher that stores the text.
\<close>

definition sampleEnvironment :: environment where
  "sampleEnvironment = \<lparr>e_Now = (\<lambda>n. int n * second), e_ID = (\<lambda>n. ''op-'' @ replicate n (CHR ''i'')),
     e_Probe = (\<lambda>n port. True), e_Remote = None,
     e_Lifecycle = (\<lambda>n request. None), e_Inspect = (\<lambda>n request. Inr HealthHealthy),
     e_Reconcile = (\<lambda>n request. Inr \<lparr>rs_OperationID = rr_OperationID request,
        rs_ProjectID = rr_ProjectID request, rs_Revision = rr_NextRevision request,
        rs_EnabledServices = [], rs_RecreatedServices = []\<rparr>),
     e_Rotate = (\<lambda>n request. Inr \<lparr>rotr_OperationID = rot_OperationID request,
        rotr_ProjectID = rot_ProjectID request, rotr_Revision = rot_NextRevision request\<rparr>),
     e_RollbackRotation = (\<lambda>n request. None), e_ConfirmRotation = (\<lambda>n request. None),
     e_DeployFunction = (\<lambda>n slug name oid archive. None),
     e_RollbackFunction = (\<lambda>n slug name oid. None), e_DeleteFunction = (\<lambda>n slug name oid. None),
     e_Encrypt = (\<lambda>n pid kind text. Inr \<lparr>env_Version = 1, env_Nonce = [], env_Ciphertext = text\<rparr>),
     e_Decrypt = (\<lambda>pid kind envelope. Inr (env_Ciphertext envelope)),
     e_Generate = (\<lambda>n. Inr noProjectSecrets), e_RandomSecret = (\<lambda>n. Inr ''secret''),
     e_SHA256 = (\<lambda>text. text), e_Disk = (\<lambda>n. None), e_Lost = (\<lambda>n. False)\<rparr>"

section \<open>Interactions\<close>

text \<open>A database action as an action of the process.\<close>

definition onDb :: "(database, 'a) act \<Rightarrow> (world, 'a) act" where
  "onDb m w = (case m (w_DB w) of (r, d) \<Rightarrow> (r, w\<lparr>w_DB := d\<rparr>))"

text \<open>One question to the environment.\<close>

definition ask :: "(nat \<Rightarrow> 'a) \<Rightarrow> (world, 'a) act" where
  "ask f w = (Inr (f (w_Steps w)), w\<lparr>w_Steps := Suc (w_Steps w)\<rparr>)"

definition orFail :: "goerr + 'a \<Rightarrow> (world, 'a) act" where
  "orFail r = (case r of Inl e \<Rightarrow> throw e | Inr x \<Rightarrow> ret x)"

definition orErr :: "goerr option \<Rightarrow> (world, unit) act" where
  "orErr r = (case r of Some e \<Rightarrow> throw e | None \<Rightarrow> ret ())"

definition currentTime :: "environment \<Rightarrow> (world, gotime) act" where
  "currentTime env = ask (e_Now env)"

text \<open>A request to the Provisioner is logged whether or not it succeeds.\<close>

definition send :: "ProvisionerCall \<Rightarrow> (world, unit) act" where
  "send c = modify (\<lambda>w. w\<lparr>w_Sent := w_Sent w @ [c]\<rparr>)"

definition Lifecycle :: "environment \<Rightarrow> LifecycleRequest \<Rightarrow> (world, unit) act" where
  "Lifecycle env request = andThen (send (SentLifecycle request)) (\<lambda>_.
     andThen (ask (\<lambda>n. e_Lifecycle env n request)) orErr)"

definition Inspect :: "environment \<Rightarrow> InspectProjectRequest \<Rightarrow> (world, HealthStatus) act" where
  "Inspect env request = andThen (send (SentInspect request)) (\<lambda>_.
     andThen (ask (\<lambda>n. e_Inspect env n request)) orFail)"

definition Reconcile ::
  "environment \<Rightarrow> ReconcileProjectRequest \<Rightarrow> (world, ReconcileProjectResponse) act" where
  "Reconcile env request = andThen (send (SentReconcile request)) (\<lambda>_.
     andThen (ask (\<lambda>n. e_Reconcile env n request)) orFail)"

definition RotateDatabasePassword ::
  "environment \<Rightarrow> RotateDatabasePasswordRequest \<Rightarrow> (world, RotateDatabasePasswordResponse) act" where
  "RotateDatabasePassword env request = andThen (send (SentRotate request)) (\<lambda>_.
     andThen (ask (\<lambda>n. e_Rotate env n request)) orFail)"

definition RollbackDatabasePassword ::
  "environment \<Rightarrow> RotateDatabasePasswordRequest \<Rightarrow> (world, unit) act" where
  "RollbackDatabasePassword env request = andThen (send (SentRollbackRotation request)) (\<lambda>_.
     andThen (ask (\<lambda>n. e_RollbackRotation env n request)) orErr)"

definition ConfirmDatabasePasswordRotation ::
  "environment \<Rightarrow> ConfirmDatabasePasswordRotationRequest \<Rightarrow> (world, unit) act" where
  "ConfirmDatabasePasswordRotation env request = andThen (send (SentConfirmRotation request)) (\<lambda>_.
     andThen (ask (\<lambda>n. e_ConfirmRotation env n request)) orErr)"

definition DeployFunction ::
  "environment \<Rightarrow> string \<Rightarrow> string \<Rightarrow> string \<Rightarrow> string \<Rightarrow> (world, unit) act" where
  "DeployFunction env slug name oid archive = andThen (send (SentDeployFunction slug name oid archive)) (\<lambda>_.
     andThen (ask (\<lambda>n. e_DeployFunction env n slug name oid archive)) orErr)"

definition RollbackFunction :: "environment \<Rightarrow> string \<Rightarrow> string \<Rightarrow> string \<Rightarrow> (world, unit) act" where
  "RollbackFunction env slug name oid = andThen (send (SentRollbackFunction slug name oid)) (\<lambda>_.
     andThen (ask (\<lambda>n. e_RollbackFunction env n slug name oid)) orErr)"

definition DeleteFunction :: "environment \<Rightarrow> string \<Rightarrow> string \<Rightarrow> string \<Rightarrow> (world, unit) act" where
  "DeleteFunction env slug name oid = andThen (send (SentDeleteFunction slug name oid)) (\<lambda>_.
     andThen (ask (\<lambda>n. e_DeleteFunction env n slug name oid)) orErr)"

section \<open>Relations on the database part\<close>

definition dbRel :: "(database \<Rightarrow> database \<Rightarrow> bool) \<Rightarrow> world \<Rightarrow> world \<Rightarrow> bool" where
  "dbRel R w w' = R (w_DB w) (w_DB w')"

lemma monitor_dbRel: "monitor R \<Longrightarrow> monitor (dbRel R)"
  unfolding monitor_def dbRel_def by blast

lemma obeys_onDb [obeys_intros]: "obeys R m \<Longrightarrow> obeys (dbRel R) (onDb m)"
  by (auto simp: obeys_def dbRel_def onDb_def split: prod.splits) (metis snd_conv)

interpretation wfW: monitor "dbRel keepsWf"
  by (rule monitor_dbRel) unfold_locales

lemma onDb_run: "onDb m w = (fst (m (w_DB w)), w\<lparr>w_DB := snd (m (w_DB w))\<rparr>)"
  by (simp add: onDb_def split: prod.splits)

lemma onDb_Inr: "m (w_DB w) = (Inr x, d) \<Longrightarrow> onDb m w = (Inr x, w\<lparr>w_DB := d\<rparr>)"
  by (simp add: onDb_def)

lemma onDb_Inl: "m (w_DB w) = (Inl e, d) \<Longrightarrow> onDb m w = (Inl e, w\<lparr>w_DB := d\<rparr>)"
  by (simp add: onDb_def)

lemma onDb_eq: "onDb m w = (r, w') \<longleftrightarrow> (\<exists>d. m (w_DB w) = (r, d) \<and> w' = w\<lparr>w_DB := d\<rparr>)"
  by (auto simp: onDb_def split: prod.splits)

lemma ask_run [simp]: "ask f w = (Inr (f (w_Steps w)), w\<lparr>w_Steps := Suc (w_Steps w)\<rparr>)"
  by (simp add: ask_def)

lemma ask_db: "ask f w = (r, w') \<Longrightarrow> w_DB w' = w_DB w"
  by auto

lemma send_run [simp]: "send c w = (Inr (), w\<lparr>w_Sent := w_Sent w @ [c]\<rparr>)"
  by (simp add: send_def)

lemma orFail_simps [simp]: "orFail (Inl e) = throw e" "orFail (Inr x) = ret x"
  by (simp_all add: orFail_def)

lemma orErr_simps [simp]: "orErr (Some e) = throw e" "orErr None = ret ()"
  by (simp_all add: orErr_def)

text \<open>Interactions do not touch the database, so they obey every reflexive relation on it.\<close>

definition sameDb :: "world \<Rightarrow> world \<Rightarrow> bool" where
  "sameDb w w' \<longleftrightarrow> w_DB w' = w_DB w"

interpretation sameDb: monitor sameDb
  by unfold_locales (auto simp: sameDb_def)

lemma sameDb_ask [obeys_intros]: "obeys sameDb (ask f)"
  by (simp add: obeys_def sameDb_def)

lemma sameDb_send [obeys_intros]: "obeys sameDb (send c)"
  by (simp add: obeys_def sameDb_def)

lemma sameDb_orFail [obeys_intros]: "obeys sameDb (orFail r)"
  by (simp add: obeys_def sameDb_def orFail_def split: sum.splits)

lemma sameDb_orErr [obeys_intros]: "obeys sameDb (orErr r)"
  by (simp add: obeys_def sameDb_def orErr_def split: option.splits)

lemma sameDb_currentTime [obeys_intros]: "obeys sameDb (currentTime env)"
  unfolding currentTime_def by (intro obeys_intros)

lemma sameDb_Lifecycle [obeys_intros]: "obeys sameDb (Lifecycle env request)"
  unfolding Lifecycle_def by (intro obeys_intros)

lemma sameDb_Inspect [obeys_intros]: "obeys sameDb (Inspect env request)"
  unfolding Inspect_def by (intro obeys_intros)

lemma sameDb_Reconcile [obeys_intros]: "obeys sameDb (Reconcile env request)"
  unfolding Reconcile_def by (intro obeys_intros)

lemma sameDb_requests [obeys_intros]:
  "obeys sameDb (RotateDatabasePassword env rotation)" "obeys sameDb (RollbackDatabasePassword env rotation)"
  "obeys sameDb (ConfirmDatabasePasswordRotation env confirmation)"
  "obeys sameDb (DeployFunction env slug name oid archive)" "obeys sameDb (RollbackFunction env slug name oid)"
  "obeys sameDb (DeleteFunction env slug name oid)"
  unfolding RotateDatabasePassword_def RollbackDatabasePassword_def ConfirmDatabasePasswordRotation_def
    DeployFunction_def RollbackFunction_def DeleteFunction_def
  by (intro obeys_intros)+

lemma obeys_sameDb: "obeys sameDb m \<Longrightarrow> monitor R \<Longrightarrow> obeys (dbRel R) m"
  by (erule obeys_mono) (simp add: sameDb_def dbRel_def monitor_def)

end
