(* ===== verification/StorePorts.thy ===== *)
theory StorePorts
  imports Samples
begin

text \<open>
  \<^verbatim>\<open>store/ports.go\<close>: the table of ports the projects own, and the check against the ports that
  pending configuration updates have reserved. The locale \<open>port_registry\<close> is what the port
  allocator relies on: a claim of several ports is all or nothing, claims never take a port away,
  and no port has two owners.
\<close>

section \<open>Statements\<close>

definition portResource :: "int \<Rightarrow> string" where
  "portResource port = ''port:'' @ itoa port"

definition pendingPort :: "database \<Rightarrow> int \<Rightarrow> bool" where
  "pendingPort d port =
     existsWhere (\<lambda>r. rv_Kind r = portResource port \<and> rv_Key r = itoa port) (reservations d)"

definition ReservedPort :: "string \<Rightarrow> string \<Rightarrow> (database, int) act" where
  "ReservedPort pid kind d =
     (case find (\<lambda>r. pt_Project r = pid \<and> pt_Kind r = kind) (portAllocations d) of
        None \<Rightarrow> (Inl (Sentinel ErrNotFound), d)
      | Some r \<Rightarrow> (Inr (pt_Port r), d))"

definition PortInUse :: "int \<Rightarrow> (database, bool) act" where
  "PortInUse port d =
     (Inr (existsWhere (\<lambda>r. pt_Port r = port) (portAllocations d) \<or> pendingPort d port), d)"

definition reservationConflict :: goerr where
  "reservationConflict = ErrorsNew ''port reservation conflict''"

text \<open>
  \<^verbatim>\<open>INSERT OR IGNORE\<close>: a row that would break a \<^verbatim>\<open>UNIQUE\<close> constraint is not inserted, which the
  caller sees as a row count of zero.
\<close>

definition reserveOne :: "string \<Rightarrow> string \<times> int \<Rightarrow> (database, unit) act" where
  "reserveOne pid entry = (case entry of (kind, port) \<Rightarrow>
     andThen (gets id) (\<lambda>d.
     andThen (failIf (pendingPort d port) reservationConflict) (\<lambda>_.
     andThen (failIf (existsWhere (\<lambda>r. pt_Port r = port \<or> (pt_Project r = pid \<and> pt_Kind r = kind))
                (portAllocations d)) reservationConflict) (\<lambda>_.
     andThen (mapErr (\<lambda>e. Errorf (''reserve '' @ kind @ '' port: '') e []) (requireProject pid)) (\<lambda>_.
     modify (\<lambda>d. d\<lparr>portAllocations := portAllocations d @
       [\<lparr>pt_Port = port, pt_Project = pid, pt_Kind = kind\<rparr>]\<rparr>))))))"

definition TryReservePorts :: "string \<Rightarrow> (string \<times> int) list \<Rightarrow> (database, bool) act" where
  "TryReservePorts pid wanted d =
     (case inTx (forEach wanted (reserveOne pid)) d of
        (Inl e, d') \<Rightarrow> (if e = reservationConflict then (Inr False, d') else (Inl e, d'))
      | (Inr _, d') \<Rightarrow> (Inr True, d'))"

definition ReleaseProjectPorts :: "string \<Rightarrow> (database, unit) act" where
  "ReleaseProjectPorts pid =
     modify (\<lambda>d. d\<lparr>portAllocations := deleteWhere (\<lambda>r. pt_Project r = pid) (portAllocations d)\<rparr>)"

definition ReleasePort :: "string \<Rightarrow> string \<Rightarrow> (database, unit) act" where
  "ReleasePort pid kind = modify (\<lambda>d. d\<lparr>portAllocations :=
     deleteWhere (\<lambda>r. pt_Project r = pid \<and> pt_Kind r = kind) (portAllocations d)\<rparr>)"

section \<open>The schema invariant\<close>

lemma wf_reserveOne [obeys_intros]: "obeys keepsWf (reserveOne pid entry)"
  by (rule wfI) (auto simp: reserveOne_def andThen_def mapErr_def existsWhere_iff dbWf_keys dbWf_refs
      split: prod.splits if_splits intro!: dbWf_portAllocationsI keyed_snoc refs_snoc)

lemma wf_TryReservePorts [obeys_intros]: "obeys keepsWf (TryReservePorts pid wanted)"
proof (rule wfI)
  fix d r d'
  assume wf: "dbWf d" and run: "TryReservePorts pid wanted d = (r, d')"
  obtain q t where body: "inTx (forEach wanted (reserveOne pid)) d = (q, t)" by fastforce
  have "obeys keepsWf (inTx (forEach wanted (reserveOne pid)))" by (intro obeys_intros)
  from obeysD [OF this body] wf have "dbWf t" by blast
  moreover have "d' = t" using run body by (auto simp: TryReservePorts_def split: sum.splits if_splits)
  ultimately show "dbWf d'" by simp
qed

lemma wf_ReleaseProjectPorts [obeys_intros]: "obeys keepsWf (ReleaseProjectPorts pid)"
  by (rule wfI) (auto simp: ReleaseProjectPorts_def dbWf_keys dbWf_refs
      intro!: dbWf_intros table_intros)

lemma wf_ReleasePort [obeys_intros]: "obeys keepsWf (ReleasePort pid kind)"
  by (rule wfI) (auto simp: ReleasePort_def dbWf_keys dbWf_refs intro!: dbWf_intros table_intros)

section \<open>The registry interface\<close>

text \<open>
  \<open>owner d port\<close> is the project and kind a port belongs to, \<open>taken\<close> says that a port is pending
  elsewhere, \<open>claim\<close> answers \<open>None\<close> when it fails.
\<close>

locale port_registry =
  fixes valid :: "'d \<Rightarrow> bool"
    and owner :: "'d \<Rightarrow> int \<Rightarrow> ('p \<times> 'k) option"
    and taken :: "'d \<Rightarrow> int \<Rightarrow> bool"
    and claim :: "'p \<Rightarrow> ('k \<times> int) list \<Rightarrow> 'd \<Rightarrow> 'd option"
  assumes claim_valid: "valid d \<Longrightarrow> claim p wanted d = Some d' \<Longrightarrow> valid d'"
    and claim_new: "valid d \<Longrightarrow> claim p wanted d = Some d' \<Longrightarrow> (k, port) \<in> set wanted \<Longrightarrow>
      owner d port = None \<and> \<not> taken d port \<and> owner d' port = Some (p, k)"
    and claim_frame: "valid d \<Longrightarrow> claim p wanted d = Some d' \<Longrightarrow> port \<notin> snd ` set wanted \<Longrightarrow>
      owner d' port = owner d port"
begin

lemma claim_keeps:
  assumes "valid d" and "claim p wanted d = Some d'" and "owner d port = Some who"
  shows "owner d' port = Some who"
proof (cases "port \<in> snd ` set wanted")
  case True
  then obtain k where "(k, port) \<in> set wanted" by auto
  then show ?thesis using claim_new [OF assms(1,2)] assms(3) by auto
next
  case False
  then show ?thesis using claim_frame [OF assms(1,2)] assms(3) by simp
qed

lemma claim_exact:
  assumes "valid d" and "claim p wanted d = Some d'"
  shows "owner d' port = Some (q, k) \<longleftrightarrow>
    owner d port = Some (q, k) \<or> q = p \<and> (k, port) \<in> set wanted"
proof (cases "port \<in> snd ` set wanted")
  case True
  then obtain k' where k': "(k', port) \<in> set wanted" by auto
  from claim_new [OF assms k'] have own: "owner d port = None" "owner d' port = Some (p, k')" by auto
  have "(k, port) \<in> set wanted \<longleftrightarrow> k = k'"
    using claim_new [OF assms, of k port] own k' by auto
  with own show ?thesis by auto
next
  case False
  then have "(k, port) \<notin> set wanted" by force
  then show ?thesis using claim_frame [OF assms False] by simp
qed

end

definition portOwner :: "database \<Rightarrow> int \<Rightarrow> (string \<times> string) option" where
  "portOwner d port = map_option (\<lambda>r. (pt_Project r, pt_Kind r))
     (find (\<lambda>r. pt_Port r = port) (portAllocations d))"

definition claimPorts :: "string \<Rightarrow> (string \<times> int) list \<Rightarrow> database \<Rightarrow> database option" where
  "claimPorts pid wanted d = (case TryReservePorts pid wanted d of
      (Inr True, d') \<Rightarrow> Some d' | _ \<Rightarrow> None)"

lemma TryReservePorts_True:
  "TryReservePorts pid wanted d = (Inr True, d') \<longleftrightarrow> forEach wanted (reserveOne pid) d = (Inr (), d')"
  by (auto simp: TryReservePorts_def inTx_def split: prod.splits sum.splits if_splits)

lemma TryReservePorts_other:
  "TryReservePorts pid wanted d = (r, d') \<Longrightarrow> r \<noteq> Inr True \<Longrightarrow> d' = d"
  by (auto simp: TryReservePorts_def inTx_def split: prod.splits sum.splits if_splits)

lemma reserveOne_Inr:
  "reserveOne pid (kind, port) d = (Inr (), d') \<longleftrightarrow>
     \<not> pendingPort d port \<and> portOwner d port = None \<and>
     (\<forall>r\<in>set (portAllocations d). \<not> (pt_Project r = pid \<and> pt_Kind r = kind)) \<and>
     pid \<in> projectIds d \<and>
     d' = d\<lparr>portAllocations := portAllocations d @ [\<lparr>pt_Port = port, pt_Project = pid, pt_Kind = kind\<rparr>]\<rparr>"
  by (auto simp: reserveOne_def andThen_def mapErr_def portOwner_def existsWhere_iff find_None_iff
      split: if_splits)

lemma pendingPort_ports [simp]: "pendingPort (d\<lparr>portAllocations := t\<rparr>) port = pendingPort d port"
  by (simp add: pendingPort_def)

lemma portOwner_snoc:
  "portOwner (d\<lparr>portAllocations := portAllocations d @ [r]\<rparr>) x =
     (case portOwner d x of None \<Rightarrow> if pt_Port r = x then Some (pt_Project r, pt_Kind r) else None
      | Some o' \<Rightarrow> Some o')"
  by (auto simp: portOwner_def find_append split: option.splits)

lemma forEach_reserve:
  assumes "forEach wanted (reserveOne pid) d = (Inr (), d')"
  shows "(\<forall>k port. (k, port) \<in> set wanted \<longrightarrow>
            portOwner d port = None \<and> \<not> pendingPort d port \<and> portOwner d' port = Some (pid, k)) \<and>
         (\<forall>port. portOwner d port \<noteq> None \<or> port \<notin> snd ` set wanted \<longrightarrow>
            portOwner d' port = portOwner d port) \<and>
         reservations d' = reservations d"
  using assms
proof (induction wanted arbitrary: d)
  case (Cons entry wanted)
  obtain kind port where entry: "entry = (kind, port)" by (cases entry)
  obtain e where first: "reserveOne pid (kind, port) d = (Inr (), e)"
    and rest: "forEach wanted (reserveOne pid) e = (Inr (), d')"
    using Cons.prems by (auto simp: entry andThen_eq_Inr)
  have e: "e = d\<lparr>portAllocations := portAllocations d @ [\<lparr>pt_Port = port, pt_Project = pid, pt_Kind = kind\<rparr>]\<rparr>"
    and new: "\<not> pendingPort d port" "portOwner d port = None"
    using first by (simp_all add: reserveOne_Inr)
  have own: "portOwner e x = (if x = port then Some (pid, kind) else portOwner d x)" for x
    using new by (auto simp: e portOwner_snoc split: option.splits)
  note IH = Cons.IH [OF rest]
  have "portOwner d' port = Some (pid, kind)"
    using IH own by simp
  moreover have "x \<noteq> port" if "(k, x) \<in> set wanted" for k x
    using IH own that by force
  ultimately show ?case
    using IH own new by (auto simp: entry) (auto simp: e)
qed simp

interpretation ports: port_registry dbWf portOwner pendingPort claimPorts
proof
  fix d d' pid wanted
  assume wf: "dbWf d" and claim: "claimPorts pid wanted d = Some d'"
  then have attempted: "TryReservePorts pid wanted d = (Inr True, d')"
    by (auto simp: claimPorts_def split: prod.splits sum.splits bool.splits)
  show "dbWf d'" using obeysD [OF wf_TryReservePorts attempted] wf by blast
  have run: "forEach wanted (reserveOne pid) d = (Inr (), d')"
    using attempted by (simp add: TryReservePorts_True)
  show "portOwner d port = None \<and> \<not> pendingPort d port \<and> portOwner d' port = Some (pid, k)"
    if "(k, port) \<in> set wanted" for k port
    using forEach_reserve [OF run] that by blast
  show "portOwner d' port = portOwner d port" if "port \<notin> snd ` set wanted" for port
    using forEach_reserve [OF run] that by blast
qed

text \<open>In a well-formed table the two ways of reading an allocation agree.\<close>

lemma ReservedPort_owner:
  assumes "dbWf d"
  shows "ReservedPort pid kind d = (Inr port, d') \<longleftrightarrow> d' = d \<and> portOwner d port = Some (pid, kind)"
proof -
  have key: "keyed pt_Port (portAllocations d)"
    and key2: "keyed (\<lambda>r. (pt_Project r, pt_Kind r)) (portAllocations d)"
    using assms by (simp_all add: dbWf_keys)
  have "portOwner d port = Some (pid, kind) \<longleftrightarrow>
      (\<exists>r\<in>set (portAllocations d). pt_Port r = port \<and> pt_Project r = pid \<and> pt_Kind r = kind)"
    by (auto simp: portOwner_def find_keyed_iff [OF key])
  moreover have "ReservedPort pid kind d = (Inr port, d') \<longleftrightarrow> d' = d \<and>
      (\<exists>r\<in>set (portAllocations d). pt_Port r = port \<and> pt_Project r = pid \<and> pt_Kind r = kind)"
  proof -
    have "ReservedPort pid kind d = (Inr port, d') \<longleftrightarrow> d' = d \<and>
      (\<exists>r. find (\<lambda>r. pt_Project r = pid \<and> pt_Kind r = kind) (portAllocations d) = Some r \<and>
        pt_Port r = port)"
      by (auto simp: ReservedPort_def split: option.splits)
    then show ?thesis by (auto simp: find_keyed2_iff [OF key2])
  qed
  ultimately show ?thesis by simp
qed

lemma ReservedPort_state [simp]: "snd (ReservedPort pid kind d) = d"
  by (simp add: ReservedPort_def split: option.splits)

end
