(* ===== verification/PortAllocator.thy ===== *)
theory PortAllocator
  imports World StorePorts
begin

text \<open>
  \<^verbatim>\<open>ports/allocator.go\<close>: the choice of host ports for a project. \<^verbatim>\<open>ReserveMany\<close> claims the ports of
  an installation, \<^verbatim>\<open>CandidateMany\<close> only proposes the ports of an update. The range of the allocator
  is an argument; the probes belong to the environment.
\<close>

definition KindAPI :: string where "KindAPI = ''API''"
definition KindStudio :: string where "KindStudio = ''STUDIO''"
definition KindDirectDB :: string where "KindDirectDB = ''DATABASE''"
definition KindPoolerTxn :: string where "KindPoolerTxn = ''POOLER_TRANSACTION''"
definition KindPoolerSes :: string where "KindPoolerSes = ''POOLER_SESSION''"

record Allocator =
  al_Min :: int
  al_Max :: int

definition available :: "environment \<Rightarrow> int \<Rightarrow> (world, bool) act" where
  "available env port =
     andThen (ask (\<lambda>n. e_Probe env n port)) (\<lambda>free.
     if \<not> free then ret False
     else (case e_Remote env of
         None \<Rightarrow> ret True
       | Some remote \<Rightarrow> andThen (ask (\<lambda>n. remote n port)) orFail))"

definition checkPort :: "environment \<Rightarrow> int \<Rightarrow> (world, bool) act" where
  "checkPort env port =
     mapErr (\<lambda>e. Errorf (''check host port '' @ itoa port @ '': '') e []) (available env port)"

text \<open>The ports of the kinds that are already reserved, and the kinds that are not.\<close>

fun splitReserved :: "string \<Rightarrow> string list \<Rightarrow> (string \<times> int) list \<Rightarrow> string list \<Rightarrow>
    (database, (string \<times> int) list \<times> string list) act" where
  "splitReserved pid [] allocated missing = ret (allocated, missing)"
| "splitReserved pid (kind # kinds) allocated missing =
     (if mapHas allocated kind then splitReserved pid kinds allocated missing
      else andThen (attempt (ReservedPort pid kind)) (\<lambda>r. case r of
          Inr port \<Rightarrow> splitReserved pid kinds (mapPut kind port allocated) missing
        | Inl err \<Rightarrow> if errorsIs err ErrNotFound then splitReserved pid kinds allocated (missing @ [kind])
                    else throw err))"

section \<open>ReserveMany\<close>

text \<open>The inner loop over offsets: the first unused available port of the window.\<close>

fun selectPort :: "environment \<Rightarrow> int list \<Rightarrow> int list \<Rightarrow> (world, int option) act" where
  "selectPort env used [] = ret None"
| "selectPort env used (port # ports) =
     (if port \<in> set used then selectPort env used ports
      else andThen (checkPort env port) (\<lambda>free.
        if free then ret (Some port) else selectPort env used ports))"

fun selectPorts :: "environment \<Rightarrow> int list \<Rightarrow> int list \<Rightarrow> string list \<Rightarrow> (string \<times> int) list \<Rightarrow>
    (world, (string \<times> int) list) act" where
  "selectPorts env window used [] selected = ret selected"
| "selectPorts env window used (kind # kinds) selected =
     andThen (selectPort env used window) (\<lambda>r. case r of
         None \<Rightarrow> selectPorts env window used kinds selected
       | Some port \<Rightarrow> selectPorts env window (port # used) kinds (mapPut kind port selected))"

text \<open>After a conflict: the kinds that a concurrent call reserved meanwhile are no longer missing.\<close>

fun rereadMissing :: "string \<Rightarrow> string list \<Rightarrow> (string \<times> int) list \<Rightarrow>
    (database, (string \<times> int) list \<times> string list) act" where
  "rereadMissing pid [] allocated = ret (allocated, [])"
| "rereadMissing pid (kind # kinds) allocated =
     andThen (attempt (ReservedPort pid kind)) (\<lambda>r. case r of
         Inr port \<Rightarrow> rereadMissing pid kinds (mapPut kind port allocated)
       | Inl err \<Rightarrow> andThen (rereadMissing pid kinds allocated)
           (\<lambda>(allocated', missing). ret (allocated', kind # missing)))"

definition rangeSize :: "Allocator \<Rightarrow> int" where
  "rangeSize a = al_Max a - al_Min a + 1"

definition window :: "Allocator \<Rightarrow> nat \<Rightarrow> int list" where
  "window a cursor = map (\<lambda>offset. al_Min a + (int cursor + int offset) mod rangeSize a)
     [0..<nat (rangeSize a)]"

fun putAll :: "(string \<times> int) list \<Rightarrow> (string \<times> int) list \<Rightarrow> (string \<times> int) list" where
  "putAll [] m = m"
| "putAll ((k, v) # kvs) m = putAll kvs (mapPut k v m)"

fun reserveLoop :: "environment \<Rightarrow> Allocator \<Rightarrow> string \<Rightarrow> nat list \<Rightarrow> (string \<times> int) list \<Rightarrow>
    string list \<Rightarrow> (world, (string \<times> int) list) act" where
  "reserveLoop env a pid [] allocated missing = throw (Sentinel ErrExhausted)"
| "reserveLoop env a pid (cursor # cursors) allocated missing =
     andThen (selectPorts env (window a cursor) (map snd allocated) missing []) (\<lambda>selected.
     if length selected \<noteq> length missing then throw (Sentinel ErrExhausted)
     else andThen (mapErr (\<lambda>e. Errorf ''reserve server-owned ports: '' e [])
                     (onDb (TryReservePorts pid selected))) (\<lambda>reserved.
     if reserved then ret (putAll selected allocated)
     else andThen (onDb (rereadMissing pid missing allocated)) (\<lambda>(allocated', missing').
     if missing' = [] then ret allocated'
     else reserveLoop env a pid cursors allocated' missing')))"

definition ReserveMany ::
  "environment \<Rightarrow> Allocator \<Rightarrow> string \<Rightarrow> string list \<Rightarrow> (world, (string \<times> int) list) act" where
  "ReserveMany env a pid kinds =
     andThen (onDb (splitReserved pid kinds [] [])) (\<lambda>(allocated, missing).
     if missing = [] then ret allocated
     else reserveLoop env a pid [0..<nat (rangeSize a)] allocated missing)"

section \<open>CandidateMany\<close>

fun candidateLoop :: "environment \<Rightarrow> int list \<Rightarrow> (string \<times> int) list \<Rightarrow> int list \<Rightarrow> string list \<Rightarrow>
    (world, (string \<times> int) list) act" where
  "candidateLoop env [] allocated used missing = throw (Sentinel ErrExhausted)"
| "candidateLoop env (port # ports) allocated used missing =
     (if port \<in> set used then candidateLoop env ports allocated used missing
      else andThen (checkPort env port) (\<lambda>free.
      if \<not> free then candidateLoop env ports allocated used missing
      else andThen (onDb (PortInUse port)) (\<lambda>inUse.
      if inUse then candidateLoop env ports allocated used missing
      else (case missing of
          [] \<Rightarrow> throw (Sentinel ErrExhausted)
        | kind # kinds \<Rightarrow>
            if kinds = [] then ret (mapPut kind port allocated)
            else candidateLoop env ports (mapPut kind port allocated) (port # used) kinds))))"

definition portRange :: "Allocator \<Rightarrow> int list" where
  "portRange a = map (\<lambda>offset. al_Min a + int offset) [0..<nat (rangeSize a)]"

definition CandidateMany ::
  "environment \<Rightarrow> Allocator \<Rightarrow> string \<Rightarrow> string list \<Rightarrow> (world, (string \<times> int) list) act" where
  "CandidateMany env a pid kinds =
     andThen (onDb (splitReserved pid kinds [] [])) (\<lambda>(allocated, missing).
     if missing = [] then ret allocated
     else candidateLoop env (portRange a) allocated (map snd allocated) missing)"

definition ReleaseProject :: "string \<Rightarrow> (world, unit) act" where
  "ReleaseProject pid = onDb (ReleaseProjectPorts pid)"

definition Release :: "string \<Rightarrow> string \<Rightarrow> (world, unit) act" where
  "Release pid kind = onDb (ReleasePort pid kind)"

section \<open>Reading the reservations\<close>

definition held :: "string \<Rightarrow> database \<Rightarrow> (string \<times> int) list \<Rightarrow> bool" where
  "held pid d allocated \<longleftrightarrow> (\<forall>(kind, port)\<in>set allocated. portOwner d port = Some (pid, kind))"

lemma set_mapPut: "set (mapPut k v m) \<subseteq> insert (k, v) (set m)"
  by (induction k v m rule: mapPut.induct) auto

lemma held_mapPut:
  "held pid d allocated \<Longrightarrow> portOwner d port = Some (pid, kind) \<Longrightarrow> held pid d (mapPut kind port allocated)"
  using set_mapPut [of kind port allocated] by (fastforce simp: held_def)

lemma held_Nil [simp]: "held pid d []"
  by (simp add: held_def)

lemma ReservedPort_cases:
  assumes "dbWf d"
  obtains port where "ReservedPort pid kind d = (Inr port, d)" and "portOwner d port = Some (pid, kind)"
  | "ReservedPort pid kind d = (Inl (Sentinel ErrNotFound), d)" and "\<forall>port. portOwner d port \<noteq> Some (pid, kind)"
proof (cases "find (\<lambda>r. pt_Project r = pid \<and> pt_Kind r = kind) (portAllocations d)")
  case None
  then have run: "ReservedPort pid kind d = (Inl (Sentinel ErrNotFound), d)"
    by (simp add: ReservedPort_def)
  have "portOwner d port \<noteq> Some (pid, kind)" for port
    using ReservedPort_owner [OF assms, of pid kind port d] run by simp
  with run that(2) show ?thesis by blast
next
  case (Some r)
  then have "ReservedPort pid kind d = (Inr (pt_Port r), d)"
    by (simp add: ReservedPort_def)
  with ReservedPort_owner [OF assms] that(1) show ?thesis by blast
qed

lemma splitReserved_run:
  assumes "dbWf d" and "held pid d allocated"
    and "\<And>kind port. kind \<in> set missing \<Longrightarrow> portOwner d port \<noteq> Some (pid, kind)"
  obtains allocated' missing' where
    "splitReserved pid kinds allocated missing d = (Inr (allocated', missing'), d)"
    and "held pid d allocated'"
    and "fst ` set allocated' \<union> set missing' = fst ` set allocated \<union> set missing \<union> set kinds"
    and "\<And>kind port. kind \<in> set missing' \<Longrightarrow> portOwner d port \<noteq> Some (pid, kind)"
  using assms(2,3)
proof (induction kinds arbitrary: allocated missing thesis)
  case Nil
  then show ?case by simp
next
  case (Cons kind kinds)
  show ?case
  proof (cases "mapHas allocated kind")
    case True
    then have "kind \<in> fst ` set allocated"
      by (auto simp: mapHas_def map_of_eq_None_iff)
    with True show ?thesis
      by (rule_tac Cons.IH [OF Cons.prems(1) Cons.prems(2,3)]) auto
  next
    case False
    show ?thesis
    proof (rule ReservedPort_cases [OF assms(1), of pid kind])
      fix port
      assume run: "ReservedPort pid kind d = (Inr port, d)" and own: "portOwner d port = Some (pid, kind)"
      show ?thesis
        by (rule Cons.IH [OF _ held_mapPut [OF Cons.prems(2) own] Cons.prems(3)], rule Cons.prems(1))
          (auto simp: False andThen_def attempt_def run)
    next
      assume run: "ReservedPort pid kind d = (Inl (Sentinel ErrNotFound), d)"
        and none: "\<forall>port. portOwner d port \<noteq> Some (pid, kind)"
      have "\<And>k port. k \<in> set (missing @ [kind]) \<Longrightarrow> portOwner d port \<noteq> Some (pid, k)"
        using Cons.prems(3) none by auto
      then show ?thesis
        by (rule_tac Cons.IH [OF _ Cons.prems(2)], rule_tac Cons.prems(1))
          (auto simp: False andThen_def attempt_def run)
    qed
  qed
qed

section \<open>Choosing ports\<close>

definition probedFree :: "environment \<Rightarrow> int \<Rightarrow> bool" where
  "probedFree env port \<longleftrightarrow> (\<exists>n. e_Probe env n port) \<and>
     (\<forall>remote. e_Remote env = Some remote \<longrightarrow> (\<exists>n. remote n port = Inr True))"

lemma sameDb_checkPort [obeys_intros]: "obeys sameDb (checkPort env port)"
  unfolding checkPort_def available_def by (intro obeys_intros)

lemma checkPort_True: "checkPort env port w = (Inr True, w') \<Longrightarrow> probedFree env port"
  by (auto simp: checkPort_def available_def mapErr_def andThen_def probedFree_def orFail_def
      split: if_splits option.splits sum.splits)

lemma sameDb_selectPort [obeys_intros]: "obeys sameDb (selectPort env used ports)"
  by (induction ports) (auto intro!: obeys_intros)

lemma selectPort_Some:
  "selectPort env used ports w = (Inr (Some port), w') \<Longrightarrow>
     port \<in> set ports \<and> port \<notin> set used \<and> probedFree env port"
  by (induction ports arbitrary: w) (auto simp: andThen_eq_Inr dest: checkPort_True split: if_splits)

lemma sameDb_selectPorts [obeys_intros]: "obeys sameDb (selectPorts env ports used kinds selected)"
  by (induction kinds arbitrary: used selected) (auto intro!: obeys_intros)

lemma selectPorts_run:
  assumes "selectPorts env ports used kinds selected w = (Inr selected', w')"
    and "distinct (map fst selected)"
  shows "distinct (map fst selected') \<and> fst ` set selected' \<subseteq> fst ` set selected \<union> set kinds \<and>
    (\<forall>(kind, port)\<in>set selected'. (kind, port) \<in> set selected \<or> port \<in> set ports \<and> probedFree env port)"
  using assms
proof (induction kinds arbitrary: used selected w)
  case Nil
  then show ?case by auto
next
  case (Cons kind kinds)
  then obtain r v where first: "selectPort env used ports w = (Inr r, v)"
    and rest: "(case r of None \<Rightarrow> selectPorts env ports used kinds selected
       | Some port \<Rightarrow> selectPorts env ports (port # used) kinds (mapPut kind port selected)) v =
         (Inr selected', w')"
    by (auto simp: andThen_eq_Inr)
  show ?case
  proof (cases r)
    case None
    with rest have "selectPorts env ports used kinds selected v = (Inr selected', w')" by simp
    from Cons.IH [OF this Cons.prems(2)] show ?thesis by auto
  next
    case (Some port)
    with rest have "selectPorts env ports (port # used) kinds (mapPut kind port selected) v =
        (Inr selected', w')" by simp
    note IH = Cons.IH [OF this distinct_mapPut [OF Cons.prems(2)]]
    have "port \<in> set ports \<and> probedFree env port"
      using selectPort_Some first Some by blast
    with IH set_mapPut [of kind port selected] show ?thesis by auto
  qed
qed

lemma selected_all:
  assumes "distinct (map fst (m :: ('k \<times> 'v) list))" and "fst ` set m \<subseteq> set kinds"
    and "length m = length kinds"
  shows "fst ` set m = set kinds"
proof (rule card_seteq)
  have "card (set kinds) \<le> length kinds" by (rule card_length)
  also have "\<dots> = card (fst ` set m)"
    using assms(1,3) by (metis distinct_card length_map list.set_map)
  finally show "card (set kinds) \<le> card (fst ` set m)" .
qed (use assms(2) in simp_all)

lemma window_range: "port \<in> set (window a cursor) \<Longrightarrow> al_Min a \<le> port \<and> port \<le> al_Max a"
proof -
  assume "port \<in> set (window a cursor)"
  then obtain i where "port = al_Min a + (int cursor + int i) mod rangeSize a" and "0 < rangeSize a"
    by (auto simp: window_def)
  then show ?thesis
    using pos_mod_bound [of "rangeSize a" "int cursor + int i"]
      pos_mod_sign [of "rangeSize a" "int cursor + int i"]
    by (simp add: rangeSize_def)
qed

section \<open>The reservation loop\<close>

text \<open>What \<^verbatim>\<open>ReserveMany\<close> may add to the ports the project already holds.\<close>

definition freshPort :: "environment \<Rightarrow> Allocator \<Rightarrow> database \<Rightarrow> int \<Rightarrow> bool" where
  "freshPort env a d port \<longleftrightarrow> al_Min a \<le> port \<and> port \<le> al_Max a \<and> probedFree env port \<and>
     portOwner d port = None \<and> \<not> pendingPort d port"

lemma rereadMissing_run:
  assumes "dbWf d" and "held pid d allocated"
    and "rereadMissing pid missing allocated d = (r, d')"
  shows "d' = d \<and> (\<exists>allocated' missing'. r = Inr (allocated', missing') \<and> held pid d allocated' \<and>
    fst ` set allocated' \<union> set missing' = fst ` set allocated \<union> set missing)"
  using assms(2,3)
proof (induction missing arbitrary: allocated r d')
  case Nil
  then show ?case by auto
next
  case (Cons kind missing)
  show ?case
  proof (rule ReservedPort_cases [OF assms(1), of pid kind])
    fix port
    assume run: "ReservedPort pid kind d = (Inr port, d)" and own: "portOwner d port = Some (pid, kind)"
    have "rereadMissing pid missing (mapPut kind port allocated) d = (r, d')"
      using Cons.prems(2) by (simp add: andThen_def attempt_def run)
    from Cons.IH [OF held_mapPut [OF Cons.prems(1) own] this] show ?thesis by auto
  next
    assume run: "ReservedPort pid kind d = (Inl (Sentinel ErrNotFound), d)"
    obtain q e where rest: "rereadMissing pid missing allocated d = (q, e)" by fastforce
    from Cons.IH [OF Cons.prems(1) this] Cons.prems(2) show ?thesis
      by (auto simp: andThen_def attempt_def run rest)
  qed
qed

lemma set_putAll: "set (putAll kvs m) \<subseteq> set kvs \<union> set m"
proof (induction kvs m rule: putAll.induct)
  case (2 k v kvs m)
  then show ?case using set_mapPut [of k v m] by auto
qed simp

lemma dom_putAll: "fst ` set (putAll kvs m) = fst ` set kvs \<union> fst ` set m"
  by (induction kvs m rule: putAll.induct) auto

lemma held_claim:
  assumes "dbWf d" and "held pid d allocated" and "claimPorts pid selected d = Some d'"
  shows "held pid d' (putAll selected allocated)"
  unfolding held_def
proof (rule ballI, clarify)
  fix kind port
  assume "(kind, port) \<in> set (putAll selected allocated)"
  then have "(kind, port) \<in> set selected \<or> portOwner d port = Some (pid, kind)"
    using set_putAll [of selected allocated] assms(2) by (auto simp: held_def)
  then show "portOwner d' port = Some (pid, kind)"
    using ports.claim_exact [OF assms(1,3)] by blast
qed

lemma claimed_fresh:
  assumes "dbWf d" and "claimPorts pid selected d = Some d'"
    and "selectPorts env (window a cursor) used missing [] w = (Inr selected, w')"
  shows "\<forall>port\<in>snd ` set selected. freshPort env a d port"
proof -
  have "freshPort env a d port" if "(kind, port) \<in> set selected" for kind port
    using selectPorts_run [OF assms(3)] that window_range [of port a cursor]
      ports.claim_new [OF assms(1,2) that]
    by (auto simp: freshPort_def)
  then show ?thesis by auto
qed

text \<open>
  One call of the loop: an error leaves the database as it was; success either found everything
  reserved already or made exactly one claim of fresh ports.
\<close>

definition reserveOutcome :: "environment \<Rightarrow> Allocator \<Rightarrow> string \<Rightarrow> string set \<Rightarrow> database \<Rightarrow>
    goerr + (string \<times> int) list \<Rightarrow> database \<Rightarrow> bool" where
  "reserveOutcome env a pid kinds d r d' \<longleftrightarrow> (case r of
      Inl e \<Rightarrow> d' = d
    | Inr allocated \<Rightarrow>
        (d' = d \<or> (\<exists>selected. claimPorts pid selected d = Some d' \<and>
           (\<forall>port\<in>snd ` set selected. freshPort env a d port))) \<and>
        held pid d' allocated \<and> fst ` set allocated = kinds)"

lemma reserveLoop_run:
  assumes "dbWf (w_DB w)" and "held pid (w_DB w) allocated"
    and "reserveLoop env a pid cursors allocated missing w = (r, w')"
  shows "reserveOutcome env a pid (fst ` set allocated \<union> set missing) (w_DB w) r (w_DB w')"
  using assms
proof (induction cursors arbitrary: allocated missing w)
  case Nil
  then show ?case by (auto simp: reserveOutcome_def)
next
  case (Cons cursor cursors)
  let ?d = "w_DB w"
  obtain s w1 where sel: "selectPorts env (window a cursor) (map snd allocated) missing [] w = (s, w1)"
    by fastforce
  have db1: "w_DB w1 = ?d"
    using obeysD [OF sameDb_selectPorts sel] by (simp add: sameDb_def)
  consider (failed) e where "s = Inl e"
    | (short) selected where "s = Inr selected" "length selected \<noteq> length missing"
    | (full) selected where "s = Inr selected" "length selected = length missing"
    by (cases s) auto
  then show ?case
  proof cases
    case full
    have dom: "fst ` set selected = set missing"
      using selectPorts_run [OF sel [unfolded full]] full(2) by (intro selected_all) auto
    obtain q d2 where res: "TryReservePorts pid selected ?d = (q, d2)" by fastforce
    have run: "andThen (mapErr (\<lambda>e. Errorf ''reserve server-owned ports: '' e [])
                     (onDb (TryReservePorts pid selected))) (\<lambda>reserved.
          if reserved then ret (putAll selected allocated)
          else andThen (onDb (rereadMissing pid missing allocated)) (\<lambda>(allocated', missing').
          if missing' = [] then ret allocated'
          else reserveLoop env a pid cursors allocated' missing')) w1 = (r, w')"
      using Cons.prems(3) sel full by simp
    consider (won) "q = Inr True" | (lost) "q = Inr False" | (broken) e where "q = Inl e"
      by (cases q) auto
    then show ?thesis
    proof cases
      case broken
      with run res db1 TryReservePorts_other [OF res] show ?thesis
        by (auto simp: andThen_def mapErr_def onDb_def reserveOutcome_def)
    next
      case won
      then have claim: "claimPorts pid selected ?d = Some d2"
        using res by (simp add: claimPorts_def)
      have "w_DB w' = d2" and "r = Inr (putAll selected allocated)"
        using run res db1 won by (auto simp: andThen_def mapErr_def onDb_def)
      then show ?thesis
        using claim held_claim [OF Cons.prems(1,2) claim]
          claimed_fresh [OF Cons.prems(1) claim sel [unfolded full]]
        by (auto simp: reserveOutcome_def dom_putAll dom)
    next
      case lost
      then have d2: "d2 = ?d" using TryReservePorts_other [OF res] by simp
      obtain q3 d3 where reread: "rereadMissing pid missing allocated ?d = (q3, d3)" by fastforce
      from rereadMissing_run [OF Cons.prems(1,2) reread] obtain allocated' missing' where
        q3: "d3 = ?d" "q3 = Inr (allocated', missing')" and held': "held pid ?d allocated'"
        and dom': "fst ` set allocated' \<union> set missing' = fst ` set allocated \<union> set missing" by auto
      have go: "(if missing' = [] then ret allocated'
          else reserveLoop env a pid cursors allocated' missing') (w1\<lparr>w_DB := ?d\<rparr>) = (r, w')"
        using run res db1 lost d2 reread q3 by (simp add: andThen_def mapErr_def onDb_def)
      show ?thesis
      proof (cases "missing' = []")
        case True
        with go held' dom' show ?thesis by (auto simp: reserveOutcome_def)
      next
        case False
        then show ?thesis
          using Cons.IH [of "w1\<lparr>w_DB := ?d\<rparr>" allocated' missing'] Cons.prems(1) held' dom' go by simp
      qed
    qed
  qed (use Cons.prems(3) sel db1 in \<open>auto simp: andThen_def reserveOutcome_def\<close>)
qed

lemma ReserveMany_run:
  assumes "dbWf (w_DB w)" and "ReserveMany env a pid kinds w = (r, w')"
  shows "reserveOutcome env a pid (set kinds) (w_DB w) r (w_DB w')"
proof -
  obtain allocated missing where
    split: "splitReserved pid kinds [] [] (w_DB w) = (Inr (allocated, missing), w_DB w)"
    and held: "held pid (w_DB w) allocated"
    and dom: "fst ` set allocated \<union> set missing = set kinds"
    by (rule splitReserved_run [OF assms(1) held_Nil, where missing = "[]" and kinds = kinds]) auto
  show ?thesis
  proof (cases "missing = []")
    case True
    with assms(2) split held dom show ?thesis
      by (auto simp: ReserveMany_def andThen_def onDb_def reserveOutcome_def)
  next
    case False
    with assms(2) split have
      "reserveLoop env a pid [0..<nat (rangeSize a)] allocated missing w = (r, w')"
      by (simp add: ReserveMany_def andThen_def onDb_def)
    from reserveLoop_run [OF assms(1) held this] show ?thesis by (simp add: dom)
  qed
qed

section \<open>The candidate loop\<close>

lemma sameDb_PortInUse [obeys_intros]: "obeys sameDb (onDb (PortInUse port))"
  by (simp add: obeys_def sameDb_def onDb_def PortInUse_def)

lemma PortInUse_iff:
  "PortInUse port d = (Inr b, d') \<longleftrightarrow> d' = d \<and> b = (portOwner d port \<noteq> None \<or> pendingPort d port)"
  by (auto simp: PortInUse_def portOwner_def existsWhere_iff find_None_iff)

lemma sameDb_candidateLoop [obeys_intros]:
  "obeys sameDb (candidateLoop env ports allocated used missing)"
proof (induction ports arbitrary: allocated used missing)
  case (Cons port ports)
  show ?case
    unfolding candidateLoop.simps
    by (intro obeys_intros Cons.IH) (auto split: list.splits intro!: obeys_intros Cons.IH)
qed (auto intro: obeys_intros)

text \<open>What the loop has to have found when it succeeds.\<close>

definition candidates :: "environment \<Rightarrow> Allocator \<Rightarrow> database \<Rightarrow> (string \<times> int) list \<Rightarrow>
    string list \<Rightarrow> (string \<times> int) list \<Rightarrow> bool" where
  "candidates env a d allocated missing allocated' \<longleftrightarrow>
     fst ` set allocated' = fst ` set allocated \<union> set missing \<and>
     distinct (map snd allocated') \<and>
     (\<forall>(kind, port)\<in>set allocated'. (kind, port) \<in> set allocated \<or>
        kind \<in> set missing \<and> freshPort env a d port)"

lemma mapPut_new: "k \<notin> fst ` set m \<Longrightarrow> mapPut k v m = m @ [(k, v)]"
  by (induction k v m rule: mapPut.induct) auto

lemma candidateLoop_run:
  assumes "candidateLoop env ports allocated used missing w = (Inr allocated', w')"
    and "missing \<noteq> []" and "distinct missing" and "fst ` set allocated \<inter> set missing = {}"
    and "distinct (map snd allocated)" and "snd ` set allocated \<subseteq> set used"
    and "\<forall>port\<in>set ports. al_Min a \<le> port \<and> port \<le> al_Max a"
  shows "candidates env a (w_DB w) allocated missing allocated'"
  using assms
proof (induction ports arbitrary: allocated used missing w)
  case (Cons port ports)
  have range: "al_Min a \<le> port" "port \<le> al_Max a" "\<forall>port\<in>set ports. al_Min a \<le> port \<and> port \<le> al_Max a"
    using Cons.prems(7) by auto
  show ?case
  proof (cases "port \<in> set used")
    case True
    with Cons.prems range show ?thesis by (intro Cons.IH) auto
  next
    case False
    with Cons.prems(1) obtain free w1 where check: "checkPort env port w = (Inr free, w1)"
      by (auto simp: andThen_eq_Inr)
    have db: "w_DB w1 = w_DB w"
      using obeysD [OF sameDb_checkPort check] by (simp add: sameDb_def)
    define inUse where "inUse = (portOwner (w_DB w) port \<noteq> None \<or> pendingPort (w_DB w) port)"
    have ask: "onDb (PortInUse port) w1 = (Inr inUse, w1)"
      using PortInUse_iff [of port "w_DB w" inUse "w_DB w"] by (simp add: onDb_def inUse_def db)
    obtain kind kinds where missing: "missing = kind # kinds" using Cons.prems(2) by (cases missing) auto
    show ?thesis
    proof (cases "free \<and> \<not> inUse")
      case skipped: False
      then have "candidateLoop env ports allocated used missing w1 = (Inr allocated', w')"
        using Cons.prems(1) False check ask by (auto simp: andThen_def split: if_splits)
      from Cons.IH [OF this Cons.prems(2-6) range(3)] show ?thesis by (simp add: db)
    next
      case taken: True
      then have fresh: "freshPort env a (w_DB w) port"
        using range checkPort_True [of env port w w1] check
        by (simp add: freshPort_def inUse_def del: not_None_eq)
      let ?next = "mapPut kind port allocated"
      have next_def: "?next = allocated @ [(kind, port)]"
        using Cons.prems(4) missing by (intro mapPut_new) auto
      have dist: "distinct (map snd ?next)" "snd ` set ?next \<subseteq> set (port # used)"
        using Cons.prems(5,6) False by (auto simp: next_def)
      have "(if kinds = [] then ret ?next else candidateLoop env ports ?next (port # used) kinds) w1 =
          (Inr allocated', w')"
        using Cons.prems(1) False check ask taken missing by (simp add: andThen_def)
      then consider "kinds = []" "allocated' = ?next"
        | "kinds \<noteq> []" "candidateLoop env ports ?next (port # used) kinds w1 = (Inr allocated', w')"
        by (auto split: if_splits)
      then show ?thesis
      proof cases
        case 1
        with fresh dist missing show ?thesis by (auto simp: candidates_def next_def)
      next
        case 2
        have "candidates env a (w_DB w1) ?next kinds allocated'"
          using Cons.prems(3,4) missing dist range(3)
          by (intro Cons.IH [OF 2(2,1)]) (auto simp: next_def)
        with fresh missing show ?thesis by (auto simp: candidates_def next_def db)
      qed
    qed
  qed
qed simp

lemma set_portRange: "set (portRange a) = {port. al_Min a \<le> port \<and> port \<le> al_Max a}"
proof -
  have "port \<in> set (portRange a)" if "al_Min a \<le> port" "port \<le> al_Max a" for port
    using that
    by (auto simp: portRange_def rangeSize_def image_iff intro!: bexI [of _ "nat (port - al_Min a)"])
  then show ?thesis by (auto simp: portRange_def rangeSize_def)
qed

lemma distinct_portRange: "distinct (portRange a)"
  by (simp add: portRange_def distinct_map inj_on_def)

lemma splitReserved_distinct:
  assumes "splitReserved pid kinds allocated missing d = (Inr (allocated', missing'), d')"
    and "distinct (missing @ kinds)" and "fst ` set allocated \<inter> (set missing \<union> set kinds) = {}"
    and "distinct (map fst allocated)"
  shows "distinct missing' \<and> fst ` set allocated' \<inter> set missing' = {} \<and> distinct (map fst allocated')"
  using assms
proof (induction kinds arbitrary: allocated missing d)
  case (Cons kind kinds)
  have "\<not> mapHas allocated kind"
    using Cons.prems(3) by (auto simp: mapHas_def map_of_eq_None_iff)
  with Cons.prems(1) obtain r d1 where read: "ReservedPort pid kind d = (r, d1)" and
    go: "(case r of Inr port \<Rightarrow> splitReserved pid kinds (mapPut kind port allocated) missing
       | Inl err \<Rightarrow> if errorsIs err ErrNotFound then splitReserved pid kinds allocated (missing @ [kind])
                    else throw err) d1 = (Inr (allocated', missing'), d')"
    by (auto simp: andThen_eq_Inr attempt_def split: prod.splits)
  show ?case
  proof (cases r)
    case (Inr port)
    with go have "splitReserved pid kinds (mapPut kind port allocated) missing d1 =
      (Inr (allocated', missing'), d')" by simp
    from Cons.IH [OF this] Cons.prems(2-4) show ?thesis by (auto simp: distinct_mapPut)
  next
    case (Inl e)
    with go have "splitReserved pid kinds allocated (missing @ [kind]) d1 =
      (Inr (allocated', missing'), d')" by (auto split: if_splits)
    from Cons.IH [OF this] Cons.prems(2-4) show ?thesis by auto
  qed
qed simp

lemma held_distinct: "held pid d allocated \<Longrightarrow> distinct (map fst allocated) \<Longrightarrow> distinct (map snd allocated)"
  by (induction allocated) (auto simp: held_def rev_image_eqI)

lemma CandidateMany_run:
  assumes "dbWf (w_DB w)" and "distinct kinds"
  obtains allocated missing where
    "CandidateMany env a pid kinds w = (if missing = [] then ret allocated
       else candidateLoop env (portRange a) allocated (map snd allocated) missing) w"
    and "held pid (w_DB w) allocated" and "fst ` set allocated \<union> set missing = set kinds"
    and "distinct missing" and "fst ` set allocated \<inter> set missing = {}"
    and "distinct (map snd allocated)"
proof (rule splitReserved_run [OF assms(1) held_Nil, where missing = "[]" and kinds = kinds])
  fix allocated missing
  assume split: "splitReserved pid kinds [] [] (w_DB w) = (Inr (allocated, missing), w_DB w)"
    and held: "held pid (w_DB w) allocated"
    and "fst ` set allocated \<union> set missing = fst ` set [] \<union> set [] \<union> set kinds"
  then have dom: "fst ` set allocated \<union> set missing = set kinds" by simp
  note dist = splitReserved_distinct [OF split, simplified, OF assms(2)]
  show ?thesis
    using that [of missing allocated] split held dom dist held_distinct [OF held]
    by (auto simp: CandidateMany_def andThen_def onDb_def)
qed auto

section \<open>Liveness of the candidate loop\<close>

text \<open>A port every probe reports free, and a remote probe that never fails.\<close>

definition usable :: "environment \<Rightarrow> int \<Rightarrow> bool" where
  "usable env port \<longleftrightarrow> (\<forall>n. e_Probe env n port) \<and>
     (\<forall>remote n. e_Remote env = Some remote \<longrightarrow> remote n port = Inr True)"

definition probesAnswer :: "environment \<Rightarrow> bool" where
  "probesAnswer env \<longleftrightarrow> (\<forall>remote n port. e_Remote env = Some remote \<longrightarrow> (\<exists>b. remote n port = Inr b))"

lemma checkPort_answers:
  assumes "probesAnswer env"
  obtains free w' where "checkPort env port w = (Inr free, w')" and "w_DB w' = w_DB w"
    and "usable env port \<Longrightarrow> free"
proof -
  note run_defs = checkPort_def available_def mapErr_def andThen_def
  show ?thesis
  proof (cases "e_Probe env (w_Steps w) port")
    case False
    then show ?thesis
      by (intro that [of False "w\<lparr>w_Steps := Suc (w_Steps w)\<rparr>"]) (auto simp: run_defs usable_def)
  next
    case probe: True
    show ?thesis
    proof (cases "e_Remote env")
      case None
      with probe show ?thesis
        by (intro that [of True "w\<lparr>w_Steps := Suc (w_Steps w)\<rparr>"]) (simp_all add: run_defs)
    next
      case (Some remote)
      then obtain b where b: "remote (Suc (w_Steps w)) port = Inr b"
        using assms by (auto simp: probesAnswer_def)
      then have "usable env port \<Longrightarrow> b" using Some by (auto simp: usable_def)
      with Some probe b show ?thesis
        by (intro that [of b "w\<lparr>w_Steps := Suc (Suc (w_Steps w))\<rparr>"]) (simp_all add: run_defs)
    qed
  qed
qed

lemma candidateLoop_succeeds:
  assumes "probesAnswer env" and "missing \<noteq> []" and "distinct ports"
    and "\<forall>port\<in>set ports. good port \<longrightarrow> port \<notin> set used \<and> usable env port \<and>
           portOwner (w_DB w) port = None \<and> \<not> pendingPort (w_DB w) port"
    and "length missing \<le> length (filter good ports)"
  shows "\<exists>allocated' w'. candidateLoop env ports allocated used missing w = (Inr allocated', w')"
  using assms(2-)
proof (induction ports arbitrary: allocated used missing w)
  case (Cons port ports)
  obtain free w1 where check: "checkPort env port w = (Inr free, w1)" and db: "w_DB w1 = w_DB w"
    and free: "usable env port \<Longrightarrow> free"
    using checkPort_answers [OF assms(1), of port w] by blast
  define inUse where "inUse = (portOwner (w_DB w) port \<noteq> None \<or> pendingPort (w_DB w) port)"
  have ask: "onDb (PortInUse port) w1 = (Inr inUse, w1)"
    using PortInUse_iff [of port "w_DB w" inUse "w_DB w"] by (simp add: onDb_def inUse_def db)
  obtain kind kinds where missing: "missing = kind # kinds" using Cons.prems(1) by (cases missing) auto
  show ?case
  proof (cases "port \<in> set used \<or> \<not> free \<or> inUse")
    case True
    then have "\<not> good port" using Cons.prems(3) free by (auto simp: inUse_def)
    then have "\<exists>allocated' w'. candidateLoop env ports allocated used missing v = (Inr allocated', w')"
      if "w_DB v = w_DB w" for v
      using Cons.prems that by (intro Cons.IH) auto
    with True db check ask show ?thesis by (auto simp: andThen_def)
  next
    case False
    then have step: "candidateLoop env (port # ports) allocated used missing w =
      (if kinds = [] then ret (mapPut kind port allocated)
       else candidateLoop env ports (mapPut kind port allocated) (port # used) kinds) w1"
      using check ask by (simp add: andThen_def missing)
    show ?thesis
    proof (cases "kinds = []")
      case True
      then show ?thesis unfolding step by simp
    next
      case rest: False
      have "\<exists>allocated' w'. candidateLoop env ports (mapPut kind port allocated) (port # used) kinds w1 =
          (Inr allocated', w')"
        using Cons.prems rest missing db
        by (intro Cons.IH) (auto simp: missing split: if_splits)
      with rest show ?thesis unfolding step by simp
    qed
  qed
qed simp

section \<open>Properties\<close>


definition sampleAllocator :: Allocator where
  "sampleAllocator = \<lparr>al_Min = 8000, al_Max = 8003\<rparr>"

text \<open>A second project that owns two ports of the range.\<close>

definition portsDatabase :: database where
  "portsDatabase = snd (TryReservePorts ''cat'' [(KindAPI, 8001), (KindStudio, 8003)]
     (snd (CreateProject (sampleProject ''cat'' ''cat'')
        (sampleConfiguration ''cat.example.com'' 8001) sampleDatabase)))"

lemma portsDatabase_wf: "dbWf portsDatabase"
proof -
  have "obeys keepsWf (CreateProject (sampleProject ''cat'' ''cat'')
       (sampleConfiguration ''cat.example.com'' 8001))"
    unfolding CreateProject_def by (intro obeys_intros)
  then show ?thesis
    using wf_TryReservePorts [of "''cat''" "[(KindAPI, 8001), (KindStudio, 8003)]"] sampleDatabase_wf
    by (simp add: obeys_def portsDatabase_def)
qed




text \<open>
  (C8) \<^verbatim>\<open>CandidateMany\<close> is complete: when the probes answer and the range holds at least as many
  usable ports (free on the host, unowned, not pending) as kinds are requested, it succeeds.
\<close>

theorem CandidateMany_finds:
  assumes "dbWf (w_DB w)" and "distinct kinds" and "probesAnswer env"
    and "length kinds \<le> card {port. al_Min a \<le> port \<and> port \<le> al_Max a \<and> usable env port \<and>
           portOwner (w_DB w) port = None \<and> \<not> pendingPort (w_DB w) port}"
  shows "\<exists>allocated w'. CandidateMany env a pid kinds w = (Inr allocated, w')"
proof (rule CandidateMany_run [OF assms(1,2), of env a pid])
  fix allocated missing
  let ?good = "\<lambda>port. usable env port \<and> portOwner (w_DB w) port = None \<and> \<not> pendingPort (w_DB w) port"
  let ?loop = "candidateLoop env (portRange a) allocated (map snd allocated) missing"
  assume run: "CandidateMany env a pid kinds w = (if missing = [] then ret allocated else ?loop) w"
    and held: "held pid (w_DB w) allocated" and dom: "fst ` set allocated \<union> set missing = set kinds"
    and dist: "distinct missing"
  have "length missing = card (set missing)" using dist by (simp add: distinct_card)
  also have "\<dots> \<le> card (set kinds)" using dom by (intro card_mono) auto
  also have "\<dots> = length kinds" using assms(2) by (simp add: distinct_card)
  also have "\<dots> \<le> card {port \<in> {port. al_Min a \<le> port \<and> port \<le> al_Max a}. ?good port}"
    using assms(4) by simp
  also have "\<dots> = card (set (filter ?good (portRange a)))" by (simp add: set_portRange)
  also have "\<dots> = length (filter ?good (portRange a))" 
    by (rule distinct_card) (simp add: distinct_portRange)
  finally have enough: "length missing \<le> length (filter ?good (portRange a))" .
  show ?thesis
  proof (cases "missing = []")
    case True
    with run show ?thesis by simp
  next
    case False
    have "\<exists>allocated' w'. ?loop w = (Inr allocated', w')"
      using held enough distinct_portRange
      by (intro candidateLoop_succeeds [OF assms(3) False]) (auto simp: held_def)
    with run False show ?thesis by simp
  qed
qed

theorem CandidateMany_finds_witness:
  "\<exists>allocated w'. CandidateMany sampleEnvironment sampleAllocator ''bee'' [KindAPI]
     (newWorld sampleDatabase) = (Inr allocated, w')"
proof (rule CandidateMany_finds)
  show "dbWf (w_DB (newWorld sampleDatabase))"
    using sampleDatabase_wf by (simp add: newWorld_def)
  have "portAllocations sampleDatabase = []" and "reservations sampleDatabase = []" by code_simp+
  then have "{port. al_Min sampleAllocator \<le> port \<and> port \<le> al_Max sampleAllocator \<and>
      usable sampleEnvironment port \<and> portOwner (w_DB (newWorld sampleDatabase)) port = None \<and>
      \<not> pendingPort (w_DB (newWorld sampleDatabase)) port} = {8000..8003}"
    by (auto simp: sampleAllocator_def usable_def sampleEnvironment_def newWorld_def portOwner_def
        pendingPort_def existsWhere_def)
  then show "length [KindAPI] \<le> card {port. al_Min sampleAllocator \<le> port \<and>
      port \<le> al_Max sampleAllocator \<and> usable sampleEnvironment port \<and>
      portOwner (w_DB (newWorld sampleDatabase)) port = None \<and>
      \<not> pendingPort (w_DB (newWorld sampleDatabase)) port}"
    by simp
qed (simp_all add: probesAnswer_def sampleEnvironment_def)


end
