(* ===== verification/StoreConfiguration.thy ===== *)
theory StoreConfiguration
  imports OperationService StorePorts
begin

text \<open>
  \<^verbatim>\<open>store/configuration.go\<close>: admission of a configuration change under a fenced lease, publication
  of an applied revision, compensation of a failed one, and the reads around them. A statement that
  the source repeats in several functions (the lease upsert, the conflict checks, the secret
  snapshot) is one definition here. The wall clock that the source reads inside a transaction is the
  argument \<open>wall\<close>; a \<^verbatim>\<open>LIMIT 1\<close> without an order takes the first row in insertion order.
\<close>

section \<open>Leases\<close>

definition validateConfigurationOwner :: "string \<Rightarrow> int \<Rightarrow> (database, unit) act" where
  "validateConfigurationOwner owner fence =
     (if trimSpace owner = [] then throw (ErrorsNew ''configuration operation owner is required'')
      else if fence \<le> 0 then throw (ErrorsNew ''configuration operation fence must be positive'')
      else ret ())"

definition leaseOf :: "database \<Rightarrow> string \<Rightarrow> LeaseRow option" where
  "leaseOf d pid = find (\<lambda>l. ls_Project l = pid) (leases d)"

text \<open>
  The lease upsert: a new row with fence 1, or an expired row taken over with the next fence. A row
  that has not expired (as text, see \<open>textLe\<close>) is left alone and the row count is zero.
\<close>

definition takeLease :: "string \<Rightarrow> string \<Rightarrow> gotime \<Rightarrow> gotime \<Rightarrow> (database, bool) act" where
  "takeLease pid owner now expires =
     andThen (requireProject pid) (\<lambda>_. andThen (gets (\<lambda>d. leaseOf d pid)) (\<lambda>l. case l of
         None \<Rightarrow> andThen (modify (\<lambda>d. d\<lparr>leases := leases d @ [\<lparr>ls_Project = pid, ls_Owner = owner,
                   ls_Fence = 1, ls_AcquiredAt = now, ls_ExpiresAt = expires\<rparr>]\<rparr>)) (\<lambda>_. ret True)
       | Some row \<Rightarrow>
           if textLe (ls_ExpiresAt row) now
           then andThen (modify (\<lambda>d. d\<lparr>leases := updateWhere (\<lambda>l. ls_Project l = pid)
                  (\<lambda>l. l\<lparr>ls_Owner := owner, ls_Fence := ls_Fence l + 1, ls_AcquiredAt := now,
                     ls_ExpiresAt := expires\<rparr>) (leases d)\<rparr>)) (\<lambda>_. ret True)
           else ret False))"

text \<open>\<^verbatim>\<open>SELECT fence FROM project_configuration_leases WHERE project_id=? AND owner=?\<close>\<close>

definition readFence :: "string \<Rightarrow> string \<Rightarrow> (database, int) act" where
  "readFence pid owner d =
     (case find (\<lambda>l. ls_Project l = pid \<and> ls_Owner l = owner) (leases d) of
        None \<Rightarrow> (Inl (Sentinel ErrNoRows), d)
      | Some l \<Rightarrow> (Inr (ls_Fence l), d))"

definition RenewConfigurationLease ::
  "string \<Rightarrow> string \<Rightarrow> int \<Rightarrow> gotime \<Rightarrow> int \<Rightarrow> (database, bool) act" where
  "RenewConfigurationLease pid owner fence now ttl =
     andThen (validateConfigurationOwner owner fence) (\<lambda>_. andThen (gets id) (\<lambda>d.
     let own = (\<lambda>l. ls_Project l = pid \<and> ls_Owner l = owner \<and> ls_Fence l = fence) in
     andThen (modify (\<lambda>d. d\<lparr>leases := updateWhere own (\<lambda>l. l\<lparr>ls_ExpiresAt := now + ttl\<rparr>) (leases d)\<rparr>))
       (\<lambda>_. ret (countWhere own (leases d) = 1))))"

definition ReleaseConfigurationLeaseOwned ::
  "string \<Rightarrow> string \<Rightarrow> int \<Rightarrow> (database, unit) act" where
  "ReleaseConfigurationLeaseOwned pid owner fence =
     andThen (validateConfigurationOwner owner fence) (\<lambda>_. modify (\<lambda>d. d\<lparr>leases :=
       deleteWhere (\<lambda>l. ls_Project l = pid \<and> ls_Owner l = owner \<and> ls_Fence l = fence) (leases d)\<rparr>))"

definition OwnsConfigurationLease ::
  "string \<Rightarrow> string \<Rightarrow> int \<Rightarrow> gotime \<Rightarrow> (database, bool) act" where
  "OwnsConfigurationLease pid owner fence now =
     andThen (validateConfigurationOwner owner fence) (\<lambda>_. gets (\<lambda>d.
       countWhere (\<lambda>l. ls_Project l = pid \<and> ls_Owner l = owner \<and> ls_Fence l = fence \<and>
         \<not> textLe (ls_ExpiresAt l) now) (leases d) = 1))"

definition AcquireConfigurationLeaseForOperation ::
  "string \<Rightarrow> string \<Rightarrow> string \<Rightarrow> gotime \<Rightarrow> int \<Rightarrow> (database, ConfigurationLease option) act" where
  "AcquireConfigurationLeaseForOperation pid owner operationID now ttl =
     andThen (validateConfigurationOwner owner 1) (\<lambda>_.
     if operationID = [] \<or> operationID \<noteq> owner
     then throw (ErrorsNew ''configuration lease owner must match operation id'')
     else andThen (attempt (inTx (
       andThen (takeLease pid owner now (now + ttl)) (\<lambda>taken.
       andThen (failIf (\<not> taken) (Sentinel ErrConfigurationBusy)) (\<lambda>_.
       andThen (readFence pid owner) (\<lambda>fence.
       andThen (gets (countWhere (\<lambda>r. oc_Operation r = operationID \<and> oc_Project r = pid) \<circ>
                  operationConfigs)) (\<lambda>count.
       andThen (modify (\<lambda>d. d\<lparr>operationConfigs :=
          updateWhere (\<lambda>r. oc_Operation r = operationID \<and> oc_Project r = pid)
            (\<lambda>r. r\<lparr>oc_Fence := fence\<rparr>) (operationConfigs d)\<rparr>)) (\<lambda>_.
       andThen (failIf (count \<noteq> 1) (Sentinel ErrNotFound)) (\<lambda>_.
       ret \<lparr>lease_Owner = owner, lease_Fence = fence\<rparr>))))))))) (\<lambda>r. case r of
         Inl e \<Rightarrow> if errorsIs e ErrConfigurationBusy then ret None else throw e
       | Inr lease \<Rightarrow> ret (Some lease)))"

section \<open>Compensation phase of an operation\<close>

definition SetOperationCompensation :: "string \<Rightarrow> string \<Rightarrow> string \<Rightarrow> (database, unit) act" where
  "SetOperationCompensation oid phase key = modify (\<lambda>d. d\<lparr>operations :=
     updateWhere (\<lambda>r. o_ID r = oid) (\<lambda>r. r\<lparr>o_CompensationPhase := phase, o_CompensationKey := key\<rparr>)
       (operations d)\<rparr>)"

definition setCompensationPhase :: "string \<Rightarrow> string \<Rightarrow> (database, unit) act" where
  "setCompensationPhase oid phase = modify (\<lambda>d. d\<lparr>operations :=
     updateWhere (\<lambda>r. o_ID r = oid) (\<lambda>r. r\<lparr>o_CompensationPhase := phase\<rparr>) (operations d)\<rparr>)"

definition GetOperationCompensation :: "string \<Rightarrow> (database, string \<times> string) act" where
  "GetOperationCompensation oid d = (case find (\<lambda>r. o_ID r = oid) (operations d) of
      None \<Rightarrow> (Inl (Sentinel ErrNotFound), d)
    | Some r \<Rightarrow> (Inr (o_CompensationPhase r, o_CompensationKey r), d))"

section \<open>Globally unique resources\<close>

definition configurationResources :: "ProjectConfiguration \<Rightarrow> (string \<times> string) list" where
  "configurationResources cfg =
     (let network = cfg_Network cfg; services = cfg_Services cfg; pooler = cfg_Pooler cfg;
          domain = (if gen_Domain (cfg_General cfg) \<noteq> []
                    then [(''domain'', gen_Domain (cfg_General cfg))] else []);
          ports = [(net_APIPort network, True), (net_StudioPort network, svc_Studio services),
                   (net_DirectDatabasePort network, svc_DirectDB services),
                   (net_PoolerPort network, svc_Supavisor services),
                   (pool_TransactionPort pooler, svc_Supavisor services),
                   (pool_SessionPort pooler, svc_Supavisor services)]
      in fold (\<lambda>(port, enabled) resources.
           if enabled \<and> port > 0 then mapPut (portResource port) (itoa port) resources else resources)
           ports domain)"

definition configurationConflict :: "string \<Rightarrow> goerr" where
  "configurationConflict detail = Errorf [] (Sentinel ErrConfigurationConflict) ('': '' @ detail)"

definition conflictingProject :: "database \<Rightarrow> string \<Rightarrow> string \<times> string \<Rightarrow> string option" where
  "conflictingProject d pid resource = (case resource of (kind, key) \<Rightarrow>
     (case find (\<lambda>r. rv_Kind r = kind \<and> rv_Key r = key \<and> rv_Project r \<noteq> pid) (reservations d) of
        Some r \<Rightarrow> Some (rv_Project r)
      | None \<Rightarrow>
          if kind = ''domain''
          then map_option p_ID (find (\<lambda>p. p_Domain p = key \<and> p_ID p \<noteq> pid) (projects d))
          else map_option pt_Project
                 (find (\<lambda>r. itoa (pt_Port r) = key \<and> pt_Project r \<noteq> pid) (portAllocations d))))"

definition checkResource :: "string \<Rightarrow> string \<times> string \<Rightarrow> (database, unit) act" where
  "checkResource pid resource = andThen (gets (\<lambda>d. conflictingProject d pid resource)) (\<lambda>conflict.
     case conflict of None \<Rightarrow> ret () | Some other \<Rightarrow> throw (configurationConflict other))"

definition insertReservation :: "string \<Rightarrow> string \<Rightarrow> int \<Rightarrow> string \<times> string \<Rightarrow> (database, unit) act" where
  "insertReservation pid oid revision resource = (case resource of (kind, key) \<Rightarrow>
     mapErr (\<lambda>e. if contains (toLower (errText e)) ''unique'' \<or> contains (toLower (errText e)) ''primary key''
                 then configurationConflict (''pending '' @ kind @ '' '' @ key)
                 else Errorf (''reserve configuration '' @ kind @ '' '' @ key @ '': '') e [])
       (andThen (requireProject pid) (\<lambda>_. andThen (requireOperation oid) (\<lambda>_. andThen (gets id) (\<lambda>d.
        andThen (failIf (existsWhere (\<lambda>r. rv_Kind r = kind \<and> rv_Key r = key) (reservations d))
          (UniqueViolation ''configuration_reservations.resource_kind, configuration_reservations.resource_key''))
          (\<lambda>_. modify (\<lambda>d. d\<lparr>reservations := reservations d @
             [\<lparr>rv_Kind = kind, rv_Key = key, rv_Project = pid, rv_Operation = oid,
               rv_Revision = revision\<rparr>]\<rparr>)))))))"

section \<open>Admission\<close>

record ConfigurationAdmission =
  adm_Operation :: Operation
  adm_ProjectID :: string
  adm_Owner :: string
  adm_ExpectedRevision :: int
  adm_Configuration :: ProjectConfiguration
  adm_OperationKind :: string
  adm_Mutations :: "SecretMutation list"
  adm_OperationSecrets :: "(string \<times> Envelope) list"
  adm_Now :: gotime
  adm_LeaseTTL :: int

text \<open>Go's zero \<^verbatim>\<open>time.Time\<close>: 1 January of year 1.\<close>

definition zeroTime :: gotime where
  "zeroTime = - 62135596800 * second"

definition currentRevision :: "string \<Rightarrow> (database, int) act" where
  "currentRevision pid d = (case find (\<lambda>p. p_ID p = pid) (projects d) of
      None \<Rightarrow> (Inl (Sentinel ErrNoRows), d)
    | Some p \<Rightarrow> (Inr (p_ConfigurationRevision p), d))"

text \<open>The status of the operation that a candidate of this revision belongs to, if there is one.\<close>

definition candidateStatus :: "database \<Rightarrow> string \<Rightarrow> int \<Rightarrow> OperationStatus option" where
  "candidateStatus d pid revision =
     (case filter (\<lambda>r. oc_Project r = pid \<and> oc_Revision r = revision) (operationConfigs d) of
        [] \<Rightarrow> None
      | r # _ \<Rightarrow> map_option o_Status (find (\<lambda>o'. o_ID o' = oc_Operation r) (operations d)))"

definition hasCandidate :: "database \<Rightarrow> string \<Rightarrow> int \<Rightarrow> bool" where
  "hasCandidate d pid revision =
     existsWhere (\<lambda>r. pc_Project r = pid \<and> pc_Revision r = revision) (projectConfigs d)"

definition candidateBusy :: "OperationStatus \<Rightarrow> bool" where
  "candidateBusy s = (s = OperationQueued \<or> s = OperationRunning \<or> s = OperationRollingBack)"

definition deleteCandidate :: "string \<Rightarrow> int \<Rightarrow> (database, unit) act" where
  "deleteCandidate pid revision = modify (\<lambda>d. d\<lparr>
     projectConfigs := deleteWhere (\<lambda>r. pc_Project r = pid \<and> pc_Revision r = revision) (projectConfigs d),
     secretVersions := deleteWhere (\<lambda>r. ver_Project r = pid \<and> ver_Revision r = revision) (secretVersions d),
     secretMarkers := deleteWhere (\<lambda>r. mk_Project r = pid \<and> mk_Revision r = revision) (secretMarkers d)\<rparr>)"

definition deleteReservations :: "string \<Rightarrow> int \<Rightarrow> (database, unit) act" where
  "deleteReservations pid revision = modify (\<lambda>d. d\<lparr>reservations :=
     deleteWhere (\<lambda>r. rv_Project r = pid \<and> rv_Revision r = revision) (reservations d)\<rparr>)"

definition deleteAllReservations :: "string \<Rightarrow> (database, unit) act" where
  "deleteAllReservations pid = modify (\<lambda>d. d\<lparr>reservations :=
     deleteWhere (\<lambda>r. rv_Project r = pid) (reservations d)\<rparr>)"

definition reclaimCandidate :: "string \<Rightarrow> int \<Rightarrow> (database, unit) act" where
  "reclaimCandidate pid revision = andThen (gets id) (\<lambda>d.
     if \<not> hasCandidate d pid revision then ret ()
     else if (case candidateStatus d pid revision of Some s \<Rightarrow> candidateBusy s | None \<Rightarrow> False)
     then throw (Sentinel ErrConfigurationBusy)
     else andThen (deleteCandidate pid revision) (\<lambda>_. deleteReservations pid revision))"

definition insertConfig :: "string \<Rightarrow> int \<Rightarrow> ProjectConfiguration \<Rightarrow> (database, unit) act" where
  "insertConfig pid revision cfg = andThen (requireProject pid) (\<lambda>_. andThen (gets id) (\<lambda>d.
     andThen (failIf (hasCandidate d pid revision)
       (UniqueViolation ''project_configs.project_id, project_configs.section, project_configs.revision''))
     (\<lambda>_. modify (\<lambda>d. d\<lparr>projectConfigs := projectConfigs d @
        [\<lparr>pc_Project = pid, pc_Revision = revision, pc_Config = cfg\<rparr>]\<rparr>))))"

text \<open>\<^verbatim>\<open>INSERT INTO project_secret_versions ... SELECT ... FROM project_secrets\<close>\<close>

definition snapshotSecrets :: "string \<Rightarrow> int \<Rightarrow> (database, unit) act" where
  "snapshotSecrets pid revision = andThen (gets id) (\<lambda>d.
     andThen (failIf (list_ex (\<lambda>r. existsWhere (\<lambda>v. versionKey v = versionKey (versionRow revision r))
                 (secretVersions d)) (secretsOf d pid))
       (UniqueViolation ''project_secret_versions.project_id, project_secret_versions.revision, project_secret_versions.kind''))
     (\<lambda>_. modify (\<lambda>d. d\<lparr>secretVersions := secretVersions d @ map (versionRow revision) (secretsOf d pid)\<rparr>)))"

definition applyMutation :: "string \<Rightarrow> SecretMutation \<Rightarrow> (database, unit) act" where
  "applyMutation pid mutation =
     (if sm_Delete mutation
      then modify (\<lambda>d. d\<lparr>projectSecrets := deleteWhere
             (\<lambda>r. sec_Project r = pid \<and> sec_Kind r = sm_Kind mutation) (projectSecrets d)\<rparr>)
      else upsertSecret pid (sm_Kind mutation) (sm_Envelope mutation))"

definition insertOperationConfig :: "OperationConfigRow \<Rightarrow> (database, unit) act" where
  "insertOperationConfig row = andThen (requireOperation (oc_Operation row)) (\<lambda>_.
     andThen (requireProject (oc_Project row)) (\<lambda>_. andThen (gets id) (\<lambda>d.
     andThen (failIf (existsWhere (\<lambda>r. oc_Operation r = oc_Operation row) (operationConfigs d))
       (UniqueViolation ''operation_configurations.operation_id''))
     (\<lambda>_. modify (\<lambda>d. d\<lparr>operationConfigs := operationConfigs d @ [row]\<rparr>)))))"

definition insertOperationSecret :: "string \<Rightarrow> string \<times> Envelope \<Rightarrow> (database, unit) act" where
  "insertOperationSecret oid secret = (case secret of (kind, envelope) \<Rightarrow>
     andThen (requireOperation oid) (\<lambda>_. andThen (gets id) (\<lambda>d.
     andThen (failIf (existsWhere (\<lambda>r. os_Operation r = oid \<and> os_Kind r = kind) (operationSecrets d))
       (UniqueViolation ''operation_secrets.operation_id, operation_secrets.kind''))
     (\<lambda>_. modify (\<lambda>d. d\<lparr>operationSecrets := operationSecrets d @
        [\<lparr>os_Operation = oid, os_Kind = kind, os_Envelope = envelope\<rparr>]\<rparr>)))))"

text \<open>The transaction, with the defaults of the kind, the lease time and the clock resolved.\<close>

definition admitTx :: "gotime \<Rightarrow> int \<Rightarrow> string \<Rightarrow> ConfigurationAdmission \<Rightarrow>
    (database, ConfigurationSnapshot \<times> ConfigurationLease) act" where
  "admitTx now ttl kind input =
     (let pid = adm_ProjectID input; op = adm_Operation input; oid = op_ID op;
          redacted = redactConfiguration (adm_Configuration input);
          resources = configurationResources (adm_Configuration input)
      in andThen (forEach resources (checkResource pid)) (\<lambda>_.
         andThen (mapErr (\<lambda>e. Errorf ''admit configuration lease: '' e [])
                    (takeLease pid (adm_Owner input) now (now + ttl))) (\<lambda>taken.
         andThen (failIf (\<not> taken) (Sentinel ErrConfigurationBusy)) (\<lambda>_.
         andThen (readFence pid (adm_Owner input)) (\<lambda>fence.
         andThen (mapErr (\<lambda>e. if errorsIs e ErrNoRows then Sentinel ErrNotFound else e)
                    (currentRevision pid)) (\<lambda>current.
         let next = current + 1; payload = redacted\<lparr>cfg_Revision := next\<rparr> in
         andThen (reclaimCandidate pid next) (\<lambda>_.
         andThen (mapErr (\<lambda>e. Errorf ''create admitted operation: '' e [])
                    (insertOperation (op\<lparr>op_ProjectID := pid, op_Progress := 0\<rparr>))) (\<lambda>_.
         andThen (appendOperationEvent oid ''OPERATION_QUEUED'' (statusPayload OperationQueued)
                    (op_CreatedAt op)) (\<lambda>_.
         andThen (deleteAllReservations pid) (\<lambda>_.
         andThen (forEach resources
                    (insertReservation pid oid (adm_ExpectedRevision input + 1))) (\<lambda>_.
         andThen (modify (\<lambda>d. d\<lparr>projects := updateWhere
                    (\<lambda>p. p_ID p = pid \<and> p_ConfigurationRevision p = adm_ExpectedRevision input)
                    (\<lambda>p. p\<lparr>p_ConfigurationRevision := next, p_UpdatedAt := now\<rparr>) (projects d)\<rparr>)) (\<lambda>_.
         andThen (insertConfig pid next payload) (\<lambda>_.
         andThen (mapErr (\<lambda>e. Errorf ''persist canonical configuration: '' e [])
                    (upsertCanonical pid payload)) (\<lambda>_.
         andThen (snapshotSecrets pid next) (\<lambda>_.
         andThen (insertMarker pid next) (\<lambda>_.
         andThen (forEach (adm_Mutations input) (applyMutation pid)) (\<lambda>_.
         andThen (insertOperationConfig \<lparr>oc_Operation = oid, oc_Project = pid, oc_Revision = next,
                    oc_Config = payload, oc_Kind = kind, oc_Fence = fence\<rparr>) (\<lambda>_.
         andThen (forEach (adm_OperationSecrets input) (insertOperationSecret oid)) (\<lambda>_.
         ret (\<lparr>snap_ProjectID = pid, snap_Revision = next,
                snap_LastGoodRevision = adm_ExpectedRevision input, snap_Configuration = payload,
                snap_Fence = fence\<rparr>,
              \<lparr>lease_Owner = adm_Owner input, lease_Fence = fence\<rparr>))))))))))))))))))))"

definition admissionKind :: "ConfigurationAdmission \<Rightarrow> string" where
  "admissionKind input =
     (if adm_OperationKind input = [] then ''UPDATE_CONFIG'' else adm_OperationKind input)"

definition admissionTTL :: "ConfigurationAdmission \<Rightarrow> int" where
  "admissionTTL input = (if adm_LeaseTTL input \<le> 0 then 45 * minute else adm_LeaseTTL input)"

definition admissionTime :: "gotime \<Rightarrow> ConfigurationAdmission \<Rightarrow> gotime" where
  "admissionTime wall input = (if adm_Now input = zeroTime then wall else adm_Now input)"

definition AdmitConfiguration :: "gotime \<Rightarrow> ConfigurationAdmission \<Rightarrow>
    (database, ConfigurationSnapshot \<times> ConfigurationLease) act" where
  "AdmitConfiguration wall input =
     andThen (validateConfigurationOwner (adm_Owner input) 1) (\<lambda>_.
     if op_ID (adm_Operation input) = [] \<or> op_ID (adm_Operation input) \<noteq> adm_Owner input
     then throw (ErrorsNew ''configuration operation owner must match operation id'')
     else inTx (admitTx (admissionTime wall input) (admissionTTL input) (admissionKind input) input))"

section \<open>Reading configurations\<close>

definition GetDesiredConfiguration :: "string \<Rightarrow> (database, ConfigurationSnapshot) act" where
  "GetDesiredConfiguration pid d =
     (case (find (\<lambda>p. p_ID p = pid) (projects d), find (\<lambda>c. cc_Project c = pid) (canonicalConfigs d)) of
        (Some p, Some c) \<Rightarrow>
          (Inr \<lparr>snap_ProjectID = p_ID p, snap_Revision = p_ConfigurationRevision p,
             snap_LastGoodRevision = pr_LastGoodRevision p,
             snap_Configuration = (redactConfiguration (cc_Config c))\<lparr>cfg_Revision := p_ConfigurationRevision p\<rparr>,
             snap_Fence = 0\<rparr>, d)
      | _ \<Rightarrow> (Inl (Sentinel ErrNotFound), d))"

definition GetConfiguration :: "string \<Rightarrow> (database, ConfigurationSnapshot) act" where
  "GetConfiguration pid = GetDesiredConfiguration pid"

definition GetOperationKind :: "string \<Rightarrow> (database, string) act" where
  "GetOperationKind oid d = (case find (\<lambda>r. oc_Operation r = oid) (operationConfigs d) of
      None \<Rightarrow> (Inl (Sentinel ErrNotFound), d)
    | Some r \<Rightarrow> (Inr (oc_Kind r), d))"

definition GetOperationConfiguration :: "string \<Rightarrow> (database, ConfigurationSnapshot) act" where
  "GetOperationConfiguration oid d = (case find (\<lambda>r. oc_Operation r = oid) (operationConfigs d) of
      None \<Rightarrow> (Inl (Sentinel ErrNotFound), d)
    | Some r \<Rightarrow> (Inr \<lparr>snap_ProjectID = oc_Project r, snap_Revision = oc_Revision r,
         snap_LastGoodRevision = 0, snap_Configuration = oc_Config r, snap_Fence = oc_Fence r\<rparr>, d))"

definition PutOperationSecret :: "string \<Rightarrow> string \<Rightarrow> Envelope \<Rightarrow> (database, unit) act" where
  "PutOperationSecret oid kind envelope = andThen (requireOperation oid) (\<lambda>_. modify (\<lambda>d. d\<lparr>operationSecrets :=
     deleteWhere (\<lambda>r. os_Operation r = oid \<and> os_Kind r = kind) (operationSecrets d) @
     [\<lparr>os_Operation = oid, os_Kind = kind, os_Envelope = envelope\<rparr>]\<rparr>))"

definition GetOperationSecret :: "string \<Rightarrow> string \<Rightarrow> (database, Envelope) act" where
  "GetOperationSecret oid kind d =
     (case find (\<lambda>r. os_Operation r = oid \<and> os_Kind r = kind) (operationSecrets d) of
        None \<Rightarrow> (Inl (Sentinel ErrNotFound), d)
      | Some r \<Rightarrow> (Inr (os_Envelope r), d))"

definition GetSecretAtRevision :: "string \<Rightarrow> int \<Rightarrow> string \<Rightarrow> (database, Envelope) act" where
  "GetSecretAtRevision pid revision kind d =
     (case find (\<lambda>r. ver_Project r = pid \<and> ver_Revision r = revision \<and> ver_Kind r = kind) (secretVersions d) of
        None \<Rightarrow> (Inl (Sentinel ErrNotFound), d)
      | Some r \<Rightarrow> (Inr (ver_Envelope r), d))"

section \<open>Projections\<close>

definition updateProjectProjection ::
  "string \<Rightarrow> ProjectConfiguration \<Rightarrow> gotime \<Rightarrow> (database, unit) act" where
  "updateProjectProjection pid cfg now = andThen (gets id) (\<lambda>d.
     andThen (failIf (hasProject d pid \<and>
        existsWhere (\<lambda>p. p_Domain p = gen_Domain (cfg_General cfg) \<and> p_ID p \<noteq> pid) (projects d))
        (UniqueViolation ''projects.domain'')) (\<lambda>_.
     modify (\<lambda>d. d\<lparr>projects := updateWhere (\<lambda>p. p_ID p = pid)
       (\<lambda>p. p\<lparr>p_Domain := gen_Domain (cfg_General cfg), p_SiteURL := gen_SiteURL (cfg_General cfg),
          p_SupabaseVersion := gen_SupabaseVersion (cfg_General cfg), p_Services := cfg_Services cfg,
          p_UpdatedAt := now\<rparr>) (projects d)\<rparr>)))"

definition portProjection :: "ProjectConfiguration \<Rightarrow> (string \<times> int \<times> bool) list" where
  "portProjection cfg =
     [(''API'', net_APIPort (cfg_Network cfg), True),
      (''STUDIO'', net_StudioPort (cfg_Network cfg), svc_Studio (cfg_Services cfg)),
      (''DATABASE'', net_DirectDatabasePort (cfg_Network cfg), svc_DirectDB (cfg_Services cfg)),
      (''POOLER'', net_PoolerPort (cfg_Network cfg), svc_Supavisor (cfg_Services cfg)),
      (''POOLER_TRANSACTION'', pool_TransactionPort (cfg_Pooler cfg), svc_Supavisor (cfg_Services cfg)),
      (''POOLER_SESSION'', pool_SessionPort (cfg_Pooler cfg), svc_Supavisor (cfg_Services cfg))]"

definition insertPort :: "string \<Rightarrow> string \<Rightarrow> int \<Rightarrow> (database, unit) act" where
  "insertPort pid kind port = andThen (requireProject pid) (\<lambda>_. andThen (gets id) (\<lambda>d.
     andThen (failIf (existsWhere (\<lambda>r. pt_Port r = port) (portAllocations d))
        (UniqueViolation ''port_allocations.port'')) (\<lambda>_.
     andThen (failIf (existsWhere (\<lambda>r. pt_Project r = pid \<and> pt_Kind r = kind) (portAllocations d))
        (UniqueViolation ''port_allocations.project_id, port_allocations.kind'')) (\<lambda>_.
     modify (\<lambda>d. d\<lparr>portAllocations := portAllocations d @
       [\<lparr>pt_Port = port, pt_Project = pid, pt_Kind = kind\<rparr>]\<rparr>)))))"

definition projectPort :: "string \<Rightarrow> string \<times> int \<times> bool \<Rightarrow> (database, unit) act" where
  "projectPort pid entry = (case entry of (kind, port, enabled) \<Rightarrow>
     andThen (ReleasePort pid kind) (\<lambda>_.
     if \<not> enabled \<or> port = 0 then ret () else insertPort pid kind port))"

definition deleteServices :: "string \<Rightarrow> (database, unit) act" where
  "deleteServices pid = modify (\<lambda>d. d\<lparr>projectServices :=
     deleteWhere (\<lambda>r. sv_Project r = pid) (projectServices d)\<rparr>)"

definition updateCanonicalProjectionTx ::
  "string \<Rightarrow> ProjectConfiguration \<Rightarrow> gotime \<Rightarrow> (database, unit) act" where
  "updateCanonicalProjectionTx pid cfg now =
     andThen (upsertCanonical pid (redactConfiguration cfg)) (\<lambda>_.
     andThen (updateProjectProjection pid cfg now) (\<lambda>_.
     andThen (deleteServices pid) (\<lambda>_.
     andThen (forEach (projectServiceProjection (cfg_Services cfg)) (insertService pid)) (\<lambda>_.
     forEach (portProjection cfg) (projectPort pid)))))"

section \<open>Publication and compensation\<close>

definition projectRevisions :: "string \<Rightarrow> (database, int \<times> int) act" where
  "projectRevisions pid d = (case find (\<lambda>p. p_ID p = pid) (projects d) of
      None \<Rightarrow> (Inl (Sentinel ErrNoRows), d)
    | Some p \<Rightarrow> (Inr (p_ConfigurationRevision p, pr_LastGoodRevision p), d))"

definition stale :: "string \<Rightarrow> goerr" where
  "stale detail = Errorf [] (Sentinel ErrStaleConfiguration) ('': '' @ detail)"

text \<open>The lease and the operation's payload must both carry the caller's fence.\<close>

definition requireFence :: "string \<Rightarrow> int \<Rightarrow> string \<Rightarrow> int \<Rightarrow> (database, unit) act" where
  "requireFence pid revision owner fence =
     andThen (gets (\<lambda>d. leaseOf d pid)) (\<lambda>l. case l of
         None \<Rightarrow> throw (Sentinel ErrNoRows)
       | Some row \<Rightarrow>
     andThen (failIf (ls_Owner row \<noteq> owner \<or> ls_Fence row \<noteq> fence)
        (stale ''configuration lease is no longer owned'')) (\<lambda>_.
     andThen (gets (\<lambda>d. find (\<lambda>r. oc_Operation r = owner \<and> oc_Project r = pid) (operationConfigs d))) (\<lambda>c.
     case c of
         None \<Rightarrow> throw (Sentinel ErrNoRows)
       | Some bound \<Rightarrow> failIf (oc_Revision bound \<noteq> revision \<or> oc_Fence bound \<noteq> fence)
           (stale ''operation fence changed''))))"

definition aggregateAt :: "string \<Rightarrow> int \<Rightarrow> (database, ProjectConfiguration) act" where
  "aggregateAt pid revision d =
     (case find (\<lambda>r. pc_Project r = pid \<and> pc_Revision r = revision) (projectConfigs d) of
        None \<Rightarrow> (Inl (Sentinel ErrNoRows), d)
      | Some r \<Rightarrow> (Inr (pc_Config r), d))"

definition MarkConfigurationGoodOwned ::
  "gotime \<Rightarrow> string \<Rightarrow> int \<Rightarrow> string \<Rightarrow> int \<Rightarrow> string \<Rightarrow> (database, unit) act" where
  "MarkConfigurationGoodOwned wall pid revision owner fence phase =
     (if revision \<le> 0 then throw (Sentinel ErrStaleConfiguration)
      else andThen (validateConfigurationOwner owner fence) (\<lambda>_.
      if trimSpace phase = [] then throw (ErrorsNew ''configuration publication phase is required'')
      else inTx (
        andThen (mapErr (\<lambda>e. if errorsIs e ErrNoRows then Sentinel ErrNotFound
                             else Errorf ''read configuration revision: '' e [])
                   (projectRevisions pid)) (\<lambda>(current, lastGood).
        andThen (failIf (revision \<noteq> current)
           (stale (''expected current revision '' @ itoa current @ '', got '' @ itoa revision))) (\<lambda>_.
        andThen (gets (countWhere (\<lambda>r. pc_Project r = pid \<and> pc_Revision r = revision) \<circ> projectConfigs)) (\<lambda>count.
        andThen (failIf (count \<noteq> 1)
           (stale (''aggregate revision '' @ itoa revision @ '' does not exist''))) (\<lambda>_.
        andThen (failIf (revision < lastGood)
           (stale (''last good revision is '' @ itoa lastGood))) (\<lambda>_.
        andThen (requireFence pid revision owner fence) (\<lambda>_.
        andThen (modify (\<lambda>d. d\<lparr>projects := updateWhere (\<lambda>p. p_ID p = pid)
           (\<lambda>p. p\<lparr>pr_LastGoodRevision := revision\<rparr>) (projects d)\<rparr>)) (\<lambda>_.
        andThen (aggregateAt pid revision) (\<lambda>cfg.
        andThen (updateCanonicalProjectionTx pid cfg wall) (\<lambda>_.
        andThen (deleteReservations pid revision) (\<lambda>_.
        setCompensationPhase owner phase)))))))))))))"

text \<open>The secrets of the project become those of the snapshot taken when the revision was admitted.\<close>

definition restoreSecrets :: "string \<Rightarrow> int \<Rightarrow> (database, unit) act" where
  "restoreSecrets pid revision =
     andThen (modify (\<lambda>d. d\<lparr>projectSecrets := deleteWhere (\<lambda>r. sec_Project r = pid) (projectSecrets d)\<rparr>)) (\<lambda>_.
     andThen (gets (\<lambda>d. find (\<lambda>m. mk_Project m = pid \<and> mk_Revision m = revision) (secretMarkers d))) (\<lambda>m.
     case m of
         None \<Rightarrow> throw (Sentinel ErrNoRows)
       | Some marker \<Rightarrow>
           if \<not> mk_Present marker then ret ()
           else andThen (gets (\<lambda>d. versionsOf d pid revision)) (\<lambda>rows.
             if rows = [] then throw (Sentinel ErrSecretSnapshotUnavailable)
             else modify (\<lambda>d. d\<lparr>projectSecrets := projectSecrets d @
               map (\<lambda>v. \<lparr>sec_Project = ver_Project v, sec_Kind = ver_Kind v,
                          sec_Envelope = ver_Envelope v\<rparr>) rows\<rparr>))))"

definition RestoreConfigurationStateOwned ::
  "gotime \<Rightarrow> string \<Rightarrow> int \<Rightarrow> string \<Rightarrow> int \<Rightarrow> (database, unit) act" where
  "RestoreConfigurationStateOwned wall pid failedRevision owner fence =
     andThen (validateConfigurationOwner owner fence) (\<lambda>_. inTx (
       andThen (projectRevisions pid) (\<lambda>(current, lastGood).
       andThen (gets (\<lambda>d. map_option o_CompensationPhase (find (\<lambda>r. o_ID r = owner) (operations d)))) (\<lambda>phase.
       if current \<noteq> failedRevision
       then if current = lastGood \<and> phase = Some ''STATE_RESTORED'' then ret ()
            else throw (stale (''expected failed revision '' @ itoa failedRevision @ '', current '' @ itoa current))
       else
         andThen (requireFence pid failedRevision owner fence) (\<lambda>_.
         andThen (aggregateAt pid lastGood) (\<lambda>cfg.
         andThen (restoreSecrets pid failedRevision) (\<lambda>_.
         andThen (modify (\<lambda>d. d\<lparr>projects := updateWhere (\<lambda>p. p_ID p = pid)
            (\<lambda>p. p\<lparr>p_ConfigurationRevision := lastGood, p_UpdatedAt := wall\<rparr>) (projects d)\<rparr>)) (\<lambda>_.
         andThen (updateCanonicalProjectionTx pid cfg wall) (\<lambda>_.
         andThen (deleteCandidate pid failedRevision) (\<lambda>_.
         andThen (deleteReservations pid failedRevision) (\<lambda>_.
         andThen (modify (\<lambda>d. d\<lparr>leases := deleteWhere
            (\<lambda>l. ls_Project l = pid \<and> ls_Owner l = owner \<and> ls_Fence l = fence) (leases d)\<rparr>)) (\<lambda>_.
         setCompensationPhase owner ''STATE_RESTORED''))))))))))))"

definition CommitCanonicalConfiguration :: "gotime \<Rightarrow> string \<Rightarrow> gotime \<Rightarrow> (database, unit) act" where
  "CommitCanonicalConfiguration wall pid now0 =
     (let now = (if now0 = zeroTime then wall else now0) in
      inTx (andThen (gets (\<lambda>d. hasProject d pid)) (\<lambda>found.
        andThen (modify (\<lambda>d. d\<lparr>projects := updateWhere (\<lambda>p. p_ID p = pid)
           (\<lambda>p. p\<lparr>pr_LastGoodRevision := p_ConfigurationRevision p, p_UpdatedAt := now\<rparr>) (projects d)\<rparr>)) (\<lambda>_.
        andThen (failIf (\<not> found) (Sentinel ErrNotFound)) (\<lambda>_.
        deleteAllReservations pid)))))"

definition PersistAllocatedConfiguration ::
  "string \<Rightarrow> ProjectConfiguration \<Rightarrow> gotime \<Rightarrow> (database, unit) act" where
  "PersistAllocatedConfiguration pid cfg0 now = inTx (
     andThen (mapErr (\<lambda>e. if errorsIs e ErrNoRows then Sentinel ErrNotFound
                          else Errorf ''read configuration revision for allocation: '' e [])
                (currentRevision pid)) (\<lambda>revision.
     let cfg = cfg0\<lparr>cfg_Revision := revision\<rparr>; payload = redactConfiguration cfg in
     andThen (gets (\<lambda>d. hasCandidate d pid revision)) (\<lambda>found.
     andThen (modify (\<lambda>d. d\<lparr>projectConfigs :=
        updateWhere (\<lambda>r. pc_Project r = pid \<and> pc_Revision r = revision)
          (\<lambda>r. r\<lparr>pc_Config := payload\<rparr>) (projectConfigs d)\<rparr>)) (\<lambda>_.
     andThen (failIf (\<not> found) (Sentinel ErrNotFound)) (\<lambda>_.
     andThen (mapErr (\<lambda>e. Errorf ''persist canonical allocated configuration: '' e [])
                (upsertCanonical pid payload)) (\<lambda>_.
     updateCanonicalProjectionTx pid cfg now))))))"

definition PublishConfigurationSecret ::
  "string \<Rightarrow> int \<Rightarrow> string \<Rightarrow> Envelope \<Rightarrow> (database, unit) act" where
  "PublishConfigurationSecret pid revision kind envelope = inTx (
     andThen (currentRevision pid) (\<lambda>current.
     andThen (failIf (current \<noteq> revision) (stale ''revision changed'')) (\<lambda>_.
     upsertSecret pid kind envelope)))"

section \<open>Start-up migrations\<close>

definition templatesOf :: "MailerConfig \<Rightarrow> EmailTemplateConfig list" where
  "templatesOf mailer =
     (let t = ml_Templates mailer; n = ml_Notifications mailer in
      [tpls_Confirmation t, tpls_Invite t, tpls_MagicLink t, tpls_EmailChange t, tpls_Recovery t,
       tpls_Reauthentication t, ntf_Template (ntfs_PasswordChanged n), ntf_Template (ntfs_EmailChanged n),
       ntf_Template (ntfs_PhoneChanged n), ntf_Template (ntfs_IdentityLinked n),
       ntf_Template (ntfs_IdentityUnlinked n), ntf_Template (ntfs_MFAFactorEnrolled n),
       ntf_Template (ntfs_MFAFactorUnenrolled n)])"

definition hasMailerTemplateBodies :: "MailerConfig \<Rightarrow> bool" where
  "hasMailerTemplateBodies mailer = list_all (\<lambda>t. tpl_Body t \<noteq> []) (templatesOf mailer)"

text \<open>
  The empty mailer configuration has no template bodies, so the source's first test
  (\<^verbatim>\<open>Mailer == (MailerConfig{})\<close>) is part of the second.
\<close>

definition resetLegacyProject :: "MailerConfig \<Rightarrow> ProjectRow \<Rightarrow> (database, nat) act" where
  "resetLegacyProject mailer p d =
     (if p_ConfigurationRevision p \<noteq> pr_LastGoodRevision p then (Inr 0, d)
      else (case find (\<lambda>r. pc_Project r = p_ID p \<and> pc_Revision r = p_ConfigurationRevision p) (projectConfigs d) of
          None \<Rightarrow> (Inr 0, d)
        | Some row \<Rightarrow>
            let cfg = pc_Config row in
            if hasMailerTemplateBodies (auth_Mailer (cfg_Auth cfg)) then (Inr 0, d)
            else let payload = redactConfiguration (cfg\<lparr>cfg_Auth := (cfg_Auth cfg)\<lparr>auth_Mailer := mailer\<rparr>,
                       cfg_Revision := p_ConfigurationRevision p\<rparr>)
                 in (Inr 1, d\<lparr>projectConfigs := updateWhere
                       (\<lambda>r. pc_Project r = p_ID p \<and> pc_Revision r = p_ConfigurationRevision p)
                       (\<lambda>r. r\<lparr>pc_Config := payload\<rparr>) (projectConfigs d),
                     canonicalConfigs := updateWhere (\<lambda>r. cc_Project r = p_ID p)
                       (\<lambda>r. r\<lparr>cc_Config := payload\<rparr>) (canonicalConfigs d)\<rparr>)))"

definition ResetLegacyAuthConfigurations :: "AuthConfig \<Rightarrow> (database, nat) act" where
  "ResetLegacyAuthConfigurations defaults d =
     andThen (collect (map (resetLegacyProject (auth_Mailer defaults)) (projects d)))
       (\<lambda>counts. ret (sum_list counts)) d"

definition failedPostgreSQL15 :: "database \<Rightarrow> (string \<times> int \<times> ProjectConfiguration) list" where
  "failedPostgreSQL15 d = concat (map (\<lambda>p.
     if p_Status p \<noteq> ProjectStatusFailed then []
     else map (\<lambda>r. (p_ID p, p_ConfigurationRevision p, pc_Config r))
       (filter (\<lambda>r. pc_Project r = p_ID p \<and> pc_Revision r = p_ConfigurationRevision p \<and>
          db_Version (cfg_Database (pc_Config r)) = ''15'') (projectConfigs d))) (projects d))"

definition migrateCandidate :: "gotime \<Rightarrow> string \<times> int \<times> ProjectConfiguration \<Rightarrow> (database, unit) act" where
  "migrateCandidate wall item = (case item of (pid, revision, cfg0) \<Rightarrow>
     let cfg = cfg0\<lparr>cfg_Database := (cfg_Database cfg0)\<lparr>db_Version := ''17''\<rparr>, cfg_Revision := revision\<rparr> in
     inTx (andThen (gets (countWhere (\<lambda>r. pc_Project r = pid \<and> pc_Revision r = revision) \<circ> projectConfigs)) (\<lambda>count.
       andThen (modify (\<lambda>d. d\<lparr>projectConfigs := updateWhere
          (\<lambda>r. pc_Project r = pid \<and> pc_Revision r = revision)
          (\<lambda>r. r\<lparr>pc_Config := redactConfiguration cfg\<rparr>) (projectConfigs d)\<rparr>)) (\<lambda>_.
       andThen (failIf (count \<noteq> 1) (Sentinel ErrNotFound)) (\<lambda>_.
       updateCanonicalProjectionTx pid cfg wall)))))"

definition MigrateFailedPostgreSQL15Configurations :: "gotime \<Rightarrow> (database, nat) act" where
  "MigrateFailedPostgreSQL15Configurations wall d =
     andThen (forEach (failedPostgreSQL15 d) (migrateCandidate wall))
       (\<lambda>_. ret (length (failedPostgreSQL15 d))) d"

section \<open>The schema invariant\<close>

lemma obeys_reads [obeys_intros]:
  "obeys keepsWf (validateConfigurationOwner owner fence)"
  "obeys keepsWf (readFence pid owner)"
  "obeys keepsWf (currentRevision pid)"
  "obeys keepsWf (projectRevisions pid)"
  "obeys keepsWf (aggregateAt pid revision)"
  by (auto simp: obeys_def validateConfigurationOwner_def readFence_def currentRevision_def
      projectRevisions_def aggregateAt_def split: option.splits)

lemma leaseOf_None: "leaseOf d pid = None \<longleftrightarrow> (\<forall>l\<in>set (leases d). ls_Project l \<noteq> pid)"
  by (auto simp: leaseOf_def find_None_iff)

lemma wf_takeLease [obeys_intros]: "obeys keepsWf (takeLease pid owner now expires)"
  by (rule wfI) (auto simp: takeLease_def andThen_def existsWhere_iff dbWf_keys dbWf_refs leaseOf_None
      split: prod.splits option.splits if_splits intro!: dbWf_intros table_intros)

lemma wf_modify_leases_own:
  "obeys keepsWf (modify (\<lambda>d. d\<lparr>leases := deleteWhere P (leases d)\<rparr>))"
  by (rule wfI) (auto simp: dbWf_keys dbWf_refs intro!: dbWf_leasesI table_intros)

lemma wf_insertReservation [obeys_intros]: "obeys keepsWf (insertReservation pid oid revision resource)"
  by (rule wfI) (auto simp: insertReservation_def andThen_def existsWhere_iff dbWf_keys dbWf_refs mapErr_def
      split: prod.splits option.splits if_splits intro!: dbWf_intros table_intros)

lemma wf_checkResource [obeys_intros]: "obeys keepsWf (checkResource pid resource)"
  unfolding checkResource_def by (intro obeys_intros)

lemma wf_deleteCandidate [obeys_intros]: "obeys keepsWf (deleteCandidate pid revision)"
  by (rule wfI) (auto simp: deleteCandidate_def dbWf_keys dbWf_refs intro!: dbWf_intros table_intros)

lemma wf_deleteReservations [obeys_intros]: "obeys keepsWf (deleteReservations pid revision)"
  by (rule wfI) (auto simp: deleteReservations_def andThen_def existsWhere_iff dbWf_keys dbWf_refs
      split: prod.splits option.splits if_splits intro!: dbWf_intros table_intros)

lemma wf_deleteAllReservations [obeys_intros]: "obeys keepsWf (deleteAllReservations pid)"
  by (rule wfI) (auto simp: deleteAllReservations_def andThen_def existsWhere_iff dbWf_keys dbWf_refs
      split: prod.splits option.splits if_splits intro!: dbWf_intros table_intros)

lemma wf_deleteServices [obeys_intros]: "obeys keepsWf (deleteServices pid)"
  by (rule wfI) (auto simp: deleteServices_def andThen_def existsWhere_iff dbWf_keys dbWf_refs
      split: prod.splits option.splits if_splits intro!: dbWf_intros table_intros)

lemma wf_reclaimCandidate [obeys_intros]: "obeys keepsWf (reclaimCandidate pid revision)"
  unfolding reclaimCandidate_def by (intro obeys_intros)

lemma wf_insertConfig [obeys_intros]: "obeys keepsWf (insertConfig pid revision cfg)"
  by (rule wfI) (auto simp: insertConfig_def andThen_def existsWhere_iff dbWf_keys dbWf_refs hasCandidate_def
      split: prod.splits option.splits if_splits intro!: dbWf_intros table_intros)

lemma wf_snapshotSecrets [obeys_intros]: "obeys keepsWf (snapshotSecrets pid revision)"
proof (rule wfI)
  fix d r d'
  assume wf: "dbWf d" and run: "snapshotSecrets pid revision d = (r, d')"
  let ?new = "map (versionRow revision) (secretsOf d pid)"
  have "keyed versionKey ?new"
    using wf by (simp add: secretsOf_def dbWf_keys keyed_versionRows keyed_filter)
  moreover have "refs ver_Project ?new (projectIds d)"
    using dbWf_refs(4) [OF wf] by (auto simp: refs_def secretsOf_def versionRow_def)
  ultimately show "dbWf d'"
    using run wf by (auto simp: snapshotSecrets_def andThen_def list_ex_iff existsWhere_iff dbWf_keys
        dbWf_refs split: if_splits intro!: dbWf_secretVersionsI keyed_append_disjoint refs_append)
qed

lemma wf_applyMutation [obeys_intros]: "obeys keepsWf (applyMutation pid mutation)"
  unfolding applyMutation_def
  by (intro obeys_intros)
    (auto simp: obeys_def dbWf_keys dbWf_refs intro!: dbWf_projectSecretsI table_intros)

lemma wf_insertOperationConfig [obeys_intros]: "obeys keepsWf (insertOperationConfig row)"
  by (rule wfI) (auto simp: insertOperationConfig_def andThen_def existsWhere_iff dbWf_keys dbWf_refs
      split: prod.splits option.splits if_splits intro!: dbWf_intros table_intros)

lemma wf_insertOperationSecret [obeys_intros]: "obeys keepsWf (insertOperationSecret oid secret)"
  by (rule wfI) (auto simp: insertOperationSecret_def andThen_def split: prod.splits if_splits)

lemma wf_modify_projects:
  assumes "\<And>p. P p \<Longrightarrow> p_ID (f p) = p_ID p" and "\<And>p. P p \<Longrightarrow> p_Slug (f p) = p_Slug p"
    and "\<And>p. P p \<Longrightarrow> p_Domain (f p) = p_Domain p"
  shows "obeys keepsWf (modify (\<lambda>d. d\<lparr>projects := updateWhere P f (projects d)\<rparr>))"
  by (rule wfI) (auto simp: dbWf_keys projectIds_def assms intro!: dbWf_projectsI keyed_updateWhere)

lemma wf_AdmitConfiguration [obeys_intros]: "obeys keepsWf (AdmitConfiguration wall input)"
  unfolding AdmitConfiguration_def admitTx_def Let_def
  by (intro obeys_intros wf_modify_projects) simp_all

lemma projectIds_member: "p \<in> set (projects d) \<Longrightarrow> p_ID p \<in> projectIds d"
  by (simp add: projectIds_def)

lemma keyed_map:
  assumes "keyed l t" and "\<And>x y. x \<in> set t \<Longrightarrow> y \<in> set t \<Longrightarrow> k (g x) = k (g y) \<Longrightarrow> l x = l y"
  shows "keyed k (map g t)"
proof -
  have "distinct t" using assms(1) by (auto simp: keyed_def distinct_map)
  moreover have "inj_on (k \<circ> g) (set t)"
  proof (rule inj_onI)
    fix x y
    assume "x \<in> set t" and "y \<in> set t" and "(k \<circ> g) x = (k \<circ> g) y"
    then show "x = y" using assms(2) [of x y] keyed_unique [OF assms(1), of x y] by simp
  qed
  ultimately show ?thesis by (simp add: keyed_def distinct_map [of "k \<circ> g"])
qed

lemma keyed_updateDomain:
  assumes "keyed p_ID t" and "keyed p_Domain t"
    and "\<forall>p\<in>set t. p_Domain p = x \<longrightarrow> p_ID p = pid"
    and "\<And>p. p_Domain (f p) = x"
  shows "keyed p_Domain (updateWhere (\<lambda>p. p_ID p = pid) f (t :: ProjectRow list))"
  unfolding updateWhere_def
proof (rule keyed_map [OF assms(1)])
  fix p q
  assume in_t: "p \<in> set t" "q \<in> set t"
    and eq: "p_Domain (if p_ID p = pid then f p else p) = p_Domain (if p_ID q = pid then f q else q)"
  then show "p_ID p = p_ID q"
    using assms(3,4) keyed_unique [OF assms(2) in_t] by (auto split: if_splits)
qed

lemma wf_updateProjectProjection [obeys_intros]:
  "obeys keepsWf (updateProjectProjection pid cfg now)"
proof (rule wfI)
  fix d r d'
  assume wf: "dbWf d" and run: "updateProjectProjection pid cfg now d = (r, d')"
  show "dbWf d'"
  proof (cases "pid \<in> projectIds d")
    case True
    let ?f = "\<lambda>p. p\<lparr>p_Domain := gen_Domain (cfg_General cfg), p_SiteURL := gen_SiteURL (cfg_General cfg),
          p_SupabaseVersion := gen_SupabaseVersion (cfg_General cfg), p_Services := cfg_Services cfg,
          p_UpdatedAt := now\<rparr>"
    let ?t = "updateWhere (\<lambda>p. p_ID p = pid) ?f (projects d)"
    have "dbWf (d\<lparr>projects := ?t\<rparr>)"
      if "\<forall>p\<in>set (projects d). p_Domain p = gen_Domain (cfg_General cfg) \<longrightarrow> p_ID p = pid"
    proof (rule dbWf_projectsI [OF wf])
      show "keyed p_Domain ?t"
        using wf that by (intro keyed_updateDomain) (simp_all add: dbWf_keys)
    qed (use wf in \<open>auto simp: dbWf_keys projects_ids intro!: keyed_updateWhere\<close>)
    moreover define clash where
      "clash = existsWhere (\<lambda>p. p_Domain p = gen_Domain (cfg_General cfg) \<and> p_ID p \<noteq> pid) (projects d)"
    have "d' = (if clash then d else d\<lparr>projects := ?t\<rparr>)"
      using run True unfolding updateProjectProjection_def andThen_def
      by (simp add: clash_def [symmetric] split: if_splits)
    ultimately show ?thesis
      using wf by (auto simp: clash_def existsWhere_iff)
  next
    case False
    then have "updateWhere (\<lambda>p. p_ID p = pid) f (projects d) = projects d" for f
      by (auto simp: updateWhere_def intro!: map_idI dest: projectIds_member)
    with False run wf show ?thesis
      by (auto simp: updateProjectProjection_def andThen_def)
  qed
qed

lemma wf_insertPort [obeys_intros]: "obeys keepsWf (insertPort pid kind port)"
  by (rule wfI) (auto simp: insertPort_def andThen_def existsWhere_iff dbWf_keys dbWf_refs
      split: prod.splits option.splits if_splits intro!: dbWf_intros table_intros)

lemma wf_projectPort [obeys_intros]: "obeys keepsWf (projectPort pid entry)"
  unfolding projectPort_def by (intro obeys_intros)

lemma wf_updateCanonicalProjectionTx [obeys_intros]:
  "obeys keepsWf (updateCanonicalProjectionTx pid cfg now)"
  unfolding updateCanonicalProjectionTx_def by (intro obeys_intros)

lemma wf_requireFence [obeys_intros]: "obeys keepsWf (requireFence pid revision owner fence)"
  unfolding requireFence_def by (intro obeys_intros)

lemma wf_setCompensationPhase [obeys_intros]: "obeys keepsWf (setCompensationPhase oid phase)"
  unfolding setCompensationPhase_def by (rule wf_modify_operations) simp_all

lemma wf_SetOperationCompensation [obeys_intros]: "obeys keepsWf (SetOperationCompensation oid phase key)"
  unfolding SetOperationCompensation_def by (rule wf_modify_operations) simp_all

lemma wf_MarkConfigurationGoodOwned [obeys_intros]:
  "obeys keepsWf (MarkConfigurationGoodOwned wall pid revision owner fence phase)"
  unfolding MarkConfigurationGoodOwned_def by (intro obeys_intros wf_modify_projects) simp_all

text \<open>The rows a snapshot gives back have distinct kinds and belong to the project.\<close>

definition secretRow :: "SecretVersionRow \<Rightarrow> SecretRow" where
  "secretRow v = \<lparr>sec_Project = ver_Project v, sec_Kind = ver_Kind v, sec_Envelope = ver_Envelope v\<rparr>"

lemma keyed_restored:
  assumes "keyed versionKey t"
  shows "keyed (\<lambda>r. (sec_Project r, sec_Kind r))
    (map secretRow (filter (\<lambda>r. ver_Project r = pid \<and> ver_Revision r = revision) t))"
  by (rule keyed_map [OF keyed_filter [OF assms]]) (auto simp: versionKey_def secretRow_def)

lemma wf_restoreSecrets [obeys_intros]: "obeys keepsWf (restoreSecrets pid revision)"
proof (rule wfI)
  fix d r d'
  assume wf: "dbWf d" and run: "restoreSecrets pid revision d = (r, d')"
  let ?kept = "deleteWhere (\<lambda>r. sec_Project r = pid) (projectSecrets d)"
  let ?new = "map secretRow (versionsOf d pid revision)"
  have row: "(\<lambda>v. \<lparr>sec_Project = ver_Project v, sec_Kind = ver_Kind v, sec_Envelope = ver_Envelope v\<rparr>) =
      secretRow" by (simp add: fun_eq_iff secretRow_def)
  have kept: "dbWf (d\<lparr>projectSecrets := ?kept\<rparr>)"
    using wf by (auto simp: dbWf_keys dbWf_refs intro!: dbWf_projectSecretsI table_intros)
  have "keyed (\<lambda>r. (sec_Project r, sec_Kind r)) (?kept @ ?new)"
    using wf keyed_restored [OF dbWf_keys(11) [OF wf], of pid revision]
    by (intro keyed_append_disjoint)
      (auto simp: dbWf_keys versionsOf_def table_simps secretRow_def)
  moreover have "refs sec_Project (?kept @ ?new) (projectIds d)"
    using dbWf_refs(4,5) [OF wf] by (auto simp: refs_def versionsOf_def secretRow_def table_simps)
  ultimately have restored: "dbWf (d\<lparr>projectSecrets := ?kept @ ?new\<rparr>)"
    using wf by (intro dbWf_projectSecretsI)
  have same: "versionsOf (d\<lparr>projectSecrets := t\<rparr>) pid revision = versionsOf d pid revision" for t
    by (simp add: versionsOf_def)
  show "dbWf d'"
    using run kept restored
    by (auto simp: restoreSecrets_def andThen_def row same split: option.splits if_splits)
qed

lemma wf_RestoreConfigurationStateOwned [obeys_intros]:
  "obeys keepsWf (RestoreConfigurationStateOwned wall pid failedRevision owner fence)"
  unfolding RestoreConfigurationStateOwned_def
  by (intro obeys_intros wf_modify_projects wf_modify_leases_own) simp_all

lemma wf_CommitCanonicalConfiguration [obeys_intros]:
  "obeys keepsWf (CommitCanonicalConfiguration wall pid now)"
  unfolding CommitCanonicalConfiguration_def Let_def
  by (intro obeys_intros wf_modify_projects) simp_all

lemma wf_modify_configs:
  "obeys keepsWf (modify (\<lambda>d. d\<lparr>projectConfigs := updateWhere P (\<lambda>r. r\<lparr>pc_Config := c\<rparr>) (projectConfigs d)\<rparr>))"
  by (rule wfI) (auto simp: dbWf_keys dbWf_refs intro!: dbWf_projectConfigsI table_intros)

lemma wf_PersistAllocatedConfiguration [obeys_intros]:
  "obeys keepsWf (PersistAllocatedConfiguration pid cfg now)"
  unfolding PersistAllocatedConfiguration_def Let_def by (intro obeys_intros wf_modify_configs)

lemma wf_PublishConfigurationSecret [obeys_intros]:
  "obeys keepsWf (PublishConfigurationSecret pid revision kind envelope)"
  unfolding PublishConfigurationSecret_def by (intro obeys_intros)

lemma wf_ReleaseConfigurationLeaseOwned [obeys_intros]:
  "obeys keepsWf (ReleaseConfigurationLeaseOwned pid owner fence)"
  unfolding ReleaseConfigurationLeaseOwned_def by (intro obeys_intros wf_modify_leases_own)

lemma wf_RenewConfigurationLease [obeys_intros]:
  "obeys keepsWf (RenewConfigurationLease pid owner fence now ttl)"
  unfolding RenewConfigurationLease_def Let_def
  by (intro obeys_intros)
    (auto simp: obeys_def dbWf_keys dbWf_refs intro!: dbWf_leasesI table_intros)

lemma wf_AcquireConfigurationLeaseForOperation [obeys_intros]:
  "obeys keepsWf (AcquireConfigurationLeaseForOperation pid owner oid now ttl)"
  unfolding AcquireConfigurationLeaseForOperation_def
  by (intro obeys_intros)
    (auto simp: obeys_def dbWf_keys dbWf_refs intro!: dbWf_operationConfigsI table_intros)

lemma wf_migrateCandidate [obeys_intros]: "obeys keepsWf (migrateCandidate wall item)"
  unfolding migrateCandidate_def Let_def by (intro obeys_intros wf_modify_configs)

lemma wf_MigrateFailedPostgreSQL15Configurations [obeys_intros]:
  "obeys keepsWf (MigrateFailedPostgreSQL15Configurations wall)"
proof (rule obeysI)
  fix d r d'
  assume run: "MigrateFailedPostgreSQL15Configurations wall d = (r, d')"
  have "obeys keepsWf (andThen (forEach (failedPostgreSQL15 d) (migrateCandidate wall))
       (\<lambda>_. ret (length (failedPostgreSQL15 d))))" by (intro obeys_intros)
  from obeysD [OF this] run show "keepsWf d d'"
    by (simp add: MigrateFailedPostgreSQL15Configurations_def)
qed

lemma wf_resetLegacyProject [obeys_intros]: "obeys keepsWf (resetLegacyProject mailer p)"
  by (rule wfI) (auto simp: resetLegacyProject_def Let_def dbWf_keys dbWf_refs
      split: option.splits if_splits intro!: dbWf_intros table_intros)

lemma wf_collect: "(\<And>m. m \<in> set ms \<Longrightarrow> obeys keepsWf m) \<Longrightarrow> obeys keepsWf (collect ms)"
proof (induction ms)
  case (Cons m ms)
  then show ?case unfolding collect.simps by (intro obeys_intros) auto
qed (auto intro: obeys_intros)

lemma wf_ResetLegacyAuthConfigurations [obeys_intros]:
  "obeys keepsWf (ResetLegacyAuthConfigurations defaults)"
proof (rule obeysI)
  fix d r d'
  assume run: "ResetLegacyAuthConfigurations defaults d = (r, d')"
  have "obeys keepsWf (andThen (collect (map (resetLegacyProject (auth_Mailer defaults)) (projects d)))
       (\<lambda>counts. ret (sum_list counts)))"
    by (intro obeys_intros wf_collect) (auto intro: obeys_intros)
  from obeysD [OF this] run show "keepsWf d d'"
    by (simp add: ResetLegacyAuthConfigurations_def)
qed

section \<open>Operations and event logs\<close>

text \<open>
  Most statements leave every operation's status and every event log alone; such \<open>quiet\<close> actions keep
  the history of \<^verbatim>\<open>StoreOperations\<close> and the status machine of \<^verbatim>\<open>OperationService\<close>.
\<close>

definition quiet :: "database \<Rightarrow> database \<Rightarrow> bool" where
  "quiet d d' \<longleftrightarrow> operationEvents d' = operationEvents d \<and>
     map (\<lambda>r. (o_ID r, o_Status r, o_ProjectID r)) (operations d') = map (\<lambda>r. (o_ID r, o_Status r, o_ProjectID r)) (operations d)"

interpretation quiet: monitor quiet
  by unfold_locales (auto simp: quiet_def)

lemma find_operation_map:
  "map_option (\<lambda>r. (o_Status r, o_ProjectID r)) (find (\<lambda>r. o_ID r = oid) t) =
     map_of (map (\<lambda>r. (o_ID r, o_Status r, o_ProjectID r)) t) oid"
  by (induction t) auto

lemma quiet_operation:
  "quiet d d' \<Longrightarrow> map_option (\<lambda>r. (o_Status r, o_ProjectID r)) (find (\<lambda>r. o_ID r = oid) (operations d')) =
     map_option (\<lambda>r. (o_Status r, o_ProjectID r)) (find (\<lambda>r. o_ID r = oid) (operations d))"
  by (simp add: find_operation_map quiet_def)

lemma quiet_statusOf:
  assumes "quiet d d'"
  shows "statusOf d' oid = statusOf d oid"
proof -
  have "statusOf e oid = map_option fst (map_option (\<lambda>r. (o_Status r, o_ProjectID r)) (find (\<lambda>r. o_ID r = oid) (operations e)))" for e
    by (simp add: statusOf_def option.map_comp comp_def)
  then show ?thesis using quiet_operation [OF assms, of oid] by simp
qed

lemma quiet_history: "obeys quiet m \<Longrightarrow> obeys historyGrows m"
  by (erule obeys_mono) (auto simp: quiet_def intro: historyGrows_frame)

lemma quiet_lawful: "obeys quiet m \<Longrightarrow> obeys lawful m"
  by (erule obeys_mono) (auto simp: lawful_def quiet_statusOf)

lemma quiet_update:
  "map (\<lambda>r. (o_ID r, o_Status r, o_ProjectID r)) (updateWhere P f t) = map (\<lambda>r. (o_ID r, o_Status r, o_ProjectID r)) t"
  if "\<And>r. P r \<Longrightarrow> o_ID (f r) = o_ID r \<and> o_Status (f r) = o_Status r \<and> o_ProjectID (f r) = o_ProjectID r"
  using that by (simp add: map_updateWhere)

lemma quiet_takeLease: "obeys quiet (takeLease pid owner now expires)"
  by (rule obeysI) (auto simp: quiet_def takeLease_def andThen_def quiet_update
      split: prod.splits option.splits if_splits)

lemma quiet_validateConfigurationOwner: "obeys quiet (validateConfigurationOwner owner fence)"
  by (rule obeysI) (auto simp: quiet_def validateConfigurationOwner_def andThen_def quiet_update
      split: prod.splits option.splits if_splits)

lemma quiet_readFence: "obeys quiet (readFence pid owner)"
  by (rule obeysI) (auto simp: quiet_def readFence_def andThen_def quiet_update
      split: prod.splits option.splits if_splits)

lemma quiet_currentRevision: "obeys quiet (currentRevision pid)"
  by (rule obeysI) (auto simp: quiet_def currentRevision_def andThen_def quiet_update
      split: prod.splits option.splits if_splits)

lemma quiet_projectRevisions: "obeys quiet (projectRevisions pid)"
  by (rule obeysI) (auto simp: quiet_def projectRevisions_def andThen_def quiet_update
      split: prod.splits option.splits if_splits)

lemma quiet_aggregateAt: "obeys quiet (aggregateAt pid revision)"
  by (rule obeysI) (auto simp: quiet_def aggregateAt_def andThen_def quiet_update
      split: prod.splits option.splits if_splits)

lemma quiet_checkResource: "obeys quiet (checkResource pid resource)"
  by (rule obeysI) (auto simp: quiet_def checkResource_def andThen_def quiet_update
      split: prod.splits option.splits if_splits)

lemma quiet_deleteCandidate: "obeys quiet (deleteCandidate pid revision)"
  by (rule obeysI) (auto simp: quiet_def deleteCandidate_def andThen_def quiet_update
      split: prod.splits option.splits if_splits)

lemma quiet_deleteReservations: "obeys quiet (deleteReservations pid revision)"
  by (rule obeysI) (auto simp: quiet_def deleteReservations_def andThen_def quiet_update
      split: prod.splits option.splits if_splits)

lemma quiet_deleteAllReservations: "obeys quiet (deleteAllReservations pid)"
  by (rule obeysI) (auto simp: quiet_def deleteAllReservations_def andThen_def quiet_update
      split: prod.splits option.splits if_splits)

lemma quiet_deleteServices: "obeys quiet (deleteServices pid)"
  by (rule obeysI) (auto simp: quiet_def deleteServices_def andThen_def quiet_update
      split: prod.splits option.splits if_splits)

lemma quiet_insertReservation: "obeys quiet (insertReservation pid oid revision resource)"
  by (rule obeysI) (auto simp: quiet_def insertReservation_def andThen_def quiet_update mapErr_def
      split: prod.splits option.splits if_splits)

lemma quiet_insertConfig: "obeys quiet (insertConfig pid revision cfg)"
  by (rule obeysI) (auto simp: quiet_def insertConfig_def andThen_def quiet_update
      split: prod.splits option.splits if_splits)

lemma quiet_upsertCanonical: "obeys quiet (upsertCanonical pid cfg)"
  by (rule obeysI) (auto simp: quiet_def upsertCanonical_def andThen_def quiet_update
      split: prod.splits option.splits if_splits)

lemma quiet_upsertSecret: "obeys quiet (upsertSecret pid kind envelope)"
  by (rule obeysI) (auto simp: quiet_def upsertSecret_def andThen_def quiet_update
      split: prod.splits option.splits if_splits)

lemma quiet_snapshotSecrets: "obeys quiet (snapshotSecrets pid revision)"
  by (rule obeysI) (auto simp: quiet_def snapshotSecrets_def andThen_def quiet_update
      split: prod.splits option.splits if_splits)

lemma quiet_insertMarker: "obeys quiet (insertMarker pid revision)"
  by (rule obeysI) (auto simp: quiet_def insertMarker_def andThen_def quiet_update
      split: prod.splits option.splits if_splits)

lemma quiet_insertOperationConfig: "obeys quiet (insertOperationConfig row)"
  by (rule obeysI) (auto simp: quiet_def insertOperationConfig_def andThen_def quiet_update
      split: prod.splits option.splits if_splits)

lemma quiet_insertOperationSecret: "obeys quiet (insertOperationSecret oid secret)"
  by (rule obeysI) (auto simp: quiet_def insertOperationSecret_def andThen_def quiet_update
      split: prod.splits option.splits if_splits)

lemma quiet_insertService: "obeys quiet (insertService pid service)"
  by (rule obeysI) (auto simp: quiet_def insertService_def andThen_def quiet_update
      split: prod.splits option.splits if_splits)

lemma quiet_updateProjectProjection: "obeys quiet (updateProjectProjection pid cfg now)"
  by (rule obeysI) (auto simp: quiet_def updateProjectProjection_def andThen_def quiet_update
      split: prod.splits option.splits if_splits)

lemma quiet_insertPort: "obeys quiet (insertPort pid kind port)"
  by (rule obeysI) (auto simp: quiet_def insertPort_def andThen_def quiet_update
      split: prod.splits option.splits if_splits)

lemma quiet_ReleasePort: "obeys quiet (ReleasePort pid kind)"
  by (rule obeysI) (auto simp: quiet_def ReleasePort_def andThen_def quiet_update
      split: prod.splits option.splits if_splits)

lemma quiet_setCompensationPhase: "obeys quiet (setCompensationPhase oid phase)"
  by (rule obeysI) (auto simp: quiet_def setCompensationPhase_def andThen_def quiet_update
      split: prod.splits option.splits if_splits)

lemma quiet_SetOperationCompensation: "obeys quiet (SetOperationCompensation oid phase key)"
  by (rule obeysI) (auto simp: quiet_def SetOperationCompensation_def andThen_def quiet_update
      split: prod.splits option.splits if_splits)

lemma quiet_restoreSecrets: "obeys quiet (restoreSecrets pid revision)"
  by (rule obeysI) (auto simp: quiet_def restoreSecrets_def andThen_def quiet_update
      split: prod.splits option.splits if_splits)

lemma quiet_requireFence: "obeys quiet (requireFence pid revision owner fence)"
  by (rule obeysI) (auto simp: quiet_def requireFence_def andThen_def quiet_update
      split: prod.splits option.splits if_splits)

lemma quiet_modify_projects: "obeys quiet (modify (\<lambda>d. d\<lparr>projects := f d\<rparr>))"
  by (simp add: obeys_def quiet_def)

lemma quiet_modify_leases: "obeys quiet (modify (\<lambda>d. d\<lparr>leases := f d\<rparr>))"
  by (simp add: obeys_def quiet_def)

lemma quiet_modify_secrets: "obeys quiet (modify (\<lambda>d. d\<lparr>projectSecrets := f d\<rparr>))"
  by (simp add: obeys_def quiet_def)

lemma quiet_modify_configs: "obeys quiet (modify (\<lambda>d. d\<lparr>projectConfigs := f d\<rparr>))"
  by (simp add: obeys_def quiet_def)

lemmas quiet_statements =
  quiet_takeLease
  quiet_validateConfigurationOwner
  quiet_readFence
  quiet_currentRevision
  quiet_projectRevisions
  quiet_aggregateAt
  quiet_checkResource
  quiet_deleteCandidate
  quiet_deleteReservations
  quiet_deleteAllReservations
  quiet_deleteServices
  quiet_insertReservation
  quiet_insertConfig
  quiet_upsertCanonical
  quiet_upsertSecret
  quiet_snapshotSecrets
  quiet_insertMarker
  quiet_insertOperationConfig
  quiet_insertOperationSecret
  quiet_insertService
  quiet_updateProjectProjection
  quiet_insertPort
  quiet_ReleasePort
  quiet_setCompensationPhase
  quiet_SetOperationCompensation
  quiet_restoreSecrets
  quiet_requireFence
  quiet_modify_projects quiet_modify_leases quiet_modify_secrets quiet_modify_configs

lemma quiet_applyMutation: "obeys quiet (applyMutation pid mutation)"
  unfolding applyMutation_def by (intro obeys_intros quiet_statements)

lemma quiet_reclaimCandidate: "obeys quiet (reclaimCandidate pid revision)"
  unfolding reclaimCandidate_def by (intro obeys_intros quiet_statements)

lemma quiet_projectPort: "obeys quiet (projectPort pid entry)"
  unfolding projectPort_def by (intro obeys_intros quiet_statements)

lemma quiet_updateCanonicalProjectionTx: "obeys quiet (updateCanonicalProjectionTx pid cfg now)"
  unfolding updateCanonicalProjectionTx_def by (intro obeys_intros quiet_statements quiet_projectPort)

lemma quiet_MarkConfigurationGoodOwned:
  "obeys quiet (MarkConfigurationGoodOwned wall pid revision owner fence phase)"
  unfolding MarkConfigurationGoodOwned_def
  by (intro obeys_intros quiet_statements quiet_updateCanonicalProjectionTx)

lemma quiet_RestoreConfigurationStateOwned:
  "obeys quiet (RestoreConfigurationStateOwned wall pid failedRevision owner fence)"
  unfolding RestoreConfigurationStateOwned_def
  by (intro obeys_intros quiet_statements quiet_updateCanonicalProjectionTx)

lemmas quiet_composites = quiet_applyMutation quiet_reclaimCandidate quiet_projectPort
  quiet_updateCanonicalProjectionTx quiet_MarkConfigurationGoodOwned
  quiet_RestoreConfigurationStateOwned

lemmas history_quiet [obeys_intros] =
  quiet_statements [THEN quiet_history] quiet_composites [THEN quiet_history]

lemmas lawful_quiet [obeys_intros] =
  quiet_statements [THEN quiet_lawful] quiet_composites [THEN quiet_lawful]

lemma history_AdmitConfiguration [obeys_intros]: "obeys historyGrows (AdmitConfiguration wall input)"
  unfolding AdmitConfiguration_def admitTx_def Let_def by (intro obeys_intros)

lemma lawful_AdmitConfiguration [obeys_intros]: "obeys lawful (AdmitConfiguration wall input)"
  unfolding AdmitConfiguration_def admitTx_def Let_def by (intro obeys_intros)

end
