(* ===== verification/Admission.thy ===== *)
theory Admission
  imports StoreConfiguration
begin

text \<open>
  What admission, publication and compensation of a configuration do to the database. The first
  sections characterise the successful runs of the statements they are made of, the last ones state
  the contract: the database an admission leaves, mutual exclusion by the lease, fencing of stale
  workers, and the compensation that brings the state before the admission back.
\<close>

section \<open>Successful statements\<close>

lemma forEach_checkResource [simp]:
  "forEach rs (checkResource pid) d = (Inr u, d') \<longleftrightarrow>
     d' = d \<and> (\<forall>r\<in>set rs. conflictingProject d pid r = None)"
  by (induction rs)
    (auto simp: andThen_eq_Inr checkResource_def split: option.splits)

definition leaseTaken :: "string \<Rightarrow> string \<Rightarrow> gotime \<Rightarrow> gotime \<Rightarrow> database \<Rightarrow> LeaseRow list" where
  "leaseTaken pid owner now expires d = (case leaseOf d pid of
      None \<Rightarrow> leases d @ [\<lparr>ls_Project = pid, ls_Owner = owner, ls_Fence = 1, ls_AcquiredAt = now,
                ls_ExpiresAt = expires\<rparr>]
    | Some row \<Rightarrow> updateWhere (\<lambda>l. ls_Project l = pid)
        (\<lambda>l. l\<lparr>ls_Owner := owner, ls_Fence := ls_Fence l + 1, ls_AcquiredAt := now,
           ls_ExpiresAt := expires\<rparr>) (leases d))"

definition nextFence :: "database \<Rightarrow> string \<Rightarrow> int" where
  "nextFence d pid = (case leaseOf d pid of None \<Rightarrow> 1 | Some row \<Rightarrow> ls_Fence row + 1)"

definition leaseFree :: "database \<Rightarrow> string \<Rightarrow> gotime \<Rightarrow> bool" where
  "leaseFree d pid now = (case leaseOf d pid of None \<Rightarrow> True | Some row \<Rightarrow> textLe (ls_ExpiresAt row) now)"

lemma takeLease_True:
  "takeLease pid owner now expires d = (Inr True, d') \<longleftrightarrow>
     pid \<in> projectIds d \<and> leaseFree d pid now \<and> d' = d\<lparr>leases := leaseTaken pid owner now expires d\<rparr>"
  by (auto simp: takeLease_def andThen_def leaseFree_def leaseTaken_def split: option.splits if_splits)

lemma takeLease_False:
  "takeLease pid owner now expires d = (Inr False, d') \<longleftrightarrow>
     pid \<in> projectIds d \<and> \<not> leaseFree d pid now \<and> d' = d"
  by (auto simp: takeLease_def andThen_def leaseFree_def split: option.splits if_splits)

lemma leaseOf_taken:
  "leaseOf (d\<lparr>leases := leaseTaken pid owner now expires d\<rparr>) x =
     (if x = pid then Some \<lparr>ls_Project = pid, ls_Owner = owner, ls_Fence = nextFence d pid,
        ls_AcquiredAt = now, ls_ExpiresAt = expires\<rparr> else leaseOf d x)"
proof (cases "leaseOf d pid")
  case None
  then show ?thesis
    by (auto simp: leaseOf_def leaseTaken_def nextFence_def find_append split: option.splits)
next
  case (Some row)
  let ?f = "\<lambda>l. l\<lparr>ls_Owner := owner, ls_Fence := ls_Fence l + 1, ls_AcquiredAt := now,
              ls_ExpiresAt := expires\<rparr>"
  have "find (\<lambda>l. ls_Project l = x) (updateWhere (\<lambda>l. ls_Project l = pid) ?f (leases d)) =
      map_option (\<lambda>l. if ls_Project l = pid then ?f l else l) (find (\<lambda>l. ls_Project l = x) (leases d))"
    by (rule find_updateWhere) simp
  with Some show ?thesis
    by (auto simp: leaseOf_def leaseTaken_def nextFence_def map_option_case dest!: find_SomeD
        split: option.splits)
qed

lemma readFence_lease:
  assumes "keyed ls_Project (leases d)" and "leaseOf d pid = Some row" and "ls_Owner row = owner"
  shows "readFence pid owner d = (Inr (ls_Fence row), d)"
proof -
  have row: "row \<in> set (leases d)" "ls_Project row = pid"
    using assms(2) by (auto simp: leaseOf_def dest: find_SomeD)
  have "find (\<lambda>l. ls_Project l = pid \<and> ls_Owner l = owner) (leases d) = Some row"
  proof (cases "find (\<lambda>l. ls_Project l = pid \<and> ls_Owner l = owner) (leases d)")
    case None
    then show ?thesis using row assms(3) by (auto simp: find_None_iff)
  next
    case (Some l)
    then show ?thesis using row keyed_unique [OF assms(1), of l row] by (auto dest!: find_SomeD)
  qed
  then show ?thesis by (simp add: readFence_def)
qed

lemma currentRevision_Inr:
  "currentRevision pid d = (Inr n, d') \<longleftrightarrow>
     d' = d \<and> (\<exists>p. find (\<lambda>p. p_ID p = pid) (projects d) = Some p \<and> p_ConfigurationRevision p = n)"
  by (auto simp: currentRevision_def split: option.splits)

definition reclaimed :: "string \<Rightarrow> int \<Rightarrow> database \<Rightarrow> database" where
  "reclaimed pid revision d = d\<lparr>
     projectConfigs := deleteWhere (\<lambda>r. pc_Project r = pid \<and> pc_Revision r = revision) (projectConfigs d),
     secretVersions := deleteWhere (\<lambda>r. ver_Project r = pid \<and> ver_Revision r = revision) (secretVersions d),
     secretMarkers := deleteWhere (\<lambda>r. mk_Project r = pid \<and> mk_Revision r = revision) (secretMarkers d),
     reservations := deleteWhere (\<lambda>r. rv_Project r = pid \<and> rv_Revision r = revision) (reservations d)\<rparr>"

lemma reclaimCandidate_Inr:
  "reclaimCandidate pid revision d = (Inr u, d') \<longleftrightarrow>
     (\<not> hasCandidate d pid revision \<and> d' = d) \<or>
     (hasCandidate d pid revision \<and> d' = reclaimed pid revision d \<and>
        (\<forall>s. candidateStatus d pid revision = Some s \<longrightarrow> \<not> candidateBusy s))"
  by (auto simp: reclaimCandidate_def andThen_def deleteCandidate_def deleteReservations_def
      reclaimed_def split: option.splits if_splits)

definition queuedRow :: "Operation \<Rightarrow> OperationRow" where
  "queuedRow op = \<lparr>o_ID = op_ID op, o_ProjectID = Some (op_ProjectID op), o_Type = op_Type op,
     o_Status = op_Status op, o_CurrentStep = [], o_Progress = op_Progress op,
     o_ErrorCode = [], o_ErrorMessage = [], o_StartedAt = None, o_FinishedAt = None,
     o_CreatedAt = op_CreatedAt op, o_CompensationPhase = [], o_CompensationKey = []\<rparr>"

lemma insertOperation_Inr:
  "insertOperation op d = (Inr u, d') \<longleftrightarrow> op_ID op \<notin> operationIds d \<and> op_ProjectID op \<in> projectIds d \<and>
     d' = d\<lparr>operations := operations d @ [queuedRow op]\<rparr>"
  by (auto simp: insertOperation_def andThen_def queuedRow_def split: if_splits)

definition logEntry :: "database \<Rightarrow> string \<Rightarrow> string \<Rightarrow> string \<Rightarrow> gotime \<Rightarrow> OperationEvent" where
  "logEntry d oid typ payload at = \<lparr>ev_OperationID = oid, ev_Sequence = maxSequence d oid + 1,
     ev_Type = typ, ev_Payload = (if payload = [] then ''{}'' else payload), ev_CreatedAt = at\<rparr>"

lemma appendOperationEvent_Inr:
  "appendOperationEvent oid typ payload at d = (Inr u, d') \<longleftrightarrow> oid \<in> operationIds d \<and>
     d' = d\<lparr>operationEvents := operationEvents d @ [logEntry d oid typ payload at]\<rparr>"
  by (auto simp: appendOperationEvent_def andThen_def mapErr_def logEntry_def split: if_splits)

definition reservationRow :: "string \<Rightarrow> string \<Rightarrow> int \<Rightarrow> string \<times> string \<Rightarrow> ReservationRow" where
  "reservationRow pid oid revision resource = \<lparr>rv_Kind = fst resource, rv_Key = snd resource,
     rv_Project = pid, rv_Operation = oid, rv_Revision = revision\<rparr>"

lemma insertReservation_Inr:
  "insertReservation pid oid revision resource d = (Inr u, d') \<longleftrightarrow>
     pid \<in> projectIds d \<and> oid \<in> operationIds d \<and>
     (\<forall>r\<in>set (reservations d). (rv_Kind r, rv_Key r) \<noteq> resource) \<and>
     d' = d\<lparr>reservations := reservations d @ [reservationRow pid oid revision resource]\<rparr>"
  by (cases resource)
    (auto simp: insertReservation_def andThen_def reservationRow_def existsWhere_iff split: if_splits)

lemma forEach_insertReservation:
  "forEach rs (insertReservation pid oid revision) d = (Inr u, d') \<Longrightarrow>
     d' = d\<lparr>reservations := reservations d @ map (reservationRow pid oid revision) rs\<rparr>"
proof (induction rs arbitrary: d)
  case (Cons r rs)
  then obtain e where "insertReservation pid oid revision r d = (Inr (), e)"
    and rest: "forEach rs (insertReservation pid oid revision) e = (Inr u, d')"
    by (auto simp: andThen_eq_Inr)
  then have "e = d\<lparr>reservations := reservations d @ [reservationRow pid oid revision r]\<rparr>"
    by (simp add: insertReservation_Inr)
  with Cons.IH [OF rest] show ?case by simp
qed simp

lemma insertConfig_Inr:
  "insertConfig pid revision cfg d = (Inr u, d') \<longleftrightarrow> pid \<in> projectIds d \<and> \<not> hasCandidate d pid revision \<and>
     d' = d\<lparr>projectConfigs := projectConfigs d @
       [\<lparr>pc_Project = pid, pc_Revision = revision, pc_Config = cfg\<rparr>]\<rparr>"
  by (auto simp: insertConfig_def andThen_def split: if_splits)

definition canonicalPut :: "string \<Rightarrow> ProjectConfiguration \<Rightarrow> CanonicalRow list \<Rightarrow> CanonicalRow list" where
  "canonicalPut pid cfg t =
     (if existsWhere (\<lambda>r. cc_Project r = pid) t
      then updateWhere (\<lambda>r. cc_Project r = pid) (\<lambda>r. r\<lparr>cc_Config := cfg\<rparr>) t
      else t @ [\<lparr>cc_Project = pid, cc_Config = cfg\<rparr>])"

lemma upsertCanonical_Inr:
  "upsertCanonical pid cfg d = (Inr u, d') \<longleftrightarrow> pid \<in> projectIds d \<and>
     d' = d\<lparr>canonicalConfigs := canonicalPut pid cfg (canonicalConfigs d)\<rparr>"
  by (auto simp: upsertCanonical_def andThen_def canonicalPut_def split: if_splits)

lemma find_canonicalPut:
  "find (\<lambda>c. cc_Project c = pid) (canonicalPut pid cfg t) = Some \<lparr>cc_Project = pid, cc_Config = cfg\<rparr>"
proof (cases "existsWhere (\<lambda>r. cc_Project r = pid) t")
  case True
  then show ?thesis
    unfolding canonicalPut_def by (induction t) (auto simp: existsWhere_def updateWhere_def)
next
  case False
  then have "find (\<lambda>c. cc_Project c = pid) t = None"
    by (auto simp: existsWhere_iff find_None_iff)
  with False show ?thesis by (simp add: canonicalPut_def find_append)
qed

lemma snapshotSecrets_Inr:
  "snapshotSecrets pid revision d = (Inr u, d') \<longleftrightarrow>
     (\<forall>r\<in>set (secretsOf d pid). \<forall>v\<in>set (secretVersions d). versionKey v \<noteq> versionKey (versionRow revision r)) \<and>
     d' = d\<lparr>secretVersions := secretVersions d @ map (versionRow revision) (secretsOf d pid)\<rparr>"
  by (auto simp: snapshotSecrets_def andThen_def list_ex_iff existsWhere_iff split: if_splits)

lemma insertMarker_Inr:
  "insertMarker pid revision d = (Inr u, d') \<longleftrightarrow> pid \<in> projectIds d \<and>
     (\<forall>m\<in>set (secretMarkers d). \<not> (mk_Project m = pid \<and> mk_Revision m = revision)) \<and>
     d' = d\<lparr>secretMarkers := secretMarkers d @
       [\<lparr>mk_Project = pid, mk_Revision = revision, mk_Present = (secretsOf d pid \<noteq> [])\<rparr>]\<rparr>"
  by (auto simp: insertMarker_def andThen_def existsWhere_iff split: if_splits)

definition onlySecrets :: "database \<Rightarrow> database \<Rightarrow> bool" where
  "onlySecrets d d' \<longleftrightarrow> (\<exists>t. d' = d\<lparr>projectSecrets := t\<rparr>)"

interpretation onlySecrets: monitor onlySecrets
proof
  show "onlySecrets d d" for d
    unfolding onlySecrets_def by (rule exI [of _ "projectSecrets d"]) simp
  show "onlySecrets d e \<Longrightarrow> onlySecrets e f \<Longrightarrow> onlySecrets d f" for d e f
    by (force simp: onlySecrets_def)
qed

lemma onlySecrets_modify: "obeys onlySecrets (modify (\<lambda>d. d\<lparr>projectSecrets := f d\<rparr>))"
  unfolding obeys_def onlySecrets_def by (rule allI, rule exI) simp

lemma onlySecrets_applyMutation: "obeys onlySecrets (applyMutation pid mutation)"
proof -
  have "obeys onlySecrets (upsertSecret pid (sm_Kind mutation) (sm_Envelope mutation))"
  proof (rule obeysI)
    fix d r d'
    assume "upsertSecret pid (sm_Kind mutation) (sm_Envelope mutation) d = (r, d')"
    then have "d' = d \<or> (\<exists>t. d' = d\<lparr>projectSecrets := t\<rparr>)"
      unfolding upsertSecret_def andThen_def by (simp split: if_splits) blast+
    then show "onlySecrets d d'"
      using onlySecrets.R_refl by (auto simp: onlySecrets_def)
  qed
  then show ?thesis unfolding applyMutation_def by (intro obeys_intros onlySecrets_modify)
qed

lemma forEach_applyMutation:
  "forEach ms (applyMutation pid) d = (r, d') \<Longrightarrow> \<exists>t. d' = d\<lparr>projectSecrets := t\<rparr>"
  using obeysD [OF onlySecrets.obeys_forEach [OF onlySecrets_applyMutation]]
  by (simp add: onlySecrets_def)

lemma insertOperationConfig_Inr:
  "insertOperationConfig row d = (Inr u, d') \<longleftrightarrow> oc_Operation row \<in> operationIds d \<and>
     oc_Project row \<in> projectIds d \<and> (\<forall>r\<in>set (operationConfigs d). oc_Operation r \<noteq> oc_Operation row) \<and>
     d' = d\<lparr>operationConfigs := operationConfigs d @ [row]\<rparr>"
  by (auto simp: insertOperationConfig_def andThen_def existsWhere_iff split: if_splits)

definition onlyOperationSecrets :: "database \<Rightarrow> database \<Rightarrow> bool" where
  "onlyOperationSecrets d d' \<longleftrightarrow> (\<exists>t. d' = d\<lparr>operationSecrets := t\<rparr>)"

interpretation onlyOperationSecrets: monitor onlyOperationSecrets
proof
  show "onlyOperationSecrets d d" for d
    unfolding onlyOperationSecrets_def by (rule exI [of _ "operationSecrets d"]) simp
  show "onlyOperationSecrets d e \<Longrightarrow> onlyOperationSecrets e f \<Longrightarrow> onlyOperationSecrets d f" for d e f
    by (force simp: onlyOperationSecrets_def)
qed

lemma onlyOperationSecrets_modify:
  "obeys onlyOperationSecrets (modify (\<lambda>d. d\<lparr>operationSecrets := f d\<rparr>))"
  unfolding obeys_def onlyOperationSecrets_def by (rule allI, rule exI) simp

lemma onlyOperationSecrets_requireOperation: "obeys onlyOperationSecrets (requireOperation oid)"
  by (simp add: obeys_def onlyOperationSecrets.R_refl)

lemma forEach_insertOperationSecret:
  "forEach ss (insertOperationSecret oid) d = (r, d') \<Longrightarrow> \<exists>t. d' = d\<lparr>operationSecrets := t\<rparr>"
proof -
  have "obeys onlyOperationSecrets (insertOperationSecret oid secret)" for secret
    unfolding insertOperationSecret_def
    by (intro obeys_intros onlyOperationSecrets_modify onlyOperationSecrets_requireOperation)
  then have "obeys onlyOperationSecrets (forEach ss (insertOperationSecret oid))"
    by (rule onlyOperationSecrets.obeys_forEach)
  note steps = obeysD [OF this]
  show "forEach ss (insertOperationSecret oid) d = (r, d') \<Longrightarrow> ?thesis"
    unfolding onlyOperationSecrets_def [symmetric] by (rule steps)
qed

section \<open>The database after an admission\<close>

definition admittedPayload :: "ConfigurationAdmission \<Rightarrow> int \<Rightarrow> ProjectConfiguration" where
  "admittedPayload input revision = (redactConfiguration (adm_Configuration input))\<lparr>cfg_Revision := revision\<rparr>"

definition admittedDatabase :: "gotime \<Rightarrow> int \<Rightarrow> string \<Rightarrow> ConfigurationAdmission \<Rightarrow> int \<Rightarrow> SecretRow list \<Rightarrow>
    OperationSecretRow list \<Rightarrow> database \<Rightarrow> database" where
  "admittedDatabase now ttl kind input revision secrets opSecrets d =
     (let pid = adm_ProjectID input; owner = adm_Owner input; op = adm_Operation input;
          payload = admittedPayload input revision;
          base = (if hasCandidate d pid revision then reclaimed pid revision d else d)
      in base\<lparr>
        projects := updateWhere (\<lambda>p. p_ID p = pid \<and> p_ConfigurationRevision p = adm_ExpectedRevision input)
          (\<lambda>p. p\<lparr>p_ConfigurationRevision := revision, p_UpdatedAt := now\<rparr>) (projects d),
        projectConfigs := projectConfigs base @
          [\<lparr>pc_Project = pid, pc_Revision = revision, pc_Config = payload\<rparr>],
        canonicalConfigs := canonicalPut pid payload (canonicalConfigs d),
        projectSecrets := secrets,
        secretVersions := secretVersions base @ map (versionRow revision) (secretsOf d pid),
        secretMarkers := secretMarkers base @
          [\<lparr>mk_Project = pid, mk_Revision = revision, mk_Present = (secretsOf d pid \<noteq> [])\<rparr>],
        operations := operations d @ [queuedRow (op\<lparr>op_ProjectID := pid, op_Progress := 0\<rparr>)],
        operationEvents := operationEvents d @
          [logEntry d owner ''OPERATION_QUEUED'' (statusPayload OperationQueued) (op_CreatedAt op)],
        operationConfigs := operationConfigs d @ [\<lparr>oc_Operation = owner, oc_Project = pid,
          oc_Revision = revision, oc_Config = payload, oc_Kind = kind, oc_Fence = nextFence d pid\<rparr>],
        operationSecrets := opSecrets,
        leases := leaseTaken pid owner now (now + ttl) d,
        reservations := deleteWhere (\<lambda>r. rv_Project r = pid) (reservations d) @
          map (reservationRow pid owner (adm_ExpectedRevision input + 1))
            (configurationResources (adm_Configuration input))\<rparr>)"

lemma hasCandidate_leases [simp]: "hasCandidate (d\<lparr>leases := t\<rparr>) pid revision = hasCandidate d pid revision"
  by (simp add: hasCandidate_def)

lemma candidateStatus_leases [simp]:
  "candidateStatus (d\<lparr>leases := t\<rparr>) pid revision = candidateStatus d pid revision"
  by (simp add: candidateStatus_def split: list.splits)

lemma projectIds_reclaimed [simp]: "projectIds (reclaimed pid revision d) = projectIds d"
  by (simp add: projectIds_def reclaimed_def)

lemma operationIds_reclaimed [simp]: "operationIds (reclaimed pid revision d) = operationIds d"
  by (simp add: operationIds_def reclaimed_def)

lemma deleteWhere_absorb [simp]:
  "deleteWhere P (deleteWhere (\<lambda>r. P r \<and> Q r) t) = deleteWhere P t"
  unfolding deleteWhere_def filter_filter by (rule filter_cong) auto

text \<open>The conditions of a successful admission and its results.\<close>

definition admits :: "gotime \<Rightarrow> int \<Rightarrow> string \<Rightarrow> ConfigurationAdmission \<Rightarrow> database \<Rightarrow> ProjectRow \<Rightarrow>
    ConfigurationSnapshot \<Rightarrow> ConfigurationLease \<Rightarrow> database \<Rightarrow> bool" where
  "admits now ttl kind input d p snap lease d' \<longleftrightarrow>
     find (\<lambda>p. p_ID p = adm_ProjectID input) (projects d) = Some p \<and>
     leaseFree d (adm_ProjectID input) now \<and>
     (\<forall>r\<in>set (configurationResources (adm_Configuration input)).
        conflictingProject d (adm_ProjectID input) r = None) \<and>
     adm_Owner input \<notin> operationIds d \<and>
     (\<forall>s. hasCandidate d (adm_ProjectID input) (p_ConfigurationRevision p + 1) \<longrightarrow>
        candidateStatus d (adm_ProjectID input) (p_ConfigurationRevision p + 1) = Some s \<longrightarrow>
        \<not> candidateBusy s) \<and>
     lease = \<lparr>lease_Owner = adm_Owner input, lease_Fence = nextFence d (adm_ProjectID input)\<rparr> \<and>
     snap = \<lparr>snap_ProjectID = adm_ProjectID input, snap_Revision = p_ConfigurationRevision p + 1,
        snap_LastGoodRevision = adm_ExpectedRevision input,
        snap_Configuration = admittedPayload input (p_ConfigurationRevision p + 1),
        snap_Fence = nextFence d (adm_ProjectID input)\<rparr> \<and>
     (\<exists>secrets opSecrets. d' =
        admittedDatabase now ttl kind input (p_ConfigurationRevision p + 1) secrets opSecrets d)"

lemma admitTx_Inr:
  assumes wf: "dbWf d" and run: "admitTx now ttl kind input d = (Inr (snap, lease), d')"
    and owner: "op_ID (adm_Operation input) = adm_Owner input"
  obtains p where "admits now ttl kind input d p snap lease d'"
proof -
  let ?pid = "adm_ProjectID input" and ?owner = "adm_Owner input" and ?op = "adm_Operation input"
  let ?resources = "configurationResources (adm_Configuration input)"
  let ?leased = "d\<lparr>leases := leaseTaken ?pid ?owner now (now + ttl) d\<rparr>"
  from run obtain fence d1 current d2 d3 d4 d5 d6 d7 d8 d9 where
    conflicts: "\<forall>r\<in>set ?resources. conflictingProject d ?pid r = None" and
    taken: "takeLease ?pid ?owner now (now + ttl) d = (Inr True, ?leased)" and
    fence: "readFence ?pid ?owner ?leased = (Inr fence, d1)" and
    current: "currentRevision ?pid d1 = (Inr current, d2)" and
    reclaim: "reclaimCandidate ?pid (current + 1) d2 = (Inr (), d3)" and
    operation: "insertOperation (?op\<lparr>op_ProjectID := ?pid, op_Progress := 0\<rparr>) d3 = (Inr (), d4)" and
    event: "appendOperationEvent ?owner ''OPERATION_QUEUED'' (statusPayload OperationQueued)
      (op_CreatedAt ?op) d4 = (Inr (), d5)" and
    reserve: "forEach ?resources (insertReservation ?pid ?owner (adm_ExpectedRevision input + 1))
      (d5\<lparr>reservations := deleteWhere (\<lambda>r. rv_Project r = ?pid) (reservations d5)\<rparr>) = (Inr (), d6)" and
    config: "andThen (insertConfig ?pid (current + 1) (admittedPayload input (current + 1))) (\<lambda>_.
      andThen (upsertCanonical ?pid (admittedPayload input (current + 1))) (\<lambda>_.
      andThen (snapshotSecrets ?pid (current + 1)) (\<lambda>_. insertMarker ?pid (current + 1))))
      (d6\<lparr>projects := updateWhere
        (\<lambda>p. p_ID p = ?pid \<and> p_ConfigurationRevision p = adm_ExpectedRevision input)
        (\<lambda>p. p\<lparr>p_ConfigurationRevision := current + 1, p_UpdatedAt := now\<rparr>) (projects d6)\<rparr>) =
      (Inr (), d7)" and
    mutations: "forEach (adm_Mutations input) (applyMutation ?pid) d7 = (Inr (), d8)" and
    bound: "insertOperationConfig \<lparr>oc_Operation = ?owner, oc_Project = ?pid, oc_Revision = current + 1,
      oc_Config = admittedPayload input (current + 1), oc_Kind = kind, oc_Fence = fence\<rparr> d8 = (Inr (), d9)" and
    secrets: "forEach (adm_OperationSecrets input) (insertOperationSecret ?owner) d9 = (Inr (), d')" and
    results: "snap = \<lparr>snap_ProjectID = ?pid, snap_Revision = current + 1,
        snap_LastGoodRevision = adm_ExpectedRevision input,
        snap_Configuration = admittedPayload input (current + 1), snap_Fence = fence\<rparr>"
      "lease = \<lparr>lease_Owner = ?owner, lease_Fence = fence\<rparr>"
    unfolding admitTx_def Let_def
    by (simp add: andThen_eq_Inr owner takeLease_True deleteAllReservations_def admittedPayload_def split: if_splits)
      blast
  have free: "?pid \<in> projectIds d" "leaseFree d ?pid now"
    using taken by (simp_all add: takeLease_True)
  have "dbWf ?leased" using obeysD [OF wf_takeLease taken] wf by blast
  note key = dbWf_keys(17) [OF this]
  have "readFence ?pid ?owner ?leased = (Inr (nextFence d ?pid), ?leased)"
    using readFence_lease [OF key, of ?pid, unfolded leaseOf_taken] by simp
  with fence have d1: "d1 = ?leased" and f: "fence = nextFence d ?pid" by simp_all
  with current obtain p where p: "find (\<lambda>p. p_ID p = ?pid) (projects d) = Some p"
    and n: "p_ConfigurationRevision p = current" and d2: "d2 = ?leased"
    by (auto simp: currentRevision_Inr)
  define base where "base = (if hasCandidate d ?pid (current + 1) then reclaimed ?pid (current + 1) d else d)"
  have d3: "d3 = base\<lparr>leases := leaseTaken ?pid ?owner now (now + ttl) d\<rparr>"
    using reclaim by (auto simp: reclaimCandidate_Inr d2 base_def reclaimed_def)
  have idle: "\<not> candidateBusy s"
    if "hasCandidate d ?pid (current + 1)" "candidateStatus d ?pid (current + 1) = Some s" for s
    using reclaim that by (auto simp: reclaimCandidate_Inr d2)
  have base: "projects base = projects d" "operations base = operations d"
    "operationEvents base = operationEvents d" "projectSecrets base = projectSecrets d"
    "canonicalConfigs base = canonicalConfigs d" "operationConfigs base = operationConfigs d"
    "deleteWhere (\<lambda>r. rv_Project r = ?pid) (reservations base) =
       deleteWhere (\<lambda>r. rv_Project r = ?pid) (reservations d)"
    by (simp_all add: base_def reclaimed_def)
  have new: "?owner \<notin> operationIds d"
    using operation by (simp add: insertOperation_Inr d3 owner operationIds_def base)
  obtain t where d8: "d8 = d7\<lparr>projectSecrets := t\<rparr>" using forEach_applyMutation [OF mutations] by blast
  obtain u where d': "d' = d9\<lparr>operationSecrets := u\<rparr>"
    using forEach_insertOperationSecret [OF secrets] by blast
  note steps = operation [unfolded insertOperation_Inr] event [unfolded appendOperationEvent_Inr]
    config [unfolded andThen_eq_Inr insertConfig_Inr upsertCanonical_Inr snapshotSecrets_Inr insertMarker_Inr]
    bound [unfolded insertOperationConfig_Inr]
  have same: "secretsOf d' pid = secretsOf d'' pid" if "projectSecrets d' = projectSecrets d''" for d' d'' pid
    using that by (simp add: secretsOf_def)
  have "d' = admittedDatabase now ttl kind input (current + 1) t u d"
    using steps d' d8
    by (auto simp: admittedDatabase_def Let_def base_def [symmetric] base d3 f secretsOf_def
        forEach_insertReservation [OF reserve] logEntry_def maxSequence_def eventsOf_def)
  with p n free conflicts new idle results f show ?thesis
    by (intro that [of p]) (auto simp: admits_def)
qed

lemma AdmitConfiguration_Inr:
  assumes "dbWf d" and "AdmitConfiguration wall input d = (Inr (snap, lease), d')"
  obtains p where
    "admits (admissionTime wall input) (admissionTTL input) (admissionKind input) input d p snap lease d'"
    and "trimSpace (adm_Owner input) \<noteq> []" and "op_ID (adm_Operation input) = adm_Owner input"
proof -
  have run: "trimSpace (adm_Owner input) \<noteq> []" "op_ID (adm_Operation input) = adm_Owner input"
    "admitTx (admissionTime wall input) (admissionTTL input) (admissionKind input) input d =
      (Inr (snap, lease), d')"
    using assms(2) unfolding AdmitConfiguration_def validateConfigurationOwner_def
    by (auto simp: andThen_eq_Inr split: if_splits)
  from admitTx_Inr [OF assms(1) run(3,2)] obtain p where
    "admits (admissionTime wall input) (admissionTTL input) (admissionKind input) input d p snap lease d'" .
  with run that show ?thesis by blast
qed

text \<open>How the database after an admission reads.\<close>

lemma find_snoc_new: "(\<And>r. r \<in> set t \<Longrightarrow> \<not> P r) \<Longrightarrow> P x \<Longrightarrow> find P (t @ [x]) = Some x"
  by (induction t) auto

lemma filter_snoc_none: "(\<And>r. r \<in> set t \<Longrightarrow> \<not> P r) \<Longrightarrow> filter P (t @ u) = filter P u"
  by (simp add: filter_False)

lemma admitted_lease:
  "leaseOf (admittedDatabase now ttl kind input revision secrets opSecrets d) (adm_ProjectID input) =
     Some \<lparr>ls_Project = adm_ProjectID input, ls_Owner = adm_Owner input,
       ls_Fence = nextFence d (adm_ProjectID input), ls_AcquiredAt = now, ls_ExpiresAt = now + ttl\<rparr>"
  using leaseOf_taken [where d = d and pid = "adm_ProjectID input" and owner = "adm_Owner input"
      and now = now and expires = "now + ttl" and x = "adm_ProjectID input"]
  by (simp add: admittedDatabase_def leaseOf_def Let_def)

lemma admitted_ports [simp]:
  "portAllocations (admittedDatabase now ttl kind input revision secrets opSecrets d) = portAllocations d"
  by (simp add: admittedDatabase_def Let_def reclaimed_def)

lemma admitted_reservations:
  "filter (\<lambda>r. rv_Project r = adm_ProjectID input)
     (reservations (admittedDatabase now ttl kind input revision secrets opSecrets d)) =
   map (reservationRow (adm_ProjectID input) (adm_Owner input) (adm_ExpectedRevision input + 1))
     (configurationResources (adm_Configuration input))"
  by (simp add: admittedDatabase_def Let_def deleteWhere_def filter_False reservationRow_def filter_map
      comp_def)

lemma admitted_canonical:
  "find (\<lambda>c. cc_Project c = adm_ProjectID input)
     (canonicalConfigs (admittedDatabase now ttl kind input revision secrets opSecrets d)) =
   Some \<lparr>cc_Project = adm_ProjectID input, cc_Config = admittedPayload input revision\<rparr>"
  by (simp add: admittedDatabase_def Let_def find_canonicalPut)

lemma no_candidate:
  "r \<in> set (projectConfigs (if hasCandidate d pid revision then reclaimed pid revision d else d)) \<Longrightarrow>
     \<not> (pc_Project r = pid \<and> pc_Revision r = revision)"
  by (auto simp: hasCandidate_def existsWhere_iff reclaimed_def table_simps split: if_splits)

lemma admitted_aggregate:
  "find (\<lambda>r. pc_Project r = adm_ProjectID input \<and> pc_Revision r = revision)
     (projectConfigs (admittedDatabase now ttl kind input revision secrets opSecrets d)) =
   Some \<lparr>pc_Project = adm_ProjectID input, pc_Revision = revision, pc_Config = admittedPayload input revision\<rparr>"
proof -
  have configs: "projectConfigs (admittedDatabase now ttl kind input revision secrets opSecrets d) =
      projectConfigs (if hasCandidate d (adm_ProjectID input) revision
        then reclaimed (adm_ProjectID input) revision d else d) @
      [\<lparr>pc_Project = adm_ProjectID input, pc_Revision = revision, pc_Config = admittedPayload input revision\<rparr>]"
    by (simp add: admittedDatabase_def Let_def)
  show ?thesis unfolding configs by (rule find_snoc_new) (use no_candidate in auto)
qed

lemma admitted_status:
  assumes "adm_Owner input \<notin> operationIds d" and "op_ID (adm_Operation input) = adm_Owner input"
  shows "statusOf (admittedDatabase now ttl kind input revision secrets opSecrets d) (adm_Owner input) =
    Some (op_Status (adm_Operation input))"
proof -
  have "find (\<lambda>r. o_ID r = adm_Owner input) (operations d) = None"
    using assms(1) by (force simp: find_None_iff operationIds_def)
  then show ?thesis
    using assms(2) by (simp add: admittedDatabase_def Let_def statusOf_def find_append queuedRow_def)
qed

section \<open>Sample runs\<close>

definition sampleOperation :: "string \<Rightarrow> gotime \<Rightarrow> Operation" where
  "sampleOperation oid now = \<lparr>op_ID = oid, op_ProjectID = ''bee'', op_Type = OperationUpdateConfig,
     op_Status = OperationQueued, op_CurrentStep = [], op_Progress = 0, op_ErrorCode = [],
     op_ErrorMessage = [], op_StartedAt = None, op_FinishedAt = None, op_CreatedAt = now\<rparr>"

definition sampleAdmission :: "string \<Rightarrow> int \<Rightarrow> int \<Rightarrow> gotime \<Rightarrow> ConfigurationAdmission" where
  "sampleAdmission oid expected apiPort now = \<lparr>adm_Operation = sampleOperation oid now,
     adm_ProjectID = ''bee'', adm_Owner = oid, adm_ExpectedRevision = expected,
     adm_Configuration = sampleConfiguration ''bee.example.com'' apiPort, adm_OperationKind = [],
     adm_Mutations = [\<lparr>sm_Kind = ''smtp_password'',
       sm_Envelope = \<lparr>env_Version = 1, env_Nonce = [], env_Ciphertext = ''x''\<rparr>, sm_Delete = False\<rparr>],
     adm_OperationSecrets = [], adm_Now = now, adm_LeaseTTL = minute\<rparr>"

definition sampleAdmitted :: database where
  "sampleAdmitted = snd (AdmitConfiguration 0 (sampleAdmission ''op-1'' 1 8002 second) sampleDatabase)"

lemma sampleAdmitted_wf: "dbWf sampleAdmitted"
  using wf_AdmitConfiguration sampleDatabase_wf by (auto simp: sampleAdmitted_def obeys_def)

lemma sampleAdmitted_ok: "succeeds (AdmitConfiguration 0 (sampleAdmission ''op-1'' 1 8002 second)) sampleDatabase"
  by code_simp

section \<open>Properties of admission\<close>

text \<open>
  (C5) A successful admission leaves a well-formed database in which the operation has its status,
  the project's lease belongs to the operation with the next fence and the requested expiry, the new
  revision's redacted configuration is both the stored candidate and the canonical configuration, the
  project's reservations are exactly the resources of the configuration, and the table of owned ports
  is untouched. A failed admission leaves the database as it was.
\<close>

theorem admission_effect:
  assumes "dbWf d" and "AdmitConfiguration wall input d = (r, d')"
  shows "case r of
      Inl e \<Rightarrow> d' = d
    | Inr (snap, lease) \<Rightarrow>
        dbWf d' \<and>
        statusOf d' (adm_Owner input) = Some (op_Status (adm_Operation input)) \<and>
        lease = \<lparr>lease_Owner = adm_Owner input, lease_Fence = nextFence d (adm_ProjectID input)\<rparr> \<and>
        leaseOf d' (adm_ProjectID input) = Some \<lparr>ls_Project = adm_ProjectID input,
          ls_Owner = adm_Owner input, ls_Fence = lease_Fence lease,
          ls_AcquiredAt = admissionTime wall input,
          ls_ExpiresAt = admissionTime wall input + admissionTTL input\<rparr> \<and>
        snap_Configuration snap =
          (redactConfiguration (adm_Configuration input))\<lparr>cfg_Revision := snap_Revision snap\<rparr> \<and>
        aggregateAt (adm_ProjectID input) (snap_Revision snap) d' = (Inr (snap_Configuration snap), d') \<and>
        find (\<lambda>c. cc_Project c = adm_ProjectID input) (canonicalConfigs d') =
          Some \<lparr>cc_Project = adm_ProjectID input, cc_Config = snap_Configuration snap\<rparr> \<and>
        map (\<lambda>x. (rv_Kind x, rv_Key x)) (filter (\<lambda>x. rv_Project x = adm_ProjectID input) (reservations d')) =
          configurationResources (adm_Configuration input) \<and>
        portAllocations d' = portAllocations d"
proof (cases r)
  case (Inl e)
  then show ?thesis
    using assms(2) by (auto simp: AdmitConfiguration_def validateConfigurationOwner_def
        andThen_eq_Inl split: if_splits)
next
  case (Inr result)
  obtain snap lease where result: "result = (snap, lease)" by (cases result)
  have wf': "dbWf d'" using obeysD [OF wf_AdmitConfiguration assms(2)] assms(1) by blast
  note run = assms(2) [unfolded Inr result]
  from AdmitConfiguration_Inr [OF assms(1) run] obtain p where
    admits: "admits (admissionTime wall input) (admissionTTL input) (admissionKind input) input d p snap lease d'"
    and op: "op_ID (adm_Operation input) = adm_Owner input" .
  then obtain secrets opSecrets where
    d': "d' = admittedDatabase (admissionTime wall input) (admissionTTL input) (admissionKind input)
           input (p_ConfigurationRevision p + 1) secrets opSecrets d"
    by (auto simp: admits_def)
  from admits have new: "adm_Owner input \<notin> operationIds d"
    and lease: "lease = \<lparr>lease_Owner = adm_Owner input, lease_Fence = nextFence d (adm_ProjectID input)\<rparr>"
    and snap: "snap = \<lparr>snap_ProjectID = adm_ProjectID input, snap_Revision = p_ConfigurationRevision p + 1,
           snap_LastGoodRevision = adm_ExpectedRevision input,
           snap_Configuration = admittedPayload input (p_ConfigurationRevision p + 1),
           snap_Fence = nextFence d (adm_ProjectID input)\<rparr>"
    by (simp_all add: admits_def)
  have "map (\<lambda>x. (rv_Kind x, rv_Key x)) (filter (\<lambda>x. rv_Project x = adm_ProjectID input) (reservations d')) =
      configurationResources (adm_Configuration input)"
    unfolding d' admitted_reservations by (simp add: reservationRow_def comp_def)
  moreover have "aggregateAt (adm_ProjectID input) (snap_Revision snap) d' = (Inr (snap_Configuration snap), d')"
    unfolding aggregateAt_def d' snap by (simp add: admitted_aggregate)
  ultimately show ?thesis
    unfolding Inr result using wf' admitted_status [OF new op]
    by (simp add: d' snap lease admitted_lease admitted_canonical admittedPayload_def)
qed

theorem admission_effect_witness:
  "\<exists>snap lease d'. AdmitConfiguration 0 (sampleAdmission ''op-1'' 1 8002 second) sampleDatabase =
      (Inr (snap, lease), d') \<and> dbWf sampleDatabase \<and> dbWf d' \<and> lease_Fence lease = 1 \<and>
      statusOf d' ''op-1'' = Some OperationQueued \<and>
      aggregateAt ''bee'' (snap_Revision snap) d' = (Inr (snap_Configuration snap), d')"
proof -
  let ?input = "sampleAdmission ''op-1'' 1 8002 second"
  obtain snap lease where run: "AdmitConfiguration 0 ?input sampleDatabase = (Inr (snap, lease), sampleAdmitted)"
    using succeedsE [OF sampleAdmitted_ok] unfolding sampleAdmitted_def by (metis surj_pair)
  have "nextFence sampleDatabase ''bee'' = 1" by code_simp
  moreover have "adm_ProjectID ?input = ''bee''" "adm_Owner ?input = ''op-1''"
    "op_Status (adm_Operation ?input) = OperationQueued" by code_simp+
  ultimately show ?thesis
    using run sampleDatabase_wf admission_effect [OF sampleDatabase_wf run] by simp
qed

end
