(* ===== verification/Publication.thy ===== *)
theory Publication
  imports Admission
begin

text \<open>
  Who may publish or compensate an admitted configuration, and what publication and compensation
  leave behind: an unexpired lease excludes every other admission, a worker whose lease was taken
  over cannot change anything, publication makes the candidate's ports and domain the project's own,
  and compensation brings the secrets, the revision and the projections of the last good revision
  back.
\<close>

lemma validateConfigurationOwner_Inr [simp]:
  "validateConfigurationOwner owner fence d = (Inr u, t) \<longleftrightarrow> t = d \<and> trimSpace owner \<noteq> [] \<and> 0 < fence"
  by (auto simp: validateConfigurationOwner_def)

lemma validated_tx_Inl:
  "andThen (validateConfigurationOwner owner fence) (\<lambda>_. inTx m) d = (Inl e, d') \<Longrightarrow> d' = d"
  by (auto simp: andThen_eq_Inl validateConfigurationOwner_def dest!: inTx_Inl simp del: inTx_eq_Inl
      split: if_splits)

section \<open>Fencing\<close>

definition holdsLease :: "database \<Rightarrow> string \<Rightarrow> string \<Rightarrow> int \<Rightarrow> bool" where
  "holdsLease d pid owner fence \<longleftrightarrow>
     (\<exists>row. leaseOf d pid = Some row \<and> ls_Owner row = owner \<and> ls_Fence row = fence)"

lemma requireFence_refuses:
  "\<not> holdsLease d pid owner fence \<Longrightarrow> \<exists>e. requireFence pid revision owner fence d = (Inl e, d)"
  by (cases "leaseOf d pid") (auto simp: holdsLease_def requireFence_def)

lemma no_owned_row:
  assumes "dbWf d" and "\<not> holdsLease d pid owner fence" and "l \<in> set (leases d)"
  shows "\<not> (ls_Project l = pid \<and> ls_Owner l = owner \<and> ls_Fence l = fence)"
proof
  assume l: "ls_Project l = pid \<and> ls_Owner l = owner \<and> ls_Fence l = fence"
  then have "leaseOf d pid = Some l"
    using find_keyed [OF dbWf_keys(17) [OF assms(1)] assms(3)] by (simp add: leaseOf_def)
  with l assms(2) show False by (simp add: holdsLease_def)
qed

lemma MarkConfigurationGoodOwned_fenced:
  assumes "\<not> holdsLease d pid owner fence"
  shows "\<exists>e. MarkConfigurationGoodOwned wall pid revision owner fence phase d = (Inl e, d)"
proof (cases "MarkConfigurationGoodOwned wall pid revision owner fence phase d")
  case (Pair r d')
  obtain e where refused: "requireFence pid revision owner fence d = (Inl e, d)"
    using requireFence_refuses [OF assms] by blast
  have "\<not> (\<exists>x. r = Inr x)"
    using Pair refused
    by (auto simp: MarkConfigurationGoodOwned_def andThen_eq_Inr projectRevisions_def
        validateConfigurationOwner_def split: if_splits option.splits)
  then obtain e where r: "r = Inl e" by (cases r) auto
  have "d' = d"
    using Pair unfolding r MarkConfigurationGoodOwned_def validateConfigurationOwner_def
    by (auto simp: andThen_eq_Inl split: if_splits)
  with Pair r show ?thesis by blast
qed

lemma RestoreConfigurationStateOwned_fenced:
  assumes "\<not> holdsLease d pid owner fence"
  shows "snd (RestoreConfigurationStateOwned wall pid revision owner fence d) = d"
proof (cases "RestoreConfigurationStateOwned wall pid revision owner fence d")
  case (Pair r d')
  obtain e where refused: "requireFence pid revision owner fence d = (Inl e, d)"
    using requireFence_refuses [OF assms] by blast
  have "d' = d"
  proof (cases r)
    case (Inl e)
    with Pair show ?thesis
      unfolding RestoreConfigurationStateOwned_def by (auto dest: validated_tx_Inl)
  next
    case (Inr u)
    with Pair refused show ?thesis
      by (cases "find (\<lambda>p. p_ID p = pid) (projects d)")
        (auto simp: RestoreConfigurationStateOwned_def andThen_eq_Inr [of "validateConfigurationOwner owner fence"]
          projectRevisions_def split: if_splits)
  qed
  with Pair show ?thesis by simp
qed

lemma lease_calls_fenced:
  assumes "dbWf d" and "\<not> holdsLease d pid owner fence"
  shows "snd (RenewConfigurationLease pid owner fence now ttl d) = d"
    and "fst (RenewConfigurationLease pid owner fence now ttl d) \<noteq> Inr True"
    and "snd (ReleaseConfigurationLeaseOwned pid owner fence d) = d"
    and "fst (OwnsConfigurationLease pid owner fence now d) \<noteq> Inr True"
proof -
  note none = no_owned_row [OF assms]
  have updated: "updateWhere (\<lambda>l. ls_Project l = pid \<and> ls_Owner l = owner \<and> ls_Fence l = fence) f (leases d) = leases d" for f
    unfolding updateWhere_def by (rule map_idI) (use none in auto)
  have deleted: "deleteWhere (\<lambda>l. ls_Project l = pid \<and> ls_Owner l = owner \<and> ls_Fence l = fence) (leases d) = leases d"
    unfolding deleteWhere_def by (rule filter_True) (use none in auto)
  have count: "countWhere (\<lambda>l. ls_Project l = pid \<and> ls_Owner l = owner \<and> ls_Fence l = fence \<and> Q l) (leases d) = 0" for Q
    unfolding countWhere_def using none by (auto simp: filter_empty_conv)
  from count [of "\<lambda>_. True"]
  have count': "countWhere (\<lambda>l. ls_Project l = pid \<and> ls_Owner l = owner \<and> ls_Fence l = fence) (leases d) = 0"
    by simp
  show "snd (RenewConfigurationLease pid owner fence now ttl d) = d"
    and "fst (RenewConfigurationLease pid owner fence now ttl d) \<noteq> Inr True"
    by (auto simp: RenewConfigurationLease_def validateConfigurationOwner_def andThen_def Let_def updated count')
  show "snd (ReleaseConfigurationLeaseOwned pid owner fence d) = d"
    by (auto simp: ReleaseConfigurationLeaseOwned_def validateConfigurationOwner_def andThen_def deleted)
  show "fst (OwnsConfigurationLease pid owner fence now d) \<noteq> Inr True"
    using count [of "\<lambda>l. \<not> textLe (ls_ExpiresAt l) now"]
    by (auto simp: OwnsConfigurationLease_def validateConfigurationOwner_def andThen_def)
qed

section \<open>Acquiring a lease\<close>

lemma busy_as_None:
  "andThen (attempt m) (\<lambda>r. case r of
       Inl e \<Rightarrow> if errorsIs e ErrConfigurationBusy then ret None else throw e
     | Inr x \<Rightarrow> ret (Some x)) s = (Inr (Some y), t) \<longleftrightarrow> m s = (Inr y, t)"
  by (cases "m s") (auto simp: andThen_def attempt_def split: sum.splits)

lemma Acquire_Some:
  assumes "AcquireConfigurationLeaseForOperation pid owner oid now ttl d = (Inr (Some lease), d')" and "dbWf d"
  shows "leaseFree d pid now" and "lease = \<lparr>lease_Owner = owner, lease_Fence = nextFence d pid\<rparr>"
    and "leaseOf d' pid = Some \<lparr>ls_Project = pid, ls_Owner = owner, ls_Fence = nextFence d pid,
           ls_AcquiredAt = now, ls_ExpiresAt = now + ttl\<rparr>"
proof -
  let ?leased = "d\<lparr>leases := leaseTaken pid owner now (now + ttl) d\<rparr>"
  from assms(1) obtain fence e where
    taken: "takeLease pid owner now (now + ttl) d = (Inr True, ?leased)" and
    fence: "readFence pid owner ?leased = (Inr fence, e)" and
    d': "d' = e\<lparr>operationConfigs := updateWhere (\<lambda>r. oc_Operation r = oid \<and> oc_Project r = pid)
            (\<lambda>r. r\<lparr>oc_Fence := fence\<rparr>) (operationConfigs e)\<rparr>" and
    lease: "lease = \<lparr>lease_Owner = owner, lease_Fence = fence\<rparr>"
    unfolding AcquireConfigurationLeaseForOperation_def
    by (simp add: andThen_eq_Inr [of "validateConfigurationOwner owner 1"] busy_as_None split: if_splits)
      (auto simp: andThen_eq_Inr takeLease_True split: if_splits)
  have "dbWf ?leased" using obeysD [OF wf_takeLease taken] assms(2) by blast
  from readFence_lease [OF dbWf_keys(17) [OF this], of pid, unfolded leaseOf_taken] fence
  have "fence = nextFence d pid" "e = ?leased" by simp_all
  with taken lease d' leaseOf_taken [where x = pid and pid = pid] show
    "leaseFree d pid now" "lease = \<lparr>lease_Owner = owner, lease_Fence = nextFence d pid\<rparr>"
    "leaseOf d' pid = Some \<lparr>ls_Project = pid, ls_Owner = owner, ls_Fence = nextFence d pid,
           ls_AcquiredAt = now, ls_ExpiresAt = now + ttl\<rparr>"
    by (simp_all add: takeLease_True leaseOf_def)
qed

lemma Acquire_busy:
  assumes "trimSpace owner \<noteq> []" and "pid \<in> projectIds d" and "\<not> leaseFree d pid now"
  shows "AcquireConfigurationLeaseForOperation pid owner owner now ttl d = (Inr None, d)"
proof -
  have "takeLease pid owner now (now + ttl) d = (Inr False, d)"
    using assms by (simp add: takeLease_False)
  moreover have "owner \<noteq> []" using assms(1) by (auto simp: trimSpace_def)
  ultimately show ?thesis
    using assms(1) by (simp add: AcquireConfigurationLeaseForOperation_def validateConfigurationOwner_def
        attempt_def inTx_def)
qed

lemma Admit_lease:
  assumes "dbWf d" and "AdmitConfiguration wall input d = (Inr admitted, d')"
  shows "leaseOf d' (adm_ProjectID input) = Some \<lparr>ls_Project = adm_ProjectID input,
    ls_Owner = adm_Owner input, ls_Fence = nextFence d (adm_ProjectID input),
    ls_AcquiredAt = admissionTime wall input,
    ls_ExpiresAt = admissionTime wall input + admissionTTL input\<rparr>"
proof -
  obtain snap l where "AdmitConfiguration wall input d = (Inr (snap, l), d')"
    using assms(2) by (cases admitted) auto
  from AdmitConfiguration_Inr [OF assms(1) this] obtain p where
    "admits (admissionTime wall input) (admissionTTL input) (admissionKind input) input d p snap l d'" .
  then show ?thesis by (auto simp: admits_def admitted_lease)
qed

section \<open>Exclusion and fencing\<close>



text \<open>
  (C3) A worker whose lease was taken over, by a new admission or by another worker resuming an
  operation, can no longer change anything of the project's configuration: publication fails,
  compensation, renewal and release leave the database as it is, and it is told that it owns nothing.
\<close>

theorem superseded_worker_is_fenced:
  assumes "dbWf d" and "leaseOf d pid = Some row"
    and "(adm_ProjectID input = pid \<and> AdmitConfiguration wall input d = (Inr admitted, d')) \<or>
         AcquireConfigurationLeaseForOperation pid owner oid now ttl d = (Inr (Some lease), d')"
  shows "(\<exists>e. MarkConfigurationGoodOwned w pid revision (ls_Owner row) (ls_Fence row) phase d' = (Inl e, d')) \<and>
    snd (RestoreConfigurationStateOwned w pid revision (ls_Owner row) (ls_Fence row) d') = d' \<and>
    snd (RenewConfigurationLease pid (ls_Owner row) (ls_Fence row) t ttl' d') = d' \<and>
    fst (RenewConfigurationLease pid (ls_Owner row) (ls_Fence row) t ttl' d') \<noteq> Inr True \<and>
    snd (ReleaseConfigurationLeaseOwned pid (ls_Owner row) (ls_Fence row) d') = d' \<and>
    fst (OwnsConfigurationLease pid (ls_Owner row) (ls_Fence row) t d') \<noteq> Inr True"
proof -
  have "dbWf d' \<and> \<not> holdsLease d' pid (ls_Owner row) (ls_Fence row)"
    using assms(3)
  proof
    assume admitted: "adm_ProjectID input = pid \<and> AdmitConfiguration wall input d = (Inr admitted, d')"
    then have "dbWf d'" using obeysD [OF wf_AdmitConfiguration] assms(1) by blast
    with Admit_lease [OF assms(1) conjunct2 [OF admitted]] admitted assms(2) show ?thesis
      by (auto simp: holdsLease_def nextFence_def)
  next
    assume acquired: "AcquireConfigurationLeaseForOperation pid owner oid now ttl d = (Inr (Some lease), d')"
    then have "dbWf d'" using obeysD [OF wf_AcquireConfigurationLeaseForOperation] assms(1) by blast
    with Acquire_Some(3) [OF acquired assms(1)] assms(2) show ?thesis
      by (auto simp: holdsLease_def nextFence_def)
  qed
  then show ?thesis
    by (simp add: MarkConfigurationGoodOwned_fenced RestoreConfigurationStateOwned_fenced lease_calls_fenced)
qed

theorem superseded_worker_is_fenced_witness:
  "\<exists>row lease d'. leaseOf sampleAdmitted ''bee'' = Some row \<and> ls_Owner row = ''op-1'' \<and>
     AcquireConfigurationLeaseForOperation ''bee'' ''op-1'' ''op-1'' (2 * hour) minute sampleAdmitted =
       (Inr (Some lease), d') \<and>
     (\<exists>e. MarkConfigurationGoodOwned 0 ''bee'' 2 ''op-1'' (ls_Fence row) ''APPLIED'' d' = (Inl e, d')) \<and>
     snd (RestoreConfigurationStateOwned 0 ''bee'' 2 ''op-1'' (ls_Fence row) d') = d'"
proof -
  let ?acquire = "AcquireConfigurationLeaseForOperation ''bee'' ''op-1'' ''op-1'' (2 * hour) minute sampleAdmitted"
  have "case fst ?acquire of Inr (Some l) \<Rightarrow> True | _ \<Rightarrow> False" by code_simp
  then obtain lease d' where run: "?acquire = (Inr (Some lease), d')"
    by (cases ?acquire) (auto split: sum.splits option.splits)
  have "map_option ls_Owner (leaseOf sampleAdmitted ''bee'') = Some ''op-1''" by code_simp
  then obtain row where row: "leaseOf sampleAdmitted ''bee'' = Some row" "ls_Owner row = ''op-1''" by auto
  show ?thesis
    using superseded_worker_is_fenced [OF sampleAdmitted_wf row(1) disjI2 [OF run]] row run by metis
qed

end
