(* ===== verification/Projection.thy ===== *)
theory Projection
  imports Publication
begin

text \<open>
  What publication and compensation do to the projections of a configuration: the canonical
  configuration, the project row, the services and the port allocations. The last sections state the
  contract of \<^verbatim>\<open>MarkConfigurationGoodOwned\<close> and \<^verbatim>\<open>RestoreConfigurationStateOwned\<close>.
\<close>

section \<open>Successful projections\<close>

definition serviceRow :: "string \<Rightarrow> string \<times> bool \<Rightarrow> ServiceRow" where
  "serviceRow pid service = \<lparr>sv_Project = pid, sv_Service = fst service, sv_Enabled = snd service\<rparr>"

lemma serviceRow_simps [simp]:
  "sv_Project (serviceRow pid service) = pid" "sv_Service (serviceRow pid service) = fst service"
  by (simp_all add: serviceRow_def)

lemma insertService_Inr:
  "insertService pid service d = (Inr u, d') \<longleftrightarrow> pid \<in> projectIds d \<and>
     (\<forall>r\<in>set (projectServices d). \<not> (sv_Project r = pid \<and> sv_Service r = fst service)) \<and>
     d' = d\<lparr>projectServices := projectServices d @ [serviceRow pid service]\<rparr>"
  by (cases service) (auto simp: insertService_def andThen_def serviceRow_def existsWhere_iff split: if_splits)

lemma forEach_insertService:
  "forEach ss (insertService pid) d = (Inr u, d') \<Longrightarrow>
     d' = d\<lparr>projectServices := projectServices d @ map (serviceRow pid) ss\<rparr>"
proof (induction ss arbitrary: d)
  case (Cons s ss)
  then have "forEach ss (insertService pid)
      (d\<lparr>projectServices := projectServices d @ [serviceRow pid s]\<rparr>) = (Inr u, d')"
    by (simp add: andThen_eq_Inr insertService_Inr)
  from Cons.IH [OF this] show ?case by simp
qed simp

lemma forEach_insertService_fresh:
  "pid \<in> projectIds d \<Longrightarrow> distinct (map fst ss) \<Longrightarrow>
   (\<And>r. r \<in> set (projectServices d) \<Longrightarrow> sv_Project r = pid \<Longrightarrow> sv_Service r \<notin> fst ` set ss) \<Longrightarrow>
   \<exists>d'. forEach ss (insertService pid) d = (Inr (), d')"
proof (induction ss arbitrary: d)
  case (Cons s ss)
  let ?e = "d\<lparr>projectServices := projectServices d @ [serviceRow pid s]\<rparr>"
  have "insertService pid s d = (Inr (), ?e)"
    using Cons.prems(1,3) by (auto simp: insertService_Inr)
  moreover have "sv_Service r \<notin> fst ` set ss" if "r \<in> set (projectServices ?e)" "sv_Project r = pid" for r
  proof (cases "r = serviceRow pid s")
    case True
    then show ?thesis using Cons.prems(2) by simp
  next
    case False
    with that have "r \<in> set (projectServices d)" by simp
    from Cons.prems(3) [OF this that(2)] show ?thesis by simp
  qed
  then have "\<exists>d'. forEach ss (insertService pid) ?e = (Inr (), d')"
    using Cons.prems(1,2) by (intro Cons.IH) simp_all
  ultimately show ?case by simp
qed simp

definition portRow :: "string \<Rightarrow> string \<Rightarrow> int \<Rightarrow> PortRow" where
  "portRow pid kind port = \<lparr>pt_Port = port, pt_Project = pid, pt_Kind = kind\<rparr>"

definition placePort :: "string \<Rightarrow> string \<times> int \<times> bool \<Rightarrow> PortRow list \<Rightarrow> PortRow list" where
  "placePort pid entry t = (case entry of (kind, port, enabled) \<Rightarrow>
     deleteWhere (\<lambda>r. pt_Project r = pid \<and> pt_Kind r = kind) t @
     (if enabled \<and> port \<noteq> 0 then [portRow pid kind port] else []))"

definition placeable :: "string \<Rightarrow> string \<times> int \<times> bool \<Rightarrow> PortRow list \<Rightarrow> bool" where
  "placeable pid entry t = (case entry of (kind, port, enabled) \<Rightarrow>
     enabled \<and> port \<noteq> 0 \<longrightarrow>
       (\<forall>r\<in>set t. pt_Port r = port \<longrightarrow> pt_Project r = pid \<and> pt_Kind r = kind))"

lemma projectPort_Inr:
  "projectPort pid entry d = (Inr u, d') \<longleftrightarrow>
     (fst (snd entry) \<noteq> 0 \<and> snd (snd entry) \<longrightarrow> pid \<in> projectIds d) \<and> placeable pid entry (portAllocations d) \<and>
     d' = d\<lparr>portAllocations := placePort pid entry (portAllocations d)\<rparr>"
  by (cases entry) (auto simp: projectPort_def ReleasePort_def insertPort_def andThen_def placeable_def
      placePort_def portRow_def table_simps split: if_splits)

definition placePorts :: "string \<Rightarrow> (string \<times> int \<times> bool) list \<Rightarrow> PortRow list \<Rightarrow> PortRow list" where
  "placePorts pid es t = fold (placePort pid) es t"

lemma forEach_projectPort:
  "forEach es (projectPort pid) d = (Inr u, d') \<Longrightarrow>
     d' = d\<lparr>portAllocations := placePorts pid es (portAllocations d)\<rparr>"
proof (induction es arbitrary: d)
  case (Cons e es)
  then have "forEach es (projectPort pid) (d\<lparr>portAllocations := placePort pid e (portAllocations d)\<rparr>) = (Inr u, d')"
    by (simp add: andThen_eq_Inr projectPort_Inr)
  from Cons.IH [OF this] show ?case by (simp add: placePorts_def)
qed (simp add: placePorts_def)

lemma set_placePort:
  "set (placePort pid (kind, port, enabled) t) =
     {r \<in> set t. \<not> (pt_Project r = pid \<and> pt_Kind r = kind)} \<union>
     (if enabled \<and> port \<noteq> 0 then {portRow pid kind port} else {})"
  by (auto simp: placePort_def table_simps)

lemma set_placePorts:
  "distinct (map fst es) \<Longrightarrow>
   set (placePorts pid es t) = {r \<in> set t. \<not> (pt_Project r = pid \<and> pt_Kind r \<in> fst ` set es)} \<union>
     {portRow pid kind port |kind port. (kind, port, True) \<in> set es \<and> port \<noteq> 0}"
proof (induction es arbitrary: t)
  case (Cons e es)
  obtain kind port enabled where e: "e = (kind, port, enabled)" by (cases e)
  have fresh: "(kind, p, b) \<notin> set es" for p b using Cons.prems e by force
  have "placePorts pid (e # es) t = placePorts pid es (placePort pid e t)" by (simp add: placePorts_def)
  then show ?case
    using Cons fresh unfolding e by (auto simp: set_placePort portRow_def)
qed (simp add: placePorts_def)

text \<open>The projection succeeds when the project already has the ports of the configuration.\<close>

definition portsSettled :: "string \<Rightarrow> (string \<times> int \<times> bool) list \<Rightarrow> PortRow list \<Rightarrow> bool" where
  "portsSettled pid es t \<longleftrightarrow> (\<forall>(kind, port, enabled)\<in>set es. enabled \<and> port \<noteq> 0 \<longrightarrow> portRow pid kind port \<in> set t)"

lemma projectPort_settled:
  assumes "keyed pt_Port (portAllocations d)" and "portsSettled pid (e # es) (portAllocations d)"
    and "pid \<in> projectIds d" and "fst e \<notin> fst ` set es"
  shows "\<exists>d'. projectPort pid e d = (Inr (), d') \<and> keyed pt_Port (portAllocations d') \<and>
    portsSettled pid es (portAllocations d') \<and> projectIds d' = projectIds d"
proof -
  obtain kind port enabled where e: "e = (kind, port, enabled)" by (cases e)
  have ok: "placeable pid e (portAllocations d)"
  proof (cases "enabled \<and> port \<noteq> 0")
    case True
    with assms(2) have mine: "portRow pid kind port \<in> set (portAllocations d)"
      by (simp add: portsSettled_def e)
    have "pt_Project r = pid \<and> pt_Kind r = kind" if "r \<in> set (portAllocations d)" "pt_Port r = port" for r
      using keyed_unique [OF assms(1) that(1) mine] that(2) by (simp add: portRow_def)
    then show ?thesis by (auto simp: placeable_def e)
  qed (auto simp: placeable_def e)
  have settled: "portsSettled pid es (placePort pid e (portAllocations d))"
    unfolding portsSettled_def
  proof (clarify)
    fix k p enabled'
    assume entry: "(k, p, enabled') \<in> set es" "enabled'" "p \<noteq> 0"
    then have "portRow pid k p \<in> set (portAllocations d)"
      using assms(2) by (auto simp: portsSettled_def)
    moreover have "k \<noteq> kind" using entry(1) assms(4) by (force simp: e)
    ultimately show "portRow pid k p \<in> set (placePort pid e (portAllocations d))"
      by (simp add: e set_placePort portRow_def)
  qed
  have "keyed pt_Port (placePort pid e (portAllocations d))"
    using assms(1) ok unfolding e placePort_def
    by (auto simp: placeable_def table_simps portRow_def intro!: keyed_snoc)
  with ok settled assms(3) show ?thesis by (simp add: projectPort_Inr)
qed

lemma forEach_projectPort_settled:
  assumes "keyed pt_Port (portAllocations d)" and "portsSettled pid es (portAllocations d)"
    and "pid \<in> projectIds d" and "distinct (map fst es)"
  shows "\<exists>d'. forEach es (projectPort pid) d = (Inr (), d')"
  using assms
proof (induction es arbitrary: d)
  case (Cons e es)
  then obtain d' where step: "projectPort pid e d = (Inr (), d')" and "keyed pt_Port (portAllocations d')"
    and "portsSettled pid es (portAllocations d')" and "projectIds d' = projectIds d"
    using projectPort_settled [of d pid e es] by auto
  with Cons.IH [of d'] Cons.prems show ?case by simp
qed simp

definition projectProjection :: "string \<Rightarrow> ProjectConfiguration \<Rightarrow> gotime \<Rightarrow> ProjectRow \<Rightarrow> ProjectRow" where
  "projectProjection pid cfg now p = (if p_ID p = pid
     then p\<lparr>p_Domain := gen_Domain (cfg_General cfg), p_SiteURL := gen_SiteURL (cfg_General cfg),
          p_SupabaseVersion := gen_SupabaseVersion (cfg_General cfg), p_Services := cfg_Services cfg,
          p_UpdatedAt := now\<rparr> else p)"

lemma projectProjection_key [simp]:
  "p_ID (projectProjection pid cfg now p) = p_ID p"
  "p_ConfigurationRevision (projectProjection pid cfg now p) = p_ConfigurationRevision p"
  "pr_LastGoodRevision (projectProjection pid cfg now p) = pr_LastGoodRevision p"
  by (simp_all add: projectProjection_def)

definition projected :: "string \<Rightarrow> ProjectConfiguration \<Rightarrow> gotime \<Rightarrow> database \<Rightarrow> database" where
  "projected pid cfg now d = d\<lparr>
     canonicalConfigs := canonicalPut pid (redactConfiguration cfg) (canonicalConfigs d),
     projects := map (projectProjection pid cfg now) (projects d),
     projectServices := deleteWhere (\<lambda>r. sv_Project r = pid) (projectServices d) @
       map (serviceRow pid) (projectServiceProjection (cfg_Services cfg)),
     portAllocations := placePorts pid (portProjection cfg) (portAllocations d)\<rparr>"

lemma updateProjectProjection_Inr:
  "updateProjectProjection pid cfg now d = (Inr u, d') \<longleftrightarrow>
     (pid \<in> projectIds d \<longrightarrow> (\<forall>p\<in>set (projects d). p_Domain p = gen_Domain (cfg_General cfg) \<longrightarrow> p_ID p = pid)) \<and>
     d' = d\<lparr>projects := map (projectProjection pid cfg now) (projects d)\<rparr>"
proof -
  have "map (projectProjection pid cfg now) t = updateWhere (\<lambda>p. p_ID p = pid)
       (\<lambda>p. p\<lparr>p_Domain := gen_Domain (cfg_General cfg), p_SiteURL := gen_SiteURL (cfg_General cfg),
          p_SupabaseVersion := gen_SupabaseVersion (cfg_General cfg), p_Services := cfg_Services cfg,
          p_UpdatedAt := now\<rparr>) t" for t
    by (simp add: updateWhere_def projectProjection_def)
  then show ?thesis
    unfolding updateProjectProjection_def
    by (auto simp: andThen_def existsWhere_iff [of _ "projects d"] simp flip: hasProject_iff split: if_splits)
qed

lemma distinct_services: "distinct (map fst (projectServiceProjection services))"
  by (simp add: projectServiceProjection_def)

lemma distinct_kinds: "distinct (map fst (portProjection cfg))"
  by (simp add: portProjection_def)

lemma updateCanonicalProjectionTx_Inr:
  "updateCanonicalProjectionTx pid cfg now d = (Inr u, d') \<Longrightarrow> d' = projected pid cfg now d"
  by (auto simp: updateCanonicalProjectionTx_def andThen_eq_Inr upsertCanonical_Inr
      updateProjectProjection_Inr deleteServices_def projected_def
      dest!: forEach_projectPort forEach_insertService)

lemma updateCanonicalProjectionTx_settled:
  assumes "pid \<in> projectIds d" and "keyed pt_Port (portAllocations d)"
    and "portsSettled pid (portProjection cfg) (portAllocations d)"
    and "\<forall>p\<in>set (projects d). p_Domain p = gen_Domain (cfg_General cfg) \<longrightarrow> p_ID p = pid"
  shows "updateCanonicalProjectionTx pid cfg now d = (Inr (), projected pid cfg now d)"
proof -
  let ?d1 = "d\<lparr>canonicalConfigs := canonicalPut pid (redactConfiguration cfg) (canonicalConfigs d)\<rparr>"
  let ?d2 = "?d1\<lparr>projects := map (projectProjection pid cfg now) (projects d)\<rparr>"
  let ?d3 = "?d2\<lparr>projectServices := deleteWhere (\<lambda>r. sv_Project r = pid) (projectServices d)\<rparr>"
  let ?d4 = "?d3\<lparr>projectServices := projectServices ?d3 @
     map (serviceRow pid) (projectServiceProjection (cfg_Services cfg))\<rparr>"
  have ids: "pid \<in> projectIds ?d2"
    using assms(1) by (simp add: image_image projects_ids)
  have "upsertCanonical pid (redactConfiguration cfg) d = (Inr (), ?d1)"
    using assms(1) by (simp add: upsertCanonical_Inr)
  moreover have "updateProjectProjection pid cfg now ?d1 = (Inr (), ?d2)"
    using assms(4) by (simp add: updateProjectProjection_Inr)
  moreover have "deleteServices pid ?d2 = (Inr (), ?d3)" by (simp add: deleteServices_def)
  moreover have "forEach (projectServiceProjection (cfg_Services cfg)) (insertService pid) ?d3 = (Inr (), ?d4)"
  proof -
    have "\<exists>d5. forEach (projectServiceProjection (cfg_Services cfg)) (insertService pid) ?d3 = (Inr (), d5)"
      using ids by (intro forEach_insertService_fresh distinct_services) (simp_all add: table_simps)
    then obtain d5 where "forEach (projectServiceProjection (cfg_Services cfg)) (insertService pid) ?d3 = (Inr (), d5)" ..
    with forEach_insertService [OF this] show ?thesis by simp
  qed
  moreover have "\<exists>d5. forEach (portProjection cfg) (projectPort pid) ?d4 = (Inr (), d5)"
    using assms(2,3) ids by (intro forEach_projectPort_settled distinct_kinds) simp_all
  ultimately have "\<exists>d'. updateCanonicalProjectionTx pid cfg now d = (Inr (), d')"
    unfolding updateCanonicalProjectionTx_def by simp
  then show ?thesis using updateCanonicalProjectionTx_Inr by blast
qed

end
