(* ===== verification/Compensation.thy ===== *)
theory Compensation
  imports Projection
begin

text \<open>
  The contract of \<^verbatim>\<open>MarkConfigurationGoodOwned\<close> and \<^verbatim>\<open>RestoreConfigurationStateOwned\<close>: publication
  settles the project on the applied revision, and compensation of a failed revision brings a settled
  project back to the state before the admission.
\<close>

section \<open>Successful publication\<close>

lemma requireFence_Inr:
  assumes "requireFence pid revision owner fence d = (Inr u, d')"
  shows "d' = d" and "holdsLease d pid owner fence"
  using assms by (auto simp: requireFence_def holdsLease_def andThen_def split: option.splits if_splits)

lemma projectRevisions_Inr:
  "projectRevisions pid d = (Inr r, d') \<longleftrightarrow> d' = d \<and>
     (\<exists>p. find (\<lambda>p. p_ID p = pid) (projects d) = Some p \<and> r = (p_ConfigurationRevision p, pr_LastGoodRevision p))"
  by (auto simp: projectRevisions_def split: option.splits)

lemma aggregateAt_Inr:
  "aggregateAt pid revision d = (Inr cfg, d') \<longleftrightarrow> d' = d \<and>
     (\<exists>r. find (\<lambda>r. pc_Project r = pid \<and> pc_Revision r = revision) (projectConfigs d) = Some r \<and> cfg = pc_Config r)"
  by (auto simp: aggregateAt_def split: option.splits)

definition lastGoodSet :: "string \<Rightarrow> int \<Rightarrow> database \<Rightarrow> database" where
  "lastGoodSet pid revision d = d\<lparr>projects := updateWhere (\<lambda>p. p_ID p = pid)
     (\<lambda>p. p\<lparr>pr_LastGoodRevision := revision\<rparr>) (projects d)\<rparr>"

definition phaseSet :: "string \<Rightarrow> string \<Rightarrow> database \<Rightarrow> database" where
  "phaseSet oid phase d = d\<lparr>operations :=
     updateWhere (\<lambda>r. o_ID r = oid) (\<lambda>r. r\<lparr>o_CompensationPhase := phase\<rparr>) (operations d)\<rparr>"

definition published :: "gotime \<Rightarrow> string \<Rightarrow> int \<Rightarrow> string \<Rightarrow> string \<Rightarrow> ProjectConfiguration \<Rightarrow>
    database \<Rightarrow> database" where
  "published wall pid revision owner phase cfg d =
     phaseSet owner phase ((projected pid cfg wall (lastGoodSet pid revision d))\<lparr>reservations :=
       deleteWhere (\<lambda>r. rv_Project r = pid \<and> rv_Revision r = revision) (reservations d)\<rparr>)"

lemma MarkConfigurationGoodOwned_Inr:
  assumes "MarkConfigurationGoodOwned wall pid revision owner fence phase d = (Inr u, d')"
  obtains p cfg where "find (\<lambda>p. p_ID p = pid) (projects d) = Some p"
    and "p_ConfigurationRevision p = revision" and "pr_LastGoodRevision p \<le> revision"
    and "holdsLease d pid owner fence" and "aggregateAt pid revision d = (Inr cfg, d)"
    and "d' = published wall pid revision owner phase cfg d"
proof -
  from assms obtain p d1 row d2 where
    p: "find (\<lambda>p. p_ID p = pid) (projects d) = Some p" "p_ConfigurationRevision p = revision"
      "pr_LastGoodRevision p \<le> revision" and
    fence: "requireFence pid revision owner fence d = (Inr (), d1)" and
    row: "find (\<lambda>r. pc_Project r = pid \<and> pc_Revision r = revision) (projectConfigs d1) = Some row" and
    projection: "updateCanonicalProjectionTx pid (pc_Config row) wall (lastGoodSet pid revision d1) = (Inr (), d2)" and
    d': "d' = phaseSet owner phase (d2\<lparr>reservations :=
       deleteWhere (\<lambda>r. rv_Project r = pid \<and> rv_Revision r = revision) (reservations d2)\<rparr>)"
    unfolding MarkConfigurationGoodOwned_def
    by (auto simp: andThen_eq_Inr projectRevisions_Inr aggregateAt_Inr lastGoodSet_def phaseSet_def
        setCompensationPhase_def deleteReservations_def split: if_splits)
  note d1 = requireFence_Inr [OF fence]
  have "d2 = projected pid (pc_Config row) wall (lastGoodSet pid revision d)"
    using updateCanonicalProjectionTx_Inr [OF projection] d1 by simp
  then have "d' = published wall pid revision owner phase (pc_Config row) d"
    unfolding d' published_def by (simp add: projected_def lastGoodSet_def)
  with p d1 row show ?thesis by (intro that) (auto simp: aggregateAt_Inr)
qed

section \<open>Settled projects\<close>

text \<open>
  A settled project runs its last good revision, and its domain and its ports are those of the stored
  configuration of that revision.
\<close>

definition portsExact :: "string \<Rightarrow> (string \<times> int \<times> bool) list \<Rightarrow> PortRow list \<Rightarrow> bool" where
  "portsExact pid es t \<longleftrightarrow> (\<forall>r\<in>set t. pt_Project r = pid \<longrightarrow> pt_Kind r \<in> fst ` set es \<longrightarrow>
     (pt_Kind r, pt_Port r, True) \<in> set es \<and> pt_Port r \<noteq> 0)"

lemma placePorts_settled:
  assumes "portsSettled pid es t" and "portsExact pid es t" and "distinct (map fst es)"
  shows "set (placePorts pid es t) = set t"
proof (rule set_eqI)
  fix r
  have "r = portRow (pt_Project r) (pt_Kind r) (pt_Port r)" by (simp add: portRow_def)
  then show "r \<in> set (placePorts pid es t) \<longleftrightarrow> r \<in> set t"
    unfolding set_placePorts [OF assms(3)] using assms(1,2)
    by (auto simp: portsSettled_def portsExact_def)
qed

definition settled :: "database \<Rightarrow> string \<Rightarrow> bool" where
  "settled d pid = (case find (\<lambda>p. p_ID p = pid) (projects d) of
      None \<Rightarrow> False
    | Some p \<Rightarrow> p_ConfigurationRevision p = pr_LastGoodRevision p \<and>
       (case fst (aggregateAt pid (p_ConfigurationRevision p) d) of
          Inl e \<Rightarrow> False
        | Inr cfg \<Rightarrow> p_Domain p = gen_Domain (cfg_General cfg) \<and>
            portsSettled pid (portProjection cfg) (portAllocations d) \<and>
            portsExact pid (portProjection cfg) (portAllocations d)))"

lemma settledE:
  assumes "settled d pid"
  obtains p cfg where "find (\<lambda>p. p_ID p = pid) (projects d) = Some p"
    and "p_ConfigurationRevision p = pr_LastGoodRevision p"
    and "aggregateAt pid (pr_LastGoodRevision p) d = (Inr cfg, d)"
    and "p_Domain p = gen_Domain (cfg_General cfg)"
    and "portsSettled pid (portProjection cfg) (portAllocations d)"
    and "portsExact pid (portProjection cfg) (portAllocations d)"
  using assms by (auto simp: settled_def aggregateAt_def split: option.splits)

lemma find_map_key: "(\<And>r. k (f r) = k r) \<Longrightarrow> find (\<lambda>r. k r = x) (map f t) = map_option f (find (\<lambda>r. k r = x) t)"
  by (induction t) auto

lemma projects_published:
  "projects (published wall pid revision owner phase cfg d) =
     map (\<lambda>p. projectProjection pid cfg wall (if p_ID p = pid then p\<lparr>pr_LastGoodRevision := revision\<rparr> else p)) (projects d)"
  by (simp add: published_def phaseSet_def projected_def lastGoodSet_def updateWhere_def)

lemma find_published:
  assumes "find (\<lambda>p. p_ID p = pid) (projects d) = Some p"
  shows "find (\<lambda>p. p_ID p = pid) (projects (published wall pid revision owner phase cfg d)) =
    Some (projectProjection pid cfg wall (p\<lparr>pr_LastGoodRevision := revision\<rparr>))"
  using assms find_SomeD [OF assms] unfolding projects_published
  by (subst find_map_key) auto

lemma published_tables [simp]:
  "projectConfigs (published wall pid revision owner phase cfg d) = projectConfigs d"
  "portAllocations (published wall pid revision owner phase cfg d) =
     placePorts pid (portProjection cfg) (portAllocations d)"
  "reservations (published wall pid revision owner phase cfg d) =
     deleteWhere (\<lambda>r. rv_Project r = pid \<and> rv_Revision r = revision) (reservations d)"
  "canonicalConfigs (published wall pid revision owner phase cfg d) =
     canonicalPut pid (redactConfiguration cfg) (canonicalConfigs d)"
  "projectSecrets (published wall pid revision owner phase cfg d) = projectSecrets d"
  "leases (published wall pid revision owner phase cfg d) = leases d"
  by (simp_all add: published_def phaseSet_def projected_def lastGoodSet_def)

lemma portsSettled_placed: "portsSettled pid (portProjection cfg) (placePorts pid (portProjection cfg) t)"
  unfolding portsSettled_def set_placePorts [OF distinct_kinds] by auto

lemma portsExact_placed: "portsExact pid (portProjection cfg) (placePorts pid (portProjection cfg) t)"
  unfolding portsExact_def
proof (intro ballI impI)
  fix r
  assume r: "r \<in> set (placePorts pid (portProjection cfg) t)"
    and "pt_Project r = pid" "pt_Kind r \<in> fst ` set (portProjection cfg)"
  then obtain kind port where "r = portRow pid kind port" "(kind, port, True) \<in> set (portProjection cfg)" "port \<noteq> 0"
    unfolding set_placePorts [OF distinct_kinds] by blast
  then show "(pt_Kind r, pt_Port r, True) \<in> set (portProjection cfg) \<and> pt_Port r \<noteq> 0"
    by (simp add: portRow_def)
qed

lemma portRow_eq: "pt_Port r = port \<and> pt_Project r = q \<and> pt_Kind r = kind \<longleftrightarrow> r = portRow q kind port"
  by (cases r) (auto simp: portRow_def)

lemma portOwner_row:
  assumes "dbWf d"
  shows "portOwner d port = Some (q, kind) \<longleftrightarrow> portRow q kind port \<in> set (portAllocations d)"
proof -
  have "(\<exists>r. find (\<lambda>r. pt_Port r = port) (portAllocations d) = Some r \<and> pt_Project r = q \<and> pt_Kind r = kind) \<longleftrightarrow>
      (\<exists>r\<in>set (portAllocations d). pt_Port r = port \<and> pt_Project r = q \<and> pt_Kind r = kind)"
    using find_keyed_iff [OF dbWf_keys(14) [OF assms]] by blast
  also have "\<dots> \<longleftrightarrow> portRow q kind port \<in> set (portAllocations d)"
    by (simp add: portRow_eq)
  finally show ?thesis by (auto simp: portOwner_def)
qed

lemma phase_phaseSet:
  assumes "dbWf d" and "oid \<in> operationIds d"
  shows "GetOperationCompensation oid (phaseSet oid phase d) =
    (Inr (phase, o_CompensationKey (the (find (\<lambda>r. o_ID r = oid) (operations d)))), phaseSet oid phase d)"
proof -
  obtain r where r: "find (\<lambda>r. o_ID r = oid) (operations d) = Some r"
    using assms find_keyed_iff [OF dbWf_keys(4) [OF assms(1)]] by (auto simp: operationIds_def)
  have "find (\<lambda>r. o_ID r = oid) (operations (phaseSet oid phase d)) = Some (r\<lparr>o_CompensationPhase := phase\<rparr>)"
    using r find_SomeD [OF r] unfolding phaseSet_def by (simp add: find_updateWhere)
  with r show ?thesis by (simp add: GetOperationCompensation_def)
qed

text \<open>
  (C4) Publication is exactly for the lease holder and settles the project: the applied revision becomes
  the last good one, the configuration stored for it becomes canonical (redacted), the project owns
  precisely the enabled ports of that configuration under the projected kinds while no port of another
  project changes hands, and the reservations made for the revision are gone.
\<close>

theorem publication_settles:
  assumes "dbWf d" and "MarkConfigurationGoodOwned wall pid revision owner fence phase d = (Inr u, d')"
  shows "holdsLease d pid owner fence \<and> settled d' pid \<and>
    projectRevisions pid d' = (Inr (revision, revision), d') \<and>
    (\<exists>cfg. aggregateAt pid revision d = (Inr cfg, d) \<and>
       find (\<lambda>c. cc_Project c = pid) (canonicalConfigs d') =
         Some \<lparr>cc_Project = pid, cc_Config = redactConfiguration cfg\<rparr> \<and>
       (\<forall>kind port. kind \<in> fst ` set (portProjection cfg) \<longrightarrow>
          (portOwner d' port = Some (pid, kind) \<longleftrightarrow> (kind, port, True) \<in> set (portProjection cfg) \<and> port \<noteq> 0))) \<and>
    (\<forall>q kind port. q \<noteq> pid \<longrightarrow> portOwner d' port = Some (q, kind) \<longleftrightarrow> portOwner d port = Some (q, kind)) \<and>
    filter (\<lambda>r. rv_Project r = pid \<and> rv_Revision r = revision) (reservations d') = []"
proof -
  obtain p cfg where p: "find (\<lambda>p. p_ID p = pid) (projects d) = Some p" "p_ConfigurationRevision p = revision"
    and lease: "holdsLease d pid owner fence" and cfg: "aggregateAt pid revision d = (Inr cfg, d)"
    and d': "d' = published wall pid revision owner phase cfg d"
    using MarkConfigurationGoodOwned_Inr [OF assms(2)] by blast
  have wf': "dbWf d'" using obeysD [OF wf_MarkConfigurationGoodOwned assms(2)] assms(1) by blast
  let ?p = "projectProjection pid cfg wall (p\<lparr>pr_LastGoodRevision := revision\<rparr>)"
  have p': "find (\<lambda>p. p_ID p = pid) (projects d') = Some ?p"
    unfolding d' by (rule find_published [OF p(1)])
  have cfg': "aggregateAt pid revision d' = (Inr cfg, d')"
    using cfg by (simp add: aggregateAt_Inr d')
  have "p_ID p = pid" using find_SomeD [OF p(1)] by simp
  then have "settled d' pid"
    using p' cfg' p(2) portsSettled_placed portsExact_placed by (simp add: settled_def projectProjection_def d')
  moreover have "projectRevisions pid d' = (Inr (revision, revision), d')"
    using p' p(2) by (simp add: projectRevisions_Inr)
  moreover have "portOwner d' port = Some (pid, kind) \<longleftrightarrow> (kind, port, True) \<in> set (portProjection cfg) \<and> port \<noteq> 0"
    if "kind \<in> fst ` set (portProjection cfg)" for kind port
    unfolding portOwner_row [OF wf'] using that
    by (auto simp: d' set_placePorts [OF distinct_kinds] portRow_def)
  moreover have "portOwner d' port = Some (q, kind) \<longleftrightarrow> portOwner d port = Some (q, kind)" if "q \<noteq> pid" for q kind port
    unfolding portOwner_row [OF wf'] portOwner_row [OF assms(1)] using that
    by (auto simp: d' set_placePorts [OF distinct_kinds] portRow_def)
  moreover have "filter (\<lambda>r. rv_Project r = pid \<and> rv_Revision r = revision) (reservations d') = []"
    by (auto simp: d' filter_empty_conv table_simps)
  moreover have "find (\<lambda>c. cc_Project c = pid) (canonicalConfigs d') =
         Some \<lparr>cc_Project = pid, cc_Config = redactConfiguration cfg\<rparr>"
    by (simp add: d' find_canonicalPut)
  ultimately show ?thesis using lease cfg by blast
qed

definition samplePublished :: database where
  "samplePublished = snd (MarkConfigurationGoodOwned (2 * second) ''bee'' 2 ''op-1'' 1 ''APPLIED'' sampleAdmitted)"

lemma samplePublished_ok: "succeeds (MarkConfigurationGoodOwned (2 * second) ''bee'' 2 ''op-1'' 1 ''APPLIED'') sampleAdmitted"
  by code_simp

lemma samplePublished_run:
  "MarkConfigurationGoodOwned (2 * second) ''bee'' 2 ''op-1'' 1 ''APPLIED'' sampleAdmitted = (Inr (), samplePublished)"
  using succeedsE [OF samplePublished_ok] unfolding samplePublished_def by (metis old.unit.exhaust)

lemma samplePublished_wf: "dbWf samplePublished"
  using obeysD [OF wf_MarkConfigurationGoodOwned samplePublished_run] sampleAdmitted_wf by blast

theorem publication_settles_witness:
  "dbWf sampleAdmitted \<and> settled samplePublished ''bee'' \<and>
   projectRevisions ''bee'' samplePublished = (Inr (2, 2), samplePublished)"
  using publication_settles [OF sampleAdmitted_wf samplePublished_run] sampleAdmitted_wf by simp

section \<open>Compensation\<close>

text \<open>Every secret version belongs to a marked snapshot.\<close>

definition versionsMarked :: "database \<Rightarrow> bool" where
  "versionsMarked d = list_all (\<lambda>v. existsWhere (\<lambda>m. mk_Project m = ver_Project v \<and> mk_Revision m = ver_Revision v)
     (secretMarkers d)) (secretVersions d)"

lemma find_keyed_and:
  "keyed k t \<Longrightarrow> r \<in> set t \<Longrightarrow> k r = x \<Longrightarrow> P r \<Longrightarrow> find (\<lambda>r. k r = x \<and> P r) t = Some r"
  by (induction t) (auto simp: keyed_def)

lemma restoreSecrets_snapshot:
  assumes "find (\<lambda>m. mk_Project m = pid \<and> mk_Revision m = revision) (secretMarkers d) =
      Some \<lparr>mk_Project = pid, mk_Revision = revision, mk_Present = (secrets \<noteq> [])\<rparr>"
    and "versionsOf d pid revision = map (versionRow revision) secrets"
  shows "restoreSecrets pid revision d = (Inr (),
    d\<lparr>projectSecrets := deleteWhere (\<lambda>r. sec_Project r = pid) (projectSecrets d) @ secrets\<rparr>)"
proof -
  have same: "versionsOf (d\<lparr>projectSecrets := t\<rparr>) pid revision = versionsOf d pid revision" for t
    by (simp add: versionsOf_def)
  have inverse: "map (\<lambda>v. \<lparr>sec_Project = ver_Project v, sec_Kind = ver_Kind v, sec_Envelope = ver_Envelope v\<rparr>)
      (map (versionRow revision) secrets) = secrets"
    by (rule nth_equalityI) (simp_all add: versionRow_def)
  show ?thesis
    using inverse by (simp add: restoreSecrets_def assms(1) same assms(2) comp_def)
qed

text \<open>The admitted database as compensation reads it.\<close>

lemma admitted_snapshot:
  assumes "dbWf (admittedDatabase now ttl kind input revision secrets opSecrets d)" (is "dbWf ?d1")
    and "versionsMarked d"
  shows "find (\<lambda>m. mk_Project m = adm_ProjectID input \<and> mk_Revision m = revision) (secretMarkers ?d1) =
      Some \<lparr>mk_Project = adm_ProjectID input, mk_Revision = revision,
        mk_Present = (secretsOf d (adm_ProjectID input) \<noteq> [])\<rparr>"
    and "versionsOf ?d1 (adm_ProjectID input) revision =
      map (versionRow revision) (secretsOf d (adm_ProjectID input))"
proof -
  let ?pid = "adm_ProjectID input"
  let ?base = "if hasCandidate d ?pid revision then reclaimed ?pid revision d else d"
  let ?m = "\<lparr>mk_Project = ?pid, mk_Revision = revision, mk_Present = (secretsOf d ?pid \<noteq> [])\<rparr>"
  have markers: "secretMarkers ?d1 = secretMarkers ?base @ [?m]"
    and versions: "secretVersions ?d1 = secretVersions ?base @ map (versionRow revision) (secretsOf d ?pid)"
    by (simp_all add: admittedDatabase_def Let_def)
  note key = dbWf_keys(12) [OF assms(1)]
  from find_keyed2_iff [OF key, of ?pid revision ?m]
  show "find (\<lambda>m. mk_Project m = ?pid \<and> mk_Revision m = revision) (secretMarkers ?d1) = Some ?m"
    by (simp add: markers)
  have unmarked: "\<not> (mk_Project m = ?pid \<and> mk_Revision m = revision)" if "m \<in> set (secretMarkers ?base)" for m
    using key that unfolding markers keyed_append by auto
  have "\<not> (ver_Project v = ?pid \<and> ver_Revision v = revision)" if "v \<in> set (secretVersions ?base)" for v
  proof (cases "hasCandidate d ?pid revision")
    case True
    with that show ?thesis by (simp add: reclaimed_def table_simps)
  next
    case False
    with that assms(2) unmarked show ?thesis
      by (fastforce simp: versionsMarked_def list_all_iff existsWhere_iff)
  qed
  then have "filter (\<lambda>v. ver_Project v = ?pid \<and> ver_Revision v = revision) (secretVersions ?base) = []"
    by (simp add: filter_empty_conv)
  moreover have "filter (\<lambda>v. ver_Project v = ?pid \<and> ver_Revision v = revision)
      (map (versionRow revision) (secretsOf d ?pid)) = map (versionRow revision) (secretsOf d ?pid)"
    by (rule filter_True) (auto simp: secretsOf_def versionRow_def)
  ultimately show "versionsOf ?d1 ?pid revision = map (versionRow revision) (secretsOf d ?pid)"
    unfolding versionsOf_def versions filter_append by simp
qed

lemma admitted_requireFence:
  assumes "dbWf (admittedDatabase now ttl kind input revision secrets opSecrets d)" (is "dbWf ?d1")
  shows "requireFence (adm_ProjectID input) revision (adm_Owner input) (nextFence d (adm_ProjectID input)) ?d1 =
    (Inr (), ?d1)"
proof -
  let ?row = "\<lparr>oc_Operation = adm_Owner input, oc_Project = adm_ProjectID input, oc_Revision = revision,
     oc_Config = admittedPayload input revision, oc_Kind = kind, oc_Fence = nextFence d (adm_ProjectID input)\<rparr>"
  have "?row \<in> set (operationConfigs ?d1)" by (simp add: admittedDatabase_def Let_def)
  from find_keyed_and [OF dbWf_keys(16) [OF assms] this refl, of "\<lambda>r. oc_Project r = adm_ProjectID input"]
  show ?thesis by (simp add: requireFence_def admitted_lease)
qed

lemma admitted_lastGood:
  assumes "n \<noteq> revision" and "aggregateAt (adm_ProjectID input) n d = (Inr cfg, d)"
  shows "aggregateAt (adm_ProjectID input) n (admittedDatabase now ttl kind input revision secrets opSecrets d) =
    (Inr cfg, admittedDatabase now ttl kind input revision secrets opSecrets d)"
proof -
  have "find (\<lambda>r. pc_Project r = adm_ProjectID input \<and> pc_Revision r = n)
      (deleteWhere (\<lambda>r. pc_Project r = adm_ProjectID input \<and> pc_Revision r = revision) t) =
    find (\<lambda>r. pc_Project r = adm_ProjectID input \<and> pc_Revision r = n) t" for t :: "ConfigRow list"
    using assms(1) by (intro find_deleteWhere_disjoint) auto
  then show ?thesis
    using assms(2) by (auto simp: aggregateAt_Inr admittedDatabase_def Let_def reclaimed_def find_append)
qed

lemma admitted_project:
  assumes "find (\<lambda>p. p_ID p = adm_ProjectID input) (projects d) = Some p"
    and "p_ConfigurationRevision p = adm_ExpectedRevision input"
  shows "find (\<lambda>p. p_ID p = adm_ProjectID input)
      (projects (admittedDatabase now ttl kind input revision secrets opSecrets d)) =
    Some (p\<lparr>p_ConfigurationRevision := revision, p_UpdatedAt := now\<rparr>)"
proof -
  have "projects (admittedDatabase now ttl kind input revision secrets opSecrets d) =
      updateWhere (\<lambda>p. p_ID p = adm_ProjectID input \<and> p_ConfigurationRevision p = adm_ExpectedRevision input)
        (\<lambda>p. p\<lparr>p_ConfigurationRevision := revision, p_UpdatedAt := now\<rparr>) (projects d)"
    by (simp add: admittedDatabase_def Let_def)
  then show ?thesis
    using assms find_SomeD [OF assms(1)] by (simp add: find_updateWhere)
qed

text \<open>The database after compensation of the revision admitted on top of \<open>n\<close>.\<close>

definition restoredTo :: "gotime \<Rightarrow> string \<Rightarrow> int \<Rightarrow> string \<Rightarrow> int \<Rightarrow> ProjectConfiguration \<Rightarrow> SecretRow list \<Rightarrow>
    int \<Rightarrow> database \<Rightarrow> database" where
  "restoredTo wall pid n owner fence cfg secrets revision d1 =
     (let back = projected pid cfg wall (d1\<lparr>
            projectSecrets := deleteWhere (\<lambda>r. sec_Project r = pid) (projectSecrets d1) @ secrets,
            projects := updateWhere (\<lambda>p. p_ID p = pid)
              (\<lambda>p. p\<lparr>p_ConfigurationRevision := n, p_UpdatedAt := wall\<rparr>) (projects d1)\<rparr>)
      in phaseSet owner ''STATE_RESTORED'' (reclaimed pid revision back\<lparr>leases :=
           deleteWhere (\<lambda>l. ls_Project l = pid \<and> ls_Owner l = owner \<and> ls_Fence l = fence) (leases d1)\<rparr>))"

lemma RestoreConfigurationStateOwned_run:
  assumes "trimSpace owner \<noteq> []" and "0 < fence"
    and "projectRevisions pid d1 = (Inr (revision, n), d1)"
    and "requireFence pid revision owner fence d1 = (Inr (), d1)"
    and "aggregateAt pid n d1 = (Inr cfg, d1)"
    and "restoreSecrets pid revision d1 = (Inr (), d1\<lparr>projectSecrets :=
      deleteWhere (\<lambda>r. sec_Project r = pid) (projectSecrets d1) @ secrets\<rparr>)"
    and "dbWf d1" and "portsSettled pid (portProjection cfg) (portAllocations d1)"
    and "\<forall>p\<in>set (projects d1). p_Domain p = gen_Domain (cfg_General cfg) \<longrightarrow> p_ID p = pid"
  shows "RestoreConfigurationStateOwned wall pid revision owner fence d1 =
    (Inr (), restoredTo wall pid n owner fence cfg secrets revision d1)"
proof -
  let ?moved = "d1\<lparr>projectSecrets := deleteWhere (\<lambda>r. sec_Project r = pid) (projectSecrets d1) @ secrets,
      projects := updateWhere (\<lambda>p. p_ID p = pid)
        (\<lambda>p. p\<lparr>p_ConfigurationRevision := n, p_UpdatedAt := wall\<rparr>) (projects d1)\<rparr>"
  have pid: "pid \<in> projectIds d1"
    using assms(3) by (auto simp: projectRevisions_Inr projectIds_def dest: find_SomeD)
  have "updateCanonicalProjectionTx pid cfg wall ?moved = (Inr (), projected pid cfg wall ?moved)"
  proof (rule updateCanonicalProjectionTx_settled)
    show "pid \<in> projectIds ?moved" using pid by (simp add: projects_ids)
    show "keyed pt_Port (portAllocations ?moved)" using dbWf_keys(14) [OF assms(7)] by simp
    show "portsSettled pid (portProjection cfg) (portAllocations ?moved)" using assms(8) by simp
    show "\<forall>p\<in>set (projects ?moved). p_Domain p = gen_Domain (cfg_General cfg) \<longrightarrow> p_ID p = pid"
      using assms(9) by (auto simp: table_simps)
  qed
  moreover have "validateConfigurationOwner owner fence d1 = (Inr (), d1)" using assms(1,2) by simp
  ultimately show ?thesis
    using assms(3-6)
    by (simp add: RestoreConfigurationStateOwned_def inTx_def restoredTo_def Let_def setCompensationPhase_def
        phaseSet_def deleteCandidate_def deleteReservations_def reclaimed_def projected_def)
qed

lemma restoredTo_tables [simp]:
  "secretsOf (restoredTo wall pid n owner fence cfg secrets revision d1) pid =
     filter (\<lambda>r. sec_Project r = pid) secrets"
  "portAllocations (restoredTo wall pid n owner fence cfg secrets revision d1) =
     placePorts pid (portProjection cfg) (portAllocations d1)"
  "leases (restoredTo wall pid n owner fence cfg secrets revision d1) =
     deleteWhere (\<lambda>l. ls_Project l = pid \<and> ls_Owner l = owner \<and> ls_Fence l = fence) (leases d1)"
  "projectConfigs (restoredTo wall pid n owner fence cfg secrets revision d1) =
     deleteWhere (\<lambda>r. pc_Project r = pid \<and> pc_Revision r = revision) (projectConfigs d1)"
  "reservations (restoredTo wall pid n owner fence cfg secrets revision d1) =
     deleteWhere (\<lambda>r. rv_Project r = pid \<and> rv_Revision r = revision) (reservations d1)"
  "canonicalConfigs (restoredTo wall pid n owner fence cfg secrets revision d1) =
     canonicalPut pid (redactConfiguration cfg) (canonicalConfigs d1)"
  by (simp_all add: restoredTo_def Let_def phaseSet_def reclaimed_def projected_def secretsOf_def
      deleteWhere_def)

lemma restoredTo_project:
  assumes "find (\<lambda>p. p_ID p = pid) (projects d1) = Some p"
  shows "find (\<lambda>p. p_ID p = pid) (projects (restoredTo wall pid n owner fence cfg secrets revision d1)) =
    Some (projectProjection pid cfg wall (p\<lparr>p_ConfigurationRevision := n, p_UpdatedAt := wall\<rparr>))"
proof -
  have "projects (restoredTo wall pid n owner fence cfg secrets revision d1) =
    map (projectProjection pid cfg wall) (updateWhere (\<lambda>p. p_ID p = pid)
      (\<lambda>p. p\<lparr>p_ConfigurationRevision := n, p_UpdatedAt := wall\<rparr>) (projects d1))"
    by (simp add: restoredTo_def Let_def phaseSet_def reclaimed_def projected_def)
  then show ?thesis
    using assms find_SomeD [OF assms] by (simp add: find_map_key find_updateWhere)
qed

lemma restoredTo_lastGood:
  assumes "n \<noteq> revision" and "aggregateAt pid n d1 = (Inr cfg, d1)"
  shows "aggregateAt pid n (restoredTo wall pid n owner fence cfg secrets revision d1) =
    (Inr cfg, restoredTo wall pid n owner fence cfg secrets revision d1)"
proof -
  have "find (\<lambda>r. pc_Project r = pid \<and> pc_Revision r = n)
      (deleteWhere (\<lambda>r. pc_Project r = pid \<and> pc_Revision r = revision) t) =
    find (\<lambda>r. pc_Project r = pid \<and> pc_Revision r = n) t" for t :: "ConfigRow list"
    using assms(1) by (intro find_deleteWhere_disjoint) auto
  then show ?thesis using assms(2) by (simp add: aggregateAt_Inr)
qed

definition fencesPositive :: "database \<Rightarrow> bool" where
  "fencesPositive d = list_all (\<lambda>l. 0 < ls_Fence l) (leases d)"

lemma nextFence_positive: "fencesPositive d \<Longrightarrow> 0 < nextFence d pid"
  by (auto simp: nextFence_def leaseOf_def fencesPositive_def list_all_iff split: option.splits dest!: find_SomeD)

lemma portOwner_cong:
  assumes "dbWf d" and "dbWf d'" and "set (portAllocations d) = set (portAllocations d')"
  shows "portOwner d = portOwner d'"
proof
  fix port
  have "portOwner d port = Some (q, kind) \<longleftrightarrow> portOwner d' port = Some (q, kind)" for q kind
    unfolding portOwner_row [OF assms(1)] portOwner_row [OF assms(2)] assms(3) ..
  then show "portOwner d port = portOwner d' port"
    by (cases "portOwner d port"; cases "portOwner d' port") auto
qed

lemma leaseOf_released:
  assumes "dbWf d" and "leaseOf d pid = Some row" and "ls_Owner row = owner" and "ls_Fence row = fence"
  shows "find (\<lambda>l. ls_Project l = pid)
    (deleteWhere (\<lambda>l. ls_Project l = pid \<and> ls_Owner l = owner \<and> ls_Fence l = fence) (leases d)) = None"
proof -
  have "l = row" if "l \<in> set (leases d)" "ls_Project l = pid" for l
    using keyed_unique [OF dbWf_keys(17) [OF assms(1)] that(1), of row] that(2)
      find_SomeD [OF assms(2) [unfolded leaseOf_def]] by simp
  with assms(3,4) show ?thesis by (auto simp: find_None_iff table_simps)
qed

text \<open>
  (C2) Compensation brings a settled project back. After any admission that starts from the project's
  current revision, the owner of the admission's lease can always compensate it, and the result is
  settled again on the old revision with the old secrets and with every port in the hands of its old
  owner; the canonical configuration is that of the old revision, and nothing of the admission is
  left: no lease, no candidate and no reservation.
\<close>

theorem compensation_restores:
  assumes "dbWf d" and "versionsMarked d" and "fencesPositive d" and "settled d pid"
    and "projectRevisions pid d = (Inr (n, n), d)"
    and "adm_ProjectID input = pid" and "adm_ExpectedRevision input = n"
    and "AdmitConfiguration wall input d = (Inr (snap, lease), d1)"
  shows "\<exists>d2. RestoreConfigurationStateOwned wall' pid (snap_Revision snap) (lease_Owner lease) (lease_Fence lease) d1 =
      (Inr (), d2) \<and> dbWf d2 \<and> settled d2 pid \<and> projectRevisions pid d2 = (Inr (n, n), d2) \<and>
    secretsOf d2 pid = secretsOf d pid \<and> portOwner d2 = portOwner d \<and>
    leaseOf d2 pid = None \<and> \<not> hasCandidate d2 pid (snap_Revision snap) \<and>
    filter (\<lambda>r. rv_Project r = pid) (reservations d2) = [] \<and>
    (\<exists>cfg. aggregateAt pid n d = (Inr cfg, d) \<and> find (\<lambda>c. cc_Project c = pid) (canonicalConfigs d2) =
       Some \<lparr>cc_Project = pid, cc_Config = redactConfiguration cfg\<rparr>)"
proof -
  let ?owner = "adm_Owner input" and ?fence = "nextFence d pid"
  obtain p where
    admits: "admits (admissionTime wall input) (admissionTTL input) (admissionKind input) input d p snap lease d1"
    and owner: "trimSpace ?owner \<noteq> []"
    using AdmitConfiguration_Inr [OF assms(1,8)] by blast
  have wf1: "dbWf d1" using obeysD [OF wf_AdmitConfiguration assms(8)] assms(1) by blast
  from admits assms(5-7) have p: "find (\<lambda>p. p_ID p = pid) (projects d) = Some p"
    "p_ConfigurationRevision p = n" "pr_LastGoodRevision p = n"
    by (auto simp: admits_def projectRevisions_Inr)
  from admits p assms(6) have lease: "lease_Owner lease = ?owner" "lease_Fence lease = ?fence"
    and snap: "snap_Revision snap = n + 1" by (auto simp: admits_def)
  from admits p obtain secrets opSecrets where
    d1: "d1 = admittedDatabase (admissionTime wall input) (admissionTTL input) (admissionKind input)
           input (n + 1) secrets opSecrets d" by (auto simp: admits_def)
  note wf1' = wf1 [unfolded d1]
  obtain cfg where cfg: "aggregateAt pid n d = (Inr cfg, d)" "p_Domain p = gen_Domain (cfg_General cfg)"
    and ports: "portsSettled pid (portProjection cfg) (portAllocations d)"
      "portsExact pid (portProjection cfg) (portAllocations d)"
    using settledE [OF assms(4)] p by (metis option.inject)
  have p1: "find (\<lambda>p. p_ID p = pid) (projects d1) =
      Some (p\<lparr>p_ConfigurationRevision := n + 1, p_UpdatedAt := admissionTime wall input\<rparr>)" (is "_ = Some ?p1")
    unfolding d1 using admitted_project [of input d p] p assms(6,7) by simp
  have cfg1: "aggregateAt pid n d1 = (Inr cfg, d1)"
    unfolding d1 using admitted_lastGood [of n "n + 1" input d cfg] cfg(1) assms(6) by simp
  have domains: "\<forall>q\<in>set (projects d1). p_Domain q = gen_Domain (cfg_General cfg) \<longrightarrow> p_ID q = pid"
    using keyed_unique [OF dbWf_keys(3) [OF wf1], of _ ?p1] find_SomeD [OF p1] cfg(2) by force
  define d2 where "d2 = restoredTo wall' pid n ?owner ?fence cfg (secretsOf d pid) (n + 1) d1"
  have run: "RestoreConfigurationStateOwned wall' pid (n + 1) ?owner ?fence d1 = (Inr (), d2)"
    unfolding d2_def
  proof (rule RestoreConfigurationStateOwned_run [OF owner nextFence_positive [OF assms(3)]])
    show "projectRevisions pid d1 = (Inr (n + 1, n), d1)" using p1 p by (simp add: projectRevisions_Inr)
    show "requireFence pid (n + 1) ?owner ?fence d1 = (Inr (), d1)"
      using admitted_requireFence [OF wf1'] assms(6) unfolding d1 by simp
    show "restoreSecrets pid (n + 1) d1 = (Inr (), d1\<lparr>projectSecrets :=
        deleteWhere (\<lambda>r. sec_Project r = pid) (projectSecrets d1) @ secretsOf d pid\<rparr>)"
      using restoreSecrets_snapshot [OF admitted_snapshot [OF wf1' assms(2)]] assms(6) unfolding d1 by simp
    show "portsSettled pid (portProjection cfg) (portAllocations d1)" using ports unfolding d1 by simp
  qed (use cfg1 wf1 domains in auto)
  have wf2: "dbWf d2" using obeysD [OF wf_RestoreConfigurationStateOwned run] wf1 by blast
  have p2: "find (\<lambda>p. p_ID p = pid) (projects d2) = Some (projectProjection pid cfg wall'
      (?p1\<lparr>p_ConfigurationRevision := n, p_UpdatedAt := wall'\<rparr>))"
    unfolding d2_def by (rule restoredTo_project [OF p1])
  have cfg2: "aggregateAt pid n d2 = (Inr cfg, d2)"
    unfolding d2_def by (rule restoredTo_lastGood [OF _ cfg1]) simp
  have settled2: "settled d2 pid"
    using p2 cfg2 p find_SomeD [OF p(1)] portsSettled_placed portsExact_placed
    by (simp add: settled_def projectProjection_def d2_def)
  have "set (portAllocations d2) = set (portAllocations d)"
    using placePorts_settled [OF ports distinct_kinds] by (simp add: d2_def d1)
  then have owners: "portOwner d2 = portOwner d" by (rule portOwner_cong [OF wf2 assms(1)])
  have "leaseOf d2 pid = None"
    using leaseOf_released [OF wf1 Admit_lease [OF assms(1,8), unfolded assms(6)]]
    by (simp add: leaseOf_def [of "restoredTo _ _ _ _ _ _ _ _ _"] d2_def)
  moreover have "\<not> hasCandidate d2 pid (n + 1)" by (auto simp: hasCandidate_def d2_def table_simps)
  moreover have "filter (\<lambda>r. rv_Project r = pid) (reservations d2) = []"
  proof -
    have "rv_Revision r = n + 1" if "r \<in> set (reservations d1)" "rv_Project r = pid" for r
    proof -
      have "r \<in> set (filter (\<lambda>r. rv_Project r = adm_ProjectID input) (reservations d1))"
        using that assms(6) by simp
      then show ?thesis unfolding d1 admitted_reservations using assms(7) by (auto simp: reservationRow_def)
    qed
    then show ?thesis by (auto simp: d2_def filter_empty_conv table_simps)
  qed
  moreover have "find (\<lambda>c. cc_Project c = pid) (canonicalConfigs d2) =
      Some \<lparr>cc_Project = pid, cc_Config = redactConfiguration cfg\<rparr>"
    by (simp add: d2_def find_canonicalPut)
  moreover have "secretsOf d2 pid = secretsOf d pid" 
    unfolding d2_def restoredTo_tables by (simp add: secretsOf_def)
  moreover have "projectRevisions pid d2 = (Inr (n, n), d2)" using p2 p by (simp add: projectRevisions_Inr)
  ultimately show ?thesis
    unfolding snap lease using run wf2 settled2 owners cfg(1) by blast
qed

theorem compensation_restores_witness:
  "\<exists>d1 d2 snap lease. AdmitConfiguration 0 (sampleAdmission ''op-2'' 2 8005 hour) samplePublished =
     (Inr (snap, lease), d1) \<and>
   RestoreConfigurationStateOwned hour ''bee'' (snap_Revision snap) (lease_Owner lease) (lease_Fence lease) d1 =
     (Inr (), d2) \<and>
   secretsOf d2 ''bee'' = secretsOf samplePublished ''bee'' \<and> secretsOf samplePublished ''bee'' \<noteq> [] \<and>
   portOwner d2 = portOwner samplePublished \<and> leaseOf d2 ''bee'' = None"
proof -
  let ?input = "sampleAdmission ''op-2'' 2 8005 hour"
  have "succeeds (AdmitConfiguration 0 ?input) samplePublished" by code_simp
  then obtain snap lease d1 where run: "AdmitConfiguration 0 ?input samplePublished = (Inr (snap, lease), d1)"
    by (rule succeedsE) (metis surj_pair)
  have "adm_ProjectID ?input = ''bee''" "adm_ExpectedRevision ?input = 2"
    "versionsMarked samplePublished" "fencesPositive samplePublished" "settled samplePublished ''bee''"
    "secretsOf samplePublished ''bee'' \<noteq> []"
    by code_simp+
  moreover have "fst (projectRevisions ''bee'' samplePublished) = Inr (2, 2)" by code_simp
  then have "projectRevisions ''bee'' samplePublished = (Inr (2, 2), samplePublished)"
    by (cases "projectRevisions ''bee'' samplePublished") (simp add: projectRevisions_Inr)
  ultimately show ?thesis
    using compensation_restores [OF samplePublished_wf, of "''bee''" 2 ?input 0 snap lease d1 hour] run by metis
qed

end
