(* ===== verification/Triples.thy ===== *)
theory Triples
  imports Prelude
begin

text \<open>
  Total-correctness triples of actions: \<open>triple P m Q E\<close> says that from a state in \<open>P\<close> a run of \<open>m\<close> that
  returns ends in \<open>Q\<close> and a run that fails ends in \<open>E\<close>. Every run ends, so this is total correctness.
  The rules follow the action combinators; the workers of the Manager and the runtime of the
  Provisioner are proved with them.
\<close>

named_theorems triple_intros

definition triple :: "('s \<Rightarrow> bool) \<Rightarrow> ('s, 'a) act \<Rightarrow> ('a \<Rightarrow> 's \<Rightarrow> bool) \<Rightarrow> (goerr \<Rightarrow> 's \<Rightarrow> bool) \<Rightarrow> bool" where
  "triple P m Q E \<longleftrightarrow> (\<forall>s. P s \<longrightarrow> (case m s of (Inl e, t) \<Rightarrow> E e t | (Inr x, t) \<Rightarrow> Q x t))"

lemma tripleI:
  assumes "\<And>s e t. P s \<Longrightarrow> m s = (Inl e, t) \<Longrightarrow> E e t"
    and "\<And>s x t. P s \<Longrightarrow> m s = (Inr x, t) \<Longrightarrow> Q x t"
  shows "triple P m Q E"
  unfolding triple_def using assms by (auto split: prod.splits sum.splits)

lemma triple_InrD: "triple P m Q E \<Longrightarrow> P s \<Longrightarrow> m s = (Inr x, t) \<Longrightarrow> Q x t"
  by (force simp: triple_def)

lemma triple_InlD: "triple P m Q E \<Longrightarrow> P s \<Longrightarrow> m s = (Inl e, t) \<Longrightarrow> E e t"
  by (force simp: triple_def)

lemma triple_returns:
  assumes "triple P m Q (\<lambda>_ _. False)" and "P s"
  shows "\<exists>x t. m s = (Inr x, t) \<and> Q x t"
proof (cases "m s")
  case (Pair r t)
  then show ?thesis
    using assms triple_InrD [OF assms(1,2)] triple_InlD [OF assms(1,2)] by (cases r) auto
qed

lemma triple_conseq:
  assumes "triple P' m Q' E'" and "\<And>s. P s \<Longrightarrow> P' s"
    and "\<And>x s. Q' x s \<Longrightarrow> Q x s" and "\<And>e s. E' e s \<Longrightarrow> E e s"
  shows "triple P m Q E"
proof (rule tripleI)
  show "E e t" if "P s" "m s = (Inl e, t)" for s e t
    using assms(2,4) triple_InlD [OF assms(1)] that by blast
  show "Q x t" if "P s" "m s = (Inr x, t)" for s x t
    using assms(2,3) triple_InrD [OF assms(1)] that by blast
qed

lemma triple_pre: "triple P' m Q E \<Longrightarrow> (\<And>s. P s \<Longrightarrow> P' s) \<Longrightarrow> triple P m Q E"
  by (rule triple_conseq)

lemma triple_ret [triple_intros]: "(\<And>s. P s \<Longrightarrow> Q x s) \<Longrightarrow> triple P (ret x) Q E"
  by (rule tripleI) auto

lemma triple_throw [triple_intros]: "(\<And>s. P s \<Longrightarrow> E e s) \<Longrightarrow> triple P (throw e) Q E"
  by (rule tripleI) auto

lemma triple_andThen:
  "triple P m R E \<Longrightarrow> (\<And>x. triple (R x) (k x) Q E) \<Longrightarrow> triple P (andThen m k) Q E"
  by (rule tripleI) (auto simp: andThen_eq_Inr andThen_eq_Inl dest: triple_InrD triple_InlD)

lemma triple_attempt [triple_intros]:
  "triple P m (\<lambda>x. Q (Inr x)) (\<lambda>e. Q (Inl e)) \<Longrightarrow> triple P (attempt m) Q E"
proof (rule tripleI)
  fix s x t
  assume "triple P m (\<lambda>x. Q (Inr x)) (\<lambda>e. Q (Inl e))" and "P s" and "attempt m s = (Inr x, t)"
  then show "Q x t" by (cases x) (auto dest: triple_InrD triple_InlD)
qed simp

lemma triple_ignoreErr [triple_intros]:
  "triple P m (\<lambda>_. Q ()) (\<lambda>_. Q ()) \<Longrightarrow> triple P (ignoreErr m) Q E"
proof (rule tripleI)
  fix s x t
  assume "triple P m (\<lambda>_. Q ()) (\<lambda>_. Q ())" and "P s" and "ignoreErr m s = (Inr x, t)"
  then show "Q x t"
    by (cases "m s"; cases "fst (m s)") (auto simp: ignoreErr_run dest: triple_InrD triple_InlD)
qed (simp add: ignoreErr_run)

lemma triple_if [triple_intros]:
  "(b \<Longrightarrow> triple P m Q E) \<Longrightarrow> (\<not> b \<Longrightarrow> triple P n Q E) \<Longrightarrow> triple P (if b then m else n) Q E"
  by simp

lemma triple_gets [triple_intros]: "(\<And>s. P s \<Longrightarrow> Q (f s) s) \<Longrightarrow> triple P (gets f) Q E"
  by (rule tripleI) auto

lemma triple_false [simp]: "triple (\<lambda>_. False) m Q E"
  by (simp add: triple_def)

lemma triple_case_sum [triple_intros]:
  "(\<And>e. r = Inl e \<Longrightarrow> triple P (f e) Q E) \<Longrightarrow> (\<And>x. r = Inr x \<Longrightarrow> triple P (g x) Q E) \<Longrightarrow>
     triple P (case r of Inl e \<Rightarrow> f e | Inr x \<Rightarrow> g x) Q E"
  by (cases r) auto

lemma triple_case_option [triple_intros]:
  "(r = None \<Longrightarrow> triple P f Q E) \<Longrightarrow> (\<And>x. r = Some x \<Longrightarrow> triple P (g x) Q E) \<Longrightarrow>
     triple P (case r of None \<Rightarrow> f | Some x \<Rightarrow> g x) Q E"
  by (cases r) auto

text \<open>Calls that cannot fail, under \<open>attempt\<close> and \<open>ignoreErr\<close>.\<close>

lemma triple_total: "triple P m Q (\<lambda>_ _. False) \<Longrightarrow> triple P m Q E"
  by (erule triple_conseq) auto

lemma attempt_total:
  "triple P m Q (\<lambda>_ _. False) \<Longrightarrow> triple P (attempt m) (\<lambda>r s. \<exists>x. r = Inr x \<and> Q x s) E"
  by (rule triple_attempt, erule triple_conseq) auto

lemma ignoreErr_total:
  "triple P m (\<lambda>_. Q) (\<lambda>_ _. False) \<Longrightarrow> triple P (ignoreErr m) (\<lambda>_. Q) E"
  by (rule triple_ignoreErr, erule triple_conseq) auto

end
