(* ===== verification/Workers.thy ===== *)
theory Workers
  imports OperationService World Triples
begin

text \<open>
  What the background workers of the Manager share. \<open>opCall\<close> is a call of the operation service from a
  worker, with the clock read for it. The triples of actions are lifted to the database, and the calls
  of the operation service have one rule.
\<close>

section \<open>Reports of the Provisioner\<close>

text \<open>\<^verbatim>\<open>%q\<close> for text of printable ASCII characters.\<close>

definition goQuote :: "string \<Rightarrow> string" where
  "goQuote s = CHR 0x22 # concat (map (\<lambda>c. if c = CHR 0x22 \<or> c = CHR 0x5C then [CHR 0x5C, c] else [c]) s) @ [CHR 0x22]"

text \<open>\<^verbatim>\<open>errors.As\<close> for the two error types of the private API: the first match in the chain.\<close>

fun asClientError :: "goerr \<Rightarrow> (bool \<times> bool \<times> bool) option" where
  "asClientError (ClientError code m rolledBack known changed) = Some (rolledBack, known, changed)"
| "asClientError (Errorf a e b) = asClientError e"
| "asClientError (ReconcileFailure c rolledBack changed unknown) = asClientError c"
| "asClientError (Joined es) = (case filter (\<lambda>r. r \<noteq> None) (map asClientError es) of [] \<Rightarrow> None | r # _ \<Rightarrow> r)"
| "asClientError (Sentinel s) = None"
| "asClientError (ErrorsNew m) = None"
| "asClientError (UniqueViolation c) = None"
| "asClientError ForeignKeyViolation = None"
| "asClientError (ScanNull c) = None"
| "asClientError (FieldError field message) = None"
| "asClientError (ValidationError problems) = None"

fun asReconcileFailure :: "goerr \<Rightarrow> (bool \<times> bool) option" where
  "asReconcileFailure (ReconcileFailure c rolledBack changed unknown) = Some (rolledBack, changed)"
| "asReconcileFailure (Errorf a e b) = asReconcileFailure e"
| "asReconcileFailure (Joined es) = (case filter (\<lambda>r. r \<noteq> None) (map asReconcileFailure es) of [] \<Rightarrow> None | r # _ \<Rightarrow> r)"
| "asReconcileFailure (ClientError code m rolledBack known changed) = None"
| "asReconcileFailure (Sentinel s) = None"
| "asReconcileFailure (ErrorsNew m) = None"
| "asReconcileFailure (UniqueViolation c) = None"
| "asReconcileFailure ForeignKeyViolation = None"
| "asReconcileFailure (ScanNull c) = None"
| "asReconcileFailure (FieldError field message) = None"
| "asReconcileFailure (ValidationError problems) = None"

text \<open>\<^verbatim>\<open>errors.As(err, &outcome) && outcome.RollbackSucceeded()\<close>\<close>

definition rollbackSucceeded :: "goerr \<Rightarrow> bool" where
  "rollbackSucceeded e = (case asClientError e of None \<Rightarrow> False | Some (rolledBack, known, changed) \<Rightarrow> rolledBack)"

section \<open>Triples over the database\<close>

text \<open>What holds of the database holds after a question to the environment or a request.\<close>

lemma triple_sameDb:
  assumes "obeys sameDb m"
  shows "triple (\<lambda>w. P (w_DB w)) m (\<lambda>_ w. P (w_DB w)) (\<lambda>_ w. P (w_DB w))"
  by (rule tripleI) (use obeysD [OF assms] in \<open>auto simp: sameDb_def\<close>)

lemma attempt_sameDb:
  "obeys sameDb m \<Longrightarrow> triple (\<lambda>w. P (w_DB w)) (attempt m) (\<lambda>_ w. P (w_DB w)) E"
  by (rule triple_attempt, rule triple_sameDb)

lemma triple_onDb:
  assumes "triple P m Q E"
  shows "triple (\<lambda>w. P (w_DB w)) (onDb m) (\<lambda>x w. Q x (w_DB w)) (\<lambda>e w. E e (w_DB w))"
  by (rule tripleI) (auto simp: onDb_eq dest: triple_InrD [OF assms] triple_InlD [OF assms])

section \<open>Calls of the operation service\<close>

definition opCall :: "environment \<Rightarrow> (gotime \<Rightarrow> (database, 'a) act) \<Rightarrow> (world, 'a) act" where
  "opCall env f = andThen (currentTime env) (\<lambda>now. onDb (f now))"

text \<open>\<^verbatim>\<open>latest, _ := Service.Get\<close>: \<open>None\<close> stands for the zero value Go leaves when the read fails.\<close>

definition latestOperation :: "string \<Rightarrow> (world, Operation option) act" where
  "latestOperation oid = andThen (attempt (onDb (GetOperation oid))) (\<lambda>r.
     case r of Inl e \<Rightarrow> ret None | Inr op \<Rightarrow> ret (Some op))"

text \<open>The operation is in the table, readable, in project \<open>pid\<close>, with status \<open>s\<close>.\<close>

definition opAt :: "database \<Rightarrow> string \<Rightarrow> string \<Rightarrow> OperationStatus \<Rightarrow> bool" where
  "opAt d oid pid s = (case find (\<lambda>r. o_ID r = oid) (operations d) of
      None \<Rightarrow> False | Some r \<Rightarrow> o_ProjectID r = Some pid \<and> o_Status r = s)"

text \<open>Everything in the database but the operations and their events.\<close>

definition rest :: "database \<Rightarrow> database" where
  "rest d = d\<lparr>operations := [], operationEvents := []\<rparr>"

lemma rest_simps [simp]:
  "projects (rest d) = projects d" "projectConfigs (rest d) = projectConfigs d"
  "canonicalConfigs (rest d) = canonicalConfigs d" "projectServices (rest d) = projectServices d"
  "projectSecrets (rest d) = projectSecrets d" "portAllocations (rest d) = portAllocations d"
  "operationConfigs (rest d) = operationConfigs d" "leases (rest d) = leases d"
  "reservations (rest d) = reservations d" "functionOperations (rest d) = functionOperations d"
  "secretVersions (rest d) = secretVersions d" "secretMarkers (rest d) = secretMarkers d"
  "operationSecrets (rest d) = operationSecrets d"
  by (simp_all add: rest_def)

lemma opAt_iff:
  "opAt d oid pid s \<longleftrightarrow> (\<exists>op. GetOperation oid d = (Inr op, d) \<and> op_Status op = s \<and> op_ProjectID op = pid \<and> op_ID op = oid)"
  by (auto simp: opAt_def GetOperation_def operationOf_def split: option.splits dest: find_SomeD)

lemma opAt_statusOf: "opAt d oid pid s \<Longrightarrow> statusOf d oid = Some s"
  by (auto simp: opAt_def statusOf_def split: option.splits)

lemma opAt_rest: "operations d = operations d' \<Longrightarrow> opAt d oid pid s = opAt d' oid pid s"
  by (simp add: opAt_def)

lemma update_at:
  assumes "opAt d oid pid s" and "GetOperation oid d = (Inr op, d)" and "up_Status u = s'"
  shows "\<exists>d'. update op u d = (Inr (), d') \<and> opAt d' oid pid s' \<and> rest d' = rest d"
proof -
  note g = GetOperation_SomeD [OF assms(2)]
  define v where "v = (if up_StartedAt u = None then u\<lparr>up_StartedAt := op_StartedAt op\<rparr> else u)"
  have v: "up_Status v = s'" using assms(3) by (simp add: v_def)
  obtain r where r: "find (\<lambda>r. o_ID r = oid) (operations d) = Some r" "o_ProjectID r = Some pid"
    using assms(1) by (auto simp: opAt_def split: option.splits)
  have "find (\<lambda>r. o_ID r = oid) (updateWhere (\<lambda>r. o_ID r = oid) (applyUpdate v) (operations d)) = Some (applyUpdate v r)"
    using r(1) find_SomeD [OF r(1)] by (subst find_updateWhere) (auto simp: applyUpdate_def)
  then show ?thesis
    using g r(2) v UpdateOperation_run [OF g(4), of v]
    by (auto simp: update_def v_def [symmetric] opAt_def rest_def applyUpdate_def)
qed

lemma perform_at:
  assumes "transition c = Some (oid, s, s')"
  shows "triple (\<lambda>d. opAt d oid pid s \<and> F (rest d)) (perform c) (\<lambda>_ d. opAt d oid pid s' \<and> F (rest d)) (\<lambda>_ _. False)"
proof -
  from assms obtain u where c: "perform c = andThen (requireStatus oid s) (\<lambda>op. update op (u op))"
    and u: "\<And>op. up_Status (u op) = s'"
    by (cases c) (auto simp: call_defs)
  have "\<exists>d'. perform c d = (Inr (), d') \<and> opAt d' oid pid s' \<and> rest d' = rest d" if at: "opAt d oid pid s" for d
  proof -
    obtain op where op: "GetOperation oid d = (Inr op, d)" "op_Status op = s"
      using at by (auto simp: opAt_iff)
    then have "requireStatus oid s d = (Inr op, d)" by (simp add: requireStatus_eq_Inr)
    then show ?thesis using update_at [OF at op(1) u] by (simp add: c)
  qed
  then show ?thesis by (intro tripleI) (metis Inl_Inr_False fst_conv snd_conv)+
qed

lemma opCall_at:
  assumes "\<And>now. transition (c now) = Some (oid, s, s')" and "\<And>now. perform (c now) = f now"
  shows "triple (\<lambda>w. opAt (w_DB w) oid pid s \<and> F (rest (w_DB w))) (opCall env f)
    (\<lambda>_ w. opAt (w_DB w) oid pid s' \<and> F (rest (w_DB w))) (\<lambda>_ _. False)"
  unfolding opCall_def
proof (rule triple_andThen)
  show "triple (\<lambda>w. opAt (w_DB w) oid pid s \<and> F (rest (w_DB w))) (currentTime env)
      (\<lambda>_ w. opAt (w_DB w) oid pid s \<and> F (rest (w_DB w))) (\<lambda>_ _. False)"
    by (rule tripleI) (auto simp: currentTime_def)
  show "triple (\<lambda>w. opAt (w_DB w) oid pid s \<and> F (rest (w_DB w))) (onDb (f now))
    (\<lambda>_ w. opAt (w_DB w) oid pid s' \<and> F (rest (w_DB w))) (\<lambda>_ _. False)" for now
    using triple_onDb [OF perform_at [OF assms(1) [of now], where pid = pid and F = F]] assms(2) [of now] by simp
qed

lemmas opCall_Start = opCall_at [where c = "\<lambda>now. CallStart now oid" for oid, OF transition.simps(2) perform.simps(2)]
lemmas opCall_StartStep = opCall_at [where c = "\<lambda>now. CallStartStep now oid step progress" for oid step progress,
  OF transition.simps(3) perform.simps(3)]
lemmas opCall_CompleteStep = opCall_at [where c = "\<lambda>now. CallCompleteStep now oid step progress" for oid step progress,
  OF transition.simps(4) perform.simps(4)]
lemmas opCall_Fail = opCall_at [where c = "\<lambda>now. CallFail now oid step cause" for oid step cause,
  OF transition.simps(5) perform.simps(5)]
lemmas opCall_BeginRollback = opCall_at [where c = "\<lambda>now. CallBeginRollback now oid" for oid,
  OF transition.simps(6) perform.simps(6)]
lemmas opCall_CompleteRollback = opCall_at [where c = "\<lambda>now. CallCompleteRollback now oid" for oid,
  OF transition.simps(7) perform.simps(7)]
lemmas opCall_Succeed = opCall_at [where c = "\<lambda>now. CallSucceed now oid" for oid,
  OF transition.simps(8) perform.simps(8)]

lemmas opCall_triples = opCall_Start opCall_StartStep opCall_CompleteStep opCall_Fail opCall_BeginRollback
  opCall_CompleteRollback opCall_Succeed

lemmas opCall_plain = opCall_triples [where F = "\<lambda>_. True", unfolded simp_thms]

text \<open>A call that cannot fail in the given status, before what follows it.\<close>

lemma after_attempt:
  assumes "triple P m (\<lambda>_. R) (\<lambda>_ _. False)" and "\<And>x. triple R (k (Inr x)) Q E"
  shows "triple P (andThen (attempt m) k) Q E"
proof (rule triple_andThen [OF attempt_total [OF assms(1)]])
  show "triple (\<lambda>s. \<exists>x. r = Inr x \<and> R s) (k r) Q E" for r
    using assms(2) by (cases r) simp_all
qed

lemma after_ignoreErr:
  assumes "triple P m (\<lambda>_. R) (\<lambda>_ _. False)" and "triple R (k ()) Q E"
  shows "triple P (andThen (ignoreErr m) k) Q E"
  by (rule triple_andThen [OF ignoreErr_total [OF assms(1)]]) (use assms(2) in simp)

lemma after_request:
  assumes "obeys sameDb m" and "\<And>r. triple (\<lambda>w. P (w_DB w)) (k r) Q E"
  shows "triple (\<lambda>w. P (w_DB w)) (andThen (attempt m) k) Q E"
  by (rule triple_andThen [OF attempt_sameDb [OF assms(1)] assms(2)])

lemma GetOperation_at:
  "triple (\<lambda>w. opAt (w_DB w) oid pid s \<and> F (rest (w_DB w))) (onDb (GetOperation oid))
     (\<lambda>op w. op_Status op = s \<and> op_ID op = oid \<and> opAt (w_DB w) oid pid s \<and> F (rest (w_DB w))) (\<lambda>_ _. False)"
  by (rule tripleI) (auto simp: onDb_eq opAt_iff)

lemma latestOperation_at:
  "triple (\<lambda>w. opAt (w_DB w) oid pid s \<and> F (rest (w_DB w))) (latestOperation oid)
     (\<lambda>op w. (\<exists>o'. op = Some o' \<and> op_Status o' = s) \<and> opAt (w_DB w) oid pid s \<and> F (rest (w_DB w))) (\<lambda>_ _. False)"
  unfolding latestOperation_def
  by (rule tripleI) (auto simp: andThen_def attempt_def onDb_run opAt_iff split: sum.splits)

end
