(* ===== verification/LifecycleService.thy ===== *)
theory LifecycleService
  imports Workers
begin

text \<open>
  \<^verbatim>\<open>lifecycle/service.go\<close>: starting, stopping, restarting and deleting a project. \<open>Run\<close> is the worker of
  a queued operation; it returns the operation (\<open>None\<close> for Go's zero value) together with the error,
  as the source does. The properties say when the operation ends, what the project row says then, and
  when data may be deleted.
\<close>

datatype Action =
    ActionStart | ActionStop | ActionRestart | ActionDeleteRuntime | ActionDeleteData
  | ActionOther string

fun actionText :: "Action \<Rightarrow> string" where
  "actionText ActionStart = ''START''"
| "actionText ActionStop = ''STOP''"
| "actionText ActionRestart = ''RESTART''"
| "actionText ActionDeleteRuntime = ''DELETE_RUNTIME''"
| "actionText ActionDeleteData = ''DELETE_DATA''"
| "actionText (ActionOther text) = text"

fun provisionerAction :: "Action \<Rightarrow> LifecycleAction" where
  "provisionerAction ActionStart = LifecycleStart"
| "provisionerAction ActionStop = LifecycleStop"
| "provisionerAction ActionRestart = LifecycleRestart"
| "provisionerAction ActionDeleteRuntime = LifecycleDeleteRuntime"
| "provisionerAction ActionDeleteData = LifecycleDeleteData"
| "provisionerAction (ActionOther text) = LifecycleUnset"

fun operationTypeOf :: "Action \<Rightarrow> OperationType option" where
  "operationTypeOf ActionStart = Some OperationStart"
| "operationTypeOf ActionStop = Some OperationStop"
| "operationTypeOf ActionRestart = Some OperationRestart"
| "operationTypeOf ActionDeleteRuntime = Some OperationDelete"
| "operationTypeOf ActionDeleteData = Some OperationDelete"
| "operationTypeOf (ActionOther text) = None"

definition CreateWith :: "environment \<Rightarrow> string \<Rightarrow> OperationType \<Rightarrow> (world, Operation) act" where
  "CreateWith env pid typ = andThen (ask (e_ID env)) (\<lambda>oid. opCall env (\<lambda>now. Create oid now pid typ))"

definition Queue :: "environment \<Rightarrow> Project \<Rightarrow> Action \<Rightarrow> string \<Rightarrow> (world, Operation) act" where
  "Queue env project action confirmation =
     (if action = ActionDeleteData \<and> confirmation \<noteq> p_Name project
      then throw (ErrorsNew ''exact server name confirmation is required'')
      else case operationTypeOf action of
          None \<Rightarrow> throw (ErrorsNew (''unsupported lifecycle action '' @ goQuote (actionText action)))
        | Some typ \<Rightarrow> CreateWith env (p_ID project) typ)"

definition lifecycleRequest :: "string \<Rightarrow> Project \<Rightarrow> Action \<Rightarrow> string \<Rightarrow> LifecycleRequest" where
  "lifecycleRequest oid project action confirmation = \<lparr>lr_OperationID = oid,
     lr_IdempotencyKey = oid @ '':'' @ actionText action, lr_ProjectID = p_ID project,
     lr_ProjectName = p_Name project, lr_Slug = p_Slug project, lr_Action = provisionerAction action,
     lr_ConfirmProjectName = confirmation\<rparr>"

definition ForceDelete :: "environment \<Rightarrow> Project \<Rightarrow> Action \<Rightarrow> string \<Rightarrow> (world, unit) act" where
  "ForceDelete env project action confirmation =
     (if action \<noteq> ActionDeleteRuntime \<and> action \<noteq> ActionDeleteData
      then throw (ErrorsNew (''unsupported delete action '' @ goQuote (actionText action)))
      else if action = ActionDeleteData \<and> confirmation \<noteq> p_Name project
      then throw (ErrorsNew ''exact server name confirmation is required'')
      else andThen (currentTime env) (\<lambda>now.
        let oid = ''force-delete-'' @ p_ID project @ ''-'' @ itoa now in
        andThen (Lifecycle env (lifecycleRequest oid project action confirmation)) (\<lambda>_.
        if action = ActionDeleteData then onDb (DeleteProject (p_ID project))
        else opCall env (UpdateProjectStatus (p_ID project) ProjectStatusStopped HealthStopped))))"

text \<open>What happens after the Provisioner agreed: the new status of the project or its deletion.\<close>

definition afterAction ::
  "environment \<Rightarrow> Project \<Rightarrow> Action \<Rightarrow> (world, (string \<times> goerr) option) act" where
  "afterAction env project action =
     (let finish = (\<lambda>status health. andThen (attempt (opCall env (UpdateProjectStatus (p_ID project) status health)))
            (\<lambda>r. case r of Inl e \<Rightarrow> ret (Some (''UPDATE_PROJECT'', e)) | Inr _ \<Rightarrow> ret None))
      in case action of
          ActionStop \<Rightarrow> finish ProjectStatusStopped HealthStopped
        | ActionDeleteRuntime \<Rightarrow> finish ProjectStatusStopped HealthStopped
        | ActionDeleteData \<Rightarrow> andThen (attempt (onDb (DeleteProject (p_ID project)))) (\<lambda>r.
            case r of Inl e \<Rightarrow> ret (Some (''DELETE_METADATA'', e)) | Inr _ \<Rightarrow> ret None)
        | _ \<Rightarrow> andThen (attempt (Inspect env \<lparr>ir_ProjectID = p_ID project, ir_Slug = p_Slug project,
                    ir_EnabledServices = []\<rparr>)) (\<lambda>r.
            case r of Inl e \<Rightarrow> ret (Some (''HEALTH_CHECK'', e))
                    | Inr health \<Rightarrow> finish ProjectStatusRunning health))"

definition Run :: "environment \<Rightarrow> Project \<Rightarrow> Action \<Rightarrow> Operation \<Rightarrow>
    (world, Operation option \<times> goerr option) act" where
  "Run env project action queued =
     (let oid = op_ID queued; step = actionText action in
      andThen (attempt (opCall env (\<lambda>now. Start now oid))) (\<lambda>started. case started of
          Inl e \<Rightarrow> ret (Some queued, Some e)
        | Inr _ \<Rightarrow>
      andThen (ignoreErr (opCall env (\<lambda>now. StartStep now oid step 25))) (\<lambda>_.
      andThen (attempt (Lifecycle env (lifecycleRequest oid project action (p_Name project)))) (\<lambda>done. case done of
          Inl e \<Rightarrow> andThen (ignoreErr (opCall env (\<lambda>now. Fail now oid step e))) (\<lambda>_.
                   andThen (latestOperation oid) (\<lambda>latest. ret (latest, Some e)))
        | Inr _ \<Rightarrow>
      andThen (ignoreErr (opCall env (\<lambda>now. CompleteStep now oid step 90))) (\<lambda>_.
      andThen (afterAction env project action) (\<lambda>failure. case failure of
          Some (failedStep, e) \<Rightarrow> andThen (ignoreErr (opCall env (\<lambda>now. Fail now oid failedStep e))) (\<lambda>_.
             ret (Some queued, Some e))
        | None \<Rightarrow>
      andThen (attempt (opCall env (\<lambda>now. Succeed now oid))) (\<lambda>ended. case ended of
          Inl e \<Rightarrow> ret (Some queued, Some e)
        | Inr _ \<Rightarrow> andThen (attempt (onDb (GetOperation oid))) (\<lambda>got. case got of
             Inl e \<Rightarrow> ret (None, Some e) | Inr op \<Rightarrow> ret (Some op, None)))))))))"

section \<open>Outcome of a run\<close>

definition targetStatus :: "Action \<Rightarrow> ProjectStatus" where
  "targetStatus action =
     (if action = ActionStop \<or> action = ActionDeleteRuntime then ProjectStatusStopped else ProjectStatusRunning)"

definition projectShows :: "database \<Rightarrow> string \<Rightarrow> Action \<Rightarrow> bool" where
  "projectShows d pid action = (case find (\<lambda>p. p_ID p = pid) (projects d) of
      None \<Rightarrow> False
    | Some p \<Rightarrow> p_Status p = targetStatus action \<and>
        (targetStatus action = ProjectStatusStopped \<longrightarrow> p_Health p = HealthStopped))"

lemma projectShows_rest [simp]: "projectShows (rest d) pid action = projectShows d pid action"
  by (simp add: projectShows_def)

lemma UpdateProjectStatus_shows:
  "triple (\<lambda>w. opAt (w_DB w) oid q s) (opCall env (UpdateProjectStatus pid status health))
     (\<lambda>_ w. opAt (w_DB w) oid q s \<and>
        (\<exists>p. find (\<lambda>p. p_ID p = pid) (projects (w_DB w)) = Some p \<and> p_Status p = status \<and> p_Health p = health))
     (\<lambda>_ w. opAt (w_DB w) oid q s)"
proof (rule tripleI)
  fix w x w'
  assume at: "opAt (w_DB w) oid q s" and run: "opCall env (UpdateProjectStatus pid status health) w = (Inr x, w')"
  obtain now where "pid \<in> projectIds (w_DB w)" and projects: "w_DB w' = (w_DB w)\<lparr>projects := updateWhere (\<lambda>p. p_ID p = pid)
      (\<lambda>p. p\<lparr>p_Status := status, p_Health := health, p_UpdatedAt := now\<rparr>) (projects (w_DB w))\<rparr>"
    using run by (auto simp: opCall_def andThen_def currentTime_def onDb_run UpdateProjectStatus_def split: if_splits)
  then obtain p where p: "find (\<lambda>p. p_ID p = pid) (projects (w_DB w)) = Some p"
    by (cases "find (\<lambda>p. p_ID p = pid) (projects (w_DB w))") (auto simp: find_None_iff projectIds_def)
  with find_SomeD [OF p] at projects show "opAt (w_DB w') oid q s \<and>
      (\<exists>p. find (\<lambda>p. p_ID p = pid) (projects (w_DB w')) = Some p \<and> p_Status p = status \<and> p_Health p = health)"
    by (simp add: find_updateWhere opAt_def)
qed (auto simp: opCall_def andThen_def currentTime_def onDb_run UpdateProjectStatus_def split: if_splits)

lemma finish_shows:
  assumes "status = targetStatus action" and "status = ProjectStatusStopped \<Longrightarrow> health = HealthStopped"
  shows "triple (\<lambda>w. opAt (w_DB w) oid q s)
    (andThen (attempt (opCall env (UpdateProjectStatus pid status health)))
       (\<lambda>r. case r of Inl e \<Rightarrow> ret (Some (''UPDATE_PROJECT'', e)) | Inr _ \<Rightarrow> ret None))
    (\<lambda>f w. opAt (w_DB w) oid q s \<and> (f = None \<longrightarrow> projectShows (w_DB w) pid action)) (\<lambda>_ _. False)"
proof (rule triple_andThen)
  show "triple (\<lambda>w. opAt (w_DB w) oid q s) (attempt (opCall env (UpdateProjectStatus pid status health)))
     (\<lambda>r w. opAt (w_DB w) oid q s \<and> (\<forall>x. r = Inr x \<longrightarrow> projectShows (w_DB w) pid action)) (\<lambda>_ _. False)"
    by (rule triple_attempt, rule triple_conseq [OF UpdateProjectStatus_shows])
      (use assms in \<open>auto simp: projectShows_def\<close>)
qed (auto intro!: triple_intros)

lemma afterAction_shows:
  assumes "action \<noteq> ActionDeleteData"
  shows "triple (\<lambda>w. opAt (w_DB w) oid q s) (afterAction env project action)
    (\<lambda>f w. opAt (w_DB w) oid q s \<and> (f = None \<longrightarrow> projectShows (w_DB w) (p_ID project) action)) (\<lambda>_ _. False)"
proof -
  note inspected = triple_andThen [OF attempt_sameDb [OF sameDb_Inspect, where P = "\<lambda>d. opAt d oid q s"]]
  have "triple (\<lambda>w. opAt (w_DB w) oid q s) (andThen (attempt (Inspect env request)) (\<lambda>r.
        case r of Inl e \<Rightarrow> ret (Some (''HEALTH_CHECK'', e))
        | Inr health \<Rightarrow> andThen (attempt (opCall env (UpdateProjectStatus (p_ID project) ProjectStatusRunning health)))
            (\<lambda>r. case r of Inl e \<Rightarrow> ret (Some (''UPDATE_PROJECT'', e)) | Inr _ \<Rightarrow> ret None)))
    (\<lambda>f w. opAt (w_DB w) oid q s \<and> (f = None \<longrightarrow> projectShows (w_DB w) (p_ID project) action)) (\<lambda>_ _. False)"
    if "targetStatus action = ProjectStatusRunning" for request
    by (rule inspected) (auto intro!: triple_case_sum triple_ret finish_shows simp: that)
  with assms show ?thesis
    by (cases action) (auto simp: afterAction_def Let_def targetStatus_def intro!: finish_shows)
qed

definition runOutcome :: "Project \<Rightarrow> Action \<Rightarrow> string \<Rightarrow> string \<Rightarrow> Operation option \<times> goerr option \<Rightarrow> world \<Rightarrow> bool" where
  "runOutcome project action oid q result w = (case result of
      (op, Some e) \<Rightarrow> opAt (w_DB w) oid q OperationFailed
    | (op, None) \<Rightarrow> opAt (w_DB w) oid q OperationSucceeded \<and>
        projectShows (w_DB w) (p_ID project) action \<and> map_option op_Status op = Some OperationSucceeded)"

lemma Run_finishes:
  "triple (\<lambda>w. opAt (w_DB w) oid q OperationRunning \<and> projectShows (w_DB w) (p_ID project) action)
    (andThen (attempt (opCall env (\<lambda>now. Succeed now oid))) (\<lambda>ended. case ended of
          Inl e \<Rightarrow> ret (Some queued, Some e)
        | Inr _ \<Rightarrow> andThen (attempt (onDb (GetOperation oid))) (\<lambda>got. case got of
             Inl e \<Rightarrow> ret (None, Some e) | Inr op \<Rightarrow> ret (Some op, None))))
    (runOutcome project action oid q) (\<lambda>_ _. False)"
proof (rule after_attempt)
  show "triple (\<lambda>w. opAt (w_DB w) oid q OperationRunning \<and> projectShows (w_DB w) (p_ID project) action)
      (opCall env (\<lambda>now. Succeed now oid))
      (\<lambda>_ w. opAt (w_DB w) oid q OperationSucceeded \<and> projectShows (w_DB w) (p_ID project) action) (\<lambda>_ _. False)"
    using opCall_Succeed [where F = "\<lambda>d. projectShows d (p_ID project) action"] by simp
  have got: "triple (\<lambda>w. opAt (w_DB w) oid q OperationSucceeded \<and> projectShows (w_DB w) (p_ID project) action)
      (onDb (GetOperation oid)) (\<lambda>op w. runOutcome project action oid q (Some op, None) w) (\<lambda>_ _. False)"
    by (rule triple_conseq [OF GetOperation_at [where F = "\<lambda>d. projectShows d (p_ID project) action"
          and s = OperationSucceeded and pid = q]]) (simp_all add: runOutcome_def)
  show "triple (\<lambda>w. opAt (w_DB w) oid q OperationSucceeded \<and> projectShows (w_DB w) (p_ID project) action)
      (case Inr x of Inl e \<Rightarrow> ret (Some queued, Some e)
        | Inr _ \<Rightarrow> andThen (attempt (onDb (GetOperation oid))) (\<lambda>got. case got of
             Inl e \<Rightarrow> ret (None, Some e) | Inr op \<Rightarrow> ret (Some op, None)))
      (runOutcome project action oid q) (\<lambda>_ _. False)" for x
    by (simp, rule triple_andThen [OF attempt_total [OF got]]) (auto intro!: triple_case_sum triple_ret)
qed

lemma Run_triple:
  assumes "action \<noteq> ActionDeleteData"
  shows "triple (\<lambda>w. opAt (w_DB w) (op_ID queued) q OperationQueued) (Run env project action queued)
    (runOutcome project action (op_ID queued) q) (\<lambda>_ _. False)"
proof -
  let ?oid = "op_ID queued" and ?step = "actionText action"
  let ?at = "\<lambda>s w. opAt (w_DB w) ?oid q s"
  have failed: "triple (?at OperationRunning)
      (andThen (ignoreErr (opCall env (\<lambda>now. Fail now ?oid step e))) (\<lambda>_. ret (Some queued, Some e)))
      (runOutcome project action ?oid q) (\<lambda>_ _. False)" for step e
    by (rule after_ignoreErr [OF opCall_plain(4)]) (auto intro!: triple_ret simp: runOutcome_def)
  have rejected: "triple (?at OperationRunning)
      (andThen (ignoreErr (opCall env (\<lambda>now. Fail now ?oid step e))) (\<lambda>_.
         andThen (latestOperation ?oid) (\<lambda>latest. ret (latest, Some e))))
      (runOutcome project action ?oid q) (\<lambda>_ _. False)" for step e
    by (rule after_ignoreErr [OF opCall_plain(4)],
        rule triple_andThen [OF latestOperation_at [where F = "\<lambda>_. True", unfolded simp_thms]])
      (auto intro!: triple_ret simp: runOutcome_def)
  have acted: "triple (?at OperationRunning) (andThen (afterAction env project action) (\<lambda>failure. case failure of
          Some (failedStep, e) \<Rightarrow> andThen (ignoreErr (opCall env (\<lambda>now. Fail now ?oid failedStep e))) (\<lambda>_.
             ret (Some queued, Some e))
        | None \<Rightarrow> andThen (attempt (opCall env (\<lambda>now. Succeed now ?oid))) (\<lambda>ended. case ended of
          Inl e \<Rightarrow> ret (Some queued, Some e)
        | Inr _ \<Rightarrow> andThen (attempt (onDb (GetOperation ?oid))) (\<lambda>got. case got of
             Inl e \<Rightarrow> ret (None, Some e) | Inr op \<Rightarrow> ret (Some op, None)))))
      (runOutcome project action ?oid q) (\<lambda>_ _. False)"
  proof (rule triple_andThen [OF afterAction_shows [OF assms]])
    show "triple (\<lambda>w. ?at OperationRunning w \<and> (f = None \<longrightarrow> projectShows (w_DB w) (p_ID project) action))
      (case f of Some (failedStep, e) \<Rightarrow> andThen (ignoreErr (opCall env (\<lambda>now. Fail now ?oid failedStep e))) (\<lambda>_.
             ret (Some queued, Some e))
        | None \<Rightarrow> andThen (attempt (opCall env (\<lambda>now. Succeed now ?oid))) (\<lambda>ended. case ended of
          Inl e \<Rightarrow> ret (Some queued, Some e)
        | Inr _ \<Rightarrow> andThen (attempt (onDb (GetOperation ?oid))) (\<lambda>got. case got of
             Inl e \<Rightarrow> ret (None, Some e) | Inr op \<Rightarrow> ret (Some op, None))))
      (runOutcome project action ?oid q) (\<lambda>_ _. False)" for f
      using Run_finishes failed by (cases f) auto
  qed
  show ?thesis
    unfolding Run_def Let_def
    apply (rule after_attempt [OF opCall_plain(1)], simp)
    apply (rule after_ignoreErr [OF opCall_plain(2)])
    apply (rule after_request [OF sameDb_Lifecycle], rule triple_case_sum)
     apply (rule rejected)
    apply (rule after_ignoreErr [OF opCall_plain(3)])
    apply (rule acted)
    done
qed

text \<open>
  (C14) A lifecycle operation always ends. Whatever the Provisioner answers, running a queued start, stop,
  restart or runtime deletion leaves the operation failed, with the error returned, or succeeded with
  no error; in the second case the project row has the status of the action.
\<close>

theorem lifecycle_run_ends:
  assumes "opAt (w_DB w) (op_ID queued) q OperationQueued" and "action \<noteq> ActionDeleteData"
  shows "\<exists>op err w'. Run env project action queued w = (Inr (op, err), w') \<and>
    (case err of
       Some e \<Rightarrow> opAt (w_DB w') (op_ID queued) q OperationFailed
     | None \<Rightarrow> opAt (w_DB w') (op_ID queued) q OperationSucceeded \<and>
         projectShows (w_DB w') (p_ID project) action \<and> map_option op_Status op = Some OperationSucceeded)"
proof -
  obtain op err w' where run: "Run env project action queued w = (Inr (op, err), w')"
    and "runOutcome project action (op_ID queued) q (op, err) w'"
    using triple_returns [OF Run_triple [OF assms(2)] assms(1), of env project] by auto
  then show ?thesis by (cases err) (auto simp: runOutcome_def)
qed

definition sampleQueued :: Operation where
  "sampleQueued = \<lparr>op_ID = ''op-1'', op_ProjectID = ''bee'', op_Type = OperationStop, op_Status = OperationQueued,
     op_CurrentStep = [], op_Progress = 0, op_ErrorCode = [], op_ErrorMessage = [], op_StartedAt = None,
     op_FinishedAt = None, op_CreatedAt = 0\<rparr>"

definition sampleQueuedWorld :: world where
  "sampleQueuedWorld = newWorld (snd (CreateOperation sampleQueued ''OPERATION_QUEUED'' [] sampleDatabase))"

theorem lifecycle_run_ends_witness:
  "opAt (w_DB sampleQueuedWorld) ''op-1'' ''bee'' OperationQueued \<and>
   (\<exists>op err w'. Run sampleEnvironment (sampleProject ''bee'' ''bee'') ActionStop sampleQueued sampleQueuedWorld =
      (Inr (op, err), w') \<and>
      (err = None \<longrightarrow> projectShows (w_DB w') ''bee'' ActionStop))"
proof -
  have "opAt (w_DB sampleQueuedWorld) (op_ID sampleQueued) ''bee'' OperationQueued" by code_simp
  moreover have "op_ID sampleQueued = ''op-1''" "p_ID (sampleProject ''bee'' ''bee'') = ''bee''" by code_simp+
  ultimately show ?thesis
    using lifecycle_run_ends [of sampleQueuedWorld sampleQueued "''bee''" ActionStop sampleEnvironment
        "sampleProject ''bee'' ''bee''"] by (auto split: option.splits)
qed

section \<open>Deleting data\<close>

definition opOrphan :: "database \<Rightarrow> string \<Rightarrow> OperationStatus \<Rightarrow> bool" where
  "opOrphan d oid s = (case find (\<lambda>r. o_ID r = oid) (operations d) of
      None \<Rightarrow> False | Some r \<Rightarrow> o_ProjectID r = None \<and> o_Status r = s)"

lemma opOrphan_statusOf: "opOrphan d oid s \<Longrightarrow> statusOf d oid = Some s"
  by (auto simp: opOrphan_def statusOf_def split: option.splits)

lemma orphan_unreadable: "opOrphan d oid s \<Longrightarrow> \<exists>e. GetOperation oid d = (Inl e, d)"
  by (auto simp: opOrphan_def GetOperation_def split: option.splits)

lemma DeleteProject_orphans:
  assumes "opAt d oid pid s" and "pid \<in> projectIds d"
  shows "\<exists>d'. DeleteProject pid d = (Inr (), d') \<and> opOrphan d' oid s \<and> pid \<notin> projectIds d'"
proof -
  obtain r where r: "find (\<lambda>r. o_ID r = oid) (operations d) = Some r" "o_ProjectID r = Some pid" "o_Status r = s"
    using assms(1) by (auto simp: opAt_def split: option.splits)
  have "find (\<lambda>r. o_ID r = oid) (operations (cascadeProject pid d)) = Some (r\<lparr>o_ProjectID := None\<rparr>)"
    using r by (simp add: cascadeProject_def find_updateWhere)
  with r assms(2) show ?thesis by (simp add: DeleteProject_def opOrphan_def)
qed

lemma Succeed_orphan:
  assumes "opOrphan (w_DB w) oid s"
  shows "\<exists>e w'. opCall env (\<lambda>now. Succeed now oid) w = (Inl e, w') \<and> w_DB w' = w_DB w"
proof -
  obtain e where e: "GetOperation oid (w_DB w) = (Inl e, w_DB w)" using orphan_unreadable [OF assms] by blast
  then have "requireStatus oid OperationRunning (w_DB w) = (Inl e, w_DB w)" by (simp add: requireStatus_def)
  then show ?thesis by (simp add: opCall_def andThen_def currentTime_def onDb_run Succeed_def)
qed

lemma Lifecycle_agrees:
  assumes "\<And>n. e_Lifecycle env n request = None"
  shows "triple (\<lambda>w. P (w_DB w)) (Lifecycle env request) (\<lambda>_ w. P (w_DB w)) (\<lambda>_ _. False)"
  by (rule tripleI) (auto simp: Lifecycle_def andThen_def assms)

text \<open>
  (C15) Deleting a project's data through the operation queue never completes: when the Provisioner has
  removed the data, the worker deletes the project, which detaches the operation from it, and then
  cannot read the operation to finish it. The run returns an error, the project is gone, and the
  operation keeps the status \<^verbatim>\<open>RUNNING\<close>.
\<close>

theorem delete_data_leaves_running:
  assumes "opAt (w_DB w) (op_ID queued) (p_ID project) OperationQueued"
    and "p_ID project \<in> projectIds (w_DB w)"
    and "\<And>n. e_Lifecycle env n (lifecycleRequest (op_ID queued) project ActionDeleteData (p_Name project)) = None"
  shows "\<exists>e w'. Run env project ActionDeleteData queued w = (Inr (Some queued, Some e), w') \<and>
    statusOf (w_DB w') (op_ID queued) = Some OperationRunning \<and> p_ID project \<notin> projectIds (w_DB w')"
proof -
  let ?oid = "op_ID queued" and ?pid = "p_ID project"
  let ?known = "\<lambda>d. ?pid \<in> p_ID ` set (projects d)"
  let ?Q = "\<lambda>result w'. (\<exists>e. result = (Some queued, Some e)) \<and>
    statusOf (w_DB w') ?oid = Some OperationRunning \<and> ?pid \<notin> projectIds (w_DB w')"
  note calls = opCall_triples [where F = ?known and pid = ?pid, simplified]
  have acted: "triple (\<lambda>w. opAt (w_DB w) ?oid ?pid OperationRunning \<and> ?known (w_DB w))
    (afterAction env project ActionDeleteData)
    (\<lambda>f w. f = None \<and> opOrphan (w_DB w) ?oid OperationRunning \<and> ?pid \<notin> projectIds (w_DB w)) (\<lambda>_ _. False)"
    by (rule tripleI) (use DeleteProject_orphans in \<open>fastforce simp: afterAction_def andThen_def attempt_def onDb_run
        projectIds_def split: sum.splits\<close>)+
  have ended: "triple (\<lambda>w. f = None \<and> opOrphan (w_DB w) ?oid OperationRunning \<and> ?pid \<notin> projectIds (w_DB w))
    (case f of Some (failedStep, e) \<Rightarrow> andThen (ignoreErr (opCall env (\<lambda>now. Fail now ?oid failedStep e))) (\<lambda>_.
             ret (Some queued, Some e))
        | None \<Rightarrow> andThen (attempt (opCall env (\<lambda>now. Succeed now ?oid))) (\<lambda>ended. case ended of
          Inl e \<Rightarrow> ret (Some queued, Some e)
        | Inr _ \<Rightarrow> andThen (attempt (onDb (GetOperation ?oid))) (\<lambda>got. case got of
             Inl e \<Rightarrow> ret (None, Some e) | Inr op \<Rightarrow> ret (Some op, None)))) ?Q (\<lambda>_ _. False)" for f
  proof (cases f)
    case None
    show ?thesis
      unfolding None option.case
    proof (rule triple_andThen)
      show "triple (\<lambda>w. None = None \<and> opOrphan (w_DB w) ?oid OperationRunning \<and> ?pid \<notin> projectIds (w_DB w))
          (attempt (opCall env (\<lambda>now. Succeed now ?oid)))
          (\<lambda>r w. isl r \<and> opOrphan (w_DB w) ?oid OperationRunning \<and> ?pid \<notin> projectIds (w_DB w)) (\<lambda>_ _. False)"
      proof (rule tripleI)
        fix w r w'
        assume "None = None \<and> opOrphan (w_DB w) ?oid OperationRunning \<and> ?pid \<notin> projectIds (w_DB w)"
          and "attempt (opCall env (\<lambda>now. Succeed now ?oid)) w = (Inr r, w')"
        with Succeed_orphan [of w ?oid OperationRunning env]
        show "isl r \<and> opOrphan (w_DB w') ?oid OperationRunning \<and> ?pid \<notin> projectIds (w_DB w')" by auto
      qed simp
    qed (auto intro!: triple_case_sum triple_ret simp: opOrphan_statusOf)
  qed simp
  have "triple (\<lambda>w. opAt (w_DB w) ?oid ?pid OperationQueued \<and> ?known (w_DB w))
      (Run env project ActionDeleteData queued) ?Q (\<lambda>_ _. False)"
    unfolding Run_def Let_def
    apply (rule after_attempt [OF calls(1)], simp)
    apply (rule after_ignoreErr [OF calls(2)])
    apply (rule after_attempt [OF Lifecycle_agrees [OF assms(3), where P = "\<lambda>d. opAt d ?oid ?pid OperationRunning \<and> ?known d"]], simp)
    apply (rule after_ignoreErr [OF calls(3)])
    apply (rule triple_andThen [OF acted ended])
    done
  from triple_returns [OF this, of w] assms(1,2) show ?thesis by (auto simp: projectIds_def)
qed

theorem delete_data_leaves_running_witness:
  "\<exists>e w'. Run sampleEnvironment (sampleProject ''bee'' ''bee'') ActionDeleteData sampleQueued sampleQueuedWorld =
     (Inr (Some sampleQueued, Some e), w') \<and>
   statusOf (w_DB w') ''op-1'' = Some OperationRunning \<and> ''bee'' \<notin> projectIds (w_DB w')"
proof -
  have ids: "op_ID sampleQueued = ''op-1''" "p_ID (sampleProject ''bee'' ''bee'') = ''bee''" by code_simp+
  have "opAt (w_DB sampleQueuedWorld) ''op-1'' ''bee'' OperationQueued" by code_simp
  moreover have "hasProject (w_DB sampleQueuedWorld) ''bee''" by code_simp
  then have "''bee'' \<in> projectIds (w_DB sampleQueuedWorld)" by simp
  moreover have "e_Lifecycle sampleEnvironment n request = None" for n request
    by (simp add: sampleEnvironment_def)
  ultimately show ?thesis
    using delete_data_leaves_running [of sampleQueuedWorld sampleQueued "sampleProject ''bee'' ''bee''" sampleEnvironment]
    unfolding ids by blast
qed

lemma Lifecycle_run:
  "Lifecycle env request w = (case e_Lifecycle env (w_Steps w) request of None \<Rightarrow> Inr () | Some e \<Rightarrow> Inl e,
     w\<lparr>w_Sent := w_Sent w @ [SentLifecycle request], w_Steps := Suc (w_Steps w)\<rparr>)"
  by (simp add: Lifecycle_def andThen_def split: option.splits)

lemma delete_tail:
  assumes "andThen (Lifecycle env request) (\<lambda>_. if data then onDb (DeleteProject pid)
      else opCall env (UpdateProjectStatus pid status health)) w = (r, w')"
  shows "(\<forall>e. r = Inl e \<longrightarrow> w_DB w' = w_DB w) \<and>
    (\<forall>x \<in> projectIds (w_DB w) - projectIds (w_DB w'). x = pid \<and> data \<and>
       SentLifecycle request \<in> set (w_Sent w') \<and> e_Lifecycle env (w_Steps w) request = None)"
proof (cases "e_Lifecycle env (w_Steps w) request")
  case None
  with assms show ?thesis
    by (auto simp: andThen_def Lifecycle_run opCall_def currentTime_def onDb_run DeleteProject_def
        UpdateProjectStatus_def projects_ids split: if_splits)
qed (use assms in \<open>auto simp: andThen_def Lifecycle_run\<close>)

text \<open>
  (C16) Inline deletion is safe: a failed \<^verbatim>\<open>ForceDelete\<close> leaves the database as it was, and when a project
  disappears, data deletion was requested with the project's exact name and the Provisioner had
  already agreed to the request that carries it.
\<close>

theorem force_delete_is_confirmed:
  assumes "ForceDelete env project action confirmation w = (r, w')"
  shows "(\<forall>e. r = Inl e \<longrightarrow> w_DB w' = w_DB w) \<and>
    (\<forall>pid \<in> projectIds (w_DB w) - projectIds (w_DB w'). pid = p_ID project \<and>
       action = ActionDeleteData \<and> confirmation = p_Name project \<and>
       (\<exists>n oid. SentLifecycle (lifecycleRequest oid project ActionDeleteData confirmation) \<in> set (w_Sent w') \<and>
          e_Lifecycle env n (lifecycleRequest oid project ActionDeleteData confirmation) = None))"
proof (cases "action = ActionDeleteRuntime \<or> action = ActionDeleteData \<and> confirmation = p_Name project")
  case True
  define oid where "oid = ''force-delete-'' @ p_ID project @ ''-'' @ itoa (e_Now env (w_Steps w))"
  have "andThen (Lifecycle env (lifecycleRequest oid project action confirmation)) (\<lambda>_.
        if action = ActionDeleteData then onDb (DeleteProject (p_ID project))
        else opCall env (UpdateProjectStatus (p_ID project) ProjectStatusStopped HealthStopped))
      (w\<lparr>w_Steps := Suc (w_Steps w)\<rparr>) = (r, w')"
    using assms True by (auto simp: ForceDelete_def currentTime_def oid_def)
  from delete_tail [OF this] True show ?thesis by auto
next
  case False
  then show ?thesis using assms by (auto simp: ForceDelete_def split: if_splits)
qed

theorem force_delete_is_confirmed_witness:
  "\<exists>w'. ForceDelete sampleEnvironment (sampleProject ''bee'' ''bee'') ActionDeleteData ''bee'' sampleQueuedWorld =
     (Inr (), w') \<and> ''bee'' \<in> projectIds (w_DB sampleQueuedWorld) - projectIds (w_DB w') \<and>
     (\<exists>oid. SentLifecycle (lifecycleRequest oid (sampleProject ''bee'' ''bee'') ActionDeleteData ''bee'') \<in> set (w_Sent w'))"
proof -
  let ?run = "ForceDelete sampleEnvironment (sampleProject ''bee'' ''bee'') ActionDeleteData ''bee''"
  have "succeeds ?run sampleQueuedWorld" by code_simp
  then obtain w' where run: "?run sampleQueuedWorld = (Inr (), w')"
    by (rule succeedsE) (metis old.unit.exhaust)
  have "hasProject (w_DB sampleQueuedWorld) ''bee'' \<and> \<not> hasProject (w_DB (snd (?run sampleQueuedWorld))) ''bee''"
    by code_simp
  then have "''bee'' \<in> projectIds (w_DB sampleQueuedWorld) - projectIds (w_DB w')" by (simp add: run)
  with force_delete_is_confirmed [OF run] run show ?thesis by blast
qed

end
