(* ===== verification/GoRegexp.thy ===== *)
theory GoRegexp
  imports GoText
begin

text \<open>
  Anchored regular expressions of Go's \<^verbatim>\<open>regexp\<close> package as far as the sources use them: character
  classes, concatenation, an optional group, and bounded and unbounded repetition. \<open>rends r s\<close>
  lists what may be left of \<open>s\<close> after a match of \<open>r\<close> at its start; a pattern written
  \<^verbatim>\<open>^...$\<close> matches when nothing may be left.
\<close>

datatype rx = Cls "char \<Rightarrow> bool" | Cat rx rx | Opt rx | Rep rx nat nat | Star rx

fun powEnds :: "(string \<Rightarrow> string list) \<Rightarrow> nat \<Rightarrow> string \<Rightarrow> string list" where
  "powEnds f 0 s = [s]"
| "powEnds f (Suc n) s = concat (map (powEnds f n) (f s))"

fun rends :: "rx \<Rightarrow> string \<Rightarrow> string list" where
  "rends (Cls P) s = (case s of [] \<Rightarrow> [] | c # t \<Rightarrow> (if P c then [t] else []))"
| "rends (Cat a b) s = concat (map (rends b) (rends a s))"
| "rends (Opt a) s = rends a s @ [s]"
| "rends (Rep a lo hi) s = concat (map (\<lambda>n. powEnds (rends a) n s) [lo..<Suc hi])"
| "rends (Star a) s = concat (map (\<lambda>n. powEnds (rends a) n s) [0..<Suc (length s)])"

definition matchString :: "rx \<Rightarrow> string \<Rightarrow> bool" where
  "matchString r s = (list_ex (\<lambda>t. t = []) (rends r s))"

lemma powEnds_Cls:
  "set (powEnds (rends (Cls P)) n s) =
     (if n \<le> length s \<and> list_all P (take n s) then {drop n s} else {})"
proof (induction n arbitrary: s)
  case 0
  show ?case by simp
next
  case (Suc n)
  then show ?case by (cases s) auto
qed

lemma set_rends_Rep_Cls:
  "set (rends (Rep (Cls P) lo hi) s) =
     {drop n s |n. lo \<le> n \<and> n \<le> hi \<and> n \<le> length s \<and> list_all P (take n s)}"
  by (auto simp: powEnds_Cls simp del: rends.simps(1) split: if_splits)

lemma matchString_iff: "matchString r s \<longleftrightarrow> [] \<in> set (rends r s)"
  by (auto simp: matchString_def list_ex_iff)

lemma set_rends_Rep_split:
  "v \<in> set (rends (Rep (Cls P) lo hi) s) \<longleftrightarrow> (\<exists>u. s = u @ v \<and> lo \<le> length u \<and> length u \<le> hi \<and> list_all P u)"
proof
  assume "v \<in> set (rends (Rep (Cls P) lo hi) s)"
  then obtain n where n: "v = drop n s" "lo \<le> n" "n \<le> hi" "n \<le> length s" "list_all P (take n s)"
    unfolding set_rends_Rep_Cls by blast
  then show "\<exists>u. s = u @ v \<and> lo \<le> length u \<and> length u \<le> hi \<and> list_all P u"
    by (intro exI [of _ "take n s"]) simp
next
  assume "\<exists>u. s = u @ v \<and> lo \<le> length u \<and> length u \<le> hi \<and> list_all P u"
  then show "v \<in> set (rends (Rep (Cls P) lo hi) s)"
    unfolding set_rends_Rep_Cls by (force simp del: rends.simps)
qed

lemma rends_Rep_then_Cls:
  "[] \<in> set (rends (Cat (Rep (Cls P) lo hi) (Cls Q)) s) \<longleftrightarrow>
     (\<exists>u c. s = u @ [c] \<and> lo \<le> length u \<and> length u \<le> hi \<and> list_all P u \<and> Q c)"
proof -
  have "[] \<in> set (rends (Cls Q) v) \<longleftrightarrow> (\<exists>c. v = [c] \<and> Q c)" for v by (cases v) auto
  then show ?thesis by (simp add: set_rends_Rep_split Bex_def del: rends.simps(1,4)) blast
qed

text \<open>A DNS-label pattern: \<open>P\<close> at both ends, at most \<open>n\<close> characters of \<open>Q\<close> between them.\<close>

lemma label_match:
  assumes "\<And>c. P c \<Longrightarrow> Q c"
  shows "matchString (Cat (Cls P) (Opt (Cat (Rep (Cls Q) 0 n) (Cls P)))) s \<longleftrightarrow>
    s \<noteq> [] \<and> length s \<le> n + 2 \<and> P (hd s) \<and> P (last s) \<and> list_all Q s"
proof -
  have tail: "[] \<in> set (rends (Opt (Cat (Rep (Cls Q) 0 n) (Cls P))) t) \<longleftrightarrow>
      t = [] \<or> length t \<le> n + 1 \<and> P (last t) \<and> list_all Q t" for t
    using rends_Rep_then_Cls [of Q 0 n P t] assms
    by (cases t rule: rev_cases) (auto simp del: rends.simps(1,2,4))
  have "matchString (Cat (Cls P) (Opt (Cat (Rep (Cls Q) 0 n) (Cls P)))) s \<longleftrightarrow> (\<exists>c t. s = c # t \<and> P c \<and>
      [] \<in> set (rends (Opt (Cat (Rep (Cls Q) 0 n) (Cls P))) t))"
    by (cases s) (simp_all add: matchString_iff del: rends.simps(3,4))
  then show ?thesis
    unfolding tail using assms by (cases s) auto
qed

definition lowerOrDigit :: "char \<Rightarrow> bool" where
  "lowerOrDigit c \<longleftrightarrow> isLower c \<or> isDigit c"

end
