(* ===== verification/FunctionsService.thy ===== *)
theory FunctionsService
  imports Workers GoRegexp
begin

text \<open>
  \<^verbatim>\<open>store/functions.go\<close>, \<^verbatim>\<open>functions/spool.go\<close>, \<^verbatim>\<open>functions/service.go\<close> and the name check of
  \<^verbatim>\<open>contracts/functions.go\<close>: edge functions are deployed, rolled back and deleted by operations that are
  admitted only when the project has no other active operation. An uploaded archive waits in the spool
  (\<open>w_Spool\<close>, keyed by the operation) for the worker. The nil checks of the source on its own
  collaborators are not modelled: the composition root always supplies them.
\<close>

section \<open>Names\<close>

text \<open>\<^verbatim>\<open>^[a-z0-9](?:[a-z0-9-]{0,61}[a-z0-9])?$\<close>\<close>

definition functionNamePattern :: rx where
  "functionNamePattern = Cat (Cls lowerOrDigit)
     (Opt (Cat (Rep (Cls (\<lambda>c. lowerOrDigit c \<or> c = CHR ''-'')) 0 61) (Cls lowerOrDigit)))"

definition ValidateFunctionName :: "string \<Rightarrow> ('s, unit) act" where
  "ValidateFunctionName name =
     failIf (name = ''main'' \<or> \<not> matchString functionNamePattern name) (Sentinel ErrInvalidFunctionName)"

text \<open>\<^verbatim>\<open>^[A-Za-z0-9_-]{1,128}$\<close>\<close>

definition operationIDPattern :: rx where
  "operationIDPattern = Rep (Cls (\<lambda>c. isUpper c \<or> isLower c \<or> isDigit c \<or> c = CHR ''_'' \<or> c = CHR ''-'')) 1 128"

section \<open>Admission\<close>

definition busyStatus :: "OperationStatus \<Rightarrow> bool" where
  "busyStatus s = (s = OperationQueued \<or> s = OperationRunning \<or> s = OperationRollingBack)"

definition busyOperations :: "database \<Rightarrow> string \<Rightarrow> OperationRow list" where
  "busyOperations d pid = filter (\<lambda>r. o_ProjectID r = Some pid \<and> busyStatus (o_Status r)) (operations d)"

text \<open>\<^verbatim>\<open>ORDER BY created_at DESC,id DESC LIMIT 1\<close>\<close>

definition latestBusy :: "database \<Rightarrow> string \<Rightarrow> OperationRow option" where
  "latestBusy d pid = (case rev (sort_key byCreation (busyOperations d pid)) of [] \<Rightarrow> None | r # _ \<Rightarrow> Some r)"

definition commandName :: "database \<Rightarrow> string \<Rightarrow> string option" where
  "commandName d oid = map_option fc_Name (find (\<lambda>c. fc_OperationID c = oid) (functionOperations d))"

definition existingOperation :: "string \<Rightarrow> OperationRow \<Rightarrow> Operation" where
  "existingOperation pid r = \<lparr>op_ID = o_ID r, op_ProjectID = pid, op_Type = o_Type r, op_Status = o_Status r,
     op_CurrentStep = [], op_Progress = 0, op_ErrorCode = [], op_ErrorMessage = [], op_StartedAt = None,
     op_FinishedAt = None, op_CreatedAt = o_CreatedAt r\<rparr>"

definition insertFunctionCommand :: "FunctionCommand \<Rightarrow> (database, unit) act" where
  "insertFunctionCommand c = andThen (requireOperation (fc_OperationID c)) (\<lambda>_.
     andThen (requireProject (fc_ProjectID c)) (\<lambda>_. andThen (gets id) (\<lambda>d.
     andThen (failIf (existsWhere (\<lambda>r. fc_OperationID r = fc_OperationID c) (functionOperations d))
       (UniqueViolation ''function_operations.operation_id''))
     (\<lambda>_. modify (\<lambda>d. d\<lparr>functionOperations := functionOperations d @ [c]\<rparr>)))))"

definition AdmitFunctionOperation :: "Operation \<Rightarrow> string \<Rightarrow> string \<Rightarrow> (database, Operation) act" where
  "AdmitFunctionOperation op name archiveSHA256 = inTx (
     andThen (gets (\<lambda>d. latestBusy d (op_ProjectID op))) (\<lambda>busy. case busy of
         Some r \<Rightarrow> andThen (gets (\<lambda>d. commandName d (o_ID r))) (\<lambda>existingName.
           if o_Type r = op_Type op \<and> existingName = Some name
           then ret (existingOperation (op_ProjectID op) r)
           else throw (Sentinel ErrConfigurationBusy))
       | None \<Rightarrow>
           andThen (mapErr (\<lambda>e. Errorf ''create function operation: '' e []) (insertOperation op)) (\<lambda>_.
           andThen (appendOperationEvent (op_ID op) ''OPERATION_QUEUED''
             (jsonObject [(''function'', jsonString name), (''status'', jsonString ''QUEUED'')]) (op_CreatedAt op)) (\<lambda>_.
           andThen (mapErr (\<lambda>e. Errorf ''create function command: '' e [])
             (insertFunctionCommand \<lparr>fc_OperationID = op_ID op, fc_ProjectID = op_ProjectID op, fc_Name = name,
                fc_ArchiveSHA256 = archiveSHA256, fc_CreatedAt = op_CreatedAt op\<rparr>)) (\<lambda>_.
           ret op)))))"

definition GetFunctionCommand :: "string \<Rightarrow> (database, FunctionCommand) act" where
  "GetFunctionCommand oid d = (case find (\<lambda>c. fc_OperationID c = oid) (functionOperations d) of
      None \<Rightarrow> (Inl (Sentinel ErrNotFound), d)
    | Some c \<Rightarrow> (Inr c, d))"

section \<open>The upload spool\<close>

definition maxArchiveBytes :: int where
  "maxArchiveBytes = 20 * 1048576"

definition invalidUpload :: goerr where
  "invalidUpload = ErrorsNew ''invalid function upload''"

definition SpoolStore :: "environment \<Rightarrow> string \<Rightarrow> string \<Rightarrow> (world, string) act" where
  "SpoolStore env oid archive =
     andThen (failIf (\<not> matchString operationIDPattern oid) invalidUpload) (\<lambda>_.
     andThen (andThen (ask (e_Disk env)) orErr) (\<lambda>_.
     andThen (failIf (int (length archive) > maxArchiveBytes) (ErrorsNew ''function archive exceeds 20 MiB'')) (\<lambda>_.
     andThen (andThen (ask (e_Disk env)) orErr) (\<lambda>_.
     andThen (modify (\<lambda>w. w\<lparr>w_Spool := mapPut oid archive (w_Spool w)\<rparr>)) (\<lambda>_.
     ret (e_SHA256 env archive))))))"

definition SpoolOpen :: "environment \<Rightarrow> string \<Rightarrow> (world, string) act" where
  "SpoolOpen env oid =
     andThen (failIf (\<not> matchString operationIDPattern oid) invalidUpload) (\<lambda>_.
     andThen (andThen (ask (e_Disk env)) orErr) (\<lambda>_.
     andThen (gets (\<lambda>w. map_of (w_Spool w) oid)) (\<lambda>file. case file of
         None \<Rightarrow> throw (ErrorsNew ''open archive: no such file or directory'')
       | Some archive \<Rightarrow> ret archive)))"

definition SpoolRemove :: "environment \<Rightarrow> string \<Rightarrow> (world, unit) act" where
  "SpoolRemove env oid =
     andThen (failIf (\<not> matchString operationIDPattern oid) invalidUpload) (\<lambda>_.
     andThen (andThen (ask (e_Disk env)) orErr) (\<lambda>_.
     modify (\<lambda>w. w\<lparr>w_Spool := mapDelete oid (w_Spool w)\<rparr>)))"

section \<open>Queueing\<close>

definition newQueued :: "environment \<Rightarrow> string \<Rightarrow> OperationType \<Rightarrow> (world, Operation) act" where
  "newQueued env pid typ = andThen (ask (e_ID env)) (\<lambda>oid. andThen (currentTime env) (\<lambda>now.
     orFail (NewQueuedOperation oid now pid typ)))"

definition functionsDisabled :: goerr where
  "functionsDisabled = ErrorsNew ''functions service is disabled''"

definition QueueDeploy :: "environment \<Rightarrow> Project \<Rightarrow> string \<Rightarrow> string \<Rightarrow> (world, Operation) act" where
  "QueueDeploy env p name archive =
     andThen (ValidateFunctionName name) (\<lambda>_.
     andThen (failIf (\<not> svc_Functions (p_Services p)) functionsDisabled) (\<lambda>_.
     andThen (newQueued env (p_ID p) OperationDeployFunction) (\<lambda>op.
     andThen (SpoolStore env (op_ID op) archive) (\<lambda>hash.
     andThen (attempt (onDb (AdmitFunctionOperation op name hash))) (\<lambda>r. case r of
         Inl e \<Rightarrow> andThen (ignoreErr (SpoolRemove env (op_ID op))) (\<lambda>_. throw e)
       | Inr admitted \<Rightarrow>
           if op_ID admitted \<noteq> op_ID op
           then andThen (ignoreErr (SpoolRemove env (op_ID op))) (\<lambda>_. ret admitted)
           else ret op)))))"

definition queueAction :: "environment \<Rightarrow> Project \<Rightarrow> string \<Rightarrow> OperationType \<Rightarrow> (world, Operation) act" where
  "queueAction env p name typ =
     andThen (ValidateFunctionName name) (\<lambda>_.
     andThen (newQueued env (p_ID p) typ) (\<lambda>op. onDb (AdmitFunctionOperation op name [])))"

definition QueueRollback :: "environment \<Rightarrow> Project \<Rightarrow> string \<Rightarrow> (world, Operation) act" where
  "QueueRollback env p name =
     andThen (failIf (\<not> svc_Functions (p_Services p)) functionsDisabled) (\<lambda>_.
     queueAction env p name OperationRollbackFunction)"

definition QueueDelete :: "environment \<Rightarrow> Project \<Rightarrow> string \<Rightarrow> string \<Rightarrow> (world, Operation) act" where
  "QueueDelete env p name confirmation =
     andThen (failIf (\<not> svc_Functions (p_Services p)) functionsDisabled) (\<lambda>_.
     andThen (failIf (confirmation \<noteq> name) (ErrorsNew ''exact function name confirmation is required'')) (\<lambda>_.
     queueAction env p name OperationDeleteFunction))"

section \<open>The worker\<close>

fun operationTypeText :: "OperationType \<Rightarrow> string" where
  "operationTypeText OperationCreate = ''CREATE''"
| "operationTypeText OperationStart = ''START''"
| "operationTypeText OperationStop = ''STOP''"
| "operationTypeText OperationRestart = ''RESTART''"
| "operationTypeText OperationUpdateConfig = ''UPDATE_CONFIG''"
| "operationTypeText OperationUpdateVersion = ''UPDATE_VERSION''"
| "operationTypeText OperationDelete = ''DELETE''"
| "operationTypeText OperationBackup = ''BACKUP''"
| "operationTypeText OperationRestore = ''RESTORE''"
| "operationTypeText OperationDeployFunction = ''DEPLOY_FUNCTION''"
| "operationTypeText OperationRollbackFunction = ''ROLLBACK_FUNCTION''"
| "operationTypeText OperationDeleteFunction = ''DELETE_FUNCTION''"

text \<open>The request to the Provisioner that an operation stands for, with its progress reports.\<close>

definition applyCommand ::
  "environment \<Rightarrow> Project \<Rightarrow> Operation \<Rightarrow> FunctionCommand \<Rightarrow> (world, unit) act" where
  "applyCommand env p queued command =
     (let oid = op_ID queued; slug = p_Slug p; name = fc_Name command;
          complete = (\<lambda>step progress. ignoreErr (opCall env (\<lambda>now. CompleteStep now oid step progress)));
          start = (\<lambda>step progress. ignoreErr (opCall env (\<lambda>now. StartStep now oid step progress)))
      in case op_Type queued of
          OperationDeployFunction \<Rightarrow>
            andThen (SpoolOpen env oid) (\<lambda>archive.
            andThen (complete ''STAGING_RELEASE'' 45) (\<lambda>_.
            andThen (start ''ACTIVATING_RELEASE'' 70) (\<lambda>_.
            andThen (DeployFunction env slug name oid archive) (\<lambda>_.
            andThen (complete ''ACTIVATING_RELEASE'' 70) (\<lambda>_.
            start ''RESTARTING_FUNCTIONS'' 90)))))
        | OperationRollbackFunction \<Rightarrow>
            andThen (complete ''STAGING_RELEASE'' 45) (\<lambda>_.
            andThen (start ''RESTARTING_FUNCTIONS'' 90) (\<lambda>_.
            RollbackFunction env slug name oid))
        | OperationDeleteFunction \<Rightarrow>
            andThen (complete ''STAGING_RELEASE'' 45) (\<lambda>_.
            andThen (start ''RESTARTING_FUNCTIONS'' 90) (\<lambda>_.
            DeleteFunction env slug name oid))
        | _ \<Rightarrow> throw (ErrorsNew (''unsupported function operation '' @ goQuote (operationTypeText (op_Type queued)))))"

definition reportFailure :: "environment \<Rightarrow> Operation \<Rightarrow> goerr \<Rightarrow> (world, Operation option \<times> goerr option) act" where
  "reportFailure env queued e =
     (let oid = op_ID queued in
      andThen (attempt (opCall env (\<lambda>now. Fail now oid ''DEPLOY_FUNCTION'' e))) (\<lambda>failed. case failed of
          Inl failErr \<Rightarrow> ret (Some queued, Some failErr)
        | Inr _ \<Rightarrow>
      andThen (if rollbackSucceeded e
               then andThen (attempt (opCall env (\<lambda>now. BeginRollback now oid))) (\<lambda>begun. case begun of
                   Inl _ \<Rightarrow> ret ()
                 | Inr _ \<Rightarrow> ignoreErr (opCall env (\<lambda>now. CompleteRollback now oid)))
               else ret ()) (\<lambda>_.
      andThen (latestOperation oid) (\<lambda>latest. ret (latest, Some e)))))"

definition reportSuccess :: "environment \<Rightarrow> Operation \<Rightarrow> (world, Operation option \<times> goerr option) act" where
  "reportSuccess env queued =
     (let oid = op_ID queued in
      andThen (ignoreErr (opCall env (\<lambda>now. CompleteStep now oid ''DEPLOY_FUNCTION'' 100))) (\<lambda>_.
      andThen (attempt (opCall env (\<lambda>now. Succeed now oid))) (\<lambda>ended. case ended of
          Inl e \<Rightarrow> ret (Some queued, Some e)
        | Inr _ \<Rightarrow> andThen (latestOperation oid) (\<lambda>latest. ret (latest, None)))))"

definition runCommand ::
  "environment \<Rightarrow> Project \<Rightarrow> Operation \<Rightarrow> FunctionCommand \<Rightarrow> (world, Operation option \<times> goerr option) act" where
  "runCommand env p queued command =
     (let oid = op_ID queued in
      andThen (ignoreErr (opCall env (\<lambda>now. StartStep now oid ''VALIDATING_ARCHIVE'' 20))) (\<lambda>_.
      andThen (ignoreErr (opCall env (\<lambda>now. CompleteStep now oid ''VALIDATING_ARCHIVE'' 20))) (\<lambda>_.
      andThen (ignoreErr (opCall env (\<lambda>now. StartStep now oid ''STAGING_RELEASE'' 45))) (\<lambda>_.
      andThen (attempt (applyCommand env p queued command)) (\<lambda>applied.
      andThen (ignoreErr (SpoolRemove env oid)) (\<lambda>_. case applied of
          Inl e \<Rightarrow> reportFailure env queued e
        | Inr _ \<Rightarrow> reportSuccess env queued))))))"

definition Run :: "environment \<Rightarrow> Project \<Rightarrow> Operation \<Rightarrow> (world, Operation option \<times> goerr option) act" where
  "Run env p queued =
     (let oid = op_ID queued in
      andThen (attempt (onDb (GetFunctionCommand oid))) (\<lambda>found. case found of
          Inl e \<Rightarrow> ret (Some queued, Some e)
        | Inr command \<Rightarrow>
      if op_Status queued = OperationQueued
      then andThen (attempt (opCall env (\<lambda>now. Start now oid))) (\<lambda>started. case started of
          Inl e \<Rightarrow> ret (Some queued, Some e)
        | Inr _ \<Rightarrow> runCommand env p queued command)
      else runCommand env p queued command))"

text \<open>\<^verbatim>\<open>Resume\<close> runs every active function operation whose project can be read, one after the other.\<close>

definition ResumeType :: "environment \<Rightarrow> OperationType \<Rightarrow> (world, unit) act" where
  "ResumeType env typ = andThen (onDb (ListActiveOperations typ)) (\<lambda>items.
     forEach items (\<lambda>item. andThen (attempt (onDb (GetProject (op_ProjectID item)))) (\<lambda>r. case r of
         Inl e \<Rightarrow> ret () | Inr p \<Rightarrow> andThen (Run env p item) (\<lambda>_. ret ()))))"

definition Resume :: "environment \<Rightarrow> (world, unit) act" where
  "Resume env = forEach [OperationDeployFunction, OperationRollbackFunction, OperationDeleteFunction] (ResumeType env)"

section \<open>Names and archives\<close>

text \<open>
  The function-name pattern, read as Go's \<^verbatim>\<open>regexp\<close> reads it, accepts exactly the URL-safe names: 1 to
  63 lower-case letters, digits and hyphens, with a letter or digit at both ends. Every other name and
  the reserved name \<^verbatim>\<open>main\<close> is refused.
\<close>

theorem function_name_accepted:
  "ValidateFunctionName name s = (if name \<noteq> ''main'' \<and> name \<noteq> [] \<and> length name \<le> 63 \<and>
       lowerOrDigit (hd name) \<and> lowerOrDigit (last name) \<and>
       list_all (\<lambda>c. lowerOrDigit c \<or> c = CHR ''-'') name
     then Inr () else Inl (Sentinel ErrInvalidFunctionName), s)"
proof -
  have "matchString functionNamePattern name \<longleftrightarrow> name \<noteq> [] \<and> length name \<le> 61 + 2 \<and>
      lowerOrDigit (hd name) \<and> lowerOrDigit (last name) \<and> list_all (\<lambda>c. lowerOrDigit c \<or> c = CHR ''-'') name"
    unfolding functionNamePattern_def by (rule label_match) simp
  then show ?thesis by (auto simp: ValidateFunctionName_def)
qed

lemma SpoolStore_Inr:
  assumes "SpoolStore env oid archive w = (Inr hash, w')"
  shows "hash = e_SHA256 env archive \<and> int (length archive) \<le> maxArchiveBytes \<and> matchString operationIDPattern oid \<and>
    w_DB w' = w_DB w \<and> w_Spool w' = mapPut oid archive (w_Spool w)"
  using assms by (auto simp: SpoolStore_def andThen_eq_Inr orErr_def split: if_splits option.splits)

text \<open>
  (C19) The upload spool is faithful and bounded: an archive that was stored for an operation is at most
  20 MiB long, is recorded under its digest, is what the worker later opens for that operation as
  long as the spool directory can be read, leaves the archives of every other operation as they
  were, and cannot be opened after it was removed.
\<close>

theorem spool_round_trip:
  assumes stored: "SpoolStore env oid archive w = (Inr hash, w1)"
    and readable: "\<And>n. e_Disk env n = None"
  shows "hash = e_SHA256 env archive \<and> int (length archive) \<le> maxArchiveBytes \<and>
    fst (SpoolOpen env oid w1) = Inr archive \<and>
    (\<forall>other. other \<noteq> oid \<longrightarrow> map_of (w_Spool w1) other = map_of (w_Spool w) other) \<and>
    isl (fst (SpoolOpen env oid (snd (SpoolRemove env oid w1))))"
  using SpoolStore_Inr [OF stored]
  by (simp add: SpoolOpen_def SpoolRemove_def andThen_def readable)

theorem spool_round_trip_witness:
  "\<exists>hash w1. SpoolStore sampleEnvironment ''op-1'' ''archive'' (newWorld sampleDatabase) = (Inr hash, w1) \<and>
     fst (SpoolOpen sampleEnvironment ''op-1'' w1) = Inr ''archive''"
proof -
  have "succeeds (SpoolStore sampleEnvironment ''op-1'' ''archive'') (newWorld sampleDatabase)" by code_simp
  then obtain hash where run: "SpoolStore sampleEnvironment ''op-1'' ''archive'' (newWorld sampleDatabase) =
      (Inr hash, snd (SpoolStore sampleEnvironment ''op-1'' ''archive'' (newWorld sampleDatabase)))"
    by (rule succeedsE)
  have "e_Disk sampleEnvironment n = None" for n by (simp add: sampleEnvironment_def)
  from spool_round_trip [OF run this] run show ?thesis by blast
qed

section \<open>Serialised admission\<close>

lemma latestBusy_None: "latestBusy d pid = None \<longleftrightarrow> busyOperations d pid = []"
proof -
  have "sort_key byCreation (busyOperations d pid) = [] \<longleftrightarrow> busyOperations d pid = []"
    by (metis length_0_conv length_sort)
  then show ?thesis by (auto simp: latestBusy_def split: list.splits)
qed

lemma latestBusy_Some: "latestBusy d pid = Some r \<Longrightarrow> r \<in> set (busyOperations d pid)"
proof -
  assume "latestBusy d pid = Some r"
  then have "r \<in> set (rev (sort_key byCreation (busyOperations d pid)))"
    unfolding latestBusy_def by (metis list.case list.exhaust list.set_intros(1) option.distinct(1) option.inject)
  then show ?thesis by simp
qed

lemma inserted_operation:
  "insertOperation op d = (Inr u, d') \<longleftrightarrow> \<not> hasOperation d (op_ID op) \<and> hasProject d (op_ProjectID op) \<and>
     d' = d\<lparr>operations := operations d @ [\<lparr>o_ID = op_ID op, o_ProjectID = Some (op_ProjectID op), o_Type = op_Type op,
       o_Status = op_Status op, o_CurrentStep = [], o_Progress = op_Progress op,
       o_ErrorCode = [], o_ErrorMessage = [], o_StartedAt = None, o_FinishedAt = None,
       o_CreatedAt = op_CreatedAt op, o_CompensationPhase = [], o_CompensationKey = []\<rparr>]\<rparr>"
  by (auto simp: insertOperation_def andThen_eq_Inr requireProject_def split: if_splits)

text \<open>
  (C18) Function actions are serialised with every other operation of the project. When admission
  succeeds, either the project had no operation queued, running or rolling back, and the new operation
  and its command are now in the database; or a busy operation of the same type for the same function is
  returned and the database is unchanged. When it fails, the database is unchanged, and it fails with
  \<^verbatim>\<open>ErrConfigurationBusy\<close> whenever the project's latest busy operation is of another type or for another
  function.
\<close>

theorem function_admission_serialised:
  assumes run: "AdmitFunctionOperation op name hash d = (r, d')"
  shows "case r of
      Inl e \<Rightarrow> d' = d \<and> (busyOperations d (op_ProjectID op) \<noteq> [] \<longrightarrow> e = Sentinel ErrConfigurationBusy)
    | Inr admitted \<Rightarrow>
        (if busyOperations d (op_ProjectID op) = []
         then admitted = op \<and> opAt d' (op_ID op) (op_ProjectID op) (op_Status op) \<and>
           (\<exists>c d''. GetFunctionCommand (op_ID op) d' = (Inr c, d'') \<and> fc_Name c = name \<and> fc_ArchiveSHA256 c = hash)
         else d' = d \<and> commandName d (op_ID admitted) = Some name \<and>
           (\<exists>b \<in> set (busyOperations d (op_ProjectID op)). o_ID b = op_ID admitted \<and> o_Type b = op_Type op))"
proof (cases "latestBusy d (op_ProjectID op)")
  case None
  then have idle: "busyOperations d (op_ProjectID op) = []" by (simp add: latestBusy_None)
  show ?thesis
  proof (cases r)
    case (Inl e)
    with run idle show ?thesis by (simp add: AdmitFunctionOperation_def)
  next
    case (Inr admitted)
    with run None have "admitted = op"
      and "opAt d' (op_ID op) (op_ProjectID op) (op_Status op)"
      and "find (\<lambda>c. fc_OperationID c = op_ID op) (functionOperations d') =
        Some \<lparr>fc_OperationID = op_ID op, fc_ProjectID = op_ProjectID op, fc_Name = name,
              fc_ArchiveSHA256 = hash, fc_CreatedAt = op_CreatedAt op\<rparr>"
      by (auto simp: AdmitFunctionOperation_def andThen_eq_Inr appendOperationEvent_def insertFunctionCommand_def
          inserted_operation opAt_def find_snoc split: if_splits)
    with idle Inr show ?thesis by (simp add: GetFunctionCommand_def)
  qed
next
  case (Some b)
  then have "b \<in> set (busyOperations d (op_ProjectID op))" by (rule latestBusy_Some)
  then show ?thesis using run Some
    by (auto simp: AdmitFunctionOperation_def inTx_def andThen_def existingOperation_def split: if_splits)
qed

definition sampleFunctionOperation :: "string \<Rightarrow> Operation" where
  "sampleFunctionOperation oid = \<lparr>op_ID = oid, op_ProjectID = ''bee'', op_Type = OperationDeployFunction,
     op_Status = OperationQueued, op_CurrentStep = [], op_Progress = 0, op_ErrorCode = [], op_ErrorMessage = [],
     op_StartedAt = None, op_FinishedAt = None, op_CreatedAt = 0\<rparr>"

definition sampleAdmittedFunction :: database where
  "sampleAdmittedFunction = snd (AdmitFunctionOperation (sampleFunctionOperation ''op-1'') ''hello'' ''h'' sampleDatabase)"

theorem function_admission_serialised_witness:
  "fst (AdmitFunctionOperation (sampleFunctionOperation ''op-2'') ''other'' [] sampleAdmittedFunction) =
     Inl (Sentinel ErrConfigurationBusy)"
proof -
  let ?run = "AdmitFunctionOperation (sampleFunctionOperation ''op-2'') ''other'' [] sampleAdmittedFunction"
  have "isl (fst ?run) \<and> busyOperations sampleAdmittedFunction (op_ProjectID (sampleFunctionOperation ''op-2'')) \<noteq> []"
    by code_simp
  with function_admission_serialised [OF surjective_pairing, of "sampleFunctionOperation ''op-2''" "''other''" "[]"
      sampleAdmittedFunction]
  show ?thesis by (cases "fst ?run") auto
qed

section \<open>The worker ends\<close>

lemma sameDb_spool [obeys_intros]: "obeys sameDb (SpoolOpen env oid)" "obeys sameDb (SpoolRemove env oid)"
  unfolding SpoolOpen_def SpoolRemove_def
  by (intro obeys_intros; simp add: obeys_def sameDb_def)+

lemma applyCommand_running:
  "triple (\<lambda>w. opAt (w_DB w) (op_ID queued) q OperationRunning) (applyCommand env p queued command)
     (\<lambda>_ w. opAt (w_DB w) (op_ID queued) q OperationRunning) (\<lambda>_ w. opAt (w_DB w) (op_ID queued) q OperationRunning)"
proof -
  let ?at = "\<lambda>w. opAt (w_DB w) (op_ID queued) q OperationRunning"
  note steps = after_ignoreErr [OF opCall_plain(2)] after_ignoreErr [OF opCall_plain(3)]
  note request = triple_sameDb [where P = "\<lambda>d. opAt d (op_ID queued) q OperationRunning"]
  note opened = sameDb_spool(1) [THEN request] and sent = sameDb_requests(4-6) [THEN request]
  have last: "triple ?at (ignoreErr (opCall env (\<lambda>now. StartStep now (op_ID queued) step progress)))
      (\<lambda>_. ?at) (\<lambda>_. ?at)" for step progress
    by (rule ignoreErr_total [OF opCall_plain(2)])
  show ?thesis
    unfolding applyCommand_def Let_def
    by (cases "op_Type queued")
      (auto intro!: steps sent last triple_throw triple_andThen [OF opened] triple_andThen [OF sent(1)])
qed

lemma reportFailure_ends:
  "triple (\<lambda>w. opAt (w_DB w) (op_ID queued) q OperationRunning) (reportFailure env queued e)
     (\<lambda>r w. snd r = Some e \<and> opAt (w_DB w) (op_ID queued) q
        (if rollbackSucceeded e then OperationRolledBack else OperationFailed)) (\<lambda>_ _. False)"
proof -
  let ?at = "\<lambda>s w. opAt (w_DB w) (op_ID queued) q s"
  have latest: "triple (?at s) (andThen (latestOperation (op_ID queued)) (\<lambda>latest. ret (latest, Some e)))
      (\<lambda>r w. snd r = Some e \<and> ?at s w) (\<lambda>_ _. False)" for s
    by (rule triple_andThen [OF latestOperation_at [where F = "\<lambda>_. True", unfolded simp_thms]])
      (auto intro!: triple_ret)
  have rolled: "triple (?at OperationFailed)
      (andThen (attempt (opCall env (\<lambda>now. BeginRollback now (op_ID queued)))) (\<lambda>begun. case begun of
           Inl _ \<Rightarrow> ret () | Inr _ \<Rightarrow> ignoreErr (opCall env (\<lambda>now. CompleteRollback now (op_ID queued)))))
      (\<lambda>_. ?at OperationRolledBack) (\<lambda>_ _. False)"
    by (rule after_attempt [OF opCall_plain(5)], simp, rule ignoreErr_total [OF opCall_plain(6)])
  show ?thesis
    unfolding reportFailure_def Let_def
    by (rule after_attempt [OF opCall_plain(4)])
      (cases "rollbackSucceeded e"; simp; auto intro!: triple_andThen [OF rolled] latest)
qed

lemma reportSuccess_ends:
  "triple (\<lambda>w. opAt (w_DB w) (op_ID queued) q OperationRunning) (reportSuccess env queued)
     (\<lambda>r w. snd r = None \<and> opAt (w_DB w) (op_ID queued) q OperationSucceeded) (\<lambda>_ _. False)"
  unfolding reportSuccess_def Let_def
  by (rule after_ignoreErr [OF opCall_plain(3)], rule after_attempt [OF opCall_plain(7)], simp,
      rule triple_andThen [OF latestOperation_at [where F = "\<lambda>_. True", unfolded simp_thms]])
    (auto intro!: triple_ret)

lemma runCommand_ends:
  "triple (\<lambda>w. opAt (w_DB w) (op_ID queued) q OperationRunning) (runCommand env p queued command)
     (\<lambda>r w. opAt (w_DB w) (op_ID queued) q (case snd r of None \<Rightarrow> OperationSucceeded
        | Some e \<Rightarrow> if rollbackSucceeded e then OperationRolledBack else OperationFailed)) (\<lambda>_ _. False)"
proof -
  let ?at = "\<lambda>w. opAt (w_DB w) (op_ID queued) q OperationRunning"
  let ?Q = "\<lambda>r w. opAt (w_DB w) (op_ID queued) q (case snd r of None \<Rightarrow> OperationSucceeded
        | Some e \<Rightarrow> if rollbackSucceeded e then OperationRolledBack else OperationFailed)"
  have removed: "triple ?at (ignoreErr (SpoolRemove env oid)) (\<lambda>_. ?at) (\<lambda>_ _. False)" for oid
    by (rule triple_ignoreErr, rule triple_sameDb [OF sameDb_spool(2)])
  have "triple ?at (case applied of Inl e \<Rightarrow> reportFailure env queued e | Inr _ \<Rightarrow> reportSuccess env queued) ?Q (\<lambda>_ _. False)"
    for applied :: "goerr + unit"
    by (cases applied) (auto intro: triple_conseq [OF reportFailure_ends] triple_conseq [OF reportSuccess_ends])
  then show ?thesis
    unfolding runCommand_def Let_def
    by (intro after_ignoreErr [OF opCall_plain(2)] after_ignoreErr [OF opCall_plain(3)])
      (rule triple_andThen [OF triple_attempt [OF applyCommand_running] triple_andThen [OF removed]])
qed

text \<open>
  (C17) A function operation always ends. When its command is stored, running a queued or an interrupted
  running operation returns; it returns without an error exactly when the operation is then \<^verbatim>\<open>SUCCEEDED\<close>,
  and with the error \<open>e\<close> when it is \<^verbatim>\<open>ROLLED_BACK\<close>, if the Provisioner reports in \<open>e\<close> that it restored
  the previous release, or else \<^verbatim>\<open>FAILED\<close>.
\<close>

theorem function_run_ends:
  assumes "opAt (w_DB w) (op_ID queued) q (op_Status queued)"
    and "op_Status queued = OperationQueued \<or> op_Status queued = OperationRunning"
    and "commandName (w_DB w) (op_ID queued) \<noteq> None"
  shows "\<exists>op err w'. Run env p queued w = (Inr (op, err), w') \<and>
    opAt (w_DB w') (op_ID queued) q (case err of None \<Rightarrow> OperationSucceeded
      | Some e \<Rightarrow> if rollbackSucceeded e then OperationRolledBack else OperationFailed)"
proof -
  let ?Q = "\<lambda>r w. opAt (w_DB w) (op_ID queued) q (case snd r of None \<Rightarrow> OperationSucceeded
        | Some e \<Rightarrow> if rollbackSucceeded e then OperationRolledBack else OperationFailed)"
  obtain c where "find (\<lambda>c. fc_OperationID c = op_ID queued) (functionOperations (w_DB w)) = Some c"
    using assms(3) by (auto simp: commandName_def)
  then have command: "onDb (GetFunctionCommand (op_ID queued)) w = (Inr c, w)"
    by (simp add: onDb_run GetFunctionCommand_def)
  have started: "triple (\<lambda>w. opAt (w_DB w) (op_ID queued) q OperationQueued)
      (andThen (attempt (opCall env (\<lambda>now. Start now (op_ID queued)))) (\<lambda>started. case started of
          Inl e \<Rightarrow> ret (Some queued, Some e) | Inr _ \<Rightarrow> runCommand env p queued c)) ?Q (\<lambda>_ _. False)"
    by (rule after_attempt [OF opCall_plain(1)]) (simp add: runCommand_ends)
  from assms(1,2) have "\<exists>x w'. (if op_Status queued = OperationQueued
      then andThen (attempt (opCall env (\<lambda>now. Start now (op_ID queued)))) (\<lambda>started. case started of
          Inl e \<Rightarrow> ret (Some queued, Some e) | Inr _ \<Rightarrow> runCommand env p queued c)
      else runCommand env p queued c) w = (Inr x, w') \<and> ?Q x w'"
    using triple_returns [OF runCommand_ends] triple_returns [OF started] by (cases "op_Status queued = OperationQueued") auto
  with command show ?thesis by (auto simp: Run_def Let_def attempt_def)
qed

theorem function_run_ends_witness:
  "\<exists>op err w'. Run sampleEnvironment (sampleProject ''bee'' ''bee'') (sampleFunctionOperation ''op-1'')
      (newWorld sampleAdmittedFunction) = (Inr (op, err), w') \<and>
     opAt (w_DB w') ''op-1'' ''bee'' (case err of None \<Rightarrow> OperationSucceeded
      | Some e \<Rightarrow> if rollbackSucceeded e then OperationRolledBack else OperationFailed)"
proof -
  let ?op = "sampleFunctionOperation ''op-1''"
  have "opAt (w_DB (newWorld sampleAdmittedFunction)) (op_ID ?op) ''bee'' (op_Status ?op)" by code_simp
  moreover have "op_Status ?op = OperationQueued" "op_ID ?op = ''op-1''" by code_simp+
  moreover have "commandName (w_DB (newWorld sampleAdmittedFunction)) (op_ID ?op) = Some ''hello''" by code_simp
  ultimately show ?thesis
    using function_run_ends [of "newWorld sampleAdmittedFunction" ?op "''bee''" sampleEnvironment
        "sampleProject ''bee'' ''bee''"] by simp
qed

end
