(* ===== verification/GoNet.thy ===== *)
theory GoNet
  imports GoRegexp
begin

text \<open>
  The parts of Go's \<^verbatim>\<open>net/url\<close>, \<^verbatim>\<open>net\<close>, \<^verbatim>\<open>net/netip\<close> and \<^verbatim>\<open>net/mail\<close> that the validation code calls, as the
  library of the Go release in \<^verbatim>\<open>go.mod\<close> (1.27) implements them: \<^verbatim>\<open>url.Parse\<close> and \<^verbatim>\<open>url.ParseRequestURI\<close>
  with authority, escapes and port checks, \<^verbatim>\<open>URL.Hostname\<close> and \<^verbatim>\<open>URL.Port\<close>, \<^verbatim>\<open>net.SplitHostPort\<close>,
  \<^verbatim>\<open>net.ParseIP\<close>, and for which texts \<^verbatim>\<open>mail.ParseAddress\<close> returns the text itself as the address. Only the
  outcome of a parse is modelled, not the text of its error.
\<close>

section \<open>Splitting at a character\<close>

fun splitFirst :: "char \<Rightarrow> string \<Rightarrow> (string \<times> string) option" where
  "splitFirst sep [] = None"
| "splitFirst sep (c # cs) =
     (if c = sep then Some ([], cs) else map_option (\<lambda>(a, b). (c # a, b)) (splitFirst sep cs))"

definition splitLast :: "char \<Rightarrow> string \<Rightarrow> (string \<times> string) option" where
  "splitLast sep s = map_option (\<lambda>(a, b). (rev b, rev a)) (splitFirst sep (rev s))"

lemma splitFirst_None: "splitFirst sep s = None \<longleftrightarrow> sep \<notin> set s"
  by (induction s) auto

lemma splitFirst_Some: "splitFirst sep s = Some (a, b) \<longleftrightarrow> s = a @ sep # b \<and> sep \<notin> set a"
proof (induction s arbitrary: a)
  case (Cons c s)
  show ?case
  proof (cases a)
    case Nil
    then show ?thesis by (auto split: option.splits)
  next
    case (Cons d t)
    with Cons.IH [of t] show ?thesis by (auto simp: map_option_case split: option.splits)
  qed
qed simp

lemma splitLast_None: "splitLast sep s = None \<longleftrightarrow> sep \<notin> set s"
  by (simp add: splitLast_def splitFirst_None)

section \<open>Percent escapes\<close>

definition hexValue :: "char \<Rightarrow> nat option" where
  "hexValue c = (if isDigit c then Some (of_char c - 48)
     else if inRange 97 102 c then Some (of_char c - 87)
     else if inRange 65 70 c then Some (of_char c - 55)
     else None)"

definition isAlnum :: "char \<Rightarrow> bool" where
  "isAlnum c \<longleftrightarrow> isLower c \<or> isUpper c \<or> isDigit c"

text \<open>The ASCII characters a host may contain unescaped.\<close>

definition hostChar :: "char \<Rightarrow> bool" where
  "hostChar c \<longleftrightarrow> isAlnum c \<or> c \<in> set ''-_.~!$&()*+,;=:[]<>'' \<or> c = CHR 0x22 \<or> c = CHR 0x27"

datatype escapeMode = EscapePlain | EscapeHost | EscapeZone

text \<open>\<^verbatim>\<open>unescape\<close>; \<open>EscapePlain\<close> stands for the modes of paths, fragments and user information.\<close>

fun unescape :: "escapeMode \<Rightarrow> string \<Rightarrow> string option" where
  "unescape mode [] = Some []"
| "unescape mode (c # cs) =
     (if c = CHR ''%'' then (case cs of
          a # b # rest \<Rightarrow> (case (hexValue a, hexValue b) of
              (Some x, Some y) \<Rightarrow>
                (let v = char_of (16 * x + y) in
                 if mode = EscapeHost \<and> x < 8 \<and> [a, b] \<noteq> ''25'' then None
                 else if mode = EscapeZone \<and> [a, b] \<noteq> ''25'' \<and> v \<noteq> CHR '' '' \<and> \<not> hostChar v then None
                 else map_option (\<lambda>t. v # t) (unescape mode rest))
            | _ \<Rightarrow> None)
        | _ \<Rightarrow> None)
      else if mode \<noteq> EscapePlain \<and> of_char c < (128 :: nat) \<and> \<not> hostChar c then None
      else map_option (\<lambda>t. c # t) (unescape mode cs))"

section \<open>Addresses\<close>

definition ipv4Field :: "string \<Rightarrow> bool" where
  "ipv4Field s \<longleftrightarrow> s \<noteq> [] \<and> list_all isDigit s \<and> (hd s = CHR ''0'' \<longrightarrow> length s = 1) \<and> readInt s \<le> 255"

definition parseIPv4 :: "string \<Rightarrow> bool" where
  "parseIPv4 s = (let fields = splitOn (CHR ''.'') s in length fields = 4 \<and> list_all ipv4Field fields)"

definition isHex :: "char \<Rightarrow> bool" where
  "isHex c = (hexValue c \<noteq> None)"

text \<open>
  The loop of \<^verbatim>\<open>parseIPv6\<close>: \<open>i\<close> bytes are filled so far and \<open>ellipsis\<close> says whether \<^verbatim>\<open>::\<close> was seen.
\<close>

definition ipv6Full :: "nat \<Rightarrow> bool \<Rightarrow> bool" where
  "ipv6Full i ellipsis = (if i < 16 then ellipsis else \<not> ellipsis)"

function ipv6Fields :: "nat \<Rightarrow> bool \<Rightarrow> string \<Rightarrow> bool" where
  "ipv6Fields i ellipsis s =
     (if i \<ge> 16 then s = [] \<and> ipv6Full i ellipsis
      else (let digits = takeWhile isHex s; rest = dropWhile isHex s in
        if digits = [] \<or> length digits > 4 then False
        else case rest of
            [] \<Rightarrow> ipv6Full (i + 2) ellipsis
          | c # after \<Rightarrow>
              if c = CHR ''.'' then (ellipsis \<or> i = 12) \<and> i + 4 \<le> 16 \<and> parseIPv4 s \<and> ipv6Full (i + 4) ellipsis
              else if c \<noteq> CHR '':'' then False
              else (case after of
                  [] \<Rightarrow> False
                | d # more \<Rightarrow>
                    if d = CHR '':'' then
                      (if ellipsis then False
                       else if more = [] then ipv6Full (i + 2) True
                       else ipv6Fields (i + 2) True more)
                    else ipv6Fields (i + 2) ellipsis after)))"
  by pat_completeness auto
termination by (relation "measure (\<lambda>(i, _, _). 16 - i)") auto

declare ipv6Fields.simps [simp del]

definition parseIPv6 :: "string \<Rightarrow> bool" where
  "parseIPv6 s = (if hasPrefix s ''::'' then drop 2 s = [] \<or> ipv6Fields 0 True (drop 2 s) else ipv6Fields 0 False s)"

text \<open>\<^verbatim>\<open>netip.ParseAddr\<close>: whether the text is an address, and which kind; a zone is allowed for IPv6 only.\<close>

datatype ipKind = IPv4 | IPv6 | IPv6Zone

definition ParseAddr :: "string \<Rightarrow> ipKind option" where
  "ParseAddr s = (case dropWhile (\<lambda>c. c \<notin> set ''.:%'') s of
      [] \<Rightarrow> None
    | c # _ \<Rightarrow>
        if c = CHR ''.'' then (if parseIPv4 s then Some IPv4 else None)
        else if c = CHR ''%'' then None
        else (case splitFirst (CHR ''%'') s of
            None \<Rightarrow> (if parseIPv6 s then Some IPv6 else None)
          | Some (address, zone) \<Rightarrow> (if zone \<noteq> [] \<and> parseIPv6 address then Some IPv6Zone else None)))"

definition ParseIP :: "string \<Rightarrow> bool" where
  "ParseIP s \<longleftrightarrow> ParseAddr s = Some IPv4 \<or> ParseAddr s = Some IPv6"

text \<open>\<^verbatim>\<open>net.SplitHostPort\<close>: \<open>None\<close> for an error.\<close>

definition SplitHostPort :: "string \<Rightarrow> (string \<times> string) option" where
  "SplitHostPort s = (case splitLast (CHR '':'') s of
      None \<Rightarrow> None
    | Some (before, port) \<Rightarrow>
        if hasPrefix s ''['' then (case splitFirst (CHR '']'') s of
            None \<Rightarrow> None
          | Some (bracketed, after) \<Rightarrow>
              if after \<noteq> CHR '':'' # port then None
              else if CHR ''['' \<in> set (tl bracketed) \<or> CHR ''['' \<in> set after \<or> CHR '']'' \<in> set after then None
              else Some (tl bracketed, port))
        else if CHR '':'' \<in> set before \<or> CHR ''['' \<in> set s \<or> CHR '']'' \<in> set s then None
        else Some (before, port))"

section \<open>URLs\<close>

record URL =
  url_Scheme :: string
  url_HasUser :: bool
  url_Host :: string
  url_Path :: string
  url_RawQuery :: string
  url_Fragment :: string

definition validOptionalPort :: "string \<Rightarrow> bool" where
  "validOptionalPort port = (case port of [] \<Rightarrow> True | c # digits \<Rightarrow> c = CHR '':'' \<and> list_all isDigit digits)"

text \<open>The zone of a bracketed address starts at \<^verbatim>\<open>%25\<close>.\<close>

fun splitZone :: "string \<Rightarrow> string \<times> string" where
  "splitZone [] = ([], [])"
| "splitZone (c # cs) = (if hasPrefix (c # cs) ''%25'' then ([], c # cs)
     else (case splitZone cs of (a, b) \<Rightarrow> (c # a, b)))"

definition parseLiteral :: "string \<Rightarrow> string option" where
  "parseLiteral name = (case splitZone name of (address, zone) \<Rightarrow>
     (case (unescape EscapeHost address, unescape EscapeZone zone) of
         (Some a, Some z) \<Rightarrow> (if ParseAddr (a @ z) = Some IPv6 \<or> ParseAddr (a @ z) = Some IPv6Zone then Some (a @ z) else None)
       | _ \<Rightarrow> None))"

definition parseHost :: "string \<Rightarrow> string option" where
  "parseHost host =
     (if CHR ''['' \<in> set (tl host) then None
      else if hasPrefix host ''['' then (case splitLast (CHR '']'') host of
          None \<Rightarrow> None
        | Some (bracketed, port) \<Rightarrow>
            if \<not> validOptionalPort port then None
            else map_option (\<lambda>name. ''['' @ name @ '']'' @ port) (parseLiteral (tl bracketed)))
      else (case splitFirst (CHR '':'') host of
          None \<Rightarrow> unescape EscapeHost host
        | Some (name, port) \<Rightarrow>
            if CHR '':'' \<in> set port \<or> \<not> list_all isDigit port then None else unescape EscapeHost host))"

definition validUserinfo :: "string \<Rightarrow> bool" where
  "validUserinfo s = list_all (\<lambda>c. isAlnum c \<or> c \<in> set ''-._:~!$&()*+,;=%@'' \<or> c = CHR 0x27) s"

text \<open>User information present, and the host.\<close>

definition parseAuthority :: "string \<Rightarrow> (bool \<times> string) option" where
  "parseAuthority authority = (case splitLast (CHR ''@'') authority of
      None \<Rightarrow> map_option (Pair False) (parseHost authority)
    | Some (user, host) \<Rightarrow> (case parseHost host of
          None \<Rightarrow> None
        | Some h \<Rightarrow>
            if \<not> validUserinfo user then None
            else (case splitFirst (CHR '':'') user of
                None \<Rightarrow> (if unescape EscapePlain user = None then None else Some (True, h))
              | Some (name, password) \<Rightarrow>
                  if unescape EscapePlain name = None \<or> unescape EscapePlain password = None then None
                  else Some (True, h))))"

text \<open>\<open>None\<close>: an error; \<open>Some (scheme, rest)\<close>, with an empty scheme when there is none.\<close>

definition getScheme :: "string \<Rightarrow> (string \<times> string) option" where
  "getScheme s =
     (let scheme = takeWhile (\<lambda>c. isAlnum c \<or> c \<in> set ''+-.'') s in
      case dropWhile (\<lambda>c. isAlnum c \<or> c \<in> set ''+-.'') s of
        c # rest \<Rightarrow> (if scheme = [] then (if c = CHR '':'' then None else Some ([], s))
           else if c = CHR '':'' \<and> (isLower (hd scheme) \<or> isUpper (hd scheme)) then Some (scheme, rest)
           else Some ([], s))
      | [] \<Rightarrow> Some ([], s))"

text \<open>The query is cut off at the first question mark.\<close>

definition cutQuery :: "string \<Rightarrow> string \<times> string" where
  "cutQuery s = (case splitFirst (CHR ''?'') s of None \<Rightarrow> (s, []) | Some (a, b) \<Rightarrow> (a, b))"

definition cutPath :: "string \<Rightarrow> string \<times> string" where
  "cutPath s = (case splitFirst (CHR ''/'') s of None \<Rightarrow> (s, []) | Some (a, b) \<Rightarrow> (a, CHR ''/'' # b))"

definition withPath :: "string \<Rightarrow> string \<Rightarrow> bool \<times> string \<Rightarrow> string \<Rightarrow> URL option" where
  "withPath scheme query authority path = map_option (\<lambda>p. \<lparr>url_Scheme = scheme, url_HasUser = fst authority,
     url_Host = snd authority, url_Path = p, url_RawQuery = query, url_Fragment = []\<rparr>) (unescape EscapePlain path)"

definition parseURL :: "string \<Rightarrow> bool \<Rightarrow> URL option" where
  "parseURL raw viaRequest =
     (if list_ex (\<lambda>c. of_char c < (32 :: nat) \<or> c = CHR 0x7F) raw \<or> raw = [] \<and> viaRequest then None
      else if raw = ''*'' then Some \<lparr>url_Scheme = [], url_HasUser = False, url_Host = [], url_Path = ''*'',
         url_RawQuery = [], url_Fragment = []\<rparr>
      else case getScheme raw of
          None \<Rightarrow> None
        | Some (given, afterScheme) \<Rightarrow>
            (let scheme = toLower given; (rest, query) = cutQuery afterScheme in
             if \<not> hasPrefix rest ''/'' \<and> scheme \<noteq> [] then
               Some \<lparr>url_Scheme = scheme, url_HasUser = False, url_Host = [], url_Path = [],
                 url_RawQuery = query, url_Fragment = []\<rparr>
             else if \<not> hasPrefix rest ''/'' \<and> (viaRequest \<or> CHR '':'' \<in> set (fst (cutPath rest))) then None
             else if (scheme \<noteq> [] \<or> \<not> viaRequest \<and> \<not> hasPrefix rest ''///'') \<and> hasPrefix rest ''//'' then
               (case cutPath (drop 2 rest) of (authority, path) \<Rightarrow>
                 (case parseAuthority authority of
                    None \<Rightarrow> None | Some a \<Rightarrow> withPath scheme query a path))
             else withPath scheme query (False, []) rest))"

definition ParseRequestURI :: "string \<Rightarrow> URL option" where
  "ParseRequestURI raw = parseURL raw True"

definition Parse :: "string \<Rightarrow> URL option" where
  "Parse raw = (case splitFirst (CHR ''#'') raw of
      None \<Rightarrow> parseURL raw False
    | Some (u, fragment) \<Rightarrow> (case parseURL u False of
        None \<Rightarrow> None
      | Some url \<Rightarrow> map_option (\<lambda>f. url\<lparr>url_Fragment := f\<rparr>) (unescape EscapePlain fragment)))"

definition hostAndPort :: "URL \<Rightarrow> string \<times> string" where
  "hostAndPort u =
     (let (host, port) = (case splitLast (CHR '':'') (url_Host u) of
            None \<Rightarrow> (url_Host u, [])
          | Some (h, p) \<Rightarrow> (if list_all isDigit p then (h, p) else (url_Host u, [])))
      in (if hasPrefix host ''['' \<and> hasSuffix host '']'' then butlast (tl host) else host, port))"

definition Hostname :: "URL \<Rightarrow> string" where
  "Hostname u = fst (hostAndPort u)"

definition URLPort :: "URL \<Rightarrow> string" where
  "URLPort u = snd (hostAndPort u)"

section \<open>Mail addresses\<close>

definition isAtext :: "char \<Rightarrow> bool" where
  "isAtext c \<longleftrightarrow> (33 \<le> (of_char c :: nat) \<and> c \<noteq> CHR 0x7F) \<and> c \<notin> set ''()[];@,<>:'' \<and> c \<noteq> CHR 0x22 \<and> c \<noteq> CHR 0x5C"

definition dotAtom :: "string \<Rightarrow> bool" where
  "dotAtom s \<longleftrightarrow> s \<noteq> [] \<and> list_all isAtext s \<and> list_all (\<lambda>w. w \<noteq> []) (splitOn (CHR ''.'') s)"

definition domainLiteral :: "string \<Rightarrow> bool" where
  "domainLiteral s \<longleftrightarrow> hasPrefix s ''['' \<and> hasSuffix s '']'' \<and> 2 \<le> length s \<and> ParseIP (butlast (tl s))"

text \<open>
  \<^verbatim>\<open>mail.ParseAddress(s)\<close> succeeds with an empty name and the address \<open>s\<close>: then \<open>s\<close> is an address
  specification without quotes, comments, white space or display name. Bytes above 127 count as
  letters of valid UTF-8.
\<close>

definition plainAddress :: "string \<Rightarrow> bool" where
  "plainAddress s = (case splitFirst (CHR ''@'') s of
      None \<Rightarrow> False | Some (local, domain) \<Rightarrow> dotAtom local \<and> (dotAtom domain \<or> domainLiteral domain))"

end
