(* ===== verification/ProjectValidation.thy ===== *)
theory ProjectValidation
  imports Contracts GoNet
begin

text \<open>
  \<^verbatim>\<open>project/configuration.go\<close>, \<^verbatim>\<open>project/validate.go\<close>, \<^verbatim>\<open>project/preset.go\<close>, \<^verbatim>\<open>project/slug.go\<close> and
  \<^verbatim>\<open>contracts/tls.go\<close>: presets and defaults of a project configuration, the derivation of its host names
  and the validation of every section. A validation function extends the map of field problems it is
  given; the first message of a field stays. The properties say what an accepted configuration
  satisfies, that the defaults are accepted, and that address normalisation is stable.
\<close>

section \<open>Problems\<close>

type_synonym problems = "(string \<times> string) list"

definition add :: "string \<Rightarrow> string \<Rightarrow> problems \<Rightarrow> problems" where
  "add field message v = (if mapHas v field then v else v @ [(field, message)])"

definition addIf :: "bool \<Rightarrow> string \<Rightarrow> string \<Rightarrow> problems \<Rightarrow> problems" where
  "addIf b field message v = (if b then add field message v else v)"

text \<open>Checks one after the other.\<close>

fun checks :: "(problems \<Rightarrow> problems) list \<Rightarrow> problems \<Rightarrow> problems" where
  "checks [] v = v"
| "checks (f # fs) v = checks fs (f v)"

text \<open>One check per element of a list or map.\<close>

definition each :: "'a list \<Rightarrow> ('a \<Rightarrow> problems \<Rightarrow> problems) \<Rightarrow> problems \<Rightarrow> problems" where
  "each xs f v = fold f xs v"

definition skip :: "problems \<Rightarrow> problems" where
  "skip v = v"

definition blank :: "string \<Rightarrow> bool" where
  "blank s = (trimSpace s = [])"

section \<open>Addresses\<close>

text \<open>\<^verbatim>\<open>^[a-z0-9](?:[a-z0-9-]{0,61}[a-z0-9])?$\<close>\<close>

definition slugPattern :: rx where
  "slugPattern = Cat (Cls lowerOrDigit)
     (Opt (Cat (Rep (Cls (\<lambda>c. lowerOrDigit c \<or> c = CHR ''-'')) 0 61) (Cls lowerOrDigit)))"

definition validDomain :: "string \<Rightarrow> bool" where
  "validDomain value =
     (if value = [] \<or> CHR ''/'' \<in> set value \<or> CHR '' '' \<in> set value \<or> contains value ''://'' then False
      else (let host = (case SplitHostPort value of Some (parsed, _) \<Rightarrow> parsed | None \<Rightarrow> value) in
        if host = ''localhost'' \<or> ParseIP host then True
        else if length host > 253 \<or> CHR ''.'' \<notin> set host then False
        else list_all (matchString slugPattern) (splitOn (CHR ''.'') host)))"

definition validAbsoluteHTTPURL :: "string \<Rightarrow> bool" where
  "validAbsoluteHTTPURL value = (case ParseRequestURI value of
      None \<Rightarrow> False
    | Some parsed \<Rightarrow> (url_Scheme parsed = ''http'' \<or> url_Scheme parsed = ''https'') \<and> url_Host parsed \<noteq> [])"

definition canonicalBaseSiteURL :: "string \<Rightarrow> goerr + string" where
  "canonicalBaseSiteURL value = (case ParseRequestURI (trimSpace value) of
      None \<Rightarrow> Inl (ErrorsNew ''must be an absolute http or https URL'')
    | Some parsed \<Rightarrow>
        if url_Scheme parsed \<noteq> ''http'' \<and> url_Scheme parsed \<noteq> ''https'' \<or> url_Host parsed = []
        then Inl (ErrorsNew ''must be an absolute http or https URL'')
        else if url_HasUser parsed \<or> URLPort parsed \<noteq> [] \<or> url_Path parsed \<noteq> [] \<and> url_Path parsed \<noteq> ''/'' \<or>
            url_RawQuery parsed \<noteq> [] \<or> url_Fragment parsed \<noteq> []
        then Inl (ErrorsNew ''must be a base hostname without a port, path, query, or fragment'')
        else if \<not> validDomain (toLower (Hostname parsed)) then Inl (ErrorsNew ''must contain a valid DNS hostname'')
        else Inr (''https://'' @ toLower (Hostname parsed)))"

definition NormalizeProjectAddress :: "string \<Rightarrow> GeneralConfig \<Rightarrow> goerr + GeneralConfig" where
  "NormalizeProjectAddress slug general =
     (if \<not> matchString slugPattern slug
      then Inl (FieldError ''slug'' ''must match [a-z0-9-] and be a valid DNS label'')
      else case canonicalBaseSiteURL (gen_SiteURL general) of
          Inl e \<Rightarrow> Inl (FieldError ''configuration.general.siteUrl'' (errText e))
        | Inr baseURL \<Rightarrow>
            (let domain = toLower slug @ ''.'' @ drop (length ''https://'') baseURL in
             if \<not> validDomain domain
             then Inl (FieldError ''configuration.general.siteUrl''
               ''must contain a DNS hostname suitable for a server subdomain'')
             else Inr (general\<lparr>gen_SiteURL := baseURL, gen_Domain := domain\<rparr>)))"

section \<open>Sections\<close>

definition validatePort :: "int \<Rightarrow> string \<Rightarrow> problems \<Rightarrow> problems" where
  "validatePort port field = addIf (port < 1 \<or> port > 65535) field ''must be between 1 and 65535''"

definition validateSecretInput :: "SecretInput \<Rightarrow> string \<Rightarrow> problems \<Rightarrow> problems" where
  "validateSecretInput input field =
     (if si_Action input \<in> {[], ''retain'', ''remove''} then skip
      else if si_Action input = ''replace'' then addIf (si_Value input = []) field ''replace requires a value''
      else add (field @ ''.action'') ''must be retain, replace, or remove'')"

definition validateServicesConfiguration :: "Services \<Rightarrow> problems \<Rightarrow> problems" where
  "validateServicesConfiguration s = checks [
     addIf (\<not> svc_Database s) ''services.database'' ''PostgreSQL is required'',
     addIf (svc_Studio s \<and> \<not> svc_PostgresMeta s) ''services.postgresMeta'' ''postgres-meta is required by Studio'',
     addIf ((svc_Auth s \<or> svc_REST s \<or> svc_Studio s \<or> svc_Realtime s \<or> svc_Storage s) \<and> \<not> svc_Gateway s)
       ''services.gateway'' ''API Gateway is required by enabled public services'',
     addIf (svc_Functions s \<and> \<not> svc_Gateway s) ''services.gateway'' ''API Gateway is required by enabled Functions'',
     addIf (svc_Storage s \<and> (\<not> svc_Database s \<or> \<not> svc_REST s)) ''services.storage'' ''Storage requires database and REST'',
     addIf (svc_Realtime s \<and> \<not> svc_Database s) ''services.realtime'' ''Realtime requires database'',
     addIf (svc_Supavisor s \<and> \<not> svc_Database s) ''services.supavisor'' ''Supavisor requires database'',
     addIf (svc_DirectDB s \<and> \<not> svc_Database s) ''services.directDb'' ''Direct database requires database'',
     addIf (svc_Logs s \<and> (\<not> svc_Database s \<or> \<not> svc_Vector s)) ''services.logs'' ''Logs requires database and Vector'',
     addIf (svc_Vector s \<and> \<not> svc_Logs s) ''services.vector'' ''Vector requires Logs'',
     addIf (svc_Imgproxy s \<and> \<not> svc_Storage s) ''services.imgproxy'' ''Image Transformation requires Storage'',
     addIf (svc_Vector s \<noteq> svc_Logs s) ''services.vector'' ''Logs and Vector must be enabled together'']"

definition rateLimitFields :: "RateLimitConfig \<Rightarrow> (string \<times> int) list" where
  "rateLimitFields limits = [(''emailSent'', rl_EmailSent limits), (''smsSent'', rl_SMSSent limits),
     (''tokenRefresh'', rl_TokenRefresh limits), (''tokenVerification'', rl_TokenVerification limits),
     (''anonymousUsers'', rl_AnonymousUsers limits), (''signupsAndSignins'', rl_SignupsAndSignins limits)]"

definition validateRateLimits :: "RateLimitConfig \<Rightarrow> problems \<Rightarrow> problems" where
  "validateRateLimits limits = each (rateLimitFields limits) (\<lambda>(field, value).
     addIf (value < 1 \<or> value > 1000000) (''auth.rateLimits.'' @ field) ''must be between 1 and 1000000'')"

definition validateMFA :: "MFAConfig \<Rightarrow> problems \<Rightarrow> problems" where
  "validateMFA mfa = checks [
     addIf (mfa_MaxEnrolledFactors mfa < 1 \<or> mfa_MaxEnrolledFactors mfa > 100)
       ''auth.mfa.maxEnrolledFactors'' ''must be between 1 and 100'',
     addIf (mfa_PhoneOTPLength mfa < 4 \<or> mfa_PhoneOTPLength mfa > 10)
       ''auth.mfa.phoneOtpLength'' ''must be between 4 and 10 digits'']"

section \<open>Mail templates\<close>

definition allowedMailerTemplateVariables :: "string list" where
  "allowedMailerTemplateVariables = [''.ConfirmationURL'', ''.Token'', ''.TokenHash'', ''.SiteURL'', ''.Email'',
     ''.Data'', ''.RedirectTo'']"

text \<open>The matches of \<^verbatim>\<open>{{\s*([^{}]+?)\s*}}\<close> from left to right, each as the text between the braces.\<close>

function templateActions :: "string \<Rightarrow> string list" where
  "templateActions s =
     (if s = [] then []
      else if hasPrefix s ''{{'' then
        (let body = takeWhile (\<lambda>c. c \<noteq> CHR ''{'' \<and> c \<noteq> CHR ''}'') (drop 2 s); rest = drop (2 + length body) s in
         if body \<noteq> [] \<and> hasPrefix rest ''}}'' then body # templateActions (drop 2 rest)
         else templateActions (tl s))
      else templateActions (tl s))"
  by pat_completeness auto
termination
  by (relation "measure length") (auto simp: hasPrefix_def prefix_def)

declare templateActions.simps [simp del]

text \<open>\<^verbatim>\<open>strings.Count(s, "cc")\<close>\<close>

fun countPair :: "char \<Rightarrow> string \<Rightarrow> nat" where
  "countPair c (a # b # s) = (if a = c \<and> b = c then Suc (countPair c s) else countPair c (b # s))"
| "countPair c s = 0"

definition validateMailerTemplateVariables :: "string \<Rightarrow> string \<Rightarrow> problems \<Rightarrow> problems" where
  "validateMailerTemplateVariables value field =
     (let matches = templateActions value in
      if countPair (CHR ''{'') value \<noteq> length matches \<or> countPair (CHR ''}'') value \<noteq> length matches
      then add field ''contains an invalid Go template action''
      else addIf (list_ex (\<lambda>m. trimSpace m \<notin> set allowedMailerTemplateVariables) matches) field
        ''may only use documented mailer template variables'')"

definition validateMailerTemplate :: "EmailTemplateConfig \<Rightarrow> string \<Rightarrow> problems \<Rightarrow> problems" where
  "validateMailerTemplate template field = checks [
     addIf (length (tpl_Subject template) > 255) (field @ ''.subject'') ''must be at most 255 characters'',
     addIf (CHR 0x0D \<in> set (tpl_Subject template) \<or> CHR 0x0A \<in> set (tpl_Subject template))
       (field @ ''.subject'') ''must not contain a newline'',
     (if tpl_Body template = [] then add (field @ ''.body'') ''is required''
      else addIf (length (tpl_Body template) > 256 * 1024) (field @ ''.body'') ''must be at most 256 KiB''),
     validateMailerTemplateVariables (tpl_Subject template) (field @ ''.subject''),
     validateMailerTemplateVariables (tpl_Body template) (field @ ''.body'')]"

definition mailerTemplates :: "MailerConfig \<Rightarrow> (string \<times> EmailTemplateConfig) list" where
  "mailerTemplates mailer = (let t = ml_Templates mailer; n = ml_Notifications mailer in
     [(''auth.mailer.templates.confirmation'', tpls_Confirmation t), (''auth.mailer.templates.invite'', tpls_Invite t),
      (''auth.mailer.templates.magicLink'', tpls_MagicLink t), (''auth.mailer.templates.emailChange'', tpls_EmailChange t),
      (''auth.mailer.templates.recovery'', tpls_Recovery t),
      (''auth.mailer.templates.reauthentication'', tpls_Reauthentication t),
      (''auth.mailer.notifications.passwordChanged'', ntf_Template (ntfs_PasswordChanged n)),
      (''auth.mailer.notifications.emailChanged'', ntf_Template (ntfs_EmailChanged n)),
      (''auth.mailer.notifications.phoneChanged'', ntf_Template (ntfs_PhoneChanged n)),
      (''auth.mailer.notifications.identityLinked'', ntf_Template (ntfs_IdentityLinked n)),
      (''auth.mailer.notifications.identityUnlinked'', ntf_Template (ntfs_IdentityUnlinked n)),
      (''auth.mailer.notifications.mfaFactorEnrolled'', ntf_Template (ntfs_MFAFactorEnrolled n)),
      (''auth.mailer.notifications.mfaFactorUnenrolled'', ntf_Template (ntfs_MFAFactorUnenrolled n))])"

definition validateMailer :: "MailerConfig \<Rightarrow> problems \<Rightarrow> problems" where
  "validateMailer mailer = each (mailerTemplates mailer) (\<lambda>(path, template). validateMailerTemplate template path)"

section \<open>Sign-in providers\<close>

definition hasEnabledOAuth :: "(string \<times> OAuthProviderConfig) list \<Rightarrow> bool" where
  "hasEnabledOAuth providers = list_ex (\<lambda>(_, provider). oa_Enabled provider) providers"

definition phoneFieldAllowed :: "string \<Rightarrow> string \<Rightarrow> bool" where
  "phoneFieldAllowed provider field =
     (if provider = ''twilio'' then field = ''accountSid'' \<or> field = ''messageServiceSid'' \<or> field = ''verifySid''
      else if provider = ''messagebird'' then field = ''originator''
      else if provider = ''textlocal'' then field = ''sender''
      else False)"

definition phoneRequiredFields :: "string \<Rightarrow> string list" where
  "phoneRequiredFields provider =
     (if provider = ''twilio'' then [''accountSid'', ''messageServiceSid'']
      else if provider = ''messagebird'' then [''originator'']
      else if provider = ''textlocal'' then [''sender'']
      else [])"

definition validatePhone :: "PhoneAuthConfig \<Rightarrow> problems \<Rightarrow> problems" where
  "validatePhone phone =
     (let action = si_Action (ph_Secret phone) in
      if \<not> ph_Enabled phone \<and> ph_Provider phone = [] \<and> ph_Fields phone = [] \<and> \<not> ph_SecretSet phone \<and> action = []
      then skip
      else checks [
        addIf (ph_Provider phone \<noteq> ''twilio'' \<and> ph_Provider phone \<noteq> ''messagebird'' \<and> ph_Provider phone \<noteq> ''textlocal'')
          ''auth.phone.provider'' ''must be twilio, messagebird, or textlocal'',
        each (map fst (ph_Fields phone)) (\<lambda>field. addIf (\<not> phoneFieldAllowed (ph_Provider phone) field)
          (''auth.phone.fields.'' @ field) ''is not supported for this provider''),
        (if ph_Enabled phone then checks [
           each (phoneRequiredFields (ph_Provider phone)) (\<lambda>required.
             addIf (blank (mapGet [] (ph_Fields phone) required)) (''auth.phone.fields.'' @ required)
               ''is required for this provider''),
           addIf (\<not> ph_SecretSet phone \<and> action \<noteq> ''replace'') ''auth.phone.secret''
             ''must retain an existing secret or replace it'',
           addIf (ph_SecretSet phone \<and> action \<noteq> ''retain'' \<and> action \<noteq> ''replace'') ''auth.phone.secret''
             ''an existing secret must use retain or replace'',
           addIf (action = ''remove'') ''auth.phone.secret'' ''cannot be removed while Phone Auth is enabled'']
         else skip),
        validateSecretInput (ph_Secret phone) ''auth.phone.secret''])"

definition oauthRequiredFields :: "string \<Rightarrow> string list" where
  "oauthRequiredFields provider =
     (if provider = ''azure'' then [''tenantUrl''] else if provider = ''keycloak'' then [''realmUrl''] else [])"

definition providerFieldAllowed :: "string \<Rightarrow> string \<Rightarrow> bool" where
  "providerFieldAllowed provider field =
     (if field = ''skipNonceChecks'' \<or> field = ''allowUsersWithoutEmail'' then True
      else if provider = ''google'' then False
      else if provider = ''azure'' then field = ''tenantUrl''
      else if provider = ''github'' then field = ''enterpriseUrl''
      else if provider = ''gitlab'' then field = ''selfHostedUrl''
      else if provider = ''keycloak'' then field = ''realmUrl''
      else False)"

definition validateRequiredField :: "string \<Rightarrow> OAuthProviderConfig \<Rightarrow> string \<Rightarrow> problems \<Rightarrow> problems" where
  "validateRequiredField field config required =
     (let value = trimSpace (mapGet [] (oa_Fields config) required); path = field @ ''.fields.'' @ required in checks [
        addIf (value = []) path ''is required for this provider'',
        addIf (value \<noteq> [] \<and> (ParseRequestURI value = None \<or> \<not> validAbsoluteHTTPURL value)) path
          ''must be an absolute http or https URL''])"

definition validateEnabledProvider :: "string \<Rightarrow> string \<Rightarrow> OAuthProviderConfig \<Rightarrow> problems \<Rightarrow> problems" where
  "validateEnabledProvider provider field config =
     (let action = si_Action (oa_Secret config) in checks [
        addIf (blank (oa_ClientID config)) (field @ ''.clientId'') ''is required when provider is enabled'',
        addIf (\<not> oa_SecretSet config \<and> action \<noteq> ''replace'') (field @ ''.secret'')
          ''must retain an existing secret or replace it'',
        addIf (oa_SecretSet config \<and> action \<noteq> ''retain'' \<and> action \<noteq> ''replace'') (field @ ''.secret'')
          ''an existing secret must use retain or replace'',
        addIf (action = ''remove'') (field @ ''.secret'') ''cannot be removed while provider is enabled'',
        validateSecretInput (oa_Secret config) (field @ ''.secret''),
        each (oauthRequiredFields provider) (validateRequiredField field config),
        each (oa_Fields config) (\<lambda>(key, value).
          addIf (hasSuffix key ''Url'' \<and> \<not> blank value \<and> \<not> validAbsoluteHTTPURL value)
            (field @ ''.fields.'' @ key) ''must be an absolute http or https URL'')])"

definition validateProvider :: "string \<times> OAuthProviderConfig \<Rightarrow> problems \<Rightarrow> problems" where
  "validateProvider entry = (case entry of (provider, config) \<Rightarrow>
     (let field = ''auth.oauth.'' @ provider in
      if provider \<notin> set OAuthProviderNames then add field ''is not a supported OAuth provider''
      else checks [
        each (map fst (oa_Fields config)) (\<lambda>key. addIf (\<not> providerFieldAllowed provider key)
          (field @ ''.fields.'' @ key) ''is not supported for this provider''),
        (if oa_Enabled config then validateEnabledProvider provider field config else skip)]))"

definition validateSMTP :: "SMTPConfig \<Rightarrow> problems \<Rightarrow> problems" where
  "validateSMTP smtp =
     (let action = si_Action (smtp_Password smtp) in checks [
        addIf (blank (smtp_Host smtp)) ''auth.smtp.host'' ''is required when SMTP is enabled'',
        addIf (blank (smtp_Username smtp)) ''auth.smtp.username'' ''is required when SMTP is enabled'',
        addIf (\<not> smtp_PasswordSet smtp \<and> action \<noteq> ''replace'') ''auth.smtp.password''
          ''must retain an existing password or replace it'',
        addIf (smtp_PasswordSet smtp \<and> action \<noteq> ''retain'' \<and> action \<noteq> ''replace'') ''auth.smtp.password''
          ''an existing password must use retain or replace'',
        addIf (action = ''remove'') ''auth.smtp.password'' ''cannot be removed while SMTP is enabled'',
        validatePort (smtp_Port smtp) ''auth.smtp.port'',
        addIf (\<not> plainAddress (smtp_SenderEmail smtp) \<or> blank (smtp_SenderEmail smtp)) ''auth.smtp.senderEmail''
          ''must be a valid email address'',
        addIf (blank (smtp_SenderName smtp)) ''auth.smtp.senderName'' ''is required when SMTP is enabled''])"

definition outside :: "int \<Rightarrow> int \<Rightarrow> int \<Rightarrow> bool" where
  "outside lo hi n \<longleftrightarrow> n \<noteq> 0 \<and> (n < lo \<or> n > hi)"

definition indexed :: "string \<Rightarrow> nat \<Rightarrow> string" where
  "indexed path i = path @ ''['' @ itoa (int i) @ '']''"

definition validateAuth :: "AuthConfig \<Rightarrow> problems \<Rightarrow> problems" where
  "validateAuth auth = (let email = auth_Email auth in checks [
     addIf (auth_JWTExpiry auth < 0 \<or> auth_JWTExpiry auth > 31536000) ''auth.jwtExpiry''
       ''must be between 0 and 31536000 seconds'',
     addIf (auth_DisableSignup auth \<noteq> (\<not> em_AllowSignup email)) ''auth.disableSignup''
       ''must equal the inverse of auth.email.allowSignup'',
     addIf (auth_DisableSignup auth \<noteq> (\<not> em_AllowSignup email)) ''auth.email.allowSignup''
       ''must equal the inverse of auth.disableSignup'',
     addIf (auth_DisableSignup auth \<and> (ph_Enabled (auth_Phone auth) \<or> auth_AnonymousSignIn auth \<or>
         hasEnabledOAuth (auth_OAuth auth))) ''auth.disableSignup''
       ''cannot disable global signup while phone, anonymous, or OAuth signup is enabled'',
     addIf (em_SecureEmailChange email \<noteq> em_DoubleConfirmChanges email) ''auth.email.secureEmailChange''
       ''must match doubleConfirmChanges for the pinned runtime capability'',
     addIf (em_SecureEmailChange email \<noteq> em_DoubleConfirmChanges email) ''auth.email.doubleConfirmChanges''
       ''must match secureEmailChange for the pinned runtime capability'',
     addIf (outside 6 72 (em_MinimumPasswordLength email)) ''auth.email.minimumPasswordLength''
       ''must be between 6 and 72 characters'',
     addIf (outside 60 86400 (em_EmailOTPExpiration email)) ''auth.email.emailOtpExpiration''
       ''must be between 60 and 86400 seconds'',
     addIf (outside 6 10 (em_EmailOTPLength email)) ''auth.email.emailOtpLength'' ''must be between 6 and 10 digits'',
     validateRateLimits (auth_RateLimits auth),
     validateMFA (auth_MFA auth),
     validateMailer (auth_Mailer auth),
     validateSecretInput (smtp_Password (auth_SMTP auth)) ''auth.smtp.password'',
     validatePhone (auth_Phone auth),
     (if smtp_Enabled (auth_SMTP auth) then validateSMTP (auth_SMTP auth) else skip),
     each (enumerate 0 (auth_RedirectURLs auth)) (\<lambda>(index, redirect). addIf (\<not> validAbsoluteHTTPURL redirect)
       (indexed ''auth.redirectUrls'' index) ''must be an absolute http or https URL''),
     each (auth_OAuth auth) validateProvider])"

section \<open>Storage, runtime and network\<close>

definition objectBackend :: "string \<Rightarrow> bool" where
  "objectBackend backend \<longleftrightarrow> backend = ''s3'' \<or> backend = ''aws-s3'' \<or> backend = ''r2''"

definition validateStorage :: "StorageConfig \<Rightarrow> problems \<Rightarrow> problems" where
  "validateStorage s = (let action = si_Action (st_SecretAccessKey s);
       removing = (st_SecretAccessKeySet s \<and> action = ''remove'') in checks [
     (if st_Backend s = ''local'' then
        addIf (st_Bucket s \<noteq> [] \<or> st_Region s \<noteq> [] \<or> st_Endpoint s \<noteq> [] \<or> st_AccountID s \<noteq> [] \<or>
            st_AccessKeyID s \<noteq> [] \<or> st_SecretAccessKeySet s \<and> \<not> removing \<or> action \<noteq> [] \<and> \<not> removing)
          ''storage.backend'' ''local storage cannot include object-storage credentials''
      else if objectBackend (st_Backend s) then checks [
        addIf (blank (st_Bucket s)) ''storage.bucket'' ''is required for an object storage backend'',
        addIf (st_Backend s \<noteq> ''r2'' \<and> blank (st_Region s)) ''storage.region'' ''is required for this object storage backend'',
        addIf (blank (st_AccessKeyID s)) ''storage.accessKeyId'' ''is required for an object storage backend'',
        addIf (\<not> st_SecretAccessKeySet s \<and> action \<noteq> ''replace'') ''storage.secretAccessKey''
          ''must retain an existing secret or replace it'',
        addIf (action = ''remove'') ''storage.secretAccessKey'' ''cannot be removed for an enabled object storage backend'',
        addIf (st_Backend s = ''s3'' \<and> blank (st_Endpoint s)) ''storage.endpoint'' ''is required for generic S3'',
        addIf (st_Backend s = ''r2'' \<and> blank (st_AccountID s)) ''storage.accountId'' ''is required for Cloudflare R2'',
        addIf (st_Backend s = ''r2'' \<and> st_Endpoint s \<noteq> []) ''storage.endpoint'' ''R2 endpoint is derived from accountId'',
        addIf (st_Endpoint s \<noteq> [] \<and> \<not> validAbsoluteHTTPURL (st_Endpoint s)) ''storage.endpoint''
          ''must be an absolute http or https URL'']
      else add ''storage.backend'' ''must be local, s3, aws-s3, or r2''),
     validateSecretInput (st_SecretAccessKey s) ''storage.secretAccessKey''])"

definition validateRealtime :: "RealtimeConfig \<Rightarrow> problems \<Rightarrow> problems" where
  "validateRealtime rt = checks [
     addIf (rt_MaxConnections rt < 1 \<or> rt_MaxConnections rt > 100000) ''realtime.maxConnections''
       ''must be between 1 and 100000'',
     addIf (rt_DatabasePoolSize rt < 1 \<or> rt_DatabasePoolSize rt > 10000) ''realtime.databasePoolSize''
       ''must be between 1 and 10000'',
     addIf (rt_LogLevel rt \<notin> {''debug'', ''info'', ''warn'', ''error''}) ''realtime.logLevel''
       ''must be debug, info, warn, or error'']"

text \<open>\<^verbatim>\<open>^[A-Z_][A-Z0-9_]*$\<close>\<close>

definition envNamePattern :: rx where
  "envNamePattern = Cat (Cls (\<lambda>c. isUpper c \<or> c = CHR ''_'')) (Star (Cls (\<lambda>c. isUpper c \<or> isDigit c \<or> c = CHR ''_'')))"

definition reservedFunctionVariables :: "string list" where
  "reservedFunctionVariables = [''ANON_KEY'', ''SERVICE_ROLE_KEY'', ''JWT_SECRET'', ''SUPABASE_URL'',
     ''SUPABASE_PUBLIC_URL'', ''FUNCTIONS_VERIFY_JWT'', ''POSTGRES_PASSWORD'']"

definition validateVariable :: "nat \<times> FunctionVariable \<Rightarrow> problems \<Rightarrow> problems" where
  "validateVariable entry = (case entry of (index, variable) \<Rightarrow>
     (let path = indexed ''functions.variables'' index in checks [
        addIf (\<not> matchString envNamePattern (fv_Name variable)) (path @ ''.name'') ''must match ^[A-Z_][A-Z0-9_]*$'',
        addIf (fv_Name variable \<in> set reservedFunctionVariables \<or> hasPrefix (fv_Name variable) ''SUPABASE_'')
          (path @ ''.name'') ''is reserved by Supabase/runtime'',
        validateSecretInput (fv_Value variable) (path @ ''.value'')]))"

definition validateFunctions :: "FunctionsConfig \<Rightarrow> problems \<Rightarrow> problems" where
  "validateFunctions f = each (enumerate 0 (fn_Variables f)) validateVariable"

definition validateDatabase :: "DatabaseConfig \<Rightarrow> problems \<Rightarrow> problems" where
  "validateDatabase d = checks [
     addIf (db_Version d \<noteq> ''17'') ''database.version''
       ''must be 17; PostgreSQL 15 is no longer supported by this runtime'',
     addIf (db_MaxConnections d < 1 \<or> db_MaxConnections d > 100000) ''database.maxConnections''
       ''must be between 1 and 100000'',
     (if db_DirectPortNumber d \<noteq> 0 then validatePort (db_DirectPortNumber d) ''database.directPortNumber'' else skip)]"

definition validatePooler :: "PoolerConfig \<Rightarrow> problems \<Rightarrow> problems" where
  "validatePooler p = checks [
     (if pool_TransactionPort p \<noteq> 0 then validatePort (pool_TransactionPort p) ''pooler.transactionPort'' else skip),
     (if pool_SessionPort p \<noteq> 0 then validatePort (pool_SessionPort p) ''pooler.sessionPort'' else skip),
     addIf (pool_PoolSize p < 1 \<or> pool_PoolSize p > 100000) ''pooler.poolSize'' ''must be between 1 and 100000'',
     addIf (pool_MaxClientConnections p < 1 \<or> pool_MaxClientConnections p > 100000) ''pooler.maxClientConnections''
       ''must be between 1 and 100000'']"

definition networkPorts :: "NetworkConfig \<Rightarrow> (string \<times> int) list" where
  "networkPorts n = [(''apiPort'', net_APIPort n), (''studioPort'', net_StudioPort n),
     (''directDatabasePort'', net_DirectDatabasePort n), (''poolerPort'', net_PoolerPort n)]"

definition validateNetwork :: "NetworkConfig \<Rightarrow> problems \<Rightarrow> problems" where
  "validateNetwork n = checks [
     addIf (net_Gateway n \<noteq> ''envoy'' \<and> net_Gateway n \<noteq> ''kong'') ''network.gateway'' ''must be envoy or kong'',
     addIf (net_HTTPSMode n \<noteq> ''external'' \<and> net_HTTPSMode n \<noteq> ''caddy'') ''network.httpsMode''
       ''must be external or caddy; manual HTTPS is unsupported by the pinned renderer'',
     each (networkPorts n) (\<lambda>(field, port). if port \<noteq> 0 then validatePort port (''network.'' @ field) else skip)]"

section \<open>The aggregate\<close>

definition problemsOf :: "ProjectConfiguration \<Rightarrow> problems" where
  "problemsOf cfg = (let general = cfg_General cfg in checks [
     addIf (\<not> blank (gen_Domain general) \<and> \<not> validDomain (gen_Domain general)) ''general.domain''
       ''must be a hostname without a scheme or path'',
     addIf (\<not> blank (gen_SiteURL general) \<and> \<not> validAbsoluteHTTPURL (gen_SiteURL general)) ''general.siteUrl''
       ''must be an absolute http or https URL'',
     addIf (gen_SupabaseVersion general \<noteq> ''self-hosted/v0.8.0'') ''general.supabaseVersion''
       ''must be self-hosted/v0.8.0'',
     validateServicesConfiguration (cfg_Services cfg),
     addIf (svc_Auth (cfg_Services cfg) \<noteq> auth_Enabled (cfg_Auth cfg)) ''auth.enabled'' ''must match services.auth'',
     validateAuth (cfg_Auth cfg),
     validateStorage (cfg_Storage cfg),
     validateRealtime (cfg_Realtime cfg),
     validateFunctions (cfg_Functions cfg),
     validateDatabase (cfg_Database cfg),
     validatePooler (cfg_Pooler cfg),
     validateNetwork (cfg_Network cfg),
     addIf (net_HTTPSMode (cfg_Network cfg) = ''caddy'' \<and> \<not> svc_Gateway (cfg_Services cfg)) ''services.gateway''
       ''Caddy HTTPS requires API Gateway''] [])"

definition ValidateConfiguration :: "ProjectConfiguration \<Rightarrow> goerr option" where
  "ValidateConfiguration cfg = (if problemsOf cfg = [] then None else Some (ValidationError (problemsOf cfg)))"

definition retainIfSet :: "bool \<Rightarrow> SecretInput \<Rightarrow> SecretInput" where
  "retainIfSet isSet input = (if isSet \<and> si_Action input = [] then input\<lparr>si_Action := ''retain''\<rparr> else input)"

text \<open>The stored configuration with the command that keeps each stored secret.\<close>

definition storedCommands :: "ProjectConfiguration \<Rightarrow> ProjectConfiguration" where
  "storedCommands cfg =
     (let general = cfg_General cfg; auth = cfg_Auth cfg; smtp = auth_SMTP auth; phone = auth_Phone auth;
          storage = cfg_Storage cfg; functions = cfg_Functions cfg in
      cfg\<lparr>cfg_General := general\<lparr>gen_StudioPassword := retainIfSet (gen_StudioPasswordSet general) (gen_StudioPassword general)\<rparr>,
        cfg_Auth := auth\<lparr>auth_SMTP := smtp\<lparr>smtp_Password := retainIfSet (smtp_PasswordSet smtp) (smtp_Password smtp)\<rparr>,
          auth_Phone := phone\<lparr>ph_Secret := retainIfSet (ph_SecretSet phone) (ph_Secret phone)\<rparr>,
          auth_OAuth := map (\<lambda>(provider, value).
            (provider, value\<lparr>oa_Secret := retainIfSet (oa_SecretSet value) (oa_Secret value)\<rparr>)) (auth_OAuth auth)\<rparr>,
        cfg_Storage := storage\<lparr>st_SecretAccessKey := retainIfSet (st_SecretAccessKeySet storage) (st_SecretAccessKey storage)\<rparr>,
        cfg_Functions := functions\<lparr>fn_Variables := map (\<lambda>variable.
          variable\<lparr>fv_Value := retainIfSet (fv_ValueSet variable) (fv_Value variable)\<rparr>) (fn_Variables functions)\<rparr>\<rparr>)"

definition ValidateStoredConfiguration :: "ProjectConfiguration \<Rightarrow> goerr option" where
  "ValidateStoredConfiguration cfg = ValidateConfiguration (storedCommands cfg)"

text \<open>
  The maps and slices of a configuration are shared by its copies: after the call the caller's
  configuration holds the commands written into its OAuth providers and function variables.
\<close>

definition sharedCommands :: "ProjectConfiguration \<Rightarrow> ProjectConfiguration" where
  "sharedCommands cfg =
     cfg\<lparr>cfg_Auth := (cfg_Auth cfg)\<lparr>auth_OAuth := auth_OAuth (cfg_Auth (storedCommands cfg))\<rparr>,
       cfg_Functions := (cfg_Functions cfg)\<lparr>fn_Variables := fn_Variables (cfg_Functions (storedCommands cfg))\<rparr>\<rparr>"

section \<open>Presets and defaults\<close>

definition ApplyPreset :: "Preset \<Rightarrow> Services" where
  "ApplyPreset preset =
     (let core = \<lparr>svc_Database = True, svc_Gateway = True, svc_Auth = True, svc_REST = True, svc_Studio = True,
            svc_PostgresMeta = True, svc_Realtime = False, svc_Storage = False, svc_Imgproxy = False,
            svc_Functions = False, svc_Supavisor = False, svc_Logs = False, svc_Vector = False, svc_DirectDB = False\<rparr>
      in case preset of
          PresetStandard \<Rightarrow> core\<lparr>svc_Realtime := True, svc_Storage := True, svc_Functions := True, svc_Supavisor := True\<rparr>
        | PresetFull \<Rightarrow> core\<lparr>svc_Realtime := True, svc_Storage := True, svc_Imgproxy := True, svc_Functions := True,
            svc_Supavisor := True, svc_Logs := True, svc_Vector := True\<rparr>
        | _ \<Rightarrow> core)"

definition newline :: string where
  "newline = [CHR 0x0A]"

definition defaultMailerTemplate :: "string \<Rightarrow> EmailTemplateConfig" where
  "defaultMailerTemplate subject = \<lparr>tpl_Subject = subject, tpl_Body =
     ''<!doctype html>'' @ newline @ ''<html>'' @ newline @ ''  <body>'' @ newline @ ''    <h2>'' @ subject @
     ''</h2>'' @ newline @ ''  </body>'' @ newline @ ''</html>''\<rparr>"

definition defaultNotification :: "string \<Rightarrow> EmailNotificationConfig" where
  "defaultNotification subject = \<lparr>ntf_Enabled = False, ntf_Template = defaultMailerTemplate subject\<rparr>"

definition defaultMailerConfig :: MailerConfig where
  "defaultMailerConfig = \<lparr>ml_Templates = \<lparr>
       tpls_Confirmation = defaultMailerTemplate ''Confirm your signup'',
       tpls_Invite = defaultMailerTemplate ''You have been invited'',
       tpls_MagicLink = defaultMailerTemplate ''Your magic link'',
       tpls_EmailChange = defaultMailerTemplate ''Confirm email change'',
       tpls_Recovery = defaultMailerTemplate ''Reset password'',
       tpls_Reauthentication = defaultMailerTemplate ''Confirm reauthentication''\<rparr>,
     ml_Notifications = \<lparr>
       ntfs_PasswordChanged = defaultNotification ''Your password was changed'',
       ntfs_EmailChanged = defaultNotification ''Your email address was changed'',
       ntfs_PhoneChanged = defaultNotification ''Your phone number was changed'',
       ntfs_IdentityLinked = defaultNotification ''A sign-in method was linked'',
       ntfs_IdentityUnlinked = defaultNotification ''A sign-in method was removed'',
       ntfs_MFAFactorEnrolled = defaultNotification ''An MFA method was added'',
       ntfs_MFAFactorUnenrolled = defaultNotification ''An MFA method was removed''\<rparr>\<rparr>"

definition defaultAuth :: AuthConfig where
  "defaultAuth = \<lparr>auth_Enabled = True, auth_JWTExpiry = 0, auth_DisableSignup = False,
     auth_Email = \<lparr>em_Enabled = True, em_AllowSignup = True, em_ConfirmEmail = False, em_SecureEmailChange = False,
       em_DoubleConfirmChanges = False, em_SecurePasswordChange = False, em_RequireCurrentPassword = False,
       em_PreventLeakedPasswords = False, em_MinimumPasswordLength = 6, em_PasswordRequirements = [],
       em_EmailOTPExpiration = 3600, em_EmailOTPLength = 8\<rparr>,
     auth_Phone = \<lparr>ph_Enabled = False, ph_Provider = [], ph_SecretSet = False, ph_Secret = noSecret, ph_Fields = []\<rparr>,
     auth_AnonymousSignIn = False, auth_ManualLinking = False, auth_RedirectURLs = [], auth_OAuth = [],
     auth_SMTP = \<lparr>smtp_Enabled = False, smtp_Host = [], smtp_Port = 587, smtp_Username = [], smtp_PasswordSet = False,
       smtp_Password = noSecret, smtp_SenderEmail = [], smtp_SenderName = []\<rparr>,
     auth_Mailer = defaultMailerConfig,
     auth_RateLimits = \<lparr>rl_EmailSent = 30, rl_SMSSent = 30, rl_TokenRefresh = 150, rl_TokenVerification = 30,
       rl_AnonymousUsers = 30, rl_SignupsAndSignins = 30\<rparr>,
     auth_MFA = \<lparr>mfa_TOTPEnrollEnabled = True, mfa_TOTPVerifyEnabled = True, mfa_PhoneEnrollEnabled = False,
       mfa_PhoneVerifyEnabled = False, mfa_MaxEnrolledFactors = 10, mfa_PhoneOTPLength = 6\<rparr>\<rparr>"

definition DefaultConfiguration :: "Preset \<Rightarrow> ProjectConfiguration" where
  "DefaultConfiguration preset = \<lparr>cfg_Revision = 0,
     cfg_General = \<lparr>gen_Domain = [], gen_SiteURL = [], gen_SupabaseVersion = ''self-hosted/v0.8.0'',
       gen_StudioUsername = ''supabase'', gen_StudioPasswordSet = False, gen_StudioPassword = noSecret\<rparr>,
     cfg_Services = ApplyPreset preset, cfg_Auth = defaultAuth,
     cfg_Storage = \<lparr>st_Backend = ''local'', st_S3CompatibleAPI = False, st_Bucket = [], st_Region = [], st_Endpoint = [],
       st_AccountID = [], st_AccessKeyID = [], st_SecretAccessKeySet = False, st_SecretAccessKey = noSecret,
       st_ForcePathStyle = False, st_LocalPath = []\<rparr>,
     cfg_Realtime = \<lparr>rt_MaxConnections = 100, rt_DatabasePoolSize = 5, rt_LogLevel = ''info''\<rparr>,
     cfg_Functions = \<lparr>fn_DefaultJWTVerification = True, fn_Directory = ''./functions'', fn_Variables = []\<rparr>,
     cfg_Database = \<lparr>db_Version = ''17'', db_DirectPort = False, db_DirectPortNumber = 0, db_MaxConnections = 100,
       db_SharedBuffers = [], db_Extensions = []\<rparr>,
     cfg_Pooler = \<lparr>pool_TransactionPort = 0, pool_SessionPort = 0, pool_PoolSize = 20, pool_MaxClientConnections = 100\<rparr>,
     cfg_Network = \<lparr>net_Gateway = ''envoy'', net_HTTPSMode = ''external'', net_ManagedTLS = None,
       net_InternalGatewayPort = 0, net_APIPort = 0, net_StudioPort = 0, net_DirectDatabasePort = 0, net_PoolerPort = 0\<rparr>\<rparr>"

definition ApplyConfigurationPreset :: "Preset \<Rightarrow> ProjectConfiguration" where
  "ApplyConfigurationPreset preset =
     (let services = ApplyPreset preset in
      (DefaultConfiguration PresetLightweight)\<lparr>cfg_Services := services\<lparr>
        svc_PostgresMeta := (svc_Studio services \<or> svc_PostgresMeta services),
        svc_Storage := (svc_Imgproxy services \<or> svc_Storage services),
        svc_Vector := svc_Logs services\<rparr>\<rparr>)"

section \<open>Slugs and drafts\<close>

text \<open>The loop of \<^verbatim>\<open>NormalizeSlug\<close>: the slug so far and whether a separator is pending.\<close>

fun slugLoop :: "string \<Rightarrow> string \<Rightarrow> bool \<Rightarrow> string" where
  "slugLoop [] slug pending = slug"
| "slugLoop (r # rs) slug pending =
     (if lowerOrDigit r
      then slugLoop rs (slug @ (if pending \<and> slug \<noteq> [] then ''-'' else []) @ [r]) False
      else slugLoop rs slug (slug \<noteq> []))"

definition trimHyphens :: "string \<Rightarrow> string" where
  "trimHyphens s = rev (dropWhile (\<lambda>c. c = CHR ''-'') (rev (dropWhile (\<lambda>c. c = CHR ''-'') s)))"

definition NormalizeSlug :: "string \<Rightarrow> string" where
  "NormalizeSlug name = trimHyphens (slugLoop (toLower (trimSpace name)) [] False)"

text \<open>\<^verbatim>\<open>^[a-z0-9][a-z0-9-]{0,62}$\<close>\<close>

definition managedTLSNamePattern :: rx where
  "managedTLSNamePattern = Cat (Cls lowerOrDigit) (Rep (Cls (\<lambda>c. lowerOrDigit c \<or> c = CHR ''-'')) 0 62)"

definition ManagedTLSPaths :: "string \<Rightarrow> string \<Rightarrow> goerr + ManagedTLSConfig" where
  "ManagedTLSPaths certificateName siteURL =
     (let name = trimSpace (toLower certificateName) in
      if \<not> matchString managedTLSNamePattern name
      then Inl (ErrorsNew ''certificate name must contain lowercase letters, digits, and hyphens only'')
      else case Parse (trimSpace siteURL) of
          None \<Rightarrow> Inl (ErrorsNew ''site URL must be an http or https base domain'')
        | Some parsed \<Rightarrow>
            if url_Scheme parsed \<noteq> ''https'' \<and> url_Scheme parsed \<noteq> ''http'' \<or> Hostname parsed = []
            then Inl (ErrorsNew ''site URL must be an http or https base domain'')
            else (let labels = splitOn (CHR ''.'') (toLower (Hostname parsed)) in
              if length labels < 2 \<or> hd labels = [] then Inl (ErrorsNew ''site URL must include a base domain'')
              else if \<not> list_all (matchString managedTLSNamePattern) labels
              then Inl (ErrorsNew ''site URL has an invalid base domain label'')
              else (let base = name @ (if hasSuffix name (''-'' @ hd labels) then [] else ''-'' @ hd labels) in
                Inr \<lparr>tls_CertificateName = name, tls_CertificateFile = ''/etc/nginx/ssl/'' @ base @ ''.pem'',
                  tls_PrivateKeyFile = ''/etc/nginx/ssl/'' @ base @ ''.key''\<rparr>)))"

definition managedTLSError :: "ProjectConfiguration \<Rightarrow> goerr list" where
  "managedTLSError cfg = (case net_ManagedTLS (cfg_Network cfg) of
      None \<Rightarrow> []
    | Some managed \<Rightarrow>
        (let mismatch = FieldError ''configuration.network.managedTls''
           ''must use the managed TLS path derived from the Site URL base domain'' in
         case ManagedTLSPaths (tls_CertificateName managed) (gen_SiteURL (cfg_General cfg)) of
             Inl e \<Rightarrow> [mismatch]
           | Inr expected \<Rightarrow> (if tls_CertificateFile expected \<noteq> tls_CertificateFile managed \<or>
               tls_PrivateKeyFile expected \<noteq> tls_PrivateKeyFile managed then [mismatch] else [])))"

definition ValidateDraft :: "ProjectDraft \<Rightarrow> goerr option" where
  "ValidateDraft draft =
     (let name = trimSpace (draft_Name draft);
          normalized = NormalizeProjectAddress (draft_Slug draft) (cfg_General (draft_Configuration draft));
          cfg = (case normalized of Inl e \<Rightarrow> draft_Configuration draft
                 | Inr general \<Rightarrow> (draft_Configuration draft)\<lparr>cfg_General := general\<rparr>);
          version = gen_SupabaseVersion (cfg_General cfg);
          errs = (if name = [] \<or> length name > 80 then [FieldError ''name'' ''must contain 1 to 80 characters''] else []) @
            (if \<not> matchString slugPattern (draft_Slug draft)
             then [FieldError ''slug'' ''must match [a-z0-9-] and be a valid DNS label''] else []) @
            (case normalized of Inl e \<Rightarrow> [e] | Inr general \<Rightarrow> []) @
            managedTLSError cfg @
            (if version = [] \<or> equalFold version ''latest'' \<or> equalFold version ''master''
             then [FieldError ''configuration.general.supabaseVersion'' ''must be a pinned supported version''] else []) @
            (case ValidateConfiguration cfg of None \<Rightarrow> [] | Some e \<Rightarrow> [e])
      in if errs = [] then None else Some (Joined errs))"

section \<open>What an accepted configuration satisfies\<close>

named_theorems accepted

lemma add_nonempty [simp]: "add field message v \<noteq> []"
  by (auto simp: add_def mapHas_def)

lemma addIf_empty [accepted]: "addIf b field message v = [] \<longleftrightarrow> v = [] \<and> \<not> b"
  by (simp add: addIf_def)

lemma skip_empty [accepted]: "skip v = [] \<longleftrightarrow> v = []"
  by (simp add: skip_def)

lemma each_empty:
  assumes "\<And>x v. f x v = [] \<longleftrightarrow> v = [] \<and> P x"
  shows "each xs f v = [] \<longleftrightarrow> v = [] \<and> list_all P xs"
  unfolding each_def by (induction xs arbitrary: v) (auto simp: assms)

lemma each_addIf [accepted]:
  "each xs (\<lambda>x. addIf (b x) (g x) (m x)) v = [] \<longleftrightarrow> v = [] \<and> list_all (\<lambda>x. \<not> b x) xs"
  "each ys (\<lambda>(x, y). addIf (c x y) (h x y) (n x y)) v = [] \<longleftrightarrow> v = [] \<and> list_all (\<lambda>(x, y). \<not> c x y) ys"
  by (rule each_empty; auto simp: addIf_empty split: prod.splits)+

text \<open>The conditions under which a check adds nothing.\<close>

definition secretCommand :: "SecretInput \<Rightarrow> bool" where
  "secretCommand input \<longleftrightarrow> si_Action input \<in> {[], ''retain'', ''remove''} \<or> si_Action input = ''replace'' \<and> si_Value input \<noteq> []"

lemma validateSecretInput_empty [accepted]: "validateSecretInput input field v = [] \<longleftrightarrow> v = [] \<and> secretCommand input"
  by (auto simp: validateSecretInput_def secretCommand_def skip_def addIf_def)

lemma validatePort_empty [accepted]: "validatePort port field v = [] \<longleftrightarrow> v = [] \<and> 1 \<le> port \<and> port \<le> 65535"
  by (auto simp: validatePort_def addIf_def)

definition servicesClosed :: "Services \<Rightarrow> bool" where
  "servicesClosed s \<longleftrightarrow> svc_Database s \<and> (svc_Studio s \<longrightarrow> svc_PostgresMeta s) \<and>
     (svc_Auth s \<or> svc_REST s \<or> svc_Studio s \<or> svc_Realtime s \<or> svc_Storage s \<or> svc_Functions s \<longrightarrow> svc_Gateway s) \<and>
     (svc_Storage s \<longrightarrow> svc_REST s) \<and> (svc_Imgproxy s \<longrightarrow> svc_Storage s) \<and> svc_Vector s = svc_Logs s"

lemma validateServices_empty [accepted]:
  "validateServicesConfiguration s v = [] \<longleftrightarrow> v = [] \<and> servicesClosed s"
  unfolding validateServicesConfiguration_def servicesClosed_def by (simp add: accepted) blast

text \<open>A secret that an enabled feature consumes is present, or arrives with the command.\<close>

definition secretSupplied :: "bool \<Rightarrow> SecretInput \<Rightarrow> bool" where
  "secretSupplied isSet input \<longleftrightarrow> secretCommand input \<and>
     (si_Action input = ''replace'' \<or> isSet \<and> si_Action input = ''retain'')"

definition between :: "int \<Rightarrow> int \<Rightarrow> int \<Rightarrow> bool" where
  "between lo hi n \<longleftrightarrow> lo \<le> n \<and> n \<le> hi"

definition rateLimitsOk :: "RateLimitConfig \<Rightarrow> bool" where
  "rateLimitsOk limits \<longleftrightarrow> list_all (\<lambda>(field, value). between 1 1000000 value) (rateLimitFields limits)"

lemma validateRateLimits_empty [accepted]: "validateRateLimits limits v = [] \<longleftrightarrow> v = [] \<and> rateLimitsOk limits"
  unfolding validateRateLimits_def rateLimitsOk_def
  by (rule each_empty) (auto simp: accepted between_def split: prod.splits)

definition mfaOk :: "MFAConfig \<Rightarrow> bool" where
  "mfaOk mfa \<longleftrightarrow> between 1 100 (mfa_MaxEnrolledFactors mfa) \<and> between 4 10 (mfa_PhoneOTPLength mfa)"

lemma validateMFA_empty [accepted]: "validateMFA mfa v = [] \<longleftrightarrow> v = [] \<and> mfaOk mfa"
  unfolding validateMFA_def mfaOk_def by (auto simp: accepted between_def)

text \<open>Every action of a mail template is well formed and uses a documented variable.\<close>

definition templateTextOk :: "string \<Rightarrow> bool" where
  "templateTextOk text \<longleftrightarrow> countPair (CHR ''{'') text = length (templateActions text) \<and>
     countPair (CHR ''}'') text = length (templateActions text) \<and>
     list_all (\<lambda>m. trimSpace m \<in> set allowedMailerTemplateVariables) (templateActions text)"

definition templateOk :: "EmailTemplateConfig \<Rightarrow> bool" where
  "templateOk t \<longleftrightarrow> length (tpl_Subject t) \<le> 255 \<and> CHR 0x0D \<notin> set (tpl_Subject t) \<and> CHR 0x0A \<notin> set (tpl_Subject t) \<and>
     tpl_Body t \<noteq> [] \<and> length (tpl_Body t) \<le> 262144 \<and> templateTextOk (tpl_Subject t) \<and> templateTextOk (tpl_Body t)"

lemma validateVariables_empty [accepted]:
  "validateMailerTemplateVariables text field v = [] \<longleftrightarrow> v = [] \<and> templateTextOk text"
  by (auto simp: validateMailerTemplateVariables_def Let_def templateTextOk_def accepted list_ex_iff list_all_iff)

lemma validateTemplate_empty [accepted]:
  "validateMailerTemplate template field v = [] \<longleftrightarrow> v = [] \<and> templateOk template"
  by (auto simp: validateMailerTemplate_def templateOk_def accepted split: if_splits)

definition mailerOk :: "MailerConfig \<Rightarrow> bool" where
  "mailerOk mailer \<longleftrightarrow> list_all (\<lambda>(path, template). templateOk template) (mailerTemplates mailer)"

lemma validateMailer_empty [accepted]: "validateMailer mailer v = [] \<longleftrightarrow> v = [] \<and> mailerOk mailer"
  unfolding validateMailer_def mailerOk_def by (rule each_empty) (auto simp: accepted split: prod.splits)

definition phoneOk :: "PhoneAuthConfig \<Rightarrow> bool" where
  "phoneOk phone \<longleftrightarrow>
     \<not> ph_Enabled phone \<and> ph_Provider phone = [] \<and> ph_Fields phone = [] \<and> \<not> ph_SecretSet phone \<and> si_Action (ph_Secret phone) = [] \<or>
     ph_Provider phone \<in> {''twilio'', ''messagebird'', ''textlocal''} \<and>
     list_all (\<lambda>field. phoneFieldAllowed (ph_Provider phone) field) (map fst (ph_Fields phone)) \<and>
     (ph_Enabled phone \<longrightarrow> list_all (\<lambda>required. \<not> blank (mapGet [] (ph_Fields phone) required))
          (phoneRequiredFields (ph_Provider phone)) \<and> secretSupplied (ph_SecretSet phone) (ph_Secret phone)) \<and>
     secretCommand (ph_Secret phone)"

lemma validatePhone_empty [accepted]: "validatePhone phone v = [] \<longleftrightarrow> v = [] \<and> phoneOk phone"
  unfolding validatePhone_def phoneOk_def secretSupplied_def Let_def by (simp add: accepted) auto

text \<open>An OAuth provider that is known, with allowed fields, and complete when it is enabled.\<close>

definition providerComplete :: "string \<Rightarrow> OAuthProviderConfig \<Rightarrow> bool" where
  "providerComplete provider config \<longleftrightarrow> \<not> blank (oa_ClientID config) \<and>
     secretSupplied (oa_SecretSet config) (oa_Secret config) \<and>
     list_all (\<lambda>required. validAbsoluteHTTPURL (trimSpace (mapGet [] (oa_Fields config) required))) (oauthRequiredFields provider) \<and>
     list_all (\<lambda>(key, value). hasSuffix key ''Url'' \<and> \<not> blank value \<longrightarrow> validAbsoluteHTTPURL value) (oa_Fields config)"

definition providerOk :: "string \<times> OAuthProviderConfig \<Rightarrow> bool" where
  "providerOk entry \<longleftrightarrow> fst entry \<in> set OAuthProviderNames \<and>
     list_all (providerFieldAllowed (fst entry)) (map fst (oa_Fields (snd entry))) \<and>
     (oa_Enabled (snd entry) \<longrightarrow> providerComplete (fst entry) (snd entry))"

lemma validURL_parses: "validAbsoluteHTTPURL value \<Longrightarrow> ParseRequestURI value \<noteq> None \<and> value \<noteq> []"
proof -
  have "ParseRequestURI [] = None" by (simp add: ParseRequestURI_def parseURL_def)
  then show "validAbsoluteHTTPURL value \<Longrightarrow> ParseRequestURI value \<noteq> None \<and> value \<noteq> []"
    by (auto simp: validAbsoluteHTTPURL_def split: option.splits)
qed

lemma validateEnabledProvider_empty [accepted]:
  "validateEnabledProvider provider field config v = [] \<longleftrightarrow> v = [] \<and> providerComplete provider config"
proof -
  have required: "each (oauthRequiredFields provider) (validateRequiredField field config) u = [] \<longleftrightarrow>
      u = [] \<and> list_all (\<lambda>required. validAbsoluteHTTPURL (trimSpace (mapGet [] (oa_Fields config) required)))
        (oauthRequiredFields provider)" for u
    by (rule each_empty) (auto simp: validateRequiredField_def Let_def accepted dest: validURL_parses)
  show ?thesis
    unfolding validateEnabledProvider_def providerComplete_def secretSupplied_def Let_def
    by (simp add: accepted required) (auto simp: list_all_iff)
qed

lemma validateProvider_empty: "validateProvider entry v = [] \<longleftrightarrow> v = [] \<and> providerOk entry"
  by (auto simp: validateProvider_def providerOk_def Let_def accepted split: prod.splits)

definition smtpOk :: "SMTPConfig \<Rightarrow> bool" where
  "smtpOk smtp \<longleftrightarrow> \<not> blank (smtp_Host smtp) \<and> \<not> blank (smtp_Username smtp) \<and>
     (si_Action (smtp_Password smtp) = ''replace'' \<or> smtp_PasswordSet smtp \<and> si_Action (smtp_Password smtp) = ''retain'') \<and>
     between 1 65535 (smtp_Port smtp) \<and> plainAddress (smtp_SenderEmail smtp) \<and> \<not> blank (smtp_SenderEmail smtp) \<and>
     \<not> blank (smtp_SenderName smtp)"

lemma validateSMTP_empty [accepted]: "validateSMTP smtp v = [] \<longleftrightarrow> v = [] \<and> smtpOk smtp"
  unfolding validateSMTP_def smtpOk_def Let_def by (simp add: accepted between_def) auto

definition zeroOr :: "int \<Rightarrow> int \<Rightarrow> int \<Rightarrow> bool" where
  "zeroOr lo hi n \<longleftrightarrow> n = 0 \<or> between lo hi n"

lemma outside_iff [simp]: "outside lo hi n \<longleftrightarrow> \<not> zeroOr lo hi n"
  by (auto simp: outside_def zeroOr_def between_def)

definition authOk :: "AuthConfig \<Rightarrow> bool" where
  "authOk auth \<longleftrightarrow> between 0 31536000 (auth_JWTExpiry auth) \<and>
     auth_DisableSignup auth = (\<not> em_AllowSignup (auth_Email auth)) \<and>
     (auth_DisableSignup auth \<longrightarrow> \<not> ph_Enabled (auth_Phone auth) \<and> \<not> auth_AnonymousSignIn auth \<and>
        \<not> hasEnabledOAuth (auth_OAuth auth)) \<and>
     em_SecureEmailChange (auth_Email auth) = em_DoubleConfirmChanges (auth_Email auth) \<and>
     zeroOr 6 72 (em_MinimumPasswordLength (auth_Email auth)) \<and> zeroOr 60 86400 (em_EmailOTPExpiration (auth_Email auth)) \<and>
     zeroOr 6 10 (em_EmailOTPLength (auth_Email auth)) \<and>
     rateLimitsOk (auth_RateLimits auth) \<and> mfaOk (auth_MFA auth) \<and> mailerOk (auth_Mailer auth) \<and>
     secretCommand (smtp_Password (auth_SMTP auth)) \<and> phoneOk (auth_Phone auth) \<and>
     (smtp_Enabled (auth_SMTP auth) \<longrightarrow> smtpOk (auth_SMTP auth)) \<and>
     list_all validAbsoluteHTTPURL (auth_RedirectURLs auth) \<and> list_all providerOk (auth_OAuth auth)"

lemma list_all_enumerate: "list_all (\<lambda>(i, x). P x) (enumerate n xs) \<longleftrightarrow> list_all P xs"
  by (induction xs arbitrary: n) auto

lemma validateAuth_empty [accepted]: "validateAuth auth v = [] \<longleftrightarrow> v = [] \<and> authOk auth"
proof -
  note providers = each_empty [where f = validateProvider and P = providerOk, OF validateProvider_empty]
  have range: "(auth_JWTExpiry auth < 0 \<or> 31536000 < auth_JWTExpiry auth) \<longleftrightarrow> \<not> between 0 31536000 (auth_JWTExpiry auth)"
    by (auto simp: between_def)
  have enabled: "(if b then f else skip) u = [] \<longleftrightarrow> (if b then f u = [] else u = [])" for b u and f :: "problems \<Rightarrow> problems"
    by (simp add: skip_def)
  show ?thesis
    unfolding validateAuth_def authOk_def Let_def
    by (simp only: checks.simps providers range outside_iff accepted not_not enabled list_all_enumerate) auto
qed

definition storageOk :: "StorageConfig \<Rightarrow> bool" where
  "storageOk s \<longleftrightarrow> secretCommand (st_SecretAccessKey s) \<and>
     (if st_Backend s = ''local'' then
        st_Bucket s = [] \<and> st_Region s = [] \<and> st_Endpoint s = [] \<and> st_AccountID s = [] \<and> st_AccessKeyID s = [] \<and>
        (if st_SecretAccessKeySet s then si_Action (st_SecretAccessKey s) = ''remove'' else si_Action (st_SecretAccessKey s) = [])
      else
        objectBackend (st_Backend s) \<and> \<not> blank (st_Bucket s) \<and> (st_Backend s = ''r2'' \<or> \<not> blank (st_Region s)) \<and>
        \<not> blank (st_AccessKeyID s) \<and> (st_SecretAccessKeySet s \<or> si_Action (st_SecretAccessKey s) = ''replace'') \<and>
        si_Action (st_SecretAccessKey s) \<noteq> ''remove'' \<and>
        (if st_Backend s = ''r2'' then \<not> blank (st_AccountID s) \<and> st_Endpoint s = []
         else (st_Backend s = ''s3'' \<longrightarrow> \<not> blank (st_Endpoint s)) \<and>
           (st_Endpoint s = [] \<or> validAbsoluteHTTPURL (st_Endpoint s))))"

lemma validateStorage_empty [accepted]: "validateStorage s v = [] \<longleftrightarrow> v = [] \<and> storageOk s"
  unfolding validateStorage_def storageOk_def Let_def by (simp add: accepted) auto

definition realtimeOk :: "RealtimeConfig \<Rightarrow> bool" where
  "realtimeOk rt \<longleftrightarrow> between 1 100000 (rt_MaxConnections rt) \<and> between 1 10000 (rt_DatabasePoolSize rt) \<and>
     rt_LogLevel rt \<in> {''debug'', ''info'', ''warn'', ''error''}"

lemma validateRealtime_empty [accepted]: "validateRealtime rt v = [] \<longleftrightarrow> v = [] \<and> realtimeOk rt"
  unfolding validateRealtime_def realtimeOk_def by (simp add: accepted between_def) auto

definition variableOk :: "FunctionVariable \<Rightarrow> bool" where
  "variableOk variable \<longleftrightarrow> matchString envNamePattern (fv_Name variable) \<and>
     fv_Name variable \<notin> set reservedFunctionVariables \<and> \<not> hasPrefix (fv_Name variable) ''SUPABASE_'' \<and>
     secretCommand (fv_Value variable)"

lemma validateFunctions_empty [accepted]:
  "validateFunctions f v = [] \<longleftrightarrow> v = [] \<and> list_all variableOk (fn_Variables f)"
  unfolding validateFunctions_def
  by (subst each_empty [where P = "\<lambda>(i, x). variableOk x"])
    (auto simp: validateVariable_def variableOk_def Let_def accepted list_all_enumerate split: prod.splits)

definition databaseOk :: "DatabaseConfig \<Rightarrow> bool" where
  "databaseOk d \<longleftrightarrow> db_Version d = ''17'' \<and> between 1 100000 (db_MaxConnections d) \<and> zeroOr 1 65535 (db_DirectPortNumber d)"

lemma validateDatabase_empty [accepted]: "validateDatabase d v = [] \<longleftrightarrow> v = [] \<and> databaseOk d"
  unfolding validateDatabase_def databaseOk_def by (auto simp: accepted between_def zeroOr_def)

definition poolerOk :: "PoolerConfig \<Rightarrow> bool" where
  "poolerOk p \<longleftrightarrow> zeroOr 1 65535 (pool_TransactionPort p) \<and> zeroOr 1 65535 (pool_SessionPort p) \<and>
     between 1 100000 (pool_PoolSize p) \<and> between 1 100000 (pool_MaxClientConnections p)"

lemma validatePooler_empty [accepted]: "validatePooler p v = [] \<longleftrightarrow> v = [] \<and> poolerOk p"
  unfolding validatePooler_def poolerOk_def by (auto simp: accepted between_def zeroOr_def)

definition networkOk :: "NetworkConfig \<Rightarrow> bool" where
  "networkOk n \<longleftrightarrow> net_Gateway n \<in> {''envoy'', ''kong''} \<and> net_HTTPSMode n \<in> {''external'', ''caddy''} \<and>
     list_all (\<lambda>(field, port). zeroOr 1 65535 port) (networkPorts n)"

lemma validateNetwork_empty [accepted]: "validateNetwork n v = [] \<longleftrightarrow> v = [] \<and> networkOk n"
proof -
  have ports: "each ports (\<lambda>(field, port). if port \<noteq> 0 then validatePort port (g field) else skip) u = [] \<longleftrightarrow>
      u = [] \<and> list_all (\<lambda>(field, port). zeroOr 1 65535 port) ports" for ports g u
    by (rule each_empty) (auto simp: accepted zeroOr_def between_def split: prod.splits)
  show ?thesis
    unfolding validateNetwork_def networkOk_def by (auto simp: accepted ports)
qed

text \<open>What a configuration must satisfy, independently of the order of the checks and of their messages.\<close>

definition acceptable :: "ProjectConfiguration \<Rightarrow> bool" where
  "acceptable cfg \<longleftrightarrow>
     (blank (gen_Domain (cfg_General cfg)) \<or> validDomain (gen_Domain (cfg_General cfg))) \<and>
     (blank (gen_SiteURL (cfg_General cfg)) \<or> validAbsoluteHTTPURL (gen_SiteURL (cfg_General cfg))) \<and>
     gen_SupabaseVersion (cfg_General cfg) = ''self-hosted/v0.8.0'' \<and>
     servicesClosed (cfg_Services cfg) \<and> svc_Auth (cfg_Services cfg) = auth_Enabled (cfg_Auth cfg) \<and>
     authOk (cfg_Auth cfg) \<and> storageOk (cfg_Storage cfg) \<and> realtimeOk (cfg_Realtime cfg) \<and>
     list_all variableOk (fn_Variables (cfg_Functions cfg)) \<and> databaseOk (cfg_Database cfg) \<and> poolerOk (cfg_Pooler cfg) \<and>
     networkOk (cfg_Network cfg) \<and>
     (net_HTTPSMode (cfg_Network cfg) = ''caddy'' \<longrightarrow> svc_Gateway (cfg_Services cfg))"

lemma validate_iff: "ValidateConfiguration cfg = None \<longleftrightarrow> acceptable cfg"
proof -
  have "problemsOf cfg = [] \<longleftrightarrow> acceptable cfg"
    unfolding problemsOf_def acceptable_def Let_def
    by (simp only: checks.simps accepted simp_thms not_not de_Morgan_conj) auto
  then show ?thesis by (simp add: ValidateConfiguration_def)
qed

text \<open>
  (C22) Validation is complete and exact: \<^verbatim>\<open>ValidateConfiguration\<close> returns no error exactly for the
  configurations that are acceptable section by section: a pinned version, closed service dependencies,
  ports that are zero or between 1 and 65535, limits in their ranges, well-formed addresses, URLs and
  mail templates, and for every enabled provider, mail server and object store its required fields
  and a secret that is stored or supplied. Otherwise it returns a \<^verbatim>\<open>ValidationError\<close> that names a field.
\<close>

theorem validation_is_exact:
  "(ValidateConfiguration cfg = None \<longleftrightarrow> acceptable cfg) \<and>
   (ValidateConfiguration cfg \<noteq> None \<longleftrightarrow> (\<exists>field message rest. ValidateConfiguration cfg = Some (ValidationError ((field, message) # rest))))"
proof -
  have "problemsOf cfg \<noteq> [] \<longleftrightarrow> (\<exists>field message rest. problemsOf cfg = (field, message) # rest)"
    by (cases "problemsOf cfg") auto
  then show ?thesis using validate_iff [of cfg] by (auto simp: ValidateConfiguration_def)
qed

lemma templateTextOk_plain:
  assumes "CHR ''{'' \<notin> set body" and "CHR ''}'' \<notin> set body"
  shows "templateTextOk body"
proof -
  have count: "countPair c t = 0" if "c \<notin> set t" for c and t :: string
    using that by (induction c t rule: countPair.induct) auto
  have "templateActions body = []"
    using assms(1)
  proof (induction body)
    case (Cons c t)
    then show ?case by (subst templateActions.simps) (simp add: hasPrefix_def)
  qed (simp add: templateActions.simps)
  with assms show ?thesis by (simp add: templateTextOk_def count)
qed

lemma defaultTemplate_ok:
  assumes "CHR ''{'' \<notin> set subject" "CHR ''}'' \<notin> set subject" "CHR 0x0D \<notin> set subject" "CHR 0x0A \<notin> set subject"
    and "length subject \<le> 255"
  shows "templateOk (defaultMailerTemplate subject)"
  using assms by (auto simp: templateOk_def defaultMailerTemplate_def newline_def intro!: templateTextOk_plain)

lemma defaultMailer_ok: "mailerOk defaultMailerConfig"
  by (simp add: mailerOk_def mailerTemplates_def defaultMailerConfig_def defaultNotification_def Let_def defaultTemplate_ok)

lemma defaults_acceptable: "acceptable (ApplyConfigurationPreset p)"
proof -
  have "servicesClosed (cfg_Services (ApplyConfigurationPreset p)) \<and> svc_Auth (cfg_Services (ApplyConfigurationPreset p))"
    by (cases p) (simp_all add: ApplyConfigurationPreset_def ApplyPreset_def servicesClosed_def Let_def)
  moreover have "authOk defaultAuth"
    by (simp add: authOk_def defaultAuth_def between_def zeroOr_def rateLimitsOk_def rateLimitFields_def mfaOk_def
        phoneOk_def noSecret_def secretCommand_def hasEnabledOAuth_def defaultMailer_ok)
  ultimately show ?thesis
    by (simp add: acceptable_def ApplyConfigurationPreset_def DefaultConfiguration_def Let_def blank_def trimSpace_def
        storageOk_def noSecret_def secretCommand_def realtimeOk_def between_def zeroOr_def databaseOk_def poolerOk_def
        networkOk_def networkPorts_def defaultAuth_def)
qed

text \<open>
  (C23) The defaults are safe: for every preset, the complete default configuration passes validation,
  both as a command and as a stored configuration.
\<close>

theorem presets_are_valid:
  "ValidateConfiguration (ApplyConfigurationPreset p) = None \<and>
   ValidateStoredConfiguration (ApplyConfigurationPreset p) = None"
proof -
  have "storedCommands (ApplyConfigurationPreset p) = ApplyConfigurationPreset p"
    by (simp add: storedCommands_def ApplyConfigurationPreset_def DefaultConfiguration_def defaultAuth_def
        retainIfSet_def Let_def)
  then show ?thesis using defaults_acceptable [of p] by (simp add: validate_iff ValidateStoredConfiguration_def)
qed

end
