(* ===== verification/ProjectAddress.thy ===== *)
theory ProjectAddress
  imports ProjectValidation
begin

text \<open>
  Properties of the slugs and host names that \<^verbatim>\<open>project/slug.go\<close> and \<^verbatim>\<open>project/validate.go\<close> derive: the
  normalised slug is a fixed point and a DNS label, and the normalised address is stable under a
  second normalisation, although \<^verbatim>\<open>url.ParseRequestURI\<close> also accepts escapes, ports and IPv6 literals.
\<close>

section \<open>Slugs\<close>

definition slugChar :: "char \<Rightarrow> bool" where
  "slugChar c \<longleftrightarrow> lowerOrDigit c \<or> c = CHR ''-''"

lemma slugPattern_iff:
  "matchString slugPattern s \<longleftrightarrow> s \<noteq> [] \<and> length s \<le> 63 \<and> lowerOrDigit (hd s) \<and> lowerOrDigit (last s) \<and> list_all slugChar s"
  using label_match [of lowerOrDigit "\<lambda>c. lowerOrDigit c \<or> c = CHR ''-''" 61 s]
  by (simp add: slugPattern_def slugChar_def [abs_def])

lemma not_hyphen [simp]: "\<not> lowerOrDigit (CHR ''-'')"
  by (simp add: lowerOrDigit_def inRange_def)

text \<open>Words of letters and digits joined by single hyphens.\<close>

fun singleHyphens :: "string \<Rightarrow> bool" where
  "singleHyphens (a # b # s) \<longleftrightarrow> \<not> (a = CHR ''-'' \<and> b = CHR ''-'') \<and> singleHyphens (b # s)"
| "singleHyphens s \<longleftrightarrow> True"

definition slugShape :: "string \<Rightarrow> bool" where
  "slugShape s \<longleftrightarrow> s = [] \<or> lowerOrDigit (hd s) \<and> lowerOrDigit (last s) \<and> list_all slugChar s \<and> singleHyphens s"

lemma singleHyphens_snoc:
  "singleHyphens (s @ [c]) \<longleftrightarrow> singleHyphens s \<and> (s \<noteq> [] \<longrightarrow> \<not> (last s = CHR ''-'' \<and> c = CHR ''-''))"
  by (induction s rule: singleHyphens.induct) auto

lemma slugShape_snoc:
  assumes "slugShape s" and "lowerOrDigit r"
  shows "slugShape (s @ [r])" "s \<noteq> [] \<Longrightarrow> slugShape (s @ [CHR ''-'', r])"
proof -
  have r: "r \<noteq> CHR ''-''" using assms(2) by auto
  with assms show "slugShape (s @ [r])"
    by (auto simp: slugShape_def singleHyphens_snoc slugChar_def hd_append)
  assume "s \<noteq> []"
  with assms r show "slugShape (s @ [CHR ''-'', r])"
    using singleHyphens_snoc [of "s @ ''-''" r] singleHyphens_snoc [of s "CHR ''-''"]
    by (auto simp: slugShape_def slugChar_def hd_append)
qed

lemma slugLoop_shape: "slugShape s \<Longrightarrow> slugShape (slugLoop rs s pending)"
proof (induction rs s pending rule: slugLoop.induct)
  case (2 r rs s pending)
  then show ?case by (auto simp: slugShape_snoc)
qed simp

lemma trimHyphens_shape: "slugShape s \<Longrightarrow> trimHyphens s = s"
proof -
  assume shape: "slugShape s"
  have ends: "dropWhile (\<lambda>c. c = CHR ''-'') t = t" if "t \<noteq> [] \<Longrightarrow> lowerOrDigit (hd t)" for t
    using that by (cases t) auto
  show ?thesis
    unfolding trimHyphens_def using shape by (subst ends; auto simp: ends hd_rev slugShape_def)
qed

lemma NormalizeSlug_shape: "slugShape (NormalizeSlug name)"
proof -
  have "slugShape (slugLoop (toLower (trimSpace name)) [] False)"
    by (rule slugLoop_shape) (simp add: slugShape_def)
  then show ?thesis by (simp add: NormalizeSlug_def trimHyphens_shape)
qed

text \<open>On a text of that shape the loop copies it.\<close>

lemma slugLoop_copies:
  "list_all slugChar rs \<Longrightarrow> singleHyphens rs \<Longrightarrow> rs \<noteq> [] \<Longrightarrow> lowerOrDigit (last rs) \<Longrightarrow>
     (s = [] \<longrightarrow> lowerOrDigit (hd rs)) \<Longrightarrow> (pending \<longrightarrow> s \<noteq> [] \<and> lowerOrDigit (hd rs)) \<Longrightarrow>
     slugLoop rs s pending = s @ (if pending then ''-'' else []) @ rs"
proof (induction rs arbitrary: s pending)
  case (Cons r rs)
  show ?case
  proof (cases "rs = []")
    case True
    with Cons.prems show ?thesis by auto
  next
    case False
    then obtain q qs where rs: "rs = q # qs" by (cases rs) auto
    show ?thesis
    proof (cases "lowerOrDigit r")
      case True
      have "slugLoop rs (s @ (if pending then ''-'' else []) @ [r]) False = (s @ (if pending then ''-'' else []) @ [r]) @ [] @ rs"
        by (subst Cons.IH) (use Cons.prems rs in auto)
      with True Cons.prems show ?thesis by auto
    next
      case no: False
      with Cons.prems have "r = CHR ''-''" "s \<noteq> []" "\<not> pending" "lowerOrDigit q"
        by (auto simp: slugChar_def rs)
      moreover have "slugLoop rs s True = s @ ''-'' @ rs"
        by (subst Cons.IH) (use Cons.prems rs \<open>s \<noteq> []\<close> \<open>lowerOrDigit q\<close> in auto)
      ultimately show ?thesis by simp
    qed
  qed
qed simp

lemma slugChar_lower: "slugChar c \<Longrightarrow> toLowerC c = c \<and> \<not> isSpace c"
  by (auto simp: slugChar_def lowerOrDigit_def toLowerC_def isSpace_def inRange_def)

lemma toLower_id: "list_all slugChar s \<Longrightarrow> toLower s = s"
  unfolding toLower_def by (rule map_idI) (auto simp: list_all_iff slugChar_lower)

lemma trimSpace_id: "list_all (\<lambda>c. \<not> isSpace c) s \<Longrightarrow> trimSpace s = s"
proof -
  assume none: "list_all (\<lambda>c. \<not> isSpace c) s"
  have "dropWhile isSpace s = s" using none by (cases s) auto
  moreover have "dropWhile isSpace (rev s) = rev s" using none by (cases s rule: rev_cases) auto
  ultimately show ?thesis by (simp add: trimSpace_def)
qed

text \<open>
  Slugs: the slug derived from any name is empty or consists of words of lower-case letters and
  digits joined by single hyphens; deriving a slug from it again changes nothing; and when it is not
  empty and has at most 63 characters it is a DNS label that project validation accepts.
\<close>

theorem slug_is_normal:
  "slugShape (NormalizeSlug name) \<and> NormalizeSlug (NormalizeSlug name) = NormalizeSlug name \<and>
   (matchString slugPattern (NormalizeSlug name) \<longleftrightarrow> NormalizeSlug name \<noteq> [] \<and> length (NormalizeSlug name) \<le> 63)"
proof -
  let ?s = "NormalizeSlug name"
  have shape: "slugShape ?s" by (rule NormalizeSlug_shape)
  then have chars: "list_all slugChar ?s" by (auto simp: slugShape_def)
  then have "list_all (\<lambda>c. \<not> isSpace c) ?s" by (auto simp: list_all_iff slugChar_lower)
  with chars have same: "toLower (trimSpace ?s) = ?s" by (simp add: trimSpace_id toLower_id)
  have "slugLoop ?s [] False = ?s"
    using shape slugLoop_copies [of ?s "[]" False] by (cases "?s = []") (auto simp: slugShape_def)
  then have "NormalizeSlug ?s = ?s" unfolding NormalizeSlug_def [of ?s] same by (simp add: trimHyphens_shape shape)
  with shape chars show ?thesis by (auto simp: slugPattern_iff slugShape_def)
qed

section \<open>Colons in host names\<close>

abbreviation colons :: "string \<Rightarrow> nat" where
  "colons s \<equiv> length (filter (\<lambda>c. c = CHR '':'') s)"

lemma colons_zero: "colons s = 0 \<longleftrightarrow> CHR '':'' \<notin> set s"
  by (auto simp: filter_empty_conv)

lemma hexValue_colon [simp]: "hexValue (CHR '':'') = None"
  by (simp add: hexValue_def inRange_def)

lemma colons_split:
  "dropWhile isHex s = CHR '':'' # after \<Longrightarrow> colons s = Suc (colons after)"
proof -
  assume rest: "dropWhile isHex s = CHR '':'' # after"
  have "colons (takeWhile isHex s) = 0"
    by (auto simp: filter_empty_conv isHex_def dest: set_takeWhileD)
  moreover have "colons s = colons (takeWhile isHex s @ dropWhile isHex s)" by simp
  ultimately show ?thesis by (simp only: rest filter_append length_append) simp
qed

lemma ipv6_step:
  assumes "ipv6Fields i False s" and "i \<le> 10"
  shows "\<exists>after. dropWhile isHex s = CHR '':'' # after \<and> (CHR '':'' \<in> set after \<or> ipv6Fields (i + 2) False after)"
proof (cases "dropWhile isHex s")
  case Nil
  with assms show ?thesis
    unfolding ipv6Fields.simps [of i False s] by (simp add: ipv6Full_def Let_def split: if_splits)
next
  case (Cons c after)
  with assms show ?thesis
    unfolding ipv6Fields.simps [of i False s] by (auto simp: Let_def split: if_splits list.splits)
qed

lemma parseIPv6_colons:
  assumes "parseIPv6 s"
  shows "2 \<le> colons s"
proof (cases "hasPrefix s ''::''")
  case True
  then show ?thesis by (auto simp: hasPrefix_def prefix_def)
next
  case False
  with assms have "ipv6Fields 0 False s" by (simp add: parseIPv6_def)
  then obtain after where "dropWhile isHex s = CHR '':'' # after"
    and more: "CHR '':'' \<in> set after \<or> ipv6Fields 2 False after"
    using ipv6_step [of 0 s] by (auto simp: numeral_2_eq_2)
  then have total: "colons s = Suc (colons after)" by (intro colons_split)
  have "colons after \<noteq> 0"
  proof (cases "CHR '':'' \<in> set after")
    case False
    with more obtain rest where "dropWhile isHex after = CHR '':'' # rest" using ipv6_step [of 2 after] by fastforce
    then have "colons after = Suc (colons rest)" by (intro colons_split)
    then show ?thesis by simp
  qed (use colons_zero in blast)
  with total show ?thesis by linarith
qed

lemma ParseAddr_colons:
  assumes "ParseAddr s = Some IPv6 \<or> ParseAddr s = Some IPv6Zone"
  shows "2 \<le> colons s"
proof -
  consider "parseIPv6 s" | address zone where "splitFirst (CHR ''%'') s = Some (address, zone)" "parseIPv6 address"
    using assms by (auto simp: ParseAddr_def split: list.splits if_splits option.splits)
  then show ?thesis
  proof cases
    case 2
    then have "s = address @ CHR ''%'' # zone" by (simp add: splitFirst_Some)
    with parseIPv6_colons [OF 2(2)] show ?thesis by simp
  qed (rule parseIPv6_colons)
qed

lemma ParseAddr_dotted:
  assumes "ParseIP (label @ ''.'' @ s)" and "list_all slugChar label"
  shows "parseIPv4 (label @ ''.'' @ s)"
proof -
  have "dropWhile (\<lambda>c. c \<notin> set ''.:%'') (label @ ''.'' @ s) = ''.'' @ s"
    using assms(2) by (subst dropWhile_append2) (auto simp: list_all_iff slugChar_def lowerOrDigit_def inRange_def)
  with assms(1) show ?thesis by (auto simp: ParseIP_def ParseAddr_def split: if_splits)
qed

text \<open>Unescaping a host keeps its colons and invents none.\<close>

lemma hexValue_bound: "hexValue c = Some x \<Longrightarrow> x < 16 \<and> c \<noteq> CHR '':''"
  by (auto simp: hexValue_def inRange_def split: if_splits)

lemma unescapeHost_step:
  assumes "unescape EscapeHost (c # cs) = Some t"
  shows "(\<exists>u. t = c # u \<and> unescape EscapeHost cs = Some u) \<or>
    (\<exists>a b rest v u. c = CHR ''%'' \<and> cs = a # b # rest \<and> a \<noteq> CHR '':'' \<and> b \<noteq> CHR '':'' \<and> t = v # u \<and>
       v \<noteq> CHR '':'' \<and> unescape EscapeHost rest = Some u)"
proof (cases "c = CHR ''%''")
  case True
  then obtain a b rest x y where cs: "cs = a # b # rest" "hexValue a = Some x" "hexValue b = Some y"
    using assms by (auto split: list.splits option.splits)
  let ?v = "char_of (16 * x + y) :: char"
  have "x \<ge> 8 \<or> [a, b] = ''25''" and "\<exists>u. t = ?v # u \<and> unescape EscapeHost rest = Some u"
    using assms True cs by (auto simp: Let_def split: if_splits)
  moreover have "?v \<noteq> CHR '':''" if "x \<ge> 8 \<or> [a, b] = ''25''"
  proof -
    have bounds: "x < 16" "y < 16" using cs hexValue_bound by auto
    have "16 * x + y \<noteq> 58"
    proof (cases "x \<ge> 8")
      case False
      with that cs show ?thesis by (auto simp: hexValue_def inRange_def)
    qed simp
    moreover have "(of_char ?v :: nat) = 16 * x + y" using bounds by simp
    moreover have "(of_char (CHR '':'') :: nat) = 58" by simp
    ultimately show ?thesis by metis
  qed
  ultimately show ?thesis using True cs hexValue_bound by auto
next
  case False
  with assms show ?thesis by (auto split: if_splits)
qed

lemma unescapeHost_no_colon:
  "unescape EscapeHost s = Some t \<Longrightarrow> CHR '':'' \<notin> set s \<Longrightarrow> CHR '':'' \<notin> set t"
proof (induction s arbitrary: t rule: length_induct)
  case (1 s)
  show ?case
  proof (cases s)
    case (Cons c cs)
    from unescapeHost_step [of c cs t] 1(2) Cons
    consider (plain) u where "t = c # u" "unescape EscapeHost cs = Some u"
      | (escaped) x y rest v u where "cs = x # y # rest" "t = v # u" "v \<noteq> CHR '':''" "unescape EscapeHost rest = Some u"
      by blast
    then show ?thesis
    proof cases
      case plain
      with 1(3) Cons have "CHR '':'' \<notin> set u" by (intro 1(1) [rule_format, OF _ plain(2)]) auto
      with plain(1) 1(3) Cons show ?thesis by auto
    next
      case escaped
      with 1(3) Cons have "CHR '':'' \<notin> set u" by (intro 1(1) [rule_format, OF _ escaped(4)]) auto
      with escaped(2,3) show ?thesis by auto
    qed
  qed (use 1 in simp)
qed

lemma unescapeHost_colon:
  "unescape EscapeHost (a @ CHR '':'' # b) = Some t \<Longrightarrow> CHR '':'' \<notin> set a \<Longrightarrow>
     \<exists>u v. t = u @ CHR '':'' # v \<and> CHR '':'' \<notin> set u \<and> unescape EscapeHost b = Some v"
proof (induction a arbitrary: t rule: length_induct)
  case (1 a)
  show ?case
  proof (cases a)
    case Nil
    with 1(2) obtain u where "t = CHR '':'' # u" "unescape EscapeHost b = Some u"
      using unescapeHost_step [of "CHR '':''" b t] by auto
    then show ?thesis by (intro exI [of _ "[]"] exI [of _ u]) simp
  next
    case (Cons c cs)
    from unescapeHost_step [of c "cs @ CHR '':'' # b" t] 1(2) Cons
    consider (plain) u where "t = c # u" "unescape EscapeHost (cs @ CHR '':'' # b) = Some u"
      | (escaped) x y rest v u where "cs @ CHR '':'' # b = x # y # rest" "x \<noteq> CHR '':''" "y \<noteq> CHR '':''" "t = v # u"
          "v \<noteq> CHR '':''" "unescape EscapeHost rest = Some u"
      by auto
    then show ?thesis
    proof cases
      case plain
      obtain u' v where "u = u' @ CHR '':'' # v" "CHR '':'' \<notin> set u'" "unescape EscapeHost b = Some v"
        using 1(1) [rule_format, OF _ plain(2)] 1(3) Cons by auto
      with plain(1) 1(3) Cons show ?thesis by (intro exI [of _ "c # u'"] exI [of _ v]) auto
    next
      case escaped
      then obtain cs' where cs: "cs = x # y # cs'" "rest = cs' @ CHR '':'' # b"
        by (cases cs; cases "tl cs") (auto simp: Cons_eq_append_conv)
      obtain u' w where "u = u' @ CHR '':'' # w" "CHR '':'' \<notin> set u'" "unescape EscapeHost b = Some w"
        using 1(1) [rule_format, of cs' u] escaped(6) 1(3) Cons cs by auto
      with escaped(4,5) show ?thesis by (intro exI [of _ "v # u'"] exI [of _ w]) auto
    qed
  qed
qed

lemma hostChar_digit: "isDigit c \<Longrightarrow> hostChar c \<and> c \<noteq> CHR ''%''"
  by (auto simp: hostChar_def isAlnum_def inRange_def)

lemma unescape_plain:
  "list_all (\<lambda>c. hostChar c \<and> c \<noteq> CHR ''%'') s \<Longrightarrow> unescape EscapeHost s = Some s"
  by (induction s) auto

lemma splitLast_Some: "splitLast sep s = Some (a, b) \<longleftrightarrow> s = a @ sep # b \<and> sep \<notin> set b"
proof -
  have "splitLast sep s = Some (a, b) \<longleftrightarrow> splitFirst sep (rev s) = Some (rev b, rev a)"
    by (auto simp: splitLast_def map_option_case split: option.splits)
  also have "\<dots> \<longleftrightarrow> rev s = rev b @ sep # rev a \<and> sep \<notin> set b" by (simp add: splitFirst_Some)
  also have "rev s = rev b @ sep # rev a \<longleftrightarrow> s = a @ sep # b"
    by (metis append.assoc append_Cons append_Nil rev.simps(2) rev_append rev_rev_ident)
  finally show ?thesis .
qed

lemma Hostname_bracketed:
  assumes "url_Host u = ''['' @ name @ '']'' @ port" and "validOptionalPort port"
  shows "Hostname u = name"
proof (cases port)
  case Nil
  have "\<not> list_all isDigit (b @ '']'')" for b by (simp add: inRange_def)
  then have "(case splitLast (CHR '':'') (url_Host u) of None \<Rightarrow> (url_Host u, [])
      | Some (h, p) \<Rightarrow> (if list_all isDigit p then (h, p) else (url_Host u, []))) = (url_Host u, [])"
  proof (cases "splitLast (CHR '':'') (url_Host u)")
    case (Some hp)
    then obtain h p where h: "url_Host u = h @ CHR '':'' # p" and "hp = (h, p)" by (cases hp) (auto simp: splitLast_Some)
    have p: "p \<noteq> [] \<and> last p = CHR '']''"
    proof -
      have "last (h @ CHR '':'' # p) = CHR '']''" using assms(1) Nil h by (metis append_Nil2 append_assoc last_snoc)
      then show ?thesis by (cases "p = []") auto
    qed
    then have "CHR '']'' \<in> set p" using last_in_set by force
    moreover have "\<not> isDigit (CHR '']'')" by (simp add: inRange_def)
    ultimately have "\<not> list_all isDigit p" by (auto simp: list_all_iff)
    with Some \<open>hp = (h, p)\<close> show ?thesis by simp
  qed simp
  with Nil assms(1) show ?thesis
    by (simp add: Hostname_def hostAndPort_def hasPrefix_def hasSuffix_def suffix_def)
next
  case (Cons c digits)
  with assms(2) have port: "c = CHR '':''" "list_all isDigit digits" by (auto simp: validOptionalPort_def)
  then have "CHR '':'' \<notin> set digits" by (auto simp: list_all_iff inRange_def)
  then have "splitLast (CHR '':'') (url_Host u) = Some (''['' @ name @ '']'', digits)"
    using assms(1) Cons port by (simp add: splitLast_Some)
  with port(2) show ?thesis
    by (simp add: Hostname_def hostAndPort_def hasPrefix_def hasSuffix_def suffix_def)
qed

lemma Hostname_plain:
  assumes "url_Host u = h" and "CHR '':'' \<notin> set h \<or> (\<exists>a digits. h = a @ CHR '':'' # digits \<and> CHR '':'' \<notin> set a \<and> list_all isDigit digits)"
  shows "CHR '':'' \<notin> set (Hostname u)"
proof -
  obtain host port where split: "(case splitLast (CHR '':'') (url_Host u) of None \<Rightarrow> (url_Host u, [])
      | Some (h, p) \<Rightarrow> (if list_all isDigit p then (h, p) else (url_Host u, []))) = (host, port)" and "CHR '':'' \<notin> set host"
  proof (cases "CHR '':'' \<notin> set h")
    case True
    then show ?thesis using assms(1) that [of h "[]"] by (simp add: splitLast_None [THEN iffD2])
  next
    case False
    with assms(2) obtain a digits where h: "h = a @ CHR '':'' # digits" "CHR '':'' \<notin> set a" "list_all isDigit digits" by auto
    then have "CHR '':'' \<notin> set digits" by (auto simp: list_all_iff inRange_def)
    with h have "splitLast (CHR '':'') h = Some (a, digits)" by (simp add: splitLast_Some)
    then show ?thesis using assms(1) h that [of a digits] by simp
  qed
  then show ?thesis
    by (cases host) (auto simp: Hostname_def hostAndPort_def dest: in_set_butlastD)
qed

lemma parseHost_colons:
  assumes "parseHost s = Some (url_Host u)"
  shows "CHR '':'' \<notin> set (Hostname u) \<or> 2 \<le> colons (Hostname u)"
proof (cases "hasPrefix s ''[''")
  case True
  with assms obtain bracketed port name where "validOptionalPort port" "parseLiteral (tl bracketed) = Some name"
    "url_Host u = ''['' @ name @ '']'' @ port"
    by (auto simp: parseHost_def split: if_splits option.splits)
  moreover from this have "2 \<le> colons name"
    by (auto simp: parseLiteral_def ParseAddr_colons split: prod.splits option.splits if_splits)
  ultimately show ?thesis using Hostname_bracketed by auto
next
  case False
  show ?thesis
  proof (cases "splitFirst (CHR '':'') s")
    case None
    with assms False have "unescape EscapeHost s = Some (url_Host u)" by (auto simp: parseHost_def split: if_splits)
    with None have "CHR '':'' \<notin> set (url_Host u)" by (simp add: unescapeHost_no_colon splitFirst_None)
    then show ?thesis using Hostname_plain by blast
  next
    case (Some ab)
    then obtain a b where s: "s = a @ CHR '':'' # b" "CHR '':'' \<notin> set a" and ab: "ab = (a, b)"
      by (cases ab) (auto simp: splitFirst_Some)
    with assms False Some have digits: "list_all isDigit b" and "unescape EscapeHost (a @ CHR '':'' # b) = Some (url_Host u)"
      by (auto simp: parseHost_def split: if_splits)
    then obtain x y where "url_Host u = x @ CHR '':'' # y" "CHR '':'' \<notin> set x" "unescape EscapeHost b = Some y"
      using unescapeHost_colon s(2) by blast
    moreover have "unescape EscapeHost b = Some b"
      using digits by (intro unescape_plain) (auto simp: list_all_iff hostChar_digit)
    ultimately show ?thesis using Hostname_plain digits by auto
  qed
qed

lemma parseAuthority_host:
  assumes "parseAuthority authority = Some (user, host)"
  shows "\<exists>s. parseHost s = Some host"
proof (cases "splitLast (CHR ''@'') authority")
  case None
  with assms show ?thesis by (auto simp: parseAuthority_def)
next
  case (Some parts)
  obtain a b where parts: "parts = (a, b)" by (cases parts)
  show ?thesis
  proof (cases "parseHost b")
    case None
    with assms Some parts show ?thesis by (simp add: parseAuthority_def)
  next
    case (Some h)
    then have "h = host"
      using assms \<open>splitLast (CHR ''@'') authority = Some parts\<close> parts
      by (auto simp: parseAuthority_def split: if_splits option.splits)
    with Some show ?thesis by blast
  qed
qed

lemma ParseRequestURI_host:
  assumes "ParseRequestURI raw = Some u" and "url_Host u \<noteq> []"
  shows "\<exists>s. parseHost s = Some (url_Host u)"
proof -
  have "\<exists>authority user. parseAuthority authority = Some (user, url_Host u)"
    using assms unfolding ParseRequestURI_def parseURL_def withPath_def
    by (auto simp: Let_def split: if_splits option.splits prod.splits) blast
  then show ?thesis using parseAuthority_host by blast
qed

section \<open>Stable addresses\<close>

abbreviation hostText :: "char \<Rightarrow> bool" where
  "hostText c \<equiv> slugChar c \<or> c = CHR ''.''"

lemma splitOn_set: "set s \<subseteq> insert sep (\<Union> (set ` set (splitOn sep s)))"
proof (induction s)
  case (Cons c s)
  then show ?case by (cases "splitOn sep s") auto
qed simp

lemma labels_hostText:
  assumes "list_all (list_all slugChar) (splitOn (CHR ''.'') s)"
  shows "list_all hostText s"
  using splitOn_set [of s "CHR ''.''"] assms by (fastforce simp: list_all_iff)

lemma ipv4_hostText:
  assumes "parseIPv4 s"
  shows "list_all hostText s"
proof (rule labels_hostText)
  show "list_all (list_all slugChar) (splitOn (CHR ''.'') s)"
    using assms by (auto simp: parseIPv4_def Let_def ipv4Field_def list_all_iff slugChar_def lowerOrDigit_def)
qed

text \<open>The domain of a project consists of label characters, unless its base host has exactly one colon.\<close>

lemma validDomain_subdomain:
  assumes valid: "validDomain (label @ ''.'' @ host)" and label: "matchString slugPattern label"
    and colons: "CHR '':'' \<notin> set host \<or> 2 \<le> colons host"
  shows "list_all hostText host"
proof -
  let ?domain = "label @ ''.'' @ host"
  have chars: "list_all slugChar label" using label by (simp add: slugPattern_iff)
  then have none: "CHR '':'' \<notin> set label" by (auto simp: list_all_iff slugChar_def lowerOrDigit_def inRange_def)
  then have total: "colons ?domain = colons host" using colons_zero [of label] by simp
  have start: "\<not> hasPrefix ?domain ''[''"
    using label by (cases label) (auto simp: slugPattern_iff hasPrefix_def lowerOrDigit_def inRange_def)
  have unsplit: "SplitHostPort ?domain = None"
  proof (cases "splitLast (CHR '':'') ?domain")
    case (Some parts)
    then obtain a b where parts: "?domain = a @ CHR '':'' # b" "CHR '':'' \<notin> set b" "parts = (a, b)"
      by (cases parts) (auto simp: splitLast_Some)
    have "CHR '':'' \<in> set ?domain" using parts(1) by (metis in_set_conv_decomp)
    with none colons have "2 \<le> colons ?domain" unfolding total by auto
    moreover have "colons ?domain = Suc (colons a)" unfolding parts(1) using colons_zero [of b] parts(2) by simp
    ultimately have "CHR '':'' \<in> set a" using colons_zero [of a] by linarith
    with Some parts(3) start show ?thesis by (simp add: SplitHostPort_def)
  qed (simp add: SplitHostPort_def)
  have "list_all hostText ?domain"
  proof (cases "ParseIP ?domain")
    case True
    then show ?thesis using ParseAddr_dotted chars ipv4_hostText by blast
  next
    case False
    have "?domain \<noteq> ''localhost''"
    proof
      assume "?domain = ''localhost''"
      then have "CHR ''.'' \<in> set ''localhost''" by (metis append_Cons in_set_conv_decomp)
      then show False by simp
    qed
    with False valid unsplit have "list_all (matchString slugPattern) (splitOn (CHR ''.'') ?domain)"
      by (simp add: validDomain_def split: if_splits)
    then have "list_all (list_all slugChar) (splitOn (CHR ''.'') ?domain)"
      by (auto simp: list_all_iff slugPattern_iff)
    then show ?thesis by (rule labels_hostText)
  qed
  then show ?thesis by simp
qed

lemma hostText_plain:
  assumes "hostText c"
  shows "\<not> isSpace c \<and> \<not> of_char c < (32 :: nat) \<and> c \<noteq> CHR 0x7F \<and> c \<notin> set ''?/@:[%#'' \<and> hostChar c \<and> toLowerC c = c"
proof -
  have "slugChar c \<Longrightarrow> c \<notin> set ''?/@:[%#''" by (auto simp: slugChar_def lowerOrDigit_def inRange_def)
  with assms show ?thesis
    by (auto simp: slugChar_def lowerOrDigit_def hostChar_def isAlnum_def isSpace_def toLowerC_def inRange_def)
qed

lemma hostText_list:
  assumes "list_all hostText host"
  shows "list_all (\<lambda>c. \<not> isSpace c) host" "list_all (\<lambda>c. \<not> (of_char c < (32 :: nat) \<or> c = CHR 0x7F)) host"
    "list_all (\<lambda>c. c \<notin> set ''?/@:[%#'') host" "list_all (\<lambda>c. hostChar c \<and> c \<noteq> CHR ''%'') host" "toLower host = host"
proof -
  have plain: "\<forall>c \<in> set host. \<not> isSpace c \<and> \<not> of_char c < (32 :: nat) \<and> c \<noteq> CHR 0x7F \<and> c \<notin> set ''?/@:[%#'' \<and>
      hostChar c \<and> toLowerC c = c"
    using assms hostText_plain unfolding list_all_iff by blast
  then show "list_all (\<lambda>c. \<not> isSpace c) host" "list_all (\<lambda>c. \<not> (of_char c < (32 :: nat) \<or> c = CHR 0x7F)) host"
    "list_all (\<lambda>c. c \<notin> set ''?/@:[%#'') host"
    unfolding list_all_iff by blast+
  show "list_all (\<lambda>c. hostChar c \<and> c \<noteq> CHR ''%'') host"
    using plain unfolding list_all_iff by (metis list.set_intros)
  show "toLower host = host" unfolding toLower_def using plain by (simp add: map_idI)
qed

lemma hostText_absent: "list_all hostText host \<Longrightarrow> c \<in> set ''?/@:[%#'' \<Longrightarrow> c \<notin> set host"
  using hostText_list(3) unfolding list_all_iff by blast

lemma getScheme_https: "getScheme (''https://'' @ host) = Some (''https'', ''//'' @ host)"
proof -
  have "\<not> isAlnum (CHR '':'')" "isAlnum (CHR ''h'')" "isAlnum (CHR ''t'')" "isAlnum (CHR ''p'')" "isAlnum (CHR ''s'')"
    "isLower (CHR ''h'')"
    by (simp_all add: isAlnum_def inRange_def)
  then show ?thesis by (simp add: getScheme_def)
qed

lemma ParseRequestURI_base:
  assumes "list_all hostText host" and "host \<noteq> []"
  shows "ParseRequestURI (''https://'' @ host) = Some \<lparr>url_Scheme = ''https'', url_HasUser = False, url_Host = host,
    url_Path = [], url_RawQuery = [], url_Fragment = []\<rparr>"
proof -
  note absent = hostText_absent [OF assms(1)]
  have "\<not> list_ex (\<lambda>c. of_char c < (32 :: nat) \<or> c = CHR 0x7F) host"
    using hostText_list(2) [OF assms(1)] unfolding list_all_iff list_ex_iff by blast
  then have noCtl: "\<not> list_ex (\<lambda>c. of_char c < (32 :: nat) \<or> c = CHR 0x7F) (''https://'' @ host)" by simp
  have query: "cutQuery (''//'' @ host) = (''//'' @ host, [])"
    using absent by (simp add: cutQuery_def splitFirst_None [THEN iffD2])
  have path: "cutPath host = (host, [])" using absent by (simp add: cutPath_def splitFirst_None [THEN iffD2])
  have "parseHost host = Some host"
  proof -
    have "CHR ''['' \<notin> set (tl host)" using absent by (cases host) auto
    moreover have "\<not> hasPrefix host ''[''" using absent by (cases host) (auto simp: hasPrefix_def)
    moreover have "unescape EscapeHost host = Some host" by (rule unescape_plain [OF hostText_list(4) [OF assms(1)]])
    ultimately show ?thesis using absent by (simp add: parseHost_def splitFirst_None [THEN iffD2])
  qed
  then have authority: "parseAuthority host = Some (False, host)"
    using absent by (simp add: parseAuthority_def splitLast_None [THEN iffD2])
  have lower: "toLower ''https'' = ''https''" by code_simp
  show ?thesis
    unfolding ParseRequestURI_def parseURL_def if_not_P [OF noCtl] getScheme_https
    using noCtl by (simp add: lower query [simplified] path authority withPath_def hasPrefix_def getScheme_https [simplified])
qed

lemma canonical_fixed:
  assumes "list_all hostText host" and "validDomain host"
  shows "canonicalBaseSiteURL (''https://'' @ host) = Inr (''https://'' @ host)"
proof -
  have ne: "host \<noteq> []" using assms(2) by (auto simp: validDomain_def)
  have absent: "CHR '':'' \<notin> set host" by (rule hostText_absent [OF assms(1)]) simp
  have "CHR ''['' \<notin> set host" by (rule hostText_absent [OF assms(1)]) simp
  then have noBracket: "\<not> hasPrefix host ''[''" by (cases host) (auto simp: hasPrefix_def)
  have "trimSpace (''https://'' @ host) = ''https://'' @ host"
    by (rule trimSpace_id) (simp add: hostText_list(1) [OF assms(1)], simp add: isSpace_def inRange_def)
  moreover note hostText_list(5) [OF assms(1)]
  moreover have "hostAndPort u = (host, [])" if "url_Host u = host" for u
    using that absent noBracket by (simp add: hostAndPort_def splitLast_None [THEN iffD2])
  ultimately show ?thesis
    using assms(2) ne
    by (simp add: canonicalBaseSiteURL_def ParseRequestURI_base [OF assms(1) ne, simplified] Hostname_def URLPort_def)
qed

lemma toLowerC_colon: "toLowerC c = CHR '':'' \<longleftrightarrow> c = CHR '':''"
proof
  assume lower: "toLowerC c = CHR '':''"
  show "c = CHR '':''"
  proof (cases "isUpper c")
    case True
    then have "(of_char (toLowerC c) :: nat) = of_char c + 32" by (simp add: toLowerC_def inRange_def)
    with lower True show ?thesis by (simp add: inRange_def)
  qed (use lower in \<open>simp add: toLowerC_def\<close>)
qed (simp add: toLowerC_def inRange_def)

lemma colons_toLower: "colons (toLower s) = colons s"
  by (induction s) (auto simp: toLower_def toLowerC_colon)

lemma canonical_shape:
  assumes "canonicalBaseSiteURL value = Inr url"
  shows "\<exists>host. url = ''https://'' @ host \<and> validDomain host \<and> (CHR '':'' \<notin> set host \<or> 2 \<le> colons host)"
proof -
  obtain u where parsed: "ParseRequestURI (trimSpace value) = Some u" "url_Host u \<noteq> []"
    and url: "url = ''https://'' @ toLower (Hostname u)" "validDomain (toLower (Hostname u))"
    using assms by (auto simp: canonicalBaseSiteURL_def split: option.splits if_splits)
  have "CHR '':'' \<notin> set (Hostname u) \<or> 2 \<le> colons (Hostname u)"
    using ParseRequestURI_host [OF parsed] parseHost_colons by blast
  then have "CHR '':'' \<notin> set (toLower (Hostname u)) \<or> 2 \<le> colons (toLower (Hostname u))"
    unfolding colons_zero [symmetric] colons_toLower by blast
  with url show ?thesis by blast
qed

text \<open>
  (C24) Normalising a project address is stable: when a slug and a base URL are accepted, the stored site
  URL is \<^verbatim>\<open>https://\<close> followed by a plain host name of letters, digits, hyphens and dots, the domain is
  the slug in front of that host name, nothing else of the section changes, and normalising the result
  again returns it unchanged, whatever upper-case letters, white space, escapes or scheme the
  administrator typed.
\<close>

theorem normalised_address_is_stable:
  assumes run: "NormalizeProjectAddress slug general = Inr general'"
  shows "NormalizeProjectAddress slug general' = Inr general' \<and>
    (\<exists>host. gen_SiteURL general' = ''https://'' @ host \<and> gen_Domain general' = slug @ ''.'' @ host \<and>
       list_all hostText host \<and> general' = general\<lparr>gen_SiteURL := gen_SiteURL general', gen_Domain := gen_Domain general'\<rparr>)"
proof -
  have slug: "matchString slugPattern slug" and "\<exists>url. canonicalBaseSiteURL (gen_SiteURL general) = Inr url"
    using run by (auto simp: NormalizeProjectAddress_def split: if_splits sum.splits)
  then obtain host where canonical: "canonicalBaseSiteURL (gen_SiteURL general) = Inr (''https://'' @ host)"
    and host: "validDomain host" "CHR '':'' \<notin> set host \<or> 2 \<le> colons host"
    using canonical_shape by blast
  have lower: "toLower slug = slug" using slug by (intro toLower_id) (simp add: slugPattern_iff)
  have general': "general' = general\<lparr>gen_SiteURL := ''https://'' @ host, gen_Domain := slug @ ''.'' @ host\<rparr>"
    and domain: "validDomain (slug @ ''.'' @ host)"
    using run slug by (auto simp: NormalizeProjectAddress_def canonical lower Let_def split: if_splits)
  have chars: "list_all hostText host" by (rule validDomain_subdomain [OF domain slug host(2)])
  have "NormalizeProjectAddress slug general' = Inr general'"
    using slug domain canonical_fixed [OF chars host(1)]
    by (simp add: NormalizeProjectAddress_def general' lower Let_def)
  with chars show ?thesis by (auto simp: general')
qed

definition sampleTyped :: GeneralConfig where
  "sampleTyped = \<lparr>gen_Domain = [], gen_SiteURL = '' HTTP://Bee.Example/ '', gen_SupabaseVersion = ''self-hosted/v0.8.0'',
     gen_StudioUsername = ''supabase'', gen_StudioPasswordSet = False, gen_StudioPassword = noSecret\<rparr>"

lemma sampleAddress:
  "NormalizeProjectAddress ''shop'' sampleTyped =
     Inr (sampleTyped\<lparr>gen_SiteURL := ''https://bee.example'', gen_Domain := ''shop.bee.example''\<rparr>)"
  by code_simp

theorem normalised_address_is_stable_witness:
  "NormalizeProjectAddress ''shop'' (sampleTyped\<lparr>gen_SiteURL := ''https://bee.example'', gen_Domain := ''shop.bee.example''\<rparr>) =
     Inr (sampleTyped\<lparr>gen_SiteURL := ''https://bee.example'', gen_Domain := ''shop.bee.example''\<rparr>)"
  using normalised_address_is_stable [OF sampleAddress] by blast

end
