(* ===== verification/ConfigurationService.thy ===== *)
theory ConfigurationService
  imports Workers StoreConfiguration ProjectAddress
begin

text \<open>
  \<^verbatim>\<open>project/configuration_service.go\<close> and \<^verbatim>\<open>project/service.go\<close>: merging a patch into the stored
  configuration, turning the secret commands of a configuration into encrypted mutations, and creating
  a project. \<open>hasCipher\<close> says whether the service was built with a cipher. The properties say that no
  plaintext secret stays in a configuration that is stored, and that a configuration accepted here is
  accepted again by the worker that later reads it back.
\<close>

section \<open>Merging a patch\<close>

definition orDefault :: "string \<Rightarrow> string \<Rightarrow> string" where
  "orDefault value fallback = (if value = [] then fallback else value)"

text \<open>The aggregate of a patch; an empty address is taken from the stored project row.\<close>

definition patchAggregate :: "Project \<Rightarrow> ProjectConfiguration \<Rightarrow> ProjectConfiguration" where
  "patchAggregate project cfg = (let general = cfg_General cfg in cfg\<lparr>cfg_General := general\<lparr>
     gen_SiteURL := orDefault (gen_SiteURL general) (p_SiteURL project),
     gen_Domain := orDefault (gen_Domain general) (p_Domain project),
     gen_SupabaseVersion := orDefault (gen_SupabaseVersion general) (p_SupabaseVersion project)\<rparr>\<rparr>)"

definition patchServices :: "Services \<Rightarrow> ProjectConfiguration \<Rightarrow> ProjectConfiguration" where
  "patchServices services cfg = cfg\<lparr>cfg_Services := services,
     cfg_Auth := (cfg_Auth cfg)\<lparr>auth_Enabled := svc_Auth services\<rparr>,
     cfg_Database := (cfg_Database cfg)\<lparr>db_DirectPort := svc_DirectDB services\<rparr>\<rparr>"

definition whenGiven :: "'a option \<Rightarrow> ('a \<Rightarrow> 'b \<Rightarrow> 'b) \<Rightarrow> 'b \<Rightarrow> 'b" where
  "whenGiven v f x = (case v of None \<Rightarrow> x | Some a \<Rightarrow> f a x)"

definition mergePatch :: "Project \<Rightarrow> ProjectConfiguration \<Rightarrow> ConfigurationPatch \<Rightarrow> ProjectConfiguration" where
  "mergePatch project base patch =
     whenGiven (patch_Network patch) (\<lambda>v cfg. cfg\<lparr>cfg_Network := v\<rparr>)
     (whenGiven (patch_Pooler patch) (\<lambda>v cfg. cfg\<lparr>cfg_Pooler := v\<rparr>)
     (whenGiven (patch_Database patch) (\<lambda>v cfg. cfg\<lparr>cfg_Database := v\<rparr>)
     (whenGiven (patch_Functions patch) (\<lambda>v cfg. cfg\<lparr>cfg_Functions := v\<rparr>)
     (whenGiven (patch_Realtime patch) (\<lambda>v cfg. cfg\<lparr>cfg_Realtime := v\<rparr>)
     (whenGiven (patch_Storage patch) (\<lambda>v cfg. cfg\<lparr>cfg_Storage := v\<rparr>)
     (whenGiven (patch_Auth patch) (\<lambda>v cfg. cfg\<lparr>cfg_Auth := v\<rparr>)
     (whenGiven (patch_Services patch) patchServices
     (whenGiven (patch_General patch) (\<lambda>v cfg. cfg\<lparr>cfg_General := v\<rparr>)
     (whenGiven (patch_Configuration patch) (\<lambda>v cfg. patchAggregate project v) base)))))))))"

section \<open>Explicit secret actions\<close>

definition missingAction :: "string \<Rightarrow> goerr" where
  "missingAction path = ErrorsNew (path @ '' requires explicit retain, remove, or replace action'')"

definition needsAction :: "bool \<Rightarrow> SecretInput \<Rightarrow> bool" where
  "needsAction isSet input \<longleftrightarrow> isSet \<and> si_Action input = []"

text \<open>The first problem of a list of checks.\<close>

fun firstError :: "(bool \<times> goerr) list \<Rightarrow> goerr option" where
  "firstError [] = None"
| "firstError ((b, e) # others) = (if b then Some e else firstError others)"

definition authActions :: "AuthConfig \<Rightarrow> (bool \<times> goerr) list" where
  "authActions auth =
     [(needsAction (smtp_PasswordSet (auth_SMTP auth)) (smtp_Password (auth_SMTP auth)), missingAction ''auth.smtp.password''),
      (needsAction (ph_SecretSet (auth_Phone auth)) (ph_Secret (auth_Phone auth)), missingAction ''auth.phone.secret'')] @
     map (\<lambda>(provider, oauth). (needsAction (oa_SecretSet oauth) (oa_Secret oauth),
        missingAction (''auth.oauth.'' @ provider @ ''.secret''))) (auth_OAuth auth)"

definition storageActions :: "StorageConfig \<Rightarrow> (bool \<times> goerr) list" where
  "storageActions storage = [(needsAction (st_SecretAccessKeySet storage) (st_SecretAccessKey storage),
     missingAction ''storage.secretAccessKey'')]"

definition functionActions :: "FunctionsConfig \<Rightarrow> (bool \<times> goerr) list" where
  "functionActions functions = map (\<lambda>(index, variable). (needsAction (fv_ValueSet variable) (fv_Value variable),
     missingAction (indexed ''functions.variables'' index @ ''.value''))) (enumerate 0 (fn_Variables functions))"

definition requireExplicitAuthSecretActions :: "AuthConfig \<Rightarrow> goerr option" where
  "requireExplicitAuthSecretActions auth = firstError (authActions auth)"

definition requireExplicitSecretActions :: "ProjectConfiguration \<Rightarrow> goerr option" where
  "requireExplicitSecretActions cfg = firstError
     ((needsAction (gen_StudioPasswordSet (cfg_General cfg)) (gen_StudioPassword (cfg_General cfg)),
         missingAction ''general.studioPassword'') #
      authActions (cfg_Auth cfg) @ storageActions (cfg_Storage cfg) @ functionActions (cfg_Functions cfg))"

definition requireExplicitSecretActionsForPatch :: "ConfigurationPatch \<Rightarrow> goerr option" where
  "requireExplicitSecretActionsForPatch patch = (case patch_Configuration patch of
      Some cfg \<Rightarrow> requireExplicitSecretActions cfg
    | None \<Rightarrow> firstError (
        (case patch_Auth patch of None \<Rightarrow> [] | Some auth \<Rightarrow> authActions auth) @
        (case patch_Storage patch of None \<Rightarrow> [] | Some storage \<Rightarrow> storageActions storage) @
        (case patch_Functions patch of None \<Rightarrow> [] | Some functions \<Rightarrow> functionActions functions)))"

text \<open>Redacted secrets of sections that the patch omits are kept by an explicit command.\<close>

definition restoreAuth :: "AuthConfig \<Rightarrow> AuthConfig \<Rightarrow> AuthConfig" where
  "restoreAuth base auth = auth\<lparr>
     auth_SMTP := (auth_SMTP auth)\<lparr>smtp_Password := retainIfSet (smtp_PasswordSet (auth_SMTP base)) (smtp_Password (auth_SMTP auth))\<rparr>,
     auth_Phone := (auth_Phone auth)\<lparr>ph_Secret := retainIfSet (ph_SecretSet (auth_Phone base)) (ph_Secret (auth_Phone auth))\<rparr>,
     auth_OAuth := map (\<lambda>(provider, oauth). (provider, oauth\<lparr>oa_Secret := retainIfSet
       (case map_of (auth_OAuth base) provider of None \<Rightarrow> False | Some b \<Rightarrow> oa_SecretSet b) (oa_Secret oauth)\<rparr>)) (auth_OAuth auth)\<rparr>"

definition restoreVariables :: "FunctionVariable list \<Rightarrow> FunctionVariable list \<Rightarrow> FunctionVariable list" where
  "restoreVariables base variables = map (\<lambda>(index, variable). variable\<lparr>fv_Value := retainIfSet
     (index < length base \<and> fv_ValueSet (base ! index)) (fv_Value variable)\<rparr>) (enumerate 0 variables)"

definition restoreUntouchedSecretActions ::
  "ProjectConfiguration \<Rightarrow> ProjectConfiguration \<Rightarrow> ConfigurationPatch \<Rightarrow> ProjectConfiguration" where
  "restoreUntouchedSecretActions cfg base patch =
     (let partial = (patch_Configuration patch = None) in
      cfg\<lparr>cfg_General := (cfg_General cfg)\<lparr>gen_StudioPassword :=
            retainIfSet (gen_StudioPasswordSet (cfg_General base)) (gen_StudioPassword (cfg_General cfg))\<rparr>,
        cfg_Auth := (if partial \<and> patch_Auth patch = None then restoreAuth (cfg_Auth base) (cfg_Auth cfg) else cfg_Auth cfg),
        cfg_Storage := (if partial \<and> patch_Storage patch = None
          then (cfg_Storage cfg)\<lparr>st_SecretAccessKey := retainIfSet (st_SecretAccessKeySet (cfg_Storage base))
            (st_SecretAccessKey (cfg_Storage cfg))\<rparr>
          else cfg_Storage cfg),
        cfg_Functions := (if partial \<and> patch_Functions patch = None
          then (cfg_Functions cfg)\<lparr>fn_Variables := restoreVariables (fn_Variables (cfg_Functions base)) (fn_Variables (cfg_Functions cfg))\<rparr>
          else cfg_Functions cfg)\<rparr>)"

definition fromOption :: "goerr option \<Rightarrow> ('s, unit) act" where
  "fromOption r = (case r of None \<Rightarrow> ret () | Some e \<Rightarrow> throw e)"

definition PreparePatch :: "string \<Rightarrow> ConfigurationPatch \<Rightarrow> (database, ProjectConfiguration) act" where
  "PreparePatch pid patch =
     andThen (GetDesiredConfiguration pid) (\<lambda>snapshot.
     andThen (GetProject pid) (\<lambda>project.
     let base = snap_Configuration snapshot; merged = mergePatch project base patch in
     andThen (fromOption (requireExplicitSecretActionsForPatch patch)) (\<lambda>_.
     let restored = restoreUntouchedSecretActions merged base patch in
     case NormalizeProjectAddress (p_Slug project) (cfg_General restored) of
         Inl e \<Rightarrow> throw e
       | Inr general \<Rightarrow>
           let cfg = restored\<lparr>cfg_General := general\<rparr> in
           andThen (fromOption (ValidateConfiguration cfg)) (\<lambda>_. ret cfg))))"

section \<open>Secret commands\<close>

definition replacement :: "string \<Rightarrow> Envelope \<Rightarrow> SecretMutation" where
  "replacement kind envelope = \<lparr>sm_Kind = kind, sm_Envelope = envelope, sm_Delete = False\<rparr>"

definition emptyEnvelope :: Envelope where
  "emptyEnvelope = \<lparr>env_Version = 0, env_Nonce = [], env_Ciphertext = []\<rparr>"

definition removal :: "string \<Rightarrow> SecretMutation" where
  "removal kind = \<lparr>sm_Kind = kind, sm_Envelope = emptyEnvelope, sm_Delete = True\<rparr>"

definition Encrypt :: "environment \<Rightarrow> string \<Rightarrow> string \<Rightarrow> string \<Rightarrow> (world, Envelope) act" where
  "Encrypt env pid kind plain = andThen (ask (\<lambda>n. e_Encrypt env n pid kind plain)) orFail"

text \<open>One secret: its mutations, and the input and presence mark that stay in the configuration.\<close>

definition addSecret :: "environment \<Rightarrow> bool \<Rightarrow> string \<Rightarrow> string \<Rightarrow> SecretInput \<Rightarrow> bool \<Rightarrow>
    (world, SecretMutation list \<times> SecretInput \<times> bool) act" where
  "addSecret env hasCipher pid kind input isSet =
     (let action = toLower (trimSpace (si_Action input)) in
      if action = [] then ret ([], input\<lparr>si_Value := []\<rparr>, isSet)
      else if action = ''retain'' then
        andThen (mapErr (\<lambda>e. Errorf (''retain '' @ kind @ '': '') e []) (onDb (GetSecret pid kind))) (\<lambda>_.
        ret ([], noSecret, isSet))
      else if action = ''replace'' then
        andThen (failIf (si_Value input = []) (ErrorsNew (kind @ '': replace requires a value''))) (\<lambda>_.
        andThen (failIf (\<not> hasCipher) (ErrorsNew ''secret cipher is required for replacement'')) (\<lambda>_.
        andThen (mapErr (\<lambda>e. Errorf (''encrypt '' @ kind @ '': '') e []) (Encrypt env pid kind (si_Value input))) (\<lambda>envelope.
        ret ([replacement kind envelope], noSecret, True))))
      else if action = ''remove'' then ret ([removal kind], noSecret, False)
      else throw (ErrorsNew (kind @ '': unknown secret action '' @ goQuote (si_Action input))))"

fun oauthMutations :: "environment \<Rightarrow> bool \<Rightarrow> string \<Rightarrow> (string \<times> OAuthProviderConfig) list \<Rightarrow>
    (world, SecretMutation list \<times> (string \<times> OAuthProviderConfig) list) act" where
  "oauthMutations env hasCipher pid [] = ret ([], [])"
| "oauthMutations env hasCipher pid ((provider, oauth) # others) =
     andThen (addSecret env hasCipher pid (''oauth.'' @ provider @ ''.secret'') (oa_Secret oauth) (oa_SecretSet oauth)) (\<lambda>(ms, input, isSet).
     andThen (oauthMutations env hasCipher pid others) (\<lambda>(more, providers).
     ret (ms @ more, (provider, oauth\<lparr>oa_Secret := input, oa_SecretSet := isSet\<rparr>) # providers)))"

fun variableMutations :: "environment \<Rightarrow> bool \<Rightarrow> string \<Rightarrow> FunctionVariable list \<Rightarrow>
    (world, SecretMutation list \<times> FunctionVariable list) act" where
  "variableMutations env hasCipher pid [] = ret ([], [])"
| "variableMutations env hasCipher pid (variable # others) =
     (let removed = equalFold (trimSpace (si_Action (fv_Value variable))) ''remove'' in
      andThen (addSecret env hasCipher pid (''functions.'' @ fv_Name variable) (fv_Value variable) (fv_ValueSet variable)) (\<lambda>(ms, input, isSet).
      andThen (variableMutations env hasCipher pid others) (\<lambda>(more, kept).
      ret (ms @ more, (if removed then [] else [variable\<lparr>fv_Value := input, fv_ValueSet := isSet\<rparr>]) @ kept))))"

text \<open>The configuration after the secret commands, with the results of each leaf.\<close>

definition consumeSecrets :: "ProjectConfiguration \<Rightarrow> SecretInput \<times> bool \<Rightarrow> SecretInput \<times> bool \<Rightarrow> SecretInput \<times> bool \<Rightarrow>
    (string \<times> OAuthProviderConfig) list \<Rightarrow> SecretInput \<times> bool \<Rightarrow> FunctionVariable list \<Rightarrow> ProjectConfiguration" where
  "consumeSecrets cfg studio smtp phone providers storage variables =
     cfg\<lparr>cfg_General := (cfg_General cfg)\<lparr>gen_StudioPassword := fst studio, gen_StudioPasswordSet := snd studio\<rparr>,
       cfg_Auth := (cfg_Auth cfg)\<lparr>
         auth_SMTP := (auth_SMTP (cfg_Auth cfg))\<lparr>smtp_Password := fst smtp, smtp_PasswordSet := snd smtp\<rparr>,
         auth_Phone := (auth_Phone (cfg_Auth cfg))\<lparr>ph_Secret := fst phone, ph_SecretSet := snd phone\<rparr>,
         auth_OAuth := providers\<rparr>,
       cfg_Storage := (cfg_Storage cfg)\<lparr>st_SecretAccessKey := fst storage, st_SecretAccessKeySet := snd storage\<rparr>,
       cfg_Functions := (cfg_Functions cfg)\<lparr>fn_Variables := variables\<rparr>\<rparr>"

definition secretMutations :: "environment \<Rightarrow> bool \<Rightarrow> string \<Rightarrow> ProjectConfiguration \<Rightarrow>
    (world, SecretMutation list \<times> ProjectConfiguration) act" where
  "secretMutations env hasCipher pid cfg =
     (let general = cfg_General cfg; smtp = auth_SMTP (cfg_Auth cfg); phone = auth_Phone (cfg_Auth cfg);
          storage = cfg_Storage cfg; add = addSecret env hasCipher pid in
      andThen (add ''studio.password'' (gen_StudioPassword general) (gen_StudioPasswordSet general)) (\<lambda>(m1, studio).
      andThen (add ''smtp.password'' (smtp_Password smtp) (smtp_PasswordSet smtp)) (\<lambda>(m2, mail).
      andThen (add ''phone.secret'' (ph_Secret phone) (ph_SecretSet phone)) (\<lambda>(m3, sms).
      andThen (oauthMutations env hasCipher pid (auth_OAuth (cfg_Auth cfg))) (\<lambda>(m4, providers).
      andThen (add ''storage.secretAccessKey'' (st_SecretAccessKey storage) (st_SecretAccessKeySet storage)) (\<lambda>(m5, key).
      andThen (variableMutations env hasCipher pid (fn_Variables (cfg_Functions cfg))) (\<lambda>(m6, variables).
      ret (m1 @ m2 @ m3 @ m4 @ m5 @ m6, consumeSecrets cfg studio mail sms providers key variables))))))))"

definition PrepareSecretMutations :: "environment \<Rightarrow> bool \<Rightarrow> string \<Rightarrow> ProjectConfiguration \<Rightarrow>
    (world, SecretMutation list \<times> ProjectConfiguration) act" where
  "PrepareSecretMutations env hasCipher pid cfg = secretMutations env hasCipher pid cfg"

section \<open>What the commands leave behind\<close>

lemma addSecret_Inr:
  assumes "addSecret env hasCipher pid kind input isSet w = (Inr (ms, input', isSet'), w')"
  shows "w_DB w' = w_DB w \<and> si_Value input' = [] \<and>
    (case toLower (trimSpace (si_Action input)) of
       [] \<Rightarrow> ms = [] \<and> isSet' = isSet
     | action \<Rightarrow> input' = noSecret \<and>
         (action = ''retain'' \<and> ms = [] \<and> isSet' = isSet \<or>
          action = ''replace'' \<and> si_Value input \<noteq> [] \<and> (\<exists>envelope. ms = [replacement kind envelope]) \<and> isSet' \<or>
          action = ''remove'' \<and> ms = [removal kind] \<and> \<not> isSet'))"
proof -
  have encrypted: "Encrypt env pid kind plain u = (r, u') \<Longrightarrow> w_DB u' = w_DB u" for plain r u u'
    using obeysD [of sameDb "Encrypt env pid kind plain" u r u']
    unfolding Encrypt_def by (auto simp: sameDb_def intro!: obeys_intros)
  have read: "GetSecret pid kind d = (r, d') \<Longrightarrow> d' = d" for r d d'
    by (auto simp: GetSecret_def split: option.splits)
  show ?thesis
    using assms
    by (auto simp: addSecret_def Let_def andThen_eq_Inr onDb_eq noSecret_def split: list.splits if_splits
        dest!: encrypted read)
qed

text \<open>The presence mark after a command that validation accepted.\<close>

definition marked :: "bool \<Rightarrow> SecretInput \<Rightarrow> bool" where
  "marked isSet input = (if si_Action input = ''replace'' then True else if si_Action input = ''remove'' then False else isSet)"

lemma addSecret_marked:
  assumes "addSecret env hasCipher pid kind input isSet w = (Inr (ms, input', isSet'), w')" and "secretCommand input"
  shows "isSet' = marked isSet input"
proof -
  have "toLower (trimSpace a) = a" if "a \<in> {[], ''retain'', ''replace'', ''remove''}" for a
    using that by (elim insertE emptyE; hypsubst) code_simp+
  then have "toLower (trimSpace (si_Action input)) = si_Action input"
    using assms(2) by (auto simp: secretCommand_def)
  then show ?thesis
    using addSecret_Inr [OF assms(1)] assms(2) by (auto simp: marked_def secretCommand_def split: list.splits)
qed

text \<open>The input that a stored secret has when the worker validates it.\<close>

abbreviation storedInput :: "bool \<Rightarrow> SecretInput" where
  "storedInput isSet \<equiv> retainIfSet isSet noSecret"

lemma storedInput_simps [simp]:
  "secretCommand (storedInput b)" "secretSupplied b (storedInput b) \<longleftrightarrow> b"
  "si_Action (storedInput b) = (if b then ''retain'' else [])"
  by (auto simp: retainIfSet_def noSecret_def secretCommand_def secretSupplied_def)

lemma marked_supplied: "secretSupplied isSet input \<Longrightarrow> marked isSet input"
  by (auto simp: marked_def secretSupplied_def)

lemma phone_after:
  assumes "phoneOk phone" and "addSecret env hasCipher pid kind (ph_Secret phone) (ph_SecretSet phone) w = (Inr (ms, input', b), w')"
  shows "phoneOk (phone\<lparr>ph_SecretSet := b, ph_Secret := storedInput b\<rparr>)"
proof -
  have "secretCommand (ph_Secret phone)" using assms(1) by (auto simp: phoneOk_def secretCommand_def)
  from addSecret_marked [OF assms(2) this] assms(1) show ?thesis
    by (auto simp: phoneOk_def marked_supplied) (auto simp: marked_def)
qed

lemma smtp_after:
  assumes "secretCommand (smtp_Password smtp)" "smtp_Enabled smtp \<longrightarrow> smtpOk smtp"
    and "addSecret env hasCipher pid kind (smtp_Password smtp) (smtp_PasswordSet smtp) w = (Inr (ms, input', b), w')"
  shows "smtp_Enabled smtp \<longrightarrow> smtpOk (smtp\<lparr>smtp_PasswordSet := b, smtp_Password := storedInput b\<rparr>)"
  using addSecret_marked [OF assms(3,1)] assms(2) by (auto simp: smtpOk_def marked_def)

lemma storage_after:
  assumes "storageOk storage"
    and "addSecret env hasCipher pid kind (st_SecretAccessKey storage) (st_SecretAccessKeySet storage) w = (Inr (ms, input', b), w')"
  shows "storageOk (storage\<lparr>st_SecretAccessKeySet := b, st_SecretAccessKey := storedInput b\<rparr>)"
proof -
  have "secretCommand (st_SecretAccessKey storage)" using assms(1) by (simp add: storageOk_def)
  from addSecret_marked [OF assms(2) this] have b: "b = marked (st_SecretAccessKeySet storage) (st_SecretAccessKey storage)" .
  show ?thesis
  proof (cases "st_Backend storage = ''local''")
    case True
    with assms(1) have "\<not> b" by (simp add: storageOk_def b marked_def split: if_splits)
    with assms(1) True show ?thesis by (simp add: storageOk_def)
  next
    case False
    with assms(1) have b by (auto simp: storageOk_def b marked_def)
    with assms(1) False show ?thesis by (simp add: storageOk_def)
  qed
qed

definition storedProvider :: "string \<times> OAuthProviderConfig \<Rightarrow> string \<times> OAuthProviderConfig" where
  "storedProvider entry = (fst entry, (snd entry)\<lparr>oa_Secret := storedInput (oa_SecretSet (snd entry))\<rparr>)"

lemma providers_after:
  assumes "oauthMutations env hasCipher pid providers w = (Inr (ms, kept), w')" and "list_all providerOk providers"
  shows "list_all providerOk (map storedProvider kept) \<and> hasEnabledOAuth (map storedProvider kept) = hasEnabledOAuth providers \<and>
    list_all (\<lambda>(_, oauth). si_Value (oa_Secret oauth) = []) kept"
  using assms
proof (induction providers arbitrary: w ms kept w')
  case (Cons entry providers)
  obtain provider oauth where entry: "entry = (provider, oauth)" by (cases entry)
  from Cons.prems(1) obtain m1 input b u m2 tail where
    first: "addSecret env hasCipher pid (''oauth.'' @ provider @ ''.secret'') (oa_Secret oauth) (oa_SecretSet oauth) w = (Inr (m1, input, b), u)"
    and next_: "oauthMutations env hasCipher pid providers u = (Inr (m2, tail), w')"
    and kept: "kept = (provider, oauth\<lparr>oa_Secret := input, oa_SecretSet := b\<rparr>) # tail"
    by (auto simp: entry andThen_eq_Inr)
  have ok: "providerOk (provider, oauth)" using Cons.prems(2) entry by simp
  have "oa_Enabled oauth \<Longrightarrow> b"
  proof -
    assume "oa_Enabled oauth"
    with ok have supplied: "secretSupplied (oa_SecretSet oauth) (oa_Secret oauth)"
      by (simp add: providerOk_def providerComplete_def)
    then have "secretCommand (oa_Secret oauth)" by (simp add: secretSupplied_def)
    from addSecret_marked [OF first this] marked_supplied [OF supplied] show b by simp
  qed
  then have "providerOk (storedProvider (provider, oauth\<lparr>oa_Secret := input, oa_SecretSet := b\<rparr>))"
    using ok by (auto simp: providerOk_def providerComplete_def storedProvider_def)
  moreover have "si_Value input = []" using addSecret_Inr [OF first] by blast
  moreover have "oa_Enabled (snd (storedProvider (provider, oauth\<lparr>oa_Secret := input, oa_SecretSet := b\<rparr>))) = oa_Enabled oauth"
    by (simp add: storedProvider_def)
  ultimately show ?case
    using Cons.IH [OF next_] Cons.prems(2) by (simp add: kept entry hasEnabledOAuth_def case_prod_unfold)
qed (simp add: hasEnabledOAuth_def)

definition storedVariable :: "FunctionVariable \<Rightarrow> FunctionVariable" where
  "storedVariable variable = variable\<lparr>fv_Value := storedInput (fv_ValueSet variable)\<rparr>"

lemma variables_after:
  assumes "variableMutations env hasCipher pid variables w = (Inr (ms, kept), w')" and "list_all variableOk variables"
  shows "list_all variableOk (map storedVariable kept) \<and> list_all (\<lambda>v. si_Value (fv_Value v) = []) kept"
  using assms
proof (induction variables arbitrary: w ms kept w')
  case (Cons variable variables)
  from Cons.prems(1) obtain m1 input b u m2 tail where
    first: "addSecret env hasCipher pid (''functions.'' @ fv_Name variable) (fv_Value variable) (fv_ValueSet variable) w = (Inr (m1, input, b), u)"
    and next_: "variableMutations env hasCipher pid variables u = (Inr (m2, tail), w')"
    and kept: "kept = tail \<or> kept = variable\<lparr>fv_Value := input, fv_ValueSet := b\<rparr> # tail"
    by (auto simp: andThen_eq_Inr Let_def split: if_splits)
  have "variableOk (storedVariable (variable\<lparr>fv_Value := input, fv_ValueSet := b\<rparr>))"
    using Cons.prems(2) by (simp add: variableOk_def storedVariable_def)
  moreover have "si_Value input = []" using addSecret_Inr [OF first] by blast
  ultimately show ?case using Cons.IH [OF next_] Cons.prems(2) kept by auto
qed simp

text \<open>No plaintext of a secret is left in a configuration.\<close>

definition plaintextFree :: "ProjectConfiguration \<Rightarrow> bool" where
  "plaintextFree cfg \<longleftrightarrow> si_Value (gen_StudioPassword (cfg_General cfg)) = [] \<and>
     si_Value (smtp_Password (auth_SMTP (cfg_Auth cfg))) = [] \<and> si_Value (ph_Secret (auth_Phone (cfg_Auth cfg))) = [] \<and>
     list_all (\<lambda>(_, oauth). si_Value (oa_Secret oauth) = []) (auth_OAuth (cfg_Auth cfg)) \<and>
     si_Value (st_SecretAccessKey (cfg_Storage cfg)) = [] \<and>
     list_all (\<lambda>v. si_Value (fv_Value v) = []) (fn_Variables (cfg_Functions cfg))"

lemma secretMutations_Inr:
  assumes "secretMutations env hasCipher pid cfg w = (Inr (ms, cfg'), w')"
  obtains m1 a b1 w1 m2 i2 b2 w2 m3 i3 b3 w3 m4 providers w4 m5 i5 b5 w5 m6 variables where
    "addSecret env hasCipher pid ''studio.password'' (gen_StudioPassword (cfg_General cfg)) (gen_StudioPasswordSet (cfg_General cfg)) w = (Inr (m1, a, b1), w1)"
    "addSecret env hasCipher pid ''smtp.password'' (smtp_Password (auth_SMTP (cfg_Auth cfg))) (smtp_PasswordSet (auth_SMTP (cfg_Auth cfg))) w1 = (Inr (m2, i2, b2), w2)"
    "addSecret env hasCipher pid ''phone.secret'' (ph_Secret (auth_Phone (cfg_Auth cfg))) (ph_SecretSet (auth_Phone (cfg_Auth cfg))) w2 = (Inr (m3, i3, b3), w3)"
    "oauthMutations env hasCipher pid (auth_OAuth (cfg_Auth cfg)) w3 = (Inr (m4, providers), w4)"
    "addSecret env hasCipher pid ''storage.secretAccessKey'' (st_SecretAccessKey (cfg_Storage cfg)) (st_SecretAccessKeySet (cfg_Storage cfg)) w4 = (Inr (m5, i5, b5), w5)"
    "variableMutations env hasCipher pid (fn_Variables (cfg_Functions cfg)) w5 = (Inr (m6, variables), w')"
    "cfg' = consumeSecrets cfg (a, b1) (i2, b2) (i3, b3) providers (i5, b5) variables"
  using assms by (auto simp: secretMutations_def Let_def andThen_eq_Inr)

lemma storedCommands_consumed:
  "acceptable (storedCommands (redactConfiguration (consumeSecrets cfg studio (i2, b2) (i3, b3) providers (i5, b5) variables))) \<longleftrightarrow>
   acceptable (cfg\<lparr>cfg_Auth := (cfg_Auth cfg)\<lparr>
        auth_SMTP := (auth_SMTP (cfg_Auth cfg))\<lparr>smtp_PasswordSet := b2, smtp_Password := storedInput b2\<rparr>,
        auth_Phone := (auth_Phone (cfg_Auth cfg))\<lparr>ph_SecretSet := b3, ph_Secret := storedInput b3\<rparr>,
        auth_OAuth := map storedProvider providers\<rparr>,
      cfg_Storage := (cfg_Storage cfg)\<lparr>st_SecretAccessKeySet := b5, st_SecretAccessKey := storedInput b5\<rparr>,
      cfg_Functions := (cfg_Functions cfg)\<lparr>fn_Variables := map storedVariable variables\<rparr>\<rparr>)"
proof -
  have "(\<lambda>(provider, value). (provider, value\<lparr>oa_Secret := retainIfSet (oa_SecretSet value) (oa_Secret value)\<rparr>)) \<circ>
      (\<lambda>(provider, oauth). (provider, redactOAuth oauth)) = storedProvider"
    by (rule ext) (auto simp: storedProvider_def redactOAuth_def)
  moreover have "(\<lambda>variable. variable\<lparr>fv_Value := retainIfSet (fv_ValueSet variable) (fv_Value variable)\<rparr>) \<circ>
      (\<lambda>variable. variable\<lparr>fv_Value := noSecret\<rparr>) = storedVariable"
    by (rule ext) (auto simp: storedVariable_def)
  ultimately show ?thesis
    by (simp add: storedCommands_def redactConfiguration_def consumeSecrets_def Let_def acceptable_def)
qed

lemma accepted_revalidates:
  assumes "ValidateConfiguration cfg = None" and "PrepareSecretMutations env hasCipher pid cfg w = (Inr (ms, cfg'), w')"
  shows "ValidateStoredConfiguration (redactConfiguration cfg') = None \<and> plaintextFree cfg'"
  using assms(2) unfolding PrepareSecretMutations_def
proof (rule secretMutations_Inr)
  fix m1 a b1 w1 m2 i2 b2 w2 m3 i3 b3 w3 m4 providers w4 m5 i5 b5 w5 m6 variables
  assume leaves:
    "addSecret env hasCipher pid ''studio.password'' (gen_StudioPassword (cfg_General cfg)) (gen_StudioPasswordSet (cfg_General cfg)) w = (Inr (m1, a, b1), w1)"
    "addSecret env hasCipher pid ''smtp.password'' (smtp_Password (auth_SMTP (cfg_Auth cfg))) (smtp_PasswordSet (auth_SMTP (cfg_Auth cfg))) w1 = (Inr (m2, i2, b2), w2)"
    "addSecret env hasCipher pid ''phone.secret'' (ph_Secret (auth_Phone (cfg_Auth cfg))) (ph_SecretSet (auth_Phone (cfg_Auth cfg))) w2 = (Inr (m3, i3, b3), w3)"
    "oauthMutations env hasCipher pid (auth_OAuth (cfg_Auth cfg)) w3 = (Inr (m4, providers), w4)"
    "addSecret env hasCipher pid ''storage.secretAccessKey'' (st_SecretAccessKey (cfg_Storage cfg)) (st_SecretAccessKeySet (cfg_Storage cfg)) w4 = (Inr (m5, i5, b5), w5)"
    "variableMutations env hasCipher pid (fn_Variables (cfg_Functions cfg)) w5 = (Inr (m6, variables), w')"
    and cfg': "cfg' = consumeSecrets cfg (a, b1) (i2, b2) (i3, b3) providers (i5, b5) variables"
  have ok: "acceptable cfg" using assms(1) by (simp add: validate_iff)
  then have auth: "authOk (cfg_Auth cfg)" and "storageOk (cfg_Storage cfg)" "list_all variableOk (fn_Variables (cfg_Functions cfg))"
    by (simp_all add: acceptable_def)
  note smtp = smtp_after [OF _ _ leaves(2)] and phone = phone_after [OF _ leaves(3)]
    and oauth = providers_after [OF leaves(4)]
    and storage = storage_after [OF \<open>storageOk (cfg_Storage cfg)\<close> leaves(5)]
    and vars = variables_after [OF leaves(6) \<open>list_all variableOk (fn_Variables (cfg_Functions cfg))\<close>]
  have "authOk ((cfg_Auth cfg)\<lparr>
        auth_SMTP := (auth_SMTP (cfg_Auth cfg))\<lparr>smtp_PasswordSet := b2, smtp_Password := storedInput b2\<rparr>,
        auth_Phone := (auth_Phone (cfg_Auth cfg))\<lparr>ph_SecretSet := b3, ph_Secret := storedInput b3\<rparr>,
        auth_OAuth := map storedProvider providers\<rparr>)"
    using auth smtp phone oauth by (simp add: authOk_def)
  with ok storage vars have "acceptable (storedCommands (redactConfiguration cfg'))"
    unfolding cfg' storedCommands_consumed by (simp add: acceptable_def)
  moreover have "plaintextFree cfg'"
    using addSecret_Inr [OF leaves(1)] addSecret_Inr [OF leaves(2)] addSecret_Inr [OF leaves(3)] addSecret_Inr [OF leaves(5)]
      oauth auth vars
    by (simp add: cfg' consumeSecrets_def plaintextFree_def authOk_def)
  ultimately show ?thesis by (simp add: ValidateStoredConfiguration_def validate_iff)
qed

lemma fromOption_eq: "fromOption r s = (Inr u, t) \<longleftrightarrow> r = None \<and> t = s"
  by (auto simp: fromOption_def split: option.splits)

lemma PreparePatch_valid:
  assumes "PreparePatch pid patch d = (Inr cfg, d')"
  shows "ValidateConfiguration cfg = None \<and> d' = d"
proof -
  have reads: "GetDesiredConfiguration pid e = (r, e') \<Longrightarrow> e' = e" "GetProject pid e = (r', e') \<Longrightarrow> e' = e" for e e' r r'
    by (auto simp: GetDesiredConfiguration_def GetProject_def split: option.splits)
  from assms obtain snapshot project d1 d2 restored where
    read: "GetDesiredConfiguration pid d = (Inr snapshot, d1)" "GetProject pid d1 = (Inr project, d2)"
    and "(case NormalizeProjectAddress (p_Slug project) (cfg_General restored) of Inl e \<Rightarrow> throw e
       | Inr general \<Rightarrow> andThen (fromOption (ValidateConfiguration (restored\<lparr>cfg_General := general\<rparr>)))
           (\<lambda>_. ret (restored\<lparr>cfg_General := general\<rparr>))) d2 = (Inr cfg, d')"
    unfolding PreparePatch_def Let_def andThen_eq_Inr [where m = "fromOption x" for x] fromOption_eq andThen_eq_Inr [where m = "GetProject pid"]
      andThen_eq_Inr [where m = "GetDesiredConfiguration pid"]
    by blast
  moreover from read have "d2 = d" using reads by blast
  ultimately show ?thesis
    by (auto simp: andThen_eq_Inr fromOption_eq split: sum.splits)
qed

text \<open>
  (C21) What the API accepts, the worker accepts: when a patch is prepared and its secret commands are
  turned into encrypted mutations, the configuration that is stored contains no plaintext secret, and
  the validation that the worker runs on the redacted stored copy succeeds.
\<close>

theorem prepared_patch_revalidates:
  assumes "PreparePatch pid patch d = (Inr cfg, d')"
    and "PrepareSecretMutations env hasCipher pid cfg w = (Inr (mutations, cfg'), w')"
  shows "ValidateStoredConfiguration (redactConfiguration cfg') = None \<and> plaintextFree cfg' \<and> d' = d"
  using PreparePatch_valid [OF assms(1)] accepted_revalidates [OF _ assms(2)] by blast

text \<open>A stored project, and a patch that enables mail with a new password.\<close>

definition storedBee :: database where
  "storedBee = emptyDatabase\<lparr>
     projects := [Project.extend (sampleProject ''bee'' ''shop'') \<lparr>pr_LastGoodRevision = 1\<rparr>],
     canonicalConfigs := [\<lparr>cc_Project = ''bee'',
       cc_Config = (ApplyConfigurationPreset PresetLightweight)\<lparr>cfg_General := sampleTyped\<rparr>\<rparr>]\<rparr>"

definition mailPatch :: ConfigurationPatch where
  "mailPatch = \<lparr>patch_ExpectedRevision = 1, patch_Configuration = None, patch_General = None, patch_Services = None,
     patch_Auth = Some (defaultAuth\<lparr>auth_SMTP := (auth_SMTP defaultAuth)\<lparr>
       smtp_Password := \<lparr>si_Action = ''replace'', si_Value = ''hush''\<rparr>\<rparr>\<rparr>),
     patch_Storage = None, patch_Realtime = None, patch_Functions = None, patch_Database = None, patch_Pooler = None,
     patch_Network = None\<rparr>"

definition mailConfiguration :: ProjectConfiguration where
  "mailConfiguration = (ApplyConfigurationPreset PresetLightweight)\<lparr>cfg_Revision := 1,
     cfg_General := sampleTyped\<lparr>gen_SiteURL := ''https://bee.example'', gen_Domain := ''shop.bee.example''\<rparr>,
     cfg_Auth := defaultAuth\<lparr>auth_SMTP := (auth_SMTP defaultAuth)\<lparr>smtp_Password := \<lparr>si_Action = ''replace'', si_Value = ''hush''\<rparr>\<rparr>\<rparr>\<rparr>"

lemma sampleDomain: "validDomain ''shop.bee.example''"
  using sampleAddress by (auto simp: NormalizeProjectAddress_def Let_def sampleTyped_def split: if_splits sum.splits)

lemma sampleSite: "validAbsoluteHTTPURL ''https://bee.example''"
  by code_simp

lemma mailConfiguration_valid: "ValidateConfiguration mailConfiguration = None"
proof -
  have "authOk defaultAuth" and "cfg_Auth (ApplyConfigurationPreset PresetLightweight) = defaultAuth"
    using defaults_acceptable [of PresetLightweight]
    by (simp_all add: acceptable_def ApplyConfigurationPreset_def DefaultConfiguration_def Let_def)
  then have "authOk (cfg_Auth mailConfiguration)"
    by (simp add: mailConfiguration_def authOk_def secretCommand_def) (simp add: defaultAuth_def)
  then show ?thesis
    using defaults_acceptable [of PresetLightweight] sampleDomain sampleSite
    by (simp add: validate_iff acceptable_def mailConfiguration_def sampleTyped_def) (simp add: defaultAuth_def ApplyConfigurationPreset_def
       DefaultConfiguration_def Let_def)
qed

lemma mailPatch_prepared: "PreparePatch ''bee'' mailPatch storedBee = (Inr mailConfiguration, storedBee)"
proof -
  have read: "GetDesiredConfiguration ''bee'' storedBee = (Inr \<lparr>snap_ProjectID = ''bee'', snap_Revision = 1, snap_LastGoodRevision = 1,
      snap_Configuration = (ApplyConfigurationPreset PresetLightweight)\<lparr>cfg_Revision := 1, cfg_General := sampleTyped\<rparr>, snap_Fence = 0\<rparr>, storedBee)"
    and "GetProject ''bee'' storedBee = (Inr (sampleProject ''bee'' ''shop''), storedBee)"
    by (simp_all add: GetDesiredConfiguration_def GetProject_def storedBee_def sampleProject_def Project.defs redactConfiguration_def
        Let_def ApplyConfigurationPreset_def DefaultConfiguration_def defaultAuth_def)
  moreover have "restoreUntouchedSecretActions (mergePatch (sampleProject ''bee'' ''shop'')
      ((ApplyConfigurationPreset PresetLightweight)\<lparr>cfg_Revision := 1, cfg_General := sampleTyped\<rparr>) mailPatch)
      ((ApplyConfigurationPreset PresetLightweight)\<lparr>cfg_Revision := 1, cfg_General := sampleTyped\<rparr>) mailPatch =
      mailConfiguration\<lparr>cfg_General := sampleTyped\<rparr>"
    by (simp add: restoreUntouchedSecretActions_def mergePatch_def whenGiven_def mailPatch_def mailConfiguration_def Let_def
        restoreVariables_def retainIfSet_def sampleTyped_def ApplyConfigurationPreset_def DefaultConfiguration_def)
  moreover have "requireExplicitSecretActionsForPatch mailPatch = None"
    by (simp add: requireExplicitSecretActionsForPatch_def mailPatch_def authActions_def needsAction_def defaultAuth_def)
  moreover have "mailConfiguration\<lparr>cfg_General := sampleTyped\<lparr>gen_SiteURL := ''https://bee.example'', gen_Domain := ''shop.bee.example''\<rparr>\<rparr> =
      mailConfiguration"
    by (simp add: mailConfiguration_def)
  ultimately show ?thesis
    using sampleAddress mailConfiguration_valid
    by (simp add: PreparePatch_def Let_def fromOption_def sampleProject_def)
qed

theorem prepared_patch_revalidates_witness:
  "\<exists>mutation cfg' w'. PreparePatch ''bee'' mailPatch storedBee = (Inr mailConfiguration, storedBee) \<and>
     PrepareSecretMutations sampleEnvironment True ''bee'' mailConfiguration (newWorld storedBee) = (Inr ([mutation], cfg'), w') \<and>
     sm_Kind mutation = ''smtp.password'' \<and> ValidateStoredConfiguration (redactConfiguration cfg') = None \<and> plaintextFree cfg'"
proof -
  have replace: "toLower (trimSpace ''replace'') = ''replace'' \<and> toLower (trimSpace []) = []" by code_simp
  obtain mutation cfg' w' where
    run: "PrepareSecretMutations sampleEnvironment True ''bee'' mailConfiguration (newWorld storedBee) = (Inr ([mutation], cfg'), w')"
    and "sm_Kind mutation = ''smtp.password''"
    using replace
    by (simp add: PrepareSecretMutations_def secretMutations_def Let_def addSecret_def mailConfiguration_def sampleTyped_def noSecret_def
        defaultAuth_def Encrypt_def sampleEnvironment_def replacement_def andThen_def mapErr_def ApplyConfigurationPreset_def DefaultConfiguration_def)
  with prepared_patch_revalidates [OF mailPatch_prepared run] mailPatch_prepared show ?thesis by blast
qed

end
