(* ===== verification/ProjectService.thy ===== *)
theory ProjectService
  imports ConfigurationService
begin

text \<open>
  \<^verbatim>\<open>project/service.go\<close>: creating a project. The draft is normalised and validated, its secrets are
  encrypted, and one transaction stores the project with its first configuration. The JSON copy
  (\<^verbatim>\<open>cloneConfiguration\<close>) gives the same values in this model, where configurations are values. The
  properties describe what a creation leaves behind, and a draft whose presence mark is trusted by
  validation but not by the encryption step.
\<close>

definition encryptSecret :: "environment \<Rightarrow> bool \<Rightarrow> string \<Rightarrow> string \<Rightarrow> SecretInput \<Rightarrow>
    (world, SecretMutation list \<times> SecretInput \<times> bool) act" where
  "encryptSecret env hasCipher pid kind input =
     (let action = si_Action input in
      if action = [] then ret ([], noSecret, False)
      else if action = ''replace'' then
        andThen (failIf (si_Value input = []) (ErrorsNew (kind @ '': replace requires a value''))) (\<lambda>_.
        andThen (failIf (\<not> hasCipher) (ErrorsNew (kind @ '': secret cipher is required for replacement''))) (\<lambda>_.
        andThen (mapErr (\<lambda>e. Errorf (''encrypt '' @ kind @ '': '') e []) (Encrypt env pid kind (si_Value input))) (\<lambda>envelope.
        ret ([replacement kind envelope], noSecret, True))))
      else if action = ''retain'' \<or> action = ''remove''
        then throw (ErrorsNew (kind @ '' cannot use '' @ action @ '' during server creation''))
      else throw (ErrorsNew (kind @ '': unknown secret action '' @ goQuote action)))"

fun encryptProviders :: "environment \<Rightarrow> bool \<Rightarrow> string \<Rightarrow> (string \<times> OAuthProviderConfig) list \<Rightarrow>
    (world, SecretMutation list \<times> (string \<times> OAuthProviderConfig) list) act" where
  "encryptProviders env hasCipher pid [] = ret ([], [])"
| "encryptProviders env hasCipher pid ((provider, oauth) # others) =
     andThen (encryptSecret env hasCipher pid (''oauth.'' @ provider @ ''.secret'') (oa_Secret oauth)) (\<lambda>(ms, input, isSet).
     andThen (encryptProviders env hasCipher pid others) (\<lambda>(more, providers).
     ret (ms @ more, (provider, oauth\<lparr>oa_Secret := input, oa_SecretSet := isSet\<rparr>) # providers)))"

fun encryptVariables :: "environment \<Rightarrow> bool \<Rightarrow> string \<Rightarrow> FunctionVariable list \<Rightarrow>
    (world, SecretMutation list \<times> FunctionVariable list) act" where
  "encryptVariables env hasCipher pid [] = ret ([], [])"
| "encryptVariables env hasCipher pid (variable # others) =
     andThen (encryptSecret env hasCipher pid (''functions.'' @ fv_Name variable) (fv_Value variable)) (\<lambda>(ms, input, isSet).
     andThen (encryptVariables env hasCipher pid others) (\<lambda>(more, variables).
     ret (ms @ more, variable\<lparr>fv_Value := input, fv_ValueSet := isSet\<rparr> # variables)))"

definition encryptConfigurationSecrets :: "environment \<Rightarrow> bool \<Rightarrow> string \<Rightarrow> ProjectConfiguration \<Rightarrow>
    (world, SecretMutation list \<times> ProjectConfiguration) act" where
  "encryptConfigurationSecrets env hasCipher pid cfg =
     (let add = encryptSecret env hasCipher pid in
      andThen (add ''studio.password'' (gen_StudioPassword (cfg_General cfg))) (\<lambda>(m1, studio).
      andThen (add ''smtp.password'' (smtp_Password (auth_SMTP (cfg_Auth cfg)))) (\<lambda>(m2, mail).
      andThen (add ''phone.secret'' (ph_Secret (auth_Phone (cfg_Auth cfg)))) (\<lambda>(m3, sms).
      andThen (encryptProviders env hasCipher pid (auth_OAuth (cfg_Auth cfg))) (\<lambda>(m4, providers).
      andThen (add ''storage.secretAccessKey'' (st_SecretAccessKey (cfg_Storage cfg))) (\<lambda>(m5, key).
      andThen (encryptVariables env hasCipher pid (fn_Variables (cfg_Functions cfg))) (\<lambda>(m6, variables).
      ret (m1 @ m2 @ m3 @ m4 @ m5 @ m6, consumeSecrets cfg studio mail sms providers key variables))))))))"

definition projectConflict :: goerr where
  "projectConflict = Sentinel ErrProjectConflict"

definition draftProject :: "string \<Rightarrow> gotime \<Rightarrow> ProjectDraft \<Rightarrow> ProjectConfiguration \<Rightarrow> Project" where
  "draftProject pid now draft cfg = \<lparr>p_ID = pid, p_Name = trimSpace (draft_Name draft), p_Slug = draft_Slug draft,
     p_Domain = gen_Domain (cfg_General cfg), p_SiteURL = gen_SiteURL (cfg_General cfg),
     p_Status = ProjectStatusDraft, p_Health = HealthUnknown,
     p_SupabaseVersion = gen_SupabaseVersion (cfg_General cfg), p_Preset = draft_Preset draft,
     p_ConfigurationRevision = 1, p_Services = cfg_Services cfg, p_CreatedAt = now, p_UpdatedAt = now\<rparr>"

definition Create :: "environment \<Rightarrow> bool \<Rightarrow> ProjectDraft \<Rightarrow> (world, Project) act" where
  "Create env hasCipher draft =
     andThen (orFail (NormalizeProjectAddress (draft_Slug draft) (cfg_General (draft_Configuration draft)))) (\<lambda>general.
     let configuration = (draft_Configuration draft)\<lparr>cfg_General := general\<rparr> in
     andThen (orErr (ValidateDraft (draft\<lparr>draft_Configuration := configuration\<rparr>))) (\<lambda>_.
     andThen (currentTime env) (\<lambda>now.
     andThen (ask (e_ID env)) (\<lambda>pid.
     let project = draftProject pid now draft configuration in
     andThen (failIf (pid = []) (ErrorsNew ''server ID generator returned an empty ID'')) (\<lambda>_.
     andThen (encryptConfigurationSecrets env hasCipher pid configuration) (\<lambda>(mutations, persisted).
     andThen (mapErr (\<lambda>e. if contains (errText e) ''UNIQUE constraint failed'' then projectConflict else e)
         (onDb (CreateProjectWithSecrets project persisted mutations))) (\<lambda>_.
     ret project)))))))"

section \<open>What encryption leaves behind\<close>

lemma encryptSecret_Inr:
  assumes "encryptSecret env hasCipher pid kind input w = (Inr (ms, input', isSet), w')"
  shows "input' = noSecret \<and> (isSet \<longleftrightarrow> si_Action input = ''replace'') \<and> (isSet \<longleftrightarrow> ms \<noteq> []) \<and> (\<forall>m\<in>set ms. sm_Kind m = kind)"
  using assms by (auto simp: encryptSecret_def Let_def andThen_eq_Inr replacement_def split: if_splits)

lemma sameDb_encryptSecret [obeys_intros]: "obeys sameDb (encryptSecret env hasCipher pid kind input)"
  unfolding encryptSecret_def Encrypt_def Let_def by (intro obeys_intros)

lemma sameDb_encryptProviders [obeys_intros]: "obeys sameDb (encryptProviders env hasCipher pid providers)"
proof (induction providers)
  case (Cons entry providers)
  show ?case by (cases entry, simp only: encryptProviders.simps) (intro obeys_intros Cons.IH)
qed (simp add: sameDb.obeys_Pair)

lemma sameDb_encryptVariables [obeys_intros]: "obeys sameDb (encryptVariables env hasCipher pid variables)"
proof (induction variables)
  case (Cons variable variables)
  show ?case unfolding encryptVariables.simps by (intro obeys_intros Cons.IH)
qed (simp add: sameDb.obeys_Pair)

lemma sameDb_encryptConfigurationSecrets [obeys_intros]:
  "obeys sameDb (encryptConfigurationSecrets env hasCipher pid cfg)"
  unfolding encryptConfigurationSecrets_def Let_def by (intro obeys_intros)

lemma encryptProviders_Inr:
  assumes "encryptProviders env hasCipher pid providers w = (Inr (ms, kept), w')"
  shows "list_all (\<lambda>(_, oauth). si_Value (oa_Secret oauth) = []) kept"
  using assms
proof (induction providers arbitrary: w ms kept w')
  case (Cons entry providers)
  then show ?case
    by (cases entry) (auto simp: andThen_eq_Inr noSecret_def dest!: encryptSecret_Inr)
qed simp

lemma encryptVariables_Inr:
  assumes "encryptVariables env hasCipher pid variables w = (Inr (ms, kept), w')"
  shows "list_all (\<lambda>v. si_Value (fv_Value v) = []) kept"
  using assms
  by (induction variables arbitrary: w ms kept w') (auto simp: andThen_eq_Inr noSecret_def dest!: encryptSecret_Inr)

lemma encrypted_plaintextFree:
  assumes "encryptConfigurationSecrets env hasCipher pid cfg w = (Inr (ms, cfg'), w')"
  shows "plaintextFree cfg' \<and> gen_Domain (cfg_General cfg') = gen_Domain (cfg_General cfg) \<and>
    gen_SiteURL (cfg_General cfg') = gen_SiteURL (cfg_General cfg) \<and>
    gen_SupabaseVersion (cfg_General cfg') = gen_SupabaseVersion (cfg_General cfg) \<and> cfg_Services cfg' = cfg_Services cfg"
proof -
  from assms obtain m1 i1 b1 w1 m2 i2 b2 w2 m3 i3 b3 w3 m4 providers w4 m5 i5 b5 w5 m6 variables where
    leaves: "encryptSecret env hasCipher pid ''studio.password'' (gen_StudioPassword (cfg_General cfg)) w = (Inr (m1, i1, b1), w1)"
      "encryptSecret env hasCipher pid ''smtp.password'' (smtp_Password (auth_SMTP (cfg_Auth cfg))) w1 = (Inr (m2, i2, b2), w2)"
      "encryptSecret env hasCipher pid ''phone.secret'' (ph_Secret (auth_Phone (cfg_Auth cfg))) w2 = (Inr (m3, i3, b3), w3)"
      "encryptProviders env hasCipher pid (auth_OAuth (cfg_Auth cfg)) w3 = (Inr (m4, providers), w4)"
      "encryptSecret env hasCipher pid ''storage.secretAccessKey'' (st_SecretAccessKey (cfg_Storage cfg)) w4 = (Inr (m5, i5, b5), w5)"
      "encryptVariables env hasCipher pid (fn_Variables (cfg_Functions cfg)) w5 = (Inr (m6, variables), w')"
    and cfg': "cfg' = consumeSecrets cfg (i1, b1) (i2, b2) (i3, b3) providers (i5, b5) variables"
    by (auto simp: encryptConfigurationSecrets_def Let_def andThen_eq_Inr)
  note plain = leaves(1,2,3,5) [THEN encryptSecret_Inr, THEN conjunct1]
  show ?thesis
    unfolding cfg' plaintextFree_def consumeSecrets_def
    using encryptProviders_Inr [OF leaves(4)] encryptVariables_Inr [OF leaves(6)] by (simp add: plain noSecret_def)
qed

section \<open>What the transaction stores\<close>

lemma mapErr_eq_Inl: "mapErr h m s = (Inl e, t) \<longleftrightarrow> (\<exists>e'. m s = (Inl e', t) \<and> e = h e')"
  by (auto simp: mapErr_def split: prod.splits sum.splits)

text \<open>Steps that keep the project rows and the canonical configurations.\<close>

definition keepsIdentity :: "database \<Rightarrow> database \<Rightarrow> bool" where
  "keepsIdentity d d' \<longleftrightarrow> projects d' = projects d \<and> canonicalConfigs d' = canonicalConfigs d"

interpretation identity: monitor keepsIdentity
  by unfold_locales (auto simp: keepsIdentity_def)

lemma identity_steps [obeys_intros]:
  "obeys keepsIdentity (insertService pid service)" "obeys keepsIdentity (insertSecret pid mutation)"
  "obeys keepsIdentity (snapshotSecretsIgnoring pid revision)" "obeys keepsIdentity (insertMarker pid revision)"
  "obeys keepsIdentity (insertConfigIgnoring pid revision cfg)"
  by (auto simp: obeys_def keepsIdentity_def insertService_def insertSecret_def snapshotSecretsIgnoring_def insertMarker_def
      insertConfigIgnoring_def andThen_def failIf_def mapErr_def requireProject_def gets_def modify_def ret_def throw_def
      split: prod.splits)

lemma canonical_stored:
  assumes "upsertCanonical pid cfg d = (Inr u, d')"
  shows "projects d' = projects d \<and> (\<exists>row. find (\<lambda>c. cc_Project c = pid) (canonicalConfigs d') = Some row \<and> cc_Config row = cfg)"
proof (cases "existsWhere (\<lambda>r. cc_Project r = pid) (canonicalConfigs d)")
  case True
  then obtain r where "find (\<lambda>c. cc_Project c = pid) (canonicalConfigs d) = Some r"
    by (cases "find (\<lambda>c. cc_Project c = pid) (canonicalConfigs d)") (auto simp: existsWhere_iff find_None_iff)
  with True assms find_SomeD [OF this] show ?thesis
    by (auto simp: upsertCanonical_def andThen_eq_Inr find_updateWhere split: if_splits)
next
  case False
  with assms show ?thesis
    by (auto simp: upsertCanonical_def andThen_eq_Inr find_snoc split: if_splits)
qed

lemma insertProject_Inr:
  assumes "insertProject project d = (Inr u, d')"
  shows "p_ID project \<notin> projectIds d \<and>
    (\<forall>p\<in>set (projects d). p_Slug p \<noteq> p_Slug project \<and> p_Domain p \<noteq> p_Domain project) \<and>
    find (\<lambda>p. p_ID p = p_ID project) (projects d') =
      Some (Project.extend (project\<lparr>p_ConfigurationRevision := 1\<rparr>) \<lparr>pr_LastGoodRevision = 1\<rparr>)"
  using assms
  by (auto simp: insertProject_def andThen_eq_Inr existsWhere_iff Project.defs projectIds_def intro!: find_snoc split: if_splits)

lemma CreateProjectWithSecrets_Inr:
  assumes "CreateProjectWithSecrets project cfg mutations d = (Inr u, d')"
  shows "p_ID project \<notin> projectIds d \<and>
    (\<forall>p\<in>set (projects d). p_Slug p \<noteq> p_Slug project \<and> p_Domain p \<noteq> gen_Domain (cfg_General cfg)) \<and>
    GetProject (p_ID project) d' = (Inr (project\<lparr>p_Domain := gen_Domain (cfg_General cfg), p_SiteURL := gen_SiteURL (cfg_General cfg),
      p_SupabaseVersion := gen_SupabaseVersion (cfg_General cfg), p_Services := cfg_Services cfg, p_ConfigurationRevision := 1\<rparr>), d') \<and>
    (\<exists>row. find (\<lambda>c. cc_Project c = p_ID project) (canonicalConfigs d') = Some row \<and>
      cc_Config row = redactConfiguration (cfg\<lparr>cfg_Revision := 1\<rparr>))"
proof -
  define row where "row = project\<lparr>p_Domain := gen_Domain (cfg_General cfg), p_SiteURL := gen_SiteURL (cfg_General cfg),
    p_SupabaseVersion := gen_SupabaseVersion (cfg_General cfg), p_Services := cfg_Services cfg\<rparr>"
  define stored where "stored = redactConfiguration (cfg\<lparr>cfg_Revision := 1\<rparr>)"
  let ?after = "andThen (forEach (projectServiceProjection (cfg_Services stored))
      (\<lambda>service. mapErr (\<lambda>e. Errorf (''create service projection '' @ fst service @ '': '') e [])
         (insertService (p_ID row) service))) (\<lambda>_.
    andThen (forEach mutations (insertSecret (p_ID row))) (\<lambda>_.
    andThen (snapshotSecretsIgnoring (p_ID row) 1) (\<lambda>_.
    mapErr (\<lambda>e. Errorf ''create initial secret snapshot marker: '' e []) (insertMarker (p_ID row) 1))))"
  from assms obtain d1 d2 d3 where
    inserted: "insertProject row d = (Inr (), d1)" and "insertConfigIgnoring (p_ID row) 1 stored d1 = (Inr (), d2)"
    and canonical: "upsertCanonical (p_ID row) stored d2 = (Inr (), d3)" and after: "?after d3 = (Inr u, d')"
    by (auto simp: CreateProjectWithSecrets_def Let_def andThen_eq_Inr row_def [symmetric] stored_def [symmetric])
  then have "projects d2 = projects d1"
    using obeysD [OF identity_steps(5)] by (auto simp: keepsIdentity_def)
  moreover have "obeys keepsIdentity ?after" by (intro obeys_intros)
  with after have "projects d' = projects d3" "canonicalConfigs d' = canonicalConfigs d3"
    by (auto dest!: obeysD simp: keepsIdentity_def)
  ultimately show ?thesis
    using insertProject_Inr [OF inserted] canonical_stored [OF canonical]
    by (simp add: GetProject_def row_def stored_def Project.defs)
qed

text \<open>Rules for the steps of a creation: the results of the checks are known to what follows.\<close>

lemma after_orFail:
  assumes "\<And>x. r = Inr x \<Longrightarrow> triple P (k x) Q E" and "\<And>e w. P w \<Longrightarrow> E e w"
  shows "triple P (andThen (orFail r) k) Q E"
  using assms by (cases r) (simp_all add: triple_def)

lemma after_orErr:
  assumes "triple P (k ()) Q E" and "\<And>e w. P w \<Longrightarrow> E e w"
  shows "triple P (andThen (orErr r) k) Q E"
  using assms by (cases r) (simp_all add: triple_def)

lemma after_failIf:
  assumes "\<not> b \<Longrightarrow> triple P (k ()) Q E" and "\<And>w. P w \<Longrightarrow> E e w"
  shows "triple P (andThen (failIf b e) k) Q E"
  using assms by (cases b) (simp_all add: triple_def andThen_def)

lemma after_quiet:
  assumes "obeys sameDb m" and "\<And>x w w'. m w = (Inr x, w') \<Longrightarrow> triple (\<lambda>w. P (w_DB w)) (k x) Q (\<lambda>_ w. P (w_DB w))"
  shows "triple (\<lambda>w. P (w_DB w)) (andThen m k) Q (\<lambda>_ w. P (w_DB w))"
proof (rule triple_andThen)
  show "triple (\<lambda>w. P (w_DB w)) m (\<lambda>x w. (\<exists>u u'. m u = (Inr x, u')) \<and> P (w_DB w)) (\<lambda>_ w. P (w_DB w))"
    by (rule tripleI) (use obeysD [OF assms(1)] in \<open>auto simp: sameDb_def\<close>)
  show "triple (\<lambda>w. (\<exists>u u'. m u = (Inr x, u')) \<and> P (w_DB w)) (k x) Q (\<lambda>_ w. P (w_DB w))" for x
    by (cases "\<exists>u u'. m u = (Inr x, u')") (auto intro: assms(2))
qed

definition created :: "database \<Rightarrow> ProjectDraft \<Rightarrow> Project \<Rightarrow> database \<Rightarrow> bool" where
  "created d draft project d' \<longleftrightarrow> p_ID project \<noteq> [] \<and> p_ID project \<notin> projectIds d \<and>
     (\<forall>p\<in>set (projects d). p_Slug p \<noteq> p_Slug project \<and> p_Domain p \<noteq> p_Domain project) \<and>
     p_Slug project = draft_Slug draft \<and> p_Status project = ProjectStatusDraft \<and> p_ConfigurationRevision project = 1 \<and>
     GetProject (p_ID project) d' = (Inr project, d') \<and>
     (\<exists>general row. NormalizeProjectAddress (draft_Slug draft) (cfg_General (draft_Configuration draft)) = Inr general \<and>
       p_Domain project = gen_Domain general \<and> p_SiteURL project = gen_SiteURL general \<and>
       find (\<lambda>c. cc_Project c = p_ID project) (canonicalConfigs d') = Some row \<and> plaintextFree (cc_Config row))"

lemma stored_created:
  assumes "NormalizeProjectAddress (draft_Slug draft) (cfg_General (draft_Configuration draft)) = Inr general" and "pid \<noteq> []"
    and "encryptConfigurationSecrets env hasCipher pid ((draft_Configuration draft)\<lparr>cfg_General := general\<rparr>) w = (Inr (ms, persisted), w')"
    and "CreateProjectWithSecrets (draftProject pid now draft ((draft_Configuration draft)\<lparr>cfg_General := general\<rparr>)) persisted ms d = (Inr u, d')"
  shows "created d draft (draftProject pid now draft ((draft_Configuration draft)\<lparr>cfg_General := general\<rparr>)) d'"
  using CreateProjectWithSecrets_Inr [OF assms(4)] encrypted_plaintextFree [OF assms(3)] assms(1,2)
  by (auto simp: created_def draftProject_def plaintextFree_def redactConfiguration_def Let_def noSecret_def redactOAuth_def
      list_all_iff)

lemma Create_outcome:
  "triple (\<lambda>w. w_DB w = d) (ProjectService.Create env hasCipher draft) (\<lambda>project w. created d draft project (w_DB w)) (\<lambda>_ w. w_DB w = d)"
  unfolding ProjectService.Create_def Let_def
proof (rule after_orFail)
  fix general assume normal: "NormalizeProjectAddress (draft_Slug draft) (cfg_General (draft_Configuration draft)) = Inr general"
  let ?cfg = "(draft_Configuration draft)\<lparr>cfg_General := general\<rparr>"
  have stored: "triple (\<lambda>w. w_DB w = d) (andThen (mapErr h (onDb (CreateProjectWithSecrets (draftProject pid now draft ?cfg) cfg ms)))
      (\<lambda>_. ret (draftProject pid now draft ?cfg))) (\<lambda>project w. created d draft project (w_DB w)) (\<lambda>_ w. w_DB w = d)"
    if "pid \<noteq> []" "encryptConfigurationSecrets env hasCipher pid ?cfg u = (Inr (ms, cfg), u')" for h now pid cfg ms u u'
    by (rule tripleI) (auto simp: andThen_eq_Inl andThen_eq_Inr mapErr_eq_Inl onDb_eq intro: stored_created [OF normal that],
       simp add: CreateProjectWithSecrets_def Let_def)
  show "triple (\<lambda>w. w_DB w = d) (andThen (orErr (ValidateDraft (draft\<lparr>draft_Configuration := ?cfg\<rparr>))) (\<lambda>_.
      andThen (currentTime env) (\<lambda>now. andThen (ask (e_ID env)) (\<lambda>pid.
      andThen (failIf (pid = []) (ErrorsNew ''server ID generator returned an empty ID'')) (\<lambda>_.
      andThen (encryptConfigurationSecrets env hasCipher pid ?cfg) (\<lambda>(mutations, persisted).
      andThen (mapErr (\<lambda>e. if contains (errText e) ''UNIQUE constraint failed'' then projectConflict else e)
         (onDb (CreateProjectWithSecrets (draftProject pid now draft ?cfg) persisted mutations))) (\<lambda>_.
      ret (draftProject pid now draft ?cfg))))))))
      (\<lambda>project w. created d draft project (w_DB w)) (\<lambda>_ w. w_DB w = d)"
    by (intro after_orErr after_quiet [where P = "\<lambda>x. x = d"] after_failIf obeys_intros)
      (auto intro: stored)
qed

text \<open>
  (C20) Creation is all or nothing: a rejected draft leaves the database as it was; an accepted one
  gives a project with a new identifier, a slug and a domain that no other project has, in state
  DRAFT at revision 1, exactly as it is read back, at the address derived from its slug, and its
  stored configuration contains no plaintext secret.
\<close>

theorem project_creation:
  assumes "ProjectService.Create env hasCipher draft w = (r, w')"
  shows "case r of Inl e \<Rightarrow> w_DB w' = w_DB w
    | Inr project \<Rightarrow> p_ID project \<noteq> [] \<and> p_ID project \<notin> projectIds (w_DB w) \<and>
        (\<forall>p\<in>set (projects (w_DB w)). p_Slug p \<noteq> p_Slug project \<and> p_Domain p \<noteq> p_Domain project) \<and>
        p_Slug project = draft_Slug draft \<and> p_Status project = ProjectStatusDraft \<and> p_ConfigurationRevision project = 1 \<and>
        GetProject (p_ID project) (w_DB w') = (Inr project, w_DB w') \<and>
        (\<exists>general row. NormalizeProjectAddress (draft_Slug draft) (cfg_General (draft_Configuration draft)) = Inr general \<and>
          p_Domain project = gen_Domain general \<and> p_SiteURL project = gen_SiteURL general \<and>
          find (\<lambda>c. cc_Project c = p_ID project) (canonicalConfigs (w_DB w')) = Some row \<and> plaintextFree (cc_Config row))"
proof (cases r)
  case (Inl e)
  then show ?thesis using triple_InlD [OF Create_outcome [of "w_DB w"] refl] assms by simp
next
  case (Inr project)
  from triple_InrD [OF Create_outcome [of "w_DB w"] refl assms [unfolded Inr]] show ?thesis
    unfolding Inr sum.case created_def .
qed

text \<open>A draft of the lightweight preset with the storage section left open.\<close>

definition sampleDraft :: "StorageConfig \<Rightarrow> ProjectDraft" where
  "sampleDraft storage = \<lparr>draft_Name = '' Shop '', draft_Slug = ''shop'', draft_Preset = PresetLightweight,
     draft_Configuration = (ApplyConfigurationPreset PresetLightweight)\<lparr>
       cfg_General := sampleTyped, cfg_Storage := storage\<rparr>\<rparr>"

definition localStorage :: StorageConfig where
  "localStorage = cfg_Storage (ApplyConfigurationPreset PresetLightweight)"

text \<open>Object storage whose key is marked as present but never given.\<close>

definition markedStorage :: StorageConfig where
  "markedStorage = localStorage\<lparr>st_Backend := ''aws-s3'', st_Bucket := ''files'', st_Region := ''eu'',
     st_AccessKeyID := ''key'', st_SecretAccessKeySet := True\<rparr>"

lemma sampleDraft_again:
  "NormalizeProjectAddress ''shop'' (sampleTyped\<lparr>gen_SiteURL := ''https://bee.example'', gen_Domain := ''shop.bee.example''\<rparr>) =
     Inr (sampleTyped\<lparr>gen_SiteURL := ''https://bee.example'', gen_Domain := ''shop.bee.example''\<rparr>)"
  by code_simp

lemma sampleDraft_texts:
  "matchString slugPattern ''shop'' \<and> trimSpace '' Shop '' = ''Shop'' \<and>
   \<not> equalFold ''self-hosted/v0.8.0'' ''latest'' \<and> \<not> equalFold ''self-hosted/v0.8.0'' ''master''"
  by code_simp

lemma sampleDraft_valid:
  assumes "storageOk storage"
  shows "ValidateDraft (sampleDraft storage\<lparr>draft_Configuration := (draft_Configuration (sampleDraft storage))\<lparr>cfg_General :=
    sampleTyped\<lparr>gen_SiteURL := ''https://bee.example'', gen_Domain := ''shop.bee.example''\<rparr>\<rparr>\<rparr>) = None"
proof -
  let ?cfg = "(draft_Configuration (sampleDraft storage))\<lparr>cfg_General :=
    sampleTyped\<lparr>gen_SiteURL := ''https://bee.example'', gen_Domain := ''shop.bee.example''\<rparr>\<rparr>"
  have "ValidateConfiguration ?cfg = None"
    using defaults_acceptable [of PresetLightweight] assms sampleDomain sampleSite
    by (simp add: validate_iff acceptable_def sampleDraft_def sampleTyped_def)
  moreover have "managedTLSError ?cfg = []"
    by (simp add: managedTLSError_def sampleDraft_def ApplyConfigurationPreset_def DefaultConfiguration_def Let_def)
  ultimately show ?thesis
    using sampleDraft_again sampleDraft_texts by (simp add: ValidateDraft_def Let_def sampleDraft_def) (simp add: sampleTyped_def)
qed

lemma creation_succeeds:
  "\<exists>d. CreateProjectWithSecrets project cfg [] emptyDatabase = (Inr (), d) \<and>
     find (\<lambda>c. cc_Project c = p_ID project) (canonicalConfigs d) = Some \<lparr>cc_Project = p_ID project,
       cc_Config = redactConfiguration (cfg\<lparr>cfg_Revision := 1\<rparr>)\<rparr>"
  by (simp add: CreateProjectWithSecrets_def Let_def insertProject_def insertConfigIgnoring_def upsertCanonical_def
      projectServiceProjection_def insertService_def snapshotSecretsIgnoring_def insertMarker_def inTx_def mapErr_def
      emptyDatabase_def existsWhere_iff andThen_def projectIds_def Project.defs)

lemma sampleDraft_run:
  assumes "storageOk storage" and "si_Action (st_SecretAccessKey storage) = []"
  shows "\<exists>project w' row. ProjectService.Create sampleEnvironment True (sampleDraft storage) (newWorld emptyDatabase) = (Inr project, w') \<and>
    p_Name project = ''Shop'' \<and> find (\<lambda>c. cc_Project c = p_ID project) (canonicalConfigs (w_DB w')) = Some row \<and>
    cfg_Storage (cc_Config row) = storage\<lparr>st_SecretAccessKey := noSecret, st_SecretAccessKeySet := False\<rparr>"
proof -
  let ?general = "sampleTyped\<lparr>gen_SiteURL := ''https://bee.example'', gen_Domain := ''shop.bee.example''\<rparr>"
  let ?cfg = "(draft_Configuration (sampleDraft storage))\<lparr>cfg_General := ?general\<rparr>"
  let ?off = "(noSecret, False)"
  have "encryptConfigurationSecrets sampleEnvironment True pid ?cfg w = (Inr ([], consumeSecrets ?cfg ?off ?off ?off [] ?off []), w)" for pid w
    using assms(2)
    by (simp add: encryptConfigurationSecrets_def encryptSecret_def Let_def andThen_def sampleDraft_def sampleTyped_def noSecret_def
        ApplyConfigurationPreset_def DefaultConfiguration_def defaultAuth_def)
  moreover obtain d where "CreateProjectWithSecrets (draftProject ''op-i'' 0 (sampleDraft storage) ?cfg)
        (consumeSecrets ?cfg ?off ?off ?off [] ?off []) [] emptyDatabase = (Inr (), d)"
      "find (\<lambda>c. cc_Project c = ''op-i'') (canonicalConfigs d) = Some \<lparr>cc_Project = ''op-i'',
         cc_Config = redactConfiguration ((consumeSecrets ?cfg ?off ?off ?off [] ?off [])\<lparr>cfg_Revision := 1\<rparr>)\<rparr>"
    using creation_succeeds [of "draftProject ''op-i'' 0 (sampleDraft storage) ?cfg"] by (auto simp: draftProject_def)
  moreover have "NormalizeProjectAddress (draft_Slug (sampleDraft storage)) (cfg_General (draft_Configuration (sampleDraft storage))) = Inr ?general"
    using sampleAddress by (simp add: sampleDraft_def)
  moreover note sampleDraft_valid [OF assms(1)]
  ultimately have "ProjectService.Create sampleEnvironment True (sampleDraft storage) (newWorld emptyDatabase) =
      (Inr (draftProject ''op-i'' 0 (sampleDraft storage) ?cfg), (newWorld emptyDatabase)\<lparr>w_Steps := 2, w_DB := d\<rparr>)"
    unfolding ProjectService.Create_def Let_def
    by (simp add: andThen_def currentTime_def mapErr_def onDb_def newWorld_def sampleEnvironment_def second_def eval_nat_numeral)
  then show ?thesis
    using sampleDraft_texts \<open>find _ (canonicalConfigs d) = _\<close>
    by (simp add: draftProject_def redactConfiguration_def Let_def consumeSecrets_def sampleDraft_def)
qed

theorem project_creation_witness:
  "\<exists>project w'. ProjectService.Create sampleEnvironment True (sampleDraft localStorage) (newWorld emptyDatabase) = (Inr project, w') \<and>
     p_Name project = ''Shop'' \<and> GetProject (p_ID project) (w_DB w') = (Inr project, w_DB w')"
proof -
  have "storageOk localStorage \<and> si_Action (st_SecretAccessKey localStorage) = []"
    by (simp add: localStorage_def ApplyConfigurationPreset_def DefaultConfiguration_def Let_def storageOk_def noSecret_def secretCommand_def)
  then obtain project w' where run: "ProjectService.Create sampleEnvironment True (sampleDraft localStorage) (newWorld emptyDatabase) = (Inr project, w')"
    and "p_Name project = ''Shop''"
    using sampleDraft_run by blast
  with project_creation [OF run] show ?thesis by auto
qed

text \<open>
  (C25) The presence mark of a storage key is trusted too early: a draft with object storage, the mark
  set by the client and no key is accepted and stored, although the mark is dropped; the stored
  configuration then fails the validation that every worker runs first.
\<close>

theorem marked_draft_is_stuck:
  "\<exists>project w' snapshot. ProjectService.Create sampleEnvironment True (sampleDraft markedStorage) (newWorld emptyDatabase) = (Inr project, w') \<and>
     GetDesiredConfiguration (p_ID project) (w_DB w') = (Inr snapshot, w_DB w') \<and>
     ValidateStoredConfiguration (snap_Configuration snapshot) \<noteq> None"
proof -
  have "\<not> blank ''files'' \<and> \<not> blank ''eu'' \<and> \<not> blank ''key''" by code_simp
  then have "storageOk markedStorage \<and> si_Action (st_SecretAccessKey markedStorage) = []"
    by (simp add: markedStorage_def localStorage_def ApplyConfigurationPreset_def DefaultConfiguration_def Let_def storageOk_def
        noSecret_def secretCommand_def objectBackend_def)
  then obtain project w' row where
    run: "ProjectService.Create sampleEnvironment True (sampleDraft markedStorage) (newWorld emptyDatabase) = (Inr project, w')"
    and row: "find (\<lambda>c. cc_Project c = p_ID project) (canonicalConfigs (w_DB w')) = Some row"
    and storage: "cfg_Storage (cc_Config row) = markedStorage\<lparr>st_SecretAccessKey := noSecret, st_SecretAccessKeySet := False\<rparr>"
    using sampleDraft_run by blast
  from triple_InrD [OF Create_outcome refl run] have "GetProject (p_ID project) (w_DB w') = (Inr project, w_DB w')"
    by (simp add: created_def)
  then obtain p where "find (\<lambda>p. p_ID p = p_ID project) (projects (w_DB w')) = Some p"
    by (auto simp: GetProject_def split: option.splits)
  with row storage show ?thesis
    using run
    by (simp add: GetDesiredConfiguration_def ValidateStoredConfiguration_def validate_iff acceptable_def storedCommands_def Let_def
        redactConfiguration_def storageOk_def markedStorage_def retainIfSet_def noSecret_def)
qed

end
