(* ===== verification/Orchestrator.thy ===== *)
theory Orchestrator
  imports ConfigurationService PortAllocator
begin

text \<open>
  \<^verbatim>\<open>configuration/orchestrator.go\<close>: queueing a configuration change, applying the canonical
  configuration through the Provisioner, and the legacy revisioned run. The record \<open>orchestrator\<close> says
  which collaborators the orchestrator was built with and which optional interfaces its Provisioner
  implements. A worker returns the operation and the error of the Go function; inside a worker
  \<open>throw e\<close> stands for \<^verbatim>\<open>return queued, e\<close>. The in-memory lock of a project is its membership in
  \<open>w_Locks\<close>, the lease registry is \<open>w_Leases\<close>. \<open>e_Lost\<close> answers \<^verbatim>\<open>workCtx.Err()\<close>, which the background
  renewal of the lease sets.
\<close>

record orchestrator =
  orch_Configs :: bool
  orch_Operations :: bool
  orch_ConfigCipher :: bool
  orch_Allocator :: "Allocator option"
  orch_Provisioner :: bool
  orch_Cipher :: bool
  orch_CanRotate :: bool
  orch_CanRollback :: bool
  orch_CanConfirm :: bool

definition orchestratorUnavailable :: goerr where
  "orchestratorUnavailable = ErrorsNew ''configuration orchestrator is unavailable''"

section \<open>Locks and leases\<close>

definition tryAcquire :: "string \<Rightarrow> (world, bool) act" where
  "tryAcquire pid w = (if pid \<in> set (w_Locks w) then (Inr False, w) else (Inr True, w\<lparr>w_Locks := pid # w_Locks w\<rparr>))"

definition release :: "string \<Rightarrow> (world, unit) act" where
  "release pid = modify (\<lambda>w. w\<lparr>w_Locks := filter (\<lambda>p. p \<noteq> pid) (w_Locks w)\<rparr>)"

definition rememberLease :: "string \<Rightarrow> ConfigurationLease \<Rightarrow> (world, unit) act" where
  "rememberLease pid lease = modify (\<lambda>w. w\<lparr>w_Leases := mapPut pid lease (w_Leases w)\<rparr>)"

definition releaseLease :: "string \<Rightarrow> (world, unit) act" where
  "releaseLease pid = andThen (gets (\<lambda>w. map_of (w_Leases w) pid)) (\<lambda>l. case l of
      None \<Rightarrow> ret ()
    | Some lease \<Rightarrow> andThen (modify (\<lambda>w. w\<lparr>w_Leases := mapDelete pid (w_Leases w)\<rparr>)) (\<lambda>_.
        onDb (ReleaseConfigurationLeaseOwned pid (lease_Owner lease) (lease_Fence lease))))"

definition releaseLeaseToken :: "string \<Rightarrow> string \<Rightarrow> int \<Rightarrow> (world, unit) act" where
  "releaseLeaseToken pid owner fence =
     (if owner = [] \<or> fence = 0 then ret ()
      else andThen (modify (\<lambda>w. if map_of (w_Leases w) pid = Some \<lparr>lease_Owner = owner, lease_Fence = fence\<rparr>
             then w\<lparr>w_Leases := mapDelete pid (w_Leases w)\<rparr> else w)) (\<lambda>_.
        onDb (ReleaseConfigurationLeaseOwned pid owner fence)))"

definition currentFence :: "string \<Rightarrow> (world, int) act" where
  "currentFence pid = gets (\<lambda>w. case map_of (w_Leases w) pid of None \<Rightarrow> 0 | Some lease \<Rightarrow> lease_Fence lease)"

definition ReleaseAll :: "string \<Rightarrow> (world, unit) act" where
  "ReleaseAll pid = andThen (release pid) (\<lambda>_. ignoreErr (releaseLease pid))"

text \<open>\<^verbatim>\<open>o.release(projectID); return ..., err\<close> on every error.\<close>

definition unlockOnError :: "string \<Rightarrow> (world, 'a) act \<Rightarrow> (world, 'a) act" where
  "unlockOnError pid m = andThen (attempt m) (\<lambda>r. case r of
      Inl e \<Rightarrow> andThen (release pid) (\<lambda>_. throw e)
    | Inr x \<Rightarrow> ret x)"

section \<open>Ports of an update\<close>

definition releasedPorts :: "ProjectConfiguration \<Rightarrow> ProjectConfiguration" where
  "releasedPorts cfg =
     (let services = cfg_Services cfg; network = cfg_Network cfg; database = cfg_Database cfg; pooler = cfg_Pooler cfg in
      cfg\<lparr>cfg_Database := (if svc_DirectDB services then database else database\<lparr>db_DirectPort := False, db_DirectPortNumber := 0\<rparr>),
        cfg_Pooler := (if svc_Supavisor services then pooler else pooler\<lparr>pool_TransactionPort := 0, pool_SessionPort := 0\<rparr>),
        cfg_Network := network\<lparr>
          net_StudioPort := (if svc_Studio services then net_StudioPort network else 0),
          net_DirectDatabasePort := (if svc_DirectDB services then net_DirectDatabasePort network else 0),
          net_PoolerPort := (if svc_Supavisor services then net_PoolerPort network else 0)\<rparr>\<rparr>)"

definition updateKinds :: "Services \<Rightarrow> string list" where
  "updateKinds services = [''API''] @ (if svc_Studio services then [''STUDIO''] else []) @
     (if svc_DirectDB services then [''DATABASE''] else []) @
     (if svc_Supavisor services then [''POOLER_TRANSACTION'', ''POOLER_SESSION''] else [])"

definition withPorts :: "(string \<times> int) list \<Rightarrow> ProjectConfiguration \<Rightarrow> ProjectConfiguration" where
  "withPorts allocated cfg =
     (let services = cfg_Services cfg; port = mapGet 0 allocated in
      cfg\<lparr>cfg_Database := (if svc_DirectDB services
            then (cfg_Database cfg)\<lparr>db_DirectPort := True, db_DirectPortNumber := port ''DATABASE''\<rparr> else cfg_Database cfg),
        cfg_Pooler := (if svc_Supavisor services
            then (cfg_Pooler cfg)\<lparr>pool_TransactionPort := port ''POOLER_TRANSACTION'', pool_SessionPort := port ''POOLER_SESSION''\<rparr>
            else cfg_Pooler cfg),
        cfg_Network := (cfg_Network cfg)\<lparr>net_APIPort := port ''API'',
          net_StudioPort := (if svc_Studio services then port ''STUDIO'' else net_StudioPort (cfg_Network cfg)),
          net_DirectDatabasePort := (if svc_DirectDB services then port ''DATABASE'' else net_DirectDatabasePort (cfg_Network cfg)),
          net_PoolerPort := (if svc_Supavisor services then 0 else net_PoolerPort (cfg_Network cfg))\<rparr>\<rparr>)"

definition allocateUpdatePorts ::
  "environment \<Rightarrow> orchestrator \<Rightarrow> string \<Rightarrow> ProjectConfiguration \<Rightarrow> (world, ProjectConfiguration) act" where
  "allocateUpdatePorts env o' pid cfg = (case orch_Allocator o' of
      None \<Rightarrow> ret cfg
    | Some allocator \<Rightarrow>
        andThen (CandidateMany env allocator pid (updateKinds (cfg_Services cfg))) (\<lambda>allocated.
        ret (withPorts allocated (releasedPorts cfg))))"

section \<open>Queueing\<close>

definition newUpdate :: "environment \<Rightarrow> string \<Rightarrow> (world, Operation) act" where
  "newUpdate env pid = andThen (ask (e_ID env)) (\<lambda>oid. andThen (currentTime env) (\<lambda>now.
     orFail (NewQueuedOperation oid now pid OperationUpdateConfig)))"

definition admit :: "environment \<Rightarrow> (gotime \<Rightarrow> ConfigurationAdmission) \<Rightarrow> (world, ConfigurationSnapshot \<times> ConfigurationLease) act" where
  "admit env input = andThen (currentTime env) (\<lambda>now. andThen (currentTime env) (\<lambda>wall.
     onDb (AdmitConfiguration wall (input now))))"

text \<open>An update that has been active for more than an hour is closed; a younger one is reused.\<close>

definition closeExpired :: "environment \<Rightarrow> Operation option \<Rightarrow> (world, Operation option) act" where
  "closeExpired env found = (case found of
      None \<Rightarrow> ret None
    | Some active \<Rightarrow> andThen (currentTime env) (\<lambda>now.
        if now - op_CreatedAt active > hour then
          andThen (if op_Status active = OperationQueued then ignoreErr (opCall env (\<lambda>now. Start now (op_ID active))) else ret ()) (\<lambda>_.
          andThen (ignoreErr (opCall env (\<lambda>now. Fail now (op_ID active) ''RESUME''
            (ErrorsNew ''configuration apply worker exceeded one-hour deadline'')))) (\<lambda>_.
          ret None))
        else ret (Some active)))"

definition queueUpdate :: "environment \<Rightarrow> orchestrator \<Rightarrow> string \<Rightarrow> ConfigurationPatch \<Rightarrow> ConfigurationSnapshot \<Rightarrow>
    (world, Operation \<times> ConfigurationSnapshot) act" where
  "queueUpdate env o' pid patch canonical =
     andThen (onDb (PreparePatch pid (patch\<lparr>patch_ExpectedRevision := snap_Revision canonical\<rparr>))) (\<lambda>prepared.
     andThen (allocateUpdatePorts env o' pid prepared) (\<lambda>cfg.
     andThen (PrepareSecretMutations env (orch_ConfigCipher o') pid cfg) (\<lambda>(mutations, stored).
     andThen (newUpdate env pid) (\<lambda>queued.
     andThen (admit env (\<lambda>now. \<lparr>adm_Operation = queued, adm_ProjectID = pid, adm_Owner = op_ID queued,
        adm_ExpectedRevision = snap_Revision canonical, adm_Configuration = stored, adm_OperationKind = ''UPDATE_CONFIG'',
        adm_Mutations = mutations, adm_OperationSecrets = [], adm_Now = now, adm_LeaseTTL = 0\<rparr>)) (\<lambda>(snapshot, lease).
     andThen (rememberLease pid lease) (\<lambda>_. ret (queued, snapshot)))))))"

definition QueuePatch :: "environment \<Rightarrow> orchestrator \<Rightarrow> string \<Rightarrow> ConfigurationPatch \<Rightarrow>
    (world, Operation \<times> ConfigurationSnapshot) act" where
  "QueuePatch env o' pid patch =
     andThen (failIf (\<not> orch_Configs o' \<or> \<not> orch_Operations o') orchestratorUnavailable) (\<lambda>_.
     andThen (tryAcquire pid) (\<lambda>held.
     if \<not> held then throw (Sentinel ErrConfigurationBusy)
     else unlockOnError pid (
       andThen (onDb (GetConfiguration pid)) (\<lambda>canonical.
       andThen (onDb (FindActiveOperation pid OperationUpdateConfig)) (\<lambda>found.
       andThen (closeExpired env found) (\<lambda>reuse. case reuse of
           Some active \<Rightarrow> andThen (release pid) (\<lambda>_. ret (active, canonical))
         | None \<Rightarrow> queueUpdate env o' pid patch canonical))))))"

definition QueueDatabasePasswordRotation ::
  "environment \<Rightarrow> orchestrator \<Rightarrow> string \<Rightarrow> (world, Operation \<times> ConfigurationSnapshot \<times> string) act" where
  "QueueDatabasePasswordRotation env o' pid =
     andThen (failIf (\<not> orch_Configs o' \<or> \<not> orch_Operations o' \<or> \<not> orch_Cipher o') orchestratorUnavailable) (\<lambda>_.
     andThen (tryAcquire pid) (\<lambda>held.
     if \<not> held then throw (Sentinel ErrConfigurationBusy)
     else unlockOnError pid (
       andThen (onDb (GetDesiredConfiguration pid)) (\<lambda>current.
       andThen (andThen (ask (e_RandomSecret env)) orFail) (\<lambda>newPassword.
       andThen (Encrypt env pid ''operation.database-password'' newPassword) (\<lambda>envelope.
       andThen (newUpdate env pid) (\<lambda>queued.
       andThen (admit env (\<lambda>now. \<lparr>adm_Operation = queued, adm_ProjectID = pid, adm_Owner = op_ID queued,
          adm_ExpectedRevision = snap_Revision current, adm_Configuration = snap_Configuration current,
          adm_OperationKind = ''ROTATE_DATABASE_PASSWORD'', adm_Mutations = [],
          adm_OperationSecrets = [(''database-password'', envelope)], adm_Now = now, adm_LeaseTTL = 0\<rparr>)) (\<lambda>(next, lease).
       andThen (rememberLease pid lease) (\<lambda>_. ret (queued, next, newPassword))))))))))"

section \<open>Services of a runtime\<close>

definition enabledServices :: "ProjectConfiguration \<Rightarrow> string list" where
  "enabledServices cfg = (let s = cfg_Services cfg in sort (map fst (filter snd
     [(''db'', svc_Database s), (''api-gw'', svc_Gateway s), (''auth'', svc_Auth s), (''rest'', svc_REST s),
      (''meta'', svc_PostgresMeta s), (''studio'', svc_Studio s), (''realtime'', svc_Realtime s), (''storage'', svc_Storage s),
      (''imgproxy'', svc_Imgproxy s), (''functions'', svc_Functions s), (''supavisor'', svc_Supavisor s),
      (''analytics'', svc_Logs s), (''vector'', svc_Vector s)])))"

definition isRendererHelperService :: "string \<Rightarrow> bool" where
  "isRendererHelperService name \<longleftrightarrow> name \<in> {''auth-templates'', ''deno-cache'', ''db-config'', ''logflare''}"

definition isGateway :: "string \<Rightarrow> bool" where
  "isGateway value \<longleftrightarrow> value \<in> {''api-gw'', ''envoy'', ''kong'', ''caddy''}"

definition canonicalServices :: "string list \<Rightarrow> string list" where
  "canonicalServices values = (let kept = filter (\<lambda>v. \<not> isRendererHelperService v) values in
     filter (\<lambda>v. \<not> isGateway v) kept @ (if list_ex isGateway kept then [''api-gw''] else []))"

definition sameServices :: "string list \<Rightarrow> string list \<Rightarrow> bool" where
  "sameServices left right \<longleftrightarrow> sort (canonicalServices left) = sort (canonicalServices right)"

text \<open>\<^verbatim>\<open>%v\<close> of a slice of strings\<close>

definition goSlice :: "string list \<Rightarrow> string" where
  "goSlice values = ''['' @ joinWith '' '' values @ '']''"

definition runtimeVerificationError ::
  "ReconcileProjectResponse \<Rightarrow> string \<Rightarrow> string \<Rightarrow> int \<Rightarrow> ProjectConfiguration \<Rightarrow> goerr" where
  "runtimeVerificationError result operationID projectID revision cfg =
     (let expected = enabledServices cfg;
          mismatches =
            (if rs_OperationID result \<noteq> operationID
             then [''operation ID received='' @ goQuote (rs_OperationID result) @ '' expected='' @ goQuote operationID] else []) @
            (if rs_ProjectID result \<noteq> projectID
             then [''server ID received='' @ goQuote (rs_ProjectID result) @ '' expected='' @ goQuote projectID] else []) @
            (if revision \<ge> 0 \<and> rs_Revision result \<noteq> revision
             then [''revision received='' @ itoa (rs_Revision result) @ '' expected='' @ itoa revision] else []) @
            (if \<not> sameServices (rs_EnabledServices result) expected
             then [''enabled services mismatch: received='' @ goSlice (sort (canonicalServices (rs_EnabledServices result))) @
               '' expected='' @ goSlice (sort expected)] else [])
      in if mismatches = [] then ErrorsNew ''runtime verification failed: provisioner returned an inconsistent result''
         else ErrorsNew (''runtime verification failed: '' @ joinWith ''; '' mismatches))"

section \<open>What an error says about the runtime\<close>

definition reconcileRollback :: "goerr \<Rightarrow> bool" where
  "reconcileRollback e = (case asReconcileFailure e of
      Some (rolledBack, changed) \<Rightarrow> rolledBack
    | None \<Rightarrow> rollbackSucceeded e)"

definition shouldRestoreConfiguration :: "goerr \<Rightarrow> bool" where
  "shouldRestoreConfiguration e = (case asReconcileFailure e of
      Some (rolledBack, changed) \<Rightarrow> \<not> changed \<or> rolledBack
    | None \<Rightarrow> (case asClientError e of
        Some (rolledBack, known, changed) \<Rightarrow> known \<and> (\<not> changed \<or> rolledBack)
      | None \<Rightarrow> False))"

definition runtimeOutcomeKnown :: "goerr \<Rightarrow> bool" where
  "runtimeOutcomeKnown e = (case asReconcileFailure e of
      Some _ \<Rightarrow> True
    | None \<Rightarrow> (case asClientError e of Some (rolledBack, known, changed) \<Rightarrow> known | None \<Rightarrow> False))"

definition isRejectedRuntimeRevision :: "goerr \<Rightarrow> bool" where
  "isRejectedRuntimeRevision e \<longleftrightarrow> errorsIs e ErrStaleConfigRevision \<or> errorsIs e ErrInvalidReconcileRevision"

section \<open>Secrets of a runtime\<close>

definition requiredKinds :: "ProjectConfiguration \<Rightarrow> string list" where
  "requiredKinds cfg =
     (let services = cfg_Services cfg; auth = cfg_Auth cfg in
      [''database-password'', ''jwt-secret'', ''anon-key'', ''service-role-key'', ''dashboard-password'', ''secret-key-base'',
       ''vault-encryption-key''] @
      (if gen_StudioPasswordSet (cfg_General cfg) then [''studio.password''] else []) @
      (if svc_Realtime services then [''realtime-db-encryption-key''] else []) @
      (if svc_Logs services then [''logflare-public-access-token'', ''logflare-private-access-token''] else []) @
      (if svc_Supavisor services then [''pooler-tenant-id''] else []) @
      (if st_S3CompatibleAPI (cfg_Storage cfg) then [''s3-protocol-access-key-id'', ''s3-protocol-access-key-secret''] else []) @
      (if svc_Auth services \<and> smtp_Enabled (auth_SMTP auth) \<and> smtp_PasswordSet (auth_SMTP auth) then [''smtp.password''] else []) @
      (if svc_Auth services \<and> ph_Enabled (auth_Phone auth) \<and> ph_SecretSet (auth_Phone auth) then [''phone.secret''] else []) @
      map (\<lambda>(name, provider). ''oauth.'' @ name @ ''.secret'')
        (filter (\<lambda>(name, provider). svc_Auth services \<and> oa_Enabled provider \<and> oa_SecretSet provider) (auth_OAuth auth)) @
      (if svc_Storage services \<and> st_SecretAccessKeySet (cfg_Storage cfg) then [''storage.secretAccessKey''] else []) @
      map (\<lambda>variable. ''functions.'' @ fv_Name variable)
        (filter (\<lambda>variable. svc_Functions services \<and> fv_ValueSet variable) (fn_Variables (cfg_Functions cfg))))"

type_synonym hydrated = "ProjectSecrets \<times> (string \<times> string) list"

definition placeSecret :: "string \<Rightarrow> string \<Rightarrow> hydrated \<Rightarrow> hydrated" where
  "placeSecret kind value h = (case h of (out, runtime) \<Rightarrow>
     if kind = ''database-password'' then (out\<lparr>ps_DatabasePassword := value\<rparr>, runtime)
     else if kind = ''jwt-secret'' then (out\<lparr>ps_JWTSecret := value\<rparr>, runtime)
     else if kind = ''anon-key'' then (out\<lparr>ps_AnonKey := value\<rparr>, runtime)
     else if kind = ''service-role-key'' then (out\<lparr>ps_ServiceRoleKey := value\<rparr>, runtime)
     else if kind = ''dashboard-password'' then (out\<lparr>ps_DashboardPassword := value\<rparr>, runtime)
     else if kind = ''studio.password'' then (out\<lparr>ps_DashboardPassword := value\<rparr>, runtime)
     else if kind = ''secret-key-base'' then (out\<lparr>ps_SecretKeyBase := value\<rparr>, runtime)
     else if kind = ''vault-encryption-key'' then (out\<lparr>ps_VaultEncryptionKey := value\<rparr>, runtime)
     else if kind = ''realtime-db-encryption-key''
       then (out\<lparr>ps_RealtimeDBEncryptionKey := value\<rparr>, mapPut ''realtime.dbEncryptionKey'' value runtime)
     else if kind = ''logflare-public-access-token''
       then (out\<lparr>ps_LogflarePublicAccessToken := value\<rparr>, mapPut ''logs.publicAccessToken'' value runtime)
     else if kind = ''logflare-private-access-token''
       then (out\<lparr>ps_LogflarePrivateAccessToken := value\<rparr>, mapPut ''logs.privateAccessToken'' value runtime)
     else if kind = ''s3-protocol-access-key-id''
       then (out\<lparr>ps_S3ProtocolAccessKeyID := value\<rparr>, mapPut ''storage.s3Protocol.accessKey'' value runtime)
     else if kind = ''s3-protocol-access-key-secret''
       then (out\<lparr>ps_S3ProtocolAccessKeySecret := value\<rparr>, mapPut ''storage.s3Protocol.secret'' value runtime)
     else if kind = ''pooler-tenant-id'' then (out\<lparr>ps_PoolerTenantID := value\<rparr>, runtime)
     else (out, mapPut kind value runtime))"

fun hydrateKinds :: "environment \<Rightarrow> string \<Rightarrow> string list \<Rightarrow> string list \<Rightarrow> hydrated \<Rightarrow> (database, hydrated) act" where
  "hydrateKinds env pid [] seen h = ret h"
| "hydrateKinds env pid (kind # kinds) seen h =
     (if kind \<in> set seen then hydrateKinds env pid kinds seen h
      else andThen (attempt (GetSecret pid kind)) (\<lambda>r. case r of
          Inl e \<Rightarrow>
            if errorsIs e ErrNotFound then
              (if kind = ''studio.password'' \<and> ps_DashboardPassword (fst h) = []
               then throw (ErrorsNew ''configured Studio password is unavailable'')
               else hydrateKinds env pid kinds (kind # seen) h)
            else throw e
        | Inr envelope \<Rightarrow> (case e_Decrypt env pid kind envelope of
            Inl e \<Rightarrow> throw (Errorf ''decrypt required secret: '' e [])
          | Inr value \<Rightarrow> hydrateKinds env pid kinds (kind # seen) (placeSecret kind value h))))"

definition hydrate :: "environment \<Rightarrow> orchestrator \<Rightarrow> string \<Rightarrow> ProjectConfiguration \<Rightarrow> (database, hydrated) act" where
  "hydrate env o' pid cfg =
     (if \<not> orch_Cipher o' then throw (ErrorsNew ''secret cipher is unavailable'')
      else hydrateKinds env pid (requiredKinds cfg) [] (noProjectSecrets, []))"

text \<open>The API reveals four kinds only.\<close>

definition revealKinds :: "(string \<times> string) list" where
  "revealKinds = [(''anonKey'', ''anon-key''), (''serviceRoleKey'', ''service-role-key''), (''jwtSecret'', ''jwt-secret''),
     (''databasePassword'', ''database-password'')]"

definition Reveal :: "environment \<Rightarrow> string \<Rightarrow> string \<Rightarrow> (database, string) act" where
  "Reveal env pid kind = (case map_of revealKinds (trimSpace kind) of
      None \<Rightarrow> throw (ErrorsNew ''unsupported secret kind'')
    | Some stored \<Rightarrow> andThen (GetSecret pid stored) (\<lambda>envelope. case e_Decrypt env pid stored envelope of
        Inl e \<Rightarrow> throw e | Inr plain \<Rightarrow> ret plain))"

section \<open>Steps of a worker\<close>

type_synonym outcome = "Operation option \<times> goerr option"

text \<open>\<^verbatim>\<open>return queued, err\<close>\<close>

definition orQueued :: "Operation \<Rightarrow> (world, outcome) act \<Rightarrow> (world, outcome) act" where
  "orQueued queued m = andThen (attempt m) (\<lambda>r. case r of Inl e \<Rightarrow> ret (Some queued, Some e) | Inr x \<Rightarrow> ret x)"

definition failOperation :: "environment \<Rightarrow> Operation \<Rightarrow> string \<Rightarrow> goerr \<Rightarrow> bool \<Rightarrow> (world, outcome) act" where
  "failOperation env queued step cause rollback =
     (let oid = op_ID queued in
      andThen (ignoreErr (opCall env (\<lambda>now. Fail now oid step cause))) (\<lambda>_.
      andThen (if rollback
               then andThen (attempt (opCall env (\<lambda>now. BeginRollback now oid))) (\<lambda>begun. case begun of
                   Inl _ \<Rightarrow> ret () | Inr _ \<Rightarrow> ignoreErr (opCall env (\<lambda>now. CompleteRollback now oid)))
               else ret ()) (\<lambda>_.
      andThen (latestOperation oid) (\<lambda>latest. ret (latest, Some cause)))))"

definition finishOperation :: "environment \<Rightarrow> string \<Rightarrow> (world, outcome) act" where
  "finishOperation env oid = andThen (opCall env (\<lambda>now. Succeed now oid)) (\<lambda>_.
     andThen (attempt (onDb (GetOperation oid))) (\<lambda>got. case got of
       Inl e \<Rightarrow> ret (None, Some e) | Inr op \<Rightarrow> ret (Some op, None)))"

definition startRunnable :: "environment \<Rightarrow> Operation \<Rightarrow> string \<Rightarrow> (world, unit) act" where
  "startRunnable env queued message =
     (if op_Status queued = OperationQueued then opCall env (\<lambda>now. Start now (op_ID queued))
      else failIf (op_Status queued \<noteq> OperationRunning) (ErrorsNew message))"

definition beginStep :: "environment \<Rightarrow> string \<Rightarrow> string \<Rightarrow> int \<Rightarrow> (world, unit) act" where
  "beginStep env oid step progress = opCall env (\<lambda>now. StartStep now oid step progress)"

definition endStep :: "environment \<Rightarrow> string \<Rightarrow> string \<Rightarrow> int \<Rightarrow> (world, unit) act" where
  "endStep env oid step progress = opCall env (\<lambda>now. CompleteStep now oid step progress)"

definition passStep :: "environment \<Rightarrow> string \<Rightarrow> string \<times> int \<Rightarrow> (world, unit) act" where
  "passStep env oid step = andThen (beginStep env oid (fst step) (snd step)) (\<lambda>_. endStep env oid (fst step) (snd step))"

text \<open>\<^verbatim>\<open>port, _ := store.ReservedPort(...)\<close>\<close>

definition reservedAPIPort :: "string \<Rightarrow> (world, int) act" where
  "reservedAPIPort pid = andThen (attempt (onDb (ReservedPort pid ''API''))) (\<lambda>r. case r of Inl e \<Rightarrow> ret 0 | Inr port \<Rightarrow> ret port)"

text \<open>The request carries the API port of the configuration, or the allocated one.\<close>

definition withAPIPort :: "string \<Rightarrow> ReconcileProjectRequest \<Rightarrow> (world, ReconcileProjectRequest) act" where
  "withAPIPort pid request =
     (if rr_APIPort request \<noteq> 0 then ret request
      else andThen (reservedAPIPort pid) (\<lambda>port. let cfg = rr_Configuration request in
        ret (request\<lparr>rr_APIPort := port, rr_Configuration := cfg\<lparr>cfg_Network := (cfg_Network cfg)\<lparr>net_APIPort := port\<rparr>\<rparr>\<rparr>)))"

section \<open>Applying the canonical configuration\<close>

definition canonicalRequest :: "Project \<Rightarrow> Operation \<Rightarrow> ProjectConfiguration \<Rightarrow> hydrated \<Rightarrow> ReconcileProjectRequest" where
  "canonicalRequest project queued cfg h = \<lparr>rr_OperationID = op_ID queued, rr_IdempotencyKey = op_ID queued @ '':reconcile'',
     rr_ProjectID = p_ID project, rr_ProjectName = p_Name project, rr_Slug = p_Slug project, rr_ExpectedRevision = 0,
     rr_NextRevision = 0, rr_APIPort = net_APIPort (cfg_Network cfg), rr_Configuration = cfg, rr_Secrets = fst h,
     rr_RuntimeSecrets = snd h, rr_Fence = 0\<rparr>"

text \<open>The response names this operation, this project and the services of the configuration.\<close>

definition verifiedResult :: "Project \<Rightarrow> Operation \<Rightarrow> ProjectConfiguration \<Rightarrow> ReconcileProjectResponse \<Rightarrow> bool" where
  "verifiedResult project queued cfg result \<longleftrightarrow> rs_OperationID result = op_ID queued \<and> rs_ProjectID result = p_ID project \<and>
     sameServices (rs_EnabledServices result) (enabledServices cfg)"

definition commitVerified :: "environment \<Rightarrow> Project \<Rightarrow> Operation \<Rightarrow> ProjectConfiguration \<Rightarrow> ReconcileProjectResponse \<Rightarrow>
    (world, outcome) act" where
  "commitVerified env project queued cfg result =
     (let oid = op_ID queued in
      andThen (endStep env oid ''COMPOSE_UP'' 70) (\<lambda>_.
      andThen (beginStep env oid ''VERIFY_SERVICES'' 90) (\<lambda>_.
      if \<not> verifiedResult project queued cfg result
      then failOperation env queued ''VERIFY_SERVICES'' (runtimeVerificationError result oid (p_ID project) (- 1) cfg) False
      else andThen (endStep env oid ''VERIFY_SERVICES'' 90) (\<lambda>_.
      andThen (currentTime env) (\<lambda>now.
      andThen (attempt (opCall env (\<lambda>wall. CommitCanonicalConfiguration wall (p_ID project) now))) (\<lambda>committed. case committed of
          Inl e \<Rightarrow> failOperation env queued ''VERIFY_SERVICES'' e False
        | Inr _ \<Rightarrow> finishOperation env oid))))))"

definition composeUp :: "environment \<Rightarrow> Project \<Rightarrow> Operation \<Rightarrow> ProjectConfiguration \<Rightarrow> hydrated \<Rightarrow> (world, outcome) act" where
  "composeUp env project queued cfg h =
     andThen (beginStep env (op_ID queued) ''COMPOSE_UP'' 70) (\<lambda>_.
     andThen (withAPIPort (p_ID project) (canonicalRequest project queued cfg h)) (\<lambda>request.
     andThen (attempt (Reconcile env request)) (\<lambda>answer. case answer of
         Inl e \<Rightarrow> failOperation env queued ''COMPOSE_UP'' e (reconcileRollback e)
       | Inr result \<Rightarrow> commitVerified env project queued cfg result)))"

definition applyCanonical :: "environment \<Rightarrow> orchestrator \<Rightarrow> Project \<Rightarrow> Operation \<Rightarrow> ConfigurationSnapshot \<Rightarrow> (world, outcome) act" where
  "applyCanonical env o' project queued snapshot =
     (let oid = op_ID queued; cfg = sharedCommands (snap_Configuration snapshot) in
      andThen (failIf (\<not> orch_Provisioner o') (ErrorsNew ''configuration provisioner is unavailable'')) (\<lambda>_.
      andThen (startRunnable env queued ''configuration operation is not runnable'') (\<lambda>_.
      andThen (beginStep env oid ''VALIDATE_CONFIGURATION'' 10) (\<lambda>_.
      case ValidateStoredConfiguration (snap_Configuration snapshot) of
          Some e \<Rightarrow> failOperation env queued ''VALIDATE_CONFIGURATION'' e False
        | None \<Rightarrow>
      andThen (endStep env oid ''VALIDATE_CONFIGURATION'' 10) (\<lambda>_.
      andThen (passStep env oid (''PERSIST_CONFIGURATION'', 25)) (\<lambda>_.
      andThen (passStep env oid (''RENDER_RUNTIME'', 40)) (\<lambda>_.
      andThen (attempt (onDb (hydrate env o' (p_ID project) cfg))) (\<lambda>r. case r of
          Inl e \<Rightarrow> failOperation env queued ''RENDER_RUNTIME'' e False
        | Inr h \<Rightarrow> composeUp env project queued cfg h))))))))"

definition Run :: "environment \<Rightarrow> orchestrator \<Rightarrow> Project \<Rightarrow> Operation \<Rightarrow> (world, outcome) act" where
  "Run env o' project queued =
     (if \<not> orch_Configs o' then ret (Some queued, Some orchestratorUnavailable)
      else andThen (attempt (onDb (GetConfiguration (p_ID project)))) (\<lambda>r. case r of
          Inl e \<Rightarrow> ret (Some queued, Some e)
        | Inr snapshot \<Rightarrow> deferring (andThen (ignoreErr (releaseLease (p_ID project))) (\<lambda>_. release (p_ID project)))
            (orQueued queued (applyCanonical env o' project queued snapshot))))"

end
