(* ===== verification/OrchestratorRuns.thy ===== *)
theory OrchestratorRuns
  imports Orchestrator
begin

text \<open>
  What a run of the configuration worker guarantees. \<open>stands oid q s F G\<close> is the assertion the proofs
  carry: operation \<open>oid\<close> of project \<open>q\<close> has status \<open>s\<close>, \<open>F\<close> holds of the database without the operation tables
  and \<open>G\<close> of the log of requests. Every call of the operation service has one rule for it.
\<close>

definition stands :: "string \<Rightarrow> string \<Rightarrow> OperationStatus \<Rightarrow> (database \<Rightarrow> bool) \<Rightarrow> (ProvisionerCall list \<Rightarrow> bool) \<Rightarrow> world \<Rightarrow> bool" where
  "stands oid q s F G w \<longleftrightarrow> opAt (w_DB w) oid q s \<and> F (rest (w_DB w)) \<and> G (w_Sent w)"

definition sameLog :: "world \<Rightarrow> world \<Rightarrow> bool" where
  "sameLog w w' \<longleftrightarrow> w_Sent w' = w_Sent w"

interpretation sameLog: monitor sameLog
  by unfold_locales (auto simp: sameLog_def)

lemma sameLog_ask [obeys_intros]: "obeys sameLog (ask f)"
  by (simp add: obeys_def sameLog_def)

lemma sameLog_onDb [obeys_intros]: "obeys sameLog (onDb m)"
  by (auto simp: obeys_def sameLog_def onDb_run)

lemma sameLog_opCall [obeys_intros]: "obeys sameLog (opCall env f)"
  unfolding opCall_def currentTime_def by (intro obeys_intros)

lemma triple_log:
  assumes "triple P m Q E" and "obeys sameLog m"
  shows "triple (\<lambda>w. P w \<and> G (w_Sent w)) m (\<lambda>x w. Q x w \<and> G (w_Sent w)) (\<lambda>e w. E e w \<and> G (w_Sent w))"
  by (rule tripleI) (auto dest: triple_InlD [OF assms(1)] triple_InrD [OF assms(1)] obeysD [OF assms(2)] simp: sameLog_def)

lemma stands_call:
  assumes "\<And>now. transition (c now) = Some (oid, s, s')" and "\<And>now. perform (c now) = f now"
  shows "triple (stands oid q s F G) (opCall env f) (\<lambda>_. stands oid q s' F G) (\<lambda>_ _. False)"
  by (rule triple_conseq [OF triple_log [OF opCall_at [OF assms, where F = F and pid = q] sameLog_opCall, of G]]) (auto simp: stands_def)

lemmas stands_Start = stands_call [where c = "\<lambda>now. CallStart now oid" for oid, OF transition.simps(2) perform.simps(2)]
lemmas stands_StartStep = stands_call [where c = "\<lambda>now. CallStartStep now oid step progress" for oid step progress,
  OF transition.simps(3) perform.simps(3)]
lemmas stands_CompleteStep = stands_call [where c = "\<lambda>now. CallCompleteStep now oid step progress" for oid step progress,
  OF transition.simps(4) perform.simps(4)]
lemmas stands_Fail = stands_call [where c = "\<lambda>now. CallFail now oid step cause" for oid step cause,
  OF transition.simps(5) perform.simps(5)]
lemmas stands_BeginRollback = stands_call [where c = "\<lambda>now. CallBeginRollback now oid" for oid,
  OF transition.simps(6) perform.simps(6)]
lemmas stands_CompleteRollback = stands_call [where c = "\<lambda>now. CallCompleteRollback now oid" for oid,
  OF transition.simps(7) perform.simps(7)]
lemmas stands_Succeed = stands_call [where c = "\<lambda>now. CallSucceed now oid" for oid,
  OF transition.simps(8) perform.simps(8)]

lemma then_call: "triple P m (\<lambda>_. R) (\<lambda>_ _. False) \<Longrightarrow> (\<And>x. triple R (k x) Q E) \<Longrightarrow> triple P (andThen m k) Q E"
  by (rule triple_andThen, erule triple_total)

lemma then_branch:
  assumes "triple P m R S" and "\<And>x. triple (R x) (k (Inr x)) Q E" and "\<And>e. triple (S e) (k (Inl e)) Q E"
  shows "triple P (andThen (attempt m) k) Q E"
proof (rule triple_andThen)
  show "triple P (attempt m) (\<lambda>r. case r of Inl e \<Rightarrow> S e | Inr x \<Rightarrow> R x) E"
    by (rule triple_attempt) (use assms(1) in simp)
  show "triple (case r of Inl e \<Rightarrow> S e | Inr x \<Rightarrow> R x) (k r) Q E" for r
    using assms(2,3) by (cases r) simp_all
qed

lemma then_begin:
  "(\<And>x. triple (stands oid q OperationRunning F G) (k x) Q E) \<Longrightarrow>
     triple (stands oid q OperationRunning F G) (andThen (beginStep env oid step progress) k) Q E"
  unfolding beginStep_def by (rule then_call [OF stands_StartStep])

lemma then_end:
  "(\<And>x. triple (stands oid q OperationRunning F G) (k x) Q E) \<Longrightarrow>
     triple (stands oid q OperationRunning F G) (andThen (endStep env oid step progress) k) Q E"
  unfolding endStep_def by (rule then_call [OF stands_CompleteStep])

lemma then_pass:
  assumes "\<And>x. triple (stands oid q OperationRunning F G) (k x) Q E"
  shows "triple (stands oid q OperationRunning F G) (andThen (passStep env oid step) k) Q E"
proof (rule then_call)
  show "triple (stands oid q OperationRunning F G) (passStep env oid step) (\<lambda>_. stands oid q OperationRunning F G) (\<lambda>_ _. False)"
    unfolding passStep_def by (rule then_begin) (unfold endStep_def, rule stands_CompleteStep)
qed (rule assms)

lemma then_start:
  assumes "op_Status queued = OperationQueued \<or> op_Status queued = OperationRunning" and "op_ID queued = oid"
    and "\<And>x. triple (stands oid q OperationRunning F G) (k x) Q E"
  shows "triple (stands oid q (op_Status queued) F G) (andThen (startRunnable env queued message) k) Q E"
proof (cases "op_Status queued = OperationQueued")
  case True
  then show ?thesis
    using then_call [OF stands_Start assms(3)] assms(2) by (simp add: startRunnable_def)
next
  case False
  then show ?thesis
    using assms(1,3) by (simp add: startRunnable_def triple_def andThen_def)
qed

text \<open>Reads and questions leave the assertion alone.\<close>

lemma stands_quiet:
  assumes "obeys sameDb m" and "obeys sameLog m"
  shows "triple (stands oid q s F G) m (\<lambda>_. stands oid q s F G) (\<lambda>_. stands oid q s F G)"
  by (rule tripleI) (use obeysD [OF assms(1)] obeysD [OF assms(2)] in \<open>auto simp: stands_def sameDb_def sameLog_def\<close>)

lemma then_quiet:
  assumes "obeys sameDb m" and "obeys sameLog m" and "\<And>r. triple (stands oid q s F G) (k r) Q E"
  shows "triple (stands oid q s F G) (andThen (attempt m) k) Q E"
  by (rule triple_andThen [OF triple_attempt [OF stands_quiet [OF assms(1,2)]]]) (rule assms(3))

lemma then_time:
  "(\<And>x. triple (stands oid q s F G) (k x) Q E) \<Longrightarrow> triple (stands oid q s F G) (andThen (currentTime env) k) Q E"
  by (simp add: triple_def andThen_def currentTime_def) (simp add: stands_def)

text \<open>Store calls that leave the status of every operation alone.\<close>

lemma quiet_opAt: "quiet d d' \<Longrightarrow> opAt d' oid q s = opAt d oid q s"
  using quiet_operation [of d d' oid] by (auto simp: opAt_def split: option.splits)

lemma stands_onDb:
  assumes "obeys quiet m"
  shows "triple (stands oid q s (\<lambda>_. True) G) (onDb m) (\<lambda>_. stands oid q s (\<lambda>_. True) G) (\<lambda>_. stands oid q s (\<lambda>_. True) G)"
  by (rule tripleI) (auto simp: onDb_eq stands_def dest: obeysD [OF assms, THEN quiet_opAt])

lemma stands_store:
  assumes "\<And>now. obeys quiet (f now)"
  shows "triple (stands oid q s (\<lambda>_. True) G) (opCall env f) (\<lambda>_. stands oid q s (\<lambda>_. True) G) (\<lambda>_. stands oid q s (\<lambda>_. True) G)"
  unfolding opCall_def by (rule then_time) (rule stands_onDb [OF assms])

lemma triple_same: "triple P m (\<lambda>_. P) (\<lambda>_. P) \<Longrightarrow> (\<And>r. triple P (k r) Q E) \<Longrightarrow> triple P (andThen (attempt m) k) Q E"
  by (rule then_branch)

lemma ignored_same: "triple P m (\<lambda>_. P) (\<lambda>_. P) \<Longrightarrow> triple P (k ()) Q E \<Longrightarrow> triple P (andThen (ignoreErr m) k) Q E"
  by (rule triple_andThen [OF triple_ignoreErr]) simp_all

lemma then_same:
  "triple P m (\<lambda>_. P) (\<lambda>_. P) \<Longrightarrow> (\<And>x. triple P (k x) Q E) \<Longrightarrow> (\<And>e w. P w \<Longrightarrow> E e w) \<Longrightarrow> triple P (andThen m k) Q E"
  by (rule triple_andThen [where R = "\<lambda>_. P"]) (erule triple_conseq, auto)

abbreviation going :: "string \<Rightarrow> string \<Rightarrow> (ProvisionerCall list \<Rightarrow> bool) \<Rightarrow> world \<Rightarrow> bool" where
  "going oid q G \<equiv> stands oid q OperationRunning (\<lambda>_. True) G"

lemma going_weaken: "going oid q G w \<Longrightarrow> going oid q (\<lambda>_. True) w"
  by (simp add: stands_def)

lemma going_request:
  assumes "obeys sameDb m"
  shows "triple (going oid q G) m (\<lambda>_. going oid q (\<lambda>_. True)) (\<lambda>_. going oid q (\<lambda>_. True))"
  by (rule tripleI) (use obeysD [OF assms] in \<open>auto simp: stands_def sameDb_def\<close>)

lemma triple_case_prod:
  "(\<And>a b. r = (a, b) \<Longrightarrow> triple P (f a b) Q E) \<Longrightarrow> triple P (case r of (a, b) \<Rightarrow> f a b) Q E"
  by (cases r) auto

lemma failOperation_ends:
  assumes "op_ID queued = oid"
  shows "triple (stands oid q OperationRunning F G) (failOperation env queued step cause rollback)
    (\<lambda>r w. snd r = Some cause \<and> stands oid q (if rollback then OperationRolledBack else OperationFailed) F G w) (\<lambda>_ _. False)"
proof -
  have latest: "triple (stands oid q s F G) (andThen (latestOperation oid) (\<lambda>latest. ret (latest, Some cause)))
      (\<lambda>r w. snd r = Some cause \<and> stands oid q s F G w) (\<lambda>_ _. False)" for s
  proof (rule triple_andThen)
    show "triple (stands oid q s F G) (latestOperation oid) (\<lambda>_. stands oid q s F G) (\<lambda>_ _. False)"
      by (rule triple_conseq [OF triple_log [OF latestOperation_at [where oid = oid and pid = q and s = s and F = F], of G]])
        (auto simp: stands_def latestOperation_def intro!: obeys_intros)
  qed (rule triple_ret, simp)
  have rolled: "triple (stands oid q OperationFailed F G)
      (andThen (attempt (opCall env (\<lambda>now. BeginRollback now oid))) (\<lambda>begun. case begun of
           Inl _ \<Rightarrow> ret () | Inr _ \<Rightarrow> ignoreErr (opCall env (\<lambda>now. CompleteRollback now oid))))
      (\<lambda>_. stands oid q OperationRolledBack F G) (\<lambda>_ _. False)"
    by (rule after_attempt [OF stands_BeginRollback], simp, rule ignoreErr_total [OF stands_CompleteRollback])
  show ?thesis
    unfolding failOperation_def Let_def assms
    by (rule after_ignoreErr [OF stands_Fail])
      (cases rollback; simp; auto intro!: triple_andThen [OF rolled] latest)
qed

lemma finishOperation_ends:
  "triple (stands oid q OperationRunning F G) (finishOperation env oid)
     (\<lambda>r w. snd r = None \<and> (\<exists>op. fst r = Some op \<and> op_Status op = OperationSucceeded) \<and> stands oid q OperationSucceeded F G w) (\<lambda>_ _. False)"
  unfolding finishOperation_def
proof (rule then_call [OF stands_Succeed])
  have "triple (stands oid q OperationSucceeded F G) (onDb (GetOperation oid))
      (\<lambda>op w. op_Status op = OperationSucceeded \<and> stands oid q OperationSucceeded F G w) (\<lambda>_ _. False)"
    by (rule triple_conseq [OF triple_log [OF GetOperation_at [where oid = oid and pid = q and s = OperationSucceeded and F = F]
          sameLog_onDb, of G]]) (auto simp: stands_def)
  from attempt_total [OF this]
  show "triple (stands oid q OperationSucceeded F G) (andThen (attempt (onDb (GetOperation oid))) (\<lambda>got. case got of
       Inl e \<Rightarrow> ret (None, Some e) | Inr op \<Rightarrow> ret (Some op, None)))
     (\<lambda>r w. snd r = None \<and> (\<exists>op. fst r = Some op \<and> op_Status op = OperationSucceeded) \<and> stands oid q OperationSucceeded F G w) (\<lambda>_ _. False)"
    by (rule triple_andThen) (auto intro!: triple_case_sum triple_ret)
qed

section \<open>The canonical run\<close>

text \<open>The revision of the project is its last good one and no reservation of it is left.\<close>

definition appliedRevision :: "string \<Rightarrow> database \<Rightarrow> bool" where
  "appliedRevision pid d \<longleftrightarrow>
     (\<exists>p. find (\<lambda>p. p_ID p = pid) (projects d) = Some p \<and> pr_LastGoodRevision p = p_ConfigurationRevision p) \<and>
     (\<forall>r\<in>set (reservations d). rv_Project r \<noteq> pid)"

lemma appliedRevision_frame [simp]:
  "appliedRevision pid (rest d) = appliedRevision pid d"
  "appliedRevision pid (d\<lparr>leases := t\<rparr>) = appliedRevision pid d"
  by (simp_all add: appliedRevision_def)

lemma commit_applies:
  "triple (stands oid q OperationRunning (\<lambda>_. True) G) (opCall env (\<lambda>wall. CommitCanonicalConfiguration wall pid now))
     (\<lambda>_. stands oid q OperationRunning (appliedRevision pid) G) (\<lambda>_. stands oid q OperationRunning (\<lambda>_. True) G)"
proof -
  have "triple (\<lambda>d. opAt d oid q s) (CommitCanonicalConfiguration wall pid now)
      (\<lambda>_ d. opAt d oid q s \<and> appliedRevision pid d) (\<lambda>_ d. opAt d oid q s)" for wall s
  proof (rule tripleI)
    fix d x d' assume at: "opAt d oid q s" and run: "CommitCanonicalConfiguration wall pid now d = (Inr x, d')"
    from run have found: "hasProject d pid" and d': "projects d' = updateWhere (\<lambda>p. p_ID p = pid)
        (\<lambda>p. p\<lparr>pr_LastGoodRevision := p_ConfigurationRevision p, p_UpdatedAt := if now = zeroTime then wall else now\<rparr>) (projects d)"
      "reservations d' = deleteWhere (\<lambda>r. rv_Project r = pid) (reservations d)" "operations d' = operations d"
      by (auto simp: CommitCanonicalConfiguration_def Let_def andThen_eq_Inr deleteAllReservations_def split: if_splits)
    from found obtain p where p: "find (\<lambda>p. p_ID p = pid) (projects d) = Some p"
      by (cases "find (\<lambda>p. p_ID p = pid) (projects d)") (auto simp: find_None_iff projectIds_def)
    with d' at find_SomeD [OF p] show "opAt d' oid q s \<and> appliedRevision pid d'"
      by (auto simp: appliedRevision_def find_updateWhere set_deleteWhere opAt_def)
  qed (auto simp: CommitCanonicalConfiguration_def Let_def)
  then have committed: "triple (\<lambda>w. opAt (w_DB w) oid q s) (onDb (CommitCanonicalConfiguration wall pid now))
      (\<lambda>_ w. opAt (w_DB w) oid q s \<and> appliedRevision pid (w_DB w)) (\<lambda>_ w. opAt (w_DB w) oid q s)" for wall s
    by (rule triple_onDb)
  show ?thesis
    unfolding opCall_def
    by (rule then_time) (rule triple_conseq [OF triple_log [OF committed sameLog_onDb, where G = G]], auto simp: stands_def)
qed

text \<open>What has become of the operation when the worker returns.\<close>

definition runEnds :: "environment \<Rightarrow> Project \<Rightarrow> Operation \<Rightarrow> ProjectConfiguration \<Rightarrow> string \<Rightarrow> ProvisionerCall list \<Rightarrow> outcome \<Rightarrow> world \<Rightarrow> bool" where
  "runEnds env project queued cfg q sent r w \<longleftrightarrow> (case snd r of
      None \<Rightarrow> (\<exists>op. fst r = Some op \<and> op_Status op = OperationSucceeded) \<and> opAt (w_DB w) (op_ID queued) q OperationSucceeded \<and>
        appliedRevision (p_ID project) (w_DB w) \<and>
        (\<exists>request result n. w_Sent w = sent @ [SentReconcile request] \<and> rr_OperationID request = op_ID queued \<and>
          rr_ProjectID request = p_ID project \<and> cfg_Services (rr_Configuration request) = cfg_Services cfg \<and>
          e_Reconcile env n request = Inr result \<and> verifiedResult project queued cfg result)
    | Some e \<Rightarrow> opAt (w_DB w) (op_ID queued) q (if reconcileRollback e then OperationRolledBack else OperationFailed) \<or>
        opAt (w_DB w) (op_ID queued) q OperationFailed)"

lemma failed_ends:
  assumes "rollback \<longrightarrow> reconcileRollback e"
  shows "triple (stands (op_ID queued) q OperationRunning F G) (failOperation env queued step e rollback)
    (runEnds env project queued cfg q sent) (\<lambda>_ _. False)"
  by (rule triple_conseq [OF failOperation_ends [OF refl]]) (use assms in \<open>auto simp: stands_def runEnds_def split: if_splits\<close>)

lemma commitVerified_ends:
  assumes "e_Reconcile env n request = Inr result" and "rr_OperationID request = op_ID queued" "rr_ProjectID request = p_ID project"
    "cfg_Services (rr_Configuration request) = cfg_Services cfg"
  shows "triple (stands (op_ID queued) q OperationRunning (\<lambda>_. True) (\<lambda>l. l = sent @ [SentReconcile request]))
    (commitVerified env project queued cfg result) (runEnds env project queued cfg q sent) (\<lambda>_ _. False)"
  unfolding commitVerified_def Let_def
proof (intro then_end then_begin triple_if then_time)
  assume verified: "\<not> \<not> verifiedResult project queued cfg result"
  let ?G = "\<lambda>l. l = sent @ [SentReconcile request]"
  have finished: "triple (stands (op_ID queued) q OperationRunning (appliedRevision (p_ID project)) ?G) (finishOperation env (op_ID queued))
      (runEnds env project queued cfg q sent) (\<lambda>_ _. False)"
    by (rule triple_conseq [OF finishOperation_ends [where F = "appliedRevision (p_ID project)" and G = ?G]]) (use assms verified in \<open>auto simp: stands_def runEnds_def intro!: exI [of _ request] exI [of _ n]\<close>)
  show "triple (stands (op_ID queued) q OperationRunning (\<lambda>_. True) ?G)
      (andThen (attempt (opCall env (\<lambda>wall. CommitCanonicalConfiguration wall (p_ID project) now))) (\<lambda>committed. case committed of
          Inl e \<Rightarrow> failOperation env queued ''VERIFY_SERVICES'' e False
        | Inr _ \<Rightarrow> finishOperation env (op_ID queued))) (runEnds env project queued cfg q sent) (\<lambda>_ _. False)" for now
    by (rule then_branch [OF commit_applies]) (simp_all add: failed_ends finished)
qed (simp add: failed_ends)

lemma stands_Reconcile:
  "triple (stands oid q s F (\<lambda>l. l = sent)) (Reconcile env request)
     (\<lambda>result w. (\<exists>n. e_Reconcile env n request = Inr result) \<and> stands oid q s F (\<lambda>l. l = sent @ [SentReconcile request]) w)
     (\<lambda>_. stands oid q s F (\<lambda>l. l = sent @ [SentReconcile request]))"
  by (rule tripleI) (auto simp: Reconcile_def andThen_def orFail_def stands_def split: sum.splits)

lemma stands_withAPIPort:
  "triple (stands oid q s F G) (withAPIPort pid request)
     (\<lambda>request' w. rr_OperationID request' = rr_OperationID request \<and> rr_ProjectID request' = rr_ProjectID request \<and>
        cfg_Services (rr_Configuration request') = cfg_Services (rr_Configuration request) \<and> stands oid q s F G w) (\<lambda>_ _. False)"
proof -
  have "obeys sameDb (onDb (ReservedPort pid kind))" for kind
    by (auto simp: obeys_def sameDb_def onDb_run ReservedPort_def split: option.splits)
  then have "triple (stands oid q s F G) (reservedAPIPort pid) (\<lambda>_. stands oid q s F G) (\<lambda>_ _. False)"
    unfolding reservedAPIPort_def by (rule then_quiet) (auto intro!: obeys_intros triple_case_sum triple_ret)
  then show ?thesis
    unfolding withAPIPort_def Let_def
    by (intro triple_if) (auto intro!: triple_ret triple_andThen [where R = "\<lambda>_. stands oid q s F G"])
qed

lemma composeUp_ends:
  "triple (stands (op_ID queued) q OperationRunning (\<lambda>_. True) (\<lambda>l. l = sent)) (composeUp env project queued cfg h)
     (runEnds env project queued cfg q sent) (\<lambda>_ _. False)"
  unfolding composeUp_def
proof (rule then_begin, rule triple_andThen [OF stands_withAPIPort])
  fix request :: ReconcileProjectRequest
  let ?base = "canonicalRequest project queued cfg h"
  let ?same = "rr_OperationID request = rr_OperationID ?base \<and> rr_ProjectID request = rr_ProjectID ?base \<and>
    cfg_Services (rr_Configuration request) = cfg_Services (rr_Configuration ?base)"
  let ?stands = "\<lambda>G. stands (op_ID queued) q OperationRunning (\<lambda>_. True) G"
  have committed: "triple (\<lambda>w. (\<exists>n. e_Reconcile env n request = Inr result) \<and> ?stands (\<lambda>l. l = sent @ [SentReconcile request]) w)
      (commitVerified env project queued cfg result) (runEnds env project queued cfg q sent) (\<lambda>_ _. False)" if ?same for result
    by (cases "\<exists>n. e_Reconcile env n request = Inr result")
      (use that in \<open>auto simp: canonicalRequest_def intro: commitVerified_ends\<close>)
  have "triple (?stands (\<lambda>l. l = sent)) (andThen (attempt (Reconcile env request)) (\<lambda>answer. case answer of
         Inl e \<Rightarrow> failOperation env queued ''COMPOSE_UP'' e (reconcileRollback e)
       | Inr result \<Rightarrow> commitVerified env project queued cfg result)) (runEnds env project queued cfg q sent) (\<lambda>_ _. False)" if ?same
    by (rule then_branch [OF stands_Reconcile]) (simp_all add: failed_ends committed [OF that])
  then show "triple (\<lambda>w. rr_OperationID request = rr_OperationID ?base \<and> rr_ProjectID request = rr_ProjectID ?base \<and>
      cfg_Services (rr_Configuration request) = cfg_Services (rr_Configuration ?base) \<and> ?stands (\<lambda>l. l = sent) w)
     (andThen (attempt (Reconcile env request)) (\<lambda>answer. case answer of
         Inl e \<Rightarrow> failOperation env queued ''COMPOSE_UP'' e (reconcileRollback e)
       | Inr result \<Rightarrow> commitVerified env project queued cfg result)) (runEnds env project queued cfg q sent) (\<lambda>_ _. False)"
    by (cases ?same) auto
qed

text \<open>Reads of the database.\<close>

definition frozen :: "database \<Rightarrow> database \<Rightarrow> bool" where
  "frozen d d' \<longleftrightarrow> d' = d"

interpretation frozen: monitor frozen
  by unfold_locales (auto simp: frozen_def)

lemma frozen_reads [obeys_intros]: "obeys frozen (GetSecret pid kind)" "obeys frozen (ReservedPort pid kind)"
  "obeys frozen (GetOperationCompensation oid)" "obeys frozen (GetConfiguration pid)" "obeys frozen (GetDesiredConfiguration pid)"
  "obeys frozen (OwnsConfigurationLease pid owner fence now)" "obeys frozen (GetSecretAtRevision pid revision kind)"
  by (auto simp: obeys_def frozen_def GetSecret_def ReservedPort_def GetOperationCompensation_def GetConfiguration_def
      GetDesiredConfiguration_def OwnsConfigurationLease_def validateConfigurationOwner_def GetSecretAtRevision_def
      andThen_def split: option.splits)

lemma frozen_hydrateKinds [obeys_intros]: "obeys frozen (hydrateKinds env pid kinds seen h)"
proof (induction kinds arbitrary: seen h)
  case (Cons kind kinds)
  show ?case unfolding hydrateKinds.simps by (intro obeys_intros Cons.IH)
qed (simp only: hydrateKinds.simps frozen.obeys_ret)

lemma sameDb_frozen: "obeys frozen m \<Longrightarrow> obeys sameDb (onDb m)"
  by (auto simp: obeys_def frozen_def sameDb_def onDb_run)

lemma sameDb_hydrate: "obeys sameDb (onDb (hydrate env o' pid cfg))"
  unfolding hydrate_def by (intro sameDb_frozen obeys_intros)

lemma applyCanonical_ends:
  assumes "op_Status queued = OperationQueued \<or> op_Status queued = OperationRunning" and "orch_Provisioner o'"
  shows "triple (stands (op_ID queued) q (op_Status queued) (\<lambda>_. True) (\<lambda>l. l = sent)) (applyCanonical env o' project queued snapshot)
     (runEnds env project queued (sharedCommands (snap_Configuration snapshot)) q sent) (\<lambda>_ _. False)"
proof -
  have available: "andThen (failIf (\<not> orch_Provisioner o') e) k = k ()" for e and k :: "unit \<Rightarrow> (world, outcome) act"
    using assms(2) by (auto simp: andThen_def failIf_def)
  show ?thesis
    unfolding applyCanonical_def Let_def available
    by (intro then_start [OF assms(1) refl] then_begin triple_case_option then_end then_pass
        then_quiet [OF sameDb_hydrate sameLog_onDb] triple_case_sum) (simp_all add: failed_ends composeUp_ends)
qed

text \<open>The deferred calls keep what the run has achieved and leave neither lock nor lease in memory.\<close>

lemma triple_deferring:
  assumes "triple P m Q (\<lambda>_ _. False)" and "\<And>x. triple (Q x) d (\<lambda>_. R x) (\<lambda>_. R x)"
  shows "triple P (deferring d m) R (\<lambda>_ _. False)"
proof (rule tripleI)
  show "R x t" if "P s" "deferring d m s = (Inr x, t)" for s x t
  proof -
    from that(2) obtain u where "m s = (Inr x, u)" "t = snd (d u)" by (auto simp: deferring_run prod_eq_iff)
    moreover from this that(1) have "Q x u" by (auto dest: triple_InrD [OF assms(1)])
    ultimately show ?thesis
      using triple_InlD [OF assms(2)] triple_InrD [OF assms(2)] by (cases "d u"; cases "fst (d u)") auto
  qed
  show False if "P s" "deferring d m s = (Inl e, t)" for s e t
    using that triple_InlD [OF assms(1)] by (cases "m s") (auto simp: deferring_run)
qed

lemma map_of_mapDelete_same [simp]: "map_of (mapDelete k m) k = None"
  by simp

lemma releases:
  "triple (runEnds env project queued cfg q sent r)
     (andThen (ignoreErr (releaseLease pid)) (\<lambda>_. release pid))
     (\<lambda>_ w. runEnds env project queued cfg q sent r w \<and> pid \<notin> set (w_Locks w) \<and> map_of (w_Leases w) pid = None)
     (\<lambda>_ _. False)"
proof (rule then_call)
  have "opAt (d\<lparr>leases := t\<rparr>) oid q s = opAt d oid q s" for d t oid q s by (simp add: opAt_def)
  then have frame: "runEnds env project queued cfg q sent r (w\<lparr>w_Leases := l, w_DB := (w_DB w)\<lparr>leases := t\<rparr>\<rparr>) =
      runEnds env project queued cfg q sent r w" "runEnds env project queued cfg q sent r (w\<lparr>w_Leases := l\<rparr>) =
      runEnds env project queued cfg q sent r w" "runEnds env project queued cfg q sent r (w\<lparr>w_Locks := l'\<rparr>) =
      runEnds env project queued cfg q sent r w" for w l l' t
    by (simp_all add: runEnds_def split: option.splits)
  show "triple (runEnds env project queued cfg q sent r) (ignoreErr (releaseLease pid))
      (\<lambda>_ w. runEnds env project queued cfg q sent r w \<and> map_of (w_Leases w) pid = None) (\<lambda>_ _. False)"
    by (rule tripleI) (auto simp: ignoreErr_run releaseLease_def andThen_def onDb_run ReleaseConfigurationLeaseOwned_def
        validateConfigurationOwner_def frame split: option.splits)
  show "triple (\<lambda>w. runEnds env project queued cfg q sent r w \<and> map_of (w_Leases w) pid = None) (release pid)
      (\<lambda>_ w. runEnds env project queued cfg q sent r w \<and> pid \<notin> set (w_Locks w) \<and> map_of (w_Leases w) pid = None) (\<lambda>_ _. False)" for x :: unit
    by (rule tripleI) (auto simp: release_def frame)
qed


text \<open>A queued update of the stored project, and an orchestrator with every collaborator.\<close>

definition fullOrchestrator :: orchestrator where
  "fullOrchestrator = \<lparr>orch_Configs = True, orch_Operations = True, orch_ConfigCipher = True,
     orch_Allocator = Some \<lparr>al_Min = 20000, al_Max = 20010\<rparr>, orch_Provisioner = True, orch_Cipher = True,
     orch_CanRotate = True, orch_CanRollback = True, orch_CanConfirm = True\<rparr>"

definition updateRow :: OperationRow where
  "updateRow = \<lparr>o_ID = ''op-1'', o_ProjectID = Some ''bee'', o_Type = OperationUpdateConfig, o_Status = OperationQueued,
     o_CurrentStep = [], o_Progress = 0, o_ErrorCode = [], o_ErrorMessage = [], o_StartedAt = None, o_FinishedAt = None,
     o_CreatedAt = 0, o_CompensationPhase = [], o_CompensationKey = []\<rparr>"

definition updateOperation :: Operation where
  "updateOperation = \<lparr>op_ID = ''op-1'', op_ProjectID = ''bee'', op_Type = OperationUpdateConfig, op_Status = OperationQueued,
     op_CurrentStep = [], op_Progress = 0, op_ErrorCode = [], op_ErrorMessage = [], op_StartedAt = None, op_FinishedAt = None,
     op_CreatedAt = 0\<rparr>"

definition updateWorld :: world where
  "updateWorld = (newWorld (storedBee\<lparr>operations := [updateRow]\<rparr>))\<lparr>w_Locks := [''bee'']\<rparr>"


text \<open>
  (C28) A run that cannot read the configuration of its project returns before it defers the release: the
  error is returned, the operation keeps its status, and the in-memory lock and lease of the project
  stay as they are, so that later changes of the project are refused as busy.
\<close>

theorem unreadable_run_keeps_lock:
  assumes "orch_Configs o'" and "orch_Operations o'" and "p_ID project \<in> set (w_Locks w)"
    and "fst (GetConfiguration (p_ID project) (w_DB w)) = Inl e"
  shows "Orchestrator.Run env o' project queued w = (Inr (Some queued, Some e), w) \<and>
    QueuePatch env o' (p_ID project) patch w = (Inl (Sentinel ErrConfigurationBusy), w)"
proof -
  have "GetConfiguration (p_ID project) (w_DB w) = (Inl e, w_DB w)"
    using assms(4) obeysD [OF frozen_reads(4), of "p_ID project" "w_DB w"] by (cases "GetConfiguration (p_ID project) (w_DB w)") (auto simp: frozen_def)
  then have "Orchestrator.Run env o' project queued w = (Inr (Some queued, Some e), w)"
    using assms(1) by (simp add: Orchestrator.Run_def andThen_def attempt_def onDb_def)
  moreover have "QueuePatch env o' (p_ID project) patch w = (Inl (Sentinel ErrConfigurationBusy), w)"
    using assms(1-3) by (simp add: QueuePatch_def andThen_def tryAcquire_def)
  ultimately show ?thesis ..
qed

theorem unreadable_run_keeps_lock_witness:
  "QueuePatch sampleEnvironment fullOrchestrator ''bee'' mailPatch
     (snd (Orchestrator.Run sampleEnvironment fullOrchestrator (sampleProject ''bee'' ''shop'') updateOperation
       ((newWorld emptyDatabase)\<lparr>w_Locks := [''bee'']\<rparr>))) =
   (Inl (Sentinel ErrConfigurationBusy), (newWorld emptyDatabase)\<lparr>w_Locks := [''bee'']\<rparr>)"
proof -
  have "fst (GetConfiguration ''bee'' emptyDatabase) = Inl (Sentinel ErrNotFound)"
    by (simp add: GetConfiguration_def GetDesiredConfiguration_def emptyDatabase_def)
  then show ?thesis
    using unreadable_run_keeps_lock [of fullOrchestrator "sampleProject ''bee'' ''shop''" "(newWorld emptyDatabase)\<lparr>w_Locks := [''bee'']\<rparr>"
        "Sentinel ErrNotFound" sampleEnvironment updateOperation mailPatch]
    by (simp add: fullOrchestrator_def sampleProject_def newWorld_def)
qed

end
