(* ===== verification/Rotation.thy ===== *)
theory Rotation
  imports OrchestratorRuns
begin

text \<open>
  \<^verbatim>\<open>configuration/orchestrator.go\<close>, continued: the revisioned run, the rotation of the database password
  with its compensation, and the resumption of interrupted operations. The six steps of the rotation
  loop are written out in order. A step that ends the worker early returns its outcome as \<open>Inl\<close>.
  \<open>Resume\<close> starts one goroutine per operation, each for a different project because it holds the
  lock; the model runs them one after the other.
\<close>

section \<open>Shared steps\<close>

text \<open>A call with \<^verbatim>\<open>workCtx\<close>, which is cancelled when the lease could not be renewed.\<close>

definition underWork :: "environment \<Rightarrow> (world, 'a) act \<Rightarrow> (world, 'a) act" where
  "underWork env m = andThen (ask (e_Lost env)) (\<lambda>lost. if lost then throw (ErrorsNew ''context canceled'') else m)"

definition restoreConfigurationState :: "environment \<Rightarrow> string \<Rightarrow> string \<Rightarrow> ConfigurationSnapshot \<Rightarrow> (world, unit) act" where
  "restoreConfigurationState env pid owner snapshot = opCall env (\<lambda>now.
     RestoreConfigurationStateOwned now pid (snap_Revision snapshot) owner (snap_Fence snapshot))"

definition compensationOf :: "string \<Rightarrow> (world, string \<times> string) act" where
  "compensationOf oid = andThen (attempt (onDb (GetOperationCompensation oid))) (\<lambda>r. case r of
     Inl e \<Rightarrow> ret ([], []) | Inr c \<Rightarrow> ret c)"

definition alreadyPublished :: "string \<Rightarrow> int \<Rightarrow> (world, bool) act" where
  "alreadyPublished pid revision = andThen (attempt (onDb (GetConfiguration pid))) (\<lambda>r. case r of
     Inl e \<Rightarrow> ret False | Inr published \<Rightarrow> ret (snap_LastGoodRevision published \<ge> revision))"

definition leaseLost :: goerr where
  "leaseLost = ErrorsNew ''configuration lease lost''"

definition ownsLease :: "environment \<Rightarrow> string \<Rightarrow> string \<Rightarrow> int \<Rightarrow> (world, bool) act" where
  "ownsLease env pid owner fence =
     (if fence > 0 then andThen (currentTime env) (\<lambda>now.
        andThen (attempt (underWork env (onDb (OwnsConfigurationLease pid owner fence now)))) (\<lambda>r. ret (r = Inr True)))
      else ret True)"

definition failRejectedRuntimeRevision ::
  "environment \<Rightarrow> Operation \<Rightarrow> string \<Rightarrow> string \<Rightarrow> ConfigurationSnapshot \<Rightarrow> goerr \<Rightarrow> (world, outcome) act" where
  "failRejectedRuntimeRevision env queued step pid snapshot e =
     (let message = (if errorsIs e ErrStaleConfigRevision then ''runtime configuration revision conflict''
                     else ''runtime configuration revision is invalid'') in
      andThen (attempt (restoreConfigurationState env pid (op_ID queued) snapshot)) (\<lambda>r. case r of
          Inl restoreErr \<Rightarrow> failOperation env queued step (Errorf (message @ '': '') e
            (''; candidate configuration could not be restored: '' @ errText restoreErr)) False
        | Inr _ \<Rightarrow> failOperation env queued step (Errorf (message @ '': '') e ''; candidate configuration restored'') False))"

text \<open>An error of the Provisioner: rejected, of unknown outcome, or known to have failed.\<close>

definition runtimeFailed ::
  "environment \<Rightarrow> Operation \<Rightarrow> string \<Rightarrow> string \<Rightarrow> ConfigurationSnapshot \<Rightarrow> goerr \<Rightarrow> (world, outcome) act" where
  "runtimeFailed env queued step pid snapshot e =
     (if isRejectedRuntimeRevision e then failRejectedRuntimeRevision env queued step pid snapshot e
      else if \<not> runtimeOutcomeKnown e then throw e
      else andThen (if shouldRestoreConfiguration e
             then andThen (attempt (restoreConfigurationState env pid (op_ID queued) snapshot)) (\<lambda>r.
               case r of Inl _ \<Rightarrow> ret False | Inr _ \<Rightarrow> ret (reconcileRollback e))
             else ret (reconcileRollback e)) (\<lambda>rolledBack.
           failOperation env queued step e rolledBack))"

definition withWorker :: "string \<Rightarrow> Operation \<Rightarrow> int \<Rightarrow> (world, outcome) act \<Rightarrow> (world, outcome) act" where
  "withWorker pid queued fence m =
     deferring (andThen (ignoreErr (releaseLeaseToken pid (op_ID queued) fence)) (\<lambda>_. release pid)) (orQueued queued m)"

section \<open>The revisioned run\<close>

definition legacyRequest :: "Project \<Rightarrow> Operation \<Rightarrow> ConfigurationSnapshot \<Rightarrow> ProjectConfiguration \<Rightarrow> hydrated \<Rightarrow> ReconcileProjectRequest" where
  "legacyRequest project queued snapshot cfg h = (canonicalRequest project queued cfg h)\<lparr>
     rr_ExpectedRevision := snap_Revision snapshot - 1, rr_NextRevision := snap_Revision snapshot, rr_Fence := snap_Fence snapshot\<rparr>"

definition legacyPublish :: "environment \<Rightarrow> Project \<Rightarrow> Operation \<Rightarrow> ConfigurationSnapshot \<Rightarrow> ProjectConfiguration \<Rightarrow>
    ReconcileProjectResponse \<Rightarrow> (world, outcome) act" where
  "legacyPublish env project queued snapshot cfg result =
     (let oid = op_ID queued; pid = p_ID project; revision = snap_Revision snapshot; step = ''MARK_CONFIGURATION_GOOD'' in
      andThen (endStep env oid ''RECONCILE_SERVICES'' 70) (\<lambda>_.
      andThen (beginStep env oid ''VERIFY_SERVICES'' 85) (\<lambda>_.
      if \<not> verifiedResult project queued cfg result \<or> rs_Revision result \<noteq> revision
      then failOperation env queued ''VERIFY_SERVICES'' (runtimeVerificationError result oid pid revision cfg) False
      else andThen (endStep env oid ''VERIFY_SERVICES'' 85) (\<lambda>_.
      andThen (beginStep env oid step 95) (\<lambda>_.
      andThen (ownsLease env pid oid (snap_Fence snapshot)) (\<lambda>owned.
      if \<not> owned then failOperation env queued step leaseLost False
      else andThen (attempt (opCall env (\<lambda>now. MarkConfigurationGoodOwned now pid revision oid (snap_Fence snapshot) ''COMMITTED''))) (\<lambda>r.
      case r of
          Inl e \<Rightarrow> failOperation env queued step e False
        | Inr _ \<Rightarrow> andThen (endStep env oid step 95) (\<lambda>_. finishOperation env oid))))))))"

definition legacyReconcile :: "environment \<Rightarrow> orchestrator \<Rightarrow> Project \<Rightarrow> Operation \<Rightarrow> ConfigurationSnapshot \<Rightarrow> ProjectConfiguration \<Rightarrow>
    (world, outcome) act" where
  "legacyReconcile env o' project queued snapshot cfg =
     (let oid = op_ID queued; pid = p_ID project;
          abandon = (\<lambda>e. andThen (ignoreErr (restoreConfigurationState env pid oid snapshot)) (\<lambda>_.
            failOperation env queued ''RENDER_RUNTIME'' e False)) in
      andThen (ask (e_Lost env)) (\<lambda>lost.
      if lost then abandon leaseLost
      else andThen (attempt (underWork env (onDb (hydrate env o' pid cfg)))) (\<lambda>r. case r of
          Inl e \<Rightarrow> abandon e
        | Inr h \<Rightarrow>
      andThen (withAPIPort pid (legacyRequest project queued snapshot cfg h)) (\<lambda>request.
      andThen (beginStep env oid ''RECONCILE_SERVICES'' 70) (\<lambda>_.
      andThen (attempt (Reconcile env request)) (\<lambda>answer. case answer of
          Inl e \<Rightarrow> runtimeFailed env queued ''RECONCILE_SERVICES'' pid snapshot e
        | Inr result \<Rightarrow> legacyPublish env project queued snapshot cfg result))))))"

definition legacySteps :: "environment \<Rightarrow> orchestrator \<Rightarrow> Project \<Rightarrow> Operation \<Rightarrow> ConfigurationSnapshot \<Rightarrow> (world, outcome) act" where
  "legacySteps env o' project queued snapshot =
     (let oid = op_ID queued; pid = p_ID project in
      andThen (failIf (\<not> orch_Provisioner o') (ErrorsNew ''configuration provisioner is unavailable'')) (\<lambda>_.
      andThen (startRunnable env queued ''configuration operation is not runnable'') (\<lambda>_.
      andThen (compensationOf oid) (\<lambda>(phase, key).
      andThen (if phase = ''COMMITTED'' then alreadyPublished pid (snap_Revision snapshot) else ret False) (\<lambda>published.
      if published then finishOperation env oid
      else if phase = ''STATE_RESTORED''
        then failOperation env queued (op_CurrentStep queued) (ErrorsNew ''configuration candidate restored'') True
      else andThen (beginStep env oid ''VALIDATE_CONFIGURATION'' 10) (\<lambda>_.
      case ValidateStoredConfiguration (snap_Configuration snapshot) of
          Some e \<Rightarrow> andThen (ignoreErr (restoreConfigurationState env pid oid snapshot)) (\<lambda>_.
            failOperation env queued ''VALIDATE_CONFIGURATION'' e False)
        | None \<Rightarrow>
      andThen (endStep env oid ''VALIDATE_CONFIGURATION'' 10) (\<lambda>_.
      andThen (passStep env oid (''SAVE_CONFIGURATION'', 20)) (\<lambda>_.
      andThen (passStep env oid (''RENDER_RUNTIME'', 30)) (\<lambda>_.
      legacyReconcile env o' project queued snapshot (sharedCommands (snap_Configuration snapshot)))))))))))"

definition runLegacy :: "environment \<Rightarrow> orchestrator \<Rightarrow> Project \<Rightarrow> Operation \<Rightarrow> ConfigurationSnapshot \<Rightarrow> (world, outcome) act" where
  "runLegacy env o' project queued snapshot =
     withWorker (p_ID project) queued (snap_Fence snapshot) (legacySteps env o' project queued snapshot)"

section \<open>Rotation of the database password\<close>

definition decryptAt :: "environment \<Rightarrow> string \<Rightarrow> int \<Rightarrow> (database, string) act" where
  "decryptAt env pid revision = andThen (GetSecretAtRevision pid revision ''database-password'') (\<lambda>envelope.
     case e_Decrypt env pid ''database-password'' envelope of Inl e \<Rightarrow> throw e | Inr plain \<Rightarrow> ret plain)"

definition rotationOldPassword :: "environment \<Rightarrow> string \<Rightarrow> int \<Rightarrow> (database, string) act" where
  "rotationOldPassword env pid revision = decryptAt env pid revision"

definition rotationRequest :: "string \<Rightarrow> string \<Rightarrow> Project \<Rightarrow> Operation \<Rightarrow> ConfigurationSnapshot \<Rightarrow> string \<Rightarrow> string \<Rightarrow>
    ProjectConfiguration \<Rightarrow> hydrated \<Rightarrow> RotateDatabasePasswordRequest" where
  "rotationRequest kind key project queued snapshot oldPassword newPassword cfg h = \<lparr>rot_OperationKind = kind,
     rot_OperationID = op_ID queued, rot_IdempotencyKey = key, rot_ProjectID = p_ID project, rot_ProjectName = p_Name project,
     rot_Slug = p_Slug project, rot_ExpectedRevision = snap_Revision snapshot - 1, rot_NextRevision = snap_Revision snapshot,
     rot_OldPassword = oldPassword, rot_NewPassword = newPassword, rot_Configuration = cfg, rot_Secrets = fst h,
     rot_RuntimeSecrets = snd h, rot_Fence = snap_Fence snapshot\<rparr>"

definition rotationRequestForRecovery :: "environment \<Rightarrow> orchestrator \<Rightarrow> Project \<Rightarrow> Operation \<Rightarrow> ConfigurationSnapshot \<Rightarrow>
    string \<Rightarrow> string \<Rightarrow> (database, RotateDatabasePasswordRequest) act" where
  "rotationRequestForRecovery env o' project queued snapshot oldPassword newPassword =
     andThen (hydrate env o' (p_ID project) (snap_Configuration snapshot)) (\<lambda>h.
     ret (rotationRequest [] [] project queued snapshot oldPassword newPassword (snap_Configuration snapshot) h))"

definition rollbackKey :: "Operation \<Rightarrow> string" where
  "rollbackKey queued = op_ID queued @ '':rollback''"

text \<open>The request that undoes a rotation: the passwords change places.\<close>

definition rollbackRequest :: "string \<Rightarrow> RotateDatabasePasswordRequest \<Rightarrow> RotateDatabasePasswordRequest" where
  "rollbackRequest key request = request\<lparr>rot_OperationKind := ''ROLLBACK_DATABASE_PASSWORD'', rot_IdempotencyKey := key,
     rot_OldPassword := rot_NewPassword request, rot_NewPassword := rot_OldPassword request\<rparr>"

definition compensated :: goerr where
  "compensated = ErrorsNew ''database password rotation compensated''"

definition compensateRotation :: "environment \<Rightarrow> orchestrator \<Rightarrow> Project \<Rightarrow> Operation \<Rightarrow> ConfigurationSnapshot \<Rightarrow>
    RotateDatabasePasswordRequest \<Rightarrow> (world, bool) act" where
  "compensateRotation env o' project queued snapshot request =
     (if \<not> orch_CanRollback o' then ret False
      else andThen (onDb (SetOperationCompensation (op_ID queued) ''ROLLBACK_PENDING'' (rollbackKey queued))) (\<lambda>_.
        andThen (RollbackDatabasePassword env (rollbackRequest (rollbackKey queued) request)) (\<lambda>_.
        andThen (onDb (SetOperationCompensation (op_ID queued) ''ROLLBACK_CONFIRMED'' (rollbackKey queued))) (\<lambda>_.
        andThen (attempt (restoreConfigurationState env (p_ID project) (op_ID queued) snapshot)) (\<lambda>r.
        case r of Inl e \<Rightarrow> ret False | Inr _ \<Rightarrow> ret True)))))"

definition publishRotation :: "environment \<Rightarrow> orchestrator \<Rightarrow> Project \<Rightarrow> Operation \<Rightarrow> ConfigurationSnapshot \<Rightarrow> string \<Rightarrow>
    RotateDatabasePasswordRequest \<Rightarrow> (world, outcome + unit) act" where
  "publishRotation env o' project queued snapshot newPassword request =
     (let oid = op_ID queued; pid = p_ID project; revision = snap_Revision snapshot;
          undo = (\<lambda>e. andThen (compensateRotation env o' project queued snapshot request) (\<lambda>rollback.
            andThen (failOperation env queued ''MARK_CONFIGURATION_GOOD'' e rollback) (\<lambda>out. ret (Inl out)))) in
      andThen (attempt (Encrypt env pid ''database-password'' newPassword)) (\<lambda>r. case r of
          Inl e \<Rightarrow> undo (ErrorsNew ''database password rotation failed'')
        | Inr envelope \<Rightarrow>
      andThen (attempt (opCall env (\<lambda>now. PublishConfigurationSecret pid revision ''database-password'' envelope))) (\<lambda>r. case r of
          Inl e \<Rightarrow> undo e
        | Inr _ \<Rightarrow>
      andThen (if orch_CanConfirm o'
          then attempt (ConfirmDatabasePasswordRotation env \<lparr>crot_OperationID = oid, crot_IdempotencyKey = oid @ '':confirm'',
            crot_ProjectID = pid, crot_Slug = p_Slug project, crot_ExpectedRevision = revision - 1, crot_NextRevision = revision,
            crot_Fence = snap_Fence snapshot\<rparr>)
          else ret (Inr ())) (\<lambda>r. case r of
          Inl e \<Rightarrow> undo (ErrorsNew ''database password rotation confirmation failed'')
        | Inr _ \<Rightarrow>
      andThen (attempt (opCall env (\<lambda>now. MarkConfigurationGoodOwned now pid revision oid (snap_Fence snapshot) ''COMMITTED''))) (\<lambda>r. case r of
          Inl e \<Rightarrow> undo (ErrorsNew ''configuration publication failed'')
        | Inr _ \<Rightarrow> ret (Inr ()))))))"

definition rotateRuntime :: "environment \<Rightarrow> orchestrator \<Rightarrow> Project \<Rightarrow> Operation \<Rightarrow> ConfigurationSnapshot \<Rightarrow> ProjectConfiguration \<Rightarrow>
    string \<Rightarrow> (world, outcome + RotateDatabasePasswordRequest) act" where
  "rotateRuntime env o' project queued snapshot cfg newPassword =
     (let oid = op_ID queued; pid = p_ID project; revision = snap_Revision snapshot;
          stop = (\<lambda>e. andThen (failOperation env queued ''RECONCILE_SERVICES'' e False) (\<lambda>out. ret (Inl out))) in
      andThen (ownsLease env pid oid (snap_Fence snapshot)) (\<lambda>owned.
      if \<not> owned then stop leaseLost
      else andThen (attempt (underWork env (onDb (hydrate env o' pid cfg)))) (\<lambda>r. case r of
          Inl e \<Rightarrow> stop (Errorf ''database password rotation preparation failed: '' e [])
        | Inr (secrets, runtimeSecrets) \<Rightarrow>
      if \<not> orch_CanRotate o' then stop (ErrorsNew ''database password rotation unavailable'')
      else andThen (attempt (underWork env (onDb (decryptAt env pid (revision - 1))))) (\<lambda>old.
      let oldPassword = (case old of Inl e \<Rightarrow> ps_DatabasePassword secrets | Inr plain \<Rightarrow> plain) in
      andThen (if net_APIPort (cfg_Network cfg) = 0 then reservedAPIPort pid else ret (net_APIPort (cfg_Network cfg))) (\<lambda>port.
      let request = rotationRequest ''ROTATE_DATABASE_PASSWORD'' (oid @ '':rotate'') project queued snapshot oldPassword newPassword
            (cfg\<lparr>cfg_Network := (cfg_Network cfg)\<lparr>net_APIPort := port\<rparr>\<rparr>) (secrets\<lparr>ps_DatabasePassword := newPassword\<rparr>, runtimeSecrets) in
      andThen (attempt (RotateDatabasePassword env request)) (\<lambda>answer. case answer of
          Inl e \<Rightarrow> andThen (runtimeFailed env queued ''RECONCILE_SERVICES'' pid snapshot e) (\<lambda>out. ret (Inl out))
        | Inr result \<Rightarrow>
      if rotr_OperationID result \<noteq> oid \<or> rotr_ProjectID result \<noteq> pid \<or> rotr_Revision result \<noteq> revision
      then stop (ErrorsNew ''runtime verification failed'')
      else andThen (onDb (SetOperationCompensation oid ''RUNTIME_COMMITTED'' (rollbackKey queued))) (\<lambda>_.
        ret (Inr request))))))))"

definition rotationSteps :: "environment \<Rightarrow> orchestrator \<Rightarrow> Project \<Rightarrow> Operation \<Rightarrow> ConfigurationSnapshot \<Rightarrow> string \<Rightarrow> (world, outcome) act" where
  "rotationSteps env o' project queued snapshot newPassword =
     (let oid = op_ID queued; pid = p_ID project in
      andThen (beginStep env oid ''VALIDATE_CONFIGURATION'' 15) (\<lambda>_.
      andThen (ask (e_Lost env)) (\<lambda>lost.
      if lost then andThen (ignoreErr (restoreConfigurationState env pid oid snapshot)) (\<lambda>_.
        failOperation env queued ''VALIDATE_CONFIGURATION'' leaseLost False)
      else case ValidateStoredConfiguration (snap_Configuration snapshot) of
          Some e \<Rightarrow> failOperation env queued ''VALIDATE_CONFIGURATION'' e False
        | None \<Rightarrow>
      andThen (endStep env oid ''VALIDATE_CONFIGURATION'' 15) (\<lambda>_.
      andThen (passStep env oid (''SAVE_CONFIGURATION'', 30)) (\<lambda>_.
      andThen (passStep env oid (''RENDER_RUNTIME'', 45)) (\<lambda>_.
      andThen (beginStep env oid ''RECONCILE_SERVICES'' 60) (\<lambda>_.
      andThen (rotateRuntime env o' project queued snapshot (sharedCommands (snap_Configuration snapshot)) newPassword) (\<lambda>r. case r of
          Inl out \<Rightarrow> ret out
        | Inr request \<Rightarrow>
      andThen (endStep env oid ''RECONCILE_SERVICES'' 60) (\<lambda>_.
      andThen (passStep env oid (''VERIFY_SERVICES'', 75)) (\<lambda>_.
      andThen (beginStep env oid ''MARK_CONFIGURATION_GOOD'' 90) (\<lambda>_.
      andThen (publishRotation env o' project queued snapshot newPassword request) (\<lambda>r. case r of
          Inl out \<Rightarrow> ret out
        | Inr _ \<Rightarrow>
      andThen (endStep env oid ''MARK_CONFIGURATION_GOOD'' 90) (\<lambda>_.
      finishOperation env oid)))))))))))))"

text \<open>A rollback that an earlier worker began is completed before anything else.\<close>

definition resumeRollback :: "environment \<Rightarrow> orchestrator \<Rightarrow> Project \<Rightarrow> Operation \<Rightarrow> ConfigurationSnapshot \<Rightarrow> string \<Rightarrow> string \<Rightarrow>
    (world, outcome option) act" where
  "resumeRollback env o' project queued snapshot newPassword storedKey =
     (let oid = op_ID queued; pid = p_ID project; key = orDefault storedKey (rollbackKey queued) in
      andThen (attempt (onDb (rotationOldPassword env pid (snap_Revision snapshot - 1)))) (\<lambda>r. case r of
          Inl e \<Rightarrow> ret None
        | Inr old \<Rightarrow>
      andThen (attempt (onDb (rotationRequestForRecovery env o' project queued snapshot old newPassword))) (\<lambda>r. case r of
          Inl e \<Rightarrow> ret None
        | Inr request \<Rightarrow>
      if \<not> orch_CanRollback o' then ret None
      else andThen (RollbackDatabasePassword env (rollbackRequest key request)) (\<lambda>_.
      andThen (onDb (SetOperationCompensation oid ''ROLLBACK_CONFIRMED'' key)) (\<lambda>_.
      andThen (restoreConfigurationState env pid oid snapshot) (\<lambda>_.
      andThen (failOperation env queued (op_CurrentStep queued) compensated True) (\<lambda>out. ret (Some out))))))))"

definition confirmedRollback :: "environment \<Rightarrow> Project \<Rightarrow> Operation \<Rightarrow> ConfigurationSnapshot \<Rightarrow> (world, outcome) act" where
  "confirmedRollback env project queued snapshot =
     andThen (attempt (restoreConfigurationState env (p_ID project) (op_ID queued) snapshot)) (\<lambda>r. case r of
         Inr _ \<Rightarrow> failOperation env queued (op_CurrentStep queued) compensated True
       | Inl e \<Rightarrow> andThen (attempt (onDb (GetConfiguration (p_ID project)))) (\<lambda>read.
           if (case read of Inl _ \<Rightarrow> False | Inr published \<Rightarrow> snap_LastGoodRevision published < snap_Revision snapshot)
           then throw e else failOperation env queued (op_CurrentStep queued) compensated True))"

definition rotationWork :: "environment \<Rightarrow> orchestrator \<Rightarrow> Project \<Rightarrow> Operation \<Rightarrow> ConfigurationSnapshot \<Rightarrow> string \<Rightarrow> (world, outcome) act" where
  "rotationWork env o' project queued snapshot newPassword =
     (let oid = op_ID queued; pid = p_ID project; marking = (op_CurrentStep queued = ''MARK_CONFIGURATION_GOOD'') in
      andThen (startRunnable env queued ''rotation operation is not runnable'') (\<lambda>_.
      andThen (compensationOf oid) (\<lambda>(phase, key).
      andThen (if phase = ''COMMITTED'' then alreadyPublished pid (snap_Revision snapshot) else ret False) (\<lambda>committed.
      if committed then finishOperation env oid
      else if phase = ''STATE_RESTORED'' then failOperation env queued (op_CurrentStep queued) compensated True
      else if marking \<and> phase = ''ROLLBACK_CONFIRMED'' then confirmedRollback env project queued snapshot
      else andThen (if marking \<and> (phase = ''ROLLBACK_PENDING'' \<or> phase = ''RUNTIME_COMMITTED'')
             then resumeRollback env o' project queued snapshot newPassword key else ret None) (\<lambda>resumed. case resumed of
          Some out \<Rightarrow> ret out
        | None \<Rightarrow>
      andThen (alreadyPublished pid (snap_Revision snapshot)) (\<lambda>published.
      if published then finishOperation env oid
      else rotationSteps env o' project queued snapshot newPassword))))))"

definition RunDatabasePasswordRotation ::
  "environment \<Rightarrow> orchestrator \<Rightarrow> Project \<Rightarrow> Operation \<Rightarrow> ConfigurationSnapshot \<Rightarrow> string \<Rightarrow> (world, outcome) act" where
  "RunDatabasePasswordRotation env o' project queued snapshot newPassword =
     withWorker (p_ID project) queued (snap_Fence snapshot) (rotationWork env o' project queued snapshot newPassword)"

section \<open>Resuming after a restart\<close>

definition abandonOperation :: "environment \<Rightarrow> Operation \<Rightarrow> string \<Rightarrow> (world, unit) act" where
  "abandonOperation env queued message =
     andThen (if op_Status queued = OperationQueued then ignoreErr (opCall env (\<lambda>now. Start now (op_ID queued))) else ret ()) (\<lambda>_.
     ignoreErr (opCall env (\<lambda>now. Fail now (op_ID queued) ''RESUME'' (ErrorsNew message))))"

definition resumeCommand :: "environment \<Rightarrow> orchestrator \<Rightarrow> Project \<Rightarrow> Operation \<Rightarrow> ConfigurationSnapshot \<Rightarrow> string \<Rightarrow> (world, unit) act" where
  "resumeCommand env o' project queued snapshot kind =
     (if kind = ''ROTATE_DATABASE_PASSWORD'' then
        (if \<not> orch_Cipher o' then abandonOperation env queued ''rotation command payload is invalid''
         else andThen (attempt (onDb (GetOperationSecret (op_ID queued) ''database-password''))) (\<lambda>r. case r of
             Inl e \<Rightarrow> abandonOperation env queued ''rotation command payload is unavailable''
           | Inr envelope \<Rightarrow> (case e_Decrypt env (p_ID project) ''operation.database-password'' envelope of
               Inl e \<Rightarrow> abandonOperation env queued ''rotation command payload is invalid''
             | Inr plain \<Rightarrow> ignoreErr (RunDatabasePasswordRotation env o' project queued snapshot plain))))
      else if kind = ''UPDATE_CONFIG'' then ignoreErr (Orchestrator.Run env o' project queued)
      else abandonOperation env queued ''unsupported operation command'')"

definition resumeOperation :: "environment \<Rightarrow> orchestrator \<Rightarrow> Operation \<Rightarrow> (world, unit) act" where
  "resumeOperation env o' queued =
     (let oid = op_ID queued; pid = op_ProjectID queued in
      andThen (attempt (onDb (GetProject pid))) (\<lambda>r. case r of
          Inl e \<Rightarrow> abandonOperation env queued ''Server unavailable during operation resume''
        | Inr project \<Rightarrow>
      andThen (attempt (onDb (GetOperationConfiguration oid))) (\<lambda>r. case r of
          Inl e \<Rightarrow> abandonOperation env queued ''configuration unavailable during operation resume''
        | Inr snapshot \<Rightarrow>
      andThen (attempt (onDb (GetOperationKind oid))) (\<lambda>r. case r of
          Inl e \<Rightarrow> abandonOperation env queued ''operation command is unavailable''
        | Inr kind \<Rightarrow>
      andThen (tryAcquire pid) (\<lambda>held.
      if \<not> held then ret ()
      else andThen (currentTime env) (\<lambda>now.
      andThen (attempt (onDb (AcquireConfigurationLeaseForOperation pid oid oid now (45 * minute)))) (\<lambda>r. case r of
          Inl e \<Rightarrow> release pid
        | Inr None \<Rightarrow> release pid
        | Inr (Some lease) \<Rightarrow>
      andThen (rememberLease pid lease) (\<lambda>_.
      deferring (andThen (ignoreErr (releaseLeaseToken (p_ID project) oid (lease_Fence lease))) (\<lambda>_. release (p_ID project)))
        (resumeCommand env o' project queued (snapshot\<lparr>snap_Fence := lease_Fence lease\<rparr>) kind)))))))))"

definition Resume :: "environment \<Rightarrow> orchestrator \<Rightarrow> (world, unit) act" where
  "Resume env o' = andThen (onDb (ListActiveOperations OperationUpdateConfig)) (\<lambda>active. forEach active (resumeOperation env o'))"

end
