(* ===== verification/RotationRuns.thy ===== *)
theory RotationRuns
  imports Rotation
begin

text \<open>
  What a rotation of the database password guarantees, whatever the Provisioner answers: it ends, it
  reports success only for a published revision, and a rollback only when there is evidence of one; a
  request whose outcome is unknown leaves everything as it was for the next attempt.
\<close>

section \<open>Store calls inside a run\<close>

lemma quiet_PublishConfigurationSecret: "obeys quiet (PublishConfigurationSecret pid revision kind envelope)"
  unfolding PublishConfigurationSecret_def by (intro obeys_intros quiet_currentRevision quiet_upsertSecret)

lemma stands_restore:
  "triple (stands oid q s (\<lambda>_. True) G) (restoreConfigurationState env pid owner snapshot)
     (\<lambda>_. stands oid q s (\<lambda>_. True) G) (\<lambda>_. stands oid q s (\<lambda>_. True) G)"
  unfolding restoreConfigurationState_def by (rule stands_store) (rule quiet_RestoreConfigurationStateOwned)

text \<open>Reads and questions.\<close>

lemma sameLog_underWork [obeys_intros]: "obeys sameLog m \<Longrightarrow> obeys sameLog (underWork env m)"
  unfolding underWork_def by (intro obeys_intros)

lemma sameDb_underWork [obeys_intros]: "obeys sameDb m \<Longrightarrow> obeys sameDb (underWork env m)"
  unfolding underWork_def by (intro obeys_intros)

lemma frozen_decryptAt [obeys_intros]: "obeys frozen (decryptAt env pid revision)"
  unfolding decryptAt_def by (intro obeys_intros)

lemma frozen_hydrate [obeys_intros]: "obeys frozen (hydrate env o' pid cfg)"
  unfolding hydrate_def by (intro obeys_intros)

lemma quiet_reads [obeys_intros]:
  "obeys sameDb (compensationOf oid)" "obeys sameLog (compensationOf oid)"
  "obeys sameDb (alreadyPublished pid revision)" "obeys sameLog (alreadyPublished pid revision)"
  "obeys sameDb (ownsLease env pid owner fence)" "obeys sameLog (ownsLease env pid owner fence)"
  "obeys sameDb (reservedAPIPort pid)" "obeys sameLog (reservedAPIPort pid)"
  unfolding compensationOf_def alreadyPublished_def ownsLease_def currentTime_def reservedAPIPort_def
  by (intro obeys_intros sameDb_frozen)+

lemma then_read:
  assumes "obeys sameDb m" and "obeys sameLog m" and "\<And>s. \<exists>x t. m s = (Inr x, t)"
    and "\<And>x. triple (stands oid q s F G) (k x) Q E"
  shows "triple (stands oid q s F G) (andThen m k) Q E"
proof (rule then_call)
  show "triple (stands oid q s F G) m (\<lambda>_. stands oid q s F G) (\<lambda>_ _. False)"
    by (rule tripleI) (use assms(3) triple_InrD [OF stands_quiet [OF assms(1,2)]] in \<open>auto, metis Inl_Inr_False fst_conv\<close>)
qed (rule assms(4))

lemma reads_return:
  "\<exists>x t. compensationOf oid s = (Inr x, t)" "\<exists>x t. alreadyPublished pid revision s = (Inr x, t)"
  "\<exists>x t. ownsLease env pid owner fence s = (Inr x, t)" "\<exists>x t. reservedAPIPort pid s = (Inr x, t)"
  "\<exists>x t. ask f s = (Inr x, t)"
  by (auto simp: compensationOf_def alreadyPublished_def ownsLease_def reservedAPIPort_def currentTime_def andThen_def attempt_def
      split: prod.splits sum.splits)

lemmas read_rules = then_read [OF quiet_reads(1,2) reads_return(1)] then_read [OF quiet_reads(3,4) reads_return(2)]
  then_read [OF quiet_reads(5,6) reads_return(3)] then_read [OF quiet_reads(7,8) reads_return(4)]
  then_read [OF sameDb_ask sameLog_ask reads_return(5)]

section \<open>Published revisions\<close>

definition publishedAt :: "string \<Rightarrow> int \<Rightarrow> database \<Rightarrow> bool" where
  "publishedAt pid revision d \<longleftrightarrow>
     (case find (\<lambda>p. p_ID p = pid) (projects d) of None \<Rightarrow> False | Some p \<Rightarrow> revision \<le> pr_LastGoodRevision p)"

lemma publishedAt_frame [simp]: "publishedAt pid revision (rest d) = publishedAt pid revision d"
  by (simp add: publishedAt_def)

text \<open>Statements that keep the last good revision of every project.\<close>

definition keepsGood :: "database \<Rightarrow> database \<Rightarrow> bool" where
  "keepsGood d d' \<longleftrightarrow> map (\<lambda>p. (p_ID p, pr_LastGoodRevision p)) (projects d') = map (\<lambda>p. (p_ID p, pr_LastGoodRevision p)) (projects d)"

interpretation good: monitor keepsGood
  by unfold_locales (auto simp: keepsGood_def)

lemma publishedAt_map:
  "publishedAt pid revision d \<longleftrightarrow> (case map_of (map (\<lambda>p. (p_ID p, pr_LastGoodRevision p)) (projects d)) pid of
     None \<Rightarrow> False | Some lastGood \<Rightarrow> revision \<le> lastGood)"
proof -
  have "map_of (map (\<lambda>p. (p_ID p, pr_LastGoodRevision p)) t) pid = map_option pr_LastGoodRevision (find (\<lambda>p. p_ID p = pid) t)"
    for t :: "ProjectRow list"
    by (induction t) auto
  then show ?thesis by (simp add: publishedAt_def split: option.splits)
qed

lemma keepsGood_publishedAt: "keepsGood d d' \<Longrightarrow> publishedAt pid revision d' = publishedAt pid revision d"
  by (simp add: publishedAt_map keepsGood_def)

lemma good_statements [obeys_intros]:
  "obeys keepsGood (upsertCanonical pid cfg)" "obeys keepsGood (deleteServices pid)" "obeys keepsGood (insertService pid service)"
  "obeys keepsGood (ReleasePort pid kind)" "obeys keepsGood (insertPort pid kind port)" "obeys keepsGood (aggregateAt pid revision)"
  "obeys keepsGood (deleteReservations pid revision)" "obeys keepsGood (setCompensationPhase oid phase)"
  by (auto simp: obeys_def keepsGood_def upsertCanonical_def deleteServices_def insertService_def ReleasePort_def insertPort_def
      aggregateAt_def deleteReservations_def setCompensationPhase_def andThen_def split: prod.splits option.splits)

lemma good_updateProjectProjection [obeys_intros]: "obeys keepsGood (updateProjectProjection pid cfg now)"
  by (auto simp: obeys_def keepsGood_def updateProjectProjection_def andThen_def map_updateWhere)

lemma good_projectPort [obeys_intros]: "obeys keepsGood (projectPort pid entry)"
  unfolding projectPort_def by (intro obeys_intros)

lemma good_updateCanonicalProjectionTx [obeys_intros]: "obeys keepsGood (updateCanonicalProjectionTx pid cfg now)"
  unfolding updateCanonicalProjectionTx_def by (intro obeys_intros)

lemma MarkConfigurationGoodOwned_published:
  assumes "MarkConfigurationGoodOwned wall pid revision owner fence phase d = (Inr u, d')"
  shows "publishedAt pid revision d'"
proof -
  let ?tail = "andThen (aggregateAt pid revision) (\<lambda>cfg.
        andThen (updateCanonicalProjectionTx pid cfg wall) (\<lambda>_.
        andThen (deleteReservations pid revision) (\<lambda>_. setCompensationPhase owner phase)))"
  from assms obtain d1 p where "find (\<lambda>p. p_ID p = pid) (projects d1) = Some p"
    and "?tail (d1\<lparr>projects := updateWhere (\<lambda>p. p_ID p = pid) (\<lambda>p. p\<lparr>pr_LastGoodRevision := revision\<rparr>) (projects d1)\<rparr>) = (Inr u, d')"
    by (auto simp: MarkConfigurationGoodOwned_def andThen_eq_Inr requireFence_def projectRevisions_def validateConfigurationOwner_def
        split: if_splits option.splits)
  moreover have "obeys keepsGood ?tail" by (intro obeys_intros)
  from obeysD [OF this \<open>?tail _ = _\<close>] have "publishedAt pid revision d' = publishedAt pid revision
      (d1\<lparr>projects := updateWhere (\<lambda>p. p_ID p = pid) (\<lambda>p. p\<lparr>pr_LastGoodRevision := revision\<rparr>) (projects d1)\<rparr>)"
    by (rule keepsGood_publishedAt)
  ultimately show ?thesis
    using find_SomeD [of "\<lambda>p. p_ID p = pid" "projects d1" p] by (simp add: publishedAt_def find_updateWhere)
qed

section \<open>How a rotation ends\<close>

text \<open>The Provisioner has confirmed a rollback of the password.\<close>

definition rollbackConfirmed :: "environment \<Rightarrow> ProvisionerCall list \<Rightarrow> bool" where
  "rollbackConfirmed env log \<longleftrightarrow> (\<exists>request n. SentRollbackRotation request \<in> set log \<and> e_RollbackRotation env n request = None)"

definition rotationEnds :: "environment \<Rightarrow> string \<Rightarrow> string \<Rightarrow> int \<Rightarrow> string \<Rightarrow> string \<Rightarrow> outcome \<Rightarrow> world \<Rightarrow> bool" where
  "rotationEnds env phase pid revision oid q r w \<longleftrightarrow> (case snd r of
      None \<Rightarrow> opAt (w_DB w) oid q OperationSucceeded \<and> publishedAt pid revision (w_DB w)
    | Some e \<Rightarrow> opAt (w_DB w) oid q OperationFailed \<or> opAt (w_DB w) oid q OperationRunning \<or>
        opAt (w_DB w) oid q OperationRolledBack \<and> (reconcileRollback e \<or> rollbackConfirmed env (w_Sent w) \<or>
          phase = ''STATE_RESTORED'' \<or> phase = ''ROLLBACK_CONFIRMED''))"

lemma fail_rotation:
  assumes "rollback \<Longrightarrow> reconcileRollback e \<or> (\<forall>log. G log \<longrightarrow> rollbackConfirmed env log) \<or> phase = ''STATE_RESTORED'' \<or> phase = ''ROLLBACK_CONFIRMED''"
  shows "triple (going (op_ID queued) q G) (failOperation env queued step e rollback) (rotationEnds env phase pid revision (op_ID queued) q) E"
  by (rule triple_conseq [OF failOperation_ends [OF refl]]) (use assms in \<open>auto simp: stands_def rotationEnds_def split: if_splits\<close>)

lemma finish_rotation:
  "triple (stands oid q OperationRunning (publishedAt pid revision) G) (finishOperation env oid) (rotationEnds env phase pid revision oid q) E"
  by (rule triple_conseq [OF finishOperation_ends [where F = "publishedAt pid revision" and G = G]]) (auto simp: stands_def rotationEnds_def)

lemma going_alreadyPublished:
  "triple (going oid q G) (alreadyPublished pid revision)
     (\<lambda>b. stands oid q OperationRunning (if b then publishedAt pid revision else (\<lambda>_. True)) G) (\<lambda>_ _. False)"
  by (rule tripleI)
    (auto simp: alreadyPublished_def andThen_def attempt_def onDb_run GetConfiguration_def GetDesiredConfiguration_def stands_def
        publishedAt_def rest_def opAt_def split: option.splits prod.splits sum.splits)

lemma going_Mark:
  "triple (going oid q G) (opCall env (\<lambda>now. MarkConfigurationGoodOwned now pid revision owner fence phase))
     (\<lambda>_. stands oid q OperationRunning (publishedAt pid revision) G) (\<lambda>_. going oid q G)"
  unfolding opCall_def
proof (rule then_time)
  fix now
  show "triple (going oid q G) (onDb (MarkConfigurationGoodOwned now pid revision owner fence phase))
      (\<lambda>_. stands oid q OperationRunning (publishedAt pid revision) G) (\<lambda>_. going oid q G)"
    by (rule tripleI) (auto simp: onDb_eq stands_def MarkConfigurationGoodOwned_published
        dest: obeysD [OF quiet_MarkConfigurationGoodOwned, THEN quiet_opAt])
qed

lemma going_Rollback:
  "triple (going oid q G) (RollbackDatabasePassword env request) (\<lambda>_. going oid q (rollbackConfirmed env)) (\<lambda>_. going oid q (\<lambda>_. True))"
  by (rule tripleI) (auto simp: RollbackDatabasePassword_def andThen_def orErr_def stands_def rollbackConfirmed_def split: option.splits)

lemma going_compensation:
  "triple (going oid q G) (onDb (SetOperationCompensation owner phase key)) (\<lambda>_. going oid q G) (\<lambda>_. going oid q G)"
  by (rule stands_onDb) (rule quiet_SetOperationCompensation)

lemma compensateRotation_ends:
  "triple (going oid q (\<lambda>_. True)) (compensateRotation env o' project queued snapshot request)
     (\<lambda>b. going oid q (if b then rollbackConfirmed env else (\<lambda>_. True))) (\<lambda>_. going oid q (\<lambda>_. True))"
  unfolding compensateRotation_def
  by (intro triple_if triple_ret then_same [OF going_compensation] triple_andThen [OF going_Rollback]
      triple_same [OF stands_restore] triple_case_sum) (auto simp: stands_def)

lemma undo_ends:
  "triple (going (op_ID queued) q (\<lambda>_. True)) (andThen (compensateRotation env o' project queued snapshot request) (\<lambda>rollback.
       andThen (failOperation env queued step e rollback) (\<lambda>out. ret (Inl out))))
     (\<lambda>r w. case r of Inl out \<Rightarrow> rotationEnds env phase pid revision (op_ID queued) q out w | Inr x \<Rightarrow> R x w)
     (\<lambda>_. going (op_ID queued) q (\<lambda>_. True))"
  by (rule triple_andThen [OF compensateRotation_ends], rule triple_andThen [OF fail_rotation]) (auto intro!: triple_ret)

lemma going_Encrypt:
  "triple (going oid q G) (Encrypt env pid kind plain) (\<lambda>_. going oid q G) (\<lambda>_. going oid q G)"
  unfolding Encrypt_def by (intro stands_quiet obeys_intros) (auto simp: obeys_def sameLog_def orFail_def split: sum.splits)

lemma publishRotation_ends:
  "triple (going (op_ID queued) q (\<lambda>_. True)) (publishRotation env o' project queued snapshot newPassword request)
     (\<lambda>r. case r of Inl out \<Rightarrow> rotationEnds env phase (p_ID project) (snap_Revision snapshot) (op_ID queued) q out
        | Inr _ \<Rightarrow> stands (op_ID queued) q OperationRunning (publishedAt (p_ID project) (snap_Revision snapshot)) (\<lambda>_. True))
     (\<lambda>_. going (op_ID queued) q (\<lambda>_. True))" (is "triple ?G _ ?Q ?E")
proof -
  let ?oid = "op_ID queued" and ?pid = "p_ID project" and ?revision = "snap_Revision snapshot"
  have undo: "triple ?G (andThen (compensateRotation env o' project queued snapshot request) (\<lambda>rollback.
       andThen (failOperation env queued ''MARK_CONFIGURATION_GOOD'' e rollback) (\<lambda>out. ret (Inl out)))) ?Q ?E" for e
    by (rule triple_conseq [OF undo_ends [where phase = phase and pid = ?pid and revision = ?revision
          and R = "\<lambda>_. stands ?oid q OperationRunning (publishedAt ?pid ?revision) (\<lambda>_. True)"]]) (auto split: sum.splits)
  have marked: "triple ?G (andThen (attempt (opCall env (\<lambda>now. MarkConfigurationGoodOwned now ?pid ?revision ?oid (snap_Fence snapshot) ''COMMITTED''))) (\<lambda>r. case r of
          Inl e \<Rightarrow> andThen (compensateRotation env o' project queued snapshot request) (\<lambda>rollback.
            andThen (failOperation env queued ''MARK_CONFIGURATION_GOOD'' (ErrorsNew ''configuration publication failed'') rollback) (\<lambda>out. ret (Inl out)))
        | Inr _ \<Rightarrow> ret (Inr ()))) ?Q ?E"
    by (rule then_branch [OF going_Mark]) (simp_all add: undo triple_ret)
  have confirmed: "triple ?G (if orch_CanConfirm o' then attempt (ConfirmDatabasePasswordRotation env c) else ret (Inr ())) (\<lambda>_. ?G) ?E" for c
    by (intro triple_if triple_attempt going_request obeys_intros triple_ret)
  show ?thesis
    unfolding publishRotation_def Let_def
    by (intro triple_same [OF going_Encrypt] triple_case_sum triple_same [OF stands_store [OF quiet_PublishConfigurationSecret]]
        triple_andThen [OF confirmed] undo marked)
qed

lemma runtimeFailed_ends:
  "triple (going (op_ID queued) q (\<lambda>_. True)) (runtimeFailed env queued step pid snapshot e)
     (rotationEnds env phase pid' revision (op_ID queued) q) (\<lambda>_. going (op_ID queued) q (\<lambda>_. True))"
proof -
  let ?G = "going (op_ID queued) q (\<lambda>_. True)"
  have restored: "triple ?G (if shouldRestoreConfiguration e
             then andThen (attempt (restoreConfigurationState env pid (op_ID queued) snapshot)) (\<lambda>r.
               case r of Inl _ \<Rightarrow> ret False | Inr _ \<Rightarrow> ret (reconcileRollback e))
             else ret (reconcileRollback e)) (\<lambda>rolledBack w. (rolledBack \<longrightarrow> reconcileRollback e) \<and> ?G w) (\<lambda>_. ?G)"
    by (intro triple_if triple_same [OF stands_restore] triple_case_sum triple_ret) auto
  have failed: "triple (\<lambda>w. (rolledBack \<longrightarrow> reconcileRollback e) \<and> ?G w) (failOperation env queued step e rolledBack)
      (rotationEnds env phase pid' revision (op_ID queued) q) (\<lambda>_. ?G)" for rolledBack
    by (cases "rolledBack \<longrightarrow> reconcileRollback e") (auto intro!: fail_rotation)
  show ?thesis
    unfolding runtimeFailed_def failRejectedRuntimeRevision_def Let_def
    by (intro triple_if triple_same [OF stands_restore] triple_case_sum fail_rotation triple_throw triple_andThen [OF restored] failed) auto
qed

lemma rotateRuntime_ends:
  "triple (going (op_ID queued) q (\<lambda>_. True)) (rotateRuntime env o' project queued snapshot cfg newPassword)
     (\<lambda>r. case r of Inl out \<Rightarrow> rotationEnds env phase pid' revision' (op_ID queued) q out
        | Inr _ \<Rightarrow> going (op_ID queued) q (\<lambda>_. True)) (\<lambda>_. going (op_ID queued) q (\<lambda>_. True))" (is "triple ?G _ ?Q ?E")
proof -
  have stop: "triple ?G (andThen (failOperation env queued step e False) (\<lambda>out. ret (Inl out))) ?Q ?E" for step e
    by (rule triple_andThen [OF fail_rotation [where phase = phase and pid = pid' and revision = revision']]) (auto intro!: triple_ret)
  have failed: "triple ?G (andThen (runtimeFailed env queued step pid snapshot e) (\<lambda>out. ret (Inl out))) ?Q ?E" for step pid e
    by (rule triple_andThen [OF runtimeFailed_ends [where phase = phase and pid' = pid' and revision = revision']]) (auto intro!: triple_ret)
  have port: "triple ?G (if b then reservedAPIPort pid else ret p) (\<lambda>_. ?G) ?E" for b pid p
    by (intro triple_if triple_ret triple_conseq [OF stands_quiet [OF quiet_reads(7,8)]]) auto
  show ?thesis
    unfolding rotateRuntime_def Let_def
    by (intro read_rules triple_if stop triple_same [OF stands_quiet] obeys_intros sameDb_frozen triple_case_sum triple_case_prod
        triple_andThen [OF port] triple_same [OF going_request] failed then_same [OF going_compensation] triple_ret) auto
qed

lemma rotationSteps_ends:
  "triple (going (op_ID queued) q (\<lambda>_. True)) (rotationSteps env o' project queued snapshot newPassword)
     (rotationEnds env phase (p_ID project) (snap_Revision snapshot) (op_ID queued) q) (\<lambda>_. going (op_ID queued) q (\<lambda>_. True))"
    (is "triple ?G _ ?Q ?E")
proof -
  have published: "triple (stands (op_ID queued) q OperationRunning (publishedAt (p_ID project) (snap_Revision snapshot)) (\<lambda>_. True))
      (andThen (endStep env (op_ID queued) ''MARK_CONFIGURATION_GOOD'' 90) (\<lambda>_. finishOperation env (op_ID queued))) ?Q ?E"
    by (rule then_end) (rule finish_rotation)
  have publish: "triple ?G (andThen (publishRotation env o' project queued snapshot newPassword request) (\<lambda>r. case r of
          Inl out \<Rightarrow> ret out
        | Inr _ \<Rightarrow> andThen (endStep env (op_ID queued) ''MARK_CONFIGURATION_GOOD'' 90) (\<lambda>_. finishOperation env (op_ID queued)))) ?Q ?E" for request
    by (rule triple_andThen [OF publishRotation_ends [where phase = phase]], rule triple_case_sum) (auto intro!: triple_ret published)
  have rotate: "triple ?G (andThen (rotateRuntime env o' project queued snapshot cfg newPassword) (\<lambda>r. case r of
          Inl out \<Rightarrow> ret out
        | Inr request \<Rightarrow>
      andThen (endStep env (op_ID queued) ''RECONCILE_SERVICES'' 60) (\<lambda>_.
      andThen (passStep env (op_ID queued) (''VERIFY_SERVICES'', 75)) (\<lambda>_.
      andThen (beginStep env (op_ID queued) ''MARK_CONFIGURATION_GOOD'' 90) (\<lambda>_.
      andThen (publishRotation env o' project queued snapshot newPassword request) (\<lambda>r. case r of
          Inl out \<Rightarrow> ret out
        | Inr _ \<Rightarrow> andThen (endStep env (op_ID queued) ''MARK_CONFIGURATION_GOOD'' 90) (\<lambda>_. finishOperation env (op_ID queued)))))))) ?Q ?E" for cfg
    by (rule triple_andThen [OF rotateRuntime_ends [where phase = phase and pid' = "p_ID project" and revision' = "snap_Revision snapshot"]],
        rule triple_case_sum) (auto intro!: triple_ret then_end then_pass then_begin publish)
  show ?thesis
    unfolding rotationSteps_def Let_def
    by (intro then_begin read_rules triple_if ignored_same [OF stands_restore] fail_rotation triple_case_option then_end then_pass rotate) auto
qed

lemma confirmedRollback_ends:
  assumes "phase = ''ROLLBACK_CONFIRMED''"
  shows "triple (going (op_ID queued) q (\<lambda>_. True)) (confirmedRollback env project queued snapshot)
    (rotationEnds env phase pid revision (op_ID queued) q) (\<lambda>_. going (op_ID queued) q (\<lambda>_. True))"
  unfolding confirmedRollback_def
  by (intro triple_same [OF stands_restore] triple_case_sum triple_same [OF stands_quiet] sameDb_frozen obeys_intros triple_if
      triple_throw fail_rotation) (use assms in auto)

lemma resumeRollback_ends:
  "triple (going (op_ID queued) q (\<lambda>_. True)) (resumeRollback env o' project queued snapshot newPassword key)
     (\<lambda>r. case r of Some out \<Rightarrow> rotationEnds env phase pid revision (op_ID queued) q out | None \<Rightarrow> going (op_ID queued) q (\<lambda>_. True))
     (\<lambda>_. going (op_ID queued) q (\<lambda>_. True))"
proof -
  have "obeys frozen (rotationOldPassword env pid revision)" for pid revision
    unfolding rotationOldPassword_def by (intro obeys_intros)
  moreover have "obeys frozen (rotationRequestForRecovery env o' project queued snapshot old newPassword)" for old
    unfolding rotationRequestForRecovery_def by (intro obeys_intros)
  moreover have "triple (going (op_ID queued) q (rollbackConfirmed env)) (andThen (failOperation env queued step e True) (\<lambda>out. ret (Some out)))
     (\<lambda>r. case r of Some out \<Rightarrow> rotationEnds env phase pid revision (op_ID queued) q out | None \<Rightarrow> going (op_ID queued) q (\<lambda>_. True))
     (\<lambda>_. going (op_ID queued) q (\<lambda>_. True))" for step e
    by (rule triple_andThen [OF fail_rotation [where phase = phase and pid = pid and revision = revision]]) (auto intro!: triple_ret)
  ultimately show ?thesis
    unfolding resumeRollback_def Let_def
    by (intro triple_same [OF stands_quiet] sameDb_frozen sameLog_onDb triple_case_sum triple_if triple_andThen [OF going_Rollback]
        then_same [OF going_compensation] then_same [OF stands_restore] triple_ret) (auto simp: stands_def)
qed

text \<open>The recorded compensation phase survives the start of the operation.\<close>

definition phaseOf :: "database \<Rightarrow> string \<Rightarrow> string" where
  "phaseOf d oid = (case find (\<lambda>r. o_ID r = oid) (operations d) of None \<Rightarrow> [] | Some r \<Rightarrow> o_CompensationPhase r)"

lemma map_of_phase:
  "map_of (map (\<lambda>r. (o_ID r, o_CompensationPhase r)) t) oid = map_option o_CompensationPhase (find (\<lambda>r. o_ID r = oid) t)"
  by (induction t) auto

lemma phaseOf_map:
  "phaseOf d oid = (case map_of (map (\<lambda>r. (o_ID r, o_CompensationPhase r)) (operations d)) oid of None \<Rightarrow> [] | Some p \<Rightarrow> p)"
  unfolding map_of_phase phaseOf_def by (cases "find (\<lambda>r. o_ID r = oid) (operations d)") simp_all

lemma Start_phase: "Start now oid d = (r, d') \<Longrightarrow> phaseOf d' oid' = phaseOf d oid'"
proof -
  have kept: "map (\<lambda>r. (o_ID r, o_CompensationPhase r)) (operations d'') = map (\<lambda>r. (o_ID r, o_CompensationPhase r)) (operations d)"
    if "Start now oid d = (r, d'')" for d''
    using that requireStatus_state [of oid OperationQueued d]
    by (cases "requireStatus oid OperationQueued d"; cases "fst (requireStatus oid OperationQueued d)")
      (auto simp: Start_def update_def UpdateOperation_def appendOperationEvent_def andThen_def inTx_def map_updateWhere applyUpdate_def
        split: prod.splits sum.splits if_splits)
  then show "Start now oid d = (r, d') \<Longrightarrow> phaseOf d' oid' = phaseOf d oid'" by (simp add: phaseOf_map)
qed

lemma then_start_phase:
  assumes "op_Status queued = OperationQueued \<or> op_Status queued = OperationRunning"
    and "\<And>x. triple (\<lambda>w. going (op_ID queued) q G w \<and> phaseOf (w_DB w) oid = phase) (k x) Q E"
  shows "triple (\<lambda>w. stands (op_ID queued) q (op_Status queued) (\<lambda>_. True) G w \<and> phaseOf (w_DB w) oid = phase)
    (andThen (startRunnable env queued message) k) Q E"
proof (rule then_call)
  let ?start = "startRunnable env queued message"
  have "?start w = (r, w') \<Longrightarrow> phaseOf (w_DB w') oid = phaseOf (w_DB w) oid" for w r w'
    by (auto simp: startRunnable_def opCall_def currentTime_def andThen_def onDb_eq split: if_splits dest: Start_phase)
  moreover have "triple (stands (op_ID queued) q (op_Status queued) (\<lambda>_. True) G) (andThen ?start ret)
      (\<lambda>_. going (op_ID queued) q G) (\<lambda>_ _. False)"
    by (rule then_start [OF assms(1) refl]) (simp add: triple_ret)
  moreover have "andThen ?start ret = ?start" by (auto simp: andThen_def fun_eq_iff split: prod.splits sum.splits)
  ultimately show "triple (\<lambda>w. stands (op_ID queued) q (op_Status queued) (\<lambda>_. True) G w \<and> phaseOf (w_DB w) oid = phase) ?start
      (\<lambda>_ w. going (op_ID queued) q G w \<and> phaseOf (w_DB w) oid = phase) (\<lambda>_ _. False)"
    by (intro tripleI) (auto dest: triple_InlD triple_InrD)
qed (rule assms(2))

lemma then_compensation:
  assumes "\<And>key. triple (going oid q G) (k (phase, key)) Q E"
  shows "triple (\<lambda>w. going oid q G w \<and> phaseOf (w_DB w) oid = phase) (andThen (compensationOf oid) k) Q E"
proof (rule triple_andThen)
  show "triple (\<lambda>w. going oid q G w \<and> phaseOf (w_DB w) oid = phase) (compensationOf oid)
      (\<lambda>c w. fst c = phase \<and> going oid q G w) E"
    by (rule tripleI) (auto simp: compensationOf_def andThen_def attempt_def onDb_run GetOperationCompensation_def phaseOf_def stands_def
        split: option.splits)
  show "triple (\<lambda>w. fst c = phase \<and> going oid q G w) (k c) Q E" for c
    using assms by (cases c; cases "fst c = phase") auto
qed

lemma rotationWork_ends:
  assumes "op_Status queued = OperationQueued \<or> op_Status queued = OperationRunning"
  shows "triple (\<lambda>w. stands (op_ID queued) q (op_Status queued) (\<lambda>_. True) (\<lambda>_. True) w \<and> phaseOf (w_DB w) (op_ID queued) = phase)
    (rotationWork env o' project queued snapshot newPassword)
    (rotationEnds env phase (p_ID project) (snap_Revision snapshot) (op_ID queued) q) (\<lambda>_. going (op_ID queued) q (\<lambda>_. True))"
    (is "triple _ _ ?Q ?E")
proof -
  let ?G = "going (op_ID queued) q (\<lambda>_. True)"
  let ?F = "\<lambda>b. stands (op_ID queued) q OperationRunning (if b then publishedAt (p_ID project) (snap_Revision snapshot) else (\<lambda>_. True)) (\<lambda>_. True)"
  have committed: "triple ?G (if c then alreadyPublished (p_ID project) (snap_Revision snapshot) else ret False) ?F ?E" for c
    by (intro triple_if triple_total [OF going_alreadyPublished] triple_ret) simp
  have resumed: "triple ?G (if c then resumeRollback env o' project queued snapshot newPassword key else ret None)
     (\<lambda>r. case r of Some out \<Rightarrow> ?Q out | None \<Rightarrow> ?G) ?E" for c key
    by (intro triple_if resumeRollback_ends triple_ret) simp
  have last: "triple ?G (andThen (alreadyPublished (p_ID project) (snap_Revision snapshot)) (\<lambda>published.
      if published then finishOperation env (op_ID queued) else rotationSteps env o' project queued snapshot newPassword)) ?Q ?E"
    by (rule triple_andThen [OF triple_total [OF going_alreadyPublished]]) (auto intro!: finish_rotation rotationSteps_ends)
  have continued: "triple ?G (andThen (if c then resumeRollback env o' project queued snapshot newPassword key else ret None) (\<lambda>resumed. case resumed of
          Some out \<Rightarrow> ret out
        | None \<Rightarrow> andThen (alreadyPublished (p_ID project) (snap_Revision snapshot)) (\<lambda>published.
            if published then finishOperation env (op_ID queued)
            else rotationSteps env o' project queued snapshot newPassword))) ?Q ?E" for c key
    by (rule triple_andThen [OF resumed], rule triple_case_option) (simp_all add: triple_ret last)
  have rest: "triple ?G (if phase = ''STATE_RESTORED'' then failOperation env queued (op_CurrentStep queued) compensated True
      else if marking \<and> phase = ''ROLLBACK_CONFIRMED'' then confirmedRollback env project queued snapshot
      else andThen (if marking \<and> (phase = ''ROLLBACK_PENDING'' \<or> phase = ''RUNTIME_COMMITTED'')
             then resumeRollback env o' project queued snapshot newPassword key else ret None) (\<lambda>resumed. case resumed of
          Some out \<Rightarrow> ret out
        | None \<Rightarrow> andThen (alreadyPublished (p_ID project) (snap_Revision snapshot)) (\<lambda>published.
            if published then finishOperation env (op_ID queued)
            else rotationSteps env o' project queued snapshot newPassword))) ?Q ?E" for marking key
    by (intro triple_if continued fail_rotation confirmedRollback_ends) simp_all
  have work: "triple (?F committed) (if committed then finishOperation env (op_ID queued) else m) ?Q ?E" if "triple ?G m ?Q ?E" for committed m
    using that by (cases committed) (simp_all add: finish_rotation)
  show ?thesis
    unfolding rotationWork_def Let_def
    by (rule then_start_phase [OF assms], rule then_compensation, simp only: prod.case, rule triple_andThen [OF committed], rule work, rule rest)
qed

section \<open>The worker and its lock\<close>

lemma rotationEnds_frame:
  "rotationEnds env phase pid revision oid q r (w\<lparr>w_Leases := l, w_DB := (w_DB w)\<lparr>leases := t\<rparr>\<rparr>) = rotationEnds env phase pid revision oid q r w"
  "rotationEnds env phase pid revision oid q r (w\<lparr>w_DB := (w_DB w)\<lparr>leases := t\<rparr>\<rparr>) = rotationEnds env phase pid revision oid q r w"
  "rotationEnds env phase pid revision oid q r (w\<lparr>w_Leases := l\<rparr>) = rotationEnds env phase pid revision oid q r w"
  "rotationEnds env phase pid revision oid q r (w\<lparr>w_Locks := l'\<rparr>) = rotationEnds env phase pid revision oid q r w"
  by (simp_all add: rotationEnds_def opAt_def publishedAt_def split: option.splits)

lemma releasesToken:
  "triple (rotationEnds env phase pid revision oid q r)
     (andThen (ignoreErr (releaseLeaseToken project owner fence)) (\<lambda>_. release project))
     (\<lambda>_ w. rotationEnds env phase pid revision oid q r w \<and> project \<notin> set (w_Locks w)) (\<lambda>_ _. False)"
proof (rule then_call)
  show "triple (rotationEnds env phase pid revision oid q r) (ignoreErr (releaseLeaseToken project owner fence))
      (\<lambda>_. rotationEnds env phase pid revision oid q r) (\<lambda>_ _. False)"
    by (rule tripleI) (auto simp: ignoreErr_run releaseLeaseToken_def andThen_def onDb_run ReleaseConfigurationLeaseOwned_def
        validateConfigurationOwner_def rotationEnds_frame split: option.splits if_splits)
  show "triple (rotationEnds env phase pid revision oid q r) (release project)
      (\<lambda>_ w. rotationEnds env phase pid revision oid q r w \<and> project \<notin> set (w_Locks w)) (\<lambda>_ _. False)" for x :: unit
    by (rule tripleI) (auto simp: release_def rotationEnds_frame)
qed

lemma orQueued_rotation:
  assumes "triple P m (rotationEnds env phase pid revision oid q) (\<lambda>_. going oid q G)"
  shows "triple P (orQueued queued m) (rotationEnds env phase pid revision oid q) (\<lambda>_ _. False)"
  unfolding orQueued_def
  by (rule then_branch [OF assms]) (auto intro!: triple_ret simp: rotationEnds_def stands_def)

text \<open>
  (C27) A rotation of the database password returns whatever the Provisioner answers, whichever
  compensation phase an interrupted attempt has recorded, and frees the lock of the project. It
  reports success only with the operation SUCCEEDED and its revision published as the last good one;
  with an error the operation is FAILED, or still RUNNING so that the next start resumes it, or
  ROLLED_BACK, and the last only with evidence: the Provisioner's error says so, it has confirmed a
  rollback request of this run, or an earlier attempt had recorded that the rollback was confirmed.
\<close>

theorem rotation_run_ends:
  assumes "op_Status queued = OperationQueued \<or> op_Status queued = OperationRunning"
    and "opAt (w_DB w) (op_ID queued) q (op_Status queued)"
  shows "\<exists>r w'. RunDatabasePasswordRotation env o' project queued snapshot newPassword w = (Inr r, w') \<and>
    rotationEnds env (phaseOf (w_DB w) (op_ID queued)) (p_ID project) (snap_Revision snapshot) (op_ID queued) q r w' \<and>
    p_ID project \<notin> set (w_Locks w')"
proof -
  let ?phase = "phaseOf (w_DB w) (op_ID queued)"
  let ?P = "\<lambda>u. stands (op_ID queued) q (op_Status queued) (\<lambda>_. True) (\<lambda>_. True) u \<and> phaseOf (w_DB u) (op_ID queued) = ?phase"
  have "triple ?P (RunDatabasePasswordRotation env o' project queued snapshot newPassword)
      (\<lambda>r w'. rotationEnds env ?phase (p_ID project) (snap_Revision snapshot) (op_ID queued) q r w' \<and> p_ID project \<notin> set (w_Locks w'))
      (\<lambda>_ _. False)"
    unfolding RunDatabasePasswordRotation_def withWorker_def
    by (rule triple_deferring [OF orQueued_rotation [OF rotationWork_ends [OF assms(1)]]]) (rule triple_total [OF releasesToken])
  from triple_returns [OF this, of w] assms(2) show ?thesis by (auto simp: stands_def)
qed

theorem rotation_run_ends_witness:
  "\<exists>snapshot r w'. GetConfiguration ''bee'' (w_DB updateWorld) = (Inr snapshot, w_DB updateWorld) \<and>
     RunDatabasePasswordRotation sampleEnvironment fullOrchestrator (sampleProject ''bee'' ''shop'') updateOperation snapshot ''next-password''
       updateWorld = (Inr r, w') \<and>
     rotationEnds sampleEnvironment [] ''bee'' (snap_Revision snapshot) ''op-1'' ''bee'' r w' \<and> ''bee'' \<notin> set (w_Locks w')"
proof -
  have "opAt (w_DB updateWorld) (op_ID updateOperation) ''bee'' (op_Status updateOperation)"
    by (simp add: opAt_def updateWorld_def newWorld_def updateRow_def updateOperation_def)
  moreover obtain snapshot where "GetConfiguration ''bee'' (w_DB updateWorld) = (Inr snapshot, w_DB updateWorld)"
    by (simp add: GetConfiguration_def GetDesiredConfiguration_def updateWorld_def newWorld_def storedBee_def sampleProject_def Project.defs)
  ultimately show ?thesis
    using rotation_run_ends [of updateOperation updateWorld "''bee''" sampleEnvironment fullOrchestrator "sampleProject ''bee'' ''shop''" snapshot "''next-password''"]
    by (auto simp: updateOperation_def sampleProject_def updateWorld_def newWorld_def phaseOf_def updateRow_def)
qed

end
