(* ===== verification/InstallOrchestrator.thy ===== *)
theory InstallOrchestrator
  imports OrchestratorRuns
begin

text \<open>
  \<^verbatim>\<open>install/orchestrator.go\<close>: the first installation of a project and its retries. A run reserves the
  ports, loads or generates the credentials of the project, hands the runtime to the Provisioner,
  starts it and checks its health; every failure deletes the runtime and rolls the operation back.
  The Go code iterates over a map when it stores the credentials, so the order is a parameter. The
  cipher is present: without one a run has failed before it is asked for.
\<close>

section \<open>Credentials of a project\<close>

text \<open>Kind, setter and getter of every generated credential.\<close>

type_synonym secretSpec = "string \<times> (string \<Rightarrow> ProjectSecrets \<Rightarrow> ProjectSecrets) \<times> (ProjectSecrets \<Rightarrow> string)"

definition persistedProjectSecretSpecs :: "secretSpec list" where
  "persistedProjectSecretSpecs =
     [(''database-password'', \<lambda>v s. s\<lparr>ps_DatabasePassword := v\<rparr>, ps_DatabasePassword),
      (''jwt-secret'', \<lambda>v s. s\<lparr>ps_JWTSecret := v\<rparr>, ps_JWTSecret),
      (''anon-key'', \<lambda>v s. s\<lparr>ps_AnonKey := v\<rparr>, ps_AnonKey),
      (''service-role-key'', \<lambda>v s. s\<lparr>ps_ServiceRoleKey := v\<rparr>, ps_ServiceRoleKey),
      (''dashboard-password'', \<lambda>v s. s\<lparr>ps_DashboardPassword := v\<rparr>, ps_DashboardPassword),
      (''secret-key-base'', \<lambda>v s. s\<lparr>ps_SecretKeyBase := v\<rparr>, ps_SecretKeyBase),
      (''vault-encryption-key'', \<lambda>v s. s\<lparr>ps_VaultEncryptionKey := v\<rparr>, ps_VaultEncryptionKey),
      (''realtime-db-encryption-key'', \<lambda>v s. s\<lparr>ps_RealtimeDBEncryptionKey := v\<rparr>, ps_RealtimeDBEncryptionKey),
      (''logflare-public-access-token'', \<lambda>v s. s\<lparr>ps_LogflarePublicAccessToken := v\<rparr>, ps_LogflarePublicAccessToken),
      (''logflare-private-access-token'', \<lambda>v s. s\<lparr>ps_LogflarePrivateAccessToken := v\<rparr>, ps_LogflarePrivateAccessToken),
      (''s3-protocol-access-key-id'', \<lambda>v s. s\<lparr>ps_S3ProtocolAccessKeyID := v\<rparr>, ps_S3ProtocolAccessKeyID),
      (''s3-protocol-access-key-secret'', \<lambda>v s. s\<lparr>ps_S3ProtocolAccessKeySecret := v\<rparr>, ps_S3ProtocolAccessKeySecret),
      (''pooler-tenant-id'', \<lambda>v s. s\<lparr>ps_PoolerTenantID := v\<rparr>, ps_PoolerTenantID)]"

fun loadSpecs :: "environment \<Rightarrow> string \<Rightarrow> secretSpec list \<Rightarrow> ProjectSecrets \<Rightarrow> string list \<Rightarrow>
    (database, ProjectSecrets \<times> string list) act" where
  "loadSpecs env pid [] result found = ret (result, found)"
| "loadSpecs env pid ((kind, put, get) # specs) result found =
     andThen (attempt (GetSecret pid kind)) (\<lambda>r. case r of
         Inl e \<Rightarrow> if errorsIs e ErrNotFound then loadSpecs env pid specs result found else throw e
       | Inr envelope \<Rightarrow> (case e_Decrypt env pid kind envelope of
           Inl e \<Rightarrow> throw (Errorf (''decrypt persisted secret '' @ goQuote kind @ '': '') e [])
         | Inr plain \<Rightarrow> loadSpecs env pid specs (put plain result) (found @ [kind])))"

definition loadPersistedSecrets :: "environment \<Rightarrow> string \<Rightarrow> (database, ProjectSecrets \<times> string list) act" where
  "loadPersistedSecrets env pid = loadSpecs env pid persistedProjectSecretSpecs noProjectSecrets []"

definition completeSet :: "string list \<Rightarrow> bool" where
  "completeSet persisted \<longleftrightarrow> length persisted = length persistedProjectSecretSpecs"

text \<open>The kinds that are not stored yet are taken from a fresh set.\<close>

definition fillMissing :: "string list \<Rightarrow> ProjectSecrets \<Rightarrow> ProjectSecrets \<Rightarrow> ProjectSecrets" where
  "fillMissing persisted fresh stored = fold (\<lambda>(kind, put, get) s. if kind \<in> set persisted then s else put (get fresh) s)
     persistedProjectSecretSpecs stored"

definition completeSecrets :: "environment \<Rightarrow> ProjectSecrets \<Rightarrow> string list \<Rightarrow> (world, ProjectSecrets) act" where
  "completeSecrets env stored persisted =
     (if completeSet persisted then ret stored
      else andThen (andThen (ask (e_Generate env)) orFail) (\<lambda>fresh. ret (fillMissing persisted fresh stored)))"

definition secretValues :: "ProjectSecrets \<Rightarrow> (string \<times> string) list" where
  "secretValues generated = [(''database-password'', ps_DatabasePassword generated), (''jwt-secret'', ps_JWTSecret generated),
     (''anon-key'', ps_AnonKey generated), (''service-role-key'', ps_ServiceRoleKey generated),
     (''dashboard-password'', ps_DashboardPassword generated), (''secret-key-base'', ps_SecretKeyBase generated),
     (''vault-encryption-key'', ps_VaultEncryptionKey generated),
     (''realtime-db-encryption-key'', ps_RealtimeDBEncryptionKey generated),
     (''logflare-public-access-token'', ps_LogflarePublicAccessToken generated),
     (''logflare-private-access-token'', ps_LogflarePrivateAccessToken generated),
     (''s3-protocol-access-key-id'', ps_S3ProtocolAccessKeyID generated),
     (''s3-protocol-access-key-secret'', ps_S3ProtocolAccessKeySecret generated),
     (''pooler-tenant-id'', ps_PoolerTenantID generated)]"

definition persistOne :: "environment \<Rightarrow> string \<Rightarrow> ProjectSecrets \<Rightarrow> string list \<Rightarrow> string \<Rightarrow> (world, unit) act" where
  "persistOne env pid generated existing kind =
     (if kind \<in> set existing then ret ()
      else andThen (Encrypt env pid kind (mapGet [] (secretValues generated) kind)) (\<lambda>envelope. onDb (PutSecret pid kind envelope)))"

definition persistSecrets :: "environment \<Rightarrow> string list \<Rightarrow> string \<Rightarrow> ProjectSecrets \<Rightarrow> string list \<Rightarrow> (world, unit) act" where
  "persistSecrets env order pid generated existing = forEach order (persistOne env pid generated existing)"

definition applyConfiguredStudioPassword ::
  "environment \<Rightarrow> string \<Rightarrow> ProjectConfiguration \<Rightarrow> ProjectSecrets \<Rightarrow> (database, ProjectSecrets) act" where
  "applyConfiguredStudioPassword env pid cfg secrets =
     (if \<not> gen_StudioPasswordSet (cfg_General cfg) then ret secrets
      else andThen (attempt (GetSecret pid ''studio.password'')) (\<lambda>r. case r of
          Inl e \<Rightarrow> if errorsIs e ErrNotFound
            then (if ps_DashboardPassword secrets \<noteq> [] then ret secrets
                  else throw (ErrorsNew ''configured Studio password is unavailable''))
            else throw e
        | Inr envelope \<Rightarrow> (case e_Decrypt env pid ''studio.password'' envelope of
            Inl e \<Rightarrow> throw (Errorf ''decrypt configured Studio password: '' e [])
          | Inr plain \<Rightarrow> ret (secrets\<lparr>ps_DashboardPassword := plain\<rparr>))))"

text \<open>Secrets the configuration marks as present, each with whether the runtime needs it.\<close>

definition configuredSecrets :: "ProjectConfiguration \<Rightarrow> (string \<times> bool) list" where
  "configuredSecrets cfg =
     (let services = cfg_Services cfg; auth = cfg_Auth cfg in
      [(''smtp.password'', svc_Auth services \<and> smtp_Enabled (auth_SMTP auth) \<and> smtp_PasswordSet (auth_SMTP auth)),
       (''phone.secret'', svc_Auth services \<and> ph_Enabled (auth_Phone auth) \<and> ph_SecretSet (auth_Phone auth))] @
      map (\<lambda>(name, provider). (''oauth.'' @ name @ ''.secret'', svc_Auth services \<and> oa_Enabled provider \<and> oa_SecretSet provider))
        (auth_OAuth auth) @
      [(''storage.secretAccessKey'', svc_Storage services \<and> st_SecretAccessKeySet (cfg_Storage cfg))] @
      map (\<lambda>variable. (''functions.'' @ fv_Name variable, svc_Functions services \<and> fv_ValueSet variable))
        (fn_Variables (cfg_Functions cfg)))"

fun addRuntimeSecrets :: "environment \<Rightarrow> string \<Rightarrow> (string \<times> bool) list \<Rightarrow> (string \<times> string) list \<Rightarrow>
    (database, (string \<times> string) list) act" where
  "addRuntimeSecrets env pid [] runtime = ret runtime"
| "addRuntimeSecrets env pid ((kind, required) # kinds) runtime =
     (if \<not> required then addRuntimeSecrets env pid kinds runtime
      else andThen (attempt (GetSecret pid kind)) (\<lambda>r. case r of
          Inl e \<Rightarrow> throw (if errorsIs e ErrNotFound then ErrorsNew ''required configured secret is unavailable'' else e)
        | Inr envelope \<Rightarrow> (case e_Decrypt env pid kind envelope of
            Inl e \<Rightarrow> throw e
          | Inr plain \<Rightarrow> addRuntimeSecrets env pid kinds (mapPut kind plain runtime))))"

definition hydrateConfiguredSecrets :: "environment \<Rightarrow> string \<Rightarrow> ProjectConfiguration \<Rightarrow> (database, (string \<times> string) list) act" where
  "hydrateConfiguredSecrets env pid cfg = addRuntimeSecrets env pid (configuredSecrets cfg) []"

section \<open>Ports and services\<close>

definition disabledKinds :: "Services \<Rightarrow> string list" where
  "disabledKinds services = (if svc_Studio services then [] else [KindStudio]) @
     (if svc_DirectDB services then [] else [KindDirectDB]) @
     (if svc_Supavisor services then [] else [KindPoolerTxn, KindPoolerSes])"

definition installKinds :: "Services \<Rightarrow> string list" where
  "installKinds services = [KindAPI] @ (if svc_Studio services then [KindStudio] else []) @
     (if svc_DirectDB services then [KindDirectDB] else []) @
     (if svc_Supavisor services then [KindPoolerTxn, KindPoolerSes] else [])"

definition withAllocated :: "(string \<times> int) list \<Rightarrow> ProjectConfiguration \<Rightarrow> ProjectConfiguration" where
  "withAllocated allocated cfg =
     (let services = cfg_Services cfg; port = mapGet 0 allocated; direct = svc_DirectDB services in
      cfg\<lparr>cfg_Network := (cfg_Network cfg)\<lparr>net_APIPort := port KindAPI, net_StudioPort := port KindStudio,
            net_DirectDatabasePort := (if direct then port KindDirectDB else 0), net_PoolerPort := 0\<rparr>,
        cfg_Database := (cfg_Database cfg)\<lparr>db_DirectPort := direct,
            db_DirectPortNumber := (if direct then port KindDirectDB else 0)\<rparr>,
        cfg_Pooler := (if svc_Supavisor services
            then (cfg_Pooler cfg)\<lparr>pool_TransactionPort := port KindPoolerTxn, pool_SessionPort := port KindPoolerSes\<rparr>
            else cfg_Pooler cfg)\<rparr>)"

definition allocateConfigurationPorts ::
  "environment \<Rightarrow> Allocator \<Rightarrow> string \<Rightarrow> ProjectConfiguration \<Rightarrow> (world, ProjectConfiguration) act" where
  "allocateConfigurationPorts env allocator pid cfg =
     andThen (forEach (disabledKinds (cfg_Services cfg)) (Release pid)) (\<lambda>_.
     andThen (ReserveMany env allocator pid (installKinds (cfg_Services cfg))) (\<lambda>allocated.
     ret (withAllocated allocated cfg)))"

definition enabledComposeServices :: "Services \<Rightarrow> string list" where
  "enabledComposeServices services = concat (map (\<lambda>(enabled, names). if enabled then names else [])
     [(svc_Database services, [''db'']), (svc_Gateway services, [''api-gw'']), (svc_Auth services, [''auth'']),
      (svc_REST services, [''rest'']), (svc_Studio services, [''studio'']), (svc_PostgresMeta services, [''meta'']),
      (svc_Realtime services, [''realtime'']), (svc_Storage services, [''storage'']), (svc_Imgproxy services, [''imgproxy'']),
      (svc_Functions services, [''functions'']), (svc_Supavisor services, [''supavisor'']),
      (svc_Logs services, [''analytics'', ''vector''])])"

section \<open>The run\<close>

definition installStep :: "environment \<Rightarrow> string \<Rightarrow> string \<Rightarrow> int \<Rightarrow> (world, 'a) act \<Rightarrow> (world, 'a) act" where
  "installStep env oid name progress action =
     andThen (opCall env (\<lambda>now. StartStep now oid name progress)) (\<lambda>_.
     andThen action (\<lambda>x.
     andThen (opCall env (\<lambda>now. CompleteStep now oid name progress)) (\<lambda>_. ret x)))"

definition deleteRuntimeRequest :: "Project \<Rightarrow> string \<Rightarrow> LifecycleRequest" where
  "deleteRuntimeRequest project oid = \<lparr>lr_OperationID = oid, lr_IdempotencyKey = oid @ '':rollback'', lr_ProjectID = p_ID project,
     lr_ProjectName = [], lr_Slug = p_Slug project, lr_Action = LifecycleDeleteRuntime, lr_ConfirmProjectName = []\<rparr>"

definition rollback :: "environment \<Rightarrow> Project \<Rightarrow> string \<Rightarrow> string \<Rightarrow> goerr \<Rightarrow> (world, outcome) act" where
  "rollback env project oid step cause =
     andThen (ignoreErr (opCall env (\<lambda>now. Fail now oid step cause))) (\<lambda>_.
     andThen (ignoreErr (opCall env (\<lambda>now. BeginRollback now oid))) (\<lambda>_.
     andThen (attempt (Lifecycle env (deleteRuntimeRequest project oid))) (\<lambda>deleted.
     andThen (case deleted of Inl _ \<Rightarrow> ret () | Inr _ \<Rightarrow> ignoreErr (opCall env (\<lambda>now. CompleteRollback now oid))) (\<lambda>_.
     andThen (ignoreErr (opCall env (UpdateProjectStatus (p_ID project) ProjectStatusFailed HealthUnknown))) (\<lambda>_.
     andThen (latestOperation oid) (\<lambda>latest.
     ret (latest, Some (case deleted of
         Inl e \<Rightarrow> Errorf ''install failed: '' cause (''; rollback failed: '' @ errText e) | Inr _ \<Rightarrow> cause))))))))"

text \<open>\<^verbatim>\<open>if err := m; err != nil { return rollback(step, err) }\<close>\<close>

definition orRollback :: "environment \<Rightarrow> Project \<Rightarrow> string \<Rightarrow> string \<Rightarrow> (world, 'a) act \<Rightarrow> ('a \<Rightarrow> (world, outcome) act) \<Rightarrow>
    (world, outcome) act" where
  "orRollback env project oid step m k = andThen (attempt m) (\<lambda>r. case r of Inl e \<Rightarrow> rollback env project oid step e | Inr x \<Rightarrow> k x)"

definition checkHealth :: "environment \<Rightarrow> Project \<Rightarrow> ProjectConfiguration \<Rightarrow> (world, unit) act" where
  "checkHealth env project cfg =
     andThen (Inspect env \<lparr>ir_ProjectID = p_ID project, ir_Slug = p_Slug project,
        ir_EnabledServices = enabledComposeServices (cfg_Services cfg)\<rparr>) (\<lambda>health.
     failIf (health \<noteq> HealthHealthy) (ErrorsNew (''runtime health is '' @ healthText health)))"

definition installRequest :: "Project \<Rightarrow> string \<Rightarrow> ProjectConfiguration \<Rightarrow> ProjectSecrets \<Rightarrow> (string \<times> string) list \<Rightarrow>
    ReconcileProjectRequest" where
  "installRequest project oid cfg secrets runtime = \<lparr>rr_OperationID = oid, rr_IdempotencyKey = oid @ '':reconcile'',
     rr_ProjectID = p_ID project, rr_ProjectName = p_Name project, rr_Slug = p_Slug project, rr_ExpectedRevision = 0,
     rr_NextRevision = 1, rr_APIPort = net_APIPort (cfg_Network cfg), rr_Configuration = cfg, rr_Secrets = secrets,
     rr_RuntimeSecrets = runtime, rr_Fence = 0\<rparr>"

definition startRequest :: "Project \<Rightarrow> string \<Rightarrow> LifecycleRequest" where
  "startRequest project oid = \<lparr>lr_OperationID = oid, lr_IdempotencyKey = oid @ '':start'', lr_ProjectID = p_ID project,
     lr_ProjectName = [], lr_Slug = p_Slug project, lr_Action = LifecycleStart, lr_ConfirmProjectName = []\<rparr>"

text \<open>From the credentials to the end.\<close>

definition startRuntime :: "environment \<Rightarrow> Project \<Rightarrow> Operation \<Rightarrow> ProjectConfiguration \<Rightarrow> ProjectSecrets \<Rightarrow> (string \<times> string) list \<Rightarrow>
    (world, outcome) act" where
  "startRuntime env project current cfg secrets runtime =
     (let oid = op_ID current in
      orRollback env project oid ''RECONCILE_RUNTIME'' (installStep env oid ''RECONCILE_RUNTIME'' 35
        (Reconcile env (installRequest project oid cfg secrets runtime))) (\<lambda>_.
      orRollback env project oid ''START_AUTH'' (installStep env oid ''START_RUNTIME'' 70 (Lifecycle env (startRequest project oid))) (\<lambda>_.
      orRollback env project oid ''FINAL_HEALTH_CHECK'' (installStep env oid ''FINAL_HEALTH_CHECK'' 95 (checkHealth env project cfg)) (\<lambda>_.
      orRollback env project oid ''MARK_RUNNING'' (opCall env (UpdateProjectStatus (p_ID project) ProjectStatusRunning HealthHealthy)) (\<lambda>_.
      andThen (attempt (opCall env (\<lambda>now. Succeed now oid))) (\<lambda>ended. case ended of
          Inl e \<Rightarrow> ret (Some current, Some e)
        | Inr _ \<Rightarrow> andThen (attempt (onDb (GetOperation oid))) (\<lambda>got. case got of
            Inl e \<Rightarrow> ret (None, Some e) | Inr op \<Rightarrow> ret (Some op, None))))))))"

definition installSecrets :: "environment \<Rightarrow> string list \<Rightarrow> Project \<Rightarrow> Operation \<Rightarrow> ProjectConfiguration \<Rightarrow> (world, outcome) act" where
  "installSecrets env order project current cfg =
     (let oid = op_ID current; pid = p_ID project in
      orRollback env project oid ''LOAD_SECRETS'' (onDb (loadPersistedSecrets env pid)) (\<lambda>(stored, persisted).
      orRollback env project oid ''GENERATE_SECRETS'' (completeSecrets env stored persisted) (\<lambda>generated.
      orRollback env project oid ''GENERATE_SECRETS'' (installStep env oid ''GENERATE_SECRETS'' 15
        (if completeSet persisted then ret () else persistSecrets env order pid generated persisted)) (\<lambda>_.
      orRollback env project oid ''HYDRATE_SECRETS'' (onDb (applyConfiguredStudioPassword env pid cfg generated)) (\<lambda>secrets.
      orRollback env project oid ''HYDRATE_SECRETS'' (onDb (hydrateConfiguredSecrets env pid cfg)) (\<lambda>runtime.
      startRuntime env project current cfg secrets runtime))))))"

definition validatePorts :: "environment \<Rightarrow> Allocator \<Rightarrow> string \<Rightarrow> ProjectConfiguration \<Rightarrow> (world, ProjectConfiguration) act" where
  "validatePorts env allocator pid cfg =
     andThen (allocateConfigurationPorts env allocator pid cfg) (\<lambda>allocated.
     andThen (opCall env (PersistAllocatedConfiguration pid allocated)) (\<lambda>_. ret allocated))"

definition Run :: "environment \<Rightarrow> Allocator \<Rightarrow> string list \<Rightarrow> Project \<Rightarrow> Operation \<Rightarrow> (world, outcome) act" where
  "Run env allocator order project current =
     (let oid = op_ID current; pid = p_ID project in
      andThen (attempt (opCall env (\<lambda>now. Start now oid))) (\<lambda>started. case started of
          Inl e \<Rightarrow> ret (Some current, Some e)
        | Inr _ \<Rightarrow>
      andThen (ignoreErr (opCall env (UpdateProjectStatus pid ProjectStatusInstalling HealthStarting))) (\<lambda>_.
      orRollback env project oid ''LOAD_CONFIGURATION'' (onDb (GetDesiredConfiguration pid)) (\<lambda>snapshot.
      orRollback env project oid ''VALIDATE_PORTS'' (installStep env oid ''VALIDATE_PORTS'' 5
        (validatePorts env allocator pid ((snap_Configuration snapshot)\<lparr>cfg_Revision := 1\<rparr>))) (\<lambda>cfg.
      installSecrets env order project current cfg)))))"

definition Install :: "environment \<Rightarrow> Allocator \<Rightarrow> string list \<Rightarrow> Project \<Rightarrow> (world, outcome) act" where
  "Install env allocator order project =
     andThen (ask (e_ID env)) (\<lambda>oid. andThen (currentTime env) (\<lambda>now.
     andThen (attempt (onDb (OperationService.Create oid now (p_ID project) OperationCreate))) (\<lambda>created. case created of
         Inl e \<Rightarrow> ret (None, Some e)
       | Inr current \<Rightarrow> Run env allocator order project current)))"

end
