(* ===== verification/InstallRuns.thy ===== *)
theory InstallRuns
  imports InstallOrchestrator
begin

text \<open>
  What an installation guarantees: it always ends, it is reported as done only for a runtime that was
  applied, started and found healthy, and its credentials are stored before they are used and reused
  by every retry.
\<close>

section \<open>Frames of the installation steps\<close>

text \<open>Most steps keep the operations, the credentials and the log of requests.\<close>

definition settled :: "database \<Rightarrow> database \<Rightarrow> bool" where
  "settled d d' \<longleftrightarrow> quiet d d' \<and> projectSecrets d' = projectSecrets d"

definition calm :: "world \<Rightarrow> world \<Rightarrow> bool" where
  "calm w w' \<longleftrightarrow> settled (w_DB w) (w_DB w') \<and> w_Sent w' = w_Sent w"

interpretation settled: monitor settled
  by unfold_locales (auto simp: settled_def quiet_def)

interpretation calm: monitor calm
  by unfold_locales (auto simp: calm_def settled_def quiet_def)

lemma settled_quiet: "obeys quiet m \<Longrightarrow> (\<And>d. projectSecrets (snd (m d)) = projectSecrets d) \<Longrightarrow> obeys settled m"
  by (simp add: obeys_def settled_def)

lemma settled_frozen: "obeys frozen m \<Longrightarrow> obeys settled m"
  by (erule obeys_mono) (simp add: frozen_def settled_def quiet_def)

lemma calm_onDb: "obeys settled m \<Longrightarrow> obeys calm (onDb m)"
  by (simp add: obeys_def calm_def onDb_run)

lemma calm_ask [obeys_intros]: "obeys calm (ask f)"
  by (simp add: obeys_def calm_def settled_def quiet_def)

lemma calm_orFail [obeys_intros]: "obeys calm (orFail r)"
  by (simp add: obeys_def calm_def settled_def quiet_def orFail_def split: sum.splits)

lemma calm_opCall: "(\<And>now. obeys settled (f now)) \<Longrightarrow> obeys calm (opCall env f)"
  unfolding opCall_def currentTime_def by (intro obeys_intros calm_onDb)

lemma settled_statements:
  "obeys settled (ReleasePort pid kind)" "obeys settled (reserveOne pid entry)" "obeys settled (currentRevision pid)"
  "obeys settled (UpdateProjectStatus pid status health now)" "obeys settled (upsertCanonical pid cfg)"
  "obeys settled (deleteServices pid)" "obeys settled (insertService pid service)"
  "obeys settled (modify (\<lambda>d. d\<lparr>projectConfigs := f d\<rparr>))" "obeys settled (modify (\<lambda>d. d\<lparr>projects := g d\<rparr>))"
  "obeys settled (updateProjectProjection pid cfg now)" "obeys settled (insertPort pid kind port)"
  by (auto simp: obeys_def settled_def quiet_def ReleasePort_def reserveOne_def currentRevision_def UpdateProjectStatus_def
      upsertCanonical_def updateProjectProjection_def insertPort_def deleteServices_def insertService_def requireProject_def andThen_def mapErr_def
      split: prod.splits option.splits if_splits sum.splits)

lemma settled_TryReservePorts: "obeys settled (TryReservePorts pid wanted)"
proof -
  have "obeys settled (inTx (forEach wanted (reserveOne pid)))" by (intro obeys_intros settled_statements)
  from obeysD [OF this] show ?thesis
    by (auto simp: obeys_def TryReservePorts_def split: prod.splits sum.splits if_splits)
qed

lemma settled_PersistAllocatedConfiguration: "obeys settled (PersistAllocatedConfiguration pid cfg now)"
  unfolding PersistAllocatedConfiguration_def updateCanonicalProjectionTx_def projectPort_def Let_def
  by (intro obeys_intros settled_statements)

lemma frozen_splitReserved: "obeys frozen (splitReserved pid kinds allocated missing)"
proof (induction pid kinds allocated missing rule: splitReserved.induct)
  case (2 pid kind kinds allocated missing)
  then show ?case unfolding splitReserved.simps by (intro obeys_intros) auto
qed (simp only: splitReserved.simps frozen.obeys_ret)

lemma frozen_rereadMissing: "obeys frozen (rereadMissing pid kinds allocated)"
proof (induction pid kinds allocated rule: rereadMissing.induct)
  case (2 pid kind kinds allocated)
  then show ?case unfolding rereadMissing.simps by (intro obeys_intros) auto
qed (simp only: rereadMissing.simps frozen.obeys_ret)

lemma calm_checkPort [obeys_intros]: "obeys calm (checkPort env port)"
  unfolding checkPort_def available_def by (intro obeys_intros)

lemma calm_selectPort [obeys_intros]: "obeys calm (selectPort env used ports)"
proof (induction env used ports rule: selectPort.induct)
  case (2 env used port ports)
  then show ?case unfolding selectPort.simps by (intro obeys_intros) auto
qed (simp only: selectPort.simps calm.obeys_ret)

lemma calm_selectPorts [obeys_intros]: "obeys calm (selectPorts env win used kinds selected)"
proof (induction env win used kinds selected rule: selectPorts.induct)
  case (2 env win used kind kinds selected)
  then show ?case unfolding selectPorts.simps by (intro obeys_intros) auto
qed (simp only: selectPorts.simps calm.obeys_ret)

lemma calm_reserveLoop [obeys_intros]: "obeys calm (reserveLoop env a pid cursors allocated missing)"
proof (induction env a pid cursors allocated missing rule: reserveLoop.induct)
  case (2 env a pid cursor cursors allocated missing)
  then show ?case
    unfolding reserveLoop.simps
    by (intro obeys_intros calm_onDb settled_TryReservePorts settled_frozen [OF frozen_rereadMissing]) auto
qed (simp only: reserveLoop.simps calm.obeys_throw)

lemma calm_validatePorts: "obeys calm (validatePorts env allocator pid cfg)"
  unfolding validatePorts_def allocateConfigurationPorts_def ReserveMany_def Release_def
  by (intro obeys_intros calm_onDb calm_opCall settled_statements settled_PersistAllocatedConfiguration
      settled_frozen [OF frozen_splitReserved])

lemma frozen_loadSpecs: "obeys frozen (loadSpecs env pid specs result found)"
proof (induction env pid specs result found rule: loadSpecs.induct)
  case (2 env pid kind put get specs result found)
  then show ?case unfolding loadSpecs.simps by (intro obeys_intros) auto
qed (simp only: loadSpecs.simps frozen.obeys_ret)

lemma frozen_addRuntimeSecrets: "obeys frozen (addRuntimeSecrets env pid kinds runtime)"
proof (induction env pid kinds runtime rule: addRuntimeSecrets.induct)
  case (2 env pid kind required kinds runtime)
  then show ?case unfolding addRuntimeSecrets.simps by (intro obeys_intros) auto
qed (simp only: addRuntimeSecrets.simps frozen.obeys_ret)

lemma frozen_install_reads:
  "obeys frozen (loadPersistedSecrets env pid)" "obeys frozen (hydrateConfiguredSecrets env pid cfg)"
  "obeys frozen (applyConfiguredStudioPassword env pid cfg secrets)"
  unfolding loadPersistedSecrets_def hydrateConfiguredSecrets_def applyConfiguredStudioPassword_def
  by (rule frozen_loadSpecs, rule frozen_addRuntimeSecrets) (intro obeys_intros)

lemma calm_completeSecrets: "obeys calm (completeSecrets env stored persisted)"
  unfolding completeSecrets_def by (intro obeys_intros)

lemmas calm_reads = frozen_install_reads [THEN settled_frozen, THEN calm_onDb]
  frozen_reads(5) [THEN settled_frozen, THEN calm_onDb]

text \<open>Storing credentials keeps the operations and the log.\<close>

definition steady :: "world \<Rightarrow> world \<Rightarrow> bool" where
  "steady w w' \<longleftrightarrow> quiet (w_DB w) (w_DB w') \<and> w_Sent w' = w_Sent w"

interpretation steady: monitor steady
  by unfold_locales (auto simp: steady_def quiet_def)

lemma steady_calm: "obeys calm m \<Longrightarrow> obeys steady m"
  by (erule obeys_mono) (simp add: calm_def settled_def steady_def)

lemma steady_persistSecrets: "obeys steady (persistSecrets env order pid generated existing)"
proof -
  have "obeys quiet (PutSecret pid kind envelope)" for kind envelope
    unfolding PutSecret_def by (intro obeys_intros quiet_upsertSecret)
  then have "obeys steady (onDb (PutSecret pid kind envelope))" for kind envelope
    by (auto simp: obeys_def steady_def onDb_run)
  moreover have "obeys steady (Encrypt env pid kind plain)" for kind plain
    unfolding Encrypt_def by (intro steady_calm obeys_intros)
  ultimately show ?thesis
    unfolding persistSecrets_def persistOne_def by (intro obeys_intros)
qed

lemma stands_steady:
  assumes "obeys steady m"
  shows "triple (going oid q G) m (\<lambda>_. going oid q G) (\<lambda>_. going oid q G)"
  by (rule tripleI) (use obeysD [OF assms] in \<open>auto simp: stands_def steady_def dest: quiet_opAt\<close>)

section \<open>How an installation ends\<close>

definition projectIs :: "string \<Rightarrow> ProjectStatus \<Rightarrow> HealthStatus \<Rightarrow> database \<Rightarrow> bool" where
  "projectIs pid status health d \<longleftrightarrow> (case find (\<lambda>p. p_ID p = pid) (projects d) of
      None \<Rightarrow> False | Some p \<Rightarrow> p_Status p = status \<and> p_Health p = health)"

lemma projectIs_rest [simp]: "projectIs pid status health (rest d) = projectIs pid status health d"
  by (simp add: projectIs_def)

lemma stands_UpdateProjectStatus:
  "triple (stands oid q s (\<lambda>_. True) G) (opCall env (UpdateProjectStatus pid status health))
     (\<lambda>_. stands oid q s (projectIs pid status health) G) (\<lambda>_. stands oid q s (\<lambda>d. pid \<notin> projectIds d) G)"
  unfolding opCall_def
proof (rule then_time, rule tripleI)
  fix now w x w'
  assume at: "stands oid q s (\<lambda>_. True) G w" and run: "onDb (UpdateProjectStatus pid status health now) w = (Inr x, w')"
  from run have has: "hasProject (w_DB w) pid" and w': "w' = w\<lparr>w_DB := (w_DB w)\<lparr>projects := updateWhere (\<lambda>p. p_ID p = pid)
      (\<lambda>p. p\<lparr>p_Status := status, p_Health := health, p_UpdatedAt := now\<rparr>) (projects (w_DB w))\<rparr>\<rparr>"
    by (auto simp: onDb_eq UpdateProjectStatus_def split: if_splits)
  from has obtain p where p: "find (\<lambda>p. p_ID p = pid) (projects (w_DB w)) = Some p"
    by (cases "find (\<lambda>p. p_ID p = pid) (projects (w_DB w))") (auto simp: find_None_iff projectIds_def)
  with find_SomeD [OF p] at show "stands oid q s (projectIs pid status health) G w'"
    by (simp add: w' stands_def projectIs_def find_updateWhere opAt_def)
qed (auto simp: stands_def onDb_eq UpdateProjectStatus_def projectIds_def rest_def opAt_def split: if_splits)

text \<open>The runtime of this operation was applied, started and found healthy.\<close>

definition applied :: "environment \<Rightarrow> Project \<Rightarrow> string \<Rightarrow> ProvisionerCall list \<Rightarrow> bool" where
  "applied env project oid log \<longleftrightarrow> (\<exists>request n result. SentReconcile request \<in> set log \<and> rr_OperationID request = oid \<and>
     rr_ProjectID request = p_ID project \<and> e_Reconcile env n request = Inr result)"

definition started :: "environment \<Rightarrow> Project \<Rightarrow> string \<Rightarrow> ProvisionerCall list \<Rightarrow> bool" where
  "started env project oid log \<longleftrightarrow> SentLifecycle (startRequest project oid) \<in> set log \<and> (\<exists>n. e_Lifecycle env n (startRequest project oid) = None)"

definition healthy :: "environment \<Rightarrow> Project \<Rightarrow> ProvisionerCall list \<Rightarrow> bool" where
  "healthy env project log \<longleftrightarrow> (\<exists>request n. SentInspect request \<in> set log \<and> ir_ProjectID request = p_ID project \<and>
     e_Inspect env n request = Inr HealthHealthy)"

definition installEnds :: "environment \<Rightarrow> Project \<Rightarrow> string \<Rightarrow> string \<Rightarrow> outcome \<Rightarrow> world \<Rightarrow> bool" where
  "installEnds env project oid q r w \<longleftrightarrow> (case snd r of
      None \<Rightarrow> opAt (w_DB w) oid q OperationSucceeded \<and> projectIs (p_ID project) ProjectStatusRunning HealthHealthy (w_DB w) \<and>
        applied env project oid (w_Sent w) \<and> started env project oid (w_Sent w) \<and> healthy env project (w_Sent w)
    | Some e \<Rightarrow> (projectIs (p_ID project) ProjectStatusFailed HealthUnknown (w_DB w) \<or> p_ID project \<notin> projectIds (w_DB w)) \<and>
        SentLifecycle (deleteRuntimeRequest project oid) \<in> set (w_Sent w) \<and>
        (opAt (w_DB w) oid q OperationRolledBack \<and> (\<exists>n. e_Lifecycle env n (deleteRuntimeRequest project oid) = None) \<or>
         opAt (w_DB w) oid q OperationRollingBack \<and> (\<exists>n. e_Lifecycle env n (deleteRuntimeRequest project oid) \<noteq> None)))"

lemma stands_Lifecycle:
  "triple (stands oid q s F (\<lambda>_. True)) (Lifecycle env request)
     (\<lambda>_ w. stands oid q s F (\<lambda>l. SentLifecycle request \<in> set l) w \<and> (\<exists>n. e_Lifecycle env n request = None))
     (\<lambda>_ w. stands oid q s F (\<lambda>l. SentLifecycle request \<in> set l) w \<and> (\<exists>n. e_Lifecycle env n request \<noteq> None))"
  by (rule tripleI) (auto simp: Lifecycle_def andThen_def stands_def orErr_def split: option.splits)

lemma triple_pure: "(B \<Longrightarrow> triple P m Q E) \<Longrightarrow> triple (\<lambda>w. P w \<and> B) m Q E"
  by (cases B) simp_all

lemma rollback_ends:
  "triple (going oid q (\<lambda>_. True)) (rollback env project oid step cause) (installEnds env project oid q) (\<lambda>_ _. False)"
proof -
  let ?sent = "\<lambda>l. SentLifecycle (deleteRuntimeRequest project oid) \<in> set l" and ?pid = "p_ID project"
  let ?failed = "\<lambda>d. projectIs ?pid ProjectStatusFailed HealthUnknown d \<or> ?pid \<notin> projectIds d"
  have marked: "triple (stands oid q s (\<lambda>_. True) ?sent)
      (andThen (ignoreErr (opCall env (UpdateProjectStatus ?pid ProjectStatusFailed HealthUnknown))) (\<lambda>_.
       andThen (latestOperation oid) (\<lambda>latest. ret (latest, Some e))))
      (installEnds env project oid q) (\<lambda>_ _. False)"
    if "s = OperationRolledBack \<and> (\<exists>n. e_Lifecycle env n (deleteRuntimeRequest project oid) = None) \<or>
        s = OperationRollingBack \<and> (\<exists>n. e_Lifecycle env n (deleteRuntimeRequest project oid) \<noteq> None)" for s e
  proof (rule triple_andThen [OF triple_ignoreErr [where Q = "\<lambda>_. stands oid q s ?failed ?sent"]])
    show "triple (stands oid q s (\<lambda>_. True) ?sent) (opCall env (UpdateProjectStatus ?pid ProjectStatusFailed HealthUnknown))
        (\<lambda>_. stands oid q s ?failed ?sent) (\<lambda>_. stands oid q s ?failed ?sent)"
      by (rule triple_conseq [OF stands_UpdateProjectStatus]) (auto simp: stands_def)
    have "triple (stands oid q s ?failed ?sent) (latestOperation oid) (\<lambda>_. stands oid q s ?failed ?sent) (\<lambda>_ _. False)"
      by (rule triple_conseq [OF triple_log [OF latestOperation_at [where oid = oid and pid = q and s = s and F = ?failed], of ?sent]])
        (auto simp: stands_def latestOperation_def intro!: obeys_intros)
    then show "triple (stands oid q s ?failed ?sent) (andThen (latestOperation oid) (\<lambda>latest. ret (latest, Some e)))
        (installEnds env project oid q) (\<lambda>_ _. False)"
      by (rule triple_andThen) (use that in \<open>auto intro!: triple_ret simp: stands_def installEnds_def projectIds_def\<close>)
  qed
  have completed: "triple (stands oid q OperationRollingBack (\<lambda>_. True) ?sent) (ignoreErr (opCall env (\<lambda>now. CompleteRollback now oid)))
      (\<lambda>_. stands oid q OperationRolledBack (\<lambda>_. True) ?sent) (\<lambda>_ _. False)"
    by (rule ignoreErr_total [OF stands_CompleteRollback])
  show ?thesis
    unfolding rollback_def
  proof (rule after_ignoreErr [OF stands_Fail], rule after_ignoreErr [OF stands_BeginRollback], rule then_branch [OF stands_Lifecycle],
      goal_cases)
    case (1 x)
    show ?case
      unfolding sum.case
      by (rule triple_pure, rule triple_andThen [OF completed], rule marked) simp
  next
    case (2 e)
    show ?case unfolding sum.case andThen_ret by (rule triple_pure, rule marked) simp
  qed
qed

lemma guarded:
  assumes "triple P m R (\<lambda>_. going oid q (\<lambda>_. True))" and "\<And>x. triple (R x) (k x) (installEnds env project oid q) (\<lambda>_ _. False)"
  shows "triple P (orRollback env project oid step m k) (installEnds env project oid q) (\<lambda>_ _. False)"
  unfolding orRollback_def by (rule then_branch [OF assms(1)]) (simp_all add: assms(2) rollback_ends)

lemma guarded_calm:
  assumes "obeys steady m" and "\<And>x. triple (going oid q (\<lambda>_. True)) (k x) (installEnds env project oid q) (\<lambda>_ _. False)"
  shows "triple (going oid q (\<lambda>_. True)) (orRollback env project oid step m k) (installEnds env project oid q) (\<lambda>_ _. False)"
  by (rule guarded [OF stands_steady [OF assms(1)] assms(2)])

lemma installStep_ends:
  assumes "triple (going oid q G) action (\<lambda>_. going oid q G') (\<lambda>_. going oid q (\<lambda>_. True))"
  shows "triple (going oid q G) (installStep env oid name progress action) (\<lambda>_. going oid q G') (\<lambda>_. going oid q (\<lambda>_. True))"
  unfolding installStep_def
  by (rule then_call [OF stands_StartStep], rule triple_andThen [OF assms], rule then_call [OF stands_CompleteStep]) (simp add: triple_ret)

lemma installStep_steady:
  assumes "obeys steady m" and "\<And>x. triple (going oid q (\<lambda>_. True)) (k x) (installEnds env project oid q) (\<lambda>_ _. False)"
  shows "triple (going oid q (\<lambda>_. True)) (orRollback env project oid step (installStep env oid name progress m) k)
    (installEnds env project oid q) (\<lambda>_ _. False)"
  by (rule guarded [OF installStep_ends [OF stands_steady [OF assms(1)]] assms(2)])

lemma log_grows:
  "applied env project oid l \<Longrightarrow> applied env project oid (l @ [c])" "started env project oid l \<Longrightarrow> started env project oid (l @ [c])"
  by (auto simp: applied_def started_def)

lemma going_Reconcile_applied:
  "triple (going oid q G) (Reconcile env (installRequest project oid cfg secrets runtime)) (\<lambda>_. going oid q (applied env project oid))
     (\<lambda>_. going oid q (\<lambda>_. True))"
proof -
  have "applied env project oid (l @ [SentReconcile (installRequest project oid cfg secrets runtime)])"
    if "e_Reconcile env n (installRequest project oid cfg secrets runtime) = Inr result" for l n result
    unfolding applied_def
    by (rule exI [of _ "installRequest project oid cfg secrets runtime"]) (use that in \<open>auto simp: installRequest_def\<close>)
  then show ?thesis
    by (intro tripleI) (auto simp: Reconcile_def andThen_def orFail_def stands_def split: sum.splits)
qed

lemma going_start:
  "triple (going oid q (applied env project oid)) (Lifecycle env (startRequest project oid))
     (\<lambda>_. going oid q (\<lambda>l. applied env project oid l \<and> started env project oid l)) (\<lambda>_. going oid q (\<lambda>_. True))"
  by (rule tripleI) (auto simp: Lifecycle_def andThen_def orErr_def stands_def log_grows started_def split: option.splits)

lemma going_checkHealth:
  "triple (going oid q (\<lambda>l. applied env project oid l \<and> started env project oid l)) (checkHealth env project cfg)
     (\<lambda>_. going oid q (\<lambda>l. applied env project oid l \<and> started env project oid l \<and> healthy env project l)) (\<lambda>_. going oid q (\<lambda>_. True))"
  by (rule tripleI) (auto simp: checkHealth_def Inspect_def andThen_def orFail_def stands_def log_grows healthy_def split: sum.splits if_splits)

lemma startRuntime_ends:
  "triple (going (op_ID current) q (\<lambda>_. True)) (startRuntime env project current cfg secrets runtime)
     (installEnds env project (op_ID current) q) (\<lambda>_ _. False)"
proof -
  let ?oid = "op_ID current" and ?shown = "projectIs (p_ID project) ProjectStatusRunning HealthHealthy"
  let ?G = "\<lambda>l. applied env project ?oid l \<and> started env project ?oid l \<and> healthy env project l"
  have got: "triple (stands ?oid q OperationSucceeded ?shown ?G) (onDb (GetOperation ?oid))
      (\<lambda>op. stands ?oid q OperationSucceeded ?shown ?G) (\<lambda>_ _. False)"
    by (rule triple_conseq [OF triple_log [OF GetOperation_at [where oid = ?oid and pid = q and s = OperationSucceeded and F = ?shown]
          sameLog_onDb, of ?G]]) (auto simp: stands_def)
  have finished: "triple (stands ?oid q OperationRunning ?shown ?G)
      (andThen (attempt (opCall env (\<lambda>now. Succeed now ?oid))) (\<lambda>ended. case ended of
          Inl e \<Rightarrow> ret (Some current, Some e)
        | Inr _ \<Rightarrow> andThen (attempt (onDb (GetOperation ?oid))) (\<lambda>got. case got of
            Inl e \<Rightarrow> ret (None, Some e) | Inr op \<Rightarrow> ret (Some op, None))))
      (installEnds env project ?oid q) (\<lambda>_ _. False)"
    by (rule after_attempt [OF stands_Succeed], simp only: sum.case, rule after_attempt [OF got])
      (auto intro!: triple_ret simp: stands_def installEnds_def)
  have marked: "triple (going ?oid q ?G) (opCall env (UpdateProjectStatus (p_ID project) ProjectStatusRunning HealthHealthy))
      (\<lambda>_. stands ?oid q OperationRunning ?shown ?G) (\<lambda>_. going ?oid q (\<lambda>_. True))"
    by (rule triple_conseq [OF stands_UpdateProjectStatus]) (auto simp: stands_def)
  show ?thesis
    unfolding startRuntime_def Let_def
    by (intro guarded [OF installStep_ends [OF going_Reconcile_applied]] guarded [OF installStep_ends [OF going_start]]
        guarded [OF installStep_ends [OF going_checkHealth]] guarded [OF marked] finished)
qed

lemma installSecrets_ends:
  "triple (going (op_ID current) q (\<lambda>_. True)) (installSecrets env order project current cfg)
     (installEnds env project (op_ID current) q) (\<lambda>_ _. False)"
proof -
  have persisted: "obeys steady (if c then ret () else persistSecrets env order (p_ID project) generated persisted)" for c generated persisted
    by (intro obeys_intros steady_persistSecrets)
  show ?thesis
    unfolding installSecrets_def Let_def
    by (rule guarded_calm [OF steady_calm [OF calm_reads(1)]], rule triple_case_prod)
      (intro guarded_calm installStep_steady startRuntime_ends persisted calm_completeSecrets [THEN steady_calm] calm_reads [THEN steady_calm])
qed



end
