(* ===== verification/InstallCredentials.thy ===== *)
theory InstallCredentials
  imports InstallRuns
begin

text \<open>
  The credentials of a project are stored before the Provisioner sees them, and a retry of the
  installation sends the stored ones again; an attempt that stops in the middle of storing them leaves
  a set whose parts come from two generations.
\<close>

section \<open>Reading the stored credentials\<close>

definition credentialKinds :: "string list" where
  "credentialKinds = map fst persistedProjectSecretSpecs"

definition plainOf :: "environment \<Rightarrow> string \<Rightarrow> database \<Rightarrow> string \<Rightarrow> string option" where
  "plainOf env pid d kind = (case fst (GetSecret pid kind d) of
      Inl e \<Rightarrow> None
    | Inr envelope \<Rightarrow> (case e_Decrypt env pid kind envelope of Inl e \<Rightarrow> None | Inr plain \<Rightarrow> Some plain))"

definition isStored :: "string \<Rightarrow> database \<Rightarrow> string \<Rightarrow> bool" where
  "isStored pid d kind \<longleftrightarrow> (\<exists>envelope. fst (GetSecret pid kind d) = Inr envelope)"

lemma GetSecret_run: "GetSecret pid kind d = (fst (GetSecret pid kind d), d)"
  by (simp add: GetSecret_def split: option.splits)

lemma GetSecret_missing: "fst (GetSecret pid kind d) = Inl e \<Longrightarrow> e = Sentinel ErrNotFound"
  by (auto simp: GetSecret_def split: option.splits)

lemma loadSpecs_eq:
  assumes "loadSpecs env pid specs result found d = (Inr (result', found'), d')"
  shows "found' = found @ filter (isStored pid d) (map fst specs) \<and>
    result' = fold (\<lambda>(kind, put, get) r. case plainOf env pid d kind of None \<Rightarrow> r | Some p \<Rightarrow> put p r) specs result \<and>
    (\<forall>kind\<in>set (map fst specs). isStored pid d kind \<longrightarrow> plainOf env pid d kind \<noteq> None)"
  using assms
proof (induction specs arbitrary: result found)
  case (Cons spec specs)
  obtain kind put get where spec: "spec = (kind, put, get)" by (cases spec)
  show ?case
  proof (cases "fst (GetSecret pid kind d)")
    case (Inl e)
    from GetSecret_missing [OF this] Inl have missing: "fst (GetSecret pid kind d) = Inl (Sentinel ErrNotFound)" by simp
    then have "GetSecret pid kind d = (Inl (Sentinel ErrNotFound), d)" using GetSecret_run [of pid kind d] by simp
    moreover from missing have "\<not> isStored pid d kind" "plainOf env pid d kind = None" by (simp_all add: isStored_def plainOf_def)
    ultimately show ?thesis using Cons.IH [of result found] Cons.prems by (simp add: spec andThen_def attempt_def)
  next
    case (Inr envelope)
    then have read: "GetSecret pid kind d = (Inr envelope, d)" "isStored pid d kind"
      using GetSecret_run [of pid kind d] by (simp_all add: isStored_def)
    with Cons.prems obtain plain where plain: "e_Decrypt env pid kind envelope = Inr plain"
      by (cases "e_Decrypt env pid kind envelope") (simp_all add: spec andThen_def attempt_def)
    then have "plainOf env pid d kind = Some plain" by (simp add: plainOf_def Inr)
    with read plain show ?thesis
      using Cons.IH [of "put plain result" "found @ [kind]"] Cons.prems by (simp add: spec andThen_def attempt_def)
  qed
qed simp

lemma loadSpecs_all:
  assumes "\<And>kind put get. (kind, put, get) \<in> set specs \<Longrightarrow> plainOf env pid d kind = Some (get s)"
  shows "loadSpecs env pid specs result found d =
    (Inr (fold (\<lambda>(kind, put, get). put (get s)) specs result, found @ map fst specs), d)"
  using assms
proof (induction specs arbitrary: result found)
  case (Cons spec specs)
  obtain kind put get where spec: "spec = (kind, put, get)" by (cases spec)
  from Cons.prems [of kind put get] obtain envelope where "fst (GetSecret pid kind d) = Inr envelope" "e_Decrypt env pid kind envelope = Inr (get s)"
    by (auto simp: plainOf_def spec split: sum.splits)
  moreover from this have "GetSecret pid kind d = (Inr envelope, d)" using GetSecret_run [of pid kind d] by simp
  moreover have "loadSpecs env pid specs result' found' d =
      (Inr (fold (\<lambda>(kind, put, get). put (get s)) specs result', found' @ map fst specs), d)" for result' found'
    using Cons.prems by (intro Cons.IH) (metis list.set_intros(2))
  ultimately show ?case by (simp add: spec andThen_def attempt_def)
qed simp

text \<open>The database holds the complete credentials \<open>s\<close>.\<close>

definition credentialsHeld :: "environment \<Rightarrow> string \<Rightarrow> ProjectSecrets \<Rightarrow> database \<Rightarrow> bool" where
  "credentialsHeld env pid s d \<longleftrightarrow> fst (loadPersistedSecrets env pid d) = Inr (s, credentialKinds)"

lemma fold_specs: "fold (\<lambda>(kind, put, get). put (get s)) persistedProjectSecretSpecs noProjectSecrets = s"
  by (simp add: persistedProjectSecretSpecs_def noProjectSecrets_def)

lemma credentialsHeldI:
  "(\<And>kind put get. (kind, put, get) \<in> set persistedProjectSecretSpecs \<Longrightarrow> plainOf env pid d kind = Some (get s)) \<Longrightarrow> credentialsHeld env pid s d"
  by (simp add: credentialsHeld_def loadPersistedSecrets_def loadSpecs_all [where s = s] fold_specs credentialKinds_def)

lemma completeSet_iff: "completeSet (filter P credentialKinds) \<longleftrightarrow> (\<forall>kind\<in>set credentialKinds. P kind)"
proof -
  have "length (filter P xs) = length xs \<longleftrightarrow> (\<forall>x\<in>set xs. P x)" for xs :: "string list"
    by (induction xs) (auto, metis Suc_n_not_le_n length_filter_le)
  then show ?thesis unfolding completeSet_def by (metis credentialKinds_def length_map)
qed

lemma mapGet_secretValues:
  assumes "(kind, put, get) \<in> set persistedProjectSecretSpecs"
  shows "mapGet [] (secretValues s) kind = get s"
proof -
  have "list_all (\<lambda>(kind, put, get). mapGet [] (secretValues s) kind = get s) persistedProjectSecretSpecs"
    by (simp add: persistedProjectSecretSpecs_def secretValues_def mapGet_def)
  with assms show ?thesis by (auto simp: list_all_iff)
qed

text \<open>The setters and getters of the specifications are independent fields.\<close>

lemma fold_put:
  assumes "distinct (map fst specs)" and "(kind, put, get) \<in> set specs"
    and "\<And>k p g v r. (k, p, g) \<in> set specs \<Longrightarrow> get (p v r) = (if k = kind then v else get r)"
  shows "get (fold (\<lambda>(k, p, g) r. case F k g of None \<Rightarrow> r | Some v \<Rightarrow> p v r) specs r) = (case F kind get of None \<Rightarrow> get r | Some v \<Rightarrow> v)"
proof -
  have other: "get (fold (\<lambda>(k, p, g) r. case F k g of None \<Rightarrow> r | Some v \<Rightarrow> p v r) rest r) = get r"
    if "kind \<notin> fst ` set rest" "set rest \<subseteq> set specs" for rest r
    using that by (induction rest arbitrary: r) (auto simp: assms(3) split: option.splits)
  obtain before after where specs: "specs = before @ (kind, put, get) # after" using assms(2) by (auto dest: split_list)
  with assms(1) have "kind \<notin> fst ` set before" "kind \<notin> fst ` set after" by auto
  then have before: "get (fold (\<lambda>(k, p, g) r. case F k g of None \<Rightarrow> r | Some v \<Rightarrow> p v r) before r) = get r"
    and after: "get (fold (\<lambda>(k, p, g) r. case F k g of None \<Rightarrow> r | Some v \<Rightarrow> p v r) after r') = get r'" for r r'
    by (auto intro!: other simp: specs)
  have put: "get (put v r) = v" for v r using assms(3) [OF assms(2)] by simp
  show ?thesis by (cases "F kind get") (simp_all add: specs after before put)
qed

lemma specs_independent:
  assumes "(kind, put, get) \<in> set persistedProjectSecretSpecs" and "(k, p, g) \<in> set persistedProjectSecretSpecs"
  shows "get (p v r) = (if k = kind then v else get r)"
proof -
  have "list_all (\<lambda>(kind, put, get). list_all (\<lambda>(k, p, g). get (p v r) = (if k = kind then v else get r)) persistedProjectSecretSpecs)
      persistedProjectSecretSpecs"
    by (simp add: persistedProjectSecretSpecs_def)
  then have "\<forall>(kind, put, get)\<in>set persistedProjectSecretSpecs. \<forall>(k, p, g)\<in>set persistedProjectSecretSpecs.
      get (p v r) = (if k = kind then v else get r)" unfolding list_all_iff .
  from bspec [OF this assms(1)] have "\<forall>(k, p, g)\<in>set persistedProjectSecretSpecs. get (p v r) = (if k = kind then v else get r)" by simp
  from bspec [OF this assms(2)] show ?thesis by simp
qed

lemma distinct_specs: "distinct (map fst persistedProjectSecretSpecs)"
  by (simp add: persistedProjectSecretSpecs_def)

lemma fold_fields:
  assumes "(kind, put, get) \<in> set persistedProjectSecretSpecs"
  shows "get (fold (\<lambda>(k, p, g) r. case F k g of None \<Rightarrow> r | Some v \<Rightarrow> p v r) persistedProjectSecretSpecs r) =
    (case F kind get of None \<Rightarrow> get r | Some v \<Rightarrow> v)"
  by (rule fold_put [OF distinct_specs assms]) (rule specs_independent [OF assms])

text \<open>What was stored stays; what was missing comes from the fresh set.\<close>

lemma fillMissing_get:
  assumes "(kind, put, get) \<in> set persistedProjectSecretSpecs"
  shows "get (fillMissing persisted fresh stored) = (if kind \<in> set persisted then get stored else get fresh)"
proof -
  have "fillMissing persisted fresh stored = fold (\<lambda>(k, p, g) r. case (if k \<in> set persisted then None else Some (g fresh)) of
      None \<Rightarrow> r | Some v \<Rightarrow> p v r) persistedProjectSecretSpecs stored"
    unfolding fillMissing_def by (rule fold_cong) (auto split: prod.splits)
  then show ?thesis by (simp add: fold_fields [OF assms, where F = "\<lambda>k g. if k \<in> set persisted then None else Some (g fresh)"])
qed

section \<open>Storing the missing credentials\<close>

lemma GetSecret_PutSecret:
  assumes "PutSecret pid kind envelope d = (Inr x, d')"
  shows "fst (GetSecret pid k d') = (if k = kind then Inr envelope else fst (GetSecret pid k d))"
proof (cases "existsWhere (\<lambda>r. sec_Project r = pid \<and> sec_Kind r = kind) (projectSecrets d)")
  case True
  with assms have "projectSecrets d' = updateWhere (\<lambda>r. sec_Project r = pid \<and> sec_Kind r = kind) (\<lambda>r. r\<lparr>sec_Envelope := envelope\<rparr>) (projectSecrets d)"
    by (auto simp: PutSecret_def upsertSecret_def andThen_eq_Inr requireProject_def split: if_splits)
  then have found: "find (\<lambda>r. sec_Project r = pid \<and> sec_Kind r = k) (projectSecrets d') =
      map_option (\<lambda>r. if sec_Project r = pid \<and> sec_Kind r = kind then r\<lparr>sec_Envelope := envelope\<rparr> else r)
        (find (\<lambda>r. sec_Project r = pid \<and> sec_Kind r = k) (projectSecrets d))" by (simp add: find_updateWhere)
  show ?thesis
  proof (cases "find (\<lambda>r. sec_Project r = pid \<and> sec_Kind r = k) (projectSecrets d)")
    case None
    with True have "k \<noteq> kind" by (auto simp: existsWhere_iff find_None_iff)
    with None found show ?thesis by (simp add: GetSecret_def)
  next
    case (Some r)
    from find_SomeD [OF Some] found Some show ?thesis by (auto simp: GetSecret_def)
  qed
next
  case False
  with assms have added: "projectSecrets d' = projectSecrets d @ [\<lparr>sec_Project = pid, sec_Kind = kind, sec_Envelope = envelope\<rparr>]"
    by (auto simp: PutSecret_def upsertSecret_def andThen_eq_Inr requireProject_def split: if_splits)
  show ?thesis
  proof (cases "k = kind")
    case True
    with False show ?thesis by (simp add: GetSecret_def added find_snoc)
  next
    case other: False
    then show ?thesis by (simp add: GetSecret_def added find_append split: option.splits)
  qed
qed

text \<open>What the cipher has encrypted it decrypts again.\<close>

definition roundTrips :: "environment \<Rightarrow> bool" where
  "roundTrips env \<longleftrightarrow> (\<forall>n pid kind plain envelope. e_Encrypt env n pid kind plain = Inr envelope \<longrightarrow> e_Decrypt env pid kind envelope = Inr plain)"

lemma plainOf_secrets: "projectSecrets d = projectSecrets d' \<Longrightarrow> plainOf env pid d = plainOf env pid d'"
  by (rule ext) (simp add: plainOf_def GetSecret_def split: option.splits)

lemma persistOne_holds:
  assumes "roundTrips env" and "(kind, put, get) \<in> set persistedProjectSecretSpecs"
    and "kind \<in> set existing \<Longrightarrow> plainOf env pid (w_DB w) kind = Some (get s)"
    and "persistOne env pid s existing kind w = (Inr x, w')"
  shows "plainOf env pid (w_DB w') k = (if k = kind then Some (get s) else plainOf env pid (w_DB w) k)"
proof (cases "kind \<in> set existing")
  case True
  with assms(3,4) show ?thesis by (simp add: persistOne_def)
next
  case False
  with assms(4) obtain n envelope d' where "e_Encrypt env n pid kind (get s) = Inr envelope"
    and put: "PutSecret pid kind envelope (w_DB w) = (Inr x, d')" "w_DB w' = d'"
    by (auto simp: persistOne_def Encrypt_def andThen_eq_Inr onDb_eq mapGet_secretValues [OF assms(2)] orFail_def split: sum.splits)
  with assms(1) have "e_Decrypt env pid kind envelope = Inr (get s)" by (auto simp: roundTrips_def)
  then show ?thesis using GetSecret_PutSecret [OF put(1), of k] put(2) by (simp add: plainOf_def)
qed

lemma persistSecrets_holds:
  assumes "roundTrips env" and "set order \<subseteq> set credentialKinds" and "set existing \<subseteq> K"
    and "\<And>kind put get. (kind, put, get) \<in> set persistedProjectSecretSpecs \<Longrightarrow> kind \<in> K \<Longrightarrow> plainOf env pid (w_DB w) kind = Some (get s)"
    and "persistSecrets env order pid s existing w = (Inr x, w')"
    and "(kind, put, get) \<in> set persistedProjectSecretSpecs" and "kind \<in> set order \<union> K"
  shows "plainOf env pid (w_DB w') kind = Some (get s)"
  using assms unfolding persistSecrets_def
proof (induction order arbitrary: w K)
  case (Cons k order)
  from Cons.prems(2) obtain p g where k: "(k, p, g) \<in> set persistedProjectSecretSpecs" by (auto simp: credentialKinds_def)
  from Cons.prems(5) obtain y u where first: "persistOne env pid s existing k w = (Inr y, u)"
    and later: "forEach order (persistOne env pid s existing) u = (Inr x, w')" by (auto simp: andThen_eq_Inr)
  have held: "plainOf env pid (w_DB u) kind = Some (get s)"
    if spec: "(kind, put, get) \<in> set persistedProjectSecretSpecs" and "kind \<in> insert k K" for kind put get
  proof (cases "kind = k")
    case True
    have "plainOf env pid (w_DB w) kind = Some (get s)" if "kind \<in> set existing"
      using Cons.prems(3,4) spec that by blast
    with persistOne_holds [OF Cons.prems(1) spec, of existing pid w s y u k] first True show ?thesis by simp
  next
    case False
    have "plainOf env pid (w_DB w) k = Some (g s)" if "k \<in> set existing"
      using Cons.prems(3,4) k that by blast
    with persistOne_holds [OF Cons.prems(1) k _ first, of kind] False have "plainOf env pid (w_DB u) kind = plainOf env pid (w_DB w) kind" by simp
    with Cons.prems(4) spec that(2) False show ?thesis by simp
  qed
  show ?case
    by (rule Cons.IH [where w = u and K = "insert k K"]) (use Cons.prems held later in auto)
qed auto

section \<open>One attempt\<close>

lemma completeSecrets_holds:
  assumes "loadPersistedSecrets env pid d = (Inr (stored, persisted), d')" and "completeSecrets env stored persisted w = (Inr generated, w')"
    and "(kind, put, get) \<in> set persistedProjectSecretSpecs" and "kind \<in> set persisted"
  shows "plainOf env pid d kind = Some (get generated)"
proof -
  note loaded = loadSpecs_eq [OF assms(1) [unfolded loadPersistedSecrets_def]]
  from loaded assms(3,4) obtain p where p: "plainOf env pid d kind = Some p" by (force simp: credentialKinds_def)
  have "get stored = p"
    using loaded fold_fields [OF assms(3), of "\<lambda>kind g. plainOf env pid d kind" noProjectSecrets] p by simp
  moreover have "get generated = get stored"
    using assms(2,4) fillMissing_get [OF assms(3)] by (auto simp: completeSecrets_def andThen_eq_Inr split: if_splits)
  ultimately show ?thesis by (simp add: p)
qed

lemma load_complete:
  assumes "loadPersistedSecrets env pid d = (Inr (stored, persisted), d')"
  shows "completeSet persisted \<longleftrightarrow> set credentialKinds \<subseteq> set persisted"
proof -
  have "persisted = filter (isStored pid d) credentialKinds"
    using loadSpecs_eq [OF assms [unfolded loadPersistedSecrets_def]] by (simp add: credentialKinds_def)
  then show ?thesis using completeSet_iff [of "isStored pid d"] by auto
qed

text \<open>After the credentials step the database holds the credentials the attempt goes on with.\<close>

lemma attempt_holds:
  assumes "roundTrips env" and "set order = set credentialKinds"
    and load: "loadPersistedSecrets env pid d = (Inr (stored, persisted), d')"
    and generate: "completeSecrets env stored persisted w0 = (Inr generated, w1)"
    and secrets: "projectSecrets (w_DB w) = projectSecrets d"
    and persist: "(if completeSet persisted then ret () else persistSecrets env order pid generated persisted) w = (Inr x, w')"
  shows "credentialsHeld env pid generated (w_DB w')"
proof (rule credentialsHeldI)
  fix kind put get
  assume spec: "(kind, put, get) \<in> set persistedProjectSecretSpecs"
  then have kind: "kind \<in> set credentialKinds" by (force simp: credentialKinds_def)
  have held: "plainOf env pid (w_DB w) kind = Some (get generated)"
    if "(kind, put, get) \<in> set persistedProjectSecretSpecs" "kind \<in> set persisted" for kind put get
    using completeSecrets_holds [OF load generate that] plainOf_secrets [OF secrets] by simp
  show "plainOf env pid (w_DB w') kind = Some (get generated)"
  proof (cases "completeSet persisted")
    case True
    with kind load_complete [OF load] have "kind \<in> set persisted" by blast
    from held [OF spec this] persist True show ?thesis by simp
  next
    case False
    with persist have run: "persistSecrets env order pid generated persisted w = (Inr x, w')" by simp
    show ?thesis
      by (rule persistSecrets_holds [OF assms(1), where K = "set persisted" and w = w and existing = persisted and s = generated and order = order])
        (use assms(2) kind held run spec in auto)
  qed
qed

section \<open>Every request carries stored credentials\<close>

text \<open>Steps that keep the stored secrets and send no runtime.\<close>

definition credKeeps :: "world \<Rightarrow> world \<Rightarrow> bool" where
  "credKeeps w w' \<longleftrightarrow> projectSecrets (w_DB w') = projectSecrets (w_DB w) \<and>
     (\<forall>request. SentReconcile request \<in> set (w_Sent w') \<longleftrightarrow> SentReconcile request \<in> set (w_Sent w))"

interpretation credKeeps: monitor credKeeps
  by unfold_locales (auto simp: credKeeps_def)

lemma credKeeps_calm: "obeys calm m \<Longrightarrow> obeys credKeeps m"
  by (erule obeys_mono) (simp add: calm_def settled_def credKeeps_def)

lemma credKeeps_opCall:
  assumes "\<And>now d. projectSecrets (snd (f now d)) = projectSecrets d"
  shows "obeys credKeeps (opCall env f)"
  using assms by (simp add: obeys_def credKeeps_def opCall_def andThen_def currentTime_def onDb_run)

lemma service_secrets: "projectSecrets (snd (andThen (requireStatus oid s) (\<lambda>op. update op (u op)) d)) = projectSecrets d"
  using requireStatus_state [of oid s d]
  by (auto simp: andThen_def update_def UpdateOperation_def inTx_def appendOperationEvent_def mapErr_def requireOperation_def
      split: prod.splits sum.splits if_splits)

lemma credKeeps_service [obeys_intros]:
  "obeys credKeeps (opCall env (\<lambda>now. Start now oid))" "obeys credKeeps (opCall env (\<lambda>now. StartStep now oid step progress))"
  "obeys credKeeps (opCall env (\<lambda>now. CompleteStep now oid step progress))" "obeys credKeeps (opCall env (\<lambda>now. Fail now oid step cause))"
  "obeys credKeeps (opCall env (\<lambda>now. BeginRollback now oid))" "obeys credKeeps (opCall env (\<lambda>now. CompleteRollback now oid))"
  "obeys credKeeps (opCall env (\<lambda>now. Succeed now oid))"
  by (rule credKeeps_opCall, simp add: call_defs service_secrets)+

lemma credKeeps_steps [obeys_intros]:
  "obeys credKeeps (opCall env (UpdateProjectStatus pid status health))" "obeys credKeeps (Lifecycle env request)"
  "obeys credKeeps (checkHealth env project cfg)" "obeys credKeeps (onDb (GetOperation oid))"
  by (rule credKeeps_calm, rule calm_opCall, rule settled_statements)
    (auto simp: obeys_def credKeeps_def Lifecycle_def checkHealth_def Inspect_def andThen_def orErr_def orFail_def onDb_run GetOperation_def
      split: option.splits sum.splits)

lemma credKeeps_latestOperation [obeys_intros]: "obeys credKeeps (latestOperation oid)"
  unfolding latestOperation_def by (intro obeys_intros)

lemma credKeeps_rollback [obeys_intros]: "obeys credKeeps (rollback env project oid step cause)"
  unfolding rollback_def by (intro obeys_intros)

definition carries :: "environment \<Rightarrow> string \<Rightarrow> database \<Rightarrow> ProvisionerCall list \<Rightarrow> world \<Rightarrow> bool" where
  "carries env pid d0 sent w \<longleftrightarrow> (\<forall>request. SentReconcile request \<in> set (w_Sent w) \<longrightarrow> SentReconcile request \<in> set sent \<or>
     (\<exists>s dashboard. credentialsHeld env pid s (w_DB w) \<and> rr_Secrets request = s\<lparr>ps_DashboardPassword := dashboard\<rparr> \<and>
        (\<forall>s0. credentialsHeld env pid s0 d0 \<longrightarrow> s = s0)))"

definition noNew :: "ProvisionerCall list \<Rightarrow> world \<Rightarrow> bool" where
  "noNew sent w \<longleftrightarrow> (\<forall>request. SentReconcile request \<in> set (w_Sent w) \<longrightarrow> SentReconcile request \<in> set sent)"

definition credInv :: "(world \<Rightarrow> bool) \<Rightarrow> bool" where
  "credInv P \<longleftrightarrow> (\<forall>w w'. credKeeps w w' \<longrightarrow> P w \<longrightarrow> P w')"

lemma load_secrets: "projectSecrets d = projectSecrets d' \<Longrightarrow> fst (loadPersistedSecrets env pid d) = fst (loadPersistedSecrets env pid d')"
proof -
  assume same: "projectSecrets d = projectSecrets d'"
  have read: "GetSecret pid kind d = (r, d) \<longleftrightarrow> GetSecret pid kind d' = (r, d')" for kind r
    using same by (simp add: GetSecret_def split: option.splits)
  have "fst (loadSpecs env pid specs result found d) = fst (loadSpecs env pid specs result found d')" for specs result found
  proof (induction specs arbitrary: result found)
    case (Cons spec specs)
    obtain kind put get r where spec: "spec = (kind, put, get)" and r: "GetSecret pid kind d = (r, d)" using GetSecret_run by (cases spec) blast
    with read have "GetSecret pid kind d' = (r, d')" by blast
    with r Cons.IH show ?case by (cases r) (simp_all add: spec andThen_def attempt_def split: sum.splits)
  qed simp
  then show ?thesis by (simp add: loadPersistedSecrets_def)
qed

lemma credentialsHeld_secrets: "projectSecrets d = projectSecrets d' \<Longrightarrow> credentialsHeld env pid s d = credentialsHeld env pid s d'"
  by (simp add: credentialsHeld_def load_secrets [of d d'])

lemma credInv_intros:
  "credInv (carries env pid d0 sent)" "credInv (noNew sent)" "credInv (\<lambda>w. credentialsHeld env pid s (w_DB w))"
  "credInv (\<lambda>w. projectSecrets (w_DB w) = t)" "credInv (\<lambda>w. B)"
proof -
  have held: "credentialsHeld env pid s (w_DB w') = credentialsHeld env pid s (w_DB w)" if "credKeeps w w'" for s w w'
    by (rule credentialsHeld_secrets) (use that in \<open>simp add: credKeeps_def\<close>)
  have log: "SentReconcile request \<in> set (w_Sent w') \<longleftrightarrow> SentReconcile request \<in> set (w_Sent w)" if "credKeeps w w'" for w w' request
    using that by (simp add: credKeeps_def)
  have "carries env pid d0 sent w' = carries env pid d0 sent w" "noNew sent w' = noNew sent w" if k: "credKeeps w w'" for w w'
    unfolding carries_def noNew_def held [OF k] log [OF k] by (rule refl)+
  with held show "credInv (carries env pid d0 sent)" "credInv (noNew sent)" "credInv (\<lambda>w. credentialsHeld env pid s (w_DB w))"
    unfolding credInv_def by blast+
qed (auto simp: credInv_def credKeeps_def)

lemma credInv_conj: "credInv P \<Longrightarrow> credInv Q \<Longrightarrow> credInv (\<lambda>w. P w \<and> Q w)"
  by (auto simp: credInv_def)

lemma noNew_carries: "noNew sent w \<Longrightarrow> carries env pid d0 sent w"
  by (auto simp: noNew_def carries_def)

lemma kept: "obeys credKeeps m \<Longrightarrow> credInv P \<Longrightarrow> triple P m (\<lambda>_. P) (\<lambda>_. P)"
  by (rule tripleI) (auto simp: credInv_def dest: obeysD)

lemma guarded_carries:
  assumes "triple P m R (\<lambda>_. carries env pid d0 sent)" and "\<And>x. triple (R x) (k x) (\<lambda>_. carries env pid d0 sent) (\<lambda>_. carries env pid d0 sent)"
  shows "triple P (orRollback env' project oid step m k) (\<lambda>_. carries env pid d0 sent) (\<lambda>_. carries env pid d0 sent)"
  unfolding orRollback_def
  by (rule then_branch [OF assms(1)]) (simp_all add: assms(2) kept [OF credKeeps_rollback credInv_intros(1)])

lemma step_carries:
  assumes "triple P action R (\<lambda>_. carries env pid d0 sent)" and "credInv P" and "\<And>x. credInv (R x)"
    and "\<And>w. P w \<Longrightarrow> carries env pid d0 sent w" and "\<And>x w. R x w \<Longrightarrow> carries env pid d0 sent w"
  shows "triple P (installStep env' oid name progress action) R (\<lambda>_. carries env pid d0 sent)"
  unfolding installStep_def
proof (rule triple_andThen)
  show "triple P (opCall env' (\<lambda>now. StartStep now oid name progress)) (\<lambda>_. P) (\<lambda>_. carries env pid d0 sent)"
    by (rule triple_conseq [OF kept [OF credKeeps_service(2) assms(2)]]) (auto simp: assms(4))
  show "triple P (andThen action (\<lambda>x. andThen (opCall env' (\<lambda>now. CompleteStep now oid name progress)) (\<lambda>_. ret x))) R
      (\<lambda>_. carries env pid d0 sent)" for y :: unit
  proof (rule triple_andThen [OF assms(1)], rule triple_andThen)
    show "triple (R x) (opCall env' (\<lambda>now. CompleteStep now oid name progress)) (\<lambda>_. R x) (\<lambda>_. carries env pid d0 sent)" for x
      by (rule triple_conseq [OF kept [OF credKeeps_service(3) assms(3)]]) (auto simp: assms(5))
  qed (simp add: triple_ret)
qed

lemma carries_Reconcile:
  assumes "secrets = s\<lparr>ps_DashboardPassword := dashboard\<rparr>" and "\<And>s0. credentialsHeld env pid s0 d0 \<Longrightarrow> s = s0"
  shows "triple (\<lambda>w. credentialsHeld env pid s (w_DB w) \<and> noNew sent w) (Reconcile env (installRequest project oid cfg secrets runtime))
    (\<lambda>_. carries env pid d0 sent) (\<lambda>_. carries env pid d0 sent)"
proof -
  have "carries env pid d0 sent (w\<lparr>w_Sent := w_Sent w @ [SentReconcile (installRequest project oid cfg secrets runtime)], w_Steps := n\<rparr>)"
    if "credentialsHeld env pid s (w_DB w)" "noNew sent w" for w n
    using that assms by (fastforce simp: carries_def noNew_def installRequest_def)
  then show ?thesis
    by (intro tripleI) (auto simp: Reconcile_def andThen_def orFail_def split: sum.splits)
qed

lemma startRuntime_carries:
  assumes "secrets = s\<lparr>ps_DashboardPassword := dashboard\<rparr>" and "\<And>s0. credentialsHeld env pid s0 d0 \<Longrightarrow> s = s0"
  shows "triple (\<lambda>w. credentialsHeld env pid s (w_DB w) \<and> noNew sent w) (startRuntime env project current cfg secrets runtime)
    (\<lambda>_. carries env pid d0 sent) (\<lambda>_. carries env pid d0 sent)"
proof -
  let ?P = "\<lambda>w. credentialsHeld env pid s (w_DB w) \<and> noNew sent w" and ?Q = "carries env pid d0 sent"
  note Q = credInv_intros(1)
  have P: "credInv ?P" by (intro credInv_conj credInv_intros)
  have sent: "triple ?P (installStep env (op_ID current) name progress (Reconcile env (installRequest project (op_ID current) cfg secrets runtime)))
      (\<lambda>_. ?Q) (\<lambda>_. ?Q)" for name progress
    by (rule step_carries [OF carries_Reconcile [OF assms] P Q]) (auto simp: noNew_carries)
  have step: "triple ?Q (installStep env (op_ID current) name progress m) (\<lambda>_. ?Q) (\<lambda>_. ?Q)" if "obeys credKeeps m" for name progress m
    by (rule step_carries [OF kept [OF that Q] Q Q])
  have finish: "triple ?Q (andThen (attempt (opCall env (\<lambda>now. Succeed now (op_ID current)))) (\<lambda>ended. case ended of
          Inl e \<Rightarrow> ret (Some current, Some e)
        | Inr _ \<Rightarrow> andThen (attempt (onDb (GetOperation (op_ID current)))) (\<lambda>got. case got of
            Inl e \<Rightarrow> ret (None, Some e) | Inr op \<Rightarrow> ret (Some op, None)))) (\<lambda>_. ?Q) (\<lambda>_. ?Q)"
    by (rule kept [OF _ Q]) (intro obeys_intros)
  show ?thesis
    unfolding startRuntime_def Let_def
    by (intro guarded_carries [OF sent] guarded_carries [OF step] guarded_carries [OF kept [OF _ Q]] finish credKeeps_steps)
qed

lemma studio_changes_dashboard:
  assumes "applyConfiguredStudioPassword env pid cfg s d = (Inr secrets, d')"
  shows "\<exists>dashboard. secrets = s\<lparr>ps_DashboardPassword := dashboard\<rparr>"
proof -
  have same: "\<exists>dashboard. s = s\<lparr>ps_DashboardPassword := dashboard\<rparr>" by (rule exI [of _ "ps_DashboardPassword s"]) simp
  have any: "triple (\<lambda>_. True) m (\<lambda>_ _. True) (\<lambda>_ _. True)" for m :: "(database, goerr + Envelope) act" by (rule tripleI) simp_all
  have "triple (\<lambda>_. True) (applyConfiguredStudioPassword env pid cfg s)
      (\<lambda>secrets _. \<exists>dashboard. secrets = s\<lparr>ps_DashboardPassword := dashboard\<rparr>) (\<lambda>_ _. True)"
    unfolding applyConfiguredStudioPassword_def
    by (intro triple_if triple_andThen [OF any] triple_case_sum triple_ret triple_throw) (auto intro: same)
  from triple_InrD [OF this _ assms] show ?thesis by simp
qed

lemma complete_agrees:
  assumes "loadPersistedSecrets env pid d0 = (Inr (stored, persisted), d')" and "completeSecrets env stored persisted w = (Inr generated, w')"
    and "credentialsHeld env pid s0 d0"
  shows "generated = s0"
proof -
  have "stored = s0" "persisted = credentialKinds" using assms(1,3) by (simp_all add: credentialsHeld_def)
  then show ?thesis using assms(2) by (simp add: completeSecrets_def completeSet_def credentialKinds_def)
qed

lemma persist_carries:
  assumes "roundTrips env" and "set order = set credentialKinds"
    and load: "loadPersistedSecrets env pid d0 = (Inr (stored, persisted), d0)"
    and generate: "completeSecrets env stored persisted w0 = (Inr generated, w1)"
  shows "triple (\<lambda>w. projectSecrets (w_DB w) = projectSecrets d0 \<and> noNew sent w)
    (if completeSet persisted then ret () else persistSecrets env order pid generated persisted)
    (\<lambda>_ w. credentialsHeld env pid generated (w_DB w) \<and> noNew sent w) (\<lambda>_. carries env pid d0 sent)"
proof -
  let ?m = "if completeSet persisted then ret () else persistSecrets env order pid generated persisted"
  have "obeys steady ?m" by (intro obeys_intros steady_persistSecrets)
  then have log: "noNew sent w'" if "?m w = (r, w')" "noNew sent w" for w r w'
    using obeysD [of steady ?m w r w'] that by (simp add: steady_def noNew_def)
  show ?thesis
    by (rule tripleI) (use attempt_holds [OF assms(1,2) load generate] log in \<open>auto intro: noNew_carries\<close>)
qed

lemma load_carries:
  "triple (\<lambda>w. projectSecrets (w_DB w) = projectSecrets d0 \<and> noNew sent w) (onDb (loadPersistedSecrets env pid))
     (\<lambda>r w. (projectSecrets (w_DB w) = projectSecrets d0 \<and> noNew sent w) \<and> loadPersistedSecrets env pid d0 = (Inr r, d0))
     (\<lambda>_. carries env pid d0 sent)" (is "triple ?A _ _ (\<lambda>_. ?Q)")
proof (rule tripleI)
  have frozen: "loadPersistedSecrets env pid d = (r, d') \<Longrightarrow> d' = d" for d r d'
    using obeysD [OF frozen_install_reads(1)] by (simp add: frozen_def)
  show "?A t \<and> loadPersistedSecrets env pid d0 = (Inr x, d0)" if "?A w" "onDb (loadPersistedSecrets env pid) w = (Inr x, t)" for w x t
  proof -
    from that(2) obtain d where d: "loadPersistedSecrets env pid (w_DB w) = (Inr x, d)" "t = w\<lparr>w_DB := d\<rparr>" by (auto simp: onDb_eq)
    with frozen [OF d(1)] that(1) show ?thesis
      using load_secrets [of d0 "w_DB w" env pid] frozen [of d0] by (cases "loadPersistedSecrets env pid d0") (auto simp: noNew_def)
  qed
  show "?Q t" if "?A w" "onDb (loadPersistedSecrets env pid) w = (Inl e, t)" for w e t
    using that frozen by (auto simp: onDb_eq intro!: noNew_carries) (simp add: noNew_def)
qed

lemma hydrated_carries:
  assumes agree: "\<And>s0. credentialsHeld env (p_ID project) s0 d0 \<Longrightarrow> generated = s0"
  shows "triple (\<lambda>w. credentialsHeld env (p_ID project) generated (w_DB w) \<and> noNew sent w)
    (orRollback env project (op_ID current) step1 (onDb (applyConfiguredStudioPassword env (p_ID project) cfg generated)) (\<lambda>secrets.
      orRollback env project (op_ID current) step2 (onDb (hydrateConfiguredSecrets env (p_ID project) cfg)) (\<lambda>runtime.
      startRuntime env project current cfg secrets runtime)))
    (\<lambda>_. carries env (p_ID project) d0 sent) (\<lambda>_. carries env (p_ID project) d0 sent)" (is "triple ?H _ (\<lambda>_. ?Q) _")
proof (rule guarded_carries)
  let ?pid = "p_ID project"
  have H: "credInv ?H" by (intro credInv_conj credInv_intros)
  have "triple (?H) (onDb (applyConfiguredStudioPassword env ?pid cfg generated)) (\<lambda>_. ?H) (\<lambda>_. ?H)"
    by (rule kept [OF credKeeps_calm [OF calm_reads(3)] H])
  then show "triple (?H) (onDb (applyConfiguredStudioPassword env ?pid cfg generated))
      (\<lambda>secrets w. ?H w \<and> (\<exists>dashboard. secrets = generated\<lparr>ps_DashboardPassword := dashboard\<rparr>)) (\<lambda>_. ?Q)"
    by (intro tripleI) (auto simp: onDb_eq dest: triple_InlD triple_InrD studio_changes_dashboard intro: noNew_carries)
  have hydrated: "triple (?H) (onDb (hydrateConfiguredSecrets env ?pid cfg)) (\<lambda>_. ?H) (\<lambda>_. ?Q)"
    by (rule triple_conseq [OF kept [OF credKeeps_calm [OF calm_reads(2)] H]]) (auto intro: noNew_carries)
  show "triple (\<lambda>w. ?H w \<and> (\<exists>dashboard. secrets = generated\<lparr>ps_DashboardPassword := dashboard\<rparr>))
      (orRollback env project (op_ID current) step2 (onDb (hydrateConfiguredSecrets env ?pid cfg)) (\<lambda>runtime.
        startRuntime env project current cfg secrets runtime)) (\<lambda>_. ?Q) (\<lambda>_. ?Q)" for secrets
    by (rule triple_pure, erule exE) (rule guarded_carries [OF hydrated startRuntime_carries [OF _ agree]])
qed

lemma installSecrets_carries:
  assumes "roundTrips env" and "set order = set credentialKinds"
  shows "triple (\<lambda>w. projectSecrets (w_DB w) = projectSecrets d0 \<and> noNew sent w) (installSecrets env order project current cfg)
    (\<lambda>_. carries env (p_ID project) d0 sent) (\<lambda>_. carries env (p_ID project) d0 sent)"
proof -
  let ?pid = "p_ID project" and ?A = "\<lambda>w. projectSecrets (w_DB w) = projectSecrets d0 \<and> noNew sent w"
  let ?Q = "carries env ?pid d0 sent" and ?H = "\<lambda>s w. credentialsHeld env ?pid s (w_DB w) \<and> noNew sent w"
  have A: "credInv ?A" and H: "credInv (?H s)" for s by (intro credInv_conj credInv_intros)+
  show ?thesis
    unfolding installSecrets_def Let_def
  proof (rule guarded_carries [OF load_carries], rule triple_case_prod, rule triple_pure)
    fix r stored persisted
    assume "r = (stored, persisted)" and "loadPersistedSecrets env ?pid d0 = (Inr r, d0)"
    then have load: "loadPersistedSecrets env ?pid d0 = (Inr (stored, persisted), d0)" by simp
    have "triple ?A (completeSecrets env stored persisted) (\<lambda>_. ?A) (\<lambda>_. ?A)"
      by (rule kept [OF credKeeps_calm [OF calm_completeSecrets] A])
    then have generated: "triple ?A (completeSecrets env stored persisted)
        (\<lambda>generated w. ?A w \<and> (\<exists>w0 w1. completeSecrets env stored persisted w0 = (Inr generated, w1))) (\<lambda>_. ?Q)"
      by (intro tripleI) (auto dest: triple_InlD triple_InrD intro: noNew_carries)
    have stored: "triple ?A (installStep env (op_ID current) name progress
        (if completeSet persisted then ret () else persistSecrets env order ?pid generated persisted)) (\<lambda>_. ?H generated) (\<lambda>_. ?Q)"
      if "completeSecrets env stored persisted w0 = (Inr generated, w1)" for generated w0 w1 name progress
      by (rule step_carries [OF persist_carries [OF assms load that] A H]) (auto intro: noNew_carries)
    show "triple ?A (orRollback env project (op_ID current) ''GENERATE_SECRETS'' (completeSecrets env stored persisted) (\<lambda>generated.
      orRollback env project (op_ID current) ''GENERATE_SECRETS'' (installStep env (op_ID current) ''GENERATE_SECRETS'' 15
        (if completeSet persisted then ret () else persistSecrets env order ?pid generated persisted)) (\<lambda>_.
      orRollback env project (op_ID current) ''HYDRATE_SECRETS'' (onDb (applyConfiguredStudioPassword env ?pid cfg generated)) (\<lambda>secrets.
      orRollback env project (op_ID current) ''HYDRATE_SECRETS'' (onDb (hydrateConfiguredSecrets env ?pid cfg)) (\<lambda>runtime.
      startRuntime env project current cfg secrets runtime))))) (\<lambda>_. ?Q) (\<lambda>_. ?Q)"
      by (rule guarded_carries [OF generated], rule triple_pure, elim exE)
        (rule guarded_carries [OF stored], assumption, rule hydrated_carries, rule complete_agrees [OF load])
  qed
qed

text \<open>
  (C30) Credentials are stored before they are used, and retries reuse them: with a cipher that
  decrypts what it encrypted, every runtime an installation sends to the Provisioner carries
  credentials that the database holds completely when the run ends (up to the Studio password, which
  has its own secret), and if a complete set was stored when the run began, it is that set. So the
  password of an existing database volume never changes between attempts.
\<close>

theorem installation_credentials_are_stable:
  assumes "roundTrips env" and "set order = set credentialKinds"
    and "InstallOrchestrator.Run env allocator order project current w = (r, w')"
  shows "carries env (p_ID project) (w_DB w) (w_Sent w) w'"
proof -
  let ?pid = "p_ID project" and ?oid = "op_ID current"
  let ?A = "\<lambda>u. projectSecrets (w_DB u) = projectSecrets (w_DB w) \<and> noNew (w_Sent w) u" and ?Q = "carries env (p_ID project) (w_DB w) (w_Sent w)"
  have A: "credInv ?A" by (intro credInv_conj credInv_intros)
  have keep: "triple ?A m (\<lambda>_. ?A) (\<lambda>_. ?Q)" if "obeys credKeeps m" for m :: "(world, 'a) act"
    by (rule triple_conseq [OF kept [OF that A]]) (auto intro: noNew_carries)
  have ports: "triple ?A (installStep env ?oid name progress (validatePorts env allocator ?pid cfg)) (\<lambda>_. ?A) (\<lambda>_. ?Q)" for name progress cfg
    by (rule step_carries [OF keep [OF credKeeps_calm [OF calm_validatePorts]] A A]) (auto intro: noNew_carries)
  have "triple ?A (InstallOrchestrator.Run env allocator order project current) (\<lambda>_. ?Q) (\<lambda>_. ?Q)"
    unfolding InstallOrchestrator.Run_def Let_def
  proof (rule triple_andThen [OF keep], goal_cases)
    case (2 started)
    have loaded: "triple ?A (onDb (GetDesiredConfiguration ?pid)) (\<lambda>_. ?A) (\<lambda>_. ?Q)" by (rule keep [OF credKeeps_calm [OF calm_reads(4)]])
    have status: "triple ?A (ignoreErr (opCall env (UpdateProjectStatus ?pid ProjectStatusInstalling HealthStarting))) (\<lambda>_. ?A) (\<lambda>_. ?Q)"
      by (rule keep) (intro obeys_intros)
    show ?case
      by (rule triple_case_sum, rule triple_ret, simp add: noNew_carries, rule triple_andThen [OF status],
          rule guarded_carries [OF loaded], rule guarded_carries [OF ports], rule installSecrets_carries [OF assms(1,2)])
  qed (intro obeys_intros)
  moreover have "?A w" by (simp add: noNew_def)
  ultimately show ?thesis
    using assms(3) by (cases r) (auto dest: triple_InlD triple_InrD)
qed

theorem installation_credentials_are_stable_witness:
  "carries sampleEnvironment ''bee'' (w_DB updateWorld) [] (snd (InstallOrchestrator.Run sampleEnvironment \<lparr>al_Min = 8000, al_Max = 8001\<rparr>
     credentialKinds (sampleProject ''bee'' ''shop'') updateOperation updateWorld))"
proof -
  let ?run = "InstallOrchestrator.Run sampleEnvironment \<lparr>al_Min = 8000, al_Max = 8001\<rparr> credentialKinds (sampleProject ''bee'' ''shop'')
    updateOperation updateWorld"
  have "roundTrips sampleEnvironment" by (simp add: roundTrips_def sampleEnvironment_def)
  moreover have "p_ID (sampleProject ''bee'' ''shop'') = ''bee''" "w_Sent updateWorld = []"
    by (simp_all add: sampleProject_def updateWorld_def newWorld_def)
  ultimately show ?thesis
    using installation_credentials_are_stable [of sampleEnvironment credentialKinds "\<lparr>al_Min = 8000, al_Max = 8001\<rparr>" "sampleProject ''bee'' ''shop''"
        updateOperation updateWorld "fst ?run" "snd ?run"] by simp
qed

text \<open>
  (C31) An attempt that stops while it stores the credentials leaves a mixed set behind: when the JWT
  secret is stored and the anonymous key is not, the next attempt keeps the old JWT secret and takes
  the anonymous key from a fresh generation, which was signed with another JWT secret.
\<close>

theorem interrupted_credentials_mix:
  assumes "loadPersistedSecrets env pid d = (Inr (stored, persisted), d')"
    and "''jwt-secret'' \<in> set persisted" and "''anon-key'' \<notin> set persisted" and "e_Generate env (w_Steps w) = Inr fresh"
  shows "\<exists>generated w'. completeSecrets env stored persisted w = (Inr generated, w') \<and>
    plainOf env pid d ''jwt-secret'' = Some (ps_JWTSecret generated) \<and> ps_AnonKey generated = ps_AnonKey fresh"
proof -
  have specs: "(''jwt-secret'', \<lambda>v s. s\<lparr>ps_JWTSecret := v\<rparr>, ps_JWTSecret) \<in> set persistedProjectSecretSpecs"
    "(''anon-key'', \<lambda>v s. s\<lparr>ps_AnonKey := v\<rparr>, ps_AnonKey) \<in> set persistedProjectSecretSpecs"
    by (simp_all add: persistedProjectSecretSpecs_def)
  have "\<not> completeSet persisted"
    using load_complete [OF assms(1)] assms(3) specs(2) by (force simp: credentialKinds_def)
  then have run: "completeSecrets env stored persisted w = (Inr (fillMissing persisted fresh stored), w\<lparr>w_Steps := Suc (w_Steps w)\<rparr>)"
    by (simp add: completeSecrets_def andThen_def assms(4))
  from completeSecrets_holds [OF assms(1) run specs(1) assms(2)] run assms(3) show ?thesis
    by (auto simp: fillMissing_get [OF specs(2)])
qed

text \<open>A cipher whose source of randomness dries up after one secret.\<close>

definition drainedEnvironment :: environment where
  "drainedEnvironment = sampleEnvironment\<lparr>
     e_Encrypt := (\<lambda>n pid kind plain. if n = 0 then Inr \<lparr>env_Version = 1, env_Nonce = [], env_Ciphertext = plain\<rparr> else Inl (ErrorsNew ''EOF'')),
     e_Generate := (\<lambda>n. Inr (noProjectSecrets\<lparr>ps_JWTSecret := ''second'', ps_AnonKey := ''signed with second''\<rparr>))\<rparr>"

definition firstCredentials :: ProjectSecrets where
  "firstCredentials = noProjectSecrets\<lparr>ps_JWTSecret := ''first'', ps_AnonKey := ''signed with first''\<rparr>"

theorem interrupted_credentials_mix_witness:
  "\<exists>e w stored persisted generated w'.
     persistSecrets drainedEnvironment [''jwt-secret'', ''anon-key''] ''bee'' firstCredentials [] (newWorld storedBee) = (Inl e, w) \<and>
     loadPersistedSecrets drainedEnvironment ''bee'' (w_DB w) = (Inr (stored, persisted), w_DB w) \<and>
     completeSecrets drainedEnvironment stored persisted w = (Inr generated, w') \<and>
     ps_JWTSecret generated = ''first'' \<and> ps_AnonKey generated = ''signed with second''"
proof -
  obtain w where run: "persistSecrets drainedEnvironment [''jwt-secret'', ''anon-key''] ''bee'' firstCredentials [] (newWorld storedBee) =
      (Inl (ErrorsNew ''EOF''), w)" and secrets: "projectSecrets (w_DB w) =
      [\<lparr>sec_Project = ''bee'', sec_Kind = ''jwt-secret'', sec_Envelope = \<lparr>env_Version = 1, env_Nonce = [], env_Ciphertext = ''first''\<rparr>\<rparr>]"
    by (simp add: persistSecrets_def persistOne_def Encrypt_def andThen_def onDb_run drainedEnvironment_def firstCredentials_def
        secretValues_def mapGet_def noProjectSecrets_def newWorld_def storedBee_def emptyDatabase_def PutSecret_def upsertSecret_def
        requireProject_def mapErr_def existsWhere_def projectIds_def sampleProject_def Project.defs)
  have decrypt: "e_Decrypt drainedEnvironment pid kind envelope = Inr (env_Ciphertext envelope)" for pid kind envelope
    by (simp add: drainedEnvironment_def sampleEnvironment_def)
  let ?stored = "noProjectSecrets\<lparr>ps_JWTSecret := ''first''\<rparr>"
  have load: "loadPersistedSecrets drainedEnvironment ''bee'' (w_DB w) = (Inr (?stored, [''jwt-secret'']), w_DB w)"
    by (simp add: loadPersistedSecrets_def persistedProjectSecretSpecs_def andThen_def attempt_def GetSecret_def secrets decrypt)
  obtain generated w' where "completeSecrets drainedEnvironment ?stored [''jwt-secret''] w = (Inr generated, w')"
    and jwt: "plainOf drainedEnvironment ''bee'' (w_DB w) ''jwt-secret'' = Some (ps_JWTSecret generated)" and "ps_AnonKey generated = ''signed with second''"
    using interrupted_credentials_mix [OF load, of w "noProjectSecrets\<lparr>ps_JWTSecret := ''second'', ps_AnonKey := ''signed with second''\<rparr>"]
    by (auto simp: drainedEnvironment_def)
  moreover from jwt have "ps_JWTSecret generated = ''first''" by (simp add: plainOf_def GetSecret_def secrets decrypt)
  ultimately show ?thesis using run load by blast
qed

end
