(* ===== verification/GoEncoding.thy ===== *)
theory GoEncoding
  imports GoText "HOL-Library.Word"
begin

text \<open>
  Encodings of the standard library that the password hasher and the session tokens use. A Go
  \<^verbatim>\<open>[]byte\<close> is a string here: a \<open>char\<close> is one byte. \<^verbatim>\<open>base64.RawStdEncoding\<close> and
  \<^verbatim>\<open>base64.RawURLEncoding\<close> work on groups of three bytes and four digits, \<^verbatim>\<open>base32\<close> without padding on
  groups of five bytes and eight digits; a last incomplete group is filled with zero bits and its
  digits cut off. \<^verbatim>\<open>fmt.Sscanf\<close> is modelled for literals and \<^verbatim>\<open>%d\<close> into an \<^verbatim>\<open>int\<close> or an unsigned
  integer of a given width; a failed scan is \<open>None\<close> because the sources only test whether it failed.
\<close>

section \<open>Bytes and digits\<close>

abbreviation byteOf :: "nat \<Rightarrow> char" where "byteOf \<equiv> char_of"
abbreviation valueOf :: "char \<Rightarrow> nat" where "valueOf \<equiv> of_char"

definition stdAlphabet :: string where
  "stdAlphabet = ''ABCDEFGHIJKLMNOPQRSTUVWXYZabcdefghijklmnopqrstuvwxyz0123456789+/''"

definition urlAlphabet :: string where
  "urlAlphabet = ''ABCDEFGHIJKLMNOPQRSTUVWXYZabcdefghijklmnopqrstuvwxyz0123456789-_''"

definition base32Alphabet :: string where
  "base32Alphabet = ''ABCDEFGHIJKLMNOPQRSTUVWXYZ234567''"

fun indexOf :: "char \<Rightarrow> string \<Rightarrow> nat option" where
  "indexOf c [] = None"
| "indexOf c (a # s) = (if a = c then Some 0 else map_option Suc (indexOf c s))"

lemma indexOf_nth: "distinct s \<Longrightarrow> i < length s \<Longrightarrow> indexOf (s ! i) s = Some i"
proof (induction s arbitrary: i)
  case (Cons a s)
  then show ?case by (cases i) (auto simp: in_set_conv_nth)
qed simp

lemma alphabets [simp]:
  "length stdAlphabet = 64" "length urlAlphabet = 64" "length base32Alphabet = 32"
  "distinct stdAlphabet" "distinct urlAlphabet"
  by (simp_all add: stdAlphabet_def urlAlphabet_def base32Alphabet_def)

section \<open>Base64\<close>

definition value24 :: "string \<Rightarrow> nat" where
  "value24 g = valueOf (g ! 0) * 65536 + valueOf (g ! 1) * 256 + valueOf (g ! 2)"

definition digits24 :: "nat \<Rightarrow> nat list" where
  "digits24 v = [v div 262144 mod 64, v div 4096 mod 64, v div 64 mod 64, v mod 64]"

definition undigits24 :: "nat list \<Rightarrow> nat" where
  "undigits24 q = q ! 0 * 262144 + q ! 1 * 4096 + q ! 2 * 64 + q ! 3"

definition bytes24 :: "nat \<Rightarrow> string" where
  "bytes24 v = [byteOf (v div 65536), byteOf (v div 256), byteOf v]"

definition zeroByte :: char where "zeroByte = CHR 0x00"

fun encode64 :: "string \<Rightarrow> string \<Rightarrow> string" where
  "encode64 al [] = []"
| "encode64 al [a] = map ((!) al) (take 2 (digits24 (value24 [a, zeroByte, zeroByte])))"
| "encode64 al [a, b] = map ((!) al) (take 3 (digits24 (value24 [a, b, zeroByte])))"
| "encode64 al (a # b # c # s) = map ((!) al) (digits24 (value24 [a, b, c])) @ encode64 al s"

text \<open>
  Decoding: carriage returns and line feeds are skipped, any other byte outside the alphabet is
  reported with its offset, and so is a last group of a single digit. \<open>q\<close> holds the digits of the
  current group, \<open>p\<close> the offset of the next byte.
\<close>

definition corruptInput :: "nat \<Rightarrow> goerr" where
  "corruptInput p = ErrorsNew (''illegal base64 data at input byte '' @ itoa (int p))"

fun decode64 :: "string \<Rightarrow> nat \<Rightarrow> nat list \<Rightarrow> string \<Rightarrow> goerr + string" where
  "decode64 al p q [] =
     (if q = [] then Inr []
      else if length q = 1 then Inl (corruptInput (p - 1))
      else Inr (take (length q - 1) (bytes24 (undigits24 (take 4 (q @ [0, 0, 0]))))))"
| "decode64 al p q (c # s) =
     (case indexOf c al of
        Some v \<Rightarrow>
          (if length q = 3
           then map_sum id ((@) (bytes24 (undigits24 (q @ [v])))) (decode64 al (Suc p) [] s)
           else decode64 al (Suc p) (q @ [v]) s)
      | None \<Rightarrow>
          (if c = CHR 0x0A \<or> c = CHR 0x0D then decode64 al (Suc p) q s
           else Inl (corruptInput p)))"

definition rawStdEncode :: "string \<Rightarrow> string" where "rawStdEncode = encode64 stdAlphabet"
definition rawURLEncode :: "string \<Rightarrow> string" where "rawURLEncode = encode64 urlAlphabet"
definition rawStdDecode :: "string \<Rightarrow> goerr + string" where
  "rawStdDecode = decode64 stdAlphabet 0 []"

lemma value24_less: "value24 [a, b, c] < 16777216"
  using nat_of_char_less_256 [of a] nat_of_char_less_256 [of b] nat_of_char_less_256 [of c]
  unfolding value24_def by (simp del: nat_of_char_less_256)

lemma undigits_digits: "v < 16777216 \<Longrightarrow> undigits24 (digits24 v) = v"
proof -
  assume "v < 16777216"
  then have "v div 4096 div 64 < 64" by (simp add: div_less_iff_less_mult flip: div_mult2_eq)
  then have top: "v div 262144 mod 64 = v div 4096 div 64" by (simp flip: div_mult2_eq)
  have "v = v div 64 * 64 + v mod 64" by simp
  moreover have "v div 64 = v div 4096 * 64 + v div 64 mod 64"
    using div_mult_mod_eq [of "v div 64" 64] by (simp flip: div_mult2_eq)
  moreover have "v div 4096 = v div 4096 div 64 * 64 + v div 4096 mod 64" by simp
  ultimately have "v = v div 4096 div 64 * 262144 + v div 4096 mod 64 * 4096 + v div 64 mod 64 * 64 + v mod 64"
    by linarith
  then show ?thesis by (simp add: undigits24_def digits24_def top)
qed

lemma bytes_value [simp]: "bytes24 (value24 [a, b, c]) = [a, b, c]"
proof -
  have "(valueOf a * 65536 + valueOf b * 256 + valueOf c) div 65536 = valueOf a"
    by (rule div_nat_eqI) (use nat_of_char_less_256 [of b] nat_of_char_less_256 [of c] in \<open>simp_all del: nat_of_char_less_256\<close>)
  moreover have "(valueOf a * 65536 + valueOf b * 256 + valueOf c) div 256 = valueOf a * 256 + valueOf b"
    by (rule div_nat_eqI) (use nat_of_char_less_256 [of c] in \<open>simp_all del: nat_of_char_less_256\<close>)
  moreover have last: "char_of (m * 256 + valueOf x) = x" for m x
    by (rule of_char_eqI [where 'a = nat]) (simp add: of_char_of)
  moreover have "char_of (valueOf a * 65536 + valueOf b * 256 + valueOf c) = c"
    using last [of "valueOf a * 256 + valueOf b" c] by (simp add: algebra_simps)
  ultimately show ?thesis
    by (simp add: bytes24_def value24_def)
qed

lemma decode64_group:
  assumes "distinct al" and "length al = 64"
  shows "decode64 al p [] (map ((!) al) (digits24 v) @ s) =
    map_sum id ((@) (bytes24 (undigits24 (digits24 v)))) (decode64 al (Suc (Suc (Suc (Suc p)))) [] s)"
  using assms by (simp add: digits24_def indexOf_nth)

lemma decode64_tail:
  assumes "distinct al" and "length al = 64"
  shows "decode64 al p [] (map ((!) al) (take 2 (digits24 v))) =
      Inr (take (Suc 0) (bytes24 (undigits24 (take 2 (digits24 v) @ [0, 0]))))"
    and "decode64 al p [] (map ((!) al) (take 3 (digits24 v))) =
      Inr (take (Suc (Suc 0)) (bytes24 (undigits24 (take 3 (digits24 v) @ [0]))))"
  using assms by (simp_all add: digits24_def indexOf_nth)

lemma cut_digits:
  "v mod 4096 = 0 \<Longrightarrow> take 2 (digits24 v) @ [0, 0] = digits24 v"
  "v mod 64 = 0 \<Longrightarrow> take 3 (digits24 v) @ [0] = digits24 v"
  by (auto simp: digits24_def elim!: dvdE dest!: mod_0_imp_dvd)

lemma decode64_encode64:
  assumes "distinct al" and "length al = 64"
  shows "decode64 al p [] (encode64 al s) = Inr s"
  using assms
proof (induction al s arbitrary: p rule: encode64.induct)
  case (2 al a)
  have "value24 [a, zeroByte, zeroByte] mod 4096 = 0" by (simp add: value24_def zeroByte_def)
  with 2 show ?case
    by (simp add: decode64_tail cut_digits undigits_digits value24_less del: decode64.simps)
next
  case (3 al a b)
  have "value24 [a, b, zeroByte] mod 64 = 0" by (simp add: value24_def zeroByte_def)
  with 3 show ?case
    by (simp add: decode64_tail cut_digits undigits_digits value24_less del: decode64.simps)
next
  case (4 al a b c s)
  then show ?case
    by (simp add: decode64_group undigits_digits value24_less del: decode64.simps)
qed simp

lemma rawStd_round_trip [simp]: "rawStdDecode (rawStdEncode s) = Inr s"
  by (simp add: rawStdDecode_def rawStdEncode_def decode64_encode64)

lemma encode64_digits: "length al = 64 \<Longrightarrow> set (encode64 al s) \<subseteq> set al"
  by (induction al s rule: encode64.induct) (auto simp: digits24_def)

lemma rawStdEncode_digits: "c \<in> set (rawStdEncode s) \<Longrightarrow> c \<in> set stdAlphabet"
  using encode64_digits [of stdAlphabet s] by (auto simp: rawStdEncode_def)

lemma encode64_inj:
  "distinct al \<Longrightarrow> length al = 64 \<Longrightarrow> encode64 al s = encode64 al t \<longleftrightarrow> s = t"
  by (metis decode64_encode64 sum.inject(2))

lemma rawURLEncode_inj [simp]: "rawURLEncode s = rawURLEncode t \<longleftrightarrow> s = t"
  by (simp add: rawURLEncode_def encode64_inj)

lemma rawURLEncode_Nil [simp]: "rawURLEncode s = [] \<longleftrightarrow> s = []"
  using rawURLEncode_inj [of s "[]"] by (simp add: rawURLEncode_def)

section \<open>Base32\<close>

definition value40 :: "string \<Rightarrow> nat" where
  "value40 g = foldl (\<lambda>n c. 256 * n + valueOf c) 0 g"

definition digits40 :: "nat \<Rightarrow> nat list" where
  "digits40 v = map (\<lambda>i. v div 32 ^ (7 - i) mod 32) [0..<8]"

fun encode32 :: "string \<Rightarrow> string" where
  "encode32 (a # b # c # d # e # s) =
     map ((!) base32Alphabet) (digits40 (value40 [a, b, c, d, e])) @ encode32 s"
| "encode32 s = map ((!) base32Alphabet) (take ((8 * length s + 4) div 5)
     (digits40 (value40 (take 5 (s @ replicate 5 zeroByte)))))"

section \<open>Sscanf\<close>

definition scanLiteral :: "string \<Rightarrow> string \<Rightarrow> string option" where
  "scanLiteral l s = (if prefix l s then Some (drop (length l) s) else None)"

text \<open>\<^verbatim>\<open>SkipSpace\<close> in a scan where a line feed is not space.\<close>

fun skipSpace :: "string \<Rightarrow> string option" where
  "skipSpace [] = Some []"
| "skipSpace (c # s) =
     (if c = CHR 0x0A then None
      else if isSpace c then skipSpace s
      else Some (c # s))"

definition scanDigits :: "string \<Rightarrow> (int \<times> string) option" where
  "scanDigits s = (if takeWhile isDigit s = [] then None
     else Some (readInt (takeWhile isDigit s), dropWhile isDigit s))"

definition scanUint :: "nat \<Rightarrow> string \<Rightarrow> (nat \<times> string) option" where
  "scanUint bits s = Option.bind (skipSpace s) (\<lambda>s.
     Option.bind (scanDigits s) (\<lambda>(v, s). if v < 2 ^ bits then Some (nat v, s) else None))"

definition scanInt :: "string \<Rightarrow> (int \<times> string) option" where
  "scanInt s = Option.bind (skipSpace s) (\<lambda>s.
     case s of [] \<Rightarrow> None
     | c # r \<Rightarrow>
       if c = CHR ''-'' then Option.bind (scanDigits r) (\<lambda>(v, s). if v \<le> 2 ^ 63 then Some (- v, s) else None)
       else Option.bind (scanDigits (if c = CHR ''+'' then r else s))
              (\<lambda>(v, s). if v < 2 ^ 63 then Some (v, s) else None))"

lemma isDigit_not_space: "isDigit c \<Longrightarrow> \<not> isSpace c \<and> c \<noteq> CHR 0x0A \<and> c \<noteq> CHR ''-'' \<and> c \<noteq> CHR ''+''"
  by (auto simp: isSpace_def inRange_def)

lemma scanDigits_showInt:
  assumes "0 \<le> i" and "s = [] \<or> \<not> isDigit (hd s)"
  shows "scanDigits (showInt i @ s) = Some (i, s)"
proof -
  have digits: "\<And>c. c \<in> set (showInt i) \<Longrightarrow> isDigit c" using assms(1) by (rule showInt_digits)
  then have "takeWhile isDigit (showInt i @ s) = showInt i @ takeWhile isDigit s"
    "dropWhile isDigit (showInt i @ s) = dropWhile isDigit s"
    by simp_all
  moreover have "takeWhile isDigit s = []" "dropWhile isDigit s = s"
    using assms(2) by (cases s; simp)+
  ultimately show ?thesis
    by (simp add: scanDigits_def readInt_showInt [OF assms(1)])
qed

lemma skipSpace_showInt: "0 \<le> i \<Longrightarrow> skipSpace (showInt i @ s) = Some (showInt i @ s)"
  using showInt_digits [of i "hd (showInt i)"] isDigit_not_space [of "hd (showInt i)"]
  by (cases "showInt i") simp_all

lemma scanUint_showInt:
  "0 \<le> i \<Longrightarrow> i < 2 ^ bits \<Longrightarrow> s = [] \<or> \<not> isDigit (hd s) \<Longrightarrow> scanUint bits (showInt i @ s) = Some (nat i, s)"
  by (simp add: scanUint_def skipSpace_showInt scanDigits_showInt)

lemma scanInt_showInt:
  assumes "0 \<le> i" and "i < 2 ^ 63"
  shows "scanInt (showInt i) = Some (i, [])"
proof -
  obtain c r where digits: "showInt i = c # r" by (cases "showInt i") simp_all
  then have "isDigit c" using showInt_digits [OF assms(1), of c] by simp
  then show ?thesis
    using skipSpace_showInt [OF assms(1), of "[]"] scanDigits_showInt [OF assms(1), of "[]"] assms(2)
      isDigit_not_space [of c]
    by (simp add: scanInt_def digits)
qed

end
