(* ===== verification/PasswordHasher.thy ===== *)
theory PasswordHasher
  imports GoEncoding World
begin

text \<open>
  \<^verbatim>\<open>auth/password.go\<close>: Argon2id password hashes in the PHC text form, with the parameters at their
  Go widths. \<open>AuthEnvironment\<close> is what the authentication code does not define itself: the clock, the
  random source, the Argon2id and SHA-256 functions, and the hasher's parameters. \<^verbatim>\<open>argon2.IDKey\<close>
  may panic (it does for zero rounds or zero lanes), which is \<open>None\<close>; \<open>lawfulHasher\<close> states what the
  package documents and the code relies on: a key has the length that was asked for.\<close>

section \<open>Parameters and environment\<close>

record Params =
  pm_Memory :: "32 word"
  pm_Iterations :: "32 word"
  pm_Parallelism :: "8 word"
  pm_SaltLength :: "32 word"
  pm_KeyLength :: "32 word"

definition DefaultParams :: Params where
  "DefaultParams = \<lparr>pm_Memory = 19 * 1024, pm_Iterations = 2, pm_Parallelism = 1,
     pm_SaltLength = 16, pm_KeyLength = 32\<rparr>"

record AuthEnvironment =
  au_Now :: "nat \<Rightarrow> gotime"
  au_Random :: "nat \<Rightarrow> goerr + (nat \<Rightarrow> char)"
  au_IDKey :: "string \<Rightarrow> string \<Rightarrow> 32 word \<Rightarrow> 32 word \<Rightarrow> 8 word \<Rightarrow> 32 word \<Rightarrow> string option"
  au_Argon2Version :: int
  au_SHA256 :: "string \<Rightarrow> string"
  au_Params :: Params

text \<open>\<^verbatim>\<open>io.ReadFull\<close> into a fresh buffer of \<open>n\<close> bytes.\<close>

definition readFull :: "AuthEnvironment \<Rightarrow> nat \<Rightarrow> (world, string) act" where
  "readFull env n = andThen (ask (au_Random env)) (\<lambda>r.
     andThen (orFail r) (\<lambda>byte. ret (map byte [0..<n])))"

definition panicked :: goerr where
  "panicked = ErrorsNew ''panic: argon2''"

section \<open>Hash and Verify\<close>

definition validateParams :: "Params \<Rightarrow> goerr option" where
  "validateParams params =
     (if pm_Memory params = 0 \<or> pm_Iterations params = 0 \<or> pm_Parallelism params = 0 \<or>
         pm_SaltLength params < 16 \<or> pm_KeyLength params < 32
      then Some (ErrorsNew ''invalid Argon2id parameters'') else None)"

definition hashText :: "AuthEnvironment \<Rightarrow> string \<Rightarrow> string \<Rightarrow> string" where
  "hashText env salt key = (let params = au_Params env in
     ''$argon2id$v='' @ itoa (au_Argon2Version env) @
     ''$m='' @ itoa (uint (pm_Memory params)) @
     '',t='' @ itoa (uint (pm_Iterations params)) @
     '',p='' @ itoa (uint (pm_Parallelism params)) @
     ''$'' @ rawStdEncode salt @ ''$'' @ rawStdEncode key)"

definition Hash :: "AuthEnvironment \<Rightarrow> string \<Rightarrow> (world, string) act" where
  "Hash env password = (let params = au_Params env in
     andThen (orErr (validateParams params)) (\<lambda>_.
     andThen (mapErr (\<lambda>e. Errorf ''generate password salt: '' e [])
                (readFull env (unat (pm_SaltLength params)))) (\<lambda>salt.
     case au_IDKey env password salt (pm_Iterations params) (pm_Memory params)
            (pm_Parallelism params) (pm_KeyLength params) of
       None \<Rightarrow> throw panicked
     | Some key \<Rightarrow> ret (hashText env salt key))))"

definition scanVersion :: "string \<Rightarrow> int option" where
  "scanVersion s = Option.bind (scanLiteral ''v='' s) (\<lambda>s. map_option fst (scanInt s))"

definition scanParams :: "string \<Rightarrow> (32 word \<times> 32 word \<times> 8 word) option" where
  "scanParams s =
     Option.bind (scanLiteral ''m='' s) (\<lambda>s. Option.bind (scanUint 32 s) (\<lambda>(memory, s).
     Option.bind (scanLiteral '',t='' s) (\<lambda>s. Option.bind (scanUint 32 s) (\<lambda>(iterations, s).
     Option.bind (scanLiteral '',p='' s) (\<lambda>s. Option.bind (scanUint 8 s) (\<lambda>(parallelism, s).
     Some (of_nat memory, of_nat iterations, of_nat parallelism)))))))"

text \<open>The outer \<open>None\<close> is a panic of \<^verbatim>\<open>argon2.IDKey\<close>.\<close>

definition Verify :: "AuthEnvironment \<Rightarrow> string \<Rightarrow> string \<Rightarrow> (goerr + bool) option" where
  "Verify env password encoded = (let parts = splitOn (CHR ''$'') encoded in
     if length parts \<noteq> 6 \<or> parts ! 1 \<noteq> ''argon2id''
     then Some (Inl (ErrorsNew ''invalid Argon2id hash format''))
     else if scanVersion (parts ! 2) \<noteq> Some (au_Argon2Version env)
     then Some (Inl (ErrorsNew ''unsupported Argon2id version''))
     else case scanParams (parts ! 3) of
       None \<Rightarrow> Some (Inl (ErrorsNew ''invalid Argon2id parameters''))
     | Some (memory, iterations, parallelism) \<Rightarrow>
         (case rawStdDecode (parts ! 4) of
            Inl e \<Rightarrow> Some (Inl (Errorf ''decode Argon2id salt: '' e []))
          | Inr salt \<Rightarrow>
              (case rawStdDecode (parts ! 5) of
                 Inl e \<Rightarrow> Some (Inl (Errorf ''decode Argon2id key: '' e []))
               | Inr want \<Rightarrow>
                   map_option (\<lambda>got. Inr (got = want))
                     (au_IDKey env password salt iterations memory parallelism
                        (of_nat (length want))))))"

text \<open>
  \<^verbatim>\<open>valid, err := Verify(...)\<close> where the caller only tests \<^verbatim>\<open>err != nil || !valid\<close>; a panic ends the
  request.
\<close>

definition checkPassword :: "AuthEnvironment \<Rightarrow> string \<Rightarrow> string \<Rightarrow> (world, bool) act" where
  "checkPassword env password encoded = (case Verify env password encoded of
      None \<Rightarrow> throw panicked
    | Some (Inl e) \<Rightarrow> ret False
    | Some (Inr valid) \<Rightarrow> ret valid)"

section \<open>Printing and scanning agree\<close>

lemma splitOn_word: "sep \<notin> set w \<Longrightarrow> splitOn sep (w @ sep # s) = w # splitOn sep s"
  by (induction w) auto

lemma splitOn_last: "sep \<notin> set w \<Longrightarrow> splitOn sep w = [w]"
  by (induction w) auto

lemma showInt_no_dollar: "0 \<le> i \<Longrightarrow> CHR ''$'' \<notin> set (showInt i)"
  by (auto dest: showInt_digits simp: inRange_def)

lemma rawStdEncode_no_dollar: "CHR ''$'' \<notin> set (rawStdEncode s)"
  by (auto dest!: rawStdEncode_digits simp: stdAlphabet_def)

lemma itoa_nonneg [simp]: "0 \<le> i \<Longrightarrow> itoa i = showInt i"
  by (simp add: itoa_def)

definition paramsText :: "Params \<Rightarrow> string" where
  "paramsText params = ''m='' @ showInt (uint (pm_Memory params)) @ '',t='' @
     showInt (uint (pm_Iterations params)) @ '',p='' @ showInt (uint (pm_Parallelism params))"

lemma splitOn_hashText:
  assumes "0 \<le> au_Argon2Version env"
  shows "splitOn (CHR ''$'') (hashText env salt key) =
    [[], ''argon2id'', ''v='' @ showInt (au_Argon2Version env), paramsText (au_Params env),
     rawStdEncode salt, rawStdEncode key]"
proof -
  let ?params = "paramsText (au_Params env)"
  have "hashText env salt key = [] @ CHR ''$'' # ''argon2id'' @ CHR ''$'' #
      (''v='' @ showInt (au_Argon2Version env)) @ CHR ''$'' # ?params @ CHR ''$'' #
      rawStdEncode salt @ CHR ''$'' # rawStdEncode key"
    using assms by (simp add: hashText_def Let_def paramsText_def)
  moreover have "CHR ''$'' \<notin> set ?params"
    by (simp add: paramsText_def showInt_no_dollar)
  moreover have "CHR ''$'' \<notin> set (''v='' @ showInt (au_Argon2Version env))"
    using assms by (simp add: showInt_no_dollar)
  ultimately show ?thesis
    by (simp add: splitOn_word splitOn_last rawStdEncode_no_dollar)
qed

lemma scanLiteral_prefix [simp]: "scanLiteral l (l @ s) = Some s"
  by (simp add: scanLiteral_def)

lemma comma_not_digit: "\<not> isDigit (CHR '','')"
  by (simp add: inRange_def)

lemma scanUint_word:
  "s = [] \<or> \<not> isDigit (hd s) \<Longrightarrow> LENGTH('a :: len) \<le> bits \<Longrightarrow>
   scanUint bits (showInt (uint (x :: 'a word)) @ s) = Some (unat x, s)"
  using scanUint_showInt [of "uint x" bits s]
    less_le_trans [OF uint_lt2p [of x] power_increasing [of "LENGTH('a)" bits "2 :: int"]]
  by simp

lemma scanParams_paramsText:
  "scanParams (paramsText params) = Some (pm_Memory params, pm_Iterations params, pm_Parallelism params)"
proof -
  let ?p = "showInt (uint (pm_Parallelism params))"
  let ?t = "showInt (uint (pm_Iterations params)) @ '',p='' @ ?p"
  have m: "scanUint 32 (showInt (uint (pm_Memory params)) @ '',t='' @ ?t) =
      Some (unat (pm_Memory params), '',t='' @ ?t)"
    by (rule scanUint_word) (simp_all add: comma_not_digit)
  have t: "scanUint 32 ?t = Some (unat (pm_Iterations params), '',p='' @ ?p)"
    by (rule scanUint_word) (simp_all add: comma_not_digit)
  have p: "scanUint 8 ?p = Some (unat (pm_Parallelism params), [])"
    using scanUint_word [of "[]" 8 "pm_Parallelism params"] by simp
  show ?thesis
    unfolding scanParams_def paramsText_def
    by (simp only: scanLiteral_prefix bind.bind_lunit m t p prod.case) simp
qed

lemma scanVersion_text: "0 \<le> i \<Longrightarrow> i < 2 ^ 63 \<Longrightarrow> scanVersion (''v='' @ showInt i) = Some i"
  unfolding scanVersion_def by (simp only: scanLiteral_prefix bind.bind_lunit scanInt_showInt) simp

section \<open>The password contract\<close>

definition lawfulHasher :: "AuthEnvironment \<Rightarrow> bool" where
  "lawfulHasher env \<longleftrightarrow> 0 \<le> au_Argon2Version env \<and> au_Argon2Version env < 2 ^ 63 \<and>
     (\<forall>password salt iterations memory parallelism n key.
        au_IDKey env password salt iterations memory parallelism n = Some key \<longrightarrow> length key = unat n)"

text \<open>The key a password gets under the parameters of the hasher.\<close>

definition derivedKey :: "AuthEnvironment \<Rightarrow> string \<Rightarrow> string \<Rightarrow> string option" where
  "derivedKey env salt password = (let params = au_Params env in
     au_IDKey env password salt (pm_Iterations params) (pm_Memory params) (pm_Parallelism params)
       (pm_KeyLength params))"

lemma Hash_Inr:
  assumes "Hash env password w = (Inr encoded, w')"
  obtains salt key where "derivedKey env salt password = Some key" "encoded = hashText env salt key"
    "length salt = unat (pm_SaltLength (au_Params env))" "w_DB w' = w_DB w"
  using assms
  by (auto simp: Hash_def Let_def derivedKey_def readFull_def andThen_eq_Inr orErr_def orFail_def
      split: option.splits sum.splits)

lemma Verify_hashText:
  assumes "lawfulHasher env" and "derivedKey env salt password = Some key"
  shows "Verify env other (hashText env salt key) =
    map_option (\<lambda>got. Inr (got = key)) (derivedKey env salt other)"
proof -
  have version: "0 \<le> au_Argon2Version env" "au_Argon2Version env < 2 ^ 63"
    and key: "length key = unat (pm_KeyLength (au_Params env))"
    using assms by (auto simp: lawfulHasher_def derivedKey_def Let_def)
  show ?thesis
    unfolding Verify_def splitOn_hashText [OF version(1)]
    by (simp only: nth.simps Let_def) (simp add: scanVersion_text [OF version, simplified]
        scanParams_paramsText derivedKey_def Let_def key)
qed

text \<open>
  (C38) A password hash accepts its own password. When \<open>Hash\<close> returns \<open>encoded\<close> for a password,
  there are the salt it drew, of the configured length, and the derived key, such that \<open>Verify\<close> of any
  password against \<open>encoded\<close> parses the text back to the same parameters and answers whether that
  password derives the same key; for the password itself the answer is yes, and no error path of
  \<open>Verify\<close> is taken.
\<close>

theorem hash_then_verify:
  assumes "lawfulHasher env" and "Hash env password w = (Inr encoded, w')"
  shows "Verify env password encoded = Some (Inr True) \<and>
    (\<exists>salt key. length salt = unat (pm_SaltLength (au_Params env)) \<and>
       derivedKey env salt password = Some key \<and>
       (\<forall>other. Verify env other encoded = map_option (\<lambda>got. Inr (got = key)) (derivedKey env salt other)))"
  by (rule Hash_Inr [OF assms(2)]) (auto simp: Verify_hashText [OF assms(1)])


text \<open>A sample environment: the key is the salt and the password, filled up; the clock moves.\<close>

definition sampleAuthEnvironment :: AuthEnvironment where
  "sampleAuthEnvironment = \<lparr>au_Now = (\<lambda>n. int n * second), au_Random = (\<lambda>n. Inr (\<lambda>i. char_of (7 * n + i))),
     au_IDKey = (\<lambda>password salt iterations memory parallelism n.
       Some (take (unat n) (salt @ password @ replicate (unat n) zeroByte))),
     au_Argon2Version = 19, au_SHA256 = (\<lambda>text. text), au_Params = DefaultParams\<rparr>"

lemma sampleAuth_lawful: "lawfulHasher sampleAuthEnvironment"
  by (auto simp: lawfulHasher_def sampleAuthEnvironment_def min_def)

lemma sampleAuth_hash:
  "Hash sampleAuthEnvironment password w =
     (Inr (hashText sampleAuthEnvironment (map (\<lambda>i. char_of (7 * w_Steps w + i)) [0..<16])
             (take 32 (map (\<lambda>i. char_of (7 * w_Steps w + i)) [0..<16] @ password @ replicate 32 zeroByte))),
      w\<lparr>w_Steps := Suc (w_Steps w)\<rparr>)"
  by (simp add: Hash_def validateParams_def sampleAuthEnvironment_def DefaultParams_def readFull_def Let_def
      andThen_def mapErr_def del: upt_rec_numeral)

theorem hash_then_verify_witness:
  "lawfulHasher sampleAuthEnvironment \<and> (\<exists>encoded w'.
     Hash sampleAuthEnvironment ''correct horse'' (newWorld emptyDatabase) = (Inr encoded, w') \<and>
     Verify sampleAuthEnvironment ''correct horse'' encoded = Some (Inr True))"
  using hash_then_verify [OF sampleAuth_lawful sampleAuth_hash [of "''correct horse''" "newWorld emptyDatabase"]]
    sampleAuth_lawful sampleAuth_hash [of "''correct horse''" "newWorld emptyDatabase"]
  by blast

end
