(* ===== verification/StoreAuth.thy ===== *)
theory StoreAuth
  imports Samples
begin

text \<open>
  \<^verbatim>\<open>store/auth.go\<close>: administrators, recovery codes and login sessions, with the proof that every
  operation keeps the database well-formed. The locale \<open>session_store\<close> is what the authentication
  service relies on: a session that was created is found until it is deleted, and operations on one
  token leave the sessions of every other token alone.
\<close>

section \<open>Administrators\<close>

definition AdminCount :: "(database, int) act" where
  "AdminCount d = (Inr (int (length (admins d))), d)"

definition insertAdmin :: "AdminRecord \<Rightarrow> (database, unit) act" where
  "insertAdmin admin = andThen (gets id) (\<lambda>d.
     andThen (failIf (existsWhere (\<lambda>r. ad_ID r = ad_ID admin) (admins d))
                (UniqueViolation ''admins.id'')) (\<lambda>_.
     andThen (failIf (existsWhere (\<lambda>r. ad_Username r = ad_Username admin) (admins d))
                (UniqueViolation ''admins.username'')) (\<lambda>_.
     modify (\<lambda>d. d\<lparr>admins := admins d @ [admin]\<rparr>))))"

definition insertRecoveryCode :: "string \<Rightarrow> RecoveryCodeRecord \<Rightarrow> (database, unit) act" where
  "insertRecoveryCode admin code = andThen (gets id) (\<lambda>d.
     andThen (failIf (existsWhere (\<lambda>r. rc_ID r = rc_ID code) (recoveryCodes d))
                (UniqueViolation ''recovery_codes.id'')) (\<lambda>_.
     andThen (failIf (\<not> existsWhere (\<lambda>r. ad_ID r = admin) (admins d)) ForeignKeyViolation) (\<lambda>_.
     modify (\<lambda>d. d\<lparr>recoveryCodes := recoveryCodes d @
       [RecoveryCodeRecord.extend code \<lparr>rc_Admin = admin\<rparr>]\<rparr>))))"

definition CreateFirstAdmin :: "AdminRecord \<Rightarrow> RecoveryCodeRecord list \<Rightarrow> (database, unit) act" where
  "CreateFirstAdmin admin codes = inTx (
     andThen AdminCount (\<lambda>count.
     andThen (failIf (count \<noteq> 0) (Sentinel ErrConflict)) (\<lambda>_.
     andThen (mapErr (\<lambda>e. Errorf ''create first admin: '' e []) (insertAdmin admin)) (\<lambda>_.
     forEach codes (\<lambda>code. mapErr (\<lambda>e. Errorf ''create recovery code: '' e [])
       (insertRecoveryCode (ad_ID admin) code))))))"

definition FindAdminByUsername :: "string \<Rightarrow> (database, AdminRecord) act" where
  "FindAdminByUsername username d = (case find (\<lambda>r. ad_Username r = username) (admins d) of
      None \<Rightarrow> (Inl (Sentinel ErrNotFound), d)
    | Some admin \<Rightarrow> (Inr admin, d))"

definition GetAdmin :: "string \<Rightarrow> (database, AdminRecord) act" where
  "GetAdmin aid d = (case find (\<lambda>r. ad_ID r = aid) (admins d) of
      None \<Rightarrow> (Inl (Sentinel ErrNotFound), d)
    | Some admin \<Rightarrow> FindAdminByUsername (ad_Username admin) d)"

definition UpdateAdminPassword :: "string \<Rightarrow> string \<Rightarrow> gotime \<Rightarrow> (database, unit) act" where
  "UpdateAdminPassword aid hash now d =
     (if existsWhere (\<lambda>r. ad_ID r = aid) (admins d)
      then (Inr (), d\<lparr>admins := updateWhere (\<lambda>r. ad_ID r = aid)
              (\<lambda>r. r\<lparr>ad_PasswordHash := hash, ad_MustChangePassword := False, ad_UpdatedAt := now\<rparr>)
              (admins d)\<rparr>)
      else (Inl (Sentinel ErrNotFound), d))"

section \<open>Sessions\<close>

definition CreateSession :: "SessionRecord \<Rightarrow> (database, unit) act" where
  "CreateSession session = mapErr (\<lambda>e. Errorf ''create session: '' e []) (andThen (gets id) (\<lambda>d.
     andThen (failIf (existsWhere (\<lambda>r. se_TokenHash r = se_TokenHash session) (sessions d))
                (UniqueViolation ''sessions.id_hash'')) (\<lambda>_.
     andThen (failIf (\<not> existsWhere (\<lambda>r. ad_ID r = se_AdminID session) (admins d))
                ForeignKeyViolation) (\<lambda>_.
     modify (\<lambda>d. d\<lparr>sessions := sessions d @ [session]\<rparr>)))))"

definition FindSession :: "string \<Rightarrow> (database, SessionRecord) act" where
  "FindSession tokenHash d = (case find (\<lambda>r. se_TokenHash r = tokenHash) (sessions d) of
      None \<Rightarrow> (Inl (Sentinel ErrNotFound), d)
    | Some session \<Rightarrow> (Inr session, d))"

definition DeleteSession :: "string \<Rightarrow> (database, unit) act" where
  "DeleteSession tokenHash = modify (\<lambda>d. d\<lparr>sessions :=
     deleteWhere (\<lambda>r. se_TokenHash r = tokenHash) (sessions d)\<rparr>)"

definition UpdateSessionCSRF :: "string \<Rightarrow> string \<Rightarrow> (database, unit) act" where
  "UpdateSessionCSRF tokenHash csrfHash d =
     (if existsWhere (\<lambda>r. se_TokenHash r = tokenHash) (sessions d)
      then (Inr (), d\<lparr>sessions := updateWhere (\<lambda>r. se_TokenHash r = tokenHash)
              (\<lambda>r. r\<lparr>se_CSRFHash := csrfHash\<rparr>) (sessions d)\<rparr>)
      else (Inl (Sentinel ErrNotFound), d))"

section \<open>The schema invariant\<close>

lemma wf_insertAdmin [obeys_intros]: "obeys keepsWf (insertAdmin admin)"
  by (rule wfI) (auto simp: insertAdmin_def andThen_def existsWhere_iff dbWf_keys
      split: if_splits intro!: dbWf_adminsI keyed_snoc)

lemma wf_insertRecoveryCode [obeys_intros]: "obeys keepsWf (insertRecoveryCode admin code)"
  by (rule wfI) (auto simp: insertRecoveryCode_def andThen_def split: if_splits)

lemma wf_AdminCount [obeys_intros]: "obeys keepsWf AdminCount"
  by (rule wfI) (simp add: AdminCount_def)

lemma wf_CreateFirstAdmin [obeys_intros]: "obeys keepsWf (CreateFirstAdmin admin codes)"
  unfolding CreateFirstAdmin_def by (intro obeys_intros)

lemma FindAdminByUsername_state [simp]: "snd (FindAdminByUsername username d) = d"
  by (simp add: FindAdminByUsername_def split: option.splits)

lemma GetAdmin_state [simp]: "snd (GetAdmin aid d) = d"
  by (simp add: GetAdmin_def split: option.splits)

lemma FindSession_state [simp]: "snd (FindSession tokenHash d) = d"
  by (simp add: FindSession_def split: option.splits)

lemma wf_auth_reads [obeys_intros]:
  "obeys keepsWf (FindAdminByUsername username)" "obeys keepsWf (GetAdmin aid)"
  "obeys keepsWf (FindSession tokenHash)"
  by (simp_all add: obeys_def)

lemma wf_UpdateAdminPassword [obeys_intros]: "obeys keepsWf (UpdateAdminPassword aid hash now)"
  by (rule wfI) (auto simp: UpdateAdminPassword_def dbWf_keys split: if_splits
      intro!: dbWf_adminsI keyed_updateWhere)

lemma wf_CreateSession [obeys_intros]: "obeys keepsWf (CreateSession session)"
  by (rule wfI) (auto simp: CreateSession_def andThen_def mapErr_def existsWhere_iff dbWf_keys dbWf_refs
      split: if_splits prod.splits sum.splits intro!: dbWf_sessionsI keyed_snoc refs_snoc intro: rev_image_eqI)

lemma wf_DeleteSession [obeys_intros]: "obeys keepsWf (DeleteSession tokenHash)"
  by (rule wfI) (auto simp: DeleteSession_def dbWf_keys dbWf_refs intro!: dbWf_sessionsI table_intros)

lemma wf_UpdateSessionCSRF [obeys_intros]: "obeys keepsWf (UpdateSessionCSRF tokenHash csrfHash)"
  by (rule wfI) (auto simp: UpdateSessionCSRF_def dbWf_keys dbWf_refs split: if_splits
      intro!: dbWf_sessionsI table_intros)

section \<open>The session interface\<close>

locale session_store =
  fixes valid :: "'d \<Rightarrow> bool"
    and found :: "'d \<Rightarrow> 'k \<Rightarrow> 's option"
    and creates :: "'d \<Rightarrow> 'k \<Rightarrow> 's \<Rightarrow> 'd \<Rightarrow> bool"
    and deletes :: "'d \<Rightarrow> 'k \<Rightarrow> 'd"
  assumes creates_valid: "valid d \<Longrightarrow> creates d k s d' \<Longrightarrow> valid d'"
    and creates_new: "creates d k s d' \<Longrightarrow> found d k = None"
    and creates_found: "creates d k s d' \<Longrightarrow> found d' j = (if j = k then Some s else found d j)"
    and deletes_valid: "valid d \<Longrightarrow> valid (deletes d k)"
    and deletes_found: "found (deletes d k) j = (if j = k then None else found d j)"
begin

lemma created_then_deleted:
  "creates d k s d' \<Longrightarrow> found (deletes d' k) j = found d j"
  using creates_new by (simp add: deletes_found creates_found)

lemma created_survives:
  "creates d k s d' \<Longrightarrow> j \<noteq> k \<Longrightarrow> found (deletes d' j) k = Some s"
  by (simp add: deletes_found creates_found)

lemma deleted_stays: "found (deletes (deletes d k) j) k = None"
  by (simp add: deletes_found)

end

definition sessionAt :: "database \<Rightarrow> string \<Rightarrow> SessionRecord option" where
  "sessionAt d tokenHash = find (\<lambda>r. se_TokenHash r = tokenHash) (sessions d)"

definition createsSession :: "database \<Rightarrow> string \<Rightarrow> SessionRecord \<Rightarrow> database \<Rightarrow> bool" where
  "createsSession d tokenHash session d' \<longleftrightarrow>
     tokenHash = se_TokenHash session \<and> CreateSession session d = (Inr (), d')"

definition withoutSession :: "database \<Rightarrow> string \<Rightarrow> database" where
  "withoutSession d tokenHash = snd (DeleteSession tokenHash d)"

lemma CreateSession_Inr:
  "CreateSession session d = (Inr (), d') \<longleftrightarrow>
     sessionAt d (se_TokenHash session) = None \<and> se_AdminID session \<in> ad_ID ` set (admins d) \<and>
     d' = d\<lparr>sessions := sessions d @ [session]\<rparr>"
  by (auto simp: CreateSession_def andThen_def mapErr_def sessionAt_def existsWhere_iff find_None_iff
      split: if_splits intro: rev_image_eqI)

lemma FindSession_at:
  "FindSession tokenHash d = (case sessionAt d tokenHash of
     None \<Rightarrow> (Inl (Sentinel ErrNotFound), d) | Some session \<Rightarrow> (Inr session, d))"
  by (simp add: FindSession_def sessionAt_def)

lemma sessionAt_delete:
  "sessionAt (d\<lparr>sessions := deleteWhere (\<lambda>r. se_TokenHash r = k) (sessions d)\<rparr>) j =
     (if j = k then None else sessionAt d j)"
  by (simp add: sessionAt_def find_deleteWhere_same find_deleteWhere_disjoint)

interpretation login_sessions: session_store dbWf sessionAt createsSession withoutSession
proof
  show "dbWf d'" if "dbWf d" and "createsSession d k s d'" for d k s d'
    using that obeysD [OF wf_CreateSession] unfolding createsSession_def by blast
  show "sessionAt d k = None" if "createsSession d k s d'" for d k s d'
    using that by (simp add: createsSession_def CreateSession_Inr)
  show "sessionAt d' j = (if j = k then Some s else sessionAt d j)" if "createsSession d k s d'" for d k s d' j
    using that by (auto simp: createsSession_def CreateSession_Inr sessionAt_def find_append split: option.splits)
  show "dbWf (withoutSession d k)" if "dbWf d" for d k
    using that wf_DeleteSession by (simp add: withoutSession_def obeys_def)
  show "sessionAt (withoutSession d k) j = (if j = k then None else sessionAt d j)" for d k j
    by (simp add: withoutSession_def DeleteSession_def sessionAt_delete)
qed

text \<open>In a well-formed database \<open>GetAdmin\<close> finds the administrator with that identifier.\<close>

lemma GetAdmin_wf:
  assumes "dbWf d" and "admin \<in> set (admins d)"
  shows "GetAdmin (ad_ID admin) d = (Inr admin, d)"
    and "FindAdminByUsername (ad_Username admin) d = (Inr admin, d)"
proof -
  have ids: "keyed ad_ID (admins d)" and names: "keyed ad_Username (admins d)"
    using assms(1) by (simp_all add: dbWf_keys)
  show name: "FindAdminByUsername (ad_Username admin) d = (Inr admin, d)"
    using find_keyed [OF names assms(2)] by (simp add: FindAdminByUsername_def)
  show "GetAdmin (ad_ID admin) d = (Inr admin, d)"
    using find_keyed [OF ids assms(2)] name by (simp add: GetAdmin_def)
qed

lemma forEach_recoveryCodes_admins:
  "forEach codes (\<lambda>code. mapErr h (insertRecoveryCode aid code)) d = (r, d') \<Longrightarrow>
     admins d' = admins d \<and> sessions d' = sessions d"
proof (induction codes arbitrary: d)
  case (Cons code codes)
  then show ?case
    by (auto simp: andThen_def mapErr_def insertRecoveryCode_def split: prod.splits sum.splits if_splits)
qed simp

lemma CreateFirstAdmin_Inr:
  assumes "CreateFirstAdmin admin codes d = (Inr (), d')"
  shows "admins d = []" and "admins d' = [admin]" and "sessions d' = sessions d"
  using assms
  by (auto simp: CreateFirstAdmin_def AdminCount_def insertAdmin_def andThen_eq_Inr
      split: if_splits dest!: forEach_recoveryCodes_admins)

lemma CreateFirstAdmin_again:
  "admins d \<noteq> [] \<Longrightarrow> CreateFirstAdmin admin codes d = (Inl (Sentinel ErrConflict), d)"
  by (simp add: CreateFirstAdmin_def AdminCount_def andThen_def)

end
