(* ===== verification/AuthService.thy ===== *)
theory AuthService
  imports PasswordHasher StoreAuth GoRegexp
begin

text \<open>
  \<^verbatim>\<open>auth/service.go\<close>: bootstrap of the first administrator with ten recovery codes, login,
  authentication of a session token, cross-site request tokens, logout and password changes.

  \<open>authStep\<close> is one call of the service, or anything else the process does that leaves the
  administrators and sessions alone; \<open>sessionRun\<close> is a sequence of such steps during which one session
  stays in the table. The theorems say how long a session lives, and that the administrator created
  by the bootstrap can log in while nobody can bootstrap again.
\<close>

section \<open>The service\<close>

record BootstrapResult =
  br_AdminID :: string
  br_RecoveryCodes :: "string list"

record Session =
  sn_Token :: string
  sn_CSRFToken :: string
  sn_ExpiresAt :: gotime

record Identity =
  id_AdminID :: string
  id_Username :: string
  id_MustChangePassword :: bool

definition usernamePattern :: rx where
  "usernamePattern = Cat (Cls (\<lambda>c. isUpper c \<or> isLower c \<or> isDigit c))
     (Rep (Cls (\<lambda>c. isUpper c \<or> isLower c \<or> isDigit c \<or> c \<in> {CHR ''.'', CHR ''_'', CHR ''-''})) 2 63)"

definition authNow :: "AuthEnvironment \<Rightarrow> (world, gotime) act" where
  "authNow env = ask (au_Now env)"

definition SetupRequired :: "(world, bool) act" where
  "SetupRequired = andThen (onDb AdminCount) (\<lambda>count. ret (count = 0))"

definition randomToken :: "AuthEnvironment \<Rightarrow> nat \<Rightarrow> (world, string) act" where
  "randomToken env n = andThen (mapErr (\<lambda>e. Errorf ''generate random token: '' e []) (readFull env n))
     (\<lambda>value. ret (rawURLEncode value))"

definition randomID :: "AuthEnvironment \<Rightarrow> nat \<Rightarrow> (world, string) act" where
  "randomID env n = randomToken env n"

definition recoveryCode :: "AuthEnvironment \<Rightarrow> (world, string) act" where
  "recoveryCode env = andThen (mapErr (\<lambda>e. Errorf ''generate recovery code: '' e []) (readFull env 10))
     (\<lambda>value. let encoded = toLower (encode32 value) in
        ret (take 4 encoded @ ''-'' @ take 4 (drop 4 encoded) @ ''-'' @
             take 4 (drop 8 encoded) @ ''-'' @ take 4 (drop 12 encoded)))"

fun recoveryCodesLoop :: "AuthEnvironment \<Rightarrow> nat \<Rightarrow> (world, (string \<times> RecoveryCodeRecord) list) act" where
  "recoveryCodesLoop env 0 = ret []"
| "recoveryCodesLoop env (Suc n) =
     andThen (recoveryCode env) (\<lambda>code.
     andThen (Hash env code) (\<lambda>codeHash.
     andThen (randomID env 12) (\<lambda>codeID.
     andThen (recoveryCodesLoop env n) (\<lambda>others.
     ret ((code, \<lparr>rc_ID = codeID, rc_CodeHash = codeHash\<rparr>) # others)))))"

definition bootstrapErr :: "goerr \<Rightarrow> goerr" where
  "bootstrapErr e = (if errorsIs e ErrConflict then Sentinel ErrAlreadyBootstrapped else e)"

definition Bootstrap :: "AuthEnvironment \<Rightarrow> string \<Rightarrow> string \<Rightarrow> (world, BootstrapResult) act" where
  "Bootstrap env username password =
     andThen (failIf (\<not> matchString usernamePattern username)
                (ErrorsNew ''username must contain 3 to 64 safe characters'')) (\<lambda>_.
     andThen (failIf (length password < 12)
                (ErrorsNew ''password must contain at least 12 characters'')) (\<lambda>_.
     andThen (Hash env password) (\<lambda>passwordHash.
     andThen (authNow env) (\<lambda>now.
     andThen (randomID env 16) (\<lambda>adminID.
     andThen (recoveryCodesLoop env 10) (\<lambda>codes.
     andThen (mapErr bootstrapErr (onDb (CreateFirstAdmin
         \<lparr>ad_ID = adminID, ad_Username = username, ad_PasswordHash = passwordHash,
           ad_MustChangePassword = False, ad_CreatedAt = now, ad_UpdatedAt = now\<rparr>
         (map snd codes)))) (\<lambda>_.
     ret \<lparr>br_AdminID = adminID, br_RecoveryCodes = map fst codes\<rparr>)))))))"

definition loginErr :: "goerr \<Rightarrow> goerr" where
  "loginErr e = (if errorsIs e ErrNotFound then Sentinel ErrInvalidCredentials else e)"

definition sessionLifetime :: int where "sessionLifetime = 7 * 24 * hour"
definition idleLimit :: int where "idleLimit = 12 * hour"

definition Login :: "AuthEnvironment \<Rightarrow> string \<Rightarrow> string \<Rightarrow> (world, Session) act" where
  "Login env username password =
     andThen (mapErr loginErr (onDb (FindAdminByUsername username))) (\<lambda>admin.
     andThen (checkPassword env password (ad_PasswordHash admin)) (\<lambda>valid.
     andThen (failIf (\<not> valid) (Sentinel ErrInvalidCredentials)) (\<lambda>_.
     andThen (randomToken env 32) (\<lambda>token.
     andThen (randomToken env 32) (\<lambda>csrf.
     andThen (authNow env) (\<lambda>now.
     let expiresAt = now + sessionLifetime in
     andThen (onDb (CreateSession \<lparr>se_TokenHash = au_SHA256 env token, se_AdminID = ad_ID admin,
        se_CSRFHash = au_SHA256 env csrf, se_LastSeenAt = now, se_ExpiresAt = expiresAt,
        se_CreatedAt = now\<rparr>)) (\<lambda>_.
     ret \<lparr>sn_Token = token, sn_CSRFToken = csrf, sn_ExpiresAt = expiresAt\<rparr>)))))))"

definition unauthenticated :: "goerr \<Rightarrow> goerr" where
  "unauthenticated e = Sentinel ErrUnauthenticated"

definition sessionErr :: "goerr \<Rightarrow> goerr" where
  "sessionErr e = (if errorsIs e ErrNotFound then Sentinel ErrUnauthenticated else e)"

text \<open>\<^verbatim>\<open>!s.now().Before(ExpiresAt) || s.now().Sub(LastSeenAt) > 12h\<close>: the second clock is read only
  when the first test is false.\<close>

definition sessionOver :: "AuthEnvironment \<Rightarrow> SessionRecord \<Rightarrow> (world, bool) act" where
  "sessionOver env record = andThen (authNow env) (\<lambda>now.
     if \<not> now < se_ExpiresAt record then ret True
     else andThen (authNow env) (\<lambda>now. ret (now - se_LastSeenAt record > idleLimit)))"

definition Authenticate :: "AuthEnvironment \<Rightarrow> string \<Rightarrow> (world, Identity) act" where
  "Authenticate env token =
     andThen (failIf (token = []) (Sentinel ErrUnauthenticated)) (\<lambda>_.
     andThen (mapErr sessionErr (onDb (FindSession (au_SHA256 env token)))) (\<lambda>record.
     andThen (sessionOver env record) (\<lambda>over.
     if over then andThen (ignoreErr (onDb (DeleteSession (se_TokenHash record))))
                    (\<lambda>_. throw (Sentinel ErrUnauthenticated))
     else andThen (mapErr unauthenticated (onDb (GetAdmin (se_AdminID record)))) (\<lambda>admin.
     ret \<lparr>id_AdminID = ad_ID admin, id_Username = ad_Username admin,
           id_MustChangePassword = ad_MustChangePassword admin\<rparr>))))"

definition ValidateCSRF :: "AuthEnvironment \<Rightarrow> string \<Rightarrow> string \<Rightarrow> (world, unit) act" where
  "ValidateCSRF env token csrf =
     andThen (mapErr unauthenticated (onDb (FindSession (au_SHA256 env token)))) (\<lambda>record.
     failIf (se_CSRFHash record \<noteq> au_SHA256 env csrf) (Sentinel ErrUnauthenticated))"

definition RefreshCSRF :: "AuthEnvironment \<Rightarrow> string \<Rightarrow> (world, string) act" where
  "RefreshCSRF env token =
     andThen (Authenticate env token) (\<lambda>_.
     andThen (randomToken env 32) (\<lambda>csrf.
     andThen (onDb (UpdateSessionCSRF (au_SHA256 env token) (au_SHA256 env csrf))) (\<lambda>_.
     ret csrf)))"

definition Logout :: "AuthEnvironment \<Rightarrow> string \<Rightarrow> (world, unit) act" where
  "Logout env token = onDb (DeleteSession (au_SHA256 env token))"

definition ChangePassword ::
  "AuthEnvironment \<Rightarrow> Identity \<Rightarrow> string \<Rightarrow> string \<Rightarrow> (world, unit) act" where
  "ChangePassword env identity currentPassword nextPassword =
     andThen (failIf (length nextPassword < 12)
                (ErrorsNew ''password must contain at least 12 characters'')) (\<lambda>_.
     andThen (mapErr unauthenticated (onDb (GetAdmin (id_AdminID identity)))) (\<lambda>admin.
     andThen (checkPassword env currentPassword (ad_PasswordHash admin)) (\<lambda>valid.
     andThen (failIf (\<not> valid) (Sentinel ErrInvalidCredentials)) (\<lambda>_.
     andThen (Hash env nextPassword) (\<lambda>hash.
     andThen (authNow env) (\<lambda>now.
     onDb (UpdateAdminPassword (ad_ID admin) hash now)))))))"

definition VerifyPassword :: "AuthEnvironment \<Rightarrow> Identity \<Rightarrow> string \<Rightarrow> (world, unit) act" where
  "VerifyPassword env identity password =
     andThen (mapErr (\<lambda>e. Sentinel ErrInvalidCredentials) (onDb (GetAdmin (id_AdminID identity)))) (\<lambda>admin.
     andThen (checkPassword env password (ad_PasswordHash admin)) (\<lambda>valid.
     failIf (\<not> valid) (Sentinel ErrInvalidCredentials)))"

section \<open>What the calls do to administrators and sessions\<close>

text \<open>
  \<open>keepsLogins\<close>: no administrator loses its identifier or name, and every session of the later table
  was there before, with everything but its request token unchanged. It holds of every call but
  \<open>Login\<close>.
\<close>

definition adminNames :: "database \<Rightarrow> (string \<times> string) set" where
  "adminNames d = (\<lambda>a. (ad_ID a, ad_Username a)) ` set (admins d)"

definition loginOf :: "database \<Rightarrow> string \<Rightarrow> SessionRecord option" where
  "loginOf d k = map_option (\<lambda>s. s\<lparr>se_CSRFHash := []\<rparr>) (sessionAt d k)"

lemma loginOf_None [simp]: "loginOf d k = None \<longleftrightarrow> sessionAt d k = None"
  by (simp add: loginOf_def)

definition keepsLogins :: "database \<Rightarrow> database \<Rightarrow> bool" where
  "keepsLogins d d' \<longleftrightarrow> (dbWf d \<longrightarrow> dbWf d') \<and> adminNames d \<subseteq> adminNames d' \<and>
     (\<forall>k. loginOf d' k = None \<or> loginOf d' k = loginOf d k)"

interpretation logins: monitor keepsLogins
proof
  show "keepsLogins d d" for d by (simp add: keepsLogins_def)
  show "keepsLogins d d''" if "keepsLogins d d'" "keepsLogins d' d''" for d d' d''
    using that unfolding keepsLogins_def by (metis (no_types) subset_trans)
qed

interpretation loginsW: monitor "dbRel keepsLogins"
  by (rule monitor_dbRel) unfold_locales

lemma keepsLogins_reads [obeys_intros]:
  "obeys keepsLogins AdminCount" "obeys keepsLogins (FindAdminByUsername username)"
  "obeys keepsLogins (GetAdmin aid)" "obeys keepsLogins (FindSession k)"
  by (simp_all add: obeys_def logins.R_refl AdminCount_def)

lemma keepsLogins_DeleteSession [obeys_intros]: "obeys keepsLogins (DeleteSession k)"
proof -
  have "obeys keepsWf (DeleteSession k)" by (intro obeys_intros)
  then show ?thesis
    by (auto simp: obeys_def keepsLogins_def DeleteSession_def adminNames_def loginOf_def sessionAt_delete)
qed

lemma keepsLogins_UpdateSessionCSRF [obeys_intros]: "obeys keepsLogins (UpdateSessionCSRF k csrf)"
proof -
  have "obeys keepsWf (UpdateSessionCSRF k csrf)" by (intro obeys_intros)
  moreover have "loginOf (snd (UpdateSessionCSRF k csrf d)) j = loginOf d j" for d j
    by (auto simp: UpdateSessionCSRF_def loginOf_def sessionAt_def find_updateWhere option.map_comp
        comp_def intro!: option.map_cong)
  moreover have "adminNames (snd (UpdateSessionCSRF k csrf d)) = adminNames d" for d
    by (simp add: UpdateSessionCSRF_def adminNames_def)
  ultimately show ?thesis by (auto simp: obeys_def keepsLogins_def)
qed

lemma keepsLogins_UpdateAdminPassword [obeys_intros]:
  "obeys keepsLogins (UpdateAdminPassword aid hash now)"
proof -
  have "obeys keepsWf (UpdateAdminPassword aid hash now)" by (intro obeys_intros)
  moreover have "adminNames (snd (UpdateAdminPassword aid hash now d)) = adminNames d" for d
    by (auto simp: UpdateAdminPassword_def adminNames_def)
  ultimately show ?thesis
    by (auto simp: obeys_def keepsLogins_def UpdateAdminPassword_def loginOf_def sessionAt_def)
qed

lemma keepsLogins_CreateFirstAdmin [obeys_intros]: "obeys keepsLogins (CreateFirstAdmin admin codes)"
proof (rule obeysI)
  fix d r d'
  assume run: "CreateFirstAdmin admin codes d = (r, d')"
  show "keepsLogins d d'"
  proof (cases r)
    case (Inl e)
    with run have "d' = d" unfolding CreateFirstAdmin_def by (auto dest: inTx_Inl)
    then show ?thesis by (simp add: logins.R_refl)
  next
    case (Inr u)
    with run have run: "CreateFirstAdmin admin codes d = (Inr (), d')" by simp
    have "dbWf d \<longrightarrow> dbWf d'" by (rule obeysD [OF wf_CreateFirstAdmin run])
    then show ?thesis
      using CreateFirstAdmin_Inr [OF run] by (simp add: keepsLogins_def adminNames_def loginOf_def sessionAt_def)
  qed
qed

lemma sameDb_auth [obeys_intros]:
  "obeys sameDb (readFull env n)" "obeys sameDb (Hash env password)"
  "obeys sameDb (checkPassword env password encoded)" "obeys sameDb (authNow env)"
  "obeys sameDb (randomToken env n)" "obeys sameDb (randomID env n)" "obeys sameDb (recoveryCode env)"
proof -
  show readFull: "obeys sameDb (readFull env n)" for n
    unfolding readFull_def by (intro obeys_intros)
  show "obeys sameDb (Hash env password)"
    unfolding Hash_def Let_def by (auto split: option.splits intro!: obeys_intros readFull)
  show "obeys sameDb (checkPassword env password encoded)"
    unfolding checkPassword_def by (auto split: option.splits sum.splits intro!: obeys_intros)
  show "obeys sameDb (authNow env)"
    unfolding authNow_def by (intro obeys_intros)
  show token: "obeys sameDb (randomToken env n)" for n
    unfolding randomToken_def by (intro obeys_intros readFull)
  show "obeys sameDb (randomID env n)"
    unfolding randomID_def by (rule token)
  show "obeys sameDb (recoveryCode env)"
    unfolding recoveryCode_def Let_def by (intro obeys_intros readFull)
qed

lemma sameDb_recoveryCodesLoop [obeys_intros]: "obeys sameDb (recoveryCodesLoop env n)"
  by (induction n) (auto intro!: obeys_intros)

lemma sameDb_sessionOver [obeys_intros]: "obeys sameDb (sessionOver env record)"
  unfolding sessionOver_def by (auto intro!: obeys_intros)

lemma quiet_auth [obeys_intros]:
  "obeys (dbRel keepsLogins) (Hash env password)" "obeys (dbRel keepsLogins) (authNow env)"
  "obeys (dbRel keepsLogins) (checkPassword env password encoded)"
  "obeys (dbRel keepsLogins) (randomToken env n)" "obeys (dbRel keepsLogins) (randomID env n)"
  "obeys (dbRel keepsLogins) (recoveryCodesLoop env n)" "obeys (dbRel keepsLogins) (sessionOver env record)"
  by (rule obeys_sameDb, intro obeys_intros, rule logins.monitor_axioms)+

lemma keepsLogins_Authenticate [obeys_intros]: "obeys (dbRel keepsLogins) (Authenticate env token)"
  unfolding Authenticate_def by (intro obeys_intros)

lemma keepsLogins_calls:
  "obeys (dbRel keepsLogins) SetupRequired"
  "obeys (dbRel keepsLogins) (Bootstrap env username password)"
  "obeys (dbRel keepsLogins) (ValidateCSRF env token csrf)"
  "obeys (dbRel keepsLogins) (RefreshCSRF env token)"
  "obeys (dbRel keepsLogins) (Logout env token)"
  "obeys (dbRel keepsLogins) (ChangePassword env identity old new)"
  "obeys (dbRel keepsLogins) (VerifyPassword env identity password)"
  unfolding SetupRequired_def Bootstrap_def ValidateCSRF_def RefreshCSRF_def Logout_def
    ChangePassword_def VerifyPassword_def
  by (intro obeys_intros)+

lemmas keepsLogins_after = keepsLogins_calls [THEN obeysD] keepsLogins_Authenticate [THEN obeysD]

text \<open>What a successful login leaves behind.\<close>

lemma Login_Inr:
  assumes "Login env username password w = (Inr s, w')"
  obtains admin session where "FindAdminByUsername username (w_DB w) = (Inr admin, w_DB w)"
    "Verify env password (ad_PasswordHash admin) = Some (Inr True)"
    "CreateSession session (w_DB w) = (Inr (), w_DB w')"
    "se_TokenHash session = au_SHA256 env (sn_Token s)" "se_AdminID session = ad_ID admin"
    "se_ExpiresAt session = sn_ExpiresAt s" "se_LastSeenAt session = sn_ExpiresAt s - sessionLifetime"
    "sn_Token s \<noteq> []"
proof -
  obtain admin w1 where admin: "onDb (FindAdminByUsername username) w = (Inr admin, w1)"
    and run: "andThen (checkPassword env password (ad_PasswordHash admin)) (\<lambda>valid.
       andThen (failIf (\<not> valid) (Sentinel ErrInvalidCredentials)) (\<lambda>_.
       andThen (randomToken env 32) (\<lambda>token. andThen (randomToken env 32) (\<lambda>csrf.
       andThen (authNow env) (\<lambda>now. let expiresAt = now + sessionLifetime in
       andThen (onDb (CreateSession \<lparr>se_TokenHash = au_SHA256 env token, se_AdminID = ad_ID admin,
          se_CSRFHash = au_SHA256 env csrf, se_LastSeenAt = now, se_ExpiresAt = expiresAt,
          se_CreatedAt = now\<rparr>)) (\<lambda>_.
       ret \<lparr>sn_Token = token, sn_CSRFToken = csrf, sn_ExpiresAt = expiresAt\<rparr>)))))) w1 = (Inr s, w')"
    using assms unfolding Login_def by (auto simp: andThen_eq_Inr)
  have w1: "w1 = w" and found: "FindAdminByUsername username (w_DB w) = (Inr admin, w_DB w)"
    using admin by (auto simp: onDb_eq FindAdminByUsername_def split: option.splits)
  obtain token csrf now w2 w3 w4 w5 where valid: "checkPassword env password (ad_PasswordHash admin) w = (Inr True, w2)"
    and token: "randomToken env 32 w2 = (Inr token, w3)" and csrf: "randomToken env 32 w3 = (Inr csrf, w4)"
    and now: "authNow env w4 = (Inr now, w5)"
    and create: "onDb (CreateSession \<lparr>se_TokenHash = au_SHA256 env token, se_AdminID = ad_ID admin,
          se_CSRFHash = au_SHA256 env csrf, se_LastSeenAt = now, se_ExpiresAt = now + sessionLifetime,
          se_CreatedAt = now\<rparr>) w5 = (Inr (), w')"
    and s: "s = \<lparr>sn_Token = token, sn_CSRFToken = csrf, sn_ExpiresAt = now + sessionLifetime\<rparr>"
    using run unfolding w1 by (auto simp: andThen_eq_Inr Let_def split: if_splits)
  have "w_DB w5 = w_DB w"
    using obeysD [OF sameDb_auth(3) valid] obeysD [OF sameDb_auth(5) token] obeysD [OF sameDb_auth(5) csrf]
      obeysD [OF sameDb_auth(4) now] by (simp add: sameDb_def)
  moreover have "token \<noteq> []"
    using token by (auto simp: randomToken_def readFull_def andThen_eq_Inr orFail_def split: sum.splits)
  moreover have "Verify env password (ad_PasswordHash admin) = Some (Inr True)"
    using valid by (auto simp: checkPassword_def split: option.splits sum.splits)
  ultimately show thesis
    using create found by (intro that) (auto simp: onDb_eq s)
qed

text \<open>A login only adds a session.\<close>

definition addsLogin :: "database \<Rightarrow> database \<Rightarrow> bool" where
  "addsLogin d d' \<longleftrightarrow> (dbWf d \<longrightarrow> dbWf d') \<and> adminNames d \<subseteq> adminNames d' \<and>
     (\<forall>k. loginOf d k = None \<or> loginOf d' k = loginOf d k)"

interpretation adds: monitor addsLogin
proof
  show "addsLogin d d" for d by (simp add: addsLogin_def)
  show "addsLogin d d''" if "addsLogin d d'" "addsLogin d' d''" for d d' d''
    using that unfolding addsLogin_def by (metis (no_types) subset_trans)
qed

interpretation addsW: monitor "dbRel addsLogin"
  by (rule monitor_dbRel) unfold_locales

lemma addsLogin_statements:
  "obeys addsLogin (FindAdminByUsername username)" "obeys addsLogin (CreateSession session)"
proof -
  show "obeys addsLogin (FindAdminByUsername username)" by (simp add: obeys_def adds.R_refl)
  have wf: "obeys keepsWf (CreateSession session)" by (intro obeys_intros)
  show "obeys addsLogin (CreateSession session)"
  proof (rule obeysI)
    fix d r d'
    assume run: "CreateSession session d = (r, d')"
    show "addsLogin d d'"
    proof (cases r)
      case (Inl e)
      with run have "d' = d"
        by (auto simp: CreateSession_def mapErr_def andThen_def split: if_splits sum.splits prod.splits)
      then show ?thesis by (simp add: adds.R_refl)
    next
      case (Inr u)
      with run have run: "CreateSession session d = (Inr (), d')" by simp
      then have "createsSession d (se_TokenHash session) session d'" by (simp add: createsSession_def)
      then have "loginOf d k = None \<or> loginOf d' k = loginOf d k" for k
        using login_sessions.creates_new [of d "se_TokenHash session" session d']
          login_sessions.creates_found [of d "se_TokenHash session" session d' k]
        by (auto simp: loginOf_def)
      moreover have "adminNames d' = adminNames d"
        using run by (simp add: CreateSession_Inr adminNames_def)
      ultimately show ?thesis using obeysD [OF wf run] by (simp add: addsLogin_def)
    qed
  qed
qed

lemma addsLogin_quiet:
  "obeys (dbRel addsLogin) (checkPassword env password encoded)" "obeys (dbRel addsLogin) (authNow env)"
  "obeys (dbRel addsLogin) (randomToken env n)"
  by (rule obeys_sameDb, intro obeys_intros, rule adds.monitor_axioms)+

lemma addsLogin_Login: "obeys (dbRel addsLogin) (Login env username password)"
  unfolding Login_def Let_def by (intro obeys_intros addsLogin_statements addsLogin_quiet)

section \<open>Runs\<close>

text \<open>
  One step of the process as the sessions see it: a call of the service for any user and any token,
  or any other change of the world that keeps both tables.
\<close>

inductive authStep :: "AuthEnvironment \<Rightarrow> world \<Rightarrow> world \<Rightarrow> bool" for env where
  required: "SetupRequired w = (r, w') \<Longrightarrow> authStep env w w'"
| bootstrapped: "Bootstrap env username password w = (r, w') \<Longrightarrow> authStep env w w'"
| loggedIn: "Login env username password w = (r, w') \<Longrightarrow> authStep env w w'"
| authenticated: "Authenticate env token w = (r, w') \<Longrightarrow> authStep env w w'"
| validated: "ValidateCSRF env token csrf w = (r, w') \<Longrightarrow> authStep env w w'"
| refreshed: "RefreshCSRF env token w = (r, w') \<Longrightarrow> authStep env w w'"
| loggedOut: "Logout env token w = (r, w') \<Longrightarrow> authStep env w w'"
| changed: "ChangePassword env identity old new w = (r, w') \<Longrightarrow> authStep env w w'"
| verified: "VerifyPassword env identity password w = (r, w') \<Longrightarrow> authStep env w w'"
| elsewhere: "admins (w_DB w') = admins (w_DB w) \<Longrightarrow> sessions (w_DB w') = sessions (w_DB w) \<Longrightarrow>
    (dbWf (w_DB w) \<Longrightarrow> dbWf (w_DB w')) \<Longrightarrow> authStep env w w'"

text \<open>A run of steps during which the session with token hash \<open>k\<close> is never removed.\<close>

inductive sessionRun :: "AuthEnvironment \<Rightarrow> string \<Rightarrow> world \<Rightarrow> world \<Rightarrow> bool" for env k where
  start: "sessionRun env k w w"
| step: "sessionRun env k w w' \<Longrightarrow> authStep env w' w'' \<Longrightarrow> sessionAt (w_DB w'') k \<noteq> None \<Longrightarrow>
    sessionRun env k w w''"

lemma authStep_keeps:
  assumes "authStep env w w'" and "sessionAt (w_DB w) k \<noteq> None" and "sessionAt (w_DB w') k \<noteq> None"
    and "dbWf (w_DB w)"
  shows "dbWf (w_DB w') \<and> adminNames (w_DB w) \<subseteq> adminNames (w_DB w') \<and> loginOf (w_DB w') k = loginOf (w_DB w) k"
proof -
  have logins: "dbRel keepsLogins w w' \<Longrightarrow> ?thesis"
    using assms(2-4) unfolding dbRel_def keepsLogins_def by (metis loginOf_None)
  show ?thesis
    using assms(1)
  proof cases
    case (loggedIn username password r)
    have "dbRel addsLogin w w'" by (rule obeysD [OF addsLogin_Login loggedIn])
    then show ?thesis
      using assms(2-4) unfolding dbRel_def addsLogin_def by (metis loginOf_None)
  next
    case elsewhere
    then show ?thesis using assms(4) by (simp add: adminNames_def loginOf_def sessionAt_def)
  qed (rule logins, erule keepsLogins_after)+
qed

lemma sessionRun_keeps:
  assumes "sessionRun env k w w'" and "sessionAt (w_DB w) k \<noteq> None" and "dbWf (w_DB w)"
  shows "dbWf (w_DB w') \<and> adminNames (w_DB w) \<subseteq> adminNames (w_DB w') \<and>
    loginOf (w_DB w') k = loginOf (w_DB w) k \<and> sessionAt (w_DB w') k \<noteq> None"
  using assms
proof (induction rule: sessionRun.induct)
  case (step w w' w'')
  then show ?case using authStep_keeps [OF step.hyps(2)] by (metis subset_trans)
qed simp

section \<open>The life of a session\<close>

lemma Authenticate_known:
  assumes "token \<noteq> []" and "sessionAt (w_DB w) (au_SHA256 env token) = Some record"
  shows "Authenticate env token w =
    (let now1 = au_Now env (w_Steps w); now2 = au_Now env (Suc (w_Steps w));
         over = (Inl (Sentinel ErrUnauthenticated)) in
     if \<not> now1 < se_ExpiresAt record
     then (over, w\<lparr>w_Steps := Suc (w_Steps w), w_DB := withoutSession (w_DB w) (se_TokenHash record)\<rparr>)
     else if now2 - se_LastSeenAt record > idleLimit
     then (over, w\<lparr>w_Steps := Suc (Suc (w_Steps w)), w_DB := withoutSession (w_DB w) (se_TokenHash record)\<rparr>)
     else (case fst (GetAdmin (se_AdminID record) (w_DB w)) of Inl e \<Rightarrow> over
           | Inr admin \<Rightarrow> Inr \<lparr>id_AdminID = ad_ID admin, id_Username = ad_Username admin,
               id_MustChangePassword = ad_MustChangePassword admin\<rparr>,
           w\<lparr>w_Steps := Suc (Suc (w_Steps w))\<rparr>))"
  using assms
  by (auto simp: Authenticate_def andThen_def mapErr_def ignoreErr_def onDb_run FindSession_at sessionOver_def
      authNow_def withoutSession_def unauthenticated_def GetAdmin_def FindAdminByUsername_def Let_def
      split: option.splits)

text \<open>
  (C39) How long a login lasts. Follow one session from a successful login through any number of
  service calls for any users and any other changes of the database, as long as nobody removes the
  session. Presenting its token then succeeds, with the user that logged in, exactly while no more
  than twelve hours have passed since the login; after that the token is refused and the session is
  removed for good. Neither the requests made in between nor the seven-day expiry that the login
  reports make a difference: nothing ever renews the time the idle limit is measured from.
\<close>

theorem session_lifetime:
  assumes "Login env username password w = (Inr s, w1)" and "dbWf (w_DB w)"
    and "sessionRun env (au_SHA256 env (sn_Token s)) w1 w2"
    and "au_Now env (w_Steps w2) \<le> au_Now env (Suc (w_Steps w2))"
  shows "if au_Now env (Suc (w_Steps w2)) - (sn_ExpiresAt s - sessionLifetime) \<le> idleLimit
    then \<exists>identity w3. Authenticate env (sn_Token s) w2 = (Inr identity, w3) \<and>
      id_Username identity = username \<and> w_DB w3 = w_DB w2
    else \<exists>w3. Authenticate env (sn_Token s) w2 = (Inl (Sentinel ErrUnauthenticated), w3) \<and>
      sessionAt (w_DB w3) (au_SHA256 env (sn_Token s)) = None"
proof -
  let ?k = "au_SHA256 env (sn_Token s)"
  let ?now1 = "au_Now env (w_Steps w2)" and ?now2 = "au_Now env (Suc (w_Steps w2))"
  obtain admin session where found: "FindAdminByUsername username (w_DB w) = (Inr admin, w_DB w)"
    and create: "CreateSession session (w_DB w) = (Inr (), w_DB w1)"
    and session: "se_TokenHash session = ?k" "se_AdminID session = ad_ID admin"
      "se_ExpiresAt session = sn_ExpiresAt s" "se_LastSeenAt session = sn_ExpiresAt s - sessionLifetime"
    and token: "sn_Token s \<noteq> []"
    using Login_Inr [OF assms(1)] by blast
  have creates: "createsSession (w_DB w) ?k session (w_DB w1)"
    using create session(1) by (simp add: createsSession_def)
  have at1: "sessionAt (w_DB w1) ?k = Some session"
    using login_sessions.creates_found [OF creates, of ?k] by simp
  note wf1 = login_sessions.creates_valid [OF assms(2) creates]
  from sessionRun_keeps [OF assms(3) _ wf1] at1
  have wf2: "dbWf (w_DB w2)" and names: "adminNames (w_DB w1) \<subseteq> adminNames (w_DB w2)"
    and login: "loginOf (w_DB w2) ?k = loginOf (w_DB w1) ?k" by simp_all
  from login at1 obtain row where at2: "sessionAt (w_DB w2) ?k = Some row"
    and same: "row\<lparr>se_CSRFHash := []\<rparr> = session\<lparr>se_CSRFHash := []\<rparr>"
    by (auto simp: loginOf_def)
  have stored: "se_TokenHash row = ?k" "se_AdminID row = ad_ID admin"
      "se_ExpiresAt row = sn_ExpiresAt s" "se_LastSeenAt row = sn_ExpiresAt s - sessionLifetime"
    using arg_cong [OF same, of se_TokenHash] arg_cong [OF same, of se_AdminID]
      arg_cong [OF same, of se_ExpiresAt] arg_cong [OF same, of se_LastSeenAt] session by simp_all
  have "(ad_ID admin, username) \<in> adminNames (w_DB w1)"
    using found CreateSession_Inr [of session] create
    by (auto simp: FindAdminByUsername_def adminNames_def split: option.splits dest!: find_SomeD)
  with names obtain admin2 where "admin2 \<in> set (admins (w_DB w2))"
    and admin2: "ad_ID admin2 = ad_ID admin" "ad_Username admin2 = username"
    by (auto simp: adminNames_def)
  with GetAdmin_wf(1) [OF wf2] have get: "GetAdmin (ad_ID admin) (w_DB w2) = (Inr admin2, w_DB w2)"
    by metis
  have gone: "sessionAt (withoutSession d ?k) ?k = None" for d
    by (simp add: login_sessions.deletes_found)
  have expiry: "idleLimit < sessionLifetime" by (simp add: idleLimit_def sessionLifetime_def hour_def minute_def second_def)
  show ?thesis
    using Authenticate_known [OF token at2] assms(4) expiry gone
    by (auto simp: stored get admin2 Let_def)
qed

section \<open>Bootstrap\<close>

lemma Bootstrap_Inr:
  assumes "Bootstrap env username password w = (Inr b, w')"
  obtains admin codes h w1 where "Hash env password w = (Inr h, w1)"
    "CreateFirstAdmin admin codes (w_DB w) = (Inr (), w_DB w')"
    "ad_ID admin = br_AdminID b" "ad_Username admin = username" "ad_PasswordHash admin = h"
proof -
  obtain h w1 now w2 aid w3 codes w4 where run: "Hash env password w = (Inr h, w1)"
      "authNow env w1 = (Inr now, w2)" "randomID env 16 w2 = (Inr aid, w3)"
      "recoveryCodesLoop env 10 w3 = (Inr codes, w4)"
    and create: "onDb (CreateFirstAdmin \<lparr>ad_ID = aid, ad_Username = username, ad_PasswordHash = h,
           ad_MustChangePassword = False, ad_CreatedAt = now, ad_UpdatedAt = now\<rparr> (map snd codes)) w4 = (Inr (), w')"
    and b: "b = \<lparr>br_AdminID = aid, br_RecoveryCodes = map fst codes\<rparr>"
    using assms unfolding Bootstrap_def
    by (auto simp: andThen_eq_Inr split: if_splits simp del: recoveryCodesLoop.simps)
  have "w_DB w4 = w_DB w"
    using obeysD [OF sameDb_auth(2) run(1)] obeysD [OF sameDb_auth(4) run(2)]
      obeysD [OF sameDb_auth(6) run(3)] obeysD [OF sameDb_recoveryCodesLoop run(4)]
    by (simp add: sameDb_def)
  then show thesis using run(1) create b by (intro that) (auto simp: onDb_eq)
qed

text \<open>Once there is an administrator, a bootstrap fails and writes nothing.\<close>

definition settled :: "database \<Rightarrow> database \<Rightarrow> bool" where
  "settled d d' \<longleftrightarrow> admins d = [] \<or> d' = d"

interpretation settled: monitor settled
  by unfold_locales (auto simp: settled_def)

interpretation settledW: monitor "dbRel settled"
  by (rule monitor_dbRel) unfold_locales

lemma settled_Bootstrap: "obeys (dbRel settled) (Bootstrap env username password)"
proof -
  have "obeys settled (CreateFirstAdmin admin codes)" for admin codes
    by (simp add: obeys_def settled_def) (metis CreateFirstAdmin_again snd_conv)
  moreover have "obeys (dbRel settled) (Hash env password)" "obeys (dbRel settled) (authNow env)"
    "obeys (dbRel settled) (randomID env n)" "obeys (dbRel settled) (recoveryCodesLoop env n)" for n
    by (rule obeys_sameDb, intro obeys_intros, rule settled.monitor_axioms)+
  ultimately show ?thesis
    unfolding Bootstrap_def by (intro obeys_intros)
qed

lemma Bootstrap_again:
  assumes "admins (w_DB w) \<noteq> []"
  shows "\<exists>e w'. Bootstrap env username password w = (Inl e, w') \<and> w_DB w' = w_DB w"
proof -
  obtain r w' where run: "Bootstrap env username password w = (r, w')" by fastforce
  then have "w_DB w' = w_DB w"
    using obeysD [OF settled_Bootstrap run] assms by (simp add: dbRel_def settled_def)
  moreover have "r \<noteq> Inr b" for b
  proof
    assume "r = Inr b"
    with run have "Bootstrap env username password w = (Inr b, w')" by simp
    then show False
      by (rule Bootstrap_Inr) (use CreateFirstAdmin_Inr(1) assms in simp)
  qed
  ultimately show ?thesis using run by (cases r) auto
qed

lemma Login_run:
  assumes "FindAdminByUsername username (w_DB w) = (Inr admin, w_DB w)"
    and "Verify env password (ad_PasswordHash admin) = Some (Inr True)"
    and "au_Random env (w_Steps w) = Inr r1" and "au_Random env (Suc (w_Steps w)) = Inr r2"
    and "sessions (w_DB w) = []" and "ad_ID admin \<in> ad_ID ` set (admins (w_DB w))"
  shows "\<exists>s w'. Login env username password w = (Inr s, w') \<and>
    sn_ExpiresAt s = au_Now env (Suc (Suc (w_Steps w))) + sessionLifetime"
  using assms
  by (auto simp: Login_def andThen_def mapErr_def onDb_run checkPassword_def randomToken_def readFull_def
      orFail_def authNow_def Let_def CreateSession_def existsWhere_iff simp del: upt_rec_numeral)


section \<open>Samples\<close>

lemma CreateFirstAdmin_succeeds:
  assumes "admins d = []" and "recoveryCodes d = []" and "distinct (map rc_ID codes)"
  shows "\<exists>d'. CreateFirstAdmin admin codes d = (Inr (), d')"
proof -
  have loop: "\<exists>d'. forEach codes (\<lambda>code. mapErr h (insertRecoveryCode (ad_ID admin) code)) d = (Inr (), d')"
    if "distinct (map rc_ID codes)" "admins d = [admin]" "rc_ID ` set (recoveryCodes d) \<inter> rc_ID ` set codes = {}"
    for h d
    using that
  proof (induction codes arbitrary: d)
    case (Cons code codes)
    let ?d = "d\<lparr>recoveryCodes := recoveryCodes d @ [RecoveryCodeRecord.extend code \<lparr>rc_Admin = ad_ID admin\<rparr>]\<rparr>"
    have "\<not> (\<exists>r\<in>set (recoveryCodes d). rc_ID r = rc_ID code)"
      using Cons.prems(3) by force
    then have "insertRecoveryCode (ad_ID admin) code d = (Inr (), ?d)"
      using Cons.prems(2) by (simp add: insertRecoveryCode_def andThen_def existsWhere_iff)
    moreover have "rc_ID (RecoveryCodeRecord.extend code \<lparr>rc_Admin = ad_ID admin\<rparr>) = rc_ID code"
      by (simp add: RecoveryCodeRecord.extend_def)
    ultimately show ?case
      using Cons.IH [of ?d] Cons.prems by (auto simp: andThen_def mapErr_def)
  qed simp
  show ?thesis
    using assms loop [of "d\<lparr>admins := [admin]\<rparr>"]
    by (auto simp: CreateFirstAdmin_def AdminCount_def insertAdmin_def andThen_def mapErr_def existsWhere_iff)
qed

definition sampleBytes :: "nat \<Rightarrow> nat \<Rightarrow> string" where
  "sampleBytes k n = map (\<lambda>i. char_of (7 * k + i)) [0..<n]"

lemma sample_runs:
  "randomID sampleAuthEnvironment n w = (Inr (rawURLEncode (sampleBytes (w_Steps w) n)), w\<lparr>w_Steps := Suc (w_Steps w)\<rparr>)"
  "randomToken sampleAuthEnvironment n w = (Inr (rawURLEncode (sampleBytes (w_Steps w) n)), w\<lparr>w_Steps := Suc (w_Steps w)\<rparr>)"
  "authNow sampleAuthEnvironment w = (Inr (int (w_Steps w) * second), w\<lparr>w_Steps := Suc (w_Steps w)\<rparr>)"
  "\<exists>code. recoveryCode sampleAuthEnvironment w = (Inr code, w\<lparr>w_Steps := Suc (w_Steps w)\<rparr>)"
  by (simp_all add: randomID_def randomToken_def readFull_def sampleAuthEnvironment_def sampleBytes_def authNow_def
      recoveryCode_def Let_def andThen_def mapErr_def)

lemma sample_codes:
  "\<exists>codes. recoveryCodesLoop sampleAuthEnvironment n w = (Inr codes, w\<lparr>w_Steps := w_Steps w + 3 * n\<rparr>) \<and>
     map (\<lambda>c. rc_ID (snd c)) codes = map (\<lambda>i. rawURLEncode (sampleBytes (w_Steps w + 3 * i + 2) 12)) [0..<n]"
proof (induction n arbitrary: w)
  case (Suc n)
  obtain code where code: "recoveryCode sampleAuthEnvironment w = (Inr code, w\<lparr>w_Steps := Suc (w_Steps w)\<rparr>)"
    using sample_runs(4) by blast
  let ?w = "w\<lparr>w_Steps := Suc (Suc (Suc (w_Steps w)))\<rparr>"
  obtain codes where codes: "recoveryCodesLoop sampleAuthEnvironment n ?w = (Inr codes, ?w\<lparr>w_Steps := w_Steps ?w + 3 * n\<rparr>)"
    "map (\<lambda>c. rc_ID (snd c)) codes = map (\<lambda>i. rawURLEncode (sampleBytes (w_Steps ?w + 3 * i + 2) 12)) [0..<n]"
    using Suc.IH [of ?w] by blast
  have shift: "map (\<lambda>i. f (w_Steps w + 3 * i + 2)) [0..<Suc n] = f (w_Steps w + 2) # map (\<lambda>i. f (w_Steps ?w + 3 * i + 2)) [0..<n]"
    for f :: "nat \<Rightarrow> string"
    by (auto simp: upt_conv_Cons map_Suc_upt [symmetric] comp_def simp del: upt_Suc intro!: arg_cong [of _ _ f])
  show ?case
    unfolding shift [of "\<lambda>k. rawURLEncode (sampleBytes k 12)"]
    using codes by (simp add: code sampleAuth_hash sample_runs andThen_def del: upt_Suc)
qed simp

lemma sampleBytes_eq: "sampleBytes j (Suc n) = sampleBytes k (Suc n) \<Longrightarrow> 7 * j mod 256 = 7 * k mod 256"
  unfolding sampleBytes_def by (drule arg_cong [where f = hd]) (simp add: upt_conv_Cons of_char_of del: upt_Suc)

lemma sample_ids_distinct: "distinct (map (\<lambda>i. rawURLEncode (sampleBytes (3 * i + 5) 12)) [0..<10])"
proof -
  have "sampleBytes (3 * i + 5) 12 \<noteq> sampleBytes (3 * j + 5) 12" if "i < 10" "j < 10" "i \<noteq> j" for i j
  proof
    assume "sampleBytes (3 * i + 5) 12 = sampleBytes (3 * j + 5) 12"
    then have "7 * (3 * i + 5) mod 256 = 7 * (3 * j + 5) mod 256"
      using sampleBytes_eq [of "3 * i + 5" 11 "3 * j + 5"] by simp
    moreover have "7 * (3 * i + 5) mod 256 = 7 * (3 * i + 5)" "7 * (3 * j + 5) mod 256 = 7 * (3 * j + 5)"
      using that by simp_all
    ultimately show False using that(3) by simp
  qed
  then show ?thesis by (simp add: distinct_map inj_on_def del: upt_rec_numeral) (metis atLeastLessThan_iff)
qed

abbreviation sampleWorld :: world where "sampleWorld \<equiv> newWorld emptyDatabase"

lemma sample_bootstrap:
  "\<exists>b w. Bootstrap sampleAuthEnvironment ''admin'' ''correct horse'' sampleWorld = (Inr b, w) \<and> w_Steps w = 33"
proof -
  obtain codes where codes: "recoveryCodesLoop sampleAuthEnvironment 10 (sampleWorld\<lparr>w_Steps := 3\<rparr>) =
      (Inr codes, sampleWorld\<lparr>w_Steps := 33\<rparr>)"
    and ids: "map (\<lambda>c. rc_ID (snd c)) codes = map (\<lambda>i. rawURLEncode (sampleBytes (3 * i + 5) 12)) [0..<10]"
    using sample_codes [of 10 "sampleWorld\<lparr>w_Steps := 3\<rparr>"] by (auto simp: add_ac simp del: upt_rec_numeral)
  have "distinct (map rc_ID (map snd codes))"
    using ids sample_ids_distinct by (simp add: comp_def del: upt_rec_numeral)
  then have "\<exists>d. CreateFirstAdmin admin (map snd codes) emptyDatabase = (Inr (), d)" for admin
    by (intro CreateFirstAdmin_succeeds) (simp_all add: emptyDatabase_def)
  then obtain d where d: "CreateFirstAdmin \<lparr>ad_ID = rawURLEncode (sampleBytes 2 16), ad_Username = ''admin'',
      ad_PasswordHash = hashText sampleAuthEnvironment (map (\<lambda>i. char_of i) [0..<16])
        (take 32 (map (\<lambda>i. char_of i) [0..<16] @ ''correct horse'' @ replicate 32 zeroByte)),
      ad_MustChangePassword = False, ad_CreatedAt = second, ad_UpdatedAt = second\<rparr> (map snd codes) emptyDatabase = (Inr (), d)"
    by blast
  have "matchString usernamePattern ''admin''" by code_simp
  with codes d show ?thesis
    by (simp add: Bootstrap_def sampleAuth_hash sample_runs andThen_def mapErr_def newWorld_def onDb_def
        eval_nat_numeral del: recoveryCodesLoop.simps upt_rec_numeral upt_Suc take_Suc_Cons)
qed

definition sampleAdmin :: AdminRecord where
  "sampleAdmin = \<lparr>ad_ID = ''a1'', ad_Username = ''admin'',
     ad_PasswordHash = hashText sampleAuthEnvironment [] (take 32 (''correct horse'' @ replicate 32 zeroByte)),
     ad_MustChangePassword = False, ad_CreatedAt = 0, ad_UpdatedAt = 0\<rparr>"

abbreviation adminWorld :: world where
  "adminWorld \<equiv> newWorld (emptyDatabase\<lparr>admins := [sampleAdmin]\<rparr>)"

lemma adminWorld_wf: "dbWf (w_DB adminWorld)"
  using dbWf_adminsI [OF dbWf_empty, of "[sampleAdmin]"]
  by (simp add: newWorld_def keyed_def) (simp add: emptyDatabase_def)

lemma sampleAdmin_verifies:
  "Verify sampleAuthEnvironment ''correct horse'' (ad_PasswordHash sampleAdmin) = Some (Inr True)"
proof -
  have "derivedKey sampleAuthEnvironment [] ''correct horse'' = Some (take 32 (''correct horse'' @ replicate 32 zeroByte))"
    by (simp add: derivedKey_def sampleAuthEnvironment_def DefaultParams_def Let_def)
  from Verify_hashText [OF sampleAuth_lawful this, of "''correct horse''"] this show ?thesis
    by (simp add: sampleAdmin_def)
qed

lemma sample_login:
  "\<exists>s w'. Login sampleAuthEnvironment ''admin'' ''correct horse'' adminWorld = (Inr s, w') \<and>
     sn_ExpiresAt s = 2 * second + sessionLifetime"
proof -
  have "FindAdminByUsername ''admin'' (w_DB adminWorld) = (Inr sampleAdmin, w_DB adminWorld)"
    by (simp add: FindAdminByUsername_def newWorld_def sampleAdmin_def)
  moreover have "au_Random sampleAuthEnvironment n = Inr (\<lambda>i. char_of (7 * n + i))" for n by (simp add: sampleAuthEnvironment_def)
  moreover have "sessions (w_DB adminWorld) = []" by (simp add: newWorld_def emptyDatabase_def)
  moreover have "ad_ID sampleAdmin \<in> ad_ID ` set (admins (w_DB adminWorld))" by (simp add: newWorld_def)
  ultimately obtain s w' where "Login sampleAuthEnvironment ''admin'' ''correct horse'' adminWorld = (Inr s, w')"
      "sn_ExpiresAt s = au_Now sampleAuthEnvironment (Suc (Suc (w_Steps adminWorld))) + sessionLifetime"
    using Login_run [OF _ sampleAdmin_verifies] by blast
  then show ?thesis by (simp add: newWorld_def) (simp add: sampleAuthEnvironment_def)
qed

theorem session_lifetime_witness:
  "\<exists>s w1 w3. Login sampleAuthEnvironment ''admin'' ''correct horse'' adminWorld = (Inr s, w1) \<and>
     Authenticate sampleAuthEnvironment (sn_Token s) (w1\<lparr>w_Steps := 43300\<rparr>) = (Inl (Sentinel ErrUnauthenticated), w3) \<and>
     sessionAt (w_DB w3) (sn_Token s) = None"
proof -
  obtain s w1 where login: "Login sampleAuthEnvironment ''admin'' ''correct horse'' adminWorld = (Inr s, w1)"
    and expires: "sn_ExpiresAt s = 2 * second + sessionLifetime"
    using sample_login by blast
  let ?k = "au_SHA256 sampleAuthEnvironment (sn_Token s)" and ?w = "w1\<lparr>w_Steps := 43300\<rparr>"
  obtain session where "createsSession (w_DB adminWorld) ?k session (w_DB w1)"
    using Login_Inr [OF login] by (metis createsSession_def)
  then have "sessionAt (w_DB ?w) ?k \<noteq> None" by (simp add: login_sessions.creates_found)
  then have run: "sessionRun sampleAuthEnvironment ?k w1 ?w"
    by (intro sessionRun.step [OF sessionRun.start]) (auto intro: authStep.elsewhere)
  have "au_Now sampleAuthEnvironment (w_Steps ?w) \<le> au_Now sampleAuthEnvironment (Suc (w_Steps ?w))"
    by (simp add: sampleAuthEnvironment_def second_def)
  from session_lifetime [OF login adminWorld_wf run this] show ?thesis
    using login by (auto simp: expires sampleAuthEnvironment_def idleLimit_def hour_def minute_def second_def)
qed


end
