(* ===== verification/RuntimeServices.thy ===== *)
theory RuntimeServices
  imports Contracts
begin

text \<open>
  Which Compose services a configuration needs and which ones a change touches: the pure part of
  \<^verbatim>\<open>runtime/reconcile.go\<close> and the closed set of service names of \<^verbatim>\<open>compose/runner.go\<close>. A Go map that
  is only used as a set is the list of its keys. \<^verbatim>\<open>reflect.DeepEqual\<close> is equality: the Provisioner
  compares decoded JSON, in which a nil and an empty slice are not told apart by the model.
\<close>

section \<open>The zero configuration\<close>

text \<open>The configuration of metadata that was never published.\<close>

definition zeroTemplate :: EmailTemplateConfig where
  "zeroTemplate = \<lparr>tpl_Subject = [], tpl_Body = []\<rparr>"

definition zeroNotification :: EmailNotificationConfig where
  "zeroNotification = \<lparr>ntf_Enabled = False, ntf_Template = zeroTemplate\<rparr>"

definition zeroServices :: Services where
  "zeroServices = \<lparr>svc_Database = False, svc_Gateway = False, svc_Auth = False, svc_REST =
     False, svc_Studio = False, svc_PostgresMeta = False, svc_Realtime = False, svc_Storage =
     False, svc_Imgproxy = False, svc_Functions = False, svc_Supavisor = False, svc_Logs = False,
     svc_Vector = False, svc_DirectDB = False\<rparr>"

definition zeroGeneral :: GeneralConfig where
  "zeroGeneral = \<lparr>gen_Domain = [], gen_SiteURL = [], gen_SupabaseVersion = [],
     gen_StudioUsername = [], gen_StudioPasswordSet = False, gen_StudioPassword =
     noSecret\<rparr>"

definition zeroAuth :: AuthConfig where
  "zeroAuth = \<lparr>auth_Enabled = False, auth_JWTExpiry = 0, auth_DisableSignup = False,
     auth_Email = \<lparr>em_Enabled = False, em_AllowSignup = False, em_ConfirmEmail = False,
     em_SecureEmailChange = False, em_DoubleConfirmChanges = False, em_SecurePasswordChange =
     False, em_RequireCurrentPassword = False, em_PreventLeakedPasswords = False,
     em_MinimumPasswordLength = 0, em_PasswordRequirements = [], em_EmailOTPExpiration = 0,
     em_EmailOTPLength = 0\<rparr>, auth_Phone = \<lparr>ph_Enabled = False, ph_Provider = [],
     ph_SecretSet = False, ph_Secret = noSecret, ph_Fields = []\<rparr>, auth_AnonymousSignIn =
     False, auth_ManualLinking = False, auth_RedirectURLs = [], auth_OAuth = [], auth_SMTP =
     \<lparr>smtp_Enabled = False, smtp_Host = [], smtp_Port = 0, smtp_Username = [],
     smtp_PasswordSet = False, smtp_Password = noSecret, smtp_SenderEmail = [], smtp_SenderName =
     []\<rparr>, auth_Mailer = \<lparr>ml_Templates = \<lparr>tpls_Confirmation = zeroTemplate,
     tpls_Invite = zeroTemplate, tpls_MagicLink = zeroTemplate, tpls_EmailChange = zeroTemplate,
     tpls_Recovery = zeroTemplate, tpls_Reauthentication = zeroTemplate\<rparr>, ml_Notifications
     = \<lparr>ntfs_PasswordChanged = zeroNotification, ntfs_EmailChanged = zeroNotification,
     ntfs_PhoneChanged = zeroNotification, ntfs_IdentityLinked = zeroNotification,
     ntfs_IdentityUnlinked = zeroNotification, ntfs_MFAFactorEnrolled = zeroNotification,
     ntfs_MFAFactorUnenrolled = zeroNotification\<rparr>\<rparr>, auth_RateLimits =
     \<lparr>rl_EmailSent = 0, rl_SMSSent = 0, rl_TokenRefresh = 0, rl_TokenVerification = 0,
     rl_AnonymousUsers = 0, rl_SignupsAndSignins = 0\<rparr>, auth_MFA =
     \<lparr>mfa_TOTPEnrollEnabled = False, mfa_TOTPVerifyEnabled = False, mfa_PhoneEnrollEnabled
     = False, mfa_PhoneVerifyEnabled = False, mfa_MaxEnrolledFactors = 0, mfa_PhoneOTPLength =
     0\<rparr>\<rparr>"

definition zeroConfiguration :: ProjectConfiguration where
  "zeroConfiguration = \<lparr>cfg_Revision = 0, cfg_General = zeroGeneral, cfg_Services =
     zeroServices, cfg_Auth = zeroAuth, cfg_Storage = \<lparr>st_Backend = [], st_S3CompatibleAPI
     = False, st_Bucket = [], st_Region = [], st_Endpoint = [], st_AccountID = [], st_AccessKeyID
     = [], st_SecretAccessKeySet = False, st_SecretAccessKey = noSecret, st_ForcePathStyle =
     False, st_LocalPath = []\<rparr>, cfg_Realtime = \<lparr>rt_MaxConnections = 0,
     rt_DatabasePoolSize = 0, rt_LogLevel = []\<rparr>, cfg_Functions =
     \<lparr>fn_DefaultJWTVerification = False, fn_Directory = [], fn_Variables = []\<rparr>,
     cfg_Database = \<lparr>db_Version = [], db_DirectPort = False, db_DirectPortNumber = 0,
     db_MaxConnections = 0, db_SharedBuffers = [], db_Extensions = []\<rparr>, cfg_Pooler =
     \<lparr>pool_TransactionPort = 0, pool_SessionPort = 0, pool_PoolSize = 0,
     pool_MaxClientConnections = 0\<rparr>, cfg_Network = \<lparr>net_Gateway = [], net_HTTPSMode
     = [], net_ManagedTLS = None, net_InternalGatewayPort = 0, net_APIPort = 0, net_StudioPort =
     0, net_DirectDatabasePort = 0, net_PoolerPort = 0\<rparr>\<rparr>"


section \<open>Sets of services\<close>

definition difference :: "string list \<Rightarrow> string list \<Rightarrow> string list" where
  "difference a b = filter (\<lambda>x. x \<notin> set b) a"

definition intersect :: "string list \<Rightarrow> string list \<Rightarrow> string list" where
  "intersect a b = filter (\<lambda>x. x \<in> set b) a"

definition without :: "string list \<Rightarrow> string \<Rightarrow> string list" where
  "without a name = filter (\<lambda>x. x \<noteq> name) a"

fun uniqueFrom :: "string list \<Rightarrow> string list \<Rightarrow> string list" where
  "uniqueFrom seen [] = []"
| "uniqueFrom seen (x # xs) = (if x \<in> set seen then uniqueFrom seen xs else x # uniqueFrom (x # seen) xs)"

definition unique :: "string list \<Rightarrow> string list" where
  "unique values = uniqueFrom [] values"

definition composeServices :: "string list" where
  "composeServices = [''db'', ''api-gw'', ''envoy'', ''kong'', ''auth'', ''auth-templates'', ''rest'', ''meta'',
     ''studio'', ''realtime'', ''storage'', ''imgproxy'', ''functions'', ''supavisor'', ''db-config'',
     ''analytics'', ''logflare'', ''vector'', ''deno-cache'', ''caddy'']"

fun validateServices :: "string list \<Rightarrow> goerr option" where
  "validateServices [] = None"
| "validateServices (service # services) =
     (if service \<in> set composeServices then validateServices services
      else Some (ErrorsNew (''unsupported compose service '' @ [CHR 0x22] @ service @ [CHR 0x22])))"

section \<open>What a change affects\<close>

definition serviceOrder :: "string list" where
  "serviceOrder = [''db'', ''auth'', ''rest'', ''meta'', ''studio'', ''api-gw'', ''realtime'', ''storage'',
     ''imgproxy'', ''functions'', ''supavisor'', ''analytics'', ''logflare'', ''vector'']"

text \<open>The names the function puts into its set, one entry per \<^verbatim>\<open>if\<close> of the source.\<close>

definition affectedNames :: "ProjectConfiguration \<Rightarrow> ProjectConfiguration \<Rightarrow> string list" where
  "affectedNames before after =
     (let g = cfg_General before; g' = cfg_General after; n = cfg_Network before; n' = cfg_Network after;
          s = cfg_Services before; s' = cfg_Services after
      in concat (map (\<lambda>(changed, names). if changed then names else [])
       [(gen_SiteURL g \<noteq> gen_SiteURL g' \<or> gen_Domain g \<noteq> gen_Domain g', [''auth'', ''studio'', ''api-gw'']),
        (auth_SMTP (cfg_Auth before) \<noteq> auth_SMTP (cfg_Auth after) \<or> cfg_Auth before \<noteq> cfg_Auth after,
           [''auth'', ''auth-templates'']),
        (cfg_Functions before \<noteq> cfg_Functions after, [''functions'']),
        (cfg_Realtime before \<noteq> cfg_Realtime after \<or> svc_Realtime s \<noteq> svc_Realtime s', [''realtime'']),
        (cfg_Storage before \<noteq> cfg_Storage after, [''storage'']),
        (svc_Imgproxy s \<noteq> svc_Imgproxy s' \<and> svc_Storage s \<and> svc_Storage s', [''storage'']),
        (cfg_Database before \<noteq> cfg_Database after, [''db'']),
        (cfg_Pooler before \<noteq> cfg_Pooler after, [''supavisor'']),
        (net_Gateway n \<noteq> net_Gateway n' \<or> net_HTTPSMode n \<noteq> net_HTTPSMode n' \<or>
           net_InternalGatewayPort n \<noteq> net_InternalGatewayPort n' \<or> net_APIPort n \<noteq> net_APIPort n', [''api-gw'']),
        (net_DirectDatabasePort n \<noteq> net_DirectDatabasePort n', [''db'']),
        (svc_DirectDB s \<noteq> svc_DirectDB s', [''db'']),
        (net_PoolerPort n \<noteq> net_PoolerPort n', [''supavisor'']),
        (net_StudioPort n \<noteq> net_StudioPort n', [''studio'']),
        (svc_Gateway s \<noteq> svc_Gateway s', [''api-gw'']),
        (svc_Database s \<noteq> svc_Database s', [''db'']),
        (svc_Auth s \<noteq> svc_Auth s', [''auth'']),
        (svc_REST s \<noteq> svc_REST s', [''rest'']),
        (svc_PostgresMeta s \<noteq> svc_PostgresMeta s', [''meta'']),
        (svc_Storage s \<noteq> svc_Storage s', [''storage'']),
        (svc_Functions s \<noteq> svc_Functions s', [''functions'']),
        (svc_Supavisor s \<noteq> svc_Supavisor s', [''supavisor'']),
        (svc_Logs s \<noteq> svc_Logs s', [''analytics'', ''logflare'', ''vector'']),
        (svc_Vector s \<noteq> svc_Vector s', [''vector'']),
        (svc_Studio s \<noteq> svc_Studio s', [''studio'']),
        (svc_Logs s \<noteq> svc_Logs s' \<and> svc_Vector s \<and> svc_Vector s', [''vector''])]))"

definition affectedServices :: "ProjectConfiguration \<Rightarrow> ProjectConfiguration \<Rightarrow> string list" where
  "affectedServices before after = filter (\<lambda>name. name \<in> set (affectedNames before after)) serviceOrder"

definition enabledServices :: "ProjectConfiguration \<Rightarrow> string list" where
  "enabledServices config = (let s = cfg_Services config in
     map fst (filter snd
       [(''db'', svc_Database s), (''api-gw'', svc_Gateway s), (''auth'', svc_Auth s),
        (''auth-templates'', svc_Auth s), (''rest'', svc_REST s), (''meta'', svc_PostgresMeta s),
        (''studio'', svc_Studio s), (''realtime'', svc_Realtime s), (''storage'', svc_Storage s),
        (''imgproxy'', svc_Imgproxy s), (''functions'', svc_Functions s), (''supavisor'', svc_Supavisor s),
        (''analytics'', svc_Logs s), (''vector'', svc_Vector s)]))"

section \<open>The managed reverse-proxy route\<close>

record Route =
  route_Slug :: string
  route_Domain :: string
  route_APIPort :: int
  route_StudioPort :: int
  route_StudioEnabled :: bool
  route_StudioUsername :: string
  route_StudioPassword :: string
  route_CertificateFile :: string
  route_CertificateKeyFile :: string

definition managedTLSCertificateFile :: "ManagedTLSConfig option \<Rightarrow> string" where
  "managedTLSCertificateFile config = (case config of None \<Rightarrow> [] | Some c \<Rightarrow> tls_CertificateFile c)"

definition managedTLSPrivateKeyFile :: "ManagedTLSConfig option \<Rightarrow> string" where
  "managedTLSPrivateKeyFile config = (case config of None \<Rightarrow> [] | Some c \<Rightarrow> tls_PrivateKeyFile c)"

text \<open>\<open>None\<close> is the result \<^verbatim>\<open>(proxy.Route{}, false)\<close>.\<close>

definition routeForProxy :: "string \<Rightarrow> ProjectConfiguration \<Rightarrow> ProjectSecrets \<Rightarrow> Route option" where
  "routeForProxy slug configuration secrets =
     (let general = cfg_General configuration; network = cfg_Network configuration;
          username = trimSpace (gen_StudioUsername general)
      in if net_HTTPSMode network \<noteq> ''external'' \<or> gen_Domain general = [] \<or> net_APIPort network = 0 then None
      else Some \<lparr>route_Slug = slug, route_Domain = gen_Domain general, route_APIPort = net_APIPort network,
        route_StudioPort = net_StudioPort network, route_StudioEnabled = svc_Studio (cfg_Services configuration),
        route_StudioUsername = (if username = [] then ''supabase'' else username),
        route_StudioPassword = ps_DashboardPassword secrets,
        route_CertificateFile = managedTLSCertificateFile (net_ManagedTLS network),
        route_CertificateKeyFile = managedTLSPrivateKeyFile (net_ManagedTLS network)\<rparr>)"

section \<open>Facts\<close>

lemma set_difference [simp]: "set (difference a b) = set a - set b"
  by (auto simp: difference_def)

lemma set_intersect [simp]: "set (intersect a b) = set a \<inter> set b"
  by (auto simp: intersect_def)

lemma set_without [simp]: "set (without a name) = set a - {name}"
  by (auto simp: without_def)

lemma set_uniqueFrom: "set (uniqueFrom seen xs) = set xs - set seen"
  by (induction seen xs rule: uniqueFrom.induct) auto

lemma distinct_uniqueFrom: "distinct (uniqueFrom seen xs)"
  by (induction seen xs rule: uniqueFrom.induct) (auto simp: set_uniqueFrom)

lemma set_unique [simp]: "set (unique xs) = set xs" and distinct_unique [simp]: "distinct (unique xs)"
  by (simp_all add: unique_def set_uniqueFrom distinct_uniqueFrom)

lemma difference_Nil [simp]: "difference [] b = []" "difference a [] = a"
  by (simp_all add: difference_def)

lemma intersect_Nil [simp]: "intersect a [] = []" "intersect [] b = []"
  by (simp_all add: intersect_def)

lemma affectedServices_compose: "set (affectedServices before after) \<subseteq> set composeServices - {''auth-templates''}"
  by (auto simp: affectedServices_def serviceOrder_def composeServices_def)

text \<open>
  The server of the e-mail templates is noted as affected by a change of the authentication settings,
  but the order of restarts does not list it, and as it is not new it is not started either.
\<close>

lemma template_server_not_restarted:
  assumes "cfg_Auth before \<noteq> cfg_Auth after" and "svc_Auth (cfg_Services before)" and "svc_Auth (cfg_Services after)"
  shows "''auth-templates'' \<in> set (affectedNames before after) \<and> ''auth-templates'' \<in> set (enabledServices after) \<and>
    ''auth-templates'' \<notin> set (affectedServices before after) \<and>
    ''auth-templates'' \<notin> set (difference (enabledServices after) (enabledServices before))"
proof (intro conjI)
  show "''auth-templates'' \<in> set (affectedNames before after)"
    by (simp add: affectedNames_def Let_def assms(1) split del: if_split)
  show "''auth-templates'' \<in> set (enabledServices after)"
    by (simp add: enabledServices_def Let_def assms(3))
  show "''auth-templates'' \<notin> set (affectedServices before after)"
    by (simp add: affectedServices_def serviceOrder_def)
  have "''auth-templates'' \<in> set (enabledServices before)"
    by (simp add: enabledServices_def Let_def assms(2))
  then show "''auth-templates'' \<notin> set (difference (enabledServices after) (enabledServices before))"
    by simp
qed

lemma affectedServices_same [simp]: "affectedServices c c = []"
  by (simp add: affectedServices_def affectedNames_def Let_def)

lemma validateServices_None: "validateServices services = None \<longleftrightarrow> set services \<subseteq> set composeServices"
  by (induction services) auto

end
