(* ===== verification/ProvisionerWorld.thy ===== *)
theory ProvisionerWorld
  imports RuntimeServices ProjectValidation Triples
begin

text \<open>
  What the Provisioner's runtime acts on. \<open>provisioner\<close> is the state of one project: its metadata file
  (\<^verbatim>\<open>project.json\<close>), the \<^verbatim>\<open>current\<close> pointer and the generations of \<^verbatim>\<open>.manager-runtime\<close>, and the log of
  the calls made to Docker Compose and to the nginx agent with their outcomes. The variables that the
  closures of one call share (\<^verbatim>\<open>metadata\<close>, \<^verbatim>\<open>result\<close>, \<^verbatim>\<open>published\<close>, \<^verbatim>\<open>proxyChanged\<close>, \<^verbatim>\<open>runtimeRollback\<close>
  and those of the \<^verbatim>\<open>restore\<close> and \<^verbatim>\<open>commit\<close> closures of the staging function) are fields too.

  \<open>ProvisionerEnvironment\<close> is everything outside: every file-system step may fail at any time
  (\<open>pe_Fault\<close>), questions about the file tree have any answer (\<open>pe_Found\<close>), a call to Compose or nginx answers whatever it likes (\<open>pe_Run\<close>), Docker reports any
  containers after any time, and the caller's deadline may interrupt a wait. File contents are not
  modelled, only which steps run and which files and pointers they publish.
\<close>

section \<open>Data\<close>

record RotationJournal =
  rj_OperationID :: string
  rj_Phase :: string
  rj_OldGeneration :: string
  rj_NewGeneration :: string
  rj_ExpectedRevision :: int
  rj_NextRevision :: int

text \<open>\<open>rs_Failed\<close> says that the \<^verbatim>\<open>Error\<close> field is set; its code and message are constants.\<close>

record ReconcileResult = ReconcileProjectResponse +
  rs_RolledBack :: bool
  rs_RuntimeChanged :: bool
  rs_Failed :: bool

definition noResult :: ReconcileResult where
  "noResult = \<lparr>rs_OperationID = [], rs_ProjectID = [], rs_Revision = 0, rs_EnabledServices = [],
     rs_RecreatedServices = [], rs_RolledBack = False, rs_RuntimeChanged = False, rs_Failed = False\<rparr>"

record Metadata =
  md_ProjectID :: string
  md_ProjectName :: string
  md_Slug :: string
  md_Revision :: int
  md_Idempotency :: "(string \<times> ReconcileResult) list"
  md_Configuration :: ProjectConfiguration
  md_EnabledServices :: "string list"
  md_Fence :: int
  md_Rotation :: "RotationJournal option"

definition freshMetadata :: "string \<Rightarrow> Metadata" where
  "freshMetadata slug = \<lparr>md_ProjectID = [], md_ProjectName = [], md_Slug = slug, md_Revision = 0,
     md_Idempotency = [], md_Configuration = zeroConfiguration, md_EnabledServices = [], md_Fence = 0,
     md_Rotation = None\<rparr>"

record ProjectRef =
  ref_Slug :: string
  ref_Dir :: string
  ref_ComposeFile :: string
  ref_EnvFile :: string

datatype RuntimeCall =
    CallValidate ProjectRef
  | CallRemoveStopped ProjectRef "string list"
  | CallDownRuntime ProjectRef
  | CallResetDatabaseConfig ProjectRef
  | CallUpDatabase ProjectRef
  | CallVerifyDatabaseBootstrap ProjectRef
  | CallSynchronizeRoles ProjectRef
  | CallUpServices ProjectRef "string list"
  | CallUpSelected ProjectRef "string list"
  | CallRecreate ProjectRef "string list"
  | CallStop ProjectRef
  | CallRestart ProjectRef "string list"
  | CallRotateDatabasePassword ProjectRef string string
  | CallProxyApply Route
  | CallProxyRemove string

record Stage =
  sg_Generation :: string
  sg_Previous :: string
  sg_Committed :: bool
  sg_Restored :: bool
  sg_Published :: bool
  sg_Migrated :: bool

text \<open>The variables the \<^verbatim>\<open>rollback\<close> closure captures.\<close>

record RollbackContext =
  rb_PreviousConfig :: ProjectConfiguration
  rb_PreviousServices :: "string list"
  rb_Added :: "string list"
  rb_Disabled :: "string list"
  rb_PreviousRef :: ProjectRef
  rb_CurrentRef :: ProjectRef
  rb_PreviousRoute :: "Route option"

text \<open>The variables the rotation's \<^verbatim>\<open>rollback\<close> closure captures, and its response.\<close>

record RotationContext =
  rx_Ref :: ProjectRef
  rx_OldRef :: ProjectRef
  rx_Services :: "string list"

record RotationResult = RotateDatabasePasswordResponse +
  rotr_RolledBack :: bool
  rotr_RuntimeChanged :: bool
  rotr_RuntimeOutcomeUnknown :: bool
  rotr_Failed :: bool

definition noRotation :: RotationResult where
  "noRotation = \<lparr>rotr_OperationID = [], rotr_ProjectID = [], rotr_Revision = 0, rotr_RolledBack = False,
     rotr_RuntimeChanged = False, rotr_RuntimeOutcomeUnknown = False, rotr_Failed = False\<rparr>"

record provisioner =
  pv_Steps :: nat
  pv_Probes :: nat
  pv_Metadata :: "Metadata option"
  pv_Current :: string
  pv_Generations :: "string list"
  pv_Calls :: "(RuntimeCall \<times> goerr option) list"
  pv_Local :: Metadata
  pv_Result :: ReconcileResult
  pv_Stage :: Stage
  pv_Published :: bool
  pv_ProxyChanged :: bool
  pv_Rollback :: "RollbackContext option"
  pv_RollbackSucceeded :: bool
  pv_InspectorFails :: bool
  pv_RotationResult :: RotationResult
  pv_Compensation :: "RotationContext option"
  pv_UndoRan :: bool

record Container =
  ct_Service :: string
  ct_State :: string
  ct_Health :: string

text \<open>What the renderer is given, what it returns, and what is staged.\<close>

record RenderInput =
  in_ProjectID :: string
  in_ProjectName :: string
  in_Slug :: string
  in_APIPort :: int
  in_Configuration :: ProjectConfiguration
  in_Secrets :: ProjectSecrets
  in_RuntimeSecrets :: "(string \<times> string) list"

record Rendered =
  rn_Compose :: string
  rn_Env :: string
  rn_FunctionsEnv :: string
  rn_MailerTemplates :: "(string \<times> string) list"
  rn_EnabledComposeServices :: "string list"

record RuntimeFiles =
  rf_Compose :: string
  rf_Env :: string
  rf_FunctionsEnv :: string
  rf_MailerTemplates :: "(string \<times> string) list"

record ProvisionerEnvironment =
  pe_Base :: string
  pe_Nanos :: "nat \<Rightarrow> int"
  pe_TempName :: "nat \<Rightarrow> string"
  pe_Fault :: "nat \<Rightarrow> goerr option"
  pe_Found :: "nat \<Rightarrow> string \<Rightarrow> bool"
  pe_Run :: "nat \<Rightarrow> RuntimeCall \<Rightarrow> goerr option"
  pe_Containers :: "nat \<Rightarrow> string \<Rightarrow> string list \<Rightarrow> goerr + Container list"
  pe_ProbeTime :: "nat \<Rightarrow> nat"
  pe_Interrupt :: "nat \<Rightarrow> goerr option"
  pe_NetTimeout :: "goerr \<Rightarrow> bool"
  pe_Render :: "RenderInput \<Rightarrow> goerr + Rendered"

section \<open>Interactions\<close>

definition consult :: "(nat \<Rightarrow> 'a) \<Rightarrow> (provisioner, 'a) act" where
  "consult f s = (Inr (f (pv_Steps s)), s\<lparr>pv_Steps := Suc (pv_Steps s)\<rparr>)"

definition failing :: "goerr option \<Rightarrow> (provisioner, unit) act" where
  "failing r = (case r of Some e \<Rightarrow> throw e | None \<Rightarrow> ret ())"

text \<open>A file-system step: it fails with its label before the error, or it is done.\<close>

definition fsStep :: "ProvisionerEnvironment \<Rightarrow> string \<Rightarrow> (provisioner, unit) act" where
  "fsStep env label = andThen (consult (pe_Fault env)) (\<lambda>r.
     failing (map_option (\<lambda>e. if label = [] then e else Errorf label e []) r))"

definition fsSteps :: "ProvisionerEnvironment \<Rightarrow> string list \<Rightarrow> (provisioner, unit) act" where
  "fsSteps env labels = forEach labels (fsStep env)"

text \<open>A question about the file tree that decides a branch: whether a path exists, or what is there.\<close>

definition ifFound ::
  "ProvisionerEnvironment \<Rightarrow> string \<Rightarrow> (provisioner, 'a) act \<Rightarrow> (provisioner, 'a) act \<Rightarrow> (provisioner, 'a) act" where
  "ifFound env question m n = andThen (consult (\<lambda>k. pe_Found env k question)) (\<lambda>found. if found then m else n)"

definition call :: "ProvisionerEnvironment \<Rightarrow> RuntimeCall \<Rightarrow> (provisioner, unit) act" where
  "call env c = andThen (consult (\<lambda>n. pe_Run env n c)) (\<lambda>r.
     andThen (modify (\<lambda>s. s\<lparr>pv_Calls := pv_Calls s @ [(c, r)]\<rparr>)) (\<lambda>_. failing r))"

text \<open>\<^verbatim>\<open>Runner.Recreate\<close>, \<^verbatim>\<open>UpSelected\<close> and \<^verbatim>\<open>RemoveStopped\<close>: an empty list of services is no call.\<close>

definition onServices ::
  "ProvisionerEnvironment \<Rightarrow> (string list \<Rightarrow> RuntimeCall) \<Rightarrow> string list \<Rightarrow> (provisioner, unit) act" where
  "onServices env c services = andThen (failing (validateServices services)) (\<lambda>_.
     if services = [] then ret () else call env (c services))"

definition Recreate :: "ProvisionerEnvironment \<Rightarrow> ProjectRef \<Rightarrow> string list \<Rightarrow> (provisioner, unit) act" where
  "Recreate env ref = onServices env (CallRecreate ref)"

definition UpSelected :: "ProvisionerEnvironment \<Rightarrow> ProjectRef \<Rightarrow> string list \<Rightarrow> (provisioner, unit) act" where
  "UpSelected env ref = onServices env (CallUpSelected ref)"

definition RemoveStopped :: "ProvisionerEnvironment \<Rightarrow> ProjectRef \<Rightarrow> string list \<Rightarrow> (provisioner, unit) act" where
  "RemoveStopped env ref = onServices env (CallRemoveStopped ref)"

section \<open>Paths and metadata\<close>

definition ProjectPath :: "ProvisionerEnvironment \<Rightarrow> string \<Rightarrow> (provisioner, string) act" where
  "ProjectPath env slug =
     (if matchString slugPattern slug then ret (pe_Base env @ ''/'' @ slug)
      else throw (ErrorsNew ''invalid server slug''))"

definition refAt :: "string \<Rightarrow> string \<Rightarrow> string \<Rightarrow> ProjectRef" where
  "refAt slug project dir = \<lparr>ref_Slug = slug, ref_Dir = project,
     ref_ComposeFile = dir @ ''/docker-compose.yml'', ref_EnvFile = dir @ ''/.env''\<rparr>"

definition generationPattern :: rx where
  "generationPattern = foldr (\<lambda>c. Cat (Cls (\<lambda>d. d = c))) ''generation-'' (Cat (Cls isDigit) (Star (Cls isDigit)))"

text \<open>The reference built from the zero \<^verbatim>\<open>RuntimeRef\<close> when an error is ignored.\<close>

definition noRef :: "string \<Rightarrow> ProjectRef" where
  "noRef slug = \<lparr>ref_Slug = slug, ref_Dir = [], ref_ComposeFile = [], ref_EnvFile = []\<rparr>"

definition CurrentRuntimeFiles :: "ProvisionerEnvironment \<Rightarrow> string \<Rightarrow> (provisioner, ProjectRef) act" where
  "CurrentRuntimeFiles env slug = andThen (ProjectPath env slug) (\<lambda>project.
     ret (refAt slug project (project @ ''/.manager-runtime/current'')))"

definition CurrentRuntimeGeneration :: "ProvisionerEnvironment \<Rightarrow> string \<Rightarrow> (provisioner, ProjectRef) act" where
  "CurrentRuntimeGeneration env slug = andThen (CurrentRuntimeFiles env slug) (\<lambda>ref.
     andThen (fsStep env []) (\<lambda>_. andThen (gets pv_Current) (\<lambda>target.
     ret (if target = [] then ref
          else refAt slug (ref_Dir ref) (ref_Dir ref @ ''/.manager-runtime/generations/'' @ target)))))"

definition RuntimeGeneration :: "ProvisionerEnvironment \<Rightarrow> string \<Rightarrow> string \<Rightarrow> (provisioner, ProjectRef) act" where
  "RuntimeGeneration env slug name = andThen (ProjectPath env slug) (\<lambda>project.
     andThen (failIf (\<not> matchString generationPattern name) (ErrorsNew ''invalid runtime generation'')) (\<lambda>_.
     andThen (fsStep env []) (\<lambda>_. andThen (gets pv_Generations) (\<lambda>generations.
     andThen (failIf (name \<notin> set generations) (ErrorsNew ''file does not exist'')) (\<lambda>_.
     ret (refAt slug project (project @ ''/.manager-runtime/generations/'' @ name)))))))"

definition orNoRef :: "string \<Rightarrow> (provisioner, ProjectRef) act \<Rightarrow> (provisioner, ProjectRef) act" where
  "orNoRef slug m = andThen (attempt m) (\<lambda>r. ret (case r of Inl e \<Rightarrow> noRef slug | Inr ref \<Rightarrow> ref))"

definition readMetadata :: "ProvisionerEnvironment \<Rightarrow> string \<Rightarrow> (provisioner, Metadata option) act" where
  "readMetadata env slug = andThen (ProjectPath env slug) (\<lambda>_.
     andThen (fsStep env ''read server metadata: '') (\<lambda>_. andThen (gets pv_Metadata) (\<lambda>stored.
     case stored of None \<Rightarrow> ret None
     | Some metadata \<Rightarrow> andThen (fsStep env ''decode server metadata: '') (\<lambda>_. ret (Some metadata)))))"

text \<open>The file is replaced by the rename at the end, so a failed write leaves the old one.\<close>

definition writeMetadata :: "ProvisionerEnvironment \<Rightarrow> string \<Rightarrow> Metadata \<Rightarrow> (provisioner, unit) act" where
  "writeMetadata env slug metadata = andThen (ProjectPath env slug) (\<lambda>_.
     andThen (fsSteps env [''create server directory: '', ''encode server metadata: '', ''create temporary metadata: '',
       ''secure metadata permissions: '', ''write metadata: '', ''sync metadata: '', ''close metadata: '',
       ''publish metadata: '']) (\<lambda>_.
     modify (\<lambda>s. s\<lparr>pv_Metadata := Some metadata\<rparr>)))"

definition WriteMetadataForPhase :: "ProvisionerEnvironment \<Rightarrow> string \<Rightarrow> Metadata \<Rightarrow> (provisioner, unit) act" where
  "WriteMetadataForPhase env slug metadata = writeMetadata env slug metadata"

definition lockMetadataFile :: "ProvisionerEnvironment \<Rightarrow> string \<Rightarrow> (provisioner, unit) act" where
  "lockMetadataFile env slug = andThen (ProjectPath env slug) (\<lambda>_. fsSteps env [[], [], []])"

definition UpdateMetadata ::
  "ProvisionerEnvironment \<Rightarrow> string \<Rightarrow> (provisioner, unit) act \<Rightarrow> (provisioner, Metadata) act" where
  "UpdateMetadata env slug mutate =
     andThen (lockMetadataFile env slug) (\<lambda>_.
     andThen (readMetadata env slug) (\<lambda>stored.
     andThen (modify (\<lambda>s. s\<lparr>pv_Local := (case stored of None \<Rightarrow> freshMetadata slug | Some m \<Rightarrow> m)\<rparr>)) (\<lambda>_.
     andThen mutate (\<lambda>_. andThen (gets pv_Local) (\<lambda>metadata.
     andThen (writeMetadata env slug metadata) (\<lambda>_. ret metadata))))))"

definition WithProjectMetadataLock ::
  "ProvisionerEnvironment \<Rightarrow> string \<Rightarrow> (provisioner, unit) act \<Rightarrow> (provisioner, Metadata) act" where
  "WithProjectMetadataLock env slug mutate =
     andThen (lockMetadataFile env slug) (\<lambda>_.
     andThen (readMetadata env slug) (\<lambda>stored. case stored of
       None \<Rightarrow> throw (Sentinel ErrNotFound)
     | Some m \<Rightarrow>
         andThen (modify (\<lambda>s. s\<lparr>pv_Local := m\<rparr>)) (\<lambda>_.
         andThen mutate (\<lambda>_. andThen (gets pv_Local) (\<lambda>metadata.
         andThen (writeMetadata env slug metadata) (\<lambda>_. ret metadata))))))"

text \<open>
  A Go panic is an error no handler sees: \<open>goPanic\<close> leaves through the deferred unlock alone. The error of
  a failed publication: \<^verbatim>\<open>MetadataPublicationError\<close>, which prints and unwraps as its
  \<^verbatim>\<open>Publish\<close> error. Its two flags are not read by the reconciliation.
\<close>

definition goPanic :: goerr where
  "goPanic = ErrorsNew ''invalid memory address or nil pointer dereference''"

definition publicationError :: "goerr \<Rightarrow> goerr" where
  "publicationError publish = Errorf [] publish []"

definition UpdateMetadataWithRollback ::
  "ProvisionerEnvironment \<Rightarrow> string \<Rightarrow> (provisioner, unit) act \<Rightarrow> (provisioner, unit) act \<Rightarrow>
     (provisioner, Metadata) act" where
  "UpdateMetadataWithRollback env slug mutate rollback =
     andThen (lockMetadataFile env slug) (\<lambda>_.
     andThen (readMetadata env slug) (\<lambda>stored.
     andThen (modify (\<lambda>s. s\<lparr>pv_Local := (case stored of None \<Rightarrow> freshMetadata slug | Some m \<Rightarrow> m)\<rparr>)) (\<lambda>_.
     andThen (attempt mutate) (\<lambda>mutation.
     case mutation of
       Inl e \<Rightarrow>
         (if errorsIs e ErrStaleConfigRevision \<or> e = goPanic then throw e
          else andThen (gets pv_Local) (\<lambda>metadata. andThen (attempt (writeMetadata env slug metadata)) (\<lambda>written.
            case written of
              Inr _ \<Rightarrow> throw e
            | Inl writeErr \<Rightarrow> andThen (attempt rollback) (\<lambda>r. throw (publicationError
                (case r of Inl f \<Rightarrow> Joined [writeErr, f] | Inr _ \<Rightarrow> writeErr))))))
     | Inr _ \<Rightarrow>
         andThen (gets pv_Local) (\<lambda>metadata. andThen (attempt (writeMetadata env slug metadata)) (\<lambda>written.
           case written of
             Inr _ \<Rightarrow> ret metadata
           | Inl writeErr \<Rightarrow> andThen (attempt rollback) (\<lambda>r. throw (publicationError
               (case r of Inl f \<Rightarrow> Joined [writeErr, f] | Inr _ \<Rightarrow> writeErr)))))))))"

section \<open>Runtime generations\<close>

definition restoreRuntimePointer :: "ProvisionerEnvironment \<Rightarrow> string \<Rightarrow> (provisioner, unit) act" where
  "restoreRuntimePointer env previous =
     (if previous = [] then
        andThen (fsStep env ''remove runtime pointer during rollback: '') (\<lambda>_.
        andThen (modify (\<lambda>s. s\<lparr>pv_Current := []\<rparr>)) (\<lambda>_. fsStep env []))
      else
        andThen (fsStep env ''create rollback runtime pointer: '') (\<lambda>_.
        andThen (fsStep env ''restore runtime pointer: '') (\<lambda>_.
        andThen (modify (\<lambda>s. s\<lparr>pv_Current := previous\<rparr>)) (\<lambda>_.
        fsStep env ''sync restored runtime pointer: ''))))"

definition syncPointer :: "ProvisionerEnvironment \<Rightarrow> string \<Rightarrow> string \<Rightarrow> (provisioner, unit) act" where
  "syncPointer env label previous = andThen (attempt (fsStep env [])) (\<lambda>synced.
     case synced of
       Inr _ \<Rightarrow> ret ()
     | Inl e \<Rightarrow> andThen (attempt (restoreRuntimePointer env previous)) (\<lambda>r. throw (Errorf label e
         (case r of Inl f \<Rightarrow> ''; restore previous pointer: '' @ errText f | Inr _ \<Rightarrow> []))))"

definition switchRuntimePointer :: "ProvisionerEnvironment \<Rightarrow> string \<Rightarrow> (provisioner, unit) act" where
  "switchRuntimePointer env target =
     andThen (fsStep env ''read current runtime pointer: '') (\<lambda>_. andThen (gets pv_Current) (\<lambda>previous.
     if target = [] then
       (if previous = [] then ret ()
        else andThen (fsStep env ''remove runtime pointer: '') (\<lambda>_.
          andThen (modify (\<lambda>s. s\<lparr>pv_Current := []\<rparr>)) (\<lambda>_.
          syncPointer env ''sync removed runtime pointer: '' previous)))
     else
       andThen (fsStep env ''create runtime pointer: '') (\<lambda>_.
       andThen (fsStep env ''switch runtime pointer: '') (\<lambda>_.
       andThen (modify (\<lambda>s. s\<lparr>pv_Current := target\<rparr>)) (\<lambda>_.
       syncPointer env ''sync runtime pointer: '' previous)))))"

definition SelectRuntimeGeneration :: "ProvisionerEnvironment \<Rightarrow> string \<Rightarrow> string \<Rightarrow> (provisioner, unit) act" where
  "SelectRuntimeGeneration env slug name = andThen (ProjectPath env slug) (\<lambda>_.
     andThen (RuntimeGeneration env slug name) (\<lambda>_. switchRuntimePointer env name))"

definition updateStage :: "(Stage \<Rightarrow> Stage) \<Rightarrow> (provisioner, unit) act" where
  "updateStage f = modify (\<lambda>s. s\<lparr>pv_Stage := f (pv_Stage s)\<rparr>)"

text \<open>A new project directory is published from the template; an incomplete one is filled only if it has no user files.\<close>

definition hydrateProject :: "ProvisionerEnvironment \<Rightarrow> (provisioner, unit) act" where
  "hydrateProject env = andThen (fsStep env ''inspect server directory: '') (\<lambda>_.
     ifFound env ''server directory''
       (andThen (fsStep env ''inspect server template: '') (\<lambda>_.
        ifFound env ''volumes/db/_supabase.sql'' (ret ())
          (andThen (fsStep env ''inspect incomplete server template: '') (\<lambda>_.
           ifFound env ''only files of the Manager'' (fsStep env ''hydrate incomplete server template: '')
             (throw (ErrorsNew ''server template is incomplete and contains existing user data''))))))
       (fsSteps env [''create server staging directory: '', [], ''publish server directory: '']))"

definition writeAtomic :: "ProvisionerEnvironment \<Rightarrow> string \<Rightarrow> (provisioner, unit) act" where
  "writeAtomic env name = fsSteps env [''create temporary '' @ name @ '': '', ''set '' @ name @ '' permissions: '',
     ''write '' @ name @ '': '', ''sync '' @ name @ '': '', ''close '' @ name @ '': '', ''publish '' @ name @ '': '']"

text \<open>The copy of the files that is written: its composite literal does not name \<^verbatim>\<open>MailerTemplates\<close>.\<close>

definition candidateFiles :: "RuntimeFiles \<Rightarrow> RuntimeFiles" where
  "candidateFiles files = \<lparr>rf_Compose = rf_Compose files, rf_Env = rf_Env files,
     rf_FunctionsEnv = rf_FunctionsEnv files, rf_MailerTemplates = []\<rparr>"

text \<open>The candidate directory is hydrated and written, but nothing is visible to Compose yet.\<close>

definition StageRuntimeFilesWithRef ::
  "ProvisionerEnvironment \<Rightarrow> string \<Rightarrow> RuntimeFiles \<Rightarrow> (provisioner, ProjectRef) act" where
  "StageRuntimeFilesWithRef env slug files = (let templates = map fst (rf_MailerTemplates (candidateFiles files)) in
     andThen (ProjectPath env slug) (\<lambda>project.
     andThen (hydrateProject env) (\<lambda>_.
     andThen (fsSteps env [[], ''create runtime generations: '', ''create runtime staging directory: '']) (\<lambda>_.
     andThen (forEach [''docker-compose.yml'', ''.env'', ''.env.functions''] (writeAtomic env)) (\<lambda>_.
     andThen (if templates = [] then ret () else fsStep env ''create mailer template directory: '') (\<lambda>_.
     andThen (forEach templates (\<lambda>name. writeAtomic env (''templates/'' @ name))) (\<lambda>_.
     andThen (fsStep env []) (\<lambda>_.
     andThen (consult (pe_Nanos env)) (\<lambda>nanos. andThen (consult (pe_TempName env)) (\<lambda>temporary.
     andThen (modify (\<lambda>s. s\<lparr>pv_Stage := \<lparr>sg_Generation = ''generation-'' @ itoa nanos, sg_Previous = [],
       sg_Committed = False, sg_Restored = False, sg_Published = False, sg_Migrated = False\<rparr>\<rparr>)) (\<lambda>_.
     ret (refAt slug project (project @ ''/.manager-runtime/.candidate-'' @ temporary)))))))))))))"

text \<open>
  The files an older version left in the project directory are moved away with the commit, in one step
  here, and \<^verbatim>\<open>restore\<close> moves them back, once: \<open>sg_Migrated\<close> says that it still has to.
\<close>

definition migrateLegacy :: "ProvisionerEnvironment \<Rightarrow> (provisioner, unit) act" where
  "migrateLegacy env = andThen (updateStage (\<lambda>stage. stage\<lparr>sg_Migrated := True\<rparr>)) (\<lambda>_. fsStep env [])"

definition undoMigration :: "ProvisionerEnvironment \<Rightarrow> (provisioner, unit) act" where
  "undoMigration env = andThen (gets (sg_Migrated \<circ> pv_Stage)) (\<lambda>migrated. if \<not> migrated then ret () else
     andThen (fsStep env []) (\<lambda>_. updateStage (\<lambda>stage. stage\<lparr>sg_Migrated := False\<rparr>)))"

definition commit :: "ProvisionerEnvironment \<Rightarrow> (provisioner, unit) act" where
  "commit env = andThen (gets pv_Stage) (\<lambda>stage. if sg_Committed stage then ret () else
     andThen (fsStep env ''publish runtime generation: '') (\<lambda>_.
     andThen (updateStage (\<lambda>stage. stage\<lparr>sg_Published := True\<rparr>)) (\<lambda>_.
     andThen (modify (\<lambda>s. s\<lparr>pv_Generations := pv_Generations s @ [sg_Generation stage]\<rparr>)) (\<lambda>_.
     andThen (fsStep env []) (\<lambda>_.
     andThen (fsStep env ''read current runtime pointer: '') (\<lambda>_.
     andThen (gets pv_Current) (\<lambda>active.
     andThen (updateStage (\<lambda>stage. stage\<lparr>sg_Previous := active\<rparr>)) (\<lambda>_.
     andThen (switchRuntimePointer env (sg_Generation stage)) (\<lambda>_.
     andThen (updateStage (\<lambda>stage. stage\<lparr>sg_Committed := True\<rparr>)) (\<lambda>_.
     migrateLegacy env))))))))))"

definition reselectPrevious :: "ProvisionerEnvironment \<Rightarrow> Stage \<Rightarrow> (provisioner, unit) act" where
  "reselectPrevious env stage = (if \<not> sg_Committed stage then ret () else
     andThen (fsStep env []) (\<lambda>_.
     andThen (fsStep env ''read current runtime pointer: '') (\<lambda>_. andThen (gets pv_Current) (\<lambda>active.
     andThen (failIf (active = []) (ErrorsNew ''read current runtime pointer: file does not exist'')) (\<lambda>_.
     andThen (failIf (active \<noteq> sg_Generation stage)
       (ErrorsNew (''stale runtime generation '' @ sg_Generation stage))) (\<lambda>_.
     switchRuntimePointer env (sg_Previous stage)))))))"

definition removeStaged :: "ProvisionerEnvironment \<Rightarrow> Stage \<Rightarrow> (provisioner, unit) act" where
  "removeStaged env stage =
     andThen (fsStep env ''remove staged generation: '') (\<lambda>_.
     andThen (modify (\<lambda>s. if sg_Published stage
       then s\<lparr>pv_Generations := filter (\<lambda>g. g \<noteq> sg_Generation stage) (pv_Generations s)\<rparr> else s)) (\<lambda>_.
     andThen (fsStep env []) (\<lambda>_.
     andThen (updateStage (\<lambda>stage. stage\<lparr>sg_Restored := True\<rparr>)) (\<lambda>_.
     fsStep env []))))"

definition restore :: "ProvisionerEnvironment \<Rightarrow> (provisioner, unit) act" where
  "restore env = andThen (gets pv_Stage) (\<lambda>stage. if sg_Restored stage then ret () else
     andThen (undoMigration env) (\<lambda>_. andThen (reselectPrevious env stage) (\<lambda>_. removeStaged env stage)))"

definition ResetInitialDatabase :: "ProvisionerEnvironment \<Rightarrow> string \<Rightarrow> (provisioner, unit) act" where
  "ResetInitialDatabase env slug = andThen (ProjectPath env slug) (\<lambda>_.
     andThen (fsStep env ''inspect initial database bootstrap directory: '') (\<lambda>_.
     ifFound env ''volumes/db''
       (ifFound env ''volumes/db is a directory''
          (fsSteps env [''reset initial database bootstrap: '', [], ''sync initial database reset: '',
             ''sync initial database volume root: ''])
          (throw (ErrorsNew ''initial database bootstrap path must be a directory, not a symlink'')))
       (fsStep env [])))"

end
