(* ===== verification/RuntimeHealth.thy ===== *)
theory RuntimeHealth
  imports ProvisionerWorld
begin

text \<open>
  The health of a project: \<^verbatim>\<open>health/inspect.go\<close> derives it from the containers Docker reports, and
  \<^verbatim>\<open>waitHealthy\<close> of \<^verbatim>\<open>runtime/reconcile.go\<close> polls it with a growing delay until it is healthy, certainly
  failed, or the time is over. Times are nanoseconds; the loop ends because every wait takes at least
  the first delay off what is left. The theorem bounds the number of probes and says what acceptance
  means.
\<close>

section \<open>One inspection\<close>

record ServiceState =
  ss_Name :: string
  ss_Health :: HealthStatus
  ss_Status :: string

record Report =
  rp_Health :: HealthStatus
  rp_Services :: "ServiceState list"

definition noReport :: Report where
  "noReport = \<lparr>rp_Health = HealthUnknown, rp_Services = []\<rparr>"

definition noContainer :: Container where
  "noContainer = \<lparr>ct_Service = [], ct_State = [], ct_Health = []\<rparr>"

definition deriveContainerHealth :: "Container \<Rightarrow> bool \<Rightarrow> HealthStatus" where
  "deriveContainerHealth container exists =
     (if \<not> exists then HealthUnhealthy
      else if ct_State container = ''created'' \<or> ct_State container = ''restarting'' then HealthStarting
      else if ct_State container \<noteq> ''running'' then HealthUnhealthy
      else if ct_Health container = ''healthy'' \<or> ct_Health container = [] then HealthHealthy
      else if ct_Health container = ''starting'' then HealthStarting
      else HealthUnhealthy)"

definition isCore :: "string \<Rightarrow> bool" where
  "isCore service = (service \<in> {''db'', ''api-gw'', ''envoy'', ''kong'', ''auth'', ''rest'', ''meta'', ''studio''})"

text \<open>\<^verbatim>\<open>byService\<close>: the last container of a service wins.\<close>

definition serviceState :: "Container list \<Rightarrow> string \<Rightarrow> ServiceState" where
  "serviceState containers name = (case find (\<lambda>c. ct_Service c = name) (rev containers) of
      None \<Rightarrow> \<lparr>ss_Name = name, ss_Health = deriveContainerHealth noContainer False, ss_Status = []\<rparr>
    | Some c \<Rightarrow> \<lparr>ss_Name = name, ss_Health = deriveContainerHealth c True, ss_Status = ct_State c\<rparr>)"

definition worsen :: "HealthStatus \<Rightarrow> ServiceState \<Rightarrow> HealthStatus" where
  "worsen health state =
     (if ss_Health state = HealthHealthy then health
      else if isCore (ss_Name state) then HealthUnhealthy
      else if health \<noteq> HealthUnhealthy then HealthDegraded
      else health)"

definition reportOf :: "Container list \<Rightarrow> string list \<Rightarrow> Report" where
  "reportOf containers enabled =
     (if containers = [] then \<lparr>rp_Health = HealthStopped, rp_Services = []\<rparr>
      else let services = map (serviceState containers) enabled
           in \<lparr>rp_Health = foldl worsen HealthHealthy services, rp_Services = services\<rparr>)"

definition inspectProject ::
  "ProvisionerEnvironment \<Rightarrow> string \<Rightarrow> string list \<Rightarrow> (provisioner, Report) act" where
  "inspectProject env slug enabled =
     andThen (modify (\<lambda>s. s\<lparr>pv_Probes := Suc (pv_Probes s)\<rparr>)) (\<lambda>_.
     andThen (consult (\<lambda>n. pe_Containers env n (''supabase-manager-'' @ slug) enabled)) (\<lambda>r.
     case r of Inl e \<Rightarrow> throw (Errorf ''list server containers: '' e [])
     | Inr containers \<Rightarrow> ret (reportOf containers enabled)))"

section \<open>Waiting\<close>

definition reconcileHealthTimeout :: nat where "reconcileHealthTimeout = 300000000000"
definition reconcileHealthInitialPoll :: nat where "reconcileHealthInitialPoll = 1000000000"
definition reconcileHealthMaxPoll :: nat where "reconcileHealthMaxPoll = 5000000000"
definition rollbackActionBudget :: nat where "rollbackActionBudget = 90000000000"

definition nextHealthPollDelay :: "nat \<Rightarrow> nat" where
  "nextHealthPollDelay current =
     (if current \<ge> reconcileHealthMaxPoll then reconcileHealthMaxPoll
      else if current * 2 > reconcileHealthMaxPoll then reconcileHealthMaxPoll
      else current * 2)"

text \<open>The delay after \<open>k\<close> waits.\<close>

fun pollDelay :: "nat \<Rightarrow> nat" where
  "pollDelay 0 = reconcileHealthInitialPoll"
| "pollDelay (Suc k) = nextHealthPollDelay (pollDelay k)"

definition deadlineExceeded :: goerr where
  "deadlineExceeded = ErrorsNew ''context deadline exceeded''"

fun isDeadline :: "goerr \<Rightarrow> bool" where
  "isDeadline (Errorf a e b) = isDeadline e"
| "isDeadline (Joined es) = list_ex isDeadline es"
| "isDeadline e = (e = deadlineExceeded)"

definition retryableHealthProbeError :: "ProvisionerEnvironment \<Rightarrow> goerr \<Rightarrow> bool" where
  "retryableHealthProbeError env e = (isDeadline e \<or> pe_NetTimeout env e)"

text \<open>\<^verbatim>\<open>dockerControlPlaneUnavailableError\<close>: the runtime could not be observed.\<close>

definition controlPlaneUnavailable :: "goerr \<Rightarrow> goerr" where
  "controlPlaneUnavailable cause = Errorf ''Docker control plane unavailable while verifying runtime: '' cause []"

fun reportHasTransient :: "HealthStatus \<Rightarrow> ServiceState list \<Rightarrow> bool" where
  "reportHasTransient health [] = (health = HealthStarting)"
| "reportHasTransient health (s # ss) =
     (if ss_Health s = HealthUnhealthy then False
      else if ss_Health s = HealthStarting then True
      else reportHasTransient health ss)"

definition reportHasTransientService :: "Report \<Rightarrow> bool" where
  "reportHasTransientService report = reportHasTransient (rp_Health report) (rp_Services report)"

definition failedLabel :: "ServiceState \<Rightarrow> string" where
  "failedLabel s = ss_Name s @ '' ('' @ ss_Status s @ '', '' @ healthText (ss_Health s) @ '')''"

definition healthFailureError :: "Report \<Rightarrow> goerr" where
  "healthFailureError report =
     (let failed = map failedLabel (filter (\<lambda>s. ss_Health s \<noteq> HealthHealthy) (rp_Services report))
      in ErrorsNew (''runtime health is '' @ healthText (rp_Health report) @
           (if failed = [] then [] else ''; services: '' @ joinWith '', '' failed)))"

definition startingLabel :: "ServiceState \<Rightarrow> string" where
  "startingLabel s = ss_Name s @ (if ss_Status s = [] then [] else '' ('' @ ss_Status s @ '')'')"

definition healthTimeoutError :: "Report \<Rightarrow> goerr option \<Rightarrow> goerr" where
  "healthTimeoutError report probeErr = (case probeErr of
      Some e \<Rightarrow> controlPlaneUnavailable e
    | None \<Rightarrow>
        (let starting = map startingLabel (filter (\<lambda>s. ss_Health s = HealthStarting) (rp_Services report))
         in ErrorsNew (''runtime health did not become healthy before deadline'' @
              (if starting = [] then [] else ''; still starting: '' @ joinWith '', '' starting))))"

text \<open>
  One probe: \<open>Inr None\<close> accepts, \<open>Inr (Some (report, probe error))\<close> asks for another one, \<open>Inl\<close> fails.
\<close>

definition healthProbe :: "ProvisionerEnvironment \<Rightarrow> string \<Rightarrow> string list \<Rightarrow> Report \<Rightarrow>
    (provisioner, (Report \<times> goerr option) option) act" where
  "healthProbe env slug enabled latest = andThen (attempt (inspectProject env slug enabled)) (\<lambda>r.
     case r of
       Inl e \<Rightarrow> if retryableHealthProbeError env e then ret (Some (latest, Some e)) else throw e
     | Inr report \<Rightarrow>
         if rp_Health report = HealthHealthy then ret None
         else if \<not> reportHasTransientService report then throw (healthFailureError report)
         else ret (Some (report, None)))"

lemma pollDelay_pos [simp]: "0 < pollDelay k"
  by (induction k) (simp_all add: nextHealthPollDelay_def reconcileHealthInitialPoll_def reconcileHealthMaxPoll_def)

text \<open>
  The loop with \<open>remaining\<close> nanoseconds before the deadline. A probe takes its time, then the wait ends
  with the caller's interruption, with the deadline, or with the timer.
\<close>

function waitLoop :: "ProvisionerEnvironment \<Rightarrow> string \<Rightarrow> string list \<Rightarrow> nat \<Rightarrow> nat \<Rightarrow> Report \<Rightarrow>
    (provisioner, unit) act" where
  "waitLoop env slug enabled remaining k latest s =
     (case healthProbe env slug enabled latest s of
        (Inl e, t) \<Rightarrow> (Inl e, t)
      | (Inr None, t) \<Rightarrow> (Inr (), t)
      | (Inr (Some (report, probeErr)), t) \<Rightarrow>
          (let left = remaining - pe_ProbeTime env (pv_Steps s) in
           case consult (pe_Interrupt env) t of
             (Inr (Some e), u) \<Rightarrow> (Inl (if isDeadline e then healthTimeoutError report probeErr else e), u)
           | (_, u) \<Rightarrow>
               if left \<le> pollDelay k then (Inl (healthTimeoutError report probeErr), u)
               else waitLoop env slug enabled (left - pollDelay k) (Suc k) report u))"
  by auto
termination
  by (relation "measure (\<lambda>(env, slug, enabled, remaining, k, latest, s). remaining)") (auto simp: diff_less)

declare waitLoop.simps [simp del]

definition waitHealthy ::
  "ProvisionerEnvironment \<Rightarrow> nat \<Rightarrow> string \<Rightarrow> string list \<Rightarrow> (provisioner, unit) act" where
  "waitHealthy env budget slug enabled =
     (if enabled = [] then ret ()
      else waitLoop env slug enabled (min budget reconcileHealthTimeout) 0 noReport)"

section \<open>What a wait guarantees\<close>

text \<open>A healthy report means that every enabled service was seen running and healthy.\<close>

lemma worsen_healthy: "worsen h s = HealthHealthy \<longleftrightarrow> h = HealthHealthy \<and> ss_Health s = HealthHealthy"
  by (auto simp: worsen_def)

lemma foldl_worsen: "foldl worsen h ss = HealthHealthy \<longleftrightarrow> h = HealthHealthy \<and> (\<forall>s\<in>set ss. ss_Health s = HealthHealthy)"
  by (induction ss arbitrary: h) (auto simp: worsen_healthy)

definition runsHealthy :: "Container list \<Rightarrow> string \<Rightarrow> bool" where
  "runsHealthy containers name \<longleftrightarrow> (\<exists>c\<in>set containers. ct_Service c = name \<and> ct_State c = ''running'' \<and>
     (ct_Health c = ''healthy'' \<or> ct_Health c = []))"

lemma serviceState_healthy: "ss_Health (serviceState containers name) = HealthHealthy \<Longrightarrow> runsHealthy containers name"
  by (auto simp: serviceState_def deriveContainerHealth_def runsHealthy_def
      split: option.splits if_splits dest!: find_SomeD)

lemma reportOf_healthy:
  "rp_Health (reportOf containers enabled) = HealthHealthy \<Longrightarrow> \<forall>name\<in>set enabled. runsHealthy containers name"
  by (auto simp: reportOf_def Let_def foldl_worsen serviceState_healthy split: if_splits)

text \<open>Nothing but the counters of questions and probes has changed.\<close>

definition sameRuntime :: "provisioner \<Rightarrow> provisioner \<Rightarrow> bool" where
  "sameRuntime s t \<longleftrightarrow> t = s\<lparr>pv_Steps := pv_Steps t, pv_Probes := pv_Probes t\<rparr>"

lemma sameRuntime_trans: "sameRuntime s t \<Longrightarrow> sameRuntime t u \<Longrightarrow> sameRuntime s u"
  unfolding sameRuntime_def by (cases s; cases t; cases u) simp

lemma healthProbe_run:
  assumes "healthProbe env slug enabled latest s = (r, t)"
  shows "pv_Probes t = Suc (pv_Probes s)" and "pv_Steps t = Suc (pv_Steps s)" and "sameRuntime s t"
    and "r = Inr None \<Longrightarrow> \<exists>containers. pe_Containers env (pv_Steps s) (''supabase-manager-'' @ slug) enabled =
      Inr containers \<and> (\<forall>name\<in>set enabled. runsHealthy containers name)"
  using assms
  by (auto simp: healthProbe_def inspectProject_def consult_def andThen_def attempt_def sameRuntime_def
      split: sum.splits if_splits dest!: reportOf_healthy)

text \<open>How many probes fit in \<open>remaining\<close> nanoseconds after \<open>k\<close> waits.\<close>

function probeLimit :: "nat \<Rightarrow> nat \<Rightarrow> nat" where
  "probeLimit k remaining =
     (if remaining \<le> pollDelay k then 1 else Suc (probeLimit (Suc k) (remaining - pollDelay k)))"
  by auto
termination by (relation "measure snd") auto

declare probeLimit.simps [simp del]

lemma probeLimit_mono: "r \<le> r' \<Longrightarrow> probeLimit k r \<le> probeLimit k r'"
proof (induction k r arbitrary: r' rule: probeLimit.induct)
  case (1 k r)
  show ?case
  proof (cases "r \<le> pollDelay k")
    case True
    then show ?thesis by (subst (1 2) probeLimit.simps) simp
  next
    case False
    then show ?thesis using 1 by (subst (1 2) probeLimit.simps) simp
  qed
qed

text \<open>The three ways one round can go.\<close>

lemma waitLoop_stops:
  assumes "healthProbe env slug enabled latest s = (p, u)" and "\<And>x. p \<noteq> Inr (Some x)"
  shows "waitLoop env slug enabled remaining k latest s = (map_sum id (\<lambda>_. ()) p, u)"
  using assms by (auto simp: waitLoop.simps [of env slug enabled remaining] split: sum.splits option.splits)

lemma waitLoop_ends:
  assumes "healthProbe env slug enabled latest s = (Inr (Some (report, probeErr)), u)"
    and "pe_Interrupt env (pv_Steps u) \<noteq> None \<or> remaining - pe_ProbeTime env (pv_Steps s) \<le> pollDelay k"
  obtains e where "waitLoop env slug enabled remaining k latest s = (Inl e, u\<lparr>pv_Steps := Suc (pv_Steps u)\<rparr>)"
  using assms by (cases "pe_Interrupt env (pv_Steps u)")
    (auto simp: waitLoop.simps [of env slug enabled remaining] consult_def Let_def)

lemma waitLoop_again:
  assumes "healthProbe env slug enabled latest s = (Inr (Some (report, probeErr)), u)"
    and "pe_Interrupt env (pv_Steps u) = None" and "\<not> remaining - pe_ProbeTime env (pv_Steps s) \<le> pollDelay k"
  shows "waitLoop env slug enabled remaining k latest s =
    waitLoop env slug enabled (remaining - pe_ProbeTime env (pv_Steps s) - pollDelay k) (Suc k) report
      (u\<lparr>pv_Steps := Suc (pv_Steps u)\<rparr>)"
  using assms by (simp add: waitLoop.simps [of env slug enabled remaining k] consult_def Let_def)

text \<open>An induction over the rounds of a wait.\<close>

lemma waitLoop_rounds:
  assumes run: "waitLoop env slug enabled remaining k latest s = (r, t)"
    and stops: "\<And>k remaining latest s p u. healthProbe env slug enabled latest s = (p, u) \<Longrightarrow>
      (\<And>x. p \<noteq> Inr (Some x)) \<Longrightarrow> Q k remaining s (map_sum id (\<lambda>_. ()) p) u"
    and ends: "\<And>k remaining latest s x u e. healthProbe env slug enabled latest s = (Inr (Some x), u) \<Longrightarrow>
      Q k remaining s (Inl e) (u\<lparr>pv_Steps := Suc (pv_Steps u)\<rparr>)"
    and again: "\<And>k remaining left latest s x u r t. healthProbe env slug enabled latest s = (Inr (Some x), u) \<Longrightarrow>
      left \<le> remaining \<Longrightarrow> pollDelay k < left \<Longrightarrow>
      Q (Suc k) (left - pollDelay k) (u\<lparr>pv_Steps := Suc (pv_Steps u)\<rparr>) r t \<Longrightarrow> Q k remaining s r t"
  shows "Q k remaining s r t"
  using run
proof (induction remaining arbitrary: k latest s rule: less_induct)
  case (less remaining)
  obtain p u where probe: "healthProbe env slug enabled latest s = (p, u)" by fastforce
  show ?case
  proof (cases "\<exists>x. p = Inr (Some x)")
    case False
    with less.prems probe waitLoop_stops [OF probe] stops [OF probe] show ?thesis by auto
  next
    case True
    then obtain report probeErr where p: "p = Inr (Some (report, probeErr))" by auto
    note probe = probe [unfolded p]
    let ?left = "remaining - pe_ProbeTime env (pv_Steps s)"
    show ?thesis
    proof (cases "pe_Interrupt env (pv_Steps u) = None \<and> \<not> ?left \<le> pollDelay k")
      case False
      then obtain e where "waitLoop env slug enabled remaining k latest s = (Inl e, u\<lparr>pv_Steps := Suc (pv_Steps u)\<rparr>)"
        using waitLoop_ends [OF probe] by blast
      with less.prems ends [OF probe] show ?thesis by auto
    next
      case True
      have smaller: "?left - pollDelay k < remaining" using True pollDelay_pos [of k] by linarith
      have "waitLoop env slug enabled (?left - pollDelay k) (Suc k) report (u\<lparr>pv_Steps := Suc (pv_Steps u)\<rparr>) = (r, t)"
        using less.prems waitLoop_again [OF probe] True by simp
      from less.IH [OF smaller this] again [OF probe, of ?left] True show ?thesis by simp
    qed
  qed
qed

lemma waitLoop_probes:
  assumes "waitLoop env slug enabled remaining k latest s = (r, t)"
  shows "pv_Probes t \<le> pv_Probes s + probeLimit k remaining"
  using assms
proof (rule waitLoop_rounds [where Q = "\<lambda>k remaining s r t. pv_Probes t \<le> pv_Probes s + probeLimit k remaining"])
  have limit: "1 \<le> probeLimit k remaining" for k remaining by (subst probeLimit.simps) simp
  show "pv_Probes u \<le> pv_Probes s + probeLimit k remaining"
    if "healthProbe env slug enabled latest s = (p, u)" for k remaining latest s p u
    using healthProbe_run(1) [OF that] limit [of k remaining] by simp
  then show "pv_Probes (u\<lparr>pv_Steps := Suc (pv_Steps u)\<rparr>) \<le> pv_Probes s + probeLimit k remaining"
    if "healthProbe env slug enabled latest s = (Inr (Some x), u)" for k remaining latest s x u
    using that by simp
  show "pv_Probes t \<le> pv_Probes s + probeLimit k remaining"
    if probe: "healthProbe env slug enabled latest s = (Inr (Some x), u)"
      and time: "left \<le> remaining" "pollDelay k < left"
      and rest: "pv_Probes t \<le> pv_Probes (u\<lparr>pv_Steps := Suc (pv_Steps u)\<rparr>) + probeLimit (Suc k) (left - pollDelay k)"
    for k remaining left latest s x u t
  proof -
    have "probeLimit (Suc k) (left - pollDelay k) \<le> probeLimit (Suc k) (remaining - pollDelay k)"
      using time by (intro probeLimit_mono) simp
    moreover have "probeLimit k remaining = Suc (probeLimit (Suc k) (remaining - pollDelay k))"
      using time by (subst probeLimit.simps) simp
    ultimately show ?thesis using rest healthProbe_run(1) [OF probe] by simp
  qed
qed

lemma waitLoop_same:
  assumes "waitLoop env slug enabled remaining k latest s = (r, t)"
  shows "sameRuntime s t"
  using assms
proof (rule waitLoop_rounds [where Q = "\<lambda>k remaining s r t. sameRuntime s t"])
  have counted: "sameRuntime u (u\<lparr>pv_Steps := n\<rparr>)" for u n by (cases u) (simp add: sameRuntime_def)
  show "sameRuntime s (u\<lparr>pv_Steps := Suc (pv_Steps u)\<rparr>)"
    if "healthProbe env slug enabled latest s = (Inr (Some x), u)" for latest s x u
    using healthProbe_run(3) [OF that] counted by (rule sameRuntime_trans)
  then show "sameRuntime s t"
    if "healthProbe env slug enabled latest s = (Inr (Some x), u)"
      "sameRuntime (u\<lparr>pv_Steps := Suc (pv_Steps u)\<rparr>) t" for latest s x u t
    using that sameRuntime_trans by blast
qed (rule healthProbe_run(3))

lemma waitLoop_accepts:
  assumes "waitLoop env slug enabled remaining k latest s = (r, t)"
  shows "r = Inr () \<longrightarrow> (\<exists>n containers. pe_Containers env n (''supabase-manager-'' @ slug) enabled = Inr containers \<and>
    Suc n = pv_Steps t \<and> (\<forall>name\<in>set enabled. runsHealthy containers name))"
  using assms
proof (rule waitLoop_rounds [where Q = "\<lambda>k remaining s r t. r = Inr () \<longrightarrow>
    (\<exists>n containers. pe_Containers env n (''supabase-manager-'' @ slug) enabled = Inr containers \<and>
       Suc n = pv_Steps t \<and> (\<forall>name\<in>set enabled. runsHealthy containers name))"])
  show "map_sum id (\<lambda>_. ()) p = Inr () \<longrightarrow>
      (\<exists>n containers. pe_Containers env n (''supabase-manager-'' @ slug) enabled = Inr containers \<and>
         Suc n = pv_Steps u \<and> (\<forall>name\<in>set enabled. runsHealthy containers name))"
    if "healthProbe env slug enabled latest s = (p, u)" "\<And>x. p \<noteq> Inr (Some x)" for latest s p u
    using that healthProbe_run(2,4) [OF that(1)] by (cases p; cases "projr p") auto
qed simp_all

lemma pollDelays:
  "pollDelay (Suc 0) = 2000000000" "pollDelay (Suc (Suc 0)) = 4000000000"
  "pollDelay (Suc (Suc (Suc n))) = 5000000000"
proof -
  show d1: "pollDelay (Suc 0) = 2000000000" and d2: "pollDelay (Suc (Suc 0)) = 4000000000"
    by (simp_all add: nextHealthPollDelay_def reconcileHealthMaxPoll_def reconcileHealthInitialPoll_def)
  show "pollDelay (Suc (Suc (Suc n))) = 5000000000"
  proof (induction n)
    case 0
    then show ?case using d2 by (subst pollDelay.simps(2)) (simp add: nextHealthPollDelay_def reconcileHealthMaxPoll_def)
  next
    case (Suc n)
    then show ?case by (subst pollDelay.simps(2)) (simp add: nextHealthPollDelay_def reconcileHealthMaxPoll_def)
  qed
qed

lemma fifth_delay: "3 \<le> k \<Longrightarrow> pollDelay k = 5000000000"
proof -
  assume "3 \<le> k"
  then have "k = Suc (Suc (Suc (k - 3)))" by simp
  then show ?thesis using pollDelays(3) [of "k - 3"] by metis
qed

lemma probeLimit_late: "3 \<le> k \<Longrightarrow> r \<le> 5000000000 * n \<Longrightarrow> probeLimit k r \<le> max 1 n"
proof (induction n arbitrary: k r)
  case (Suc n)
  show ?case
  proof (cases "r \<le> 5000000000")
    case True
    then show ?thesis using fifth_delay [OF Suc.prems(1)] by (subst probeLimit.simps) simp
  next
    case False
    then have "probeLimit (Suc k) (r - 5000000000) \<le> max 1 n" using Suc by (intro Suc.IH) auto
    moreover have "n \<noteq> 0" using False Suc.prems by (intro notI) simp
    ultimately show ?thesis using False fifth_delay [OF Suc.prems(1)] by (subst probeLimit.simps) simp
  qed
qed (simp add: probeLimit.simps)

lemma probeLimit_timeout: "probeLimit 0 reconcileHealthTimeout \<le> 62"
proof -
  have "probeLimit 3 293000000000 \<le> max 1 59"
    by (rule probeLimit_late) simp_all
  moreover have "probeLimit 2 297000000000 = Suc (probeLimit 3 293000000000)"
    using pollDelays(2) by (subst probeLimit.simps) (simp add: numeral_2_eq_2 numeral_3_eq_3)
  moreover have "probeLimit 1 299000000000 = Suc (probeLimit 2 297000000000)"
    using pollDelays(1) by (subst probeLimit.simps) (simp add: numeral_2_eq_2)
  moreover have "probeLimit 0 300000000000 = Suc (probeLimit 1 299000000000)"
    by (subst probeLimit.simps) (simp add: reconcileHealthInitialPoll_def)
  ultimately show ?thesis by (simp add: reconcileHealthTimeout_def)
qed

text \<open>
  (C37) Waiting for health is bounded and its acceptance is earned. However long the probes take and
  whatever they answer, \<open>waitHealthy\<close> makes at most 62 probes before it returns, it never touches the
  containers, the metadata or the pointer, and when it accepts, every service it was asked about was
  running and healthy in the very last answer of Docker.
\<close>

theorem health_wait_bounded:
  assumes "waitHealthy env budget slug enabled s = (r, t)"
  shows "pv_Probes t \<le> pv_Probes s + 62 \<and> sameRuntime s t \<and>
    (r = Inr () \<and> enabled \<noteq> [] \<longrightarrow>
      (\<exists>containers. pe_Containers env (pv_Steps t - 1) (''supabase-manager-'' @ slug) enabled = Inr containers \<and>
         (\<forall>name\<in>set enabled. runsHealthy containers name)))"
proof (cases "enabled = []")
  case True
  then show ?thesis using assms by (simp add: waitHealthy_def sameRuntime_def)
next
  case False
  then have run: "waitLoop env slug enabled (min budget reconcileHealthTimeout) 0 noReport s = (r, t)"
    using assms by (simp add: waitHealthy_def)
  have "probeLimit 0 (min budget reconcileHealthTimeout) \<le> 62"
    using probeLimit_mono [of "min budget reconcileHealthTimeout" reconcileHealthTimeout 0] probeLimit_timeout by simp
  moreover have "\<exists>containers. pe_Containers env (pv_Steps t - 1) (''supabase-manager-'' @ slug) enabled = Inr containers \<and>
      (\<forall>name\<in>set enabled. runsHealthy containers name)" if "r = Inr ()"
    using waitLoop_accepts [OF run] that by (metis diff_Suc_1)
  ultimately show ?thesis
    using waitLoop_probes [OF run] waitLoop_same [OF run] by simp
qed

end
