(* ===== verification/RuntimeReconcile.thy ===== *)
theory RuntimeReconcile
  imports RuntimeHealth
begin

text \<open>
  \<^verbatim>\<open>Backend.Reconcile\<close> of \<^verbatim>\<open>runtime/reconcile.go\<close>: render, stage, validate, publish, restart what
  changed, wait for health, update nginx; any failing step after staging runs the \<^verbatim>\<open>rollback\<close> closure
  and reports whether the previous runtime is back. Every finished request leaves its response in the
  metadata under its idempotency key, so that a repeated request is answered without touching Docker.
  \<open>onFail h m\<close> is the code's \<^verbatim>\<open>if err != nil { return h(err) }\<close> after every statement of \<open>m\<close>.
\<close>

section \<open>Failures\<close>

definition onFail :: "(goerr \<Rightarrow> ('s, 'a) act) \<Rightarrow> ('s, 'a) act \<Rightarrow> ('s, 'a) act" where
  "onFail h m s = (case m s of (Inl e, t) \<Rightarrow> h e t | (Inr x, t) \<Rightarrow> (Inr x, t))"

text \<open>The nil cause of a replayed failure.\<close>

definition noCause :: goerr where "noCause = ErrorsNew []"

text \<open>\<^verbatim>\<open>errors.Join\<close> of some errors and nils, at least one of them an error.\<close>

definition joined :: "goerr option list \<Rightarrow> goerr" where
  "joined es = Joined (map the (filter (\<lambda>e. e \<noteq> None) es))"

definition plainFailure :: "goerr \<Rightarrow> goerr" where
  "plainFailure e = ReconcileFailure e False False False"

definition failureOf :: "goerr \<Rightarrow> goerr \<times> bool \<times> bool" where
  "failureOf e = (case e of ReconcileFailure cause rolledBack changed unknown \<Rightarrow> (cause, rolledBack, unknown)
                  | _ \<Rightarrow> (e, False, False))"

definition failedResult :: "ReconcileProjectRequest \<Rightarrow> int \<Rightarrow> bool \<Rightarrow> bool \<Rightarrow> ReconcileResult" where
  "failedResult request revision rolledBack changed = noResult\<lparr>rs_OperationID := rr_OperationID request,
     rs_ProjectID := rr_ProjectID request, rs_Revision := revision, rs_RolledBack := rolledBack,
     rs_RuntimeChanged := changed, rs_Failed := True\<rparr>"

definition remember :: "string \<Rightarrow> ReconcileResult \<Rightarrow> (provisioner, unit) act" where
  "remember key response = modify (\<lambda>s. s\<lparr>pv_Result := response,
     pv_Local := (pv_Local s)\<lparr>md_Idempotency := mapPut key response (md_Idempotency (pv_Local s))\<rparr>\<rparr>)"

text \<open>The closure \<^verbatim>\<open>fail\<close>.\<close>

definition failReconcile :: "ReconcileProjectRequest \<Rightarrow> goerr \<Rightarrow> (provisioner, unit) act" where
  "failReconcile request e = (case failureOf e of (cause, rolledBack, unknown) \<Rightarrow>
     andThen (gets id) (\<lambda>s.
     andThen (remember (rr_IdempotencyKey request)
       (failedResult request (md_Revision (pv_Local s)) rolledBack (pv_Published s))) (\<lambda>_.
     throw (ReconcileFailure cause rolledBack (pv_Published s) unknown))))"

section \<open>Rollback\<close>

definition labelled :: "string \<Rightarrow> goerr + unit \<Rightarrow> goerr option" where
  "labelled label r = (case r of Inl e \<Rightarrow> Some (Errorf label e []) | Inr _ \<Rightarrow> None)"

definition joinTo :: "goerr option \<Rightarrow> goerr option \<Rightarrow> goerr option" where
  "joinTo e f = (case f of None \<Rightarrow> e | Some _ \<Rightarrow> Some (joined [e, f]))"

text \<open>Removes what the candidate added while it is still selected.\<close>

definition cleanupCandidate ::
  "ProvisionerEnvironment \<Rightarrow> string \<Rightarrow> RollbackContext \<Rightarrow> (provisioner, goerr option) act" where
  "cleanupCandidate env slug ctx = andThen (gets pv_Published) (\<lambda>published.
     if published \<and> rb_PreviousServices ctx = [] then
       andThen (attempt (call env (CallDownRuntime (rb_CurrentRef ctx)))) (\<lambda>down.
       andThen (attempt (ResetInitialDatabase env slug)) (\<lambda>reset.
       andThen (attempt (call env (CallResetDatabaseConfig (rb_CurrentRef ctx)))) (\<lambda>config.
       ret (joinTo (joinTo (labelled ''remove candidate runtime during rollback: '' down)
                     (labelled ''reset initial database during rollback: '' reset))
              (labelled ''reset database configuration during rollback: '' config)))))
     else if published \<and> rb_Added ctx \<noteq> [] then
       andThen (attempt (RemoveStopped env (rb_CurrentRef ctx) (rb_Added ctx))) (\<lambda>removed.
       ret (labelled ''remove candidate services during rollback: '' removed))
     else ret None)"

definition rollbackServices :: "ReconcileProjectRequest \<Rightarrow> RollbackContext \<Rightarrow> string list" where
  "rollbackServices request ctx = intersect
     (unique (affectedServices (rb_PreviousConfig ctx) (rr_Configuration request) @ rb_Disabled ctx))
     (rb_PreviousServices ctx)"

definition recoverServices ::
  "ProvisionerEnvironment \<Rightarrow> ReconcileProjectRequest \<Rightarrow> RollbackContext \<Rightarrow> (provisioner, goerr option) act" where
  "recoverServices env request ctx = (let services = rollbackServices request ctx in
     andThen (if rb_PreviousServices ctx \<noteq> [] \<and> services \<noteq> []
              then attempt (Recreate env (rb_PreviousRef ctx) services) else ret (Inr ())) (\<lambda>recreated.
     case labelled ''recreate previous services during rollback: '' recreated of
       Some e \<Rightarrow> ret (Some e)
     | None \<Rightarrow>
         if services = [] then ret None
         else andThen (attempt (waitHealthy env rollbackActionBudget (rr_Slug request) services)) (\<lambda>healthy.
           ret (labelled ''check previous runtime health during rollback: '' healthy))))"

definition recoverProxy ::
  "ProvisionerEnvironment \<Rightarrow> ReconcileProjectRequest \<Rightarrow> RollbackContext \<Rightarrow> (provisioner, goerr option) act" where
  "recoverProxy env request ctx = andThen (gets pv_ProxyChanged) (\<lambda>changed.
     if \<not> changed then ret None
     else case rb_PreviousRoute ctx of
       Some route \<Rightarrow> andThen (attempt (call env (CallProxyApply route))) (\<lambda>r.
         ret (labelled ''restore managed nginx site during rollback: '' r))
     | None \<Rightarrow> andThen (attempt (call env (CallProxyRemove (rr_Slug request)))) (\<lambda>r.
         ret (labelled ''remove managed nginx site during rollback: '' r)))"

text \<open>The closure \<^verbatim>\<open>rollback\<close>; its result is always a \<^verbatim>\<open>ReconcileFailure\<close>.\<close>

definition rollbackReconcile ::
  "ProvisionerEnvironment \<Rightarrow> ReconcileProjectRequest \<Rightarrow> RollbackContext \<Rightarrow> goerr \<Rightarrow> (provisioner, goerr) act" where
  "rollbackReconcile env request ctx cause =
     andThen (cleanupCandidate env (rr_Slug request) ctx) (\<lambda>cleanup.
     andThen (attempt (restore env)) (\<lambda>restored.
     andThen (gets pv_Published) (\<lambda>published.
     case restored of
       Inl e \<Rightarrow> ret (ReconcileFailure (joined [Some cause, cleanup,
         Some (Errorf ''restore previous runtime during rollback: '' e [])]) False published False)
     | Inr _ \<Rightarrow>
         if \<not> published then ret (ReconcileFailure (joined [Some cause, cleanup]) (cleanup = None) False False)
         else andThen (recoverServices env request ctx) (\<lambda>recovery.
           if cleanup \<noteq> None \<or> recovery \<noteq> None
           then ret (ReconcileFailure (joined [Some cause, cleanup, recovery]) False published False)
           else andThen (recoverProxy env request ctx) (\<lambda>proxy.
             if proxy \<noteq> None then ret (ReconcileFailure (joined [Some cause, proxy]) False published False)
             else ret (ReconcileFailure cause True published False))))))"

section \<open>Applying a configuration\<close>

definition claimFenceAt :: "ProvisionerEnvironment \<Rightarrow> string \<Rightarrow> int \<Rightarrow> (provisioner, unit) act" where
  "claimFenceAt env slug fence = andThen (gets pv_Local) (\<lambda>metadata.
     if fence > 0 \<and> md_Fence metadata < fence then
       (let claimed = metadata\<lparr>md_Fence := fence\<rparr> in
        andThen (modify (\<lambda>s. s\<lparr>pv_Local := claimed\<rparr>)) (\<lambda>_. WriteMetadataForPhase env slug claimed))
     else ret ())"

definition claimFence :: "ProvisionerEnvironment \<Rightarrow> ReconcileProjectRequest \<Rightarrow> (provisioner, unit) act" where
  "claimFence env request = claimFenceAt env (rr_Slug request) (rr_Fence request)"

definition writeCandidateCompose :: "ProvisionerEnvironment \<Rightarrow> (provisioner, unit) act" where
  "writeCandidateCompose env = fsSteps env [[], [], [], []]"

text \<open>The Compose text names the published functions environment; the candidate's own file is put in its place.\<close>

definition pointFunctionsEnvAtCandidate :: "ProvisionerEnvironment \<Rightarrow> string \<Rightarrow> (provisioner, unit) act" where
  "pointFunctionsEnvAtCandidate env original =
     (if contains original ''.manager-runtime/current/.env.functions'' then writeCandidateCompose env else ret ())"

definition bootstrapDatabase ::
  "ProvisionerEnvironment \<Rightarrow> string \<Rightarrow> ProjectRef \<Rightarrow> string list \<Rightarrow> (provisioner, unit) act" where
  "bootstrapDatabase env slug current newServices =
     andThen (call env (CallDownRuntime current)) (\<lambda>_.
     andThen (ResetInitialDatabase env slug) (\<lambda>_.
     andThen (call env (CallResetDatabaseConfig current)) (\<lambda>_.
     andThen (call env (CallUpDatabase current)) (\<lambda>_.
     andThen (call env (CallVerifyDatabaseBootstrap current)) (\<lambda>_.
     andThen (call env (CallSynchronizeRoles current)) (\<lambda>_.
     UpSelected env current (without newServices ''db'')))))))"

text \<open>The acceptance harness may make one inspection fail.\<close>

definition acceptanceFailure ::
  "ProvisionerEnvironment \<Rightarrow> ReconcileProjectRequest \<Rightarrow> string list \<Rightarrow> (provisioner, unit) act" where
  "acceptanceFailure env request newServices = andThen (gets pv_InspectorFails) (\<lambda>armed.
     if armed \<and> auth_OAuth (cfg_Auth (rr_Configuration request)) \<noteq> [] then
       andThen (modify (\<lambda>s. s\<lparr>pv_InspectorFails := False\<rparr>)) (\<lambda>_.
       andThen (attempt (inspectProject env (rr_Slug request) newServices)) (\<lambda>r.
       throw (case r of Inl e \<Rightarrow> Joined [ErrorsNew ''acceptance inspector failure'', e]
              | Inr _ \<Rightarrow> ErrorsNew ''acceptance inspector failure'')))
     else ret ())"

definition updateProxy ::
  "ProvisionerEnvironment \<Rightarrow> ReconcileProjectRequest \<Rightarrow> RollbackContext \<Rightarrow> (provisioner, unit) act" where
  "updateProxy env request ctx =
     (case routeForProxy (rr_Slug request) (rr_Configuration request) (rr_Secrets request) of
        Some route \<Rightarrow>
          andThen (mapErr (\<lambda>e. Errorf ''apply managed nginx site: '' e []) (call env (CallProxyApply route))) (\<lambda>_.
          modify (\<lambda>s. s\<lparr>pv_ProxyChanged := True\<rparr>))
      | None \<Rightarrow>
          if rb_PreviousRoute ctx \<noteq> None then
            andThen (mapErr (\<lambda>e. Errorf ''remove managed nginx site: '' e [])
                       (call env (CallProxyRemove (rr_Slug request)))) (\<lambda>_.
            modify (\<lambda>s. s\<lparr>pv_ProxyChanged := True\<rparr>))
          else ret ())"

definition prepareCandidate ::
  "ProvisionerEnvironment \<Rightarrow> Rendered \<Rightarrow> ProjectRef \<Rightarrow> (provisioner, unit) act" where
  "prepareCandidate env rendered candidate =
     andThen (pointFunctionsEnvAtCandidate env (rn_Compose rendered)) (\<lambda>_.
     andThen (call env (CallValidate candidate)) (\<lambda>_.
     andThen (writeCandidateCompose env) (\<lambda>_.
     andThen (commit env) (\<lambda>_.
     modify (\<lambda>s. s\<lparr>pv_Published := True\<rparr>)))))"

definition startServices ::
  "ProvisionerEnvironment \<Rightarrow> ReconcileProjectRequest \<Rightarrow> Metadata \<Rightarrow> RollbackContext \<Rightarrow> string list \<Rightarrow>
     (provisioner, unit) act" where
  "startServices env request metadata ctx newServices =
     andThen (RemoveStopped env (rb_PreviousRef ctx) (rb_Disabled ctx)) (\<lambda>_.
     if md_Revision metadata = 0 \<and> rb_PreviousServices ctx = []
     then bootstrapDatabase env (rr_Slug request) (rb_CurrentRef ctx) newServices
     else andThen (Recreate env (rb_CurrentRef ctx)
            (intersect (affectedServices (rb_PreviousConfig ctx) (rr_Configuration request)) newServices)) (\<lambda>_.
          UpSelected env (rb_CurrentRef ctx) (rb_Added ctx)))"

definition verifyServices ::
  "ProvisionerEnvironment \<Rightarrow> ReconcileProjectRequest \<Rightarrow> RollbackContext \<Rightarrow> string list \<Rightarrow> (provisioner, unit) act" where
  "verifyServices env request ctx newServices =
     andThen (acceptanceFailure env request newServices) (\<lambda>_.
     andThen (waitHealthy env reconcileHealthTimeout (rr_Slug request) newServices) (\<lambda>_.
     updateProxy env request ctx))"

definition applyRuntime ::
  "ProvisionerEnvironment \<Rightarrow> ReconcileProjectRequest \<Rightarrow> Metadata \<Rightarrow> RollbackContext \<Rightarrow> Rendered \<Rightarrow> ProjectRef \<Rightarrow>
     (provisioner, unit) act" where
  "applyRuntime env request metadata ctx rendered candidate =
     (let newServices = rn_EnabledComposeServices rendered in
     andThen (prepareCandidate env rendered candidate) (\<lambda>_.
     andThen (startServices env request metadata ctx newServices) (\<lambda>_.
     verifyServices env request ctx newServices)))"

definition previousServices :: "Metadata \<Rightarrow> string list" where
  "previousServices metadata =
     (if md_EnabledServices metadata = [] \<and> md_Revision metadata > 0
      then enabledServices (md_Configuration metadata) else md_EnabledServices metadata)"

definition rollbackContext ::
  "ProvisionerEnvironment \<Rightarrow> ReconcileProjectRequest \<Rightarrow> Metadata \<Rightarrow> string list \<Rightarrow> (provisioner, RollbackContext) act" where
  "rollbackContext env request metadata newServices =
     (let slug = rr_Slug request; previous = previousServices metadata in
     andThen (orNoRef slug (CurrentRuntimeGeneration env slug)) (\<lambda>previousRef.
     andThen (orNoRef slug (CurrentRuntimeFiles env slug)) (\<lambda>currentRef.
     ret \<lparr>rb_PreviousConfig = md_Configuration metadata, rb_PreviousServices = previous,
       rb_Added = difference newServices previous, rb_Disabled = difference previous newServices,
       rb_PreviousRef = previousRef, rb_CurrentRef = currentRef,
       rb_PreviousRoute = routeForProxy slug (md_Configuration metadata) (rr_Secrets request)\<rparr>)))"

definition applyRevision :: "ReconcileProjectRequest \<Rightarrow> Metadata \<Rightarrow> int" where
  "applyRevision request metadata = max (md_Revision metadata + 1) (rr_NextRevision request)"

text \<open>The response and the new metadata of a successful run.\<close>

definition publishMetadata ::
  "ReconcileProjectRequest \<Rightarrow> Metadata \<Rightarrow> RollbackContext \<Rightarrow> string list \<Rightarrow> (provisioner, unit) act" where
  "publishMetadata request metadata ctx newServices =
     (let revision = applyRevision request metadata;
          response = \<lparr>rs_OperationID = rr_OperationID request, rs_ProjectID = rr_ProjectID request,
            rs_Revision = revision, rs_EnabledServices = newServices,
            rs_RecreatedServices =
              intersect (affectedServices (rb_PreviousConfig ctx) (rr_Configuration request)) newServices,
            rs_RolledBack = False, rs_RuntimeChanged = False, rs_Failed = False\<rparr>
      in andThen (remember (rr_IdempotencyKey request) response) (\<lambda>_. modify (\<lambda>s. s\<lparr>
        pv_Local := (pv_Local s)\<lparr>md_ProjectID := rr_ProjectID request, md_ProjectName := rr_ProjectName request,
          md_Revision := revision,
          md_Fence := (if rr_Fence request > 0 then rr_Fence request else md_Fence (pv_Local s)),
          md_Configuration := (rr_Configuration request)\<lparr>cfg_Revision := revision\<rparr>,
          md_EnabledServices := newServices\<rparr>,
        pv_Rollback := Some ctx\<rparr>)))"

definition renderInput :: "ReconcileProjectRequest \<Rightarrow> RenderInput" where
  "renderInput request = \<lparr>in_ProjectID = rr_ProjectID request, in_ProjectName = rr_ProjectName request,
     in_Slug = rr_Slug request, in_APIPort = rr_APIPort request, in_Configuration = rr_Configuration request,
     in_Secrets = rr_Secrets request, in_RuntimeSecrets = rr_RuntimeSecrets request\<rparr>"

definition runtimeFiles :: "Rendered \<Rightarrow> RuntimeFiles" where
  "runtimeFiles rendered = \<lparr>rf_Compose = rn_Compose rendered, rf_Env = rn_Env rendered,
     rf_FunctionsEnv = rn_FunctionsEnv rendered, rf_MailerTemplates = rn_MailerTemplates rendered\<rparr>"

text \<open>The callback that runs under the metadata lock.\<close>

definition applyRequest :: "ProvisionerEnvironment \<Rightarrow> ReconcileProjectRequest \<Rightarrow> (provisioner, unit) act" where
  "applyRequest env request =
     andThen (claimFence env request) (\<lambda>_. andThen (gets pv_Local) (\<lambda>metadata.
     onFail (failReconcile request) (
       andThen (mapErr plainFailure (\<lambda>s. (pe_Render env (renderInput request), s))) (\<lambda>rendered.
       andThen (mapErr plainFailure (StageRuntimeFilesWithRef env (rr_Slug request) (runtimeFiles rendered))) (\<lambda>candidate.
       andThen (rollbackContext env request metadata (rn_EnabledComposeServices rendered)) (\<lambda>ctx.
       andThen (onFail (\<lambda>e. andThen (rollbackReconcile env request ctx e) throw)
                  (applyRuntime env request metadata ctx rendered candidate)) (\<lambda>_.
       publishMetadata request metadata ctx (rn_EnabledComposeServices rendered))))))))"

definition replay :: "ReconcileResult \<Rightarrow> (provisioner, unit) act" where
  "replay stored = andThen (modify (\<lambda>s. s\<lparr>pv_Result := stored\<rparr>)) (\<lambda>_.
     if rs_Failed stored
     then throw (ReconcileFailure noCause (rs_RolledBack stored) (rs_RuntimeChanged stored) False) else ret ())"

definition reconcileCallback :: "ProvisionerEnvironment \<Rightarrow> ReconcileProjectRequest \<Rightarrow> (provisioner, unit) act" where
  "reconcileCallback env request = andThen (gets pv_Local) (\<lambda>metadata.
     case map_of (md_Idempotency metadata) (rr_IdempotencyKey request) of
       Some stored \<Rightarrow> replay stored
     | None \<Rightarrow> applyRequest env request)"

definition runtimeRollback :: "ProvisionerEnvironment \<Rightarrow> ReconcileProjectRequest \<Rightarrow> (provisioner, unit) act" where
  "runtimeRollback env request = andThen (gets pv_Rollback) (\<lambda>ctx. case ctx of
      None \<Rightarrow> ret ()
    | Some ctx \<Rightarrow>
        andThen (rollbackReconcile env request ctx (ErrorsNew ''metadata publication failed'')) (\<lambda>e.
        andThen (modify (\<lambda>s. s\<lparr>pv_RollbackSucceeded := fst (snd (failureOf e))\<rparr>)) (\<lambda>_. throw e)))"

definition freshRun :: "provisioner \<Rightarrow> provisioner" where
  "freshRun s = s\<lparr>pv_Result := noResult, pv_Published := False, pv_ProxyChanged := False, pv_Rollback := None,
     pv_RollbackSucceeded := False\<rparr>"

text \<open>The response and the error of the Go function.\<close>

definition Reconcile ::
  "ProvisionerEnvironment \<Rightarrow> ReconcileProjectRequest \<Rightarrow> provisioner \<Rightarrow> (ReconcileResult \<times> goerr option) \<times> provisioner" where
  "Reconcile env request s =
     (case UpdateMetadataWithRollback env (rr_Slug request) (reconcileCallback env request)
             (runtimeRollback env request) (freshRun s) of
        (Inr metadata, t) \<Rightarrow> (((pv_Result t)\<lparr>rs_Revision := md_Revision metadata\<rparr>, None), t)
      | (Inl e, t) \<Rightarrow>
          if errorsIs e ErrStaleConfigRevision then ((noResult, Some e), t)
          else if \<not> errorsIs e ErrInvalidReconcileRevision \<and> \<not> rs_Failed (pv_Result t) then
            (let changed = pv_Rollback t \<noteq> None
             in ((failedResult request (rr_ExpectedRevision request) (pv_RollbackSucceeded t) changed,
                  Some (ReconcileFailure e (pv_RollbackSucceeded t) changed False)), t))
          else ((pv_Result t, Some e), t))"

end
