(* ===== verification/ReconcileFrames.thy ===== *)
theory ReconcileFrames
  imports RuntimeReconcile
begin

text \<open>
  Which part of the state each step of a reconciliation leaves alone (the log of calls, the published
  files, the metadata), how many of its calls fail, and what the publication of a generation and the
  rollback do to the \<^verbatim>\<open>current\<close> pointer, whatever the file system, Docker and nginx answer.
\<close>

section \<open>Frames\<close>

definition noCalls :: "provisioner \<Rightarrow> provisioner \<Rightarrow> bool" where
  "noCalls s t \<longleftrightarrow> pv_Calls t = pv_Calls s"

definition sameFiles :: "provisioner \<Rightarrow> provisioner \<Rightarrow> bool" where
  "sameFiles s t \<longleftrightarrow> pv_Current t = pv_Current s \<and> pv_Stage t = pv_Stage s \<and> pv_Published t = pv_Published s"

definition sameMeta :: "provisioner \<Rightarrow> provisioner \<Rightarrow> bool" where
  "sameMeta s t \<longleftrightarrow> pv_Metadata t = pv_Metadata s \<and> pv_Local t = pv_Local s \<and> pv_Result t = pv_Result s \<and>
     pv_Rollback t = pv_Rollback s \<and> pv_RollbackSucceeded t = pv_RollbackSucceeded s"

interpretation noCalls: monitor noCalls by unfold_locales (auto simp: noCalls_def)
interpretation sameFiles: monitor sameFiles by unfold_locales (auto simp: sameFiles_def)
interpretation sameMeta: monitor sameMeta by unfold_locales (auto simp: sameMeta_def)

lemma frame_consult [obeys_intros]:
  "obeys noCalls (consult f)" "obeys sameFiles (consult f)" "obeys sameMeta (consult f)"
  by (simp_all add: obeys_def consult_def noCalls_def sameFiles_def sameMeta_def)

lemma frame_failing [obeys_intros]:
  "obeys noCalls (failing r)" "obeys sameFiles (failing r)" "obeys sameMeta (failing r)"
  by (simp_all add: obeys_def failing_def noCalls_def sameFiles_def sameMeta_def split: option.splits)

lemma frame_fsStep [obeys_intros]:
  "obeys noCalls (fsStep env label)" "obeys sameFiles (fsStep env label)" "obeys sameMeta (fsStep env label)"
  unfolding fsStep_def by (intro obeys_intros)+

lemma frame_fsSteps [obeys_intros]:
  "obeys noCalls (fsSteps env labels)" "obeys sameFiles (fsSteps env labels)" "obeys sameMeta (fsSteps env labels)"
  unfolding fsSteps_def by (intro obeys_intros)+

lemma frame_ifFound [obeys_intros]:
  "obeys noCalls m \<Longrightarrow> obeys noCalls n \<Longrightarrow> obeys noCalls (ifFound env question m n)"
  "obeys sameFiles m \<Longrightarrow> obeys sameFiles n \<Longrightarrow> obeys sameFiles (ifFound env question m n)"
  "obeys sameMeta m \<Longrightarrow> obeys sameMeta n \<Longrightarrow> obeys sameMeta (ifFound env question m n)"
  unfolding ifFound_def by (intro obeys_intros; assumption)+

lemma frame_writes [obeys_intros]:
  "obeys noCalls (writeAtomic env name)" "obeys sameFiles (writeAtomic env name)" "obeys sameMeta (writeAtomic env name)"
  "obeys noCalls (hydrateProject env)" "obeys sameFiles (hydrateProject env)" "obeys sameMeta (hydrateProject env)"
  unfolding writeAtomic_def hydrateProject_def by (intro obeys_intros)+

lemma frame_ProjectPath [obeys_intros]:
  "obeys noCalls (ProjectPath env slug)" "obeys sameFiles (ProjectPath env slug)" "obeys sameMeta (ProjectPath env slug)"
  unfolding ProjectPath_def by (intro obeys_intros)+

lemma frame_modify:
  "(\<And>s. R s (f s)) \<Longrightarrow> obeys R (modify f)"
  by (simp add: obeys_def)

lemma frame_call [obeys_intros]: "obeys sameFiles (call env c)" "obeys sameMeta (call env c)"
  unfolding call_def
  by (intro obeys_intros frame_modify; simp add: sameFiles_def sameMeta_def)+

lemma frame_onServices [obeys_intros]:
  "obeys sameFiles (onServices env c services)" "obeys sameMeta (onServices env c services)"
  unfolding onServices_def by (intro obeys_intros)+

lemma frame_services [obeys_intros]:
  "obeys sameFiles (Recreate env ref services)" "obeys sameMeta (Recreate env ref services)"
  "obeys sameFiles (UpSelected env ref services)" "obeys sameMeta (UpSelected env ref services)"
  "obeys sameFiles (RemoveStopped env ref services)" "obeys sameMeta (RemoveStopped env ref services)"
  unfolding Recreate_def UpSelected_def RemoveStopped_def by (intro obeys_intros)+

lemma frame_refs [obeys_intros]:
  "obeys noCalls (CurrentRuntimeFiles env slug)" "obeys sameFiles (CurrentRuntimeFiles env slug)"
  "obeys sameMeta (CurrentRuntimeFiles env slug)"
  "obeys noCalls (CurrentRuntimeGeneration env slug)" "obeys sameFiles (CurrentRuntimeGeneration env slug)"
  "obeys sameMeta (CurrentRuntimeGeneration env slug)"
  unfolding CurrentRuntimeFiles_def CurrentRuntimeGeneration_def by (intro obeys_intros)+

lemma frame_orNoRef [obeys_intros]:
  "obeys noCalls m \<Longrightarrow> obeys noCalls (orNoRef slug m)" "obeys sameFiles m \<Longrightarrow> obeys sameFiles (orNoRef slug m)"
  "obeys sameMeta m \<Longrightarrow> obeys sameMeta (orNoRef slug m)"
  unfolding orNoRef_def by (intro obeys_intros; assumption)+

lemma frame_ResetInitialDatabase [obeys_intros]:
  "obeys noCalls (ResetInitialDatabase env slug)" "obeys sameFiles (ResetInitialDatabase env slug)"
  "obeys sameMeta (ResetInitialDatabase env slug)"
  unfolding ResetInitialDatabase_def by (intro obeys_intros)+

lemma frame_readMetadata [obeys_intros]:
  "obeys noCalls (readMetadata env slug)" "obeys sameFiles (readMetadata env slug)" "obeys sameMeta (readMetadata env slug)"
  unfolding readMetadata_def by (intro obeys_intros)+

lemma frame_lock [obeys_intros]:
  "obeys noCalls (lockMetadataFile env slug)" "obeys sameFiles (lockMetadataFile env slug)"
  "obeys sameMeta (lockMetadataFile env slug)"
  unfolding lockMetadataFile_def by (intro obeys_intros)+

lemma frame_writeMetadata [obeys_intros]:
  "obeys noCalls (writeMetadata env slug m)" "obeys sameFiles (writeMetadata env slug m)"
  unfolding writeMetadata_def
  by (intro obeys_intros frame_modify; simp add: noCalls_def sameFiles_def)+

lemma sameRuntime_frames: "sameRuntime s t \<Longrightarrow> noCalls s t \<and> sameFiles s t \<and> sameMeta s t"
  unfolding sameRuntime_def noCalls_def sameFiles_def sameMeta_def by (cases s; cases t) simp

lemma waitHealthy_same: "waitHealthy env budget slug enabled s = (r, t) \<Longrightarrow> sameRuntime s t"
  by (auto simp: waitHealthy_def sameRuntime_def split: if_splits dest: waitLoop_same)

lemma frame_waitHealthy [obeys_intros]:
  "obeys noCalls (waitHealthy env budget slug enabled)" "obeys sameFiles (waitHealthy env budget slug enabled)"
  "obeys sameMeta (waitHealthy env budget slug enabled)"
  using waitHealthy_same sameRuntime_frames by (auto intro!: obeysI)

lemma frame_inspect [obeys_intros]:
  "obeys noCalls (inspectProject env slug enabled)" "obeys sameFiles (inspectProject env slug enabled)"
  "obeys sameMeta (inspectProject env slug enabled)"
  by (simp_all add: obeys_def inspectProject_def consult_def andThen_def noCalls_def sameFiles_def sameMeta_def
      split: sum.splits)

lemma frame_acceptance [obeys_intros]:
  "obeys noCalls (acceptanceFailure env request services)" "obeys sameFiles (acceptanceFailure env request services)"
  "obeys sameMeta (acceptanceFailure env request services)"
  unfolding acceptanceFailure_def
  by (intro obeys_intros frame_modify; simp add: noCalls_def sameFiles_def sameMeta_def)+

lemma frame_writeCandidate [obeys_intros]:
  "obeys noCalls (writeCandidateCompose env)" "obeys sameFiles (writeCandidateCompose env)"
  "obeys sameMeta (writeCandidateCompose env)"
  "obeys noCalls (pointFunctionsEnvAtCandidate env text)" "obeys sameFiles (pointFunctionsEnvAtCandidate env text)"
  "obeys sameMeta (pointFunctionsEnvAtCandidate env text)"
  unfolding writeCandidateCompose_def pointFunctionsEnvAtCandidate_def by (intro obeys_intros)+

lemma frame_updateStage [obeys_intros]:
  "obeys noCalls (updateStage f)" "obeys sameMeta (updateStage f)"
  unfolding updateStage_def by (intro frame_modify; simp add: noCalls_def sameMeta_def)+

lemma frame_pointer [obeys_intros]:
  "obeys noCalls (restoreRuntimePointer env previous)" "obeys sameMeta (restoreRuntimePointer env previous)"
  "obeys noCalls (syncPointer env label previous)" "obeys sameMeta (syncPointer env label previous)"
  "obeys noCalls (switchRuntimePointer env target)" "obeys sameMeta (switchRuntimePointer env target)"
proof -
  show a: "obeys noCalls (restoreRuntimePointer env previous)" "obeys sameMeta (restoreRuntimePointer env previous)"
    for previous unfolding restoreRuntimePointer_def
    by (intro obeys_intros frame_modify; simp add: noCalls_def sameMeta_def)+
  show b: "obeys noCalls (syncPointer env label previous)" "obeys sameMeta (syncPointer env label previous)"
    for label previous unfolding syncPointer_def by (intro obeys_intros a)+
  show "obeys noCalls (switchRuntimePointer env target)" "obeys sameMeta (switchRuntimePointer env target)"
    unfolding switchRuntimePointer_def
    by (intro obeys_intros b frame_modify; simp add: noCalls_def sameMeta_def)+
qed

lemma frame_generations [obeys_intros]:
  "obeys noCalls (StageRuntimeFilesWithRef env slug files)" "obeys sameMeta (StageRuntimeFilesWithRef env slug files)"
  "obeys noCalls (commit env)" "obeys sameMeta (commit env)"
  "obeys noCalls (restore env)" "obeys sameMeta (restore env)"
  unfolding StageRuntimeFilesWithRef_def Let_def commit_def restore_def migrateLegacy_def undoMigration_def reselectPrevious_def removeStaged_def
  by (intro obeys_intros frame_modify; simp add: noCalls_def sameMeta_def)+

lemma frame_context [obeys_intros]:
  "obeys noCalls (rollbackContext env request m services)" "obeys sameFiles (rollbackContext env request m services)"
  "obeys sameMeta (rollbackContext env request m services)"
  unfolding rollbackContext_def Let_def by (intro obeys_intros)+

lemma frame_updateProxy [obeys_intros]:
  "obeys sameFiles (updateProxy env request ctx)" "obeys sameMeta (updateProxy env request ctx)"
  unfolding updateProxy_def
  by (intro obeys_intros frame_modify; simp add: sameFiles_def sameMeta_def)+

lemma frame_bootstrap [obeys_intros]:
  "obeys sameFiles (bootstrapDatabase env slug ref services)" "obeys sameMeta (bootstrapDatabase env slug ref services)"
  unfolding bootstrapDatabase_def by (intro obeys_intros)+

lemma frame_start [obeys_intros]:
  "obeys sameFiles (startServices env request m ctx services)" "obeys sameMeta (startServices env request m ctx services)"
  "obeys sameFiles (verifyServices env request ctx services)" "obeys sameMeta (verifyServices env request ctx services)"
  unfolding startServices_def verifyServices_def by (intro obeys_intros)+

lemma frame_prepare [obeys_intros]:
  "obeys sameMeta (prepareCandidate env rendered candidate)"
  unfolding prepareCandidate_def by (intro obeys_intros frame_modify) (simp add: sameMeta_def)

lemma frame_apply [obeys_intros]:
  "obeys sameMeta (applyRuntime env request m ctx rendered candidate)"
  unfolding applyRuntime_def Let_def by (intro obeys_intros)

lemma frame_recover [obeys_intros]:
  "obeys sameFiles (cleanupCandidate env slug ctx)" "obeys sameMeta (cleanupCandidate env slug ctx)"
  "obeys sameFiles (recoverServices env request ctx)" "obeys sameMeta (recoverServices env request ctx)"
  "obeys sameFiles (recoverProxy env request ctx)" "obeys sameMeta (recoverProxy env request ctx)"
  unfolding cleanupCandidate_def recoverServices_def recoverProxy_def Let_def by (intro obeys_intros)+

lemma frame_rollback [obeys_intros]: "obeys sameMeta (rollbackReconcile env request ctx cause)"
  unfolding rollbackReconcile_def by (intro obeys_intros)

section \<open>Counting calls\<close>

text \<open>
  \<open>failedCalls\<close> counts the calls that failed, \<open>mutations\<close> those that may have changed a container or
  the proxy. \<open>counted m\<close>: a run of \<open>m\<close> that returns had no failing call, one that fails had at most one.
\<close>

definition failedCalls :: "provisioner \<Rightarrow> nat" where
  "failedCalls s = length (filter (\<lambda>(c, r). r \<noteq> None) (pv_Calls s))"

fun isValidation :: "RuntimeCall \<Rightarrow> bool" where
  "isValidation (CallValidate ref) = True"
| "isValidation c = False"

definition mutations :: "provisioner \<Rightarrow> nat" where
  "mutations s = length (filter (\<lambda>(c, r). \<not> isValidation c) (pv_Calls s))"

lemma noCalls_counts: "noCalls s t \<Longrightarrow> failedCalls t = failedCalls s \<and> mutations t = mutations s"
  by (simp add: noCalls_def failedCalls_def mutations_def)

definition counted :: "(provisioner, 'a) act \<Rightarrow> bool" where
  "counted m \<longleftrightarrow> (\<forall>s. case m s of (Inl e, t) \<Rightarrow> failedCalls t \<le> Suc (failedCalls s)
     | (Inr x, t) \<Rightarrow> failedCalls t = failedCalls s)"

lemma counted_Inr: "counted m \<Longrightarrow> m s = (Inr x, t) \<Longrightarrow> failedCalls t = failedCalls s"
  unfolding counted_def by (drule spec [of _ s]) simp

lemma counted_Inl: "counted m \<Longrightarrow> m s = (Inl e, t) \<Longrightarrow> failedCalls t \<le> Suc (failedCalls s)"
  unfolding counted_def by (drule spec [of _ s]) simp

lemma countedI:
  "(\<And>s e t. m s = (Inl e, t) \<Longrightarrow> failedCalls t \<le> Suc (failedCalls s)) \<Longrightarrow>
   (\<And>s x t. m s = (Inr x, t) \<Longrightarrow> failedCalls t = failedCalls s) \<Longrightarrow> counted m"
  unfolding counted_def by (auto split: prod.splits sum.splits)

lemma counted_quiet: "obeys noCalls m \<Longrightarrow> counted m"
  by (rule countedI) (auto dest!: obeysD noCalls_counts)

lemma counted_andThen:
  assumes "counted m" and "\<And>x. counted (k x)"
  shows "counted (andThen m k)"
proof (rule countedI)
  show "failedCalls t \<le> Suc (failedCalls s)" if "andThen m k s = (Inl e, t)" for s e t
    using that counted_Inl [OF assms(1)] counted_Inr [OF assms(1)] counted_Inl [OF assms(2)]
    by (fastforce simp: andThen_eq_Inl)
  show "failedCalls t = failedCalls s" if "andThen m k s = (Inr x, t)" for s x t
    using that counted_Inr [OF assms(1)] counted_Inr [OF assms(2)] by (fastforce simp: andThen_eq_Inr)
qed

lemma counted_if: "(b \<Longrightarrow> counted m) \<Longrightarrow> (\<not> b \<Longrightarrow> counted n) \<Longrightarrow> counted (if b then m else n)"
  by simp

lemma counted_option: "counted f \<Longrightarrow> (\<And>x. counted (g x)) \<Longrightarrow> counted (case r of None \<Rightarrow> f | Some x \<Rightarrow> g x)"
  by (cases r) auto

lemma counted_mapErr: "counted m \<Longrightarrow> counted (mapErr h m)"
  by (rule countedI) (auto simp: mapErr_def counted_Inr counted_Inl split: prod.splits sum.splits)

lemma counted_call: "counted (call env c)"
  by (rule countedI) (auto simp: call_def consult_def failing_def failedCalls_def andThen_def split: option.splits)

lemmas counted_rules = counted_andThen counted_if counted_option counted_mapErr counted_call

lemma counted_services:
  "counted (Recreate env ref services)" "counted (UpSelected env ref services)" "counted (RemoveStopped env ref services)"
  unfolding Recreate_def UpSelected_def RemoveStopped_def onServices_def
  by (intro counted_rules counted_quiet obeys_intros)+

lemma counted_apply: "counted (applyRuntime env request m ctx rendered candidate)"
proof -
  have "counted (modify (\<lambda>s. s\<lparr>pv_Published := x\<rparr>))" "counted (modify (\<lambda>s. s\<lparr>pv_ProxyChanged := x\<rparr>))" for x
    by (rule counted_quiet, rule frame_modify, simp add: noCalls_def)+
  moreover have "counted (ResetInitialDatabase env slug)" "counted (commit env)" "counted (writeCandidateCompose env)"
    "counted (pointFunctionsEnvAtCandidate env original)" "counted (acceptanceFailure env request services)"
    "counted (waitHealthy env budget slug services)" "counted (ret ())" for slug original services budget
    by (rule counted_quiet, intro obeys_intros)+
  ultimately show ?thesis
    unfolding applyRuntime_def prepareCandidate_def startServices_def verifyServices_def bootstrapDatabase_def
      updateProxy_def Let_def
    by (intro counted_rules counted_services)
qed

section \<open>The published generation\<close>

lemma fsStep_Inr [simp]:
  "fsStep env label s = (Inr x, t) \<longleftrightarrow> pe_Fault env (pv_Steps s) = None \<and> t = s\<lparr>pv_Steps := Suc (pv_Steps s)\<rparr>"
  by (auto simp: fsStep_def consult_def failing_def andThen_def split: option.splits)

lemma fsStep_Inl: "fsStep env label s = (Inl e, t) \<Longrightarrow> t = s\<lparr>pv_Steps := Suc (pv_Steps s)\<rparr>"
  by (auto simp: fsStep_def consult_def failing_def andThen_def split: option.splits)

lemma syncPointer_Inr: "syncPointer env label previous s = (Inr x, t) \<Longrightarrow> sameFiles s t"
  by (auto simp: syncPointer_def andThen_def attempt_def sameFiles_def split: prod.splits sum.splits)

lemma switch_Inr:
  "switchRuntimePointer env target s = (Inr x, t) \<Longrightarrow> pv_Current t = target \<and> pv_Stage t = pv_Stage s \<and>
     pv_Published t = pv_Published s"
  by (auto simp: switchRuntimePointer_def andThen_eq_Inr sameFiles_def split: if_splits dest!: syncPointer_Inr)

text \<open>\<open>committedFrom old\<close>: the candidate is selected and \<open>restore\<close> would go back to \<open>old\<close>.\<close>

definition committedFrom :: "string \<Rightarrow> provisioner \<Rightarrow> bool" where
  "committedFrom old s \<longleftrightarrow> pv_Published s \<and> sg_Committed (pv_Stage s) \<and> \<not> sg_Restored (pv_Stage s) \<and>
     sg_Previous (pv_Stage s) = old"

definition uncommitted :: "string \<Rightarrow> provisioner \<Rightarrow> bool" where
  "uncommitted old s \<longleftrightarrow> \<not> pv_Published s \<and> \<not> sg_Committed (pv_Stage s) \<and> \<not> sg_Restored (pv_Stage s) \<and>
     pv_Current s = old"

lemma committedFrom_frame: "sameFiles s t \<Longrightarrow> committedFrom old t = committedFrom old s"
  by (simp add: sameFiles_def committedFrom_def)

lemma uncommitted_frame: "sameFiles s t \<Longrightarrow> uncommitted old t = uncommitted old s"
  by (simp add: sameFiles_def uncommitted_def)

lemma commit_Inr:
  assumes "commit env s = (Inr x, t)" and "uncommitted old s"
  shows "committedFrom old (t\<lparr>pv_Published := True\<rparr>)"
  using assms
  by (auto simp: commit_def migrateLegacy_def andThen_eq_Inr updateStage_def uncommitted_def committedFrom_def dest!: switch_Inr)

definition sameSelection :: "provisioner \<Rightarrow> provisioner \<Rightarrow> bool" where
  "sameSelection s t \<longleftrightarrow> pv_Current t = pv_Current s \<and> pv_Published t = pv_Published s"

interpretation sameSelection: monitor sameSelection by unfold_locales (auto simp: sameSelection_def)

lemma sameFiles_selection: "obeys sameFiles m \<Longrightarrow> obeys sameSelection m"
  by (erule obeys_mono) (simp add: sameFiles_def sameSelection_def)

lemma removeStaged_selection: "obeys sameSelection (removeStaged env stage)"
  unfolding removeStaged_def updateStage_def
  by (intro obeys_intros frame_modify sameFiles_selection; simp add: sameSelection_def)

lemma undoMigration_selection: "obeys sameSelection (undoMigration env)"
  unfolding undoMigration_def updateStage_def
  by (intro obeys_intros frame_modify sameFiles_selection; simp add: sameSelection_def)

lemma reselect_Inr:
  assumes "reselectPrevious env stage s = (Inr x, t)" and "sg_Committed stage"
  shows "pv_Current t = sg_Previous stage \<and> pv_Published t = pv_Published s"
  using assms by (auto simp: reselectPrevious_def andThen_eq_Inr split: if_splits dest!: switch_Inr)

lemma restore_Inr:
  assumes "restore env s = (Inr x, t)" and "committedFrom old s"
  shows "pv_Current t = old \<and> pv_Published t"
proof -
  obtain s' u where undone: "undoMigration env s = (Inr (), s')"
    and reselect: "reselectPrevious env (pv_Stage s) s' = (Inr (), u)" and "removeStaged env (pv_Stage s) u = (Inr x, t)"
    using assms by (auto simp: restore_def andThen_eq_Inr committedFrom_def)
  then show ?thesis
    using reselect_Inr [OF reselect] obeysD [OF removeStaged_selection] obeysD [OF undoMigration_selection undone] assms(2)
    by (fastforce simp: committedFrom_def sameSelection_def)
qed

section \<open>The rollback tells the truth\<close>

lemma attempt_run: "attempt m s = (Inr (fst (m s)), snd (m s))"
  by (simp add: attempt_def split: prod.splits)

lemma labelled_None: "labelled label r = None \<longleftrightarrow> (\<exists>x. r = Inr x)"
  by (auto simp: labelled_def split: sum.splits)

lemma joinTo_None: "joinTo e f = None \<longleftrightarrow> e = None \<and> f = None"
  by (auto simp: joinTo_def split: option.splits)

lemma counted_attempt: "counted m \<Longrightarrow> fst (m s) = Inr x \<Longrightarrow> failedCalls (snd (m s)) = failedCalls s"
  by (cases "m s") (auto dest: counted_Inr)

lemma counted_reset: "counted (ResetInitialDatabase env slug)"
  by (rule counted_quiet) (intro obeys_intros)

lemma cleanup_run:
  assumes "cleanupCandidate env slug ctx s = (r, t)"
  shows "\<exists>c. r = Inr c \<and> (c = None \<longrightarrow> failedCalls t = failedCalls s) \<and> (\<not> pv_Published s \<longrightarrow> t = s)"
  using assms
  by (auto simp: cleanupCandidate_def andThen_def attempt_run labelled_None joinTo_None counted_attempt
      counted_call counted_reset counted_services split: if_splits)

lemma counted_wait: "counted (waitHealthy env budget slug services)"
  by (rule counted_quiet) (intro obeys_intros)

lemma recover_run:
  assumes "recoverServices env request ctx s = (r, t)"
  shows "\<exists>c. r = Inr c \<and> (c = None \<longrightarrow> failedCalls t = failedCalls s)"
  using assms
  by (auto simp: recoverServices_def Let_def andThen_def attempt_run labelled_None counted_attempt
      counted_services counted_wait split: if_splits option.splits)

lemma recoverProxy_run:
  assumes "recoverProxy env request ctx s = (r, t)"
  shows "\<exists>c. r = Inr c \<and> (c = None \<longrightarrow> failedCalls t = failedCalls s)"
  using assms
  by (auto simp: recoverProxy_def andThen_def attempt_run labelled_None counted_attempt counted_call
      split: if_splits option.splits)

abbreviation rolledBack :: "goerr \<Rightarrow> bool" where
  "rolledBack e \<equiv> fst (snd (failureOf e))"

lemma failureOf_Failure [simp]: "failureOf (ReconcileFailure c rb ch u) = (c, rb, u)"
  by (simp add: failureOf_def)

text \<open>
  The rollback always returns a failure. With nothing published it makes no call; with a published
  candidate it reports success only if it selected the previous generation and none of its calls failed.
\<close>

definition samePublished :: "provisioner \<Rightarrow> provisioner \<Rightarrow> bool" where
  "samePublished s t \<longleftrightarrow> pv_Published t = pv_Published s"

interpretation samePublished: monitor samePublished by unfold_locales (auto simp: samePublished_def)

lemma sameFiles_published: "obeys sameFiles m \<Longrightarrow> obeys samePublished m"
  by (erule obeys_mono) (simp add: sameFiles_def samePublished_def)

lemma published_step: "obeys samePublished (fsStep env label)"
  by (rule sameFiles_published) (rule frame_fsStep)

lemma published_set:
  "obeys samePublished (modify (\<lambda>s. s\<lparr>pv_Current := x\<rparr>))" "obeys samePublished (updateStage f)"
  unfolding updateStage_def by (rule frame_modify, simp add: samePublished_def)+

lemma published_pointer:
  "obeys samePublished (restoreRuntimePointer env previous)" "obeys samePublished (syncPointer env label previous)"
  "obeys samePublished (switchRuntimePointer env target)"
  unfolding switchRuntimePointer_def syncPointer_def restoreRuntimePointer_def
  by (intro obeys_intros published_step published_set)+

lemma published_restore: "obeys samePublished (restore env)"
proof -
  have "obeys samePublished (removeStaged env stage)" for stage
    by (rule obeys_mono [OF removeStaged_selection]) (simp add: sameSelection_def samePublished_def)
  then show ?thesis
    unfolding restore_def undoMigration_def reselectPrevious_def
    by (intro obeys_intros published_step published_set published_pointer)
qed

lemma rollback_run:
  assumes "pv_Published s \<Longrightarrow> committedFrom old s" and "rollbackReconcile env request ctx cause s = (r, t)"
  shows "\<exists>e. r = Inr e \<and> pv_Published t = pv_Published s \<and> (\<not> pv_Published s \<longrightarrow> mutations t = mutations s) \<and>
     (pv_Published s \<longrightarrow> rolledBack e \<longrightarrow> pv_Current t = old \<and> failedCalls t = failedCalls s)"
proof -
  obtain c s1 where cleanup: "cleanupCandidate env (rr_Slug request) ctx s = (Inr c, s1)"
    and clean: "c = None \<Longrightarrow> failedCalls s1 = failedCalls s" "\<not> pv_Published s \<Longrightarrow> s1 = s"
    using cleanup_run [of env "rr_Slug request" ctx s]
    by (cases "cleanupCandidate env (rr_Slug request) ctx s") auto
  have files1: "sameFiles s s1" using obeysD [OF frame_recover(1) cleanup] .
  obtain q s2 where restored: "restore env s1 = (q, s2)" by fastforce
  have calls2: "failedCalls s2 = failedCalls s1 \<and> mutations s2 = mutations s1"
    using noCalls_counts obeysD [OF frame_generations(5) restored] by blast
  have published2: "pv_Published s2 = pv_Published s"
    using obeysD [OF published_restore restored] files1 by (simp add: sameFiles_def samePublished_def)
  show ?thesis
  proof (cases "isl q \<or> \<not> pv_Published s")
    case True
    have run: "r = Inr (ReconcileFailure (joined [Some cause, c,
           Some (Errorf ''restore previous runtime during rollback: '' (projl q) [])]) False (pv_Published s) False)
         \<and> t = s2" if "isl q"
      using that assms(2) by (cases q) (simp_all add: rollbackReconcile_def andThen_def attempt_def cleanup
          restored published2)
    have run': "r = Inr (ReconcileFailure (joined [Some cause, c]) (c = None) False False) \<and> t = s2"
      if "\<not> isl q" "\<not> pv_Published s"
      using that assms(2) by (cases q) (simp_all add: rollbackReconcile_def andThen_def attempt_def cleanup
          restored published2)
    show ?thesis
      using True run run' clean(2) calls2 published2 by (cases "isl q") auto
  next
    case False
    then have committed: "committedFrom old s1" and q: "q = Inr ()"
      using assms(1) committedFrom_frame [OF files1] by (cases q; auto)+
    have selected: "pv_Current s2 = old" "pv_Published s2"
      using restore_Inr [OF restored [unfolded q] committed] by auto
    obtain c' s3 where recovery: "recoverServices env request ctx s2 = (Inr c', s3)"
      and calls3: "c' = None \<Longrightarrow> failedCalls s3 = failedCalls s2"
      using recover_run [of env request ctx s2] by (cases "recoverServices env request ctx s2") auto
    obtain p s4 where proxy: "recoverProxy env request ctx s3 = (Inr p, s4)"
      and calls4: "p = None \<Longrightarrow> failedCalls s4 = failedCalls s3"
      using recoverProxy_run [of env request ctx s3] by (cases "recoverProxy env request ctx s3") auto
    have "sameFiles s2 s3" "sameFiles s3 s4"
      using obeysD [OF frame_recover(3) recovery] obeysD [OF frame_recover(5) proxy] .
    then have files: "pv_Current s3 = old" "pv_Current s4 = old" "pv_Published s3" "pv_Published s4"
      using selected by (simp_all add: sameFiles_def)
    have run: "(r, t) = (if c \<noteq> None \<or> c' \<noteq> None
         then (Inr (ReconcileFailure (joined [Some cause, c, c']) False True False), s3)
         else if p \<noteq> None then (Inr (ReconcileFailure (joined [Some cause, p]) False True False), s4)
         else (Inr (ReconcileFailure cause True True False), s4))"
      using assms(2) by (cases "c = None \<and> c' = None"; cases "p = None")
        (auto simp: rollbackReconcile_def andThen_def attempt_def cleanup restored q recovery proxy selected files)
    show ?thesis
      using run clean(1) calls2 files calls3 calls4 False by (simp split: if_splits)
  qed
qed


section \<open>Applying a configuration\<close>

lemma counts_frame: "obeys noCalls m \<Longrightarrow> m s = (r, t) \<Longrightarrow> failedCalls t = failedCalls s \<and> mutations t = mutations s"
  using noCalls_counts by (blast dest: obeysD)

lemma validate_mutations: "call env (CallValidate ref) s = (r, t) \<Longrightarrow> mutations t = mutations s"
  by (auto simp: call_def consult_def failing_def mutations_def andThen_def split: option.splits)

lemma commit_published: "obeys samePublished (commit env)"
  unfolding commit_def migrateLegacy_def
  by (intro obeys_intros published_step published_set published_pointer frame_modify)
    (simp add: samePublished_def)

text \<open>Until it is published, a candidate changes no container and no proxy.\<close>

lemma prepare_triple:
  "triple (\<lambda>s. uncommitted old s \<and> mutations s = n) (prepareCandidate env rendered candidate)
     (\<lambda>_. committedFrom old) (\<lambda>_ s. \<not> pv_Published s \<and> mutations s = n)"
proof -
  let ?P = "\<lambda>s. uncommitted old s \<and> mutations s = n"
  let ?E = "\<lambda>_ s. \<not> pv_Published s \<and> mutations s = n"
  have quiet: "triple ?P m (\<lambda>_. ?P) ?E" if "obeys noCalls m" "obeys sameFiles m" for m :: "(provisioner, unit) act"
    using obeysD [OF that(2)] counts_frame [OF that(1)]
    by (intro tripleI) (auto simp: uncommitted_frame, auto simp: uncommitted_def sameFiles_def)
  have validate: "triple ?P (call env (CallValidate candidate)) (\<lambda>_. ?P) ?E"
    using validate_mutations obeysD [OF frame_call(1)]
    by (intro tripleI) (auto simp: uncommitted_frame, auto simp: uncommitted_def sameFiles_def)
  have commit: "triple ?P (commit env) (\<lambda>_ s. committedFrom old (s\<lparr>pv_Published := True\<rparr>)) ?E"
    using commit_Inr counts_frame [OF frame_generations(3)] obeysD [OF commit_published]
    by (intro tripleI) (auto simp: uncommitted_def samePublished_def)
  show ?thesis
    unfolding prepareCandidate_def
    by (intro triple_andThen [OF quiet] triple_andThen [OF validate] triple_andThen [OF commit]
        tripleI frame_writeCandidate) auto
qed

lemma frame_serve: "obeys sameFiles (startServices env request m ctx services)"
  "obeys sameFiles (verifyServices env request ctx services)"
  by (rule frame_start)+

lemma apply_run:
  assumes "applyRuntime env request m ctx rendered candidate s = (r, t)" and "uncommitted old s"
  shows "failedCalls t \<le> Suc (failedCalls s)" and "\<exists>x. r = Inr x \<Longrightarrow> failedCalls t = failedCalls s"
    and "\<exists>x. r = Inr x \<Longrightarrow> committedFrom old t"
    and "pv_Published t \<Longrightarrow> committedFrom old t" and "\<not> pv_Published t \<Longrightarrow> mutations t = mutations s"
proof -
  show "failedCalls t \<le> Suc (failedCalls s)" "\<exists>x. r = Inr x \<Longrightarrow> failedCalls t = failedCalls s"
    using counted_Inl [OF counted_apply] counted_Inr [OF counted_apply] assms(1) by (cases r; fastforce)+
  have committed: "committedFrom old t \<or> \<not> pv_Published t \<and> mutations t = mutations s \<and> isl r"
  proof -
    obtain q u where prepared: "prepareCandidate env rendered candidate s = (q, u)" by fastforce
    show ?thesis
    proof (cases q)
      case (Inl e)
      then show ?thesis
        using prepared triple_InlD [OF prepare_triple, of old s "mutations s"] assms
        by (auto simp: applyRuntime_def Let_def andThen_def)
    next
      case (Inr x)
      let ?services = "rn_EnabledComposeServices rendered"
      have serve: "andThen (startServices env request m ctx ?services)
          (\<lambda>_. verifyServices env request ctx ?services) u = (r, t)"
        using prepared assms(1) Inr by (simp add: applyRuntime_def Let_def andThen_def)
      have "sameFiles u t" using serve by (rule obeysD [rotated]) (intro obeys_intros frame_serve)
      moreover have "committedFrom old u"
        using prepared triple_InrD [OF prepare_triple, of old s "mutations s"] assms(2) Inr by simp
      ultimately show ?thesis using committedFrom_frame by blast
    qed
  qed
  then show "\<exists>x. r = Inr x \<Longrightarrow> committedFrom old t" "pv_Published t \<Longrightarrow> committedFrom old t"
    "\<not> pv_Published t \<Longrightarrow> mutations t = mutations s" by (auto simp: committedFrom_def)
qed


end
