(* ===== verification/ReconcileRuns.thy ===== *)
theory ReconcileRuns
  imports ReconcileFrames
begin

text \<open>
  The response of a reconciliation is true: what it says about errors, the rollback and the runtime is
  what happened to the calls and to the published generation.
\<close>

section \<open>One request\<close>

lemma triple_onFail:
  "triple P m Q E' \<Longrightarrow> (\<And>e. triple (E' e) (h e) Q E) \<Longrightarrow> triple P (onFail h m) Q E"
  by (rule tripleI) (auto simp: onFail_def split: prod.splits sum.splits dest: triple_InrD triple_InlD)

text \<open>\<open>pending old n f\<close>: nothing published, no call yet; \<open>told old n f b\<close>: what a failed answer may claim.\<close>

definition pending :: "string \<Rightarrow> nat \<Rightarrow> nat \<Rightarrow> provisioner \<Rightarrow> bool" where
  "pending old n f s \<longleftrightarrow> \<not> pv_Published s \<and> pv_Current s = old \<and> mutations s = n \<and> failedCalls s = f \<and>
     pv_Rollback s = None \<and> pv_RollbackSucceeded s = False \<and> pv_Result s = noResult"

definition told :: "string \<Rightarrow> nat \<Rightarrow> nat \<Rightarrow> bool \<Rightarrow> provisioner \<Rightarrow> bool" where
  "told old n f rolled s \<longleftrightarrow> pv_Rollback s = None \<and>
     (rolled \<longrightarrow> pv_Published s \<longrightarrow> pv_Current s = old \<and> failedCalls s \<le> Suc f) \<and>
     (\<not> pv_Published s \<longrightarrow> mutations s = n)"

definition done_with :: "string \<Rightarrow> nat \<Rightarrow> provisioner \<Rightarrow> bool" where
  "done_with old f s \<longleftrightarrow> committedFrom old s \<and> failedCalls s = f \<and> pv_Rollback s \<noteq> None \<and>
     \<not> pv_RollbackSucceeded s \<and> \<not> rs_Failed (pv_Result s) \<and> \<not> rs_RolledBack (pv_Result s) \<and>
     \<not> rs_RuntimeChanged (pv_Result s)"

lemma pending_told: "pending old n f s \<Longrightarrow> told old n f rolled s"
  by (simp add: pending_def told_def)

text \<open>The answer of the run so far.\<close>

definition sameAnswer :: "provisioner \<Rightarrow> provisioner \<Rightarrow> bool" where
  "sameAnswer s t \<longleftrightarrow> pv_Result t = pv_Result s \<and> pv_Rollback t = pv_Rollback s \<and>
     pv_RollbackSucceeded t = pv_RollbackSucceeded s"

interpretation sameAnswer: monitor sameAnswer by unfold_locales (auto simp: sameAnswer_def)

lemma sameMeta_answer: "obeys sameMeta m \<Longrightarrow> obeys sameAnswer m"
  by (erule obeys_mono) (simp add: sameMeta_def sameAnswer_def)

lemma write_answer: "obeys sameAnswer (writeMetadata env slug m)"
  unfolding writeMetadata_def
  by (intro obeys_intros sameMeta_answer [OF frame_fsSteps(3)] sameMeta_answer [OF frame_ProjectPath(3)] frame_modify)
    (simp add: sameAnswer_def)

lemma pending_frame:
  assumes "obeys noCalls m" and "obeys sameFiles m" and "obeys sameAnswer m"
  shows "triple (pending old n f) m (\<lambda>_. pending old n f) (\<lambda>_. pending old n f)"
proof -
  have "pending old n f t" if "m s = (r, t)" "pending old n f s" for s r t
    using counts_frame [OF assms(1) that(1)] obeysD [OF assms(2) that(1)] obeysD [OF assms(3) that(1)] that(2)
    by (simp add: pending_def sameFiles_def sameAnswer_def)
  then show ?thesis by (auto intro!: tripleI)
qed

lemma triple_mapErr: "triple P m Q (\<lambda>e. E (h e)) \<Longrightarrow> triple P (mapErr h m) Q E"
  by (rule tripleI) (auto simp: mapErr_def split: prod.splits sum.splits dest: triple_InrD triple_InlD)

lemma stage_selection: "obeys sameSelection (StageRuntimeFilesWithRef env slug files)"
  unfolding StageRuntimeFilesWithRef_def Let_def
  by (intro obeys_intros sameFiles_selection frame_modify) (simp_all add: sameSelection_def)

lemma stage_triple:
  "triple (pending old n f) (StageRuntimeFilesWithRef env slug files)
     (\<lambda>_ s. pending old n f s \<and> uncommitted old s) (\<lambda>_. pending old n f)"
proof -
  have kept: "pending old n f t" if "StageRuntimeFilesWithRef env slug files s = (r, t)" "pending old n f s" for s r t
    using counts_frame [OF frame_generations(1) that(1)] obeysD [OF frame_generations(2) that(1)]
      obeysD [OF stage_selection that(1)] that(2)
    by (simp add: pending_def sameMeta_def sameSelection_def)
  moreover have "uncommitted old t"
    if "StageRuntimeFilesWithRef env slug files s = (Inr x, t)" "pending old n f s" for s x t
    using that(1) kept [OF that]
    by (auto simp: StageRuntimeFilesWithRef_def Let_def andThen_eq_Inr pending_def uncommitted_def consult_def)
  ultimately show ?thesis by (auto intro!: tripleI)
qed

lemma apply_triple:
  "triple (\<lambda>s. pending old n f s \<and> uncommitted old s)
     (onFail (\<lambda>e. andThen (rollbackReconcile env request ctx e) throw)
        (applyRuntime env request m ctx rendered candidate))
     (\<lambda>_ s. committedFrom old s \<and> failedCalls s = f \<and> \<not> pv_RollbackSucceeded s)
     (\<lambda>e. told old n f (rolledBack e))"
proof (rule triple_onFail)
  let ?E = "\<lambda>s. pv_Rollback s = None \<and> failedCalls s \<le> Suc f \<and>
    (if pv_Published s then committedFrom old s else mutations s = n)"
  show "triple (\<lambda>s. pending old n f s \<and> uncommitted old s) (applyRuntime env request m ctx rendered candidate)
     (\<lambda>_ s. committedFrom old s \<and> failedCalls s = f \<and> \<not> pv_RollbackSucceeded s) (\<lambda>_. ?E)"
    using apply_run obeysD [OF frame_apply] by (intro tripleI) (fastforce simp: pending_def sameMeta_def)+
  show "triple ?E (andThen (rollbackReconcile env request ctx e) throw) Q (\<lambda>e. told old n f (rolledBack e))"
    for e Q
  proof (rule tripleI)
    fix s e' t
    assume before: "?E s" and run: "andThen (rollbackReconcile env request ctx e) throw s = (Inl e', t)"
    obtain r u where rb: "rollbackReconcile env request ctx e s = (r, u)" by fastforce
    have committed: "pv_Published s \<Longrightarrow> committedFrom old s" using before by simp
    have meta: "pv_Rollback u = pv_Rollback s" using obeysD [OF frame_rollback rb] by (simp add: sameMeta_def)
    from rollback_run [OF committed rb] obtain x where "r = Inr x" by blast
    then show "told old n f (rolledBack e') t"
      using rollback_run [OF committed rb] before run rb meta by (auto simp: told_def andThen_def split: if_splits)
  qed (auto simp: andThen_eq_Inr)
qed


lemma failReconcile_run:
  "failReconcile request e s = (r, t) \<Longrightarrow> isl r \<and> pv_Published t = pv_Published s \<and> pv_Current t = pv_Current s \<and>
     pv_Calls t = pv_Calls s \<and> pv_Rollback t = pv_Rollback s \<and> rs_Failed (pv_Result t) \<and>
     rs_RolledBack (pv_Result t) = rolledBack e \<and> rs_RuntimeChanged (pv_Result t) = pv_Published s"
  by (auto simp: failReconcile_def remember_def failedResult_def noResult_def andThen_def split: prod.splits)

text \<open>
  What the callback leaves: a finished run with the answer of a success, a failed one with an answer
  that is true, or no answer at all before anything was tried.
\<close>

definition answeredTruly :: "string \<Rightarrow> nat \<Rightarrow> nat \<Rightarrow> provisioner \<Rightarrow> bool" where
  "answeredTruly old n f s \<longleftrightarrow> pending old n f s \<or>
     rs_Failed (pv_Result s) \<and> rs_RuntimeChanged (pv_Result s) = pv_Published s \<and>
     told old n f (rs_RolledBack (pv_Result s)) s"

lemma attempt_triple:
  "triple (pending old n f)
     (andThen (mapErr plainFailure (\<lambda>s. (pe_Render env (renderInput request), s))) (\<lambda>rendered.
       andThen (mapErr plainFailure (StageRuntimeFilesWithRef env slug (runtimeFiles rendered))) (\<lambda>candidate.
       andThen (rollbackContext env request metadata (rn_EnabledComposeServices rendered)) (\<lambda>ctx.
       andThen (onFail (\<lambda>e. andThen (rollbackReconcile env request ctx e) throw)
                  (applyRuntime env request metadata ctx rendered candidate)) (\<lambda>_.
       publishMetadata request metadata ctx (rn_EnabledComposeServices rendered))))))
     (\<lambda>_. done_with old f) (\<lambda>e. told old n f (rolledBack e))"
proof -
  have render: "triple (pending old n f) (mapErr plainFailure (\<lambda>s. (pe_Render env (renderInput request), s)))
      (\<lambda>_. pending old n f) (\<lambda>e. told old n f (rolledBack e))"
    by (rule tripleI) (auto simp: mapErr_def pending_told split: sum.splits)
  have stage: "triple (pending old n f) (mapErr plainFailure (StageRuntimeFilesWithRef env slug files))
      (\<lambda>_ s. pending old n f s \<and> uncommitted old s) (\<lambda>e. told old n f (rolledBack e))" for files
    by (intro triple_mapErr triple_conseq [OF stage_triple]) (auto intro: pending_told)
  have ctx: "triple (\<lambda>s. pending old n f s \<and> uncommitted old s) (rollbackContext env request metadata services)
      (\<lambda>_ s. pending old n f s \<and> uncommitted old s) E" for services E
  proof (rule tripleI)
    fix s x t
    assume "pending old n f s \<and> uncommitted old s" "rollbackContext env request metadata services s = (Inr x, t)"
    then show "pending old n f t \<and> uncommitted old t"
      using triple_InrD [OF pending_frame [OF frame_context(1,2) sameMeta_answer [OF frame_context(3)]]] uncommitted_frame obeysD [OF frame_context(2)] by blast
  qed (auto simp: rollbackContext_def Let_def orNoRef_def andThen_def attempt_run)
  have publish: "triple (\<lambda>s. committedFrom old s \<and> failedCalls s = f \<and> \<not> pv_RollbackSucceeded s)
      (publishMetadata request metadata ctx services) (\<lambda>_. done_with old f) E" for ctx services E
    by (rule tripleI) (auto simp: publishMetadata_def remember_def Let_def andThen_def done_with_def
        committedFrom_def failedCalls_def)
  show ?thesis
    by (intro triple_andThen [OF render] triple_andThen [OF stage] triple_andThen [OF ctx]
        triple_andThen [OF apply_triple] publish)
qed

lemma applyRequest_triple:
  "triple (pending old n f) (applyRequest env request) (\<lambda>_. done_with old f) (\<lambda>_. answeredTruly old n f)"
proof -
  have set: "triple (pending old n f) (modify (\<lambda>s. s\<lparr>pv_Local := c\<rparr>)) (\<lambda>_. pending old n f) (\<lambda>_. answeredTruly old n f)" for c
    by (rule tripleI) (auto simp: pending_def mutations_def failedCalls_def)
  have wr: "triple (pending old n f) (WriteMetadataForPhase env slug c) (\<lambda>_. pending old n f) (\<lambda>_. answeredTruly old n f)"
    for slug c unfolding WriteMetadataForPhase_def
    by (rule triple_conseq [OF pending_frame [OF frame_writeMetadata write_answer]]) (auto simp: answeredTruly_def)
  have claim: "triple (pending old n f) (claimFence env request) (\<lambda>_. pending old n f) (\<lambda>_. answeredTruly old n f)"
    unfolding claimFence_def claimFenceAt_def Let_def
    by (intro triple_andThen [OF triple_gets [where Q = "\<lambda>_. pending old n f"]] triple_andThen [OF set] triple_intros wr)
  have fail: "triple (told old n f (rolledBack e)) (failReconcile request e) Q (\<lambda>_. answeredTruly old n f)" for e Q
    using failReconcile_run [of request e]
    by (intro tripleI) (fastforce simp: answeredTruly_def told_def mutations_def failedCalls_def)+
  show ?thesis
    unfolding applyRequest_def
    by (intro triple_andThen [OF claim] triple_andThen [OF triple_gets [where Q = "\<lambda>_. pending old n f"]]
        triple_onFail [OF attempt_triple] fail)
qed


section \<open>The answer is true\<close>

definition unanswered :: "ReconcileProjectRequest \<Rightarrow> provisioner \<Rightarrow> bool" where
  "unanswered request s \<longleftrightarrow> (case pv_Metadata s of None \<Rightarrow> True
     | Some m \<Rightarrow> map_of (md_Idempotency m) (rr_IdempotencyKey request) = None)"

lemma callback_run:
  assumes "reconcileCallback env request s = (r, t)" and "pending old n f s"
    and "map_of (md_Idempotency (pv_Local s)) (rr_IdempotencyKey request) = None"
  shows "case r of Inl e \<Rightarrow> answeredTruly old n f t | Inr x \<Rightarrow> done_with old f t"
  using assms triple_InlD [OF applyRequest_triple assms(2)] triple_InrD [OF applyRequest_triple assms(2)]
  by (auto simp: reconcileCallback_def andThen_def split: sum.splits)

lemma write_run:
  assumes "writeMetadata env slug m s = (r, t)"
  shows "done_with old f s \<Longrightarrow> done_with old f t" and "answeredTruly old n f s \<Longrightarrow> answeredTruly old n f t"
  using obeysD [OF frame_writeMetadata(1) assms] obeysD [OF frame_writeMetadata(2) assms] obeysD [OF write_answer assms]
  by (auto simp: noCalls_def sameFiles_def sameAnswer_def done_with_def answeredTruly_def committedFrom_def
      failedCalls_def mutations_def pending_def told_def)

text \<open>After the metadata file could not be written.\<close>

definition undone :: "string \<Rightarrow> nat \<Rightarrow> provisioner \<Rightarrow> bool" where
  "undone old f s \<longleftrightarrow> pv_Rollback s \<noteq> None \<and> \<not> rs_Failed (pv_Result s) \<and> \<not> rs_RolledBack (pv_Result s) \<and>
     (pv_RollbackSucceeded s \<longrightarrow> pv_Current s = old \<and> failedCalls s = f)"

lemma runtimeRollback_run:
  assumes "runtimeRollback env request s = (r, t)"
  shows "answeredTruly old n f s \<Longrightarrow> t = s" and "done_with old f s \<Longrightarrow> undone old f t"
proof -
  show "answeredTruly old n f s \<Longrightarrow> t = s"
    using assms by (auto simp: runtimeRollback_def andThen_def answeredTruly_def pending_def told_def)
  assume before: "done_with old f s"
  then obtain ctx where ctx: "pv_Rollback s = Some ctx" by (auto simp: done_with_def)
  obtain q u where rb: "rollbackReconcile env request ctx (ErrorsNew ''metadata publication failed'') s = (q, u)"
    by fastforce
  have committed: "pv_Published s \<Longrightarrow> committedFrom old s" "pv_Published s"
    using before by (auto simp: done_with_def committedFrom_def)
  have answer: "sameAnswer s u" using obeysD [OF sameMeta_answer [OF frame_rollback] rb] .
  obtain x where "q = Inr x" and "rolledBack x \<longrightarrow> pv_Current u = old \<and> failedCalls u = failedCalls s"
    using rollback_run [OF committed(1) rb] committed(2) by blast
  then show "undone old f t"
    using assms ctx rb answer before
    by (auto simp: runtimeRollback_def andThen_def undone_def sameAnswer_def done_with_def failedCalls_def)
qed

lemma quiet_run:
  assumes "obeys noCalls m" and "obeys sameFiles m" and "obeys sameMeta m" and "m s = (r, t)"
  shows "pv_Metadata t = pv_Metadata s \<and> (pending old n f s \<longrightarrow> pending old n f t)"
  using obeysD [OF assms(1,4)] obeysD [OF assms(2,4)] obeysD [OF assms(3,4)]
  by (auto simp: noCalls_def sameFiles_def sameMeta_def pending_def failedCalls_def mutations_def)

lemmas lock_run = quiet_run [OF frame_lock]
lemmas read_run = quiet_run [OF frame_readMetadata]

lemma readMetadata_value: "readMetadata env slug s = (Inr m, t) \<Longrightarrow> m = pv_Metadata s"
  by (auto simp: readMetadata_def ProjectPath_def andThen_eq_Inr split: if_splits option.splits)

lemma update_triple:
  "triple (\<lambda>s. pending old n f s \<and> unanswered request s)
     (UpdateMetadataWithRollback env slug (reconcileCallback env request) (runtimeRollback env request))
     (\<lambda>_. done_with old f) (\<lambda>_ s. answeredTruly old n f s \<or> undone old f s)"
proof -
  let ?P = "\<lambda>s. pending old n f s \<and> unanswered request s"
  let ?E = "\<lambda>s. answeredTruly old n f s \<or> undone old f s"
  let ?L = "\<lambda>s. pending old n f s \<and> map_of (md_Idempotency (pv_Local s)) (rr_IdempotencyKey request) = None"
  have lock: "triple ?P (lockMetadataFile env slug) (\<lambda>_. ?P) (\<lambda>_. ?E)"
    using lock_run by (intro tripleI) (fastforce simp: unanswered_def answeredTruly_def)+
  have read: "triple ?P (readMetadata env slug) (\<lambda>m s. ?P s \<and> m = pv_Metadata s) (\<lambda>_. ?E)"
    using read_run readMetadata_value
    by (intro tripleI) (fastforce simp: unanswered_def answeredTruly_def)+
  have load: "triple (\<lambda>s. ?P s \<and> m = pv_Metadata s)
      (modify (\<lambda>s. s\<lparr>pv_Local := case m of None \<Rightarrow> freshMetadata slug | Some m \<Rightarrow> m\<rparr>)) (\<lambda>_. ?L) E" for m E
    by (rule tripleI)
      (auto simp: pending_def unanswered_def freshMetadata_def failedCalls_def mutations_def split: option.splits)
  have mutate: "triple ?L (attempt (reconcileCallback env request))
      (\<lambda>r s. case r of Inl e \<Rightarrow> answeredTruly old n f s | Inr x \<Rightarrow> done_with old f s) E" for E
    using callback_run by (intro triple_attempt tripleI) fastforce+
  have store: "triple Q (attempt (writeMetadata env slug m)) (\<lambda>_. Q) E"
    if "Q = done_with old f \<or> Q = answeredTruly old n f" for Q m E
    using that write_run by (intro triple_attempt tripleI) blast+
  have undo: "triple (done_with old f) (attempt (runtimeRollback env request)) (\<lambda>_. undone old f) E"
    "triple (answeredTruly old n f) (attempt (runtimeRollback env request)) (\<lambda>_. answeredTruly old n f) E" for E
    using runtimeRollback_run by (intro triple_attempt tripleI; blast)+
  have failed: "triple (answeredTruly old n f) (andThen (gets pv_Local) (\<lambda>metadata.
      andThen (attempt (writeMetadata env slug metadata)) (\<lambda>written. case written of
          Inr _ \<Rightarrow> throw e
        | Inl writeErr \<Rightarrow> andThen (attempt (runtimeRollback env request)) (\<lambda>r. throw (publicationError
             (case r of Inl f \<Rightarrow> Joined [writeErr, f] | Inr _ \<Rightarrow> writeErr)))))) Q (\<lambda>_. ?E)" for e Q
    by (intro triple_andThen [OF triple_gets [where Q = "\<lambda>_. answeredTruly old n f"]]
        triple_andThen [OF store] triple_andThen [OF undo(2)] triple_intros) auto
  have published: "triple (done_with old f) (andThen (gets pv_Local) (\<lambda>metadata.
      andThen (attempt (writeMetadata env slug metadata)) (\<lambda>written. case written of
          Inr _ \<Rightarrow> ret metadata
        | Inl writeErr \<Rightarrow> andThen (attempt (runtimeRollback env request)) (\<lambda>r. throw (publicationError
             (case r of Inl f \<Rightarrow> Joined [writeErr, f] | Inr _ \<Rightarrow> writeErr)))))) (\<lambda>_. done_with old f) (\<lambda>_. ?E)"
    by (intro triple_andThen [OF triple_gets [where Q = "\<lambda>_. done_with old f"]]
        triple_andThen [OF store] triple_andThen [OF undo(1)] triple_intros) auto
  show ?thesis
    unfolding UpdateMetadataWithRollback_def
    by (intro triple_andThen [OF lock] triple_andThen [OF read] triple_andThen [OF load] triple_andThen [OF mutate]
        triple_case_sum triple_if triple_throw triple_pre [OF failed] triple_pre [OF published]) auto
qed

text \<open>
  (C32) The response of the Provisioner is true: with no error no call failed; "rolled back" after
  a change means that the previous generation is selected again and that no call failed except the one
  that caused the rollback; "runtime not changed" means that no container and no proxy was touched.
\<close>

theorem reconcile_report_is_true:
  assumes "unanswered request s" and "Reconcile env request s = ((response, e), t)"
  shows "(e = None \<longrightarrow> failedCalls t = failedCalls s \<and> \<not> rs_Failed response) \<and>
    (rs_RolledBack response \<and> rs_RuntimeChanged response \<longrightarrow>
       pv_Current t = pv_Current s \<and> failedCalls t \<le> Suc (failedCalls s)) \<and>
    (rs_Failed response \<and> \<not> rs_RuntimeChanged response \<longrightarrow> mutations t = mutations s)"
proof -
  let ?old = "pv_Current s" and ?n = "mutations s" and ?f = "failedCalls s"
  have start: "pending ?old ?n ?f (freshRun s) \<and> unanswered request (freshRun s)"
    using assms(1) by (auto simp: pending_def freshRun_def unanswered_def mutations_def failedCalls_def)
  obtain r u where run: "UpdateMetadataWithRollback env (rr_Slug request) (reconcileCallback env request)
      (runtimeRollback env request) (freshRun s) = (r, u)" by fastforce
  show ?thesis
  proof (cases r)
    case (Inr m)
    then show ?thesis
      using triple_InrD [OF update_triple start] run assms(2)
      by (auto simp: Reconcile_def done_with_def)
  next
    case (Inl e)
    then have "answeredTruly ?old ?n ?f u \<or> undone ?old ?f u"
      using triple_InlD [OF update_triple start] run by blast
    then show ?thesis
      using run Inl assms(2)
      by (auto simp: Reconcile_def Let_def answeredTruly_def pending_def told_def undone_def noResult_def
          failedResult_def split: if_splits)
  qed
qed

end
