(* ===== verification/ReconcileReplay.thy ===== *)
theory ReconcileReplay
  imports ReconcileRuns
begin

text \<open>
  A repeated request is answered from the metadata file, and every call of a reconciliation names its
  services.
\<close>


section \<open>A repeated request\<close>

context monitor begin

lemma obeys_onFail:
  assumes "obeys R m" and "\<And>e. obeys R (h e)"
  shows "obeys R (onFail h m)"
proof (rule obeysI)
  fix s r t
  assume run: "onFail h m s = (r, t)"
  obtain q u where first: "m s = (q, u)" by fastforce
  have "R u t"
    using run first R_refl by (cases q) (auto simp: onFail_def dest: obeysD [OF assms(2)])
  then show "R s t" using obeysD [OF assms(1) first] R_trans by blast
qed

end

definition fresh :: "ReconcileProjectRequest \<Rightarrow> provisioner \<Rightarrow> bool" where
  "fresh request s \<longleftrightarrow> unanswered request s \<and>
     map_of (md_Idempotency (pv_Local s)) (rr_IdempotencyKey request) = None"

text \<open>The answer of this run is noted in the metadata the callback will publish.\<close>

definition noted :: "ReconcileProjectRequest \<Rightarrow> bool \<Rightarrow> provisioner \<Rightarrow> bool" where
  "noted request failed s \<longleftrightarrow> unanswered request s \<and>
     map_of (md_Idempotency (pv_Local s)) (rr_IdempotencyKey request) = Some (pv_Result s) \<and>
     rs_Failed (pv_Result s) = failed \<and> (\<not> failed \<longrightarrow> rs_Revision (pv_Result s) = md_Revision (pv_Local s))"

definition kept :: "ReconcileProjectRequest \<Rightarrow> bool \<Rightarrow> provisioner \<Rightarrow> bool" where
  "kept request failed s \<longleftrightarrow> (\<exists>m. pv_Metadata s = Some m \<and>
     map_of (md_Idempotency m) (rr_IdempotencyKey request) = Some (pv_Result s) \<and>
     rs_Failed (pv_Result s) = failed \<and> (\<not> failed \<longrightarrow> rs_Revision (pv_Result s) = md_Revision m))"

lemma fresh_frame:
  assumes "obeys sameMeta m"
  shows "triple (fresh request) m (\<lambda>_. fresh request) (\<lambda>_. fresh request)"
proof -
  have "fresh request t" if "m s = (r, t)" "fresh request s" for s r t
    using obeysD [OF assms that(1)] that(2) by (simp add: fresh_def unanswered_def sameMeta_def)
  then show ?thesis by (auto intro!: tripleI)
qed

lemma fresh_write:
  "map_of (md_Idempotency m) (rr_IdempotencyKey request) = None \<Longrightarrow>
   triple (fresh request) (writeMetadata env slug m) (\<lambda>_. fresh request) (\<lambda>_. fresh request)"
  unfolding writeMetadata_def
  by (intro triple_andThen [OF fresh_frame [OF frame_ProjectPath(3)]] triple_andThen [OF fresh_frame [OF frame_fsSteps(3)]]
      tripleI) (auto simp: fresh_def unanswered_def)

lemma fresh_claim: "triple (fresh request) (claimFence env request) (\<lambda>_. fresh request) (\<lambda>_. fresh request)"
proof -
  have set: "triple (fresh request) (modify (\<lambda>s. s\<lparr>pv_Local := m\<rparr>)) (\<lambda>_. fresh request) E"
    if "map_of (md_Idempotency m) (rr_IdempotencyKey request) = None" for m E
    using that by (intro tripleI) (auto simp: fresh_def unanswered_def)
  have read: "triple (fresh request) (gets pv_Local)
      (\<lambda>m s. fresh request s \<and> map_of (md_Idempotency m) (rr_IdempotencyKey request) = None) E" for E
    by (rule triple_gets) (auto simp: fresh_def)
  have claim: "triple (\<lambda>s. fresh request s \<and> map_of (md_Idempotency m) (rr_IdempotencyKey request) = None)
     (if b then let claimed = m\<lparr>md_Fence := x\<rparr> in andThen (modify (\<lambda>s. s\<lparr>pv_Local := claimed\<rparr>))
         (\<lambda>_. WriteMetadataForPhase env slug claimed) else ret ()) (\<lambda>_. fresh request) (\<lambda>_. fresh request)" for b m x slug
  proof (cases "map_of (md_Idempotency m) (rr_IdempotencyKey request) = None")
    case True
    then show ?thesis
      unfolding Let_def WriteMetadataForPhase_def
      by (auto intro!: triple_if triple_ret triple_andThen [OF set] fresh_write)
  next
    case False
    then show ?thesis by (intro tripleI) auto
  qed
  show ?thesis unfolding claimFence_def claimFenceAt_def by (rule triple_andThen [OF read claim])
qed

lemma noted_request:
  "triple (fresh request) (applyRequest env request) (\<lambda>_. noted request False)
     (\<lambda>_ s. fresh request s \<or> noted request True s)"
proof -
  let ?E = "\<lambda>s. fresh request s \<or> noted request True s"
  have claim: "triple (fresh request) (claimFence env request) (\<lambda>_. fresh request) (\<lambda>_. ?E)"
    by (rule triple_conseq [OF fresh_claim]) auto
  have render: "obeys sameMeta (\<lambda>s. (pe_Render env (renderInput request), s))"
    by (simp add: obeys_def sameMeta_def)
  have applied: "obeys sameMeta (onFail (\<lambda>e. andThen (rollbackReconcile env request ctx e) throw)
      (applyRuntime env request metadata ctx rendered candidate))" for ctx metadata rendered candidate
    by (intro sameMeta.obeys_onFail obeys_intros frame_rollback frame_apply)
  have publish: "triple (fresh request) (publishMetadata request metadata ctx services)
      (\<lambda>_. noted request False) E" for metadata ctx services E
    by (rule tripleI) (auto simp: publishMetadata_def remember_def Let_def andThen_def fresh_def noted_def unanswered_def)
  have fail: "triple (fresh request) (failReconcile request e) Q (\<lambda>_. ?E)" for e Q
    by (rule tripleI) (auto simp: failReconcile_def remember_def failedResult_def andThen_def fresh_def noted_def
        unanswered_def split: prod.splits)
  have quiet: "triple (fresh request) (mapErr h m) (\<lambda>_. fresh request) (\<lambda>_. fresh request)"
    if "obeys sameMeta m" for h and m :: "(provisioner, 'a) act"
    by (intro fresh_frame obeys_intros that)
  show ?thesis
    unfolding applyRequest_def
    by (intro triple_andThen [OF claim] triple_andThen [OF triple_gets [where Q = "\<lambda>_. fresh request"]]
        triple_onFail [where E' = "\<lambda>_. fresh request"] triple_andThen [OF quiet [OF render]]
        triple_andThen [OF quiet [OF frame_generations(2)]] triple_andThen [OF fresh_frame [OF frame_context(3)]]
        triple_andThen [OF fresh_frame [OF applied]] publish fail)
qed


lemma repeat_callback:
  assumes "reconcileCallback env request s = (r, t)" and "fresh request s"
  shows "case r of Inl e \<Rightarrow> fresh request t \<or> noted request True t | Inr x \<Rightarrow> noted request False t"
  using assms triple_InlD [OF noted_request assms(2)] triple_InrD [OF noted_request assms(2)]
  by (auto simp: reconcileCallback_def andThen_def fresh_def split: sum.splits)

lemma write_kept:
  assumes "writeMetadata env slug (pv_Local s) s = (r, t)"
  shows "\<exists>x. r = Inr x \<Longrightarrow> noted request b s \<Longrightarrow> kept request b t"
    and "\<exists>x. r = Inr x \<Longrightarrow> fresh request s \<Longrightarrow> unanswered request t"
    and "\<exists>e. r = Inl e \<Longrightarrow> pv_Metadata t = pv_Metadata s"
    and "\<exists>x. r = Inr x \<Longrightarrow> pv_Metadata t = Some (pv_Local s)"
proof -
  obtain q u where first: "andThen (ProjectPath env slug) (\<lambda>_. fsSteps env [''create server directory: '',
       ''encode server metadata: '', ''create temporary metadata: '', ''secure metadata permissions: '', ''write metadata: '',
       ''sync metadata: '', ''close metadata: '', ''publish metadata: '']) s = (q, u)" by fastforce
  have same: "sameMeta s u" using first by (rule obeysD [rotated]) (intro obeys_intros)
  have "(r, t) = (case q of Inl e \<Rightarrow> (Inl e, u) | Inr x \<Rightarrow> (Inr (), u\<lparr>pv_Metadata := Some (pv_Local s)\<rparr>))"
    using assms first by (auto simp: writeMetadata_def andThen_def split: prod.splits sum.splits)
  then show "\<exists>x. r = Inr x \<Longrightarrow> noted request b s \<Longrightarrow> kept request b t"
    "\<exists>x. r = Inr x \<Longrightarrow> fresh request s \<Longrightarrow> unanswered request t"
    "\<exists>e. r = Inl e \<Longrightarrow> pv_Metadata t = pv_Metadata s"
    "\<exists>x. r = Inr x \<Longrightarrow> pv_Metadata t = Some (pv_Local s)"
    using same by (auto simp: noted_def kept_def fresh_def unanswered_def sameMeta_def split: sum.splits)
qed


lemma runtimeRollback_metadata:
  assumes "runtimeRollback env request s = (r, t)"
  shows "pv_Metadata t = pv_Metadata s"
proof (cases "pv_Rollback s")
  case (Some ctx)
  obtain q u where rb: "rollbackReconcile env request ctx (ErrorsNew ''metadata publication failed'') s = (q, u)"
    by fastforce
  then have "pv_Metadata u = pv_Metadata s"
    using obeysD [OF frame_rollback rb] by (simp add: sameMeta_def)
  then show ?thesis
    using assms rb Some by (cases q) (auto simp: runtimeRollback_def andThen_def)
qed (use assms in \<open>simp add: runtimeRollback_def andThen_def\<close>)

text \<open>What a run leaves in the metadata file: its answer, or nothing under its key.\<close>

lemma update_kept:
  "triple (unanswered request)
     (UpdateMetadataWithRollback env slug (reconcileCallback env request) (runtimeRollback env request))
     (\<lambda>m s. kept request False s \<and> pv_Metadata s = Some m)
     (\<lambda>e s. unanswered request s \<or> kept request True s \<and> \<not> errorsIs e ErrStaleConfigRevision)"
proof -
  let ?E = "\<lambda>e s. unanswered request s \<or> kept request True s \<and> \<not> errorsIs e ErrStaleConfigRevision"
  have lock: "triple (unanswered request) (lockMetadataFile env slug) (\<lambda>_. unanswered request) ?E"
    using lock_run by (intro tripleI) (fastforce simp: unanswered_def)+
  have read: "triple (unanswered request) (readMetadata env slug)
      (\<lambda>m s. unanswered request s \<and> m = pv_Metadata s) ?E"
    using read_run readMetadata_value by (intro tripleI) (fastforce simp: unanswered_def)+
  have load: "triple (\<lambda>s. unanswered request s \<and> m = pv_Metadata s)
      (modify (\<lambda>s. s\<lparr>pv_Local := case m of None \<Rightarrow> freshMetadata slug | Some m \<Rightarrow> m\<rparr>)) (\<lambda>_. fresh request) E" for m E
    by (rule tripleI) (auto simp: unanswered_def fresh_def freshMetadata_def split: option.splits)
  have mutate: "triple (fresh request) (attempt (reconcileCallback env request))
      (\<lambda>r s. case r of Inl e \<Rightarrow> fresh request s \<or> noted request True s | Inr x \<Rightarrow> noted request False s) E" for E
    using repeat_callback by (intro triple_attempt tripleI) fastforce+
  have loaded: "triple P (gets pv_Local) (\<lambda>m s. P s \<and> m = pv_Local s) E" for P E
    by (rule triple_gets) simp
  have unanswered: "fresh request s \<Longrightarrow> unanswered request s" "noted request b s \<Longrightarrow> unanswered request s" for s b
    by (simp_all add: fresh_def noted_def)
  have store: "triple (\<lambda>s. noted request False s \<and> m = pv_Local s) (attempt (writeMetadata env slug m))
      (\<lambda>r s. case r of Inl e \<Rightarrow> unanswered request s | Inr _ \<Rightarrow> kept request False s \<and> pv_Metadata s = Some m) E" for m E
    using write_kept unanswered(2) by (intro triple_attempt tripleI) (fastforce simp: unanswered_def)+
  have store': "triple (\<lambda>s. (fresh request s \<or> noted request True s) \<and> m = pv_Local s) (attempt (writeMetadata env slug m))
      (\<lambda>r s. case r of Inl e \<Rightarrow> unanswered request s | Inr _ \<Rightarrow> unanswered request s \<or> kept request True s) E" for m E
    using write_kept unanswered by (intro triple_attempt tripleI) (fastforce simp: unanswered_def)+
  have undo: "triple (unanswered request) (attempt (runtimeRollback env request)) (\<lambda>_. unanswered request) E" for E
    using runtimeRollback_metadata by (intro triple_attempt tripleI) (fastforce simp: unanswered_def)+
  have publish: "triple (unanswered request) (andThen (attempt (runtimeRollback env request)) (\<lambda>r. throw (h r))) Q ?E"
    for h Q by (intro triple_andThen [OF undo] triple_throw) simp
  have failed: "triple (\<lambda>s. fresh request s \<or> noted request True s) (andThen (gets pv_Local) (\<lambda>metadata.
      andThen (attempt (writeMetadata env slug metadata)) (\<lambda>written. case written of
          Inr _ \<Rightarrow> throw e
        | Inl writeErr \<Rightarrow> andThen (attempt (runtimeRollback env request)) (\<lambda>r. throw (publicationError
             (case r of Inl f \<Rightarrow> Joined [writeErr, f] | Inr _ \<Rightarrow> writeErr)))))) Q ?E"
    if "\<not> errorsIs e ErrStaleConfigRevision" for e Q
    by (intro triple_andThen [OF loaded] triple_andThen [OF store'] triple_case_sum triple_pre [OF publish] triple_throw)
      (use that in auto)
  have published: "triple (noted request False) (andThen (gets pv_Local) (\<lambda>metadata.
      andThen (attempt (writeMetadata env slug metadata)) (\<lambda>written. case written of
          Inr _ \<Rightarrow> ret metadata
        | Inl writeErr \<Rightarrow> andThen (attempt (runtimeRollback env request)) (\<lambda>r. throw (publicationError
             (case r of Inl f \<Rightarrow> Joined [writeErr, f] | Inr _ \<Rightarrow> writeErr))))))
      (\<lambda>m s. kept request False s \<and> pv_Metadata s = Some m) ?E"
    by (intro triple_andThen [OF loaded] triple_andThen [OF store] triple_case_sum triple_pre [OF publish] triple_ret) auto
  show ?thesis
    unfolding UpdateMetadataWithRollback_def
    by (intro triple_andThen [OF lock] triple_andThen [OF read] triple_andThen [OF load] triple_andThen [OF mutate]
        triple_case_sum triple_if triple_throw triple_pre [OF failed] triple_pre [OF published])
      (use unanswered in auto)
qed

lemma fsSteps_faultless:
  "(\<And>n. pe_Fault env n = None) \<Longrightarrow>
   fsSteps env labels s = (Inr (), s\<lparr>pv_Steps := pv_Steps s + length labels\<rparr>)"
  by (induction labels arbitrary: s)
    (simp_all add: fsSteps_def fsStep_def consult_def failing_def andThen_def)

text \<open>The run of a request whose answer is on file.\<close>

lemma repeat_run:
  assumes "\<And>n. pe_Fault env n = None" and "matchString slugPattern slug" and "pv_Metadata s = Some m"
    and "map_of (md_Idempotency m) (rr_IdempotencyKey request) = Some stored"
  shows "\<exists>t. UpdateMetadataWithRollback env slug (reconcileCallback env request) rollback s =
      (if rs_Failed stored
       then Inl (ReconcileFailure noCause (rs_RolledBack stored) (rs_RuntimeChanged stored) False) else Inr m, t) \<and>
    pv_Result t = stored \<and> pv_Calls t = pv_Calls s \<and> pv_Current t = pv_Current s \<and> pv_Metadata t = Some m"
  using assms
  by (simp add: UpdateMetadataWithRollback_def lockMetadataFile_def readMetadata_def ProjectPath_def fsSteps_faultless
      fsStep_def consult_def failing_def andThen_def attempt_def reconcileCallback_def replay_def writeMetadata_def
      noCause_def)


lemma lock_needs_slug:
  "\<not> matchString slugPattern slug \<Longrightarrow> \<exists>e. UpdateMetadataWithRollback env slug m r s = (Inl e, s)"
  by (simp add: UpdateMetadataWithRollback_def lockMetadataFile_def ProjectPath_def andThen_def)



section \<open>Only named services\<close>

text \<open>
  An empty list of names would mean every service of the project to Compose. \<open>scoped\<close> says that a call on
  services names at least one of them, and only services the Compose file can have; a reconciliation
  stops or restarts nothing by other commands.
\<close>

fun scoped :: "RuntimeCall \<Rightarrow> bool" where
  "scoped (CallRecreate ref services) = (services \<noteq> [] \<and> list_all (\<lambda>x. x \<in> set composeServices) services)"
| "scoped (CallUpSelected ref services) = (services \<noteq> [] \<and> list_all (\<lambda>x. x \<in> set composeServices) services)"
| "scoped (CallRemoveStopped ref services) = (services \<noteq> [] \<and> list_all (\<lambda>x. x \<in> set composeServices) services)"
| "scoped (CallUpServices ref services) = False"
| "scoped (CallRestart ref services) = False"
| "scoped (CallStop ref) = False"
| "scoped c = True"

definition scopedCalls :: "provisioner \<Rightarrow> provisioner \<Rightarrow> bool" where
  "scopedCalls s t \<longleftrightarrow> (\<exists>new. pv_Calls t = pv_Calls s @ new \<and> list_all (\<lambda>(c, r). scoped c) new)"

interpretation scopedCalls: monitor scopedCalls
proof
  show "scopedCalls s s" for s by (simp add: scopedCalls_def)
  show "scopedCalls s u" if "scopedCalls s t" "scopedCalls t u" for s t u
  proof -
    from that obtain a b where "pv_Calls t = pv_Calls s @ a" "pv_Calls u = pv_Calls t @ b"
      "list_all (\<lambda>(c, r). scoped c) a" "list_all (\<lambda>(c, r). scoped c) b"
      by (auto simp: scopedCalls_def)
    then show ?thesis by (auto simp: scopedCalls_def)
  qed
qed

lemma scoped_quiet: "obeys noCalls m \<Longrightarrow> obeys scopedCalls m"
  by (erule obeys_mono) (auto simp: noCalls_def scopedCalls_def)

lemma scoped_call: "scoped c \<Longrightarrow> obeys scopedCalls (call env c)"
  by (simp add: obeys_def call_def consult_def failing_def andThen_def scopedCalls_def split: option.splits)

lemma scoped_modify: "(\<And>s. pv_Calls (f s) = pv_Calls s) \<Longrightarrow> obeys scopedCalls (modify f)"
  by (simp add: obeys_def scopedCalls_def)

lemma scoped_on:
  assumes "\<And>services. services \<noteq> [] \<Longrightarrow> list_all (\<lambda>x. x \<in> set composeServices) services \<Longrightarrow> scoped (c services)"
  shows "obeys scopedCalls (onServices env c services)"
proof (cases "validateServices services = None")
  case True
  then have "list_all (\<lambda>x. x \<in> set composeServices) services" by (auto simp: validateServices_None list_all_iff)
  then show ?thesis
    unfolding onServices_def by (intro obeys_intros scoped_quiet [OF frame_failing(1)] scoped_call assms)
next
  case False
  then show ?thesis
    by (auto simp: obeys_def onServices_def failing_def andThen_def scopedCalls_def)
qed

lemma scoped_services:
  "obeys scopedCalls (Recreate env ref services)" "obeys scopedCalls (UpSelected env ref services)"
  "obeys scopedCalls (RemoveStopped env ref services)"
  unfolding Recreate_def UpSelected_def RemoveStopped_def by (rule scoped_on, simp)+

lemma scoped_apply: "obeys scopedCalls (applyRuntime env request m ctx rendered candidate)"
proof -
  have "obeys scopedCalls (prepareCandidate env rendered candidate)"
    unfolding prepareCandidate_def
    by (intro obeys_intros scoped_quiet [OF frame_writeCandidate(1)] scoped_quiet [OF frame_writeCandidate(4)]
        scoped_quiet [OF frame_generations(3)] scoped_call scoped_modify) simp_all
  moreover have "obeys scopedCalls (startServices env request m ctx services)" for services
    unfolding startServices_def bootstrapDatabase_def
    by (intro obeys_intros scoped_services scoped_call scoped_quiet [OF frame_ResetInitialDatabase(1)]) simp_all
  moreover have "obeys scopedCalls (updateProxy env request ctx)"
    unfolding updateProxy_def by (intro obeys_intros scoped_call scoped_modify) simp_all
  ultimately show ?thesis
    unfolding applyRuntime_def verifyServices_def Let_def
    by (intro obeys_intros scoped_quiet [OF frame_acceptance(1)] scoped_quiet [OF frame_waitHealthy(1)])
qed

lemma scoped_rollback: "obeys scopedCalls (rollbackReconcile env request ctx cause)"
proof -
  have "obeys scopedCalls (recoverServices env request ctx)"
    unfolding recoverServices_def Let_def
    by (intro obeys_intros scoped_services scoped_quiet [OF frame_waitHealthy(1)])
  moreover have "obeys scopedCalls (cleanupCandidate env slug ctx)" for slug
    unfolding cleanupCandidate_def
    by (intro obeys_intros scoped_services scoped_call scoped_quiet [OF frame_ResetInitialDatabase(1)]) simp_all
  moreover have "obeys scopedCalls (recoverProxy env request ctx)"
    unfolding recoverProxy_def by (intro obeys_intros scoped_call) simp_all
  ultimately show ?thesis
    unfolding rollbackReconcile_def by (intro obeys_intros scoped_quiet [OF frame_generations(5)])
qed


lemma scoped_update:
  "obeys scopedCalls (UpdateMetadataWithRollback env slug (reconcileCallback env request) (runtimeRollback env request))"
proof -
  have stored: "obeys scopedCalls (writeMetadata env slug m)" for slug m
    by (rule scoped_quiet [OF frame_writeMetadata(1)])
  have claim: "obeys scopedCalls (claimFence env request)"
    unfolding claimFence_def claimFenceAt_def Let_def WriteMetadataForPhase_def by (intro obeys_intros scoped_modify stored) simp_all
  have fail: "obeys scopedCalls (failReconcile request e)" for e
    unfolding failReconcile_def remember_def by (intro obeys_intros scoped_modify) simp_all
  have publish: "obeys scopedCalls (publishMetadata request m ctx services)" for m ctx services
    unfolding publishMetadata_def remember_def Let_def by (intro obeys_intros scoped_modify) simp_all
  have "obeys scopedCalls (applyRequest env request)"
    unfolding applyRequest_def
    by (intro obeys_intros scopedCalls.obeys_onFail claim fail publish scoped_apply scoped_rollback
        scoped_quiet [OF frame_generations(1)] scoped_quiet [OF frame_context(1)])
  then have callback: "obeys scopedCalls (reconcileCallback env request)"
    unfolding reconcileCallback_def replay_def by (intro obeys_intros scoped_modify) simp_all
  have undo: "obeys scopedCalls (runtimeRollback env request)"
    unfolding runtimeRollback_def by (intro obeys_intros scoped_modify scoped_rollback) simp_all
  show ?thesis
    unfolding UpdateMetadataWithRollback_def
    by (intro obeys_intros callback undo stored scoped_modify scoped_quiet [OF frame_lock(1)]
        scoped_quiet [OF frame_readMetadata(1)]) simp_all
qed

text \<open>
  (C35) A reconciliation keeps to the named services of its project: whatever it was asked and whatever
  fails, every command it gives on services names at least one (an empty list would mean all of them to
  Compose), names only services the Compose file can have, and is never a stop, a restart or an
  unselected start.
\<close>

theorem reconcile_calls_are_scoped:
  "\<exists>new. pv_Calls (snd (Reconcile env request s)) = pv_Calls s @ new \<and> list_all (\<lambda>(c, r). scoped c) new"
proof -
  obtain r t where run: "UpdateMetadataWithRollback env (rr_Slug request) (reconcileCallback env request)
      (runtimeRollback env request) (freshRun s) = (r, t)" by fastforce
  then have "scopedCalls (freshRun s) t" by (rule obeysD [OF scoped_update])
  moreover have "snd (Reconcile env request s) = t"
    using run by (auto simp: Reconcile_def Let_def split: sum.splits)
  ultimately show ?thesis by (simp add: scopedCalls_def freshRun_def)
qed

end
