(* ===== verification/ReconcileSamples.thy ===== *)
theory ReconcileSamples
  imports ReconcileReplay Samples
begin

text \<open>
  Concrete runs of \<^verbatim>\<open>Backend.Reconcile\<close>, evaluated step by step, and the witnesses that rest on them.
\<close>

section \<open>A run\<close>

text \<open>
  A project at revision 3 whose e-mail settings change: on a host where nothing fails, and on one where
  Docker cannot restart a service from the new generation.
\<close>

definition sampleHost :: "(RuntimeCall \<Rightarrow> goerr option) \<Rightarrow> ProvisionerEnvironment" where
  "sampleHost run = \<lparr>pe_Base = ''/srv'', pe_Nanos = (\<lambda>n. 7), pe_TempName = (\<lambda>n. ''one''), pe_Fault = (\<lambda>n. None), pe_Found = (\<lambda>n question. True),
     pe_Run = (\<lambda>n. run),
     pe_Containers = (\<lambda>n project services. Inr (map (\<lambda>name. \<lparr>ct_Service = name, ct_State = ''running'', ct_Health = []\<rparr>) services)),
     pe_ProbeTime = (\<lambda>n. 1), pe_Interrupt = (\<lambda>n. None), pe_NetTimeout = (\<lambda>e. False),
     pe_Render = (\<lambda>request. Inr \<lparr>rn_Compose = ''services:'', rn_Env = [], rn_FunctionsEnv = [], rn_MailerTemplates = [],
       rn_EnabledComposeServices = [''db'', ''auth'']\<rparr>)\<rparr>"

definition restartFails :: "RuntimeCall \<Rightarrow> goerr option" where
  "restartFails c = (case c of CallRecreate ref services \<Rightarrow>
       if ref_ComposeFile ref = ''/srv/shop/.manager-runtime/current/docker-compose.yml''
       then Some (ErrorsNew ''no space left on device'') else None
     | _ \<Rightarrow> None)"

definition sampleRequest :: ReconcileProjectRequest where
  "sampleRequest = \<lparr>rr_OperationID = ''op'', rr_IdempotencyKey = ''key'', rr_ProjectID = ''p'', rr_ProjectName = ''Shop'',
     rr_Slug = ''shop'', rr_ExpectedRevision = 3, rr_NextRevision = 4, rr_APIPort = 8001,
     rr_Configuration = (sampleConfiguration ''shop.example.com'' 8001)\<lparr>cfg_Auth := sampleAuth\<lparr>auth_JWTExpiry := 60\<rparr>\<rparr>,
     rr_Secrets = noProjectSecrets, rr_RuntimeSecrets = [], rr_Fence = 0\<rparr>"

definition sampleProvisioner :: provisioner where
  "sampleProvisioner = \<lparr>pv_Steps = 0, pv_Probes = 0,
     pv_Metadata = Some ((freshMetadata ''shop'')\<lparr>md_Revision := 3, md_EnabledServices := [''db'', ''auth''],
       md_Configuration := sampleConfiguration ''shop.example.com'' 8001\<rparr>),
     pv_Current = ''generation-1'', pv_Generations = [''generation-1''], pv_Calls = [],
     pv_Local = freshMetadata ''shop'', pv_Result = noResult,
     pv_Stage = \<lparr>sg_Generation = [], sg_Previous = [], sg_Committed = False, sg_Restored = False, sg_Published = False, sg_Migrated = False\<rparr>,
     pv_Published = False, pv_ProxyChanged = False, pv_Rollback = None, pv_RollbackSucceeded = False, pv_InspectorFails = False,
     pv_RotationResult = noRotation, pv_Compensation = None, pv_UndoRan = False\<rparr>"

lemma sample_slug: "matchString slugPattern ''shop''" by code_simp
lemma sample_affected: "affectedServices (sampleConfiguration ''shop.example.com'' 8001) (rr_Configuration sampleRequest) = [''auth'']"
  by code_simp

lemma sample_contains: "contains ''services:'' ''.manager-runtime/current/.env.functions'' = False" by code_simp

lemma sample_host [simp]:
  "pe_Found (sampleHost run) n question = True" "pe_Base (sampleHost run) = ''/srv''" "pe_Nanos (sampleHost run) n = 7" "pe_TempName (sampleHost run) n = ''one''"
  "pe_Render (sampleHost run) request = Inr \<lparr>rn_Compose = ''services:'', rn_Env = [], rn_FunctionsEnv = [], rn_MailerTemplates = [],
       rn_EnabledComposeServices = [''db'', ''auth'']\<rparr>"
  by (simp_all add: sampleHost_def)

lemma sample_ref [simp]: "ref_Dir (refAt slug dir at) = dir"
  by (simp add: refAt_def)

lemma sample_generation: "''generation-'' @ itoa 7 = ''generation-7''" by code_simp

lemma sample_request [simp]:
  "rr_Slug sampleRequest = ''shop''" "rr_IdempotencyKey sampleRequest = ''key''" "rr_Fence sampleRequest = 0"
  "rr_NextRevision sampleRequest = 4" "rr_Secrets sampleRequest = noProjectSecrets"
  by (simp_all add: sampleRequest_def)

lemma fsStep_sample: "fsStep (sampleHost run) label s = (Inr (), s\<lparr>pv_Steps := Suc (pv_Steps s)\<rparr>)"
  by (simp add: fsStep_def consult_def failing_def andThen_def sampleHost_def)

lemma fsSteps_sample: "fsSteps (sampleHost run) labels s = (Inr (), s\<lparr>pv_Steps := pv_Steps s + length labels\<rparr>)"
  by (rule fsSteps_faultless) (simp add: sampleHost_def)

lemma call_sample:
  "call (sampleHost run) c s =
     (case run c of Some e \<Rightarrow> Inl e | None \<Rightarrow> Inr (), s\<lparr>pv_Steps := Suc (pv_Steps s), pv_Calls := pv_Calls s @ [(c, run c)]\<rparr>)"
  by (simp add: call_def consult_def failing_def andThen_def sampleHost_def split: option.splits)

lemma routes: "routeForProxy slug (sampleConfiguration d p) secrets = None" "routeForProxy slug (rr_Configuration sampleRequest) secrets = None"
  by (simp_all add: routeForProxy_def sampleConfiguration_def sampleRequest_def Let_def)


lemma probe_sample:
  assumes "services = [''auth''] \<or> services = [''db'', ''auth'']"
  shows "waitHealthy (sampleHost run) budget slug services s =
    (Inr (), s\<lparr>pv_Steps := Suc (pv_Steps s), pv_Probes := Suc (pv_Probes s)\<rparr>)"
  using assms
  by (auto simp: waitHealthy_def waitLoop.simps [where remaining = "min budget reconcileHealthTimeout"]
      healthProbe_def inspectProject_def consult_def andThen_def attempt_def sampleHost_def reportOf_def
      serviceState_def deriveContainerHealth_def isCore_def worsen_def)

lemma Recreate_sample:
  "Recreate (sampleHost run) ref [''auth''] = call (sampleHost run) (CallRecreate ref [''auth''])"
  by (rule ext) (simp add: Recreate_def onServices_def andThen_def failing_def composeServices_def)

lemmas sample_steps = fsStep_sample fsSteps_sample call_sample routes probe_sample Recreate_sample sample_slug
  sample_affected sample_contains

definition sampleContext :: RollbackContext where
  "sampleContext = \<lparr>rb_PreviousConfig = sampleConfiguration ''shop.example.com'' 8001,
     rb_PreviousServices = [''db'', ''auth''], rb_Added = [], rb_Disabled = [],
     rb_PreviousRef = refAt ''shop'' ''/srv/shop'' ''/srv/shop/.manager-runtime/generations/generation-1'',
     rb_CurrentRef = refAt ''shop'' ''/srv/shop'' ''/srv/shop/.manager-runtime/current'',
     rb_PreviousRoute = None\<rparr>"

lemma sample_context_fields [simp]:
  "rb_PreviousConfig sampleContext = sampleConfiguration ''shop.example.com'' 8001"
  "rb_PreviousServices sampleContext = [''db'', ''auth'']" "rb_Added sampleContext = []" "rb_Disabled sampleContext = []"
  "rb_PreviousRoute sampleContext = None"
  by (simp_all add: sampleContext_def)

lemma sample_context:
  assumes "pv_Current s = ''generation-1''" and "previousServices m = [''db'', ''auth'']"
    and "md_Configuration m = sampleConfiguration ''shop.example.com'' 8001"
  shows "rollbackContext (sampleHost run) sampleRequest m [''db'', ''auth''] s =
    (Inr sampleContext, s\<lparr>pv_Steps := Suc (pv_Steps s)\<rparr>)"
  using assms
  by (simp add: rollbackContext_def Let_def orNoRef_def CurrentRuntimeGeneration_def CurrentRuntimeFiles_def ProjectPath_def
      andThen_def attempt_def sample_steps sampleContext_def difference_def)


lemma sample_stage:
  "StageRuntimeFilesWithRef (sampleHost run) ''shop'' files s =
     (Inr (refAt ''shop'' ''/srv/shop'' ''/srv/shop/.manager-runtime/.candidate-one''),
      s\<lparr>pv_Steps := pv_Steps s + 28, pv_Stage := \<lparr>sg_Generation = ''generation-7'', sg_Previous = [],
        sg_Committed = False, sg_Restored = False, sg_Published = False, sg_Migrated = False\<rparr>\<rparr>)"
  by (simp add: StageRuntimeFilesWithRef_def Let_def candidateFiles_def hydrateProject_def writeAtomic_def ifFound_def ProjectPath_def andThen_def consult_def sample_steps sample_generation [simplified]
      eval_nat_numeral)


lemmas runtime_defs = andThen_def attempt_def failing_def updateStage_def

lemma sample_commit:
  assumes "pv_Stage s = \<lparr>sg_Generation = g, sg_Previous = [], sg_Committed = False, sg_Restored = False, sg_Published = False, sg_Migrated = False\<rparr>"
    and "g \<noteq> []"
  shows "commit (sampleHost run) s = (Inr (), s\<lparr>pv_Steps := pv_Steps s + 8, pv_Current := g,
    pv_Generations := pv_Generations s @ [g],
    pv_Stage := \<lparr>sg_Generation = g, sg_Previous = pv_Current s, sg_Committed = True, sg_Restored = False, sg_Published = True, sg_Migrated = True\<rparr>\<rparr>)"
  using assms
  by (simp add: commit_def migrateLegacy_def switchRuntimePointer_def syncPointer_def runtime_defs sample_steps eval_nat_numeral)

lemma sample_restore:
  assumes "pv_Stage s = \<lparr>sg_Generation = g, sg_Previous = p, sg_Committed = True, sg_Restored = False, sg_Published = True, sg_Migrated = True\<rparr>"
    and "pv_Current s = g" and "g \<noteq> []" and "p \<noteq> []"
  shows "restore (sampleHost run) s = (Inr (), s\<lparr>pv_Steps := pv_Steps s + 10, pv_Current := p,
    pv_Generations := filter (\<lambda>x. x \<noteq> g) (pv_Generations s),
    pv_Stage := \<lparr>sg_Generation = g, sg_Previous = p, sg_Committed = True, sg_Restored = True, sg_Published = True, sg_Migrated = False\<rparr>\<rparr>)"
  using assms
  by (simp add: restore_def undoMigration_def reselectPrevious_def removeStaged_def switchRuntimePointer_def syncPointer_def runtime_defs
      sample_steps eval_nat_numeral)


definition sampleAnswer :: ReconcileResult where
  "sampleAnswer = \<lparr>rs_OperationID = ''op'', rs_ProjectID = ''p'', rs_Revision = 4, rs_EnabledServices = [''db'', ''auth''],
     rs_RecreatedServices = [''auth''], rs_RolledBack = False, rs_RuntimeChanged = False, rs_Failed = False\<rparr>"


lemmas reconcile_defs = applyRuntime_def prepareCandidate_def startServices_def verifyServices_def
  pointFunctionsEnvAtCandidate_def writeCandidateCompose_def acceptanceFailure_def updateProxy_def
  RemoveStopped_def UpSelected_def onServices_def intersect_def


definition sampleLoaded :: provisioner where
  "sampleLoaded = (freshRun sampleProvisioner)\<lparr>pv_Steps := 5, pv_Local := the (pv_Metadata sampleProvisioner)\<rparr>"

abbreviation sampleRendered :: Rendered where
  "sampleRendered \<equiv> \<lparr>rn_Compose = ''services:'', rn_Env = [], rn_FunctionsEnv = [], rn_MailerTemplates = [],
       rn_EnabledComposeServices = [''db'', ''auth'']\<rparr>"

text \<open>The state in which the new generation is staged.\<close>

definition sampleStaged :: provisioner where
  "sampleStaged = sampleLoaded\<lparr>pv_Steps := 34, pv_Stage := \<lparr>sg_Generation = ''generation-7'', sg_Previous = [],
     sg_Committed = False, sg_Restored = False, sg_Published = False, sg_Migrated = False\<rparr>\<rparr>"

lemma sample_update:
  assumes "applyRequest (sampleHost run) sampleRequest sampleLoaded = (r, u)"
    and "\<And>e. r = Inl e \<Longrightarrow> \<not> errorsIs e ErrStaleConfigRevision \<and> e \<noteq> goPanic"
  shows "UpdateMetadataWithRollback (sampleHost run) ''shop'' (reconcileCallback (sampleHost run) sampleRequest) undo
      (freshRun sampleProvisioner) =
    (case r of Inl e \<Rightarrow> Inl e | Inr _ \<Rightarrow> Inr (pv_Local u),
     u\<lparr>pv_Steps := pv_Steps u + 8, pv_Metadata := Some (pv_Local u)\<rparr>)"
proof -
  have "reconcileCallback (sampleHost run) sampleRequest sampleLoaded = (r, u)"
    using assms(1) by (simp add: reconcileCallback_def andThen_def sampleLoaded_def sampleProvisioner_def freshRun_def freshMetadata_def)
  then have "reconcileCallback (sampleHost run) sampleRequest
      (freshRun sampleProvisioner\<lparr>pv_Steps := Suc (Suc (Suc (Suc (Suc 0)))), pv_Local := the (pv_Metadata sampleProvisioner)\<rparr>) = (r, u)"
    by (simp add: sampleLoaded_def eval_nat_numeral)
  then show ?thesis
    using assms(2)
    by (cases r) (simp_all add: UpdateMetadataWithRollback_def lockMetadataFile_def readMetadata_def writeMetadata_def
      ProjectPath_def runtime_defs sample_steps sampleProvisioner_def freshRun_def eval_nat_numeral)
qed

lemma sample_request_run:
  "applyRequest (sampleHost run) sampleRequest sampleLoaded =
   onFail (failReconcile sampleRequest) (andThen (onFail (\<lambda>e. andThen (rollbackReconcile (sampleHost run) sampleRequest sampleContext e) throw)
        (applyRuntime (sampleHost run) sampleRequest (pv_Local sampleLoaded) sampleContext sampleRendered
           (refAt ''shop'' ''/srv/shop'' ''/srv/shop/.manager-runtime/.candidate-one'')))
     (\<lambda>_. publishMetadata sampleRequest (pv_Local sampleLoaded) sampleContext [''db'', ''auth''])) sampleStaged"
proof -
  have "rollbackContext (sampleHost run) sampleRequest (pv_Local sampleLoaded) [''db'', ''auth'']
      (sampleLoaded\<lparr>pv_Steps := pv_Steps sampleLoaded + 28, pv_Stage := \<lparr>sg_Generation = ''generation-7'', sg_Previous = [],
        sg_Committed = False, sg_Restored = False, sg_Published = False, sg_Migrated = False\<rparr>\<rparr>) = (Inr sampleContext, sampleStaged)"
    by (subst sample_context)
      (simp_all add: sampleLoaded_def sampleProvisioner_def freshRun_def previousServices_def sampleStaged_def)
  then show ?thesis
    by (simp add: applyRequest_def claimFence_def claimFenceAt_def onFail_def mapErr_def andThen_def sample_stage)
qed


lemma sample_staged [simp]:
  "pv_Stage sampleStaged = \<lparr>sg_Generation = ''generation-7'', sg_Previous = [], sg_Committed = False,
     sg_Restored = False, sg_Published = False, sg_Migrated = False\<rparr>"
  "pv_Current sampleStaged = ''generation-1''" "\<not> pv_InspectorFails sampleStaged" "\<not> pv_ProxyChanged sampleStaged"
  "pv_Local sampleStaged = pv_Local sampleLoaded" "md_Revision (pv_Local sampleLoaded) = 3"
  by (simp_all add: sampleStaged_def sampleLoaded_def sampleProvisioner_def freshRun_def)

lemma sample_apply:
  "\<exists>t. applyRuntime (sampleHost (\<lambda>_. None)) sampleRequest (pv_Local sampleLoaded) sampleContext sampleRendered
      candidate sampleStaged = (Inr (), t) \<and> pv_Current t = ''generation-7''"
  by (simp add: reconcile_defs runtime_defs sample_steps sample_commit sampleContext_def Let_def)

lemma sample_success:
  "\<exists>t. Reconcile (sampleHost (\<lambda>_. None)) sampleRequest sampleProvisioner = ((sampleAnswer, None), t)
    \<and> pv_Current t = ''generation-7'' \<and> \<not> unanswered sampleRequest t"
proof -
  obtain t where run: "applyRuntime (sampleHost (\<lambda>_. None)) sampleRequest (pv_Local sampleLoaded) sampleContext sampleRendered
      (refAt ''shop'' ''/srv/shop'' ''/srv/shop/.manager-runtime/.candidate-one'') sampleStaged = (Inr (), t)"
    and current: "pv_Current t = ''generation-7''"
    using sample_apply by blast
  have kept: "pv_Local t = pv_Local sampleLoaded" using obeysD [OF frame_apply run] by (simp add: sameMeta_def)
  obtain u where published: "publishMetadata sampleRequest (pv_Local sampleLoaded) sampleContext [''db'', ''auth''] t = (Inr (), u)"
    by (simp add: publishMetadata_def remember_def Let_def andThen_def)
  then have "applyRequest (sampleHost (\<lambda>_. None)) sampleRequest sampleLoaded = (Inr (), u)"
    by (simp add: sample_request_run onFail_def andThen_def run)
  moreover have "pv_Current u = ''generation-7''" "md_Revision (pv_Local u) = 4"
    "md_Idempotency (pv_Local u) = [(''key'', sampleAnswer)]" "pv_Result u = sampleAnswer"
    using published kept current
    by (auto simp: publishMetadata_def remember_def Let_def andThen_def applyRevision_def sampleAnswer_def
        sampleContext_def sample_steps intersect_def sampleRequest_def
        sample_affected [unfolded sampleRequest_def, simplified] sampleLoaded_def sampleProvisioner_def
        freshMetadata_def freshRun_def)
  moreover have "sampleAnswer\<lparr>rs_Revision := 4\<rparr> = sampleAnswer" by (simp add: sampleAnswer_def)
  ultimately show ?thesis
    using sample_update [of "\<lambda>_. None" "Inr ()" u]
    by (simp add: Reconcile_def unanswered_def)
qed


text \<open>The restart from the new generation fails, so the run goes back to \<^verbatim>\<open>generation-1\<close>.\<close>

lemma sample_failure:
  "\<exists>response e t. Reconcile (sampleHost restartFails) sampleRequest sampleProvisioner = ((response, Some e), t) \<and>
     rs_Failed response \<and> rs_RolledBack response \<and> rs_RuntimeChanged response \<and> failedCalls t = 1"
proof -
  let ?host = "sampleHost restartFails" and ?candidate = "refAt ''shop'' ''/srv/shop'' ''/srv/shop/.manager-runtime/.candidate-one''"
  have fails: "restartFails (CallRecreate (rb_CurrentRef sampleContext) services) = Some (ErrorsNew ''no space left on device'')"
    "restartFails (CallRecreate (rb_PreviousRef sampleContext) services) = None" for services
    by (simp_all add: restartFails_def sampleContext_def refAt_def)
  have others: "restartFails (CallValidate ref) = None" for ref by (simp add: restartFails_def)
  have empty: "failedCalls sampleStaged = 0"
    by (simp add: failedCalls_def sampleStaged_def sampleLoaded_def sampleProvisioner_def freshRun_def)
  have "rollbackServices sampleRequest sampleContext = [''auth'']"
    by (simp add: rollbackServices_def sample_affected intersect_def unique_def)
  then obtain e u where rolled: "onFail (\<lambda>e. andThen (rollbackReconcile ?host sampleRequest sampleContext e) throw)
      (applyRuntime ?host sampleRequest (pv_Local sampleLoaded) sampleContext sampleRendered ?candidate) sampleStaged =
      (Inl (ReconcileFailure e True True False), u)" "pv_Published u" "failedCalls u = 1"
      and cause: "e = ErrorsNew ''no space left on device''"
    using empty
    by (simp add: onFail_def reconcile_defs rollbackReconcile_def cleanupCandidate_def recoverServices_def recoverProxy_def
        labelled_def runtime_defs sample_steps sample_commit sample_restore Let_def others fails failedCalls_def)
  then have "applyRequest ?host sampleRequest sampleLoaded = failReconcile sampleRequest (ReconcileFailure e True True False) u"
    unfolding sample_request_run onFail_def [of "failReconcile sampleRequest"] by (simp add: andThen_def)
  moreover obtain v where "failReconcile sampleRequest (ReconcileFailure e True True False) u =
      (Inl (ReconcileFailure e True True False), v)" "pv_Result v = failedResult sampleRequest (md_Revision (pv_Local u)) True True"
      "pv_Calls v = pv_Calls u"
    using rolled(2) by (simp add: failReconcile_def remember_def andThen_def)
  ultimately show ?thesis
    using sample_update [of restartFails "Inl (ReconcileFailure e True True False)" v] cause rolled(3)
    by (simp add: Reconcile_def failedResult_def noResult_def failedCalls_def goPanic_def)
qed

section \<open>Witnesses\<close>

lemma sample_unanswered: "unanswered sampleRequest sampleProvisioner"
  by (simp add: unanswered_def sampleProvisioner_def freshMetadata_def)

text \<open>The failed restart: one call failed, and the first generation is selected again.\<close>

lemma reconcile_report_is_true_witness:
  "case Reconcile (sampleHost restartFails) sampleRequest sampleProvisioner of ((response, e), t) \<Rightarrow>
     e \<noteq> None \<and> rs_RolledBack response \<and> pv_Current t = ''generation-1'' \<and> failedCalls t = 1"
proof -
  obtain response e t where run: "Reconcile (sampleHost restartFails) sampleRequest sampleProvisioner = ((response, Some e), t)"
    and answer: "rs_RolledBack response" "rs_RuntimeChanged response" "failedCalls t = 1"
    using sample_failure by blast
  then have "pv_Current t = pv_Current sampleProvisioner"
    using reconcile_report_is_true [OF sample_unanswered run] by blast
  moreover have "pv_Current sampleProvisioner = ''generation-1''" by (simp add: sampleProvisioner_def)
  ultimately show ?thesis by (simp add: run answer)
qed


text \<open>A wait for two running services asks once.\<close>

lemma health_wait_bounded_witness:
  "pv_Probes (snd (waitHealthy (sampleHost (\<lambda>_. None)) 5 ''shop'' [''db'', ''auth''] sampleProvisioner)) = 1 \<and>
   (\<exists>containers. pe_Containers (sampleHost (\<lambda>_. None)) 0 ''supabase-manager-shop'' [''db'', ''auth''] = Inr containers \<and>
      (\<forall>name\<in>set [''db'', ''auth'']. runsHealthy containers name))"
  using health_wait_bounded [of "sampleHost (\<lambda>_. None)" 5 "''shop''" "[''db'', ''auth'']" sampleProvisioner "Inr ()",
      OF probe_sample]
  by (simp add: probe_sample sampleProvisioner_def)

end
