(* ===== verification/RuntimeRotation.thy ===== *)
theory RuntimeRotation
  imports RuntimeReconcile
begin

text \<open>
  \<^verbatim>\<open>runtime/rotate.go\<close>: the database password of a project is changed under the metadata lock, in phases
  that a journal in the metadata records: the new generation is published, the roles get the new password,
  the services are recreated and checked, and every failure after the change of the roles goes back.
  \<^verbatim>\<open>RollbackDatabasePassword\<close> and \<^verbatim>\<open>ConfirmDatabasePasswordRotation\<close> close the journal for the Manager.
  The runner of the program implements \<^verbatim>\<open>PasswordRotator\<close>, so the branch without one is left out. Two
  errors wrapped by one \<^verbatim>\<open>fmt.Errorf\<close> are a joined error, which differs in the separator of its text only.
\<close>

section \<open>Answers\<close>

text \<open>
  An answer is stored as JSON under its key, next to those of the reconciliations. The fields the two
  responses share have the same names, the others are not there when it is read back.
\<close>

definition storedRotation :: "RotationResult \<Rightarrow> ReconcileResult" where
  "storedRotation r = noResult\<lparr>rs_OperationID := rotr_OperationID r, rs_ProjectID := rotr_ProjectID r,
     rs_Revision := rotr_Revision r, rs_RolledBack := rotr_RolledBack r, rs_RuntimeChanged := rotr_RuntimeChanged r,
     rs_Failed := rotr_Failed r\<rparr>"

definition rotationOf :: "ReconcileResult \<Rightarrow> RotationResult" where
  "rotationOf r = \<lparr>rotr_OperationID = rs_OperationID r, rotr_ProjectID = rs_ProjectID r, rotr_Revision = rs_Revision r,
     rotr_RolledBack = rs_RolledBack r, rotr_RuntimeChanged = rs_RuntimeChanged r, rotr_RuntimeOutcomeUnknown = False,
     rotr_Failed = rs_Failed r\<rparr>"

definition rotationAnswer :: "RotateDatabasePasswordRequest \<Rightarrow> bool \<Rightarrow> bool \<Rightarrow> bool \<Rightarrow> RotationResult" where
  "rotationAnswer request rolledBack changed unknown = \<lparr>rotr_OperationID = rot_OperationID request,
     rotr_ProjectID = rot_ProjectID request, rotr_Revision = rot_ExpectedRevision request, rotr_RolledBack = rolledBack,
     rotr_RuntimeChanged = changed, rotr_RuntimeOutcomeUnknown = unknown, rotr_Failed = True\<rparr>"

definition noteRotation :: "string \<Rightarrow> RotationResult \<Rightarrow> (provisioner, unit) act" where
  "noteRotation key r = modify (\<lambda>s. s\<lparr>pv_Local :=
     (pv_Local s)\<lparr>md_Idempotency := mapPut key (storedRotation r) (md_Idempotency (pv_Local s))\<rparr>\<rparr>)"

text \<open>The deferred function of the callback: an unknown outcome is answered but not remembered.\<close>

definition answerFailure :: "RotateDatabasePasswordRequest \<Rightarrow> goerr \<Rightarrow> (provisioner, unit) act" where
  "answerFailure request e = (case e of
      ReconcileFailure cause rolledBack changed unknown \<Rightarrow>
        (let r = rotationAnswer request rolledBack changed unknown in
         andThen (modify (\<lambda>s. s\<lparr>pv_RotationResult := r\<rparr>)) (\<lambda>_.
         andThen (if unknown then ret () else noteRotation (rot_IdempotencyKey request) r) (\<lambda>_. throw e)))
    | _ \<Rightarrow> throw e)"

section \<open>Steps\<close>

definition rotationFailure :: "goerr \<Rightarrow> bool \<Rightarrow> bool \<Rightarrow> goerr" where
  "rotationFailure cause rolledBack changed = ReconcileFailure cause rolledBack changed False"

definition withErr :: "goerr \<Rightarrow> string \<Rightarrow> goerr + unit \<Rightarrow> goerr" where
  "withErr e label r = (case r of Inl f \<Rightarrow> Joined [e, Errorf label f []] | Inr _ \<Rightarrow> e)"

definition RotateRolePasswords ::
  "ProvisionerEnvironment \<Rightarrow> ProjectRef \<Rightarrow> string \<Rightarrow> string \<Rightarrow> (provisioner, unit) act" where
  "RotateRolePasswords env ref old new =
     andThen (failIf (old = [] \<or> new = []) (ErrorsNew ''database password values are required'')) (\<lambda>_.
     call env (CallRotateDatabasePassword ref old new))"

text \<open>The variable \<^verbatim>\<open>restoreRuntime\<close>: it does nothing until the candidate is published.\<close>

definition restoreRuntime :: "ProvisionerEnvironment \<Rightarrow> (provisioner, unit) act" where
  "restoreRuntime env = andThen (gets pv_Published) (\<lambda>published. if published then restore env else ret ())"

definition writeJournal ::
  "ProvisionerEnvironment \<Rightarrow> string \<Rightarrow> (RotationJournal \<Rightarrow> RotationJournal) \<Rightarrow> (provisioner, unit) act" where
  "writeJournal env slug f =
     andThen (modify (\<lambda>s. s\<lparr>pv_Local := (pv_Local s)\<lparr>md_Rotation := map_option f (md_Rotation (pv_Local s))\<rparr>\<rparr>)) (\<lambda>_.
     andThen (gets pv_Local) (\<lambda>metadata. WriteMetadataForPhase env slug metadata))"

text \<open>\<^verbatim>\<open>filepath.Base(filepath.Dir(path))\<close> of an absolute path.\<close>

definition baseOfDir :: "string \<Rightarrow> string" where
  "baseOfDir path = (let parts = splitOn CHR ''/'' path in if length parts < 2 then ''.'' else last (butlast parts))"

definition rotationGuards :: "RotateDatabasePasswordRequest \<Rightarrow> Metadata \<Rightarrow> (provisioner, unit) act" where
  "rotationGuards request metadata =
     andThen (failIf (md_ProjectID metadata \<noteq> rot_ProjectID request) (ErrorsNew ''project metadata mismatch'')) (\<lambda>_.
     andThen (failIf (rot_Fence request > 0 \<and> md_Fence metadata > rot_Fence request)
       (Sentinel ErrStaleConfigRevision)) (\<lambda>_.
     failIf (md_Revision metadata \<noteq> rot_ExpectedRevision request \<or>
         rot_NextRevision request \<le> rot_ExpectedRevision request \<or> rot_OldPassword request = [] \<or>
         rot_NewPassword request = [] \<or> rot_OldPassword request = rot_NewPassword request)
       (Sentinel ErrInvalidReconcileRevision)))"

text \<open>The reference to go back to: the journal's generation when an earlier attempt recorded it.\<close>

definition oldReference ::
  "ProvisionerEnvironment \<Rightarrow> RotateDatabasePasswordRequest \<Rightarrow> ProjectRef \<Rightarrow> (provisioner, ProjectRef) act" where
  "oldReference env request current = andThen (gets (md_Rotation \<circ> pv_Local)) (\<lambda>journal. case journal of
      None \<Rightarrow> ret current
    | Some j \<Rightarrow>
        if rj_OperationID j = rot_OperationID request \<and> rj_OldGeneration j \<noteq> [] then
          andThen (attempt (RuntimeGeneration env (rot_Slug request) (rj_OldGeneration j))) (\<lambda>r.
          ret (case r of Inl e \<Rightarrow> current | Inr ref \<Rightarrow> ref))
        else ret current)"

definition prepareJournal ::
  "ProvisionerEnvironment \<Rightarrow> RotateDatabasePasswordRequest \<Rightarrow> string \<Rightarrow> (provisioner, unit) act" where
  "prepareJournal env request oldGeneration =
     andThen (modify (\<lambda>s. s\<lparr>pv_Local := (pv_Local s)\<lparr>md_Rotation := Some (case md_Rotation (pv_Local s) of
        Some j \<Rightarrow> if rj_OperationID j = rot_OperationID request
          then j\<lparr>rj_ExpectedRevision := rot_ExpectedRevision request, rj_NextRevision := rot_NextRevision request\<rparr>
          else \<lparr>rj_OperationID = rot_OperationID request, rj_Phase = ''prepared'', rj_OldGeneration = oldGeneration,
            rj_NewGeneration = [], rj_ExpectedRevision = rot_ExpectedRevision request,
            rj_NextRevision = rot_NextRevision request\<rparr>
      | None \<Rightarrow> \<lparr>rj_OperationID = rot_OperationID request, rj_Phase = ''prepared'', rj_OldGeneration = oldGeneration,
            rj_NewGeneration = [], rj_ExpectedRevision = rot_ExpectedRevision request,
            rj_NextRevision = rot_NextRevision request\<rparr>)\<rparr>\<rparr>)) (\<lambda>_.
     andThen (gets pv_Local) (\<lambda>metadata. WriteMetadataForPhase env (rot_Slug request) metadata))"

definition rotationInput :: "RotateDatabasePasswordRequest \<Rightarrow> ProjectSecrets \<Rightarrow> RenderInput" where
  "rotationInput request secrets = \<lparr>in_ProjectID = rot_ProjectID request, in_ProjectName = rot_ProjectName request,
     in_Slug = rot_Slug request, in_APIPort = net_APIPort (cfg_Network (rot_Configuration request)),
     in_Configuration = rot_Configuration request, in_Secrets = secrets,
     in_RuntimeSecrets = rot_RuntimeSecrets request\<rparr>"

definition rotationFiles :: "Rendered \<Rightarrow> RuntimeFiles" where
  "rotationFiles rendered = \<lparr>rf_Compose = rn_Compose rendered, rf_Env = rn_Env rendered,
     rf_FunctionsEnv = rn_FunctionsEnv rendered, rf_MailerTemplates = []\<rparr>"

text \<open>After a failed step of the candidate its staging is undone, and \<open>failure\<close> wraps the errors.\<close>

definition orRestore ::
  "ProvisionerEnvironment \<Rightarrow> string \<Rightarrow> string \<Rightarrow> (goerr \<Rightarrow> goerr) \<Rightarrow> (provisioner, unit) act \<Rightarrow> (provisioner, unit) act" where
  "orRestore env label restoreLabel failure m = andThen (attempt m) (\<lambda>r. case r of
      Inr _ \<Rightarrow> ret ()
    | Inl e \<Rightarrow> andThen (attempt (restore env)) (\<lambda>q. throw (failure (withErr (Errorf label e []) restoreLabel q))))"

text \<open>
  Stages, validates and publishes a candidate. When the staging itself fails, \<^verbatim>\<open>restore\<close> is nil and its
  call panics.
\<close>

definition publishCandidate ::
  "ProvisionerEnvironment \<Rightarrow> string \<Rightarrow> Rendered \<Rightarrow> string \<Rightarrow> (goerr \<Rightarrow> goerr) \<Rightarrow> (provisioner, unit) act" where
  "publishCandidate env slug rendered name failure =
     andThen (attempt (StageRuntimeFilesWithRef env slug (rotationFiles rendered))) (\<lambda>staged. case staged of
       Inl e \<Rightarrow> throw goPanic
     | Inr candidate \<Rightarrow>
         andThen (orRestore env (''validate '' @ name @ '' candidate: '') (''restore '' @ name @ '' candidate: '') failure
           (andThen (pointFunctionsEnvAtCandidate env (rn_Compose rendered)) (\<lambda>_. call env (CallValidate candidate)))) (\<lambda>_.
         andThen (orRestore env (''write '' @ name @ '' candidate Compose: '') (''restore '' @ name @ '' candidate: '') failure
           (writeCandidateCompose env)) (\<lambda>_.
         orRestore env (''commit '' @ name @ '' candidate: '') (''restore '' @ name @ '' candidate: '') failure (commit env))))"

definition renderRotation ::
  "ProvisionerEnvironment \<Rightarrow> RenderInput \<Rightarrow> (goerr \<Rightarrow> goerr) \<Rightarrow> (provisioner, Rendered) act" where
  "renderRotation env request failure = mapErr failure (\<lambda>s. (pe_Render env request, s))"

text \<open>The journal after the publication; when it cannot be written the candidate is taken back.\<close>

definition journalPublished ::
  "ProvisionerEnvironment \<Rightarrow> RotateDatabasePasswordRequest \<Rightarrow> ProjectRef \<Rightarrow> (provisioner, ProjectRef) act" where
  "journalPublished env request oldRef = (let slug = rot_Slug request in
     andThen (orNoRef slug (CurrentRuntimeFiles env slug)) (\<lambda>ref.
     andThen (orNoRef slug (CurrentRuntimeGeneration env slug)) (\<lambda>publishedRef.
     andThen (attempt (writeJournal env slug (\<lambda>j. j\<lparr>rj_NewGeneration := baseOfDir (ref_ComposeFile publishedRef),
       rj_OldGeneration := baseOfDir (ref_ComposeFile oldRef), rj_Phase := ''runtime-published''\<rparr>))) (\<lambda>r.
     case r of
       Inr _ \<Rightarrow> ret ref
     | Inl e \<Rightarrow> andThen (attempt (restore env)) (\<lambda>q. throw (case q of
           Inl f \<Rightarrow> rotationFailure (Joined [Errorf ''publish rotation runtime metadata: '' e [],
             Errorf ''restore rotation runtime: '' f []]) False False
         | Inr _ \<Rightarrow> rotationFailure e True False))))))"

definition stageRotation ::
  "ProvisionerEnvironment \<Rightarrow> RotateDatabasePasswordRequest \<Rightarrow> ProjectRef \<Rightarrow> ProjectRef \<Rightarrow> (provisioner, ProjectRef) act" where
  "stageRotation env request ref oldRef =
     (if gen_SupabaseVersion (cfg_General (rot_Configuration request)) = [] then ret ref
      else andThen (renderRotation env (rotationInput request (rot_Secrets request))
             (\<lambda>e. rotationFailure (Errorf ''render rotation runtime: '' e []) False False)) (\<lambda>rendered.
           andThen (publishCandidate env (rot_Slug request) rendered ''rotation'' (\<lambda>e. rotationFailure e False False)) (\<lambda>_.
           andThen (modify (\<lambda>s. s\<lparr>pv_Published := True\<rparr>)) (\<lambda>_. journalPublished env request oldRef))))"

definition updatePassword ::
  "ProvisionerEnvironment \<Rightarrow> RotateDatabasePasswordRequest \<Rightarrow> RotationContext \<Rightarrow> (provisioner, unit) act" where
  "updatePassword env request ctx =
     andThen (attempt (RotateRolePasswords env (rx_Ref ctx) (rot_OldPassword request) (rot_NewPassword request))) (\<lambda>r.
     case r of
       Inr _ \<Rightarrow> ret ()
     | Inl e \<Rightarrow> andThen (attempt (restoreRuntime env)) (\<lambda>q.
         throw (rotationFailure (withErr (Errorf ''update database password: '' e []) ''restore rotation runtime: '' q)
           False True)))"

definition markRotated ::
  "ProvisionerEnvironment \<Rightarrow> RotateDatabasePasswordRequest \<Rightarrow> RotationContext \<Rightarrow> (provisioner, unit) act" where
  "markRotated env request ctx =
     andThen (attempt (writeJournal env (rot_Slug request) (\<lambda>j. j\<lparr>rj_Phase := ''db-rotated''\<rparr>))) (\<lambda>r. case r of
       Inr _ \<Rightarrow> ret ()
     | Inl e \<Rightarrow>
         andThen (attempt (RotateRolePasswords env (rx_OldRef ctx) (rot_NewPassword request) (rot_OldPassword request))) (\<lambda>back.
         andThen (attempt (restoreRuntime env)) (\<lambda>restored.
         throw (if isl back \<or> isl restored
           then rotationFailure (withErr (withErr (Errorf ''publish db-rotated metadata: '' e [])
                  ''rollback database password: '' back) ''restore rotation runtime: '' restored) False True
           else rotationFailure e True True))))"

text \<open>The closure \<^verbatim>\<open>rollback\<close>, which is the \<^verbatim>\<open>compensation\<close> too. It reads the configuration when it runs.\<close>

definition rollbackRotation ::
  "ProvisionerEnvironment \<Rightarrow> RotateDatabasePasswordRequest \<Rightarrow> RotationContext \<Rightarrow> (provisioner, unit) act" where
  "rollbackRotation env request ctx =
     andThen (restoreRuntime env) (\<lambda>_.
     andThen (RotateRolePasswords env (rx_OldRef ctx) (rot_NewPassword request) (rot_OldPassword request)) (\<lambda>_.
     andThen (Recreate env (rx_OldRef ctx) (rx_Services ctx)) (\<lambda>_.
     andThen (gets pv_Local) (\<lambda>metadata.
     waitHealthy env reconcileHealthTimeout (rot_Slug request) (enabledServices (md_Configuration metadata))))))"

definition restartDependents ::
  "ProvisionerEnvironment \<Rightarrow> RotateDatabasePasswordRequest \<Rightarrow> RotationContext \<Rightarrow> (provisioner, unit) act" where
  "restartDependents env request ctx =
     andThen (attempt (Recreate env (rx_Ref ctx) (rx_Services ctx))) (\<lambda>r. case r of
       Inr _ \<Rightarrow> ret ()
     | Inl e \<Rightarrow>
         andThen (attempt (rollbackRotation env request ctx)) (\<lambda>back.
         andThen (attempt (restoreRuntime env)) (\<lambda>restored.
         throw (rotationFailure (withErr (withErr (Errorf ''dependent service restart: '' e [])
             ''rotation rollback: '' back) ''restore rotation runtime: '' restored)
           (\<not> isl back \<and> \<not> isl restored) True))))"

text \<open>\<^verbatim>\<open>errors.As\<close> for \<^verbatim>\<open>dockerControlPlaneUnavailableError\<close>.\<close>

fun isUnavailable :: "goerr \<Rightarrow> bool" where
  "isUnavailable (Errorf a e b) =
     (a = ''Docker control plane unavailable while verifying runtime: '' \<or> isUnavailable e)"
| "isUnavailable (Joined es) = list_ex isUnavailable es"
| "isUnavailable e = False"

definition checkDependents ::
  "ProvisionerEnvironment \<Rightarrow> RotateDatabasePasswordRequest \<Rightarrow> RotationContext \<Rightarrow> (provisioner, unit) act" where
  "checkDependents env request ctx = andThen (gets pv_Local) (\<lambda>metadata.
     andThen (attempt (waitHealthy env reconcileHealthTimeout (rot_Slug request)
         (enabledServices (md_Configuration metadata)))) (\<lambda>r. case r of
       Inr _ \<Rightarrow> ret ()
     | Inl e \<Rightarrow>
         if isUnavailable e then throw (ReconcileFailure
           (Errorf ''dependent service health check unavailable: '' e []) False True True)
         else andThen (attempt (rollbackRotation env request ctx)) (\<lambda>back.
           andThen (attempt (restoreRuntime env)) (\<lambda>restored.
           throw (rotationFailure (withErr (withErr (Errorf ''dependent service health check failed: '' e [])
               ''rotation rollback: '' back) ''runtime restore: '' restored)
             (\<not> isl back \<and> \<not> isl restored) True)))))"

definition markVerified ::
  "ProvisionerEnvironment \<Rightarrow> RotateDatabasePasswordRequest \<Rightarrow> RotationContext \<Rightarrow> (provisioner, unit) act" where
  "markVerified env request ctx =
     andThen (attempt (writeJournal env (rot_Slug request) (\<lambda>j. j\<lparr>rj_Phase := ''services-verified''\<rparr>))) (\<lambda>r. case r of
       Inr _ \<Rightarrow> ret ()
     | Inl e \<Rightarrow> andThen (attempt (rollbackRotation env request ctx)) (\<lambda>back. throw (case back of
           Inl f \<Rightarrow> rotationFailure (withErr (Errorf ''publish services-verified metadata: '' e [])
             ''rotation rollback: '' back) False True
         | Inr _ \<Rightarrow> rotationFailure e True True)))"

definition finishRotation :: "RotateDatabasePasswordRequest \<Rightarrow> (provisioner, unit) act" where
  "finishRotation request = (let r = noRotation\<lparr>rotr_OperationID := rot_OperationID request,
       rotr_ProjectID := rot_ProjectID request, rotr_Revision := rot_NextRevision request\<rparr> in
     andThen (modify (\<lambda>s. s\<lparr>pv_RotationResult := r, pv_Local := (pv_Local s)\<lparr>md_Revision := rot_NextRevision request,
       md_Fence := (if rot_Fence request > 0 then rot_Fence request else md_Fence (pv_Local s)),
       md_Configuration := rot_Configuration request,
       md_EnabledServices := enabledServices (rot_Configuration request)\<rparr>\<rparr>)) (\<lambda>_.
     noteRotation (rot_IdempotencyKey request) r))"

section \<open>The rotation\<close>

definition changePassword ::
  "ProvisionerEnvironment \<Rightarrow> RotateDatabasePasswordRequest \<Rightarrow> RotationContext \<Rightarrow> (provisioner, unit) act" where
  "changePassword env request ctx =
     andThen (updatePassword env request ctx) (\<lambda>_.
     andThen (markRotated env request ctx) (\<lambda>_.
     andThen (modify (\<lambda>s. s\<lparr>pv_Compensation := Some ctx\<rparr>)) (\<lambda>_.
     andThen (restartDependents env request ctx) (\<lambda>_.
     andThen (checkDependents env request ctx) (\<lambda>_.
     andThen (markVerified env request ctx) (\<lambda>_.
     andThen (writeJournal env (rot_Slug request) (\<lambda>j. j\<lparr>rj_Phase := ''provisioner-committed''\<rparr>)) (\<lambda>_.
     finishRotation request)))))))"

definition rotatePassword ::
  "ProvisionerEnvironment \<Rightarrow> RotateDatabasePasswordRequest \<Rightarrow> (provisioner, unit) act" where
  "rotatePassword env request = (let slug = rot_Slug request in
     andThen (claimFenceAt env slug (rot_Fence request)) (\<lambda>_.
     andThen (CurrentRuntimeFiles env slug) (\<lambda>current.
     andThen (CurrentRuntimeGeneration env slug) (\<lambda>generation.
     andThen (oldReference env request generation) (\<lambda>oldRef.
     andThen (prepareJournal env request (baseOfDir (ref_ComposeFile oldRef))) (\<lambda>_.
     andThen (stageRotation env request current oldRef) (\<lambda>ref.
     andThen (gets pv_Local) (\<lambda>metadata.
     changePassword env request \<lparr>rx_Ref = ref, rx_OldRef = oldRef,
       rx_Services = without (enabledServices (md_Configuration metadata)) ''db''\<rparr>))))))))"

definition rotationCallback ::
  "ProvisionerEnvironment \<Rightarrow> RotateDatabasePasswordRequest \<Rightarrow> (provisioner, unit) act" where
  "rotationCallback env request = onFail (answerFailure request)
     (andThen (failIf (rot_OperationKind request \<noteq> ''ROTATE_DATABASE_PASSWORD'')
        (Sentinel ErrInvalidReconcileRevision)) (\<lambda>_.
      andThen (gets pv_Local) (\<lambda>metadata.
      case map_of (md_Idempotency metadata) (rot_IdempotencyKey request) of
        Some stored \<Rightarrow> modify (\<lambda>s. s\<lparr>pv_RotationResult := rotationOf stored\<rparr>)
      | None \<Rightarrow> andThen (rotationGuards request metadata) (\<lambda>_. rotatePassword env request))))"

text \<open>
  The rollback argument of the metadata transaction. \<open>pv_UndoRan\<close> and \<open>pv_RollbackSucceeded\<close> are what its
  \<^verbatim>\<open>MetadataPublicationError\<close> says: that it ran, and that it returned nil.
\<close>

definition runCompensation ::
  "ProvisionerEnvironment \<Rightarrow> RotateDatabasePasswordRequest \<Rightarrow> (provisioner, unit) act" where
  "runCompensation env request =
     andThen (modify (\<lambda>s. s\<lparr>pv_UndoRan := True\<rparr>)) (\<lambda>_. andThen (gets pv_Compensation) (\<lambda>c. case c of
       None \<Rightarrow> throw (ErrorsNew ''rotation compensation unavailable'')
     | Some ctx \<Rightarrow> andThen (rollbackRotation env request ctx) (\<lambda>_.
         modify (\<lambda>s. s\<lparr>pv_RollbackSucceeded := True\<rparr>))))"

definition freshRotation :: "provisioner \<Rightarrow> provisioner" where
  "freshRotation s = s\<lparr>pv_RotationResult := noRotation, pv_Published := False, pv_Compensation := None,
     pv_UndoRan := False, pv_RollbackSucceeded := False\<rparr>"

text \<open>\<open>None\<close>: the call panicked.\<close>

definition RotateDatabasePassword ::
  "ProvisionerEnvironment \<Rightarrow> RotateDatabasePasswordRequest \<Rightarrow> provisioner \<Rightarrow>
     (RotationResult \<times> goerr option) option \<times> provisioner" where
  "RotateDatabasePassword env request s =
     (case UpdateMetadataWithRollback env (rot_Slug request) (rotationCallback env request)
             (runCompensation env request) (freshRotation s) of
        (Inr metadata, t) \<Rightarrow>
          (let result = pv_RotationResult t in
           (Some (result, if rotr_Failed result
              then Some (ReconcileFailure noCause (rotr_RolledBack result) (rotr_RuntimeChanged result) False) else None), t))
      | (Inl e, t) \<Rightarrow>
          if e = goPanic then (None, t)
          else if errorsIs e ErrStaleConfigRevision \<or> errorsIs e ErrInvalidReconcileRevision then (Some (noRotation, Some e), t)
          else (case e of
              ReconcileFailure cause rolledBack changed unknown \<Rightarrow>
                (Some (rotationAnswer request rolledBack changed False, Some e), t)
            | _ \<Rightarrow>
                if pv_UndoRan t
                then (Some (rotationAnswer request (pv_RollbackSucceeded t) True False,
                   Some (rotationFailure (Errorf ''rotation metadata publication: '' e []) (pv_RollbackSucceeded t) True)), t)
                else (Some (rotationAnswer request False False False,
                   Some (rotationFailure (Errorf ''rotation metadata publication: '' e []) False False)), t)))"

section \<open>Closing the journal\<close>

definition ConfirmDatabasePasswordRotation ::
  "ProvisionerEnvironment \<Rightarrow> ConfirmDatabasePasswordRotationRequest \<Rightarrow> (provisioner, Metadata) act" where
  "ConfirmDatabasePasswordRotation env request =
     andThen (failIf (crot_OperationID request = [] \<or> crot_ProjectID request = [] \<or> crot_Slug request = [] \<or>
         crot_NextRevision request \<le> crot_ExpectedRevision request) (Sentinel ErrInvalidReconcileRevision)) (\<lambda>_.
     UpdateMetadata env (crot_Slug request) (andThen (gets pv_Local) (\<lambda>metadata.
       andThen (failIf (md_ProjectID metadata \<noteq> crot_ProjectID request \<or> md_Revision metadata \<noteq> crot_NextRevision request)
         (Sentinel ErrStaleConfigRevision)) (\<lambda>_.
       andThen (failIf (crot_Fence request > 0 \<and> md_Fence metadata > crot_Fence request)
         (Sentinel ErrStaleConfigRevision)) (\<lambda>_.
       case md_Rotation metadata of
         None \<Rightarrow> ret ()
       | Some j \<Rightarrow>
           andThen (failIf (rj_OperationID j \<noteq> crot_OperationID request \<or> rj_Phase j \<noteq> ''provisioner-committed'' \<or>
             rj_NextRevision j \<noteq> crot_NextRevision request) (Sentinel ErrStaleConfigRevision)) (\<lambda>_.
           modify (\<lambda>s. s\<lparr>pv_Local := metadata\<lparr>md_Rotation := None\<rparr>\<rparr>)))))))"

text \<open>A candidate with the old password, which stays selected: its \<^verbatim>\<open>restore\<close> is not kept.\<close>

definition renderedReference ::
  "ProvisionerEnvironment \<Rightarrow> RotateDatabasePasswordRequest \<Rightarrow> ProjectRef \<Rightarrow> (provisioner, ProjectRef) act" where
  "renderedReference env request current =
     (if gen_SupabaseVersion (cfg_General (rot_Configuration request)) = [] then ret current
      else andThen (renderRotation env
             (rotationInput request ((rot_Secrets request)\<lparr>ps_DatabasePassword := rot_NewPassword request\<rparr>))
             (\<lambda>e. Errorf ''render rollback runtime: '' e [])) (\<lambda>rendered.
           andThen (publishCandidate env (rot_Slug request) rendered ''rollback'' id) (\<lambda>_.
           CurrentRuntimeFiles env (rot_Slug request))))"

text \<open>The reference the compensated runtime runs from: the journal's generation, or that candidate.\<close>

definition rollbackReference ::
  "ProvisionerEnvironment \<Rightarrow> RotateDatabasePasswordRequest \<Rightarrow> ProjectRef \<Rightarrow> Metadata \<Rightarrow> (provisioner, ProjectRef) act" where
  "rollbackReference env request current metadata = (let slug = rot_Slug request;
       generation = (case md_Rotation metadata of None \<Rightarrow> [] | Some j \<Rightarrow> rj_OldGeneration j) in
     if generation \<noteq> [] then
       andThen (mapErr (\<lambda>e. Errorf ''load rollback previous generation: '' e [])
         (RuntimeGeneration env slug generation)) (\<lambda>oldRef.
       andThen (mapErr (\<lambda>e. Errorf ''publish rollback runtime generation: '' e [])
         (SelectRuntimeGeneration env slug generation)) (\<lambda>_. ret oldRef))
     else renderedReference env request current)"

definition rollbackDatabasePasswordLocked ::
  "ProvisionerEnvironment \<Rightarrow> RotateDatabasePasswordRequest \<Rightarrow> (provisioner, unit) act" where
  "rollbackDatabasePasswordLocked env request = (let slug = rot_Slug request; key = rot_IdempotencyKey request in
     andThen (failIf (rot_OperationKind request \<noteq> ''ROLLBACK_DATABASE_PASSWORD'' \<or> rot_OldPassword request = [] \<or>
       rot_NewPassword request = []) (Sentinel ErrInvalidReconcileRevision)) (\<lambda>_.
     andThen (gets pv_Local) (\<lambda>metadata.
     if (case map_of (md_Idempotency metadata) key of None \<Rightarrow> False | Some stored \<Rightarrow> rs_RolledBack stored) then ret ()
     else
       andThen (failIf (md_ProjectID metadata \<noteq> rot_ProjectID request \<or> md_Revision metadata \<noteq> rot_NextRevision request)
         (Sentinel ErrStaleConfigRevision)) (\<lambda>_.
       andThen (failIf (rot_Fence request > 0 \<and> md_Fence metadata > rot_Fence request)
         (Sentinel ErrStaleConfigRevision)) (\<lambda>_.
       andThen (CurrentRuntimeFiles env slug) (\<lambda>current.
       andThen (rollbackReference env request current metadata) (\<lambda>ref.
       andThen (mapErr (\<lambda>e. Errorf ''rollback database password: '' e [])
         (RotateRolePasswords env ref (rot_OldPassword request) (rot_NewPassword request))) (\<lambda>_.
       andThen (mapErr (\<lambda>e. Errorf ''recreate dependent services during rollback: '' e [])
         (Recreate env ref (without (enabledServices (md_Configuration metadata)) ''db''))) (\<lambda>_.
       andThen (mapErr (\<lambda>e. Errorf ''check rollback runtime health: '' e [])
         (waitHealthy env reconcileHealthTimeout slug (enabledServices (md_Configuration metadata)))) (\<lambda>_.
       andThen (modify (\<lambda>s. s\<lparr>pv_Local := (pv_Local s)\<lparr>md_Revision := rot_ExpectedRevision request,
         md_Configuration := (md_Configuration (pv_Local s))\<lparr>cfg_Revision := rot_ExpectedRevision request\<rparr>,
         md_Rotation := None\<rparr>\<rparr>)) (\<lambda>_.
       noteRotation key (noRotation\<lparr>rotr_OperationID := rot_OperationID request, rotr_ProjectID := rot_ProjectID request,
         rotr_Revision := rot_ExpectedRevision request, rotr_RolledBack := True\<rparr>))))))))))))"

definition RollbackDatabasePassword ::
  "ProvisionerEnvironment \<Rightarrow> RotateDatabasePasswordRequest \<Rightarrow> (provisioner, Metadata) act" where
  "RollbackDatabasePassword env request =
     andThen (failIf (rot_Slug request = []) (Sentinel ErrInvalidReconcileRevision)) (\<lambda>_.
     WithProjectMetadataLock env (rot_Slug request) (rollbackDatabasePasswordLocked env request))"

end
