(* ===== verification/RuntimeRotationRuns.thy ===== *)
theory RuntimeRotationRuns
  imports ReconcileRuns RuntimeRotation
begin

text \<open>
  What an answer of \<^verbatim>\<open>RotateDatabasePassword\<close> is worth: a success has set the new password exactly once, and
  a rollback that is reported has put the old password and the old generation back.
\<close>

section \<open>Passwords\<close>

fun passwordSet :: "RuntimeCall \<times> goerr option \<Rightarrow> string list" where
  "passwordSet (CallRotateDatabasePassword ref old new, None) = [new]"
| "passwordSet _ = []"

text \<open>The passwords the roles of the database have been given, in order.\<close>

definition passwords :: "provisioner \<Rightarrow> string list" where
  "passwords s = concat (map passwordSet (pv_Calls s))"

definition samePasswords :: "provisioner \<Rightarrow> provisioner \<Rightarrow> bool" where
  "samePasswords s t \<longleftrightarrow> passwords t = passwords s"

text \<open>The variables of the rotation that only its own steps assign.\<close>

definition sameTurn :: "provisioner \<Rightarrow> provisioner \<Rightarrow> bool" where
  "sameTurn s t \<longleftrightarrow> pv_UndoRan t = pv_UndoRan s \<and> pv_RollbackSucceeded t = pv_RollbackSucceeded s \<and>
     pv_Compensation t = pv_Compensation s \<and> pv_RotationResult t = pv_RotationResult s"

interpretation samePasswords: monitor samePasswords by unfold_locales (auto simp: samePasswords_def)
interpretation sameTurn: monitor sameTurn by unfold_locales (auto simp: sameTurn_def)

lemma passwords_quiet: "obeys noCalls m \<Longrightarrow> obeys samePasswords m"
  by (erule obeys_mono) (simp add: noCalls_def samePasswords_def passwords_def)

lemma passwords_call: "passwordSet (c, None) = [] \<Longrightarrow> obeys samePasswords (call env c)"
  by (auto simp: obeys_def call_def consult_def failing_def andThen_def samePasswords_def passwords_def
      split: option.splits)

lemma passwords_recreate: "obeys samePasswords (Recreate env ref services)"
  unfolding Recreate_def onServices_def
  by (intro obeys_intros passwords_quiet [OF frame_failing(1)] passwords_call) simp

lemma turn_consult [obeys_intros]: "obeys sameTurn (consult f)" "obeys sameTurn (failing r)"
  by (simp_all add: obeys_def consult_def failing_def sameTurn_def split: option.splits)

lemma turn_steps [obeys_intros]:
  "obeys sameTurn (fsStep env label)" "obeys sameTurn (fsSteps env labels)" "obeys sameTurn (ProjectPath env slug)"
  "obeys sameTurn (writeAtomic env name)" "obeys sameTurn (hydrateProject env)" "obeys sameTurn (writeCandidateCompose env)"
  "obeys sameTurn (pointFunctionsEnvAtCandidate env original)"
  unfolding fsSteps_def fsStep_def ProjectPath_def writeAtomic_def hydrateProject_def ifFound_def writeCandidateCompose_def
    pointFunctionsEnvAtCandidate_def
  by (intro obeys_intros)+

lemma turn_modify: "(\<And>s. sameTurn s (f s)) \<Longrightarrow> obeys sameTurn (modify f)"
  by (simp add: obeys_def)

lemma turn_call [obeys_intros]: "obeys sameTurn (call env c)"
  unfolding call_def by (intro obeys_intros turn_modify) (simp add: sameTurn_def)

lemma turn_recreate [obeys_intros]: "obeys sameTurn (Recreate env ref services)"
  unfolding Recreate_def onServices_def by (intro obeys_intros)

lemma turn_wait [obeys_intros]: "obeys sameTurn (waitHealthy env budget slug services)"
proof (rule obeysI)
  fix s r t
  assume "waitHealthy env budget slug services s = (r, t)"
  then have "sameRuntime s t" by (rule waitHealthy_same)
  then show "sameTurn s t" unfolding sameRuntime_def sameTurn_def by (cases s; cases t) simp
qed

lemma turn_metadata [obeys_intros]:
  "obeys sameTurn (lockMetadataFile env slug)" "obeys sameTurn (readMetadata env slug)"
  "obeys sameTurn (writeMetadata env slug m)" "obeys sameTurn (WriteMetadataForPhase env slug m)"
  unfolding lockMetadataFile_def readMetadata_def writeMetadata_def WriteMetadataForPhase_def
  by (intro obeys_intros turn_modify; simp add: sameTurn_def)+

lemma turn_refs [obeys_intros]:
  "obeys sameTurn (CurrentRuntimeFiles env slug)" "obeys sameTurn (CurrentRuntimeGeneration env slug)"
  "obeys sameTurn (RuntimeGeneration env slug name)"
  "obeys sameTurn m \<Longrightarrow> obeys sameTurn (orNoRef slug m)"
  unfolding CurrentRuntimeFiles_def CurrentRuntimeGeneration_def RuntimeGeneration_def orNoRef_def
  by (intro obeys_intros; assumption?)+

lemma turn_generations [obeys_intros]:
  "obeys sameTurn (StageRuntimeFilesWithRef env slug files)" "obeys sameTurn (commit env)" "obeys sameTurn (restore env)"
proof -
  have pointer: "obeys sameTurn (restoreRuntimePointer env previous)" "obeys sameTurn (syncPointer env label previous)"
    "obeys sameTurn (switchRuntimePointer env target)" for previous label target
    unfolding switchRuntimePointer_def syncPointer_def restoreRuntimePointer_def
    by (intro obeys_intros turn_modify; simp add: sameTurn_def)+
  show "obeys sameTurn (StageRuntimeFilesWithRef env slug files)" "obeys sameTurn (commit env)" "obeys sameTurn (restore env)"
    unfolding StageRuntimeFilesWithRef_def Let_def commit_def restore_def migrateLegacy_def undoMigration_def reselectPrevious_def removeStaged_def updateStage_def
    by (intro obeys_intros pointer turn_modify; simp add: sameTurn_def)+
qed

lemma rotate_run:
  assumes "RotateRolePasswords env ref old new s = (r, t)"
  shows "sameFiles s t \<and> sameTurn s t \<and> passwords t = passwords s @ (case r of Inl e \<Rightarrow> [] | Inr x \<Rightarrow> [new])"
  using assms
  by (auto simp: RotateRolePasswords_def call_def consult_def failing_def andThen_def sameFiles_def sameTurn_def
      passwords_def split: option.splits if_splits)

section \<open>The previous generation stays in reach\<close>

definition anchored :: "string \<Rightarrow> provisioner \<Rightarrow> bool" where
  "anchored old s \<longleftrightarrow> (if pv_Published s then committedFrom old s \<or> sg_Restored (pv_Stage s) \<and> pv_Current s = old
     else pv_Current s = old)"

lemma anchored_frame: "sameFiles s t \<Longrightarrow> anchored old t = anchored old s"
  by (auto simp: anchored_def committedFrom_def sameFiles_def)

text \<open>What a step of \<open>restore\<close> may do to the flags of the stage.\<close>

definition keepsStage :: "provisioner \<Rightarrow> provisioner \<Rightarrow> bool" where
  "keepsStage s t \<longleftrightarrow> pv_Published t = pv_Published s \<and> sg_Committed (pv_Stage t) = sg_Committed (pv_Stage s) \<and>
     sg_Restored (pv_Stage t) = sg_Restored (pv_Stage s) \<and> sg_Previous (pv_Stage t) = sg_Previous (pv_Stage s)"

interpretation keepsStage: monitor keepsStage by unfold_locales (auto simp: keepsStage_def)

lemma keepsStage_files: "obeys sameFiles m \<Longrightarrow> obeys keepsStage m"
  by (erule obeys_mono) (simp add: sameFiles_def keepsStage_def)

lemma reselect_stage: "obeys keepsStage (reselectPrevious env stage)"
proof -
  have step: "obeys keepsStage (fsStep env label)" for label by (rule keepsStage_files [OF frame_fsStep(2)])
  have set: "obeys keepsStage (modify (\<lambda>s. s\<lparr>pv_Current := x\<rparr>))" for x by (simp add: obeys_def keepsStage_def)
  have pointer: "obeys keepsStage (restoreRuntimePointer env previous)" for previous
    unfolding restoreRuntimePointer_def by (intro obeys_intros step set)
  have sync: "obeys keepsStage (syncPointer env label previous)" for label previous
    unfolding syncPointer_def by (intro obeys_intros step pointer)
  have "obeys keepsStage (switchRuntimePointer env target)" for target
    unfolding switchRuntimePointer_def by (intro obeys_intros step set sync)
  then show ?thesis unfolding reselectPrevious_def by (intro obeys_intros step)
qed

lemma undoMigration_stage: "obeys keepsStage (undoMigration env)"
  unfolding undoMigration_def updateStage_def
  by (intro obeys_intros keepsStage_files [OF frame_fsStep(2)]) (simp add: obeys_def keepsStage_def)

lemma removeStaged_anchor:
  assumes "removeStaged env stage s = (r, t)" and "committedFrom old s" and "pv_Current s = old"
  shows "anchored old t \<and> pv_Current t = old"
  using assms
  by (auto simp: removeStaged_def andThen_def updateStage_def fsStep_def consult_def failing_def anchored_def
      committedFrom_def split: option.splits if_splits)

lemma restore_anchor:
  assumes "restore env s = (r, t)" and "anchored old s" and "pv_Published s"
  shows "anchored old t \<and> (\<forall>x. r = Inr x \<longrightarrow> pv_Current t = old)"
proof (cases "sg_Restored (pv_Stage s)")
  case True
  then show ?thesis using assms by (auto simp: restore_def andThen_def anchored_def committedFrom_def)
next
  case False
  then have committed: "committedFrom old s" using assms(2,3) by (simp add: anchored_def)
  have keeps: "committedFrom old t \<and> anchored old t" if "keepsStage s t" for t
    using that committed by (auto simp: keepsStage_def committedFrom_def anchored_def)
  obtain z v where undone: "undoMigration env s = (z, v)" by fastforce
  obtain q u where reselect: "reselectPrevious env (pv_Stage s) v = (q, u)" by fastforce
  have steps: "keepsStage s v" "keepsStage v u"
    using obeysD [OF undoMigration_stage undone] obeysD [OF reselect_stage reselect] .
  then have flags: "committedFrom old v" "anchored old v" "committedFrom old u" "anchored old u"
    using keeps [OF steps(1)] keeps [OF keepsStage.R_trans [OF steps]] by auto
  show ?thesis
  proof (cases "isl z \<or> isl q")
    case True
    then show ?thesis
      using assms(1) False undone reselect flags by (cases z; cases q) (auto simp: restore_def andThen_def)
  next
    case neither: False
    then obtain x where z: "z = Inr ()" and q: "q = Inr x" by (cases z; cases q) auto
    have "pv_Current u = old"
      using reselect_Inr [OF reselect [unfolded q]] committed by (simp add: committedFrom_def)
    moreover have "removeStaged env (pv_Stage s) u = (r, t)"
      using assms(1) False undone reselect z q by (simp add: restore_def andThen_def)
    ultimately show ?thesis using removeStaged_anchor flags(3) by blast
  qed
qed


section \<open>Assertions\<close>

definition calm :: "provisioner \<Rightarrow> bool" where
  "calm s \<longleftrightarrow> \<not> pv_RollbackSucceeded s"

text \<open>Nothing published, no password set: the start of a rotation.\<close>

definition untouched :: "string \<Rightarrow> string list \<Rightarrow> provisioner \<Rightarrow> bool" where
  "untouched old b s \<longleftrightarrow> calm s \<and> pv_Compensation s = None \<and> \<not> pv_Published s \<and> pv_Current s = old \<and> passwords s = b"

definition within :: "string \<Rightarrow> string list \<Rightarrow> provisioner \<Rightarrow> bool" where
  "within old ps s \<longleftrightarrow> calm s \<and> anchored old s \<and> passwords s = ps"

text \<open>\<open>returned old p b\<close>: the old generation is selected, and the last password set since \<open>b\<close>, if any, is \<open>p\<close>.\<close>

definition returned :: "string \<Rightarrow> string \<Rightarrow> string list \<Rightarrow> provisioner \<Rightarrow> bool" where
  "returned old p b s \<longleftrightarrow> pv_Current s = old \<and> (passwords s = b \<or> (\<exists>new. passwords s = b @ new @ [p]))"

definition failedWith :: "string \<Rightarrow> string \<Rightarrow> string list \<Rightarrow> goerr \<Rightarrow> provisioner \<Rightarrow> bool" where
  "failedWith old p b e s \<longleftrightarrow> calm s \<and>
     (pv_Compensation s \<noteq> None \<longrightarrow> anchored old s \<and> (\<exists>new. passwords s = b @ new)) \<and>
     (rolledBack e \<longrightarrow> returned old p b s)"

lemma rolledBack_failure [simp]: "rolledBack (rotationFailure c rolled changed) = rolled"
  by (simp add: rotationFailure_def)

lemma rolledBack_Errorf [simp]: "rolledBack (Errorf a e b) = False" "rolledBack (ErrorsNew m) = False"
  "rolledBack (Sentinel x) = False"
  by (simp_all add: failureOf_def)

lemma untouched_failed: "untouched old b s \<Longrightarrow> failedWith old p b e s"
  by (simp add: untouched_def failedWith_def returned_def)

lemma untouched_frame:
  assumes "obeys noCalls m" and "obeys sameFiles m" and "obeys sameTurn m"
  shows "triple (untouched old b) m (\<lambda>_. untouched old b) (\<lambda>e. failedWith old p b e)"
proof -
  have "untouched old b t" if "m s = (r, t)" "untouched old b s" for s r t
    using obeysD [OF passwords_quiet [OF assms(1)] that(1)] obeysD [OF assms(2) that(1)] obeysD [OF assms(3) that(1)] that(2)
    by (simp add: untouched_def calm_def sameFiles_def sameTurn_def samePasswords_def)
  then show ?thesis by (auto intro!: tripleI untouched_failed)
qed

lemma within_frame:
  assumes "obeys samePasswords m" and "obeys sameFiles m" and "obeys sameTurn m"
  shows "triple (\<lambda>s. within old ps s \<and> pv_Compensation s = c) m (\<lambda>_ s. within old ps s \<and> pv_Compensation s = c)
    (\<lambda>_ s. within old ps s \<and> pv_Compensation s = c)"
proof -
  have "within old ps t \<and> pv_Compensation t = pv_Compensation s" if "m s = (r, t)" "within old ps s" for s r t
    using obeysD [OF assms(1) that(1)] obeysD [OF assms(2) that(1)] obeysD [OF assms(3) that(1)] that(2)
      anchored_frame [of s t old]
    by (simp add: within_def calm_def sameTurn_def samePasswords_def)
  then show ?thesis by (auto intro!: tripleI)
qed

lemma calm_frame:
  assumes "obeys sameTurn m"
  shows "triple (\<lambda>s. calm s \<and> pv_Compensation s = c) m (\<lambda>_ s. calm s \<and> pv_Compensation s = c)
    (\<lambda>_ s. calm s \<and> pv_Compensation s = c)"
  using obeysD [OF assms] by (intro tripleI) (fastforce simp: calm_def sameTurn_def)+

lemma calm_failed: "calm s \<Longrightarrow> pv_Compensation s = None \<Longrightarrow> \<not> rolledBack e \<Longrightarrow> failedWith old p b e s"
  by (simp add: failedWith_def)

lemma within_failed: "within old (b @ new) s \<Longrightarrow> \<not> rolledBack e \<Longrightarrow> failedWith old p b e s"
  by (auto simp: within_def failedWith_def)

section \<open>Going back\<close>

lemma restoreRuntime_triple:
  "triple (\<lambda>s. within old ps s \<and> pv_Compensation s = c) (restoreRuntime env)
     (\<lambda>_ s. within old ps s \<and> pv_Compensation s = c \<and> pv_Current s = old) (\<lambda>_ s. within old ps s \<and> pv_Compensation s = c)"
proof -
  have kept: "within old ps t \<and> pv_Compensation t = c \<and> (\<forall>x. r = Inr x \<longrightarrow> pv_Current t = old)"
    if "restore env s = (r, t)" "within old ps s \<and> pv_Compensation s = c" "pv_Published s" for s r t
    using restore_anchor [of env s r t old] obeysD [OF passwords_quiet [OF frame_generations(5)] that(1)]
      obeysD [OF turn_generations(3) that(1)] that
    by (auto simp: within_def calm_def sameTurn_def samePasswords_def)
  show ?thesis
    unfolding restoreRuntime_def
    by (rule tripleI) (auto simp: andThen_def split: if_splits dest: kept, auto simp: within_def anchored_def)
qed

lemma rotate_triple:
  "triple (\<lambda>s. within old ps s \<and> pv_Compensation s = c \<and> (home \<longrightarrow> pv_Current s = old)) (RotateRolePasswords env ref before new)
     (\<lambda>_ s. within old (ps @ [new]) s \<and> pv_Compensation s = c \<and> (home \<longrightarrow> pv_Current s = old))
     (\<lambda>_ s. within old ps s \<and> pv_Compensation s = c \<and> (home \<longrightarrow> pv_Current s = old))"
proof -
  have "within old (ps @ (case r of Inl e \<Rightarrow> [] | Inr x \<Rightarrow> [new])) t \<and> pv_Compensation t = c \<and> (home \<longrightarrow> pv_Current t = old)"
    if "RotateRolePasswords env ref before new s = (r, t)"
      "within old ps s \<and> pv_Compensation s = c \<and> (home \<longrightarrow> pv_Current s = old)" for s r t
    using rotate_run [OF that(1)] that(2) anchored_frame [of s t old]
    by (auto simp: within_def calm_def sameTurn_def sameFiles_def)
  then show ?thesis by (intro tripleI) fastforce+
qed

lemma home_frame:
  assumes "obeys samePasswords m" and "obeys sameFiles m" and "obeys sameTurn m"
  shows "triple (\<lambda>s. within old ps s \<and> pv_Compensation s = c \<and> pv_Current s = old) m
    (\<lambda>_ s. within old ps s \<and> pv_Compensation s = c \<and> pv_Current s = old)
    (\<lambda>_ s. within old ps s \<and> pv_Compensation s = c)"
proof -
  have "within old ps t \<and> pv_Compensation t = pv_Compensation s \<and> pv_Current t = pv_Current s"
    if "m s = (r, t)" "within old ps s" for s r t
    using obeysD [OF assms(1) that(1)] obeysD [OF assms(2) that(1)] obeysD [OF assms(3) that(1)] that(2)
      anchored_frame [of s t old]
    by (simp add: within_def calm_def sameTurn_def samePasswords_def sameFiles_def)
  then show ?thesis by (auto intro!: tripleI)
qed

lemma rollbackRotation_triple:
  "triple (\<lambda>s. within old ps s \<and> pv_Compensation s = c) (rollbackRotation env request ctx)
     (\<lambda>_ s. within old (ps @ [rot_OldPassword request]) s \<and> pv_Compensation s = c \<and> pv_Current s = old)
     (\<lambda>_ s. (within old ps s \<or> within old (ps @ [rot_OldPassword request]) s) \<and> pv_Compensation s = c)"
proof -
  let ?p = "rot_OldPassword request"
  let ?E = "\<lambda>_ s. (within old ps s \<or> within old (ps @ [?p]) s) \<and> pv_Compensation s = c"
  let ?H = "\<lambda>s. within old (ps @ [?p]) s \<and> pv_Compensation s = c \<and> pv_Current s = old"
  have restored: "triple (\<lambda>s. within old ps s \<and> pv_Compensation s = c) (restoreRuntime env)
      (\<lambda>_ s. within old ps s \<and> pv_Compensation s = c \<and> pv_Current s = old) ?E"
    by (rule triple_conseq [OF restoreRuntime_triple]) auto
  have rotated: "triple (\<lambda>s. within old ps s \<and> pv_Compensation s = c \<and> pv_Current s = old)
      (RotateRolePasswords env ref before ?p) (\<lambda>_. ?H) ?E" for ref before
    by (rule triple_conseq [OF rotate_triple [where home = True]]) auto
  have step: "triple ?H m (\<lambda>_. ?H) ?E" if "obeys samePasswords m" "obeys sameFiles m" "obeys sameTurn m"
    for m :: "(provisioner, 'a) act"
    by (rule triple_conseq [OF home_frame [OF that]]) auto
  show ?thesis
    unfolding rollbackRotation_def
    by (intro triple_andThen [OF restored] triple_andThen [OF rotated]
        triple_andThen [OF step [OF passwords_recreate frame_services(1) turn_recreate]]
        triple_andThen [OF triple_gets [where Q = "\<lambda>_. ?H"]]
        step [OF passwords_quiet [OF frame_waitHealthy(1)] frame_waitHealthy(2) turn_wait]) auto
qed


lemma restoreRuntime_run:
  assumes "restoreRuntime env s = (r, t)" and "within old ps s"
  shows "within old ps t \<and> pv_Compensation t = pv_Compensation s \<and> (\<not> isl r \<longrightarrow> pv_Current t = old)"
proof -
  have start: "within old ps s \<and> pv_Compensation s = pv_Compensation s" using assms(2) by simp
  show ?thesis
  proof (cases r)
    case (Inl e)
    show ?thesis
      using triple_InlD [OF restoreRuntime_triple start assms(1) [unfolded Inl]] by (auto simp: Inl)
  next
    case (Inr x)
    show ?thesis
      using triple_InrD [OF restoreRuntime_triple start assms(1) [unfolded Inr]] by (auto simp: Inr)
  qed
qed

lemma rotate_back_run:
  assumes "RotateRolePasswords env ref before new s = (r, t)" and "within old ps s"
  shows "within old (ps @ (if isl r then [] else [new])) t \<and> pv_Compensation t = pv_Compensation s"
  using rotate_run [OF assms(1)] assms(2) anchored_frame [of s t old]
  by (cases r) (auto simp: within_def calm_def sameTurn_def)

lemma rollbackRotation_run:
  assumes "rollbackRotation env request ctx s = (r, t)" and "within old ps s"
  shows "(within old (ps @ [rot_OldPassword request]) t \<or> isl r \<and> within old ps t) \<and>
    pv_Compensation t = pv_Compensation s \<and> (\<not> isl r \<longrightarrow> pv_Current t = old)"
proof -
  have start: "within old ps s \<and> pv_Compensation s = pv_Compensation s" using assms(2) by simp
  show ?thesis
  proof (cases r)
    case (Inl e)
    show ?thesis
      using triple_InlD [OF rollbackRotation_triple start assms(1) [unfolded Inl]] by (auto simp: Inl)
  next
    case (Inr x)
    show ?thesis
      using triple_InrD [OF rollbackRotation_triple start assms(1) [unfolded Inr]] by (auto simp: Inr)
  qed
qed

text \<open>A failure after the roles have their new password: roll back, restore once more, and say how it went.\<close>

lemma goBack_triple:
  assumes "\<And>back restored. rolledBack (failure back restored) = (\<not> isl back \<and> \<not> isl restored)"
    and "p = rot_OldPassword request"
  shows "triple (\<lambda>s. within old (b @ new) s) (andThen (attempt (rollbackRotation env request ctx)) (\<lambda>back.
      andThen (attempt (restoreRuntime env)) (\<lambda>restored. throw (failure back restored)))) Q (failedWith old p b)"
proof (rule tripleI)
  fix s e t
  assume before: "within old (b @ new) s" and run: "andThen (attempt (rollbackRotation env request ctx)) (\<lambda>back.
      andThen (attempt (restoreRuntime env)) (\<lambda>restored. throw (failure back restored))) s = (Inl e, t)"
  obtain r u where undo: "rollbackRotation env request ctx s = (r, u)" by fastforce
  obtain q v where again: "restoreRuntime env u = (q, v)" by fastforce
  have e: "e = failure r q" "t = v" using run undo again by (auto simp: andThen_def attempt_def)
  obtain ps where ps: "within old ps u" "ps = b @ new @ [p] \<or> isl r \<and> ps = b @ new"
    using rollbackRotation_run [OF undo before] assms(2) by auto
  have after: "within old ps v" "\<not> isl q \<Longrightarrow> pv_Current v = old"
    using restoreRuntime_run [OF again ps(1)] by auto
  then show "failedWith old p b e t"
    using ps(2) by (auto simp: e failedWith_def returned_def within_def assms(1))
qed (auto simp: andThen_eq_Inr)

section \<open>The steps\<close>

lemma journal_frames:
  "obeys noCalls (writeJournal env slug f)" "obeys sameFiles (writeJournal env slug f)" "obeys sameTurn (writeJournal env slug f)"
  unfolding writeJournal_def WriteMetadataForPhase_def
  by (intro obeys_intros frame_modify turn_modify; simp add: noCalls_def sameFiles_def sameTurn_def)+

lemmas journal_within = within_frame [OF passwords_quiet [OF journal_frames(1)] journal_frames(2,3)]

lemma update_step:
  "triple (\<lambda>s. within old b s \<and> pv_Compensation s = None) (updatePassword env request ctx)
     (\<lambda>_ s. within old (b @ [rot_NewPassword request]) s \<and> pv_Compensation s = None) (failedWith old p b)"
proof (rule tripleI)
  fix s e t
  assume before: "within old b s \<and> pv_Compensation s = None" and run: "updatePassword env request ctx s = (Inl e, t)"
  obtain r u where update: "RotateRolePasswords env (rx_Ref ctx) (rot_OldPassword request) (rot_NewPassword request) s = (r, u)"
    by fastforce
  obtain q v where undo: "restoreRuntime env u = (q, v)" by fastforce
  obtain f where "r = Inl f" using run update by (cases r) (auto simp: updatePassword_def andThen_def attempt_def)
  moreover from this have "t = v" "\<not> rolledBack e"
    using run update undo by (auto simp: updatePassword_def andThen_def attempt_def)
  ultimately show "failedWith old p b e t"
    using rotate_back_run [OF update] restoreRuntime_run [OF undo, of old b] before
    by (auto simp: failedWith_def within_def)
next
  fix s x t
  assume before: "within old b s \<and> pv_Compensation s = None" and run: "updatePassword env request ctx s = (Inr x, t)"
  obtain r u where update: "RotateRolePasswords env (rx_Ref ctx) (rot_OldPassword request) (rot_NewPassword request) s = (r, u)"
    by fastforce
  have "\<not> isl r" "t = u"
    using run update by (cases r; auto simp: updatePassword_def andThen_def attempt_def split: prod.splits)+
  then show "within old (b @ [rot_NewPassword request]) t \<and> pv_Compensation t = None"
    using rotate_back_run [OF update] before by auto
qed

lemma markRotated_step:
  assumes "p = rot_OldPassword request"
  shows "triple (\<lambda>s. within old (b @ new) s \<and> pv_Compensation s = None) (markRotated env request ctx)
     (\<lambda>_ s. within old (b @ new) s \<and> pv_Compensation s = None) (failedWith old p b)"
proof (rule tripleI)
  fix s e t
  assume before: "within old (b @ new) s \<and> pv_Compensation s = None" and run: "markRotated env request ctx s = (Inl e, t)"
  obtain r u where journal: "writeJournal env (rot_Slug request) (\<lambda>j. j\<lparr>rj_Phase := ''db-rotated''\<rparr>) s = (r, u)" by fastforce
  obtain f where r: "r = Inl f" using run journal by (cases r) (auto simp: markRotated_def andThen_def attempt_def)
  have u: "within old (b @ new) u" "pv_Compensation u = None"
    using triple_InlD [OF journal_within before] journal r by auto
  obtain q v where undo: "RotateRolePasswords env (rx_OldRef ctx) (rot_NewPassword request) (rot_OldPassword request) u = (q, v)"
    by fastforce
  obtain z w where restored: "restoreRuntime env v = (z, w)" by fastforce
  have e: "t = w" "rolledBack e = (\<not> isl q \<and> \<not> isl z)"
    using run journal undo restored r by (auto simp: markRotated_def andThen_def attempt_def)
  have v: "within old (b @ new @ (if isl q then [] else [p])) v" "pv_Compensation v = None"
    using rotate_back_run [OF undo u(1)] u(2) assms by auto
  show "failedWith old p b e t"
    using restoreRuntime_run [OF restored v(1)] v(2) by (auto simp: e failedWith_def returned_def within_def)
next
  fix s x t
  assume before: "within old (b @ new) s \<and> pv_Compensation s = None" and run: "markRotated env request ctx s = (Inr x, t)"
  obtain r u where journal: "writeJournal env (rot_Slug request) (\<lambda>j. j\<lparr>rj_Phase := ''db-rotated''\<rparr>) s = (r, u)" by fastforce
  have "\<not> isl r" "t = u"
    using run journal by (cases r; auto simp: markRotated_def andThen_def attempt_def split: prod.splits)+
  then show "within old (b @ new) t \<and> pv_Compensation t = None"
    using triple_InrD [OF journal_within before] journal by (cases r) auto
qed


lemma guarded_step:
  assumes "obeys samePasswords m" and "obeys sameFiles m" and "obeys sameTurn m"
    and "\<And>e. triple (\<lambda>s. within old (b @ new) s) (h e) (\<lambda>_ s. within old (b @ new) s \<and> pv_Compensation s = c) (failedWith old p b)"
  shows "triple (\<lambda>s. within old (b @ new) s \<and> pv_Compensation s = c)
     (andThen (attempt m) (\<lambda>r. case r of Inl e \<Rightarrow> h e | Inr x \<Rightarrow> ret ()))
     (\<lambda>_ s. within old (b @ new) s \<and> pv_Compensation s = c) (failedWith old p b)"
  by (rule triple_andThen, rule triple_attempt, rule within_frame [OF assms(1-3)], rule triple_case_sum)
    (auto intro: triple_pre [OF assms(4)] triple_ret)

lemma throw_within:
  "\<not> rolledBack e \<Longrightarrow> triple (\<lambda>s. within old (b @ new) s) (throw e) Q (failedWith old p b)"
  by (rule triple_throw) (rule within_failed)

lemma restart_step:
  assumes "p = rot_OldPassword request"
  shows "triple (\<lambda>s. within old (b @ new) s \<and> pv_Compensation s = c) (restartDependents env request ctx)
     (\<lambda>_ s. within old (b @ new) s \<and> pv_Compensation s = c) (failedWith old p b)"
  unfolding restartDependents_def
  by (intro guarded_step passwords_recreate frame_services(1) turn_recreate goBack_triple assms) simp

lemma check_step:
  assumes "p = rot_OldPassword request"
  shows "triple (\<lambda>s. within old (b @ new) s \<and> pv_Compensation s = c) (checkDependents env request ctx)
     (\<lambda>_ s. within old (b @ new) s \<and> pv_Compensation s = c) (failedWith old p b)"
  unfolding checkDependents_def
  by (rule triple_andThen [OF triple_gets [where Q = "\<lambda>_ s. within old (b @ new) s \<and> pv_Compensation s = c"]], assumption)
    (intro guarded_step passwords_quiet [OF frame_waitHealthy(1)] frame_waitHealthy(2) turn_wait triple_if throw_within
      goBack_triple assms; simp)

lemma verified_step:
  assumes "p = rot_OldPassword request"
  shows "triple (\<lambda>s. within old (b @ new) s \<and> pv_Compensation s = c) (markVerified env request ctx)
     (\<lambda>_ s. within old (b @ new) s \<and> pv_Compensation s = c) (failedWith old p b)"
  unfolding markVerified_def
proof (rule guarded_step [OF passwords_quiet [OF journal_frames(1)] journal_frames(2,3)], rule tripleI)
  let ?undo = "\<lambda>e. andThen (attempt (rollbackRotation env request ctx)) (\<lambda>back. throw (case back of
           Inl f \<Rightarrow> rotationFailure (withErr (Errorf ''publish services-verified metadata: '' e [])
             ''rotation rollback: '' back) False True
         | Inr _ \<Rightarrow> rotationFailure e True True))"
  fix f s e t
  assume before: "within old (b @ new) s" and run: "?undo f s = (Inl e, t)"
  obtain r u where undo: "rollbackRotation env request ctx s = (r, u)" by fastforce
  then have e: "t = u" "rolledBack e = (\<not> isl r)" using run by (cases r; auto simp: andThen_def attempt_def)+
  show "failedWith old p b e t"
    using rollbackRotation_run [OF undo before] assms by (auto simp: e failedWith_def returned_def within_def)
qed (auto simp: andThen_eq_Inr)


text \<open>The rotation is finished: the new password is the only one that was set, and the answer says so.\<close>

definition finished :: "RotateDatabasePasswordRequest \<Rightarrow> string \<Rightarrow> string list \<Rightarrow> provisioner \<Rightarrow> bool" where
  "finished request old b s \<longleftrightarrow> within old (b @ [rot_NewPassword request]) s \<and> pv_Compensation s \<noteq> None \<and>
     pv_RotationResult s = noRotation\<lparr>rotr_OperationID := rot_OperationID request,
       rotr_ProjectID := rot_ProjectID request, rotr_Revision := rot_NextRevision request\<rparr>"

definition recorded :: "RotateDatabasePasswordRequest \<Rightarrow> Metadata \<Rightarrow> bool" where
  "recorded request m \<longleftrightarrow> md_Revision m = rot_NextRevision request \<and> md_Configuration m = rot_Configuration request"

lemma fsSteps_error:
  assumes "fsSteps env labels s = (Inl e, t)" and "[] \<notin> set labels"
  shows "\<not> rolledBack e"
  using assms unfolding fsSteps_def
  by (induction labels arbitrary: s)
    (auto simp: fsStep_def consult_def failing_def andThen_def split: option.splits sum.splits prod.splits)

lemma journal_error:
  assumes "writeJournal env slug f s = (Inl e, t)"
  shows "\<not> rolledBack e"
  using assms
  by (auto simp: writeJournal_def WriteMetadataForPhase_def writeMetadata_def ProjectPath_def andThen_eq_Inl
      andThen_eq_Inr split: if_splits dest!: fsSteps_error)

lemma finish_step:
  "triple (\<lambda>s. within old (b @ [rot_NewPassword request]) s \<and> pv_Compensation s = Some ctx) (finishRotation request)
     (\<lambda>_ s. finished request old b s \<and> recorded request (pv_Local s)) E"
  by (rule tripleI)
    (auto simp: recorded_def finishRotation_def Let_def noteRotation_def andThen_def finished_def within_def calm_def passwords_def
      anchored_def committedFrom_def)

lemma change_triple:
  assumes "p = rot_OldPassword request"
  shows "triple (\<lambda>s. within old b s \<and> pv_Compensation s = None) (changePassword env request ctx)
     (\<lambda>_ s. finished request old b s \<and> recorded request (pv_Local s)) (failedWith old p b)"
proof -
  let ?W = "\<lambda>c s. within old (b @ [rot_NewPassword request]) s \<and> pv_Compensation s = c"
  have keep: "triple (?W None) (modify (\<lambda>s. s\<lparr>pv_Compensation := Some ctx\<rparr>)) (\<lambda>_. ?W (Some ctx)) E" for E
    by (rule tripleI) (auto simp: within_def calm_def passwords_def anchored_def committedFrom_def)
  have journal: "triple (?W (Some ctx)) (writeJournal env (rot_Slug request) f) (\<lambda>_. ?W (Some ctx)) (failedWith old p b)" for f
  proof (rule tripleI)
    fix s e t
    assume "?W (Some ctx) s" and run: "writeJournal env (rot_Slug request) f s = (Inl e, t)"
    then have "within old (b @ [rot_NewPassword request]) t" using triple_InlD [OF journal_within] by blast
    then show "failedWith old p b e t" by (rule within_failed [OF _ journal_error [OF run]])
  qed (use triple_InrD [OF journal_within] in blast)
  show ?thesis
    unfolding changePassword_def
    by (intro triple_andThen [OF update_step] triple_andThen [OF markRotated_step] triple_andThen [OF keep]
        triple_andThen [OF restart_step] triple_andThen [OF check_step] triple_andThen [OF verified_step]
        triple_andThen [OF journal] finish_step assms)
qed


section \<open>The candidate\<close>

definition staged :: "string \<Rightarrow> string list \<Rightarrow> provisioner \<Rightarrow> bool" where
  "staged old b s \<longleftrightarrow> untouched old b s \<and> uncommitted old s"

lemma staged_calm: "staged old b s \<Longrightarrow> calm s \<and> pv_Compensation s = None"
  by (simp add: staged_def untouched_def)

lemma staged_frame:
  assumes "obeys samePasswords m" and "obeys sameFiles m" and "obeys sameTurn m"
  shows "triple (staged old b) m (\<lambda>_. staged old b) (\<lambda>_. staged old b)"
proof -
  have "staged old b t" if "m s = (r, t)" "staged old b s" for s r t
    using obeysD [OF assms(1) that(1)] obeysD [OF assms(2) that(1)] obeysD [OF assms(3) that(1)] that(2)
      uncommitted_frame [of s t old]
    by (simp add: staged_def untouched_def calm_def sameTurn_def samePasswords_def sameFiles_def)
  then show ?thesis by (auto intro!: tripleI)
qed

lemma restore_calm:
  "triple (\<lambda>s. calm s \<and> pv_Compensation s = None) (attempt (restore env))
     (\<lambda>_ s. calm s \<and> pv_Compensation s = None) E"
  by (rule triple_attempt) (rule calm_frame [OF turn_generations(3)])

lemma orRestore_triple:
  assumes "triple P m (\<lambda>_. Q) (\<lambda>_ s. calm s \<and> pv_Compensation s = None)" and "\<And>e. \<not> rolledBack (failure e)"
  shows "triple P (orRestore env label restoreLabel failure m) (\<lambda>_. Q) (failedWith old p b)"
  unfolding orRestore_def
proof (rule triple_andThen, rule triple_attempt)
  show "triple P m (\<lambda>x s. case (Inr x :: goerr + unit) of Inl _ \<Rightarrow> calm s \<and> pv_Compensation s = None | Inr _ \<Rightarrow> Q s)
      (\<lambda>e s. case (Inl e :: goerr + unit) of Inl _ \<Rightarrow> calm s \<and> pv_Compensation s = None | Inr _ \<Rightarrow> Q s)"
    using assms(1) by simp
  show "triple (\<lambda>s. case r of Inl _ \<Rightarrow> calm s \<and> pv_Compensation s = None | Inr _ \<Rightarrow> Q s)
      (case r of Inl e \<Rightarrow> andThen (attempt (restore env)) (\<lambda>q. throw (failure (withErr (Errorf label e []) restoreLabel q)))
        | Inr _ \<Rightarrow> ret ()) (\<lambda>_. Q) (failedWith old p b)" for r :: "goerr + unit"
    by (cases r) (auto intro!: triple_andThen [OF restore_calm] triple_throw triple_ret calm_failed assms(2))
qed

lemma stage_step:
  "triple (untouched old b) (attempt (StageRuntimeFilesWithRef env slug files))
     (\<lambda>r s. calm s \<and> pv_Compensation s = None \<and> (\<not> isl r \<longrightarrow> staged old b s)) E"
proof (rule triple_attempt, rule tripleI)
  fix s e t
  assume "untouched old b s" and run: "StageRuntimeFilesWithRef env slug files s = (Inl e, t)"
  then show "calm t \<and> pv_Compensation t = None \<and> (\<not> isl (Inl e :: goerr + ProjectRef) \<longrightarrow> staged old b t)"
    using obeysD [OF turn_generations(1) run] by (auto simp: untouched_def calm_def sameTurn_def)
next
  fix s x t
  assume before: "untouched old b s" and run: "StageRuntimeFilesWithRef env slug files s = (Inr x, t)"
  have selection: "sameSelection s t" "sameTurn s t" "samePasswords s t"
    using obeysD [OF stage_selection run] obeysD [OF turn_generations(1) run]
      obeysD [OF passwords_quiet [OF frame_generations(1)] run] by auto
  then have "untouched old b t"
    using before by (auto simp: untouched_def calm_def sameTurn_def sameSelection_def samePasswords_def)
  moreover have "uncommitted old t"
    using run selection(1) before
    by (auto simp: StageRuntimeFilesWithRef_def Let_def andThen_eq_Inr untouched_def uncommitted_def consult_def
        sameSelection_def)
  ultimately show "calm t \<and> pv_Compensation t = None \<and> (\<not> isl (Inr x :: goerr + ProjectRef) \<longrightarrow> staged old b t)"
    by (simp add: staged_def untouched_def)
qed

lemma commit_step:
  "triple (staged old b) (commit env)
     (\<lambda>_ s. calm s \<and> pv_Compensation s = None \<and> passwords s = b \<and> committedFrom old (s\<lparr>pv_Published := True\<rparr>))
     (\<lambda>_ s. calm s \<and> pv_Compensation s = None)"
proof (rule tripleI)
  fix s e t
  assume "staged old b s" and run: "commit env s = (Inl e, t)"
  then show "calm t \<and> pv_Compensation t = None"
    using obeysD [OF turn_generations(2) run] staged_calm [of old b s] by (simp add: calm_def sameTurn_def)
next
  fix s x t
  assume before: "staged old b s" and run: "commit env s = (Inr x, t)"
  then show "calm t \<and> pv_Compensation t = None \<and> passwords t = b \<and> committedFrom old (t\<lparr>pv_Published := True\<rparr>)"
    using obeysD [OF turn_generations(2) run] obeysD [OF passwords_quiet [OF frame_generations(3)] run]
      commit_Inr [OF run, of old]
    by (simp add: staged_def untouched_def calm_def sameTurn_def samePasswords_def)
qed

lemma candidate_frames:
  "obeys noCalls (pointFunctionsEnvAtCandidate env original)" "obeys sameFiles (pointFunctionsEnvAtCandidate env original)"
  "obeys noCalls (writeCandidateCompose env)" "obeys sameFiles (writeCandidateCompose env)"
  unfolding pointFunctionsEnvAtCandidate_def writeCandidateCompose_def by (intro obeys_intros)+

lemma publish_step:
  assumes "\<And>e. \<not> rolledBack (failure e)"
  shows "triple (untouched old b) (publishCandidate env slug rendered name failure)
     (\<lambda>_ s. calm s \<and> pv_Compensation s = None \<and> passwords s = b \<and> committedFrom old (s\<lparr>pv_Published := True\<rparr>))
     (failedWith old p b)"
proof -
  let ?S = "staged old b"
  have validate: "triple ?S (andThen (pointFunctionsEnvAtCandidate env original) (\<lambda>_. call env (CallValidate candidate)))
      (\<lambda>_. ?S) (\<lambda>_ s. calm s \<and> pv_Compensation s = None)" for original candidate
    by (rule triple_conseq [OF staged_frame])
      (auto intro!: obeys_intros passwords_quiet [OF candidate_frames(1)] passwords_call candidate_frames dest: staged_calm)
  have compose: "triple ?S (writeCandidateCompose env) (\<lambda>_. ?S) (\<lambda>_ s. calm s \<and> pv_Compensation s = None)"
    by (rule triple_conseq [OF staged_frame [OF passwords_quiet [OF candidate_frames(3)] candidate_frames(4) turn_steps(6)]])
      (auto dest: staged_calm)
  show ?thesis
    unfolding publishCandidate_def
    by (intro triple_andThen [OF stage_step] triple_case_sum triple_throw
        triple_andThen [OF triple_pre [OF orRestore_triple [OF validate]]] triple_andThen [OF orRestore_triple [OF compose]]
        orRestore_triple [OF commit_step] assms)
      (auto simp: goPanic_def intro!: calm_failed)
qed


lemma quiet_step:
  assumes "obeys noCalls m" and "obeys sameFiles m" and "obeys sameTurn m" and "\<And>s e t. m s \<noteq> (Inl e, t)"
  shows "triple (\<lambda>s. within old b s \<and> pv_Compensation s = c) m (\<lambda>_ s. within old b s \<and> pv_Compensation s = c) E"
  using triple_InrD [OF within_frame [OF passwords_quiet [OF assms(1)] assms(2,3)]] assms(4) by (intro tripleI) blast+

lemma orNoRef_total: "orNoRef slug m s \<noteq> (Inl e, t)"
  by (simp add: orNoRef_def andThen_def attempt_run)

lemma journalled_step:
  "triple (\<lambda>s. within old b s \<and> pv_Compensation s = None \<and> pv_Published s) (journalPublished env request oldRef)
     (\<lambda>_ s. within old b s \<and> pv_Compensation s = None) (failedWith old p b)"
proof -
  let ?W = "\<lambda>s. within old b s \<and> pv_Compensation s = None \<and> pv_Published s"
  have frame: "triple ?W m (\<lambda>_. ?W) E"
    if "obeys noCalls m" "obeys sameFiles m" "obeys sameTurn m" "\<And>s e t. m s \<noteq> (Inl e, t)" for m :: "(provisioner, 'a) act" and E
  proof (rule tripleI)
    fix s x t
    assume before: "?W s" and run: "m s = (Inr x, t)"
    then have "within old b t \<and> pv_Compensation t = None" using triple_InrD [OF quiet_step [OF that]] by blast
    then show "?W t" using obeysD [OF that(2) run] before by (simp add: sameFiles_def)
  qed (use that(4) in simp)
  have journal: "triple ?W (attempt (writeJournal env slug f)) (\<lambda>_. ?W) E" for slug f E
    by (rule frame) (auto intro!: obeys_intros journal_frames simp: attempt_run)
  have undo: "triple ?W (attempt (restore env))
      (\<lambda>q s. within old b s \<and> pv_Compensation s = None \<and> (\<not> isl q \<longrightarrow> pv_Current s = old)) E" for E
  proof (rule tripleI)
    fix s q t
    assume before: "?W s" and "attempt (restore env) s = (Inr q, t)"
    then have "restoreRuntime env s = (q, t)" by (simp add: restoreRuntime_def andThen_def attempt_run prod_eq_iff)
    then show "within old b t \<and> pv_Compensation t = None \<and> (\<not> isl q \<longrightarrow> pv_Current t = old)"
      using restoreRuntime_run [of env s q t old b] before by simp
  qed (simp add: attempt_run)
  have raise: "triple (\<lambda>s. within old b s \<and> pv_Compensation s = None \<and> (\<not> isl q \<longrightarrow> pv_Current s = old))
      (throw (case q of Inl f \<Rightarrow> rotationFailure (g f) False False | Inr _ \<Rightarrow> rotationFailure e True False)) Q
      (failedWith old p b)" for q :: "goerr + unit" and g e Q
    by (rule triple_throw) (auto simp: failedWith_def returned_def within_def split: sum.splits)
  show ?thesis
    unfolding journalPublished_def Let_def
    by (intro triple_andThen [OF frame [OF _ _ _ orNoRef_total]] triple_andThen [OF journal] triple_case_sum
        triple_andThen [OF undo] raise triple_ret obeys_intros) auto
qed

lemma stage_triple':
  "triple (untouched old b) (stageRotation env request ref oldRef)
     (\<lambda>_ s. within old b s \<and> pv_Compensation s = None) (failedWith old p b)"
proof -
  have render: "triple (untouched old b) (renderRotation env input (\<lambda>e. rotationFailure (g e) False False))
      (\<lambda>_. untouched old b) (failedWith old p b)" for input g
    by (rule tripleI) (auto simp: renderRotation_def mapErr_def untouched_failed split: sum.splits)
  have publish: "triple (\<lambda>s. calm s \<and> pv_Compensation s = None \<and> passwords s = b \<and> committedFrom old (s\<lparr>pv_Published := True\<rparr>))
      (modify (\<lambda>s. s\<lparr>pv_Published := True\<rparr>))
      (\<lambda>_ s. within old b s \<and> pv_Compensation s = None \<and> pv_Published s) E" for E
    by (rule tripleI) (auto simp: within_def calm_def passwords_def anchored_def)
  have plain: "within old b s \<and> pv_Compensation s = None" if "untouched old b s" for s
    using that by (simp add: untouched_def within_def anchored_def)
  show ?thesis
    unfolding stageRotation_def Let_def
    by (intro triple_if triple_ret plain triple_andThen [OF render] triple_andThen [OF publish_step]
        triple_andThen [OF publish] journalled_step) simp_all
qed

section \<open>The whole rotation\<close>

lemma start_steps:
  "triple (untouched old b) (claimFenceAt env slug fence) (\<lambda>_. untouched old b) (failedWith old p b)"
  "triple (untouched old b) (CurrentRuntimeFiles env slug) (\<lambda>_. untouched old b) (failedWith old p b)"
  "triple (untouched old b) (CurrentRuntimeGeneration env slug) (\<lambda>_. untouched old b) (failedWith old p b)"
  "triple (untouched old b) (oldReference env request current) (\<lambda>_. untouched old b) (failedWith old p b)"
  "triple (untouched old b) (prepareJournal env request generation) (\<lambda>_. untouched old b) (failedWith old p b)"
  unfolding claimFenceAt_def oldReference_def prepareJournal_def RuntimeGeneration_def WriteMetadataForPhase_def
    CurrentRuntimeFiles_def CurrentRuntimeGeneration_def
  by (rule untouched_frame; intro obeys_intros turn_metadata frame_modify turn_modify;
      simp add: noCalls_def sameFiles_def sameTurn_def)+

lemma rotatePassword_triple:
  assumes "p = rot_OldPassword request"
  shows "triple (untouched old b) (rotatePassword env request)
     (\<lambda>_ s. finished request old b s \<and> recorded request (pv_Local s)) (failedWith old p b)"
  unfolding rotatePassword_def Let_def
  by (intro triple_andThen [OF start_steps(1)] triple_andThen [OF start_steps(2)] triple_andThen [OF start_steps(3)]
      triple_andThen [OF start_steps(4)] triple_andThen [OF start_steps(5)] triple_andThen [OF stage_triple']
      triple_andThen [OF triple_gets [where Q = "\<lambda>_ s. within old b s \<and> pv_Compensation s = None"]] change_triple assms)


definition newRotation :: "RotateDatabasePasswordRequest \<Rightarrow> provisioner \<Rightarrow> bool" where
  "newRotation request s \<longleftrightarrow> (case pv_Metadata s of None \<Rightarrow> True
     | Some m \<Rightarrow> map_of (md_Idempotency m) (rot_IdempotencyKey request) = None)"

lemma guards_triple:
  "triple (untouched old b) (rotationGuards request m) (\<lambda>_. untouched old b) (failedWith old p b)"
  unfolding rotationGuards_def
  by (rule untouched_frame; intro obeys_intros)

lemma answer_triple:
  "triple (failedWith old p b e) (answerFailure request e) Q (failedWith old p b)"
  by (rule tripleI)
    (auto simp: answerFailure_def noteRotation_def Let_def andThen_def failedWith_def calm_def returned_def passwords_def
      anchored_def committedFrom_def split: goerr.splits if_splits)

lemma rotation_callback_triple:
  assumes "p = rot_OldPassword request"
  shows "triple (\<lambda>s. untouched old b s \<and> map_of (md_Idempotency (pv_Local s)) (rot_IdempotencyKey request) = None)
     (rotationCallback env request) (\<lambda>_ s. finished request old b s \<and> recorded request (pv_Local s)) (failedWith old p b)"
proof -
  let ?U = "\<lambda>s. untouched old b s \<and> map_of (md_Idempotency (pv_Local s)) (rot_IdempotencyKey request) = None"
  have kind: "triple ?U (failIf c (Sentinel x)) (\<lambda>_. ?U) (failedWith old p b)" for c x
    by (rule tripleI) (auto simp: untouched_failed split: if_splits)
  have lookup: "triple ?U (gets pv_Local)
      (\<lambda>m s. untouched old b s \<and> map_of (md_Idempotency m) (rot_IdempotencyKey request) = None) E" for E
    by (rule tripleI) auto
  have rotate: "triple (\<lambda>s. untouched old b s \<and> map_of (md_Idempotency m) (rot_IdempotencyKey request) = None)
      (case map_of (md_Idempotency m) (rot_IdempotencyKey request) of
        Some stored \<Rightarrow> modify (\<lambda>s. s\<lparr>pv_RotationResult := rotationOf stored\<rparr>)
      | None \<Rightarrow> andThen (rotationGuards request m) (\<lambda>_. rotatePassword env request))
      (\<lambda>_ s. finished request old b s \<and> recorded request (pv_Local s)) (failedWith old p b)" for m
    by (cases "map_of (md_Idempotency m) (rot_IdempotencyKey request)")
      (auto intro!: triple_pre [OF triple_andThen [OF guards_triple rotatePassword_triple]] assms)
  show ?thesis
    unfolding rotationCallback_def
    by (rule triple_onFail [OF triple_andThen [OF kind triple_andThen [OF lookup rotate]] answer_triple])
qed

section \<open>The metadata transaction\<close>

definition accounted :: "string \<Rightarrow> string \<Rightarrow> string list \<Rightarrow> goerr \<Rightarrow> provisioner \<Rightarrow> bool" where
  "accounted old p b e s \<longleftrightarrow> (rolledBack e \<longrightarrow> returned old p b s) \<and>
     (pv_RollbackSucceeded s \<longrightarrow> returned old p b s)"

lemma failed_accounted: "failedWith old p b e s \<Longrightarrow> accounted old p b e s"
  by (simp add: failedWith_def accounted_def calm_def)

text \<open>What the compensation may start from.\<close>

definition compensable :: "string \<Rightarrow> string list \<Rightarrow> provisioner \<Rightarrow> bool" where
  "compensable old b s \<longleftrightarrow> \<not> pv_RollbackSucceeded s \<and> (pv_Compensation s \<noteq> None \<longrightarrow> (\<exists>new. within old (b @ new) s))"

lemma failed_compensable: "failedWith old p b e s \<Longrightarrow> compensable old b s"
  by (auto simp: failedWith_def compensable_def within_def calm_def)

lemma finished_compensable: "finished request old b s \<Longrightarrow> compensable old b s"
  by (auto simp: finished_def compensable_def within_def calm_def)


lemma compensate_triple:
  assumes "p = rot_OldPassword request"
  shows "triple (compensable old b) (attempt (runCompensation env request))
     (\<lambda>_ s. pv_RollbackSucceeded s \<longrightarrow> returned old p b s) E"
proof (rule triple_attempt, rule tripleI)
  have run: "pv_RollbackSucceeded t \<longrightarrow> returned old p b t"
    if start: "compensable old b s" and run: "runCompensation env request s = (r, t)" for s r t
  proof (cases "pv_Compensation s")
    case None
    then show ?thesis using start run by (auto simp: runCompensation_def andThen_def compensable_def)
  next
    case (Some ctx)
    then obtain new where "within old (b @ new) s" using start by (auto simp: compensable_def)
    then have before: "within old (b @ new) (s\<lparr>pv_UndoRan := True\<rparr>)"
      by (auto simp: within_def calm_def anchored_def committedFrom_def passwords_def split: if_splits)
    obtain q u where undo: "rollbackRotation env request ctx (s\<lparr>pv_UndoRan := True\<rparr>) = (q, u)" by fastforce
    have t: "t = u\<lparr>pv_RollbackSucceeded := True\<rparr> \<and> \<not> isl q \<or> t = u \<and> isl q"
      using run Some undo by (cases q) (auto simp: runCompensation_def andThen_def)
    show ?thesis
      using t rollbackRotation_run [OF undo before] assms by (auto simp: returned_def within_def calm_def passwords_def)
  qed
  show "pv_RollbackSucceeded t \<longrightarrow> returned old p b t"
    if "compensable old b s" "runCompensation env request s = (Inl e, t)" for s e t by (rule run [OF that])
  show "pv_RollbackSucceeded t \<longrightarrow> returned old p b t"
    if "compensable old b s" "runCompensation env request s = (Inr x, t)" for s x t by (rule run [OF that])
qed


lemma store_frames:
  "obeys noCalls (writeMetadata env slug m)" "obeys sameFiles (writeMetadata env slug m)" "obeys sameTurn (writeMetadata env slug m)"
  by (rule frame_writeMetadata turn_metadata)+

lemma store_step:
  assumes "writeMetadata env slug m s = (r, t)"
  shows "finished request old b t = finished request old b s" and "failedWith old p b e t = failedWith old p b e s"
    and "r = Inr x \<Longrightarrow> pv_Metadata t = Some m"
proof -
  have same: "sameFiles s t" "sameTurn s t" "samePasswords s t"
    using obeysD [OF store_frames(2) assms] obeysD [OF store_frames(3) assms]
      obeysD [OF passwords_quiet [OF store_frames(1)] assms] by auto
  then have "within old ps t = within old ps s" for ps
    by (simp add: within_def calm_def sameTurn_def samePasswords_def anchored_frame)
  then show "finished request old b t = finished request old b s"
    using same by (simp add: finished_def sameTurn_def)
  show "failedWith old p b e t = failedWith old p b e s"
    using same anchored_frame [OF same(1)]
    by (simp add: failedWith_def returned_def calm_def sameTurn_def samePasswords_def sameFiles_def)
  show "r = Inr x \<Longrightarrow> pv_Metadata t = Some m"
    using assms by (auto simp: writeMetadata_def andThen_eq_Inr)
qed

lemma publish_triple:
  assumes "p = rot_OldPassword request" and "\<And>s. P s \<Longrightarrow> compensable old b s"
    and "\<And>s r t m. P s \<Longrightarrow> writeMetadata env slug m s = (r, t) \<Longrightarrow> P t"
    and "\<And>s t m. P s \<Longrightarrow> R m s \<Longrightarrow> writeMetadata env slug m s = (Inr (), t) \<Longrightarrow> triple (\<lambda>s. s = t) (k m) Q (accounted old p b)"
  shows "triple (\<lambda>s. P s \<and> R (pv_Local s) s) (andThen (gets pv_Local) (\<lambda>metadata.
      andThen (attempt (writeMetadata env slug metadata)) (\<lambda>written. case written of
          Inr _ \<Rightarrow> k metadata
        | Inl writeErr \<Rightarrow> andThen (attempt (runCompensation env request)) (\<lambda>r. throw (publicationError
             (case r of Inl f \<Rightarrow> Joined [writeErr, f] | Inr _ \<Rightarrow> writeErr)))))) Q (accounted old p b)"
proof (rule triple_andThen)
  show "triple (\<lambda>s. P s \<and> R (pv_Local s) s) (gets pv_Local) (\<lambda>m s. P s \<and> R m s) (accounted old p b)"
    by (rule tripleI) auto
  show "triple (\<lambda>s. P s \<and> R m s) (andThen (attempt (writeMetadata env slug m)) (\<lambda>written. case written of
          Inr _ \<Rightarrow> k m
        | Inl writeErr \<Rightarrow> andThen (attempt (runCompensation env request)) (\<lambda>r. throw (publicationError
             (case r of Inl f \<Rightarrow> Joined [writeErr, f] | Inr _ \<Rightarrow> writeErr))))) Q (accounted old p b)" for m
  proof (rule triple_andThen)
    show "triple (\<lambda>s. P s \<and> R m s) (attempt (writeMetadata env slug m))
        (\<lambda>r s. if isl r then compensable old b s else \<exists>s'. P s' \<and> R m s' \<and> writeMetadata env slug m s' = (Inr (), s))
        (accounted old p b)"
      using assms(2,3) by (intro triple_attempt tripleI) auto
    have undo: "triple (compensable old b) (andThen (attempt (runCompensation env request)) (\<lambda>r. throw (publicationError
        (case r of Inl f \<Rightarrow> Joined [e, f] | Inr _ \<Rightarrow> e)))) Q (accounted old p b)" for e
      by (intro triple_andThen [OF compensate_triple [OF assms(1)]] triple_throw)
        (auto simp: accounted_def publicationError_def)
    have go: "triple (\<lambda>s. \<exists>s'. P s' \<and> R m s' \<and> writeMetadata env slug m s' = (Inr (), s)) (k m) Q (accounted old p b)"
    proof (rule tripleI)
      show "accounted old p b e t"
        if "\<exists>s'. P s' \<and> R m s' \<and> writeMetadata env slug m s' = (Inr (), s)" "k m s = (Inl e, t)" for s e t
        using that(1) triple_InlD [OF assms(4) refl that(2)] by blast
      show "Q y t"
        if "\<exists>s'. P s' \<and> R m s' \<and> writeMetadata env slug m s' = (Inr (), s)" "k m s = (Inr y, t)" for s y t
        using that(1) triple_InrD [OF assms(4) refl that(2)] by blast
    qed
    show "triple (\<lambda>s. if isl r then compensable old b s else \<exists>s'. P s' \<and> R m s' \<and> writeMetadata env slug m s' = (Inr (), s))
        (case r of Inl writeErr \<Rightarrow> andThen (attempt (runCompensation env request)) (\<lambda>r. throw (publicationError
             (case r of Inl f \<Rightarrow> Joined [writeErr, f] | Inr _ \<Rightarrow> writeErr))) | Inr _ \<Rightarrow> k m) Q (accounted old p b)" for r :: "goerr + unit"
      by (cases r) (simp_all add: undo go)
  qed
qed


definition committed :: "RotateDatabasePasswordRequest \<Rightarrow> string \<Rightarrow> string list \<Rightarrow> provisioner \<Rightarrow> bool" where
  "committed request old b s \<longleftrightarrow> finished request old b s \<and> (\<exists>m. pv_Metadata s = Some m \<and> recorded request m)"

lemma load_frame:
  assumes "obeys noCalls m" and "obeys sameFiles m" and "obeys sameTurn m" and "obeys sameMeta m"
  shows "triple (\<lambda>s. untouched old b s \<and> newRotation request s) m (\<lambda>_ s. untouched old b s \<and> newRotation request s)
     (accounted old p b)"
proof -
  have kept: "newRotation request t = newRotation request s" if "m s = (r, t)" for s r t
    using obeysD [OF assms(4) that] by (simp add: newRotation_def sameMeta_def)
  show ?thesis
    using triple_InrD [OF untouched_frame [OF assms(1-3)]] triple_InlD [OF untouched_frame [OF assms(1-3)]] kept
    by (intro tripleI) (blast intro: failed_accounted)+
qed

lemma rotation_update_triple:
  assumes "p = rot_OldPassword request"
  shows "triple (\<lambda>s. untouched old b s \<and> newRotation request s)
     (UpdateMetadataWithRollback env slug (rotationCallback env request) (runCompensation env request))
     (\<lambda>_. committed request old b) (accounted old p b)"
proof -
  let ?P = "\<lambda>s. untouched old b s \<and> newRotation request s"
  let ?L = "\<lambda>s. untouched old b s \<and> map_of (md_Idempotency (pv_Local s)) (rot_IdempotencyKey request) = None"
  let ?F = "\<lambda>s. finished request old b s \<and> recorded request (pv_Local s)"
  let ?A = "accounted old p b"
  have read: "triple ?P (readMetadata env slug) (\<lambda>m s. ?P s \<and> m = pv_Metadata s) ?A"
    using triple_InrD [OF load_frame [OF frame_readMetadata(1,2) turn_metadata(2) frame_readMetadata(3)]]
      triple_InlD [OF load_frame [OF frame_readMetadata(1,2) turn_metadata(2) frame_readMetadata(3)]]
      readMetadata_value obeysD [OF frame_readMetadata(3)]
    by (intro tripleI) (blast, metis sameMeta_def)
  have load: "triple (\<lambda>s. ?P s \<and> m = pv_Metadata s)
      (modify (\<lambda>s. s\<lparr>pv_Local := case m of None \<Rightarrow> freshMetadata slug | Some m \<Rightarrow> m\<rparr>)) (\<lambda>_. ?L) E" for m E
    by (rule tripleI)
      (auto simp: untouched_def calm_def newRotation_def freshMetadata_def passwords_def split: option.splits)
  have mutate: "triple ?L (attempt (rotationCallback env request))
      (\<lambda>r s. case r of Inl e \<Rightarrow> failedWith old p b e s | Inr _ \<Rightarrow> ?F s) E" for E
    using rotation_callback_triple [OF assms] by (intro triple_attempt) simp
  have throw: "triple (failedWith old p b e) (throw e) Q ?A" for e Q
    by (rule triple_throw) (rule failed_accounted)
  have failed: "triple (failedWith old p b e) (andThen (gets pv_Local) (\<lambda>metadata.
      andThen (attempt (writeMetadata env slug metadata)) (\<lambda>written. case written of
          Inr _ \<Rightarrow> throw e
        | Inl writeErr \<Rightarrow> andThen (attempt (runCompensation env request)) (\<lambda>r. throw (publicationError
             (case r of Inl f \<Rightarrow> Joined [writeErr, f] | Inr _ \<Rightarrow> writeErr)))))) Q ?A" for e Q
    by (rule triple_pre [OF publish_triple [OF assms, where P = "failedWith old p b e" and R = "\<lambda>_ _. True"]])
      (auto simp: store_step(2) failed_compensable intro!: triple_pre [OF throw])
  have published: "triple ?F (andThen (gets pv_Local) (\<lambda>metadata.
      andThen (attempt (writeMetadata env slug metadata)) (\<lambda>written. case written of
          Inr _ \<Rightarrow> ret metadata
        | Inl writeErr \<Rightarrow> andThen (attempt (runCompensation env request)) (\<lambda>r. throw (publicationError
             (case r of Inl f \<Rightarrow> Joined [writeErr, f] | Inr _ \<Rightarrow> writeErr)))))) (\<lambda>_. committed request old b) ?A"
    by (rule publish_triple [OF assms, where P = "finished request old b" and R = "\<lambda>m _. recorded request m"])
      (auto simp: store_step(1) finished_compensable committed_def store_step(3) intro!: triple_ret)
  show ?thesis
    unfolding UpdateMetadataWithRollback_def
    by (intro triple_andThen [OF load_frame [OF frame_lock(1,2) turn_metadata(1) frame_lock(3)]] triple_andThen [OF read]
        triple_andThen [OF load] triple_andThen [OF mutate] triple_case_sum triple_if triple_pre [OF throw]
        triple_pre [OF failed] triple_pre [OF published]) simp_all
qed

text \<open>
  (C33) The answer of \<^verbatim>\<open>RotateDatabasePassword\<close> can be trusted, for a request that was not
  answered before. Without an error the roles were given the new password and no other one, and the
  metadata holds the new revision and configuration. A rollback that is reported has put the previous
  generation back, and the last password the roles were given, if they were given any, is the old one.
\<close>

theorem rotation_answer_is_true:
  assumes "newRotation request s" and "RotateDatabasePassword env request s = (Some (response, e), t)"
  shows "(e = None \<longrightarrow> passwords t = passwords s @ [rot_NewPassword request] \<and>
       rotr_Revision response = rot_NextRevision request \<and>
       (\<exists>m. pv_Metadata t = Some m \<and> md_Revision m = rot_NextRevision request \<and>
          md_Configuration m = rot_Configuration request)) \<and>
    (rotr_RolledBack response \<longrightarrow> pv_Current t = pv_Current s \<and>
       (passwords t = passwords s \<or> (\<exists>given. passwords t = passwords s @ given @ [rot_OldPassword request])))"
proof -
  let ?old = "pv_Current s" and ?b = "passwords s"
  have start: "untouched ?old ?b (freshRotation s) \<and> newRotation request (freshRotation s)"
    using assms(1) by (simp add: untouched_def calm_def freshRotation_def newRotation_def passwords_def)
  obtain r u where run: "UpdateMetadataWithRollback env (rot_Slug request) (rotationCallback env request)
      (runCompensation env request) (freshRotation s) = (r, u)" by fastforce
  show ?thesis
  proof (cases r)
    case (Inr m)
    then have "committed request ?old ?b u"
      using triple_InrD [OF rotation_update_triple [OF refl] start] run by blast
    then show ?thesis
      using run Inr assms(2)
      by (auto simp: RotateDatabasePassword_def Let_def committed_def finished_def within_def recorded_def noRotation_def)
  next
    case (Inl f)
    then have "accounted ?old (rot_OldPassword request) ?b f u"
      using triple_InlD [OF rotation_update_triple [OF refl] start] run by blast
    then have "returned ?old (rot_OldPassword request) ?b u" if "rolledBack f \<or> pv_RollbackSucceeded u"
      using that by (auto simp: accounted_def)
    then show ?thesis
      using run Inl assms(2)
      by (auto simp: RotateDatabasePassword_def returned_def noRotation_def rotationAnswer_def
          split: if_splits goerr.splits)
  qed
qed

end
