(* ===== verification/RuntimeLifecycle.thy ===== *)
theory RuntimeLifecycle
  imports ReconcileRuns
begin

text \<open>
  The other calls of the Provisioner on a whole project, in \<^verbatim>\<open>runtime/backend.go\<close>: the lifecycle actions and
  the inspection. The deletion of the data is the only one that removes files of a user, so it is guarded
  twice, by the confirmation of the name and by the success of everything that comes before it.
\<close>

section \<open>Operations\<close>

definition RootMetadata :: "ProvisionerEnvironment \<Rightarrow> string \<Rightarrow> (provisioner, Metadata option) act" where
  "RootMetadata env slug = andThen (lockMetadataFile env slug) (\<lambda>_. readMetadata env slug)"

text \<open>
  \<^verbatim>\<open>ProjectPath\<close> never returns the root itself. A removal that fails may have removed a part of the files; the
  metadata file and the pointer are then taken to be still there.
\<close>

definition DeleteProjectData :: "ProvisionerEnvironment \<Rightarrow> string \<Rightarrow> (provisioner, unit) act" where
  "DeleteProjectData env slug =
     andThen (ProjectPath env slug) (\<lambda>_.
     andThen (lockMetadataFile env slug) (\<lambda>_.
     andThen (fsStep env ''remove confirmed server data: '') (\<lambda>_.
     modify (\<lambda>s. s\<lparr>pv_Metadata := None, pv_Current := [], pv_Generations := []\<rparr>))))"

text \<open>These two do not validate the names, and an empty list means every service.\<close>

definition UpServices :: "ProvisionerEnvironment \<Rightarrow> ProjectRef \<Rightarrow> string list \<Rightarrow> (provisioner, unit) act" where
  "UpServices env ref services = call env (CallUpServices ref services)"

definition Restart :: "ProvisionerEnvironment \<Rightarrow> ProjectRef \<Rightarrow> string list \<Rightarrow> (provisioner, unit) act" where
  "Restart env ref services = call env (CallRestart ref services)"

text \<open>The name that must be confirmed: the Manager's, or else the one in the metadata.\<close>

definition expectedName :: "LifecycleRequest \<Rightarrow> Metadata option \<Rightarrow> string" where
  "expectedName request stored = (if lr_ProjectName request \<noteq> [] then lr_ProjectName request
     else case stored of None \<Rightarrow> [] | Some m \<Rightarrow> md_ProjectName m)"

definition deleteData ::
  "ProvisionerEnvironment \<Rightarrow> LifecycleRequest \<Rightarrow> ProjectRef \<Rightarrow> (provisioner, unit) act" where
  "deleteData env request project =
     andThen (RootMetadata env (lr_Slug request)) (\<lambda>stored.
     andThen (failIf (stored = None \<and> lr_ProjectName request = [])
       (ErrorsNew ''server metadata is missing and Manager server name was not provided'')) (\<lambda>_.
     andThen (failIf (lr_ConfirmProjectName request = [] \<or> lr_ConfirmProjectName request \<noteq> expectedName request stored)
       (ErrorsNew ''exact server name confirmation is required'')) (\<lambda>_.
     andThen (call env (CallDownRuntime project)) (\<lambda>_.
     andThen (mapErr (\<lambda>e. Errorf ''remove managed nginx site: '' e []) (call env (CallProxyRemove (lr_Slug request)))) (\<lambda>_.
     DeleteProjectData env (lr_Slug request))))))"

definition Lifecycle :: "ProvisionerEnvironment \<Rightarrow> LifecycleRequest \<Rightarrow> (provisioner, unit) act" where
  "Lifecycle env request = andThen (CurrentRuntimeFiles env (lr_Slug request)) (\<lambda>project.
     case lr_Action request of
       LifecycleStart \<Rightarrow>
         andThen (call env (CallUpDatabase project)) (\<lambda>_.
         andThen (call env (CallVerifyDatabaseBootstrap project)) (\<lambda>_.
         andThen (call env (CallSynchronizeRoles project)) (\<lambda>_.
         UpServices env project [''auth'', ''auth-templates'', ''rest'', ''meta'', ''studio'', ''api-gw''])))
     | LifecycleStop \<Rightarrow> call env (CallStop project)
     | LifecycleRestart \<Rightarrow>
         andThen (Restart env project []) (\<lambda>_. UpServices env project [''auth-templates''])
     | LifecycleDeleteRuntime \<Rightarrow> call env (CallDownRuntime project)
     | LifecycleDeleteData \<Rightarrow> deleteData env request project
     | LifecycleUnset \<Rightarrow> throw (ErrorsNew (''unsupported lifecycle action '' @ [CHR 0x22, CHR 0x22])))"

definition Inspect :: "ProvisionerEnvironment \<Rightarrow> InspectProjectRequest \<Rightarrow> (provisioner, string \<times> Report) act" where
  "Inspect env request = (let enabled = (if ir_EnabledServices request = []
       then [''db'', ''auth'', ''rest'', ''meta'', ''studio'', ''api-gw''] else ir_EnabledServices request) in
     andThen (inspectProject env (ir_Slug request) enabled) (\<lambda>report. ret (ir_ProjectID request, report)))"

section \<open>What is left alone\<close>

text \<open>What a project has on disk.\<close>

definition sameData :: "provisioner \<Rightarrow> provisioner \<Rightarrow> bool" where
  "sameData s t \<longleftrightarrow> pv_Metadata t = pv_Metadata s \<and> pv_Current t = pv_Current s \<and> pv_Generations t = pv_Generations s"

interpretation sameData: monitor sameData by unfold_locales (auto simp: sameData_def)

lemma data_consult [obeys_intros]: "obeys sameData (consult f)" "obeys sameData (failing r)"
  by (simp_all add: obeys_def consult_def failing_def sameData_def split: option.splits)

lemma data_call [obeys_intros]: "obeys sameData (call env c)"
  unfolding call_def by (intro obeys_intros frame_modify) (simp add: sameData_def)

lemma data_steps [obeys_intros]:
  "obeys sameData (fsStep env label)" "obeys sameData (fsSteps env labels)" "obeys sameData (ProjectPath env slug)"
  "obeys sameData (CurrentRuntimeFiles env slug)" "obeys sameData (lockMetadataFile env slug)"
  "obeys sameData (readMetadata env slug)" "obeys sameData (RootMetadata env slug)"
  unfolding RootMetadata_def CurrentRuntimeFiles_def lockMetadataFile_def readMetadata_def ProjectPath_def fsSteps_def fsStep_def
  by (intro obeys_intros)+


lemma quiet_steps:
  "obeys noCalls (RootMetadata env slug)" "obeys noCalls (CurrentRuntimeFiles env slug)" "obeys noCalls (ProjectPath env slug)"
  unfolding RootMetadata_def by (intro obeys_intros)+

lemma RootMetadata_value:
  assumes "RootMetadata env slug s = (Inr m, t)"
  shows "m = pv_Metadata s"
proof -
  obtain u where lock: "lockMetadataFile env slug s = (Inr (), u)" and read: "readMetadata env slug u = (Inr m, t)"
    using assms by (auto simp: RootMetadata_def andThen_eq_Inr)
  show ?thesis using readMetadata_value [OF read] obeysD [OF data_steps(5) lock] by (simp add: sameData_def)
qed

section \<open>Deleting the data\<close>

definition confirmed :: "LifecycleRequest \<Rightarrow> provisioner \<Rightarrow> bool" where
  "confirmed request s \<longleftrightarrow> lr_ConfirmProjectName request \<noteq> [] \<and>
     lr_ConfirmProjectName request = expectedName request (pv_Metadata s)"

definition callsSince :: "provisioner \<Rightarrow> provisioner \<Rightarrow> (RuntimeCall \<times> goerr option) list \<Rightarrow> bool" where
  "callsSince s t new \<longleftrightarrow> pv_Calls t = pv_Calls s @ new"

text \<open>\<open>kept s0 new\<close>: the data of \<open>s0\<close> is still there, and \<open>new\<close> are the calls made since.\<close>

definition kept :: "provisioner \<Rightarrow> (RuntimeCall \<times> goerr option) list \<Rightarrow> provisioner \<Rightarrow> bool" where
  "kept s0 new s \<longleftrightarrow> sameData s0 s \<and> callsSince s0 s new"

definition spared :: "LifecycleRequest \<Rightarrow> provisioner \<Rightarrow> provisioner \<Rightarrow> bool" where
  "spared request s0 s \<longleftrightarrow> sameData s0 s \<and> (\<not> confirmed request s0 \<longrightarrow> pv_Calls s = pv_Calls s0)"

lemma kept_run:
  assumes "obeys noCalls m" and "obeys sameData m" and "m s = (r, t)" and "kept s0 new s"
  shows "kept s0 new t"
  using obeysD [OF assms(1,3)] obeysD [OF assms(2,3)] assms(4)
  by (simp add: kept_def callsSince_def noCalls_def sameData_def)

lemma kept_call: "triple (kept s0 new) (call env c) (\<lambda>_. kept s0 (new @ [(c, None)])) (\<lambda>_. sameData s0)"
  by (rule tripleI)
    (auto simp: call_def consult_def failing_def andThen_def kept_def callsSince_def sameData_def split: option.splits)

lemma deleteData_triple:
  "triple (kept s0 []) (deleteData env request project)
     (\<lambda>_ t. confirmed request s0 \<and> pv_Metadata t = None \<and> pv_Current t = [] \<and> pv_Generations t = [] \<and>
        callsSince s0 t [(CallDownRuntime project, None), (CallProxyRemove (lr_Slug request), None)])
     (\<lambda>_. spared request s0)"
proof -
  let ?slug = "lr_Slug request"
  let ?E = "\<lambda>_ :: goerr. spared request s0"
  let ?N = "confirmed request s0"
  have spare: "spared request s0 s" if "kept s0 [] s \<or> ?N \<and> sameData s0 s" for s
    using that by (auto simp: spared_def kept_def callsSince_def)
  have metadata: "triple (kept s0 []) (RootMetadata env ?slug) (\<lambda>m s. kept s0 [] s \<and> m = pv_Metadata s0) ?E"
  proof (rule tripleI)
    fix s e t
    assume "kept s0 [] s" and "RootMetadata env ?slug s = (Inl e, t)"
    then show "spared request s0 t" using kept_run [OF quiet_steps(1) data_steps(7)] spare by blast
  next
    fix s m t
    assume before: "kept s0 [] s" and run: "RootMetadata env ?slug s = (Inr m, t)"
    have "m = pv_Metadata s0" using RootMetadata_value [OF run] before by (simp add: kept_def sameData_def)
    then show "kept s0 [] t \<and> m = pv_Metadata s0" using kept_run [OF quiet_steps(1) data_steps(7) run before] by simp
  qed
  have guards: "triple (\<lambda>s. kept s0 [] s \<and> m = pv_Metadata s0) (failIf b e) (\<lambda>_ s. kept s0 [] s \<and> m = pv_Metadata s0 \<and> \<not> b) ?E"
    for m b e by (rule tripleI) (auto intro: spare split: if_splits)
  have down: "triple (\<lambda>s. ?N \<and> kept s0 new s) (call env c) (\<lambda>_ s. ?N \<and> kept s0 (new @ [(c, None)]) s) ?E" for new c
    using triple_InrD [OF kept_call] triple_InlD [OF kept_call] by (intro tripleI spare) blast+
  have remove: "triple (\<lambda>s. ?N \<and> kept s0 new s) (DeleteProjectData env ?slug)
      (\<lambda>_ t. ?N \<and> pv_Metadata t = None \<and> pv_Current t = [] \<and> pv_Generations t = [] \<and> callsSince s0 t new) ?E" for new
  proof -
    have quiet: "triple (\<lambda>s. ?N \<and> kept s0 new s) m (\<lambda>_ s. ?N \<and> kept s0 new s) ?E"
      if "obeys noCalls m" "obeys sameData m" for m :: "(provisioner, 'a) act"
      using kept_run [OF that] by (intro tripleI spare; simp add: kept_def) blast+
    have gone: "triple (\<lambda>s. ?N \<and> kept s0 new s)
        (modify (\<lambda>s. s\<lparr>pv_Metadata := None, pv_Current := [], pv_Generations := []\<rparr>))
        (\<lambda>_ t. ?N \<and> pv_Metadata t = None \<and> pv_Current t = [] \<and> pv_Generations t = [] \<and> callsSince s0 t new) ?E"
      by (rule tripleI) (auto simp: kept_def callsSince_def)
    show ?thesis
      unfolding DeleteProjectData_def
      by (intro triple_andThen [OF quiet] gone obeys_intros)
  qed
  show ?thesis
    unfolding deleteData_def
    by (rule triple_andThen [OF metadata], rule triple_andThen [OF guards],
        rule triple_andThen [OF triple_pre [OF guards]], force,
        rule triple_andThen [OF triple_pre [OF down [where new = "[]"]]], force simp: confirmed_def,
        rule triple_andThen [OF triple_mapErr [OF down]], rule triple_conseq [OF remove]) auto
qed


end
