(* ===== verification/RotationSamples.thy ===== *)
theory RotationSamples
  imports RuntimeRotationRuns RuntimeLifecycle ReconcileSamples
begin

text \<open>
  A concrete run of \<^verbatim>\<open>RotateDatabasePassword\<close>: the services cannot be restarted with the new password, so
  the rotation goes back. It is the witness of the theorem on the answers of rotations. A confirmed deletion of
  the data follows.
\<close>

definition sampleTurn :: RotateDatabasePasswordRequest where
  "sampleTurn = \<lparr>rot_OperationKind = ''ROTATE_DATABASE_PASSWORD'', rot_OperationID = ''op'', rot_IdempotencyKey = ''turn'',
     rot_ProjectID = [], rot_ProjectName = ''Shop'', rot_Slug = ''shop'', rot_ExpectedRevision = 3, rot_NextRevision = 4,
     rot_OldPassword = ''old'', rot_NewPassword = ''new'',
     rot_Configuration = sampleConfiguration ''shop.example.com'' 8001, rot_Secrets = noProjectSecrets,
     rot_RuntimeSecrets = [], rot_Fence = 0\<rparr>"

definition turnServices :: "string list" where
  "turnServices = [''api-gw'', ''auth'', ''auth-templates'', ''rest'', ''meta'', ''studio'']"

lemma turn_services: "RuntimeServices.enabledServices (sampleConfiguration ''shop.example.com'' 8001) = ''db'' # turnServices"
  by code_simp

lemma turn_dependents: "without (''db'' # turnServices) ''db'' = turnServices"
  by code_simp

lemma turn_version: "gen_SupabaseVersion (cfg_General (rot_Configuration sampleTurn)) \<noteq> []"
  by code_simp

lemma find_container: "name \<in> set services \<Longrightarrow>
    find (\<lambda>c. ct_Service c = name) (map (\<lambda>name. \<lparr>ct_Service = name, ct_State = state, ct_Health = health\<rparr>) services) =
      Some \<lparr>ct_Service = name, ct_State = state, ct_Health = health\<rparr>"
  by (induction services) auto

lemma probe_running:
  assumes "services \<noteq> []"
  shows "waitHealthy (sampleHost run) budget slug services s =
    (Inr (), s\<lparr>pv_Steps := Suc (pv_Steps s), pv_Probes := Suc (pv_Probes s)\<rparr>)"
proof -
  have "rp_Health (reportOf (map (\<lambda>name. \<lparr>ct_Service = name, ct_State = ''running'', ct_Health = []\<rparr>) services) services)
      = HealthHealthy"
    using assms
    by (simp add: reportOf_def Let_def foldl_worsen serviceState_def rev_map find_container deriveContainerHealth_def)
  then show ?thesis
    using assms
    by (simp add: waitHealthy_def waitLoop.simps [where remaining = "min budget reconcileHealthTimeout"]
        healthProbe_def inspectProject_def consult_def andThen_def attempt_def sampleHost_def)
qed

lemma Recreate_turn:
  "Recreate (sampleHost run) ref turnServices = call (sampleHost run) (CallRecreate ref turnServices)"
proof -
  have "validateServices turnServices = None" "turnServices \<noteq> []" by code_simp+
  then show ?thesis by (intro ext) (simp add: Recreate_def onServices_def andThen_def failing_def)
qed


definition turnLoaded :: provisioner where
  "turnLoaded = (freshRotation sampleProvisioner)\<lparr>pv_Steps := 5, pv_Local := the (pv_Metadata sampleProvisioner)\<rparr>"

lemma turn_request [simp]:
  "rot_Slug sampleTurn = ''shop''" "rot_IdempotencyKey sampleTurn = ''turn''" "rot_Fence sampleTurn = 0"
  "rot_OldPassword sampleTurn = ''old''" "rot_NewPassword sampleTurn = ''new''" "rot_ProjectID sampleTurn = []"
  "rot_ExpectedRevision sampleTurn = 3" "rot_NextRevision sampleTurn = 4"
  "rot_OperationKind sampleTurn = ''ROTATE_DATABASE_PASSWORD''"
  by (simp_all add: sampleTurn_def)

lemma writeMetadata_sample:
  "writeMetadata (sampleHost run) ''shop'' m s = (Inr (), s\<lparr>pv_Steps := pv_Steps s + 8, pv_Metadata := Some m\<rparr>)"
  by (simp add: writeMetadata_def ProjectPath_def runtime_defs sample_steps eval_nat_numeral)

lemma turn_calls [simp]:
  "restartFails (CallRotateDatabasePassword ref a b) = None" "restartFails (CallValidate ref) = None"
  "restartFails (CallRecreate ref services) =
     (if ref_ComposeFile ref = ''/srv/shop/.manager-runtime/current/docker-compose.yml''
      then Some (ErrorsNew ''no space left on device'') else None)"
  by (simp_all add: restartFails_def)

lemmas turn_steps = fsStep_sample fsSteps_sample call_sample probe_running Recreate_turn writeMetadata_sample
  sample_slug sample_contains turn_services turn_dependents

definition publishedTurn :: "provisioner \<Rightarrow> bool" where
  "publishedTurn s \<longleftrightarrow> pv_Published s \<and> pv_Current s = ''generation-7'' \<and> pv_RollbackSucceeded s = False \<and>
     pv_Stage s = \<lparr>sg_Generation = ''generation-7'', sg_Previous = ''generation-1'', sg_Committed = True,
       sg_Restored = False, sg_Published = True, sg_Migrated = True\<rparr> \<and>
     md_Configuration (pv_Local s) = sampleConfiguration ''shop.example.com'' 8001 \<and> passwords s = []"

lemma turn_stage:
  assumes "pv_Current s = ''generation-1''" and "pv_RollbackSucceeded s = False" and "passwords s = []"
    and "md_Configuration (pv_Local s) = sampleConfiguration ''shop.example.com'' 8001"
  shows "\<exists>t. stageRotation (sampleHost restartFails) sampleTurn ref oldRef s =
      (Inr (refAt ''shop'' ''/srv/shop'' ''/srv/shop/.manager-runtime/current''), t) \<and> publishedTurn t"
  using turn_version assms
  by (simp add: stageRotation_def renderRotation_def mapErr_def publishCandidate_def orRestore_def
      pointFunctionsEnvAtCandidate_def writeCandidateCompose_def journalPublished_def Let_def orNoRef_def
      CurrentRuntimeFiles_def CurrentRuntimeGeneration_def ProjectPath_def writeJournal_def WriteMetadataForPhase_def
      sample_stage sample_commit turn_steps runtime_defs publishedTurn_def passwords_def)

abbreviation turnContext :: RotationContext where
  "turnContext \<equiv> \<lparr>rx_Ref = refAt ''shop'' ''/srv/shop'' ''/srv/shop/.manager-runtime/current'',
     rx_OldRef = refAt ''shop'' ''/srv/shop'' ''/srv/shop/.manager-runtime/generations/generation-1'',
     rx_Services = turnServices\<rparr>"

definition turnFailure :: goerr where
  "turnFailure = rotationFailure (Errorf ''dependent service restart: '' (ErrorsNew ''no space left on device'') []) True True"

lemma restore_again: "sg_Restored (pv_Stage s) \<Longrightarrow> restore env s = (Inr (), s)"
  by (simp add: restore_def andThen_def)

lemma turn_change:
  assumes "publishedTurn s"
  shows "\<exists>t. changePassword (sampleHost restartFails) sampleTurn turnContext s = (Inl turnFailure, t) \<and>
    passwords t = [''new'', ''old'']"
  using assms
  by (simp add: changePassword_def updatePassword_def RotateRolePasswords_def markRotated_def writeJournal_def
      WriteMetadataForPhase_def restartDependents_def rollbackRotation_def restoreRuntime_def sample_restore restore_again withErr_def
      turnFailure_def turn_steps runtime_defs publishedTurn_def passwords_def refAt_def)

lemma turn_rotate:
  "\<exists>t. rotatePassword (sampleHost restartFails) sampleTurn turnLoaded = (Inl turnFailure, t) \<and>
    passwords t = [''new'', ''old'']"
proof -
  obtain p where prepared: "prepareJournal (sampleHost restartFails) sampleTurn ''generation-1''
      (turnLoaded\<lparr>pv_Steps := 6\<rparr>) = (Inr (), p)" and p: "pv_Current p = ''generation-1''"
      "pv_RollbackSucceeded p = False" "passwords p = []"
      "md_Configuration (pv_Local p) = sampleConfiguration ''shop.example.com'' 8001"
    by (simp add: prepareJournal_def WriteMetadataForPhase_def turn_steps runtime_defs turnLoaded_def freshRotation_def
        sampleProvisioner_def passwords_def)
  obtain q where staged: "stageRotation (sampleHost restartFails) sampleTurn
      (refAt ''shop'' ''/srv/shop'' ''/srv/shop/.manager-runtime/current'')
      (refAt ''shop'' ''/srv/shop'' ''/srv/shop/.manager-runtime/generations/generation-1'') p =
      (Inr (refAt ''shop'' ''/srv/shop'' ''/srv/shop/.manager-runtime/current''), q)" and q: "publishedTurn q"
    using turn_stage [OF p] by blast
  obtain t where "changePassword (sampleHost restartFails) sampleTurn turnContext q = (Inl turnFailure, t)"
    "passwords t = [''new'', ''old'']" using turn_change [OF q] by blast
  moreover have "baseOfDir ''/srv/shop/.manager-runtime/generations/generation-1/docker-compose.yml'' = ''generation-1''"
    by code_simp
  moreover have "md_Rotation (pv_Local turnLoaded) = None" "pv_Current turnLoaded = ''generation-1''" "pv_Steps turnLoaded = 5"
    by (simp_all add: turnLoaded_def freshRotation_def sampleProvisioner_def freshMetadata_def)
  moreover have "md_Configuration (pv_Local q) = sampleConfiguration ''shop.example.com'' 8001"
    using q by (simp add: publishedTurn_def)
  ultimately show ?thesis
    using prepared staged
    by (simp add: rotatePassword_def Let_def claimFenceAt_def CurrentRuntimeFiles_def CurrentRuntimeGeneration_def
        ProjectPath_def oldReference_def turn_steps runtime_defs refAt_def)
qed


lemma turn_run:
  "\<exists>response e t. RotateDatabasePassword (sampleHost restartFails) sampleTurn sampleProvisioner =
     (Some (response, Some e), t) \<and> rotr_RolledBack response \<and> passwords t = [''new'', ''old'']"
proof -
  let ?host = "sampleHost restartFails"
  let ?s = "(freshRotation sampleProvisioner)\<lparr>pv_Steps := 5, pv_Local := the (pv_Metadata sampleProvisioner)\<rparr>"
  obtain t where rotated: "rotatePassword ?host sampleTurn turnLoaded = (Inl turnFailure, t)"
    and set: "passwords t = [''new'', ''old'']" using turn_rotate by blast
  have fields: "md_ProjectID (pv_Local turnLoaded) = []" "md_Fence (pv_Local turnLoaded) = 0"
    "md_Revision (pv_Local turnLoaded) = 3" "md_Idempotency (pv_Local turnLoaded) = []"
    by (simp_all add: turnLoaded_def sampleProvisioner_def freshMetadata_def)
  obtain u where callback: "rotationCallback ?host sampleTurn turnLoaded = (Inl turnFailure, u)"
    and u: "pv_Calls u = pv_Calls t"
    using rotated
    by (simp add: rotationCallback_def onFail_def rotationGuards_def answerFailure_def turnFailure_def rotationFailure_def
        noteRotation_def Let_def andThen_def fields)
  have start: "lockMetadataFile ?host ''shop'' (freshRotation sampleProvisioner) =
      (Inr (), (freshRotation sampleProvisioner)\<lparr>pv_Steps := 3\<rparr>)"
    "readMetadata ?host ''shop'' ((freshRotation sampleProvisioner)\<lparr>pv_Steps := 3\<rparr>) =
      (Inr (pv_Metadata sampleProvisioner), (freshRotation sampleProvisioner)\<lparr>pv_Steps := 5\<rparr>)"
    by (simp_all add: lockMetadataFile_def readMetadata_def ProjectPath_def turn_steps runtime_defs freshRotation_def
        sampleProvisioner_def)
  have stored: "\<exists>m. pv_Metadata sampleProvisioner = Some m" by (simp add: sampleProvisioner_def)
  have "UpdateMetadataWithRollback ?host ''shop'' (rotationCallback ?host sampleTurn) undo (freshRotation sampleProvisioner) =
      (Inl turnFailure, u\<lparr>pv_Steps := pv_Steps u + 8, pv_Metadata := Some (pv_Local u)\<rparr>)" for undo
    using callback stored unfolding turnLoaded_def
    by (auto simp: UpdateMetadataWithRollback_def start runtime_defs writeMetadata_sample turnFailure_def rotationFailure_def
        goPanic_def)
  then show ?thesis
    using set u by (simp add: RotateDatabasePassword_def turnFailure_def rotationFailure_def rotationAnswer_def passwords_def goPanic_def)
qed

text \<open>The failed restart: the old password is back, and so is the first generation.\<close>

lemma rotation_answer_is_true_witness:
  "case RotateDatabasePassword (sampleHost restartFails) sampleTurn sampleProvisioner of (answer, t) \<Rightarrow>
     \<exists>response e. answer = Some (response, Some e) \<and> rotr_RolledBack response \<and>
       pv_Current t = ''generation-1'' \<and> passwords t = [''new'', ''old'']"
proof -
  obtain response e t where run: "RotateDatabasePassword (sampleHost restartFails) sampleTurn sampleProvisioner =
      (Some (response, Some e), t)" and answer: "rotr_RolledBack response" "passwords t = [''new'', ''old'']"
    using turn_run by blast
  have "newRotation sampleTurn sampleProvisioner" by (simp add: newRotation_def sampleProvisioner_def freshMetadata_def)
  then have "pv_Current t = pv_Current sampleProvisioner"
    using rotation_answer_is_true [OF _ run] answer(1) by blast
  moreover have "pv_Current sampleProvisioner = ''generation-1''" by (simp add: sampleProvisioner_def)
  ultimately show ?thesis by (simp add: run answer)
qed


section \<open>A deletion\<close>

definition sampleDeletion :: LifecycleRequest where
  "sampleDeletion = \<lparr>lr_OperationID = ''op'', lr_IdempotencyKey = ''gone'', lr_ProjectID = ''p'', lr_ProjectName = ''Shop'',
     lr_Slug = ''shop'', lr_Action = LifecycleDeleteData, lr_ConfirmProjectName = ''Shop''\<rparr>"

lemma deletion_request [simp]:
  "lr_Slug sampleDeletion = ''shop''" "lr_Action sampleDeletion = LifecycleDeleteData"
  "lr_ProjectName sampleDeletion = ''Shop''" "lr_ConfirmProjectName sampleDeletion = ''Shop''"
  by (simp_all add: sampleDeletion_def)

lemma deletion_run: "\<exists>t. Lifecycle (sampleHost (\<lambda>_. None)) sampleDeletion sampleProvisioner = (Inr (), t)"
  by (simp add: Lifecycle_def CurrentRuntimeFiles_def deleteData_def RootMetadata_def lockMetadataFile_def readMetadata_def
      ProjectPath_def expectedName_def DeleteProjectData_def mapErr_def turn_steps runtime_defs sampleProvisioner_def)


end
