(* ===== verification/Spec2Isabelle.thy ===== *)
theory Spec2Isabelle
  imports OperationService PortAllocator Compensation LifecycleService FunctionsService ProjectService RotationRuns InstallCredentials AuthService ReconcileSamples RotationSamples
begin

text \<open>
  A verification library for Supabase Manager: a control panel that installs and runs self-hosted
  Supabase projects on one host. The Manager (\<^verbatim>\<open>apps/manager\<close>) keeps the desired state of every project
  in SQLite and runs operations (create, configure, rotate, start, stop, delete, deploy a function) in
  background workers; the Provisioner (\<^verbatim>\<open>apps/provisioner\<close>) applies them to Docker Compose projects on
  disk; a host agent (\<^verbatim>\<open>apps/nginxproxy\<close>) writes the reverse-proxy sites. \<^verbatim>\<open>internal/contracts\<close> holds the
  data types they exchange.

  \<^bold>\<open>How code becomes definitions.\<close> A Go function that may fail is an action \<open>('s, 'a) act\<close>: it takes a
  state and returns \<open>Inl error\<close> or \<open>Inr result\<close> with the new state; \<open>andThen\<close> is the usual
  \<^verbatim>\<open>if err != nil { return err }\<close>, \<open>attempt\<close> hands the error to what follows, \<open>ignoreErr\<close> drops it,
  \<open>deferring\<close> is \<^verbatim>\<open>defer\<close>, and \<open>inTx\<close> is a transaction that rolls back on error. A \<open>database\<close> is a record
  of tables, a table a list of row records in insertion order; primary keys, unique columns, foreign
  keys and cascades of the schema are checks of the inserting and deleting definitions. Go maps are
  association lists, errors a datatype (\<open>goerr\<close>) with their wrapping, integers \<open>int\<close> because the code
  only compares and increments small values, strings lists of ASCII characters, times nanoseconds
  with the RFC 3339 text order where the code compares texts. Everything outside the repository (clock,
  random source, cipher, network, disk, Docker) is a field of the record \<open>environment\<close>; its answers may
  differ at every interaction and nothing is assumed of them beyond the hypotheses of a theorem.

  \<^bold>\<open>Theories.\<close>
  \<^item> \<^verbatim>\<open>Prelude\<close>: errors, actions, tables, the locale \<open>monitor\<close> of relations that a program keeps, with one
    rule per combinator (collection \<open>obeys_intros\<close>); it is interpreted on well-formedness, on the growth of
    the event log, on the legality of status changes and on frames, so each component proves one fact per
    primitive statement and composes them.
  \<^item> \<^verbatim>\<open>GoText\<close>, \<^verbatim>\<open>GoTime\<close>, \<^verbatim>\<open>GoRegexp\<close>, \<^verbatim>\<open>GoNet\<close>: the parts of \<^verbatim>\<open>strings\<close>, \<^verbatim>\<open>strconv\<close>, \<^verbatim>\<open>time\<close>, \<^verbatim>\<open>regexp\<close>,
    \<^verbatim>\<open>net\<close>, \<^verbatim>\<open>net/url\<close> and \<^verbatim>\<open>net/mail\<close> that the sources use.
  \<^item> \<^verbatim>\<open>Contracts\<close>: \<^verbatim>\<open>internal/contracts\<close> (configuration, project, operation and Provisioner types).
  \<^item> \<^verbatim>\<open>Store\<close>, \<^verbatim>\<open>StoreOperations\<close>, \<^verbatim>\<open>StorePorts\<close>, \<^verbatim>\<open>StoreConfiguration\<close>: \<^verbatim>\<open>internal/store\<close> (\<^verbatim>\<open>projects.go\<close>,
    \<^verbatim>\<open>operations.go\<close>, \<^verbatim>\<open>ports.go\<close>, \<^verbatim>\<open>configuration.go\<close>), each with the proof that every operation keeps the
    database well-formed. \<^verbatim>\<open>Admission\<close>, \<^verbatim>\<open>Publication\<close>, \<^verbatim>\<open>Projection\<close> and \<^verbatim>\<open>Compensation\<close> prove what the
    configuration protocol (lease, fence, candidate revision, publication, compensation) guarantees.
  \<^item> \<^verbatim>\<open>OperationService\<close>: \<^verbatim>\<open>operation/service.go\<close>, refined to a status machine. \<^verbatim>\<open>PortAllocator\<close>:
    \<^verbatim>\<open>ports/allocator.go\<close>.
  \<^item> \<^verbatim>\<open>Triples\<close>: total-correctness triples (\<open>triple P m Q E\<close>) of actions. \<^verbatim>\<open>World\<close>, \<^verbatim>\<open>Workers\<close>: the
    process state of the Manager, the environment, and the triples of the steps its workers share. \<^verbatim>\<open>LifecycleService\<close>: \<^verbatim>\<open>lifecycle/service.go\<close>. \<^verbatim>\<open>FunctionsService\<close>:
    \<^verbatim>\<open>store/functions.go\<close>, \<^verbatim>\<open>functions/service.go\<close>, \<^verbatim>\<open>functions/spool.go\<close>.
  \<^item> \<^verbatim>\<open>ProjectValidation\<close>, \<^verbatim>\<open>ProjectAddress\<close>: \<^verbatim>\<open>project/configuration.go\<close>, \<^verbatim>\<open>validate.go\<close>, \<^verbatim>\<open>preset.go\<close>,
    \<^verbatim>\<open>slug.go\<close>. \<^verbatim>\<open>ConfigurationService\<close>, \<^verbatim>\<open>ProjectService\<close>: \<^verbatim>\<open>project/configuration_service.go\<close> and
    \<^verbatim>\<open>project/service.go\<close>.
  \<^item> \<^verbatim>\<open>Orchestrator\<close>, \<^verbatim>\<open>Rotation\<close>: \<^verbatim>\<open>configuration/orchestrator.go\<close> (queueing under the project lock, the
    canonical run, the password rotation with its recorded compensation phases, the revisioned run,
    resumption after a restart). A Go \<^verbatim>\<open>return queued, err\<close> is a thrown error that \<open>orQueued\<close> turns into the
    returned pair; the workers that \<open>Resume\<close> starts are run one after the other. \<^verbatim>\<open>OrchestratorRuns\<close> and
    \<^verbatim>\<open>RotationRuns\<close> prove, with triples over the assertion \<open>stands\<close>, how every run ends.
  \<^item> \<^verbatim>\<open>InstallOrchestrator\<close>: \<^verbatim>\<open>install/orchestrator.go\<close>; \<^verbatim>\<open>InstallRuns\<close> proves how a run ends,
    \<^verbatim>\<open>InstallCredentials\<close> what happens to the credentials across attempts.
  \<^item> \<^verbatim>\<open>GoEncoding\<close>: base64, base32 and the verbs of \<^verbatim>\<open>fmt.Sscanf\<close>. \<^verbatim>\<open>PasswordHasher\<close>, \<^verbatim>\<open>StoreAuth\<close>,
    \<^verbatim>\<open>AuthService\<close>: \<^verbatim>\<open>auth/password.go\<close>, \<^verbatim>\<open>store/auth.go\<close>, \<^verbatim>\<open>auth/service.go\<close>; the sequences of calls of the
    service are an inductive relation, and the locale \<open>session_store\<close> states what a login needs of the
    store of sessions.
  \<^item> \<^verbatim>\<open>RuntimeServices\<close>, \<^verbatim>\<open>ProvisionerWorld\<close>, \<^verbatim>\<open>RuntimeHealth\<close>, \<^verbatim>\<open>RuntimeReconcile\<close>: the Provisioner's
    \<^verbatim>\<open>runtime/reconcile.go\<close> with what it uses of \<^verbatim>\<open>projectfs/root.go\<close>, \<^verbatim>\<open>health/inspect.go\<close>,
    \<^verbatim>\<open>compose/runner.go\<close> and \<^verbatim>\<open>proxy/client.go\<close>. The state \<open>provisioner\<close> is the metadata file, the \<^verbatim>\<open>current\<close>
    pointer with its generations, and the log of the calls to Docker Compose and nginx with their
    outcomes. \<^verbatim>\<open>ReconcileFrames\<close>, \<^verbatim>\<open>ReconcileRuns\<close> and \<^verbatim>\<open>ReconcileReplay\<close> prove that the response is true, that a
    repeated request is answered from the metadata, and which services a call can name;
    \<^verbatim>\<open>ReconcileSamples\<close> evaluates whole runs. \<^verbatim>\<open>RuntimeRotation\<close> is \<^verbatim>\<open>runtime/rotate.go\<close>, the journaled
    change of the database password with its compensation, \<^verbatim>\<open>RuntimeRotationRuns\<close> proves that its answer is
    true, and \<^verbatim>\<open>RuntimeLifecycle\<close> is the rest of \<^verbatim>\<open>runtime/backend.go\<close> that acts on a whole project: start, stop,
    restart, deletion and inspection. \<^verbatim>\<open>RotationSamples\<close> evaluates a rotation that goes back and a deletion.
  \<^item> \<^verbatim>\<open>Samples\<close>: concrete projects on which the witnesses evaluate the operations.

  \<^bold>\<open>Termination and fuel.\<close> No definition uses fuel. Loops over data are structural; the allocator's loop
  and the template and IPv6 scanners have termination proofs by a measure, and so has the loop that
  waits for health: each turn takes its delay off the nanoseconds that are left. A worker is a total
  function of its inputs because every call it makes returns; the theorems about workers say in which
  status the operation is when they have returned.

  \<^bold>\<open>Not modelled.\<close> HTTP request decoding and response encoding, process start and environment
  variables, the SQLite driver, AES-GCM, Argon2id and SHA-256 (parameters), the contents of the files the
  Provisioner writes (a file-system step succeeds or fails; what it publishes is a field of the state),
  the rendering of the Compose text (a parameter), the Provisioner's function deployments and host
  resources, and the nginx agent. A Go panic ends a call with no answer (\<open>goPanic\<close>). Goroutines are modelled by what they do to
  the state between the steps of a worker only where a definition says so (\<open>e_Lost\<close> is the failure of a
  background lease renewal); two workers are composed as sequences of their database transactions.
\<close>

end
